(* ===== verification/Prelude.thy ===== *)
theory Prelude
  imports "HOL-Library.Word" "HOL-Library.List_Lexorder" "HOL-Library.Char_ord"
begin

text \<open>
  Shared vocabulary of the development: the parts of the Rust standard library that the
  coordinator's pure code uses (byte strings with \<open>trim\<close>, \<open>to_ascii_lowercase\<close>, \<open>split\<close>,
  \<open>join\<close> and decimal formatting; \<open>BTreeMap\<close>; saturating \<open>u64\<close> arithmetic), the error type
  \<open>MaccError\<close> of \<open>core/src/lib.rs\<close>, and JSON values.  The interfaces that several
  components share are locales: an ordered map (\<open>map_api\<close>) and an enumeration with a textual form
  (\<open>text_enum\<close>).
\<close>

named_theorems coord_defs \<open>definitions a component unfolds together\<close>
named_theorems coord_frame \<open>which fields an operation leaves alone\<close>

section \<open>Errors\<close>

text \<open>
  \<open>MaccError\<close> with its constructors.  Payloads that belong to other crates (the source of an I/O
  or YAML error, a process handle) are kept as their rendered text.
\<close>

datatype macc_error =
    Config_Err string string
  | Validation_Err string
  | Not_Process_Owner string "string option"
  | Tool_Spec_Err string "nat option" "nat option" string
  | Home_Dir_Not_Found
  | User_Scope_Not_Allowed string
  | Io_Err string string string
  | Project_Root_Not_Found string
  | Secret_Detected string string
  | Coordinator_Err string string
  | Storage_Err string string
  | Git_Err string string
  | Fetch_Err string string
  | Catalog_Err string string

type_synonym 'a res = "macc_error + 'a"

fun is_transient :: "macc_error \<Rightarrow> bool" where
  "is_transient (Storage_Err _ _) = True"
| "is_transient (Io_Err _ _ _) = True"
| "is_transient _ = False"

text \<open>Sequencing of fallible steps (the \<open>?\<close> operator).\<close>

definition try_bind :: "'e + 'a \<Rightarrow> ('a \<Rightarrow> 'e + 'b) \<Rightarrow> 'e + 'b" where
  "try_bind r f = (case r of Inl e \<Rightarrow> Inl e | Inr a \<Rightarrow> f a)"

lemma try_bind_simps [simp]:
  "try_bind (Inl e) f = Inl e"
  "try_bind (Inr a) f = f a"
  by (simp_all add: try_bind_def)

lemma try_bind_Inr_iff: "try_bind r f = Inr b \<longleftrightarrow> (\<exists>a. r = Inr a \<and> f a = Inr b)"
  by (cases r) auto

section \<open>Strings\<close>

text \<open>
  A Rust \<open>String\<close> is its UTF-8 bytes, one \<open>char\<close> each; the order of \<open>List_Lexorder\<close> on
  characters compared as bytes is Rust's order on \<open>str\<close>.
\<close>

definition prefix_of :: "string \<Rightarrow> string \<Rightarrow> bool" where
  "prefix_of p s = (take (length p) s = p)"

lemma prefix_of_append [simp]: "prefix_of p (p @ s)"
  by (simp add: prefix_of_def)

lemma prefix_of_code [simp]:
  "prefix_of [] s"
  "\<not> prefix_of (c # p) []"
  "prefix_of (c # p) (d # s) \<longleftrightarrow> c = d \<and> prefix_of p s"
  by (auto simp: prefix_of_def)

lemma prefix_of_iff: "prefix_of p s \<longleftrightarrow> (\<exists>t. s = p @ t)"
  by (metis append_take_drop_id prefix_of_append prefix_of_def)

text \<open>\<open>str::contains\<close>.\<close>

fun str_contains :: "string \<Rightarrow> string \<Rightarrow> bool" where
  "str_contains [] p = (p = [])"
| "str_contains (c # s) p = (prefix_of p (c # s) \<or> str_contains s p)"

lemma str_contains_iff: "str_contains s p \<longleftrightarrow> (\<exists>a b. s = a @ p @ b)"
proof (induction s)
  case Nil
  then show ?case by auto
next
  case (Cons c s)
  show ?case
  proof
    assume "str_contains (c # s) p"
    then consider "prefix_of p (c # s)" | "str_contains s p" by auto
    then show "\<exists>a b. c # s = a @ p @ b"
    proof cases
      case 1
      then obtain t where "c # s = [] @ p @ t" by (auto simp: prefix_of_iff)
      then show ?thesis by blast
    next
      case 2
      then obtain a b where "s = a @ p @ b" using Cons.IH by blast
      then have "c # s = (c # a) @ p @ b" by simp
      then show ?thesis by blast
    qed
  next
    assume "\<exists>a b. c # s = a @ p @ b"
    then obtain a b where ab: "c # s = a @ p @ b" by blast
    show "str_contains (c # s) p"
    proof (cases a)
      case Nil
      then have "prefix_of p (c # s)" using ab by (auto simp: prefix_of_iff)
      then show ?thesis by simp
    next
      case (Cons x a')
      then show ?thesis using ab Cons.IH by auto
    qed
  qed
qed

text \<open>
  The code points \<open>char::is_whitespace\<close> accepts (the Unicode property \<open>White_Space\<close>), as their
  UTF-8 encodings; \<open>str::trim\<close> removes them at both ends.
\<close>

definition white_space :: "string list" where
  "white_space =
     [[CHR 0x20], [CHR 0x09], [CHR 0x0A], [CHR 0x0B], [CHR 0x0C], [CHR 0x0D],
      [CHR 0xC2, CHR 0x85], [CHR 0xC2, CHR 0xA0], [CHR 0xE1, CHR 0x9A, CHR 0x80],
      [CHR 0xE2, CHR 0x80, CHR 0x80], [CHR 0xE2, CHR 0x80, CHR 0x81],
      [CHR 0xE2, CHR 0x80, CHR 0x82], [CHR 0xE2, CHR 0x80, CHR 0x83],
      [CHR 0xE2, CHR 0x80, CHR 0x84], [CHR 0xE2, CHR 0x80, CHR 0x85],
      [CHR 0xE2, CHR 0x80, CHR 0x86], [CHR 0xE2, CHR 0x80, CHR 0x87],
      [CHR 0xE2, CHR 0x80, CHR 0x88], [CHR 0xE2, CHR 0x80, CHR 0x89],
      [CHR 0xE2, CHR 0x80, CHR 0x8A], [CHR 0xE2, CHR 0x80, CHR 0xA8],
      [CHR 0xE2, CHR 0x80, CHR 0xA9], [CHR 0xE2, CHR 0x80, CHR 0xAF],
      [CHR 0xE2, CHR 0x81, CHR 0x9F], [CHR 0xE3, CHR 0x80, CHR 0x80]]"

fun strip_one :: "string list \<Rightarrow> string \<Rightarrow> string option" where
  "strip_one [] s = None"
| "strip_one (p # ps) s =
     (if p \<noteq> [] \<and> prefix_of p s then Some (drop (length p) s) else strip_one ps s)"

lemma strip_one_shorter: "strip_one ps s = Some r \<Longrightarrow> length r < length s"
  by (induction ps) (auto simp: prefix_of_iff split: if_splits)

function strip_all :: "string list \<Rightarrow> string \<Rightarrow> string" where
  "strip_all ps s = (case strip_one ps s of None \<Rightarrow> s | Some r \<Rightarrow> strip_all ps r)"
  by pat_completeness auto
termination
  by (relation "measure (\<lambda>(ps, s). length s)") (auto dest: strip_one_shorter)

declare strip_all.simps [simp del]

definition trim_start :: "string \<Rightarrow> string" where
  "trim_start s = strip_all white_space s"

definition trim_end :: "string \<Rightarrow> string" where
  "trim_end s = rev (strip_all (map rev white_space) (rev s))"

definition trim :: "string \<Rightarrow> string" where
  "trim s = trim_end (trim_start s)"

lemma strip_all_stable [simp]: "strip_one ps (strip_all ps s) = None"
proof (induction ps s rule: strip_all.induct)
  case (1 ps s)
  then show ?case
    by (cases "strip_one ps s") (simp_all add: strip_all.simps [of ps s])
qed

lemma strip_all_None: "strip_one ps s = None \<Longrightarrow> strip_all ps s = s"
  by (simp add: strip_all.simps)

lemma strip_all_Nil [simp]: "strip_all ps [] = []"
proof -
  have "strip_one ps [] = None" by (induction ps) (auto simp: prefix_of_def)
  then show ?thesis by (rule strip_all_None)
qed

lemma trim_Nil [simp]: "trim [] = []"
  by (simp add: trim_def trim_start_def trim_end_def)

lemma strip_one_suffix: "strip_one ps s = Some r \<Longrightarrow> \<exists>p. s = p @ r"
  by (induction ps) (auto simp: prefix_of_iff split: if_splits)

lemma strip_all_suffix: "\<exists>p. s = p @ strip_all ps s"
proof (induction ps s rule: strip_all.induct)
  case (1 ps s)
  show ?case
  proof (cases "strip_one ps s")
    case None
    then show ?thesis by (simp add: strip_all_None)
  next
    case (Some r)
    then obtain p q where "s = p @ r" "r = q @ strip_all ps r"
      using "1.IH" strip_one_suffix by blast
    then have "s = (p @ q) @ strip_all ps r" by simp
    moreover have "strip_all ps s = strip_all ps r"
      using Some by (simp add: strip_all.simps [of ps s])
    ultimately show ?thesis by metis
  qed
qed

lemma strip_one_append_None: "strip_one ps (s @ t) = None \<Longrightarrow> strip_one ps s = None"
  by (induction ps) (auto simp: prefix_of_iff split: if_splits)

lemma trim_idem [simp]: "trim (trim s) = trim s"
proof -
  obtain p where "rev (trim_start s) = p @ strip_all (map rev white_space) (rev (trim_start s))"
    using strip_all_suffix by blast
  then have "trim_start s = trim s @ rev p"
    by (metis rev_append rev_rev_ident trim_def trim_end_def)
  then have "strip_one white_space (trim s @ rev p) = None"
    by (metis strip_all_stable trim_start_def)
  then have "trim_start (trim s) = trim s"
    by (simp add: strip_all_None strip_one_append_None trim_start_def)
  moreover have "trim_end (trim s) = trim s"
    by (simp add: trim_def trim_end_def strip_all_None)
  ultimately show ?thesis by (metis trim_def)
qed

text \<open>\<open>trim_start_matches\<close> with a string pattern, \<open>trim_end_matches\<close> with a set of characters.\<close>

definition trim_start_matches :: "string \<Rightarrow> string \<Rightarrow> string" where
  "trim_start_matches p s = strip_all [p] s"

definition trim_end_matches :: "string \<Rightarrow> string \<Rightarrow> string" where
  "trim_end_matches cs s = rev (dropWhile (\<lambda>c. c \<in> set cs) (rev s))"

definition lower_char :: "char \<Rightarrow> char" where
  "lower_char c =
     (let n = (of_char c :: nat) in if 65 \<le> n \<and> n \<le> 90 then char_of (n + 32) else c)"

definition to_ascii_lowercase :: "string \<Rightarrow> string" where
  "to_ascii_lowercase s = map lower_char s"

text \<open>
  Words of graphic ASCII characters are left alone by \<open>trim\<close>, and words without capitals by
  \<open>to_ascii_lowercase\<close>: the textual forms of the coordinator's enumerations are such words.
\<close>

definition graphic :: "char \<Rightarrow> bool" where
  "graphic c = (let n = (of_char c :: nat) in 33 \<le> n \<and> n \<le> 126)"

definition no_capital :: "char \<Rightarrow> bool" where
  "no_capital c = (let n = (of_char c :: nat) in n < 65 \<or> 90 < n)"

lemma white_space_not_graphic:
  "\<forall>p \<in> set white_space. p \<noteq> [] \<and> \<not> graphic (hd p) \<and> \<not> graphic (last p)"
  by code_simp

lemma strip_one_None:
  "\<forall>p \<in> set ps. p \<noteq> [] \<longrightarrow> \<not> graphic (hd p) \<Longrightarrow> graphic c \<Longrightarrow> strip_one ps (c # s) = None"
  by (induction ps) (auto simp: neq_Nil_conv)

lemma trim_start_graphic: "graphic c \<Longrightarrow> trim_start (c # s) = c # s"
  using white_space_not_graphic by (simp add: trim_start_def strip_all_None strip_one_None)

lemma trim_end_graphic: "graphic c \<Longrightarrow> trim_end (s @ [c]) = s @ [c]"
proof -
  assume c: "graphic c"
  have "\<forall>p \<in> set (map rev white_space). p \<noteq> [] \<longrightarrow> \<not> graphic (hd p)"
    using white_space_not_graphic by (simp add: hd_rev)
  from strip_one_None [OF this c] show ?thesis by (simp add: trim_end_def strip_all_None)
qed

lemma trim_graphic: "s \<noteq> [] \<Longrightarrow> graphic (hd s) \<Longrightarrow> graphic (last s) \<Longrightarrow> trim s = s"
proof -
  assume s: "s \<noteq> []" "graphic (hd s)" "graphic (last s)"
  then have "trim_start s = s" by (cases s) (simp_all add: trim_start_graphic)
  moreover have "trim_end s = s"
    using s trim_end_graphic [of "last s" "butlast s"] by simp
  ultimately show ?thesis by (simp add: trim_def)
qed

definition plain_word :: "string \<Rightarrow> bool" where
  "plain_word s = (s \<noteq> [] \<and> list_all (\<lambda>c. graphic c \<and> no_capital c) s)"

lemma trim_plain: "plain_word s \<Longrightarrow> trim s = s"
  by (auto simp: plain_word_def list_all_iff intro: trim_graphic)

lemma lower_plain: "plain_word s \<Longrightarrow> to_ascii_lowercase s = s"
  by (auto simp: plain_word_def to_ascii_lowercase_def list_all_iff no_capital_def lower_char_def
      Let_def intro!: map_idI)

text \<open>\<open>[T]::join\<close> and \<open>str::split(char)\<close>.\<close>

fun join :: "string \<Rightarrow> string list \<Rightarrow> string" where
  "join sep [] = []"
| "join sep [x] = x"
| "join sep (x # y # ys) = x @ sep @ join sep (y # ys)"

fun split_on :: "(char \<Rightarrow> bool) \<Rightarrow> string \<Rightarrow> string list" where
  "split_on f [] = [[]]"
| "split_on f (c # s) =
     (if f c then [] # split_on f s
      else case split_on f s of [] \<Rightarrow> [[c]] | w # ws \<Rightarrow> (c # w) # ws)"

lemma split_on_not_Nil [simp]: "split_on f s \<noteq> []"
  by (induction s) (auto split: list.splits)

lemma split_on_pieces: "w \<in> set (split_on f s) \<Longrightarrow> c \<in> set w \<Longrightarrow> \<not> f c"
proof (induction s arbitrary: w c)
  case (Cons a s)
  then show ?case by (cases "split_on f s") (fastforce split: if_splits)+
qed simp

text \<open>\<open>Display\<close> of unsigned and signed integers.\<close>

definition digit_char :: "nat \<Rightarrow> char" where
  "digit_char d = char_of (48 + d)"

fun show_nat :: "nat \<Rightarrow> string" where
  "show_nat n = (if n < 10 then [digit_char n] else show_nat (n div 10) @ [digit_char (n mod 10)])"

declare show_nat.simps [simp del]

definition show_int :: "int \<Rightarrow> string" where
  "show_int i = (if i < 0 then ''-'' @ show_nat (nat (- i)) else show_nat (nat i))"

lemma show_nat_not_Nil [simp]: "show_nat n \<noteq> []"
  by (subst show_nat.simps) simp

text \<open>The em dash of the source's messages (U+2014) and the ellipsis (U+2026), in UTF-8.\<close>

definition em_dash :: string where "em_dash = [CHR 0xE2, CHR 0x80, CHR 0x94]"

definition ellipsis :: string where "ellipsis = [CHR 0xE2, CHR 0x80, CHR 0xA6]"

text \<open>
  The \<open>HashSet\<close> idiom \<open>if seen.insert(x) { out.push(x) }\<close>: keep the first occurrence of each element.
\<close>

fun dedup_seen :: "'a list \<Rightarrow> 'a list \<Rightarrow> 'a list" where
  "dedup_seen seen [] = []"
| "dedup_seen seen (x # xs) =
     (if x \<in> set seen then dedup_seen seen xs else x # dedup_seen (x # seen) xs)"

definition dedup :: "'a list \<Rightarrow> 'a list" where
  "dedup xs = dedup_seen [] xs"

lemma set_dedup_seen: "set (dedup_seen seen xs) = set xs - set seen"
  by (induction seen xs rule: dedup_seen.induct) auto

lemma distinct_dedup_seen: "distinct (dedup_seen seen xs)"
  by (induction seen xs rule: dedup_seen.induct) (auto simp: set_dedup_seen)

lemma set_dedup [simp]: "set (dedup xs) = set xs"
  by (simp add: dedup_def set_dedup_seen)

lemma distinct_dedup [simp]: "distinct (dedup xs)"
  by (simp add: dedup_def distinct_dedup_seen)

text \<open>
  \<open>v.sort_by(key); v.into_iter().next()\<close>: the first element after a stable sort is the first one with
  the least key.
\<close>

definition first_by :: "('a \<Rightarrow> 'k::linorder) \<Rightarrow> 'a list \<Rightarrow> 'a option" where
  "first_by f xs = (case sort_key f xs of [] \<Rightarrow> None | x # _ \<Rightarrow> Some x)"

lemma first_by_None [simp]: "first_by f xs = None \<longleftrightarrow> xs = []"
proof -
  have "sort_key f xs = [] \<longleftrightarrow> xs = []" by (metis length_0_conv length_sort)
  then show ?thesis by (auto simp: first_by_def split: list.splits)
qed

lemma first_by_Some: "first_by f xs = Some x \<Longrightarrow> x \<in> set xs \<and> (\<forall>y \<in> set xs. f x \<le> f y)"
proof -
  assume "first_by f xs = Some x"
  then obtain ys where ys: "sort_key f xs = x # ys" by (auto simp: first_by_def split: list.splits)
  then have "sorted (map f (x # ys))" by (metis sorted_sort_key)
  moreover have "set xs = set (x # ys)" using ys by (metis set_sort)
  ultimately show ?thesis by auto
qed

lemma set_map_filter:
  "x \<in> set (List.map_filter f xs) \<longleftrightarrow> (\<exists>t \<in> set xs. f t = Some x)"
  by (induction xs) (auto simp: map_filter_simps split: option.splits)

lemma map_filter_Nil_iff: "List.map_filter f xs = [] \<longleftrightarrow> (\<forall>t \<in> set xs. f t = None)"
  by (induction xs) (auto simp: map_filter_simps split: option.splits)

text \<open>Text between single quotes, as the messages of the source quote names.\<close>

definition quoted :: "string \<Rightarrow> string" where
  "quoted s = CHR 0x27 # s @ [CHR 0x27]"

definition dquoted :: "string \<Rightarrow> string" where
  "dquoted s = CHR 0x22 # s @ [CHR 0x22]"

text \<open>\<open>opt.as_deref().map(str::trim).filter(|v| !v.is_empty())\<close>, a recurring idiom of the source.\<close>

definition trimmed_nonempty :: "string option \<Rightarrow> string option" where
  "trimmed_nonempty o' =
     (case o' of None \<Rightarrow> None | Some s \<Rightarrow> (if trim s = [] then None else Some (trim s)))"

definition nonempty :: "string option \<Rightarrow> string option" where
  "nonempty o' = (case o' of None \<Rightarrow> None | Some s \<Rightarrow> (if s = [] then None else Some s))"

definition or_else :: "'a option \<Rightarrow> 'a option \<Rightarrow> 'a option" where
  "or_else a b = (case a of None \<Rightarrow> b | Some x \<Rightarrow> Some x)"

definition unwrap_or :: "'a \<Rightarrow> 'a option \<Rightarrow> 'a" where
  "unwrap_or d a = (case a of None \<Rightarrow> d | Some x \<Rightarrow> x)"

definition opt_filter :: "('a \<Rightarrow> bool) \<Rightarrow> 'a option \<Rightarrow> 'a option" where
  "opt_filter P a = (case a of None \<Rightarrow> None | Some x \<Rightarrow> (if P x then Some x else None))"

lemma option_idioms [simp]:
  "or_else None b = b" "or_else (Some x) b = Some x"
  "unwrap_or d None = d" "unwrap_or d (Some x) = x"
  "nonempty None = None"
  "trimmed_nonempty None = None"
  "opt_filter P None = None"
  "opt_filter P (Some x) = (if P x then Some x else None)"
  by (simp_all add: or_else_def unwrap_or_def nonempty_def trimmed_nonempty_def opt_filter_def)

lemma or_else_eq_None [simp]: "or_else a b = None \<longleftrightarrow> a = None \<and> b = None"
  by (cases a) auto

lemma nonempty_Some_iff: "nonempty a = Some s \<longleftrightarrow> a = Some s \<and> s \<noteq> []"
  by (auto simp: nonempty_def split: option.splits if_splits)

lemma nonempty_None_iff: "nonempty a = None \<longleftrightarrow> a = None \<or> a = Some []"
  by (auto simp: nonempty_def split: option.splits if_splits)

lemma trimmed_nonempty_Some_iff:
  "trimmed_nonempty a = Some s \<longleftrightarrow> (\<exists>r. a = Some r \<and> s = trim r \<and> s \<noteq> [])"
  by (auto simp: trimmed_nonempty_def split: option.splits if_splits)

text \<open>
  \<open>str::parse\<close> for the integer types: an optional \<open>+\<close> (and \<open>-\<close> for signed types), then at least
  one digit, and the value must be in range.
\<close>

definition is_digit :: "char \<Rightarrow> bool" where
  "is_digit c = (let n = (of_char c :: nat) in 48 \<le> n \<and> n \<le> 57)"

definition parse_digits :: "string \<Rightarrow> nat option" where
  "parse_digits s =
     (if s = [] \<or> \<not> list_all is_digit s then None
      else Some (foldl (\<lambda>a c. 10 * a + (of_char c - 48)) 0 s))"

definition parse_usize :: "string \<Rightarrow> nat option" where
  "parse_usize s =
     opt_filter (\<lambda>n. n < 2 ^ 64)
       (case s of [] \<Rightarrow> None | c # r \<Rightarrow> parse_digits (if c = CHR ''+'' then r else s))"

definition parse_i32 :: "string \<Rightarrow> int option" where
  "parse_i32 s =
     opt_filter (\<lambda>i. - (2 ^ 31) \<le> i \<and> i < 2 ^ 31)
       (case s of [] \<Rightarrow> None
        | c # r \<Rightarrow>
          if c = CHR ''-'' then map_option (\<lambda>n. - int n) (parse_digits r)
          else map_option int (parse_digits (if c = CHR ''+'' then r else s)))"

section \<open>Enumerations with a textual form\<close>

text \<open>
  Every state-like enumeration of the coordinator is stored as text: \<open>as_str\<close> prints it and
  \<open>FromStr\<close> reads it back.  The law each of them promises is that the printed form parses to the
  value.
\<close>

locale text_enum =
  fixes show_it :: "'a \<Rightarrow> string" and parse_it :: "string \<Rightarrow> string + 'a"
  assumes parse_show: "parse_it (show_it x) = Inr x"
begin

lemma show_inj: "show_it x = show_it y \<longleftrightarrow> x = y"
  by (metis parse_show sum.inject(2))

lemma parse_or_show: "(case parse_it (show_it x) of Inl _ \<Rightarrow> d | Inr y \<Rightarrow> y) = x"
  by (simp add: parse_show)

lemma show_not_error: "parse_it s = Inl e \<Longrightarrow> show_it x \<noteq> s"
  using parse_show by fastforce

end

section \<open>Ordered maps\<close>

text \<open>
  \<open>std::collections::BTreeMap\<close>: the components use \<open>get\<close>, \<open>insert\<close> and \<open>remove\<close>, and rely on the
  laws below.
\<close>

locale map_api =
  fixes get :: "'m \<Rightarrow> 'k \<Rightarrow> 'v option"
    and ins :: "'k \<Rightarrow> 'v \<Rightarrow> 'm \<Rightarrow> 'm"
    and rem :: "'k \<Rightarrow> 'm \<Rightarrow> 'm"
    and inv :: "'m \<Rightarrow> bool"
  assumes get_ins: "inv m \<Longrightarrow> get (ins k v m) = (get m)(k \<mapsto> v)"
    and get_rem: "inv m \<Longrightarrow> get (rem k m) = (get m)(k := None)"
    and inv_ins: "inv m \<Longrightarrow> inv (ins k v m)"
    and inv_rem: "inv m \<Longrightarrow> inv (rem k m)"
begin

lemma get_ins_same: "inv m \<Longrightarrow> get (ins k v m) k = Some v"
  by (simp add: get_ins)

lemma get_ins_other: "inv m \<Longrightarrow> j \<noteq> k \<Longrightarrow> get (ins k v m) j = get m j"
  by (simp add: get_ins)

lemma get_rem_same: "inv m \<Longrightarrow> get (rem k m) k = None"
  by (simp add: get_rem)

lemma get_rem_other: "inv m \<Longrightarrow> j \<noteq> k \<Longrightarrow> get (rem k m) j = get m j"
  by (simp add: get_rem)

text \<open>A loop of insertions: the invariant holds, and the last write for a key wins.\<close>

lemma fold_ins_inv: "inv m \<Longrightarrow> inv (fold (\<lambda>(k, v). ins k v) kvs m)"
  by (induction kvs arbitrary: m) (auto simp: inv_ins)

lemma fold_ins_get:
  "inv m \<Longrightarrow> get (fold (\<lambda>(k, v). ins k v) kvs m) = (get m) ++ map_of (rev kvs)"
proof (induction kvs arbitrary: m)
  case Nil
  then show ?case by simp
next
  case (Cons kv kvs)
  then show ?case
    by (cases kv) (auto simp: get_ins inv_ins map_add_def fun_eq_iff split: option.splits)
qed

end

type_synonym ('k, 'v) btree = "('k \<times> 'v) list"

fun bt_insert :: "'k::linorder \<Rightarrow> 'v \<Rightarrow> ('k, 'v) btree \<Rightarrow> ('k, 'v) btree" where
  "bt_insert k v [] = [(k, v)]"
| "bt_insert k v ((j, w) # m) =
     (if k < j then (k, v) # (j, w) # m
      else if k = j then (k, v) # m
      else (j, w) # bt_insert k v m)"

fun bt_remove :: "'k::linorder \<Rightarrow> ('k, 'v) btree \<Rightarrow> ('k, 'v) btree" where
  "bt_remove k [] = []"
| "bt_remove k ((j, w) # m) = (if k = j then m else (j, w) # bt_remove k m)"

definition bt_get :: "('k, 'v) btree \<Rightarrow> 'k \<Rightarrow> 'v option" where
  "bt_get m k = map_of m k"

definition bt_ok :: "('k::linorder, 'v) btree \<Rightarrow> bool" where
  "bt_ok m = sorted_wrt (<) (map fst m)"

lemma bt_get_code [simp]:
  "bt_get [] k = None"
  "bt_get ((j, v) # m) k = (if k = j then Some v else bt_get m k)"
  by (auto simp: bt_get_def)

lemma bt_ok_code [simp]:
  "bt_ok []"
  "bt_ok ((k, v) # m) \<longleftrightarrow> (\<forall>j \<in> fst ` set m. k < j) \<and> bt_ok m"
  by (auto simp: bt_ok_def)

lemma fst_bt_insert: "fst ` set (bt_insert k v m) = insert k (fst ` set m)"
  by (induction k v m rule: bt_insert.induct) auto

lemma fst_bt_remove: "fst ` set (bt_remove k m) \<subseteq> fst ` set m"
  by (induction k m rule: bt_remove.induct) auto

lemma bt_insert_ok: "bt_ok m \<Longrightarrow> bt_ok (bt_insert k v m)"
  by (induction k v m rule: bt_insert.induct) (auto simp: fst_bt_insert)

lemma bt_remove_ok: "bt_ok m \<Longrightarrow> bt_ok (bt_remove k m)"
proof (induction k m rule: bt_remove.induct)
  case (2 k j w m)
  then have m: "\<forall>i \<in> fst ` set m. j < i" "bt_ok m" by simp_all
  then have "\<forall>i \<in> fst ` set (bt_remove k m). j < i" using fst_bt_remove [of k m] by blast
  with m 2 show ?case by simp
qed simp

lemma bt_get_None:
  fixes k :: "'k::linorder"
  shows "(\<forall>j \<in> fst ` set m. k < j) \<Longrightarrow> bt_get m k = None"
  by (induction m) auto

lemma bt_get_insert: "bt_get (bt_insert k v m) = (bt_get m)(k \<mapsto> v)"
  by (induction k v m rule: bt_insert.induct) (auto simp: fun_eq_iff)

lemma bt_get_remove: "bt_ok m \<Longrightarrow> bt_get (bt_remove k m) = (bt_get m)(k := None)"
proof (induction k m rule: bt_remove.induct)
  case (2 k j w m)
  then show ?case by (auto simp: fun_eq_iff bt_get_None)
qed (simp add: fun_eq_iff)

text \<open>Two ordered maps with the same lookups are the same tree.\<close>

lemma bt_get_in: "bt_get m k \<noteq> None \<longleftrightarrow> k \<in> fst ` set m"
  by (induction m) auto

lemma bt_eqI:
  assumes "bt_ok a" "bt_ok b" "bt_get a = bt_get b"
  shows "a = b"
proof -
  have "fst ` set a = fst ` set b" using assms(3) bt_get_in by (metis subsetI subset_antisym)
  moreover have "sorted_wrt (<) (map fst a)" "sorted_wrt (<) (map fst b)"
    using assms by (simp_all add: bt_ok_def)
  ultimately have keys: "map fst a = map fst b"
    by (metis list.set_map strict_sorted_equal)
  have vals: "snd kv = the (bt_get m (fst kv))" if "bt_ok m" "kv \<in> set m"
    for m :: "('a, 'b) btree" and kv
    using that by (induction m) (auto dest: bspec [of _ _ "fst kv"])
  have "map snd a = map (the \<circ> bt_get a) (map fst a)"
    using vals [OF assms(1)] by simp
  also have "\<dots> = map (the \<circ> bt_get b) (map fst b)" using keys assms(3) by simp
  also have "\<dots> = map snd b" using vals [OF assms(2)] by simp
  finally show ?thesis using keys by (metis zip_map_fst_snd)
qed

lemma bt_in_iff: "bt_ok m \<Longrightarrow> (k, v) \<in> set m \<longleftrightarrow> bt_get m k = Some v"
  by (simp add: bt_ok_def bt_get_def strict_sorted_iff map_of_eq_Some_iff)

interpretation bt: map_api bt_get bt_insert bt_remove bt_ok
  by unfold_locales (simp_all add: bt_get_insert bt_get_remove bt_insert_ok bt_remove_ok)

section \<open>JSON values\<close>

text \<open>
  \<open>serde_json::Value\<close>: integers in the 64-bit ranges serde\_json stores exactly, other numbers by
  their text, objects as ordered maps.
\<close>

datatype json =
    JNull
  | JBool bool
  | JInt int
  | JFloat string
  | JStr string
  | JArr "json list"
  | JObj "(string \<times> json) list"

fun json_get :: "json \<Rightarrow> string \<Rightarrow> json option" where
  "json_get (JObj m) k = bt_get m k"
| "json_get _ k = None"

fun as_str :: "json \<Rightarrow> string option" where
  "as_str (JStr s) = Some s"
| "as_str _ = None"

fun as_i64 :: "json \<Rightarrow> int option" where
  "as_i64 (JInt i) = (if - (2 ^ 63) \<le> i \<and> i < 2 ^ 63 then Some i else None)"
| "as_i64 _ = None"

fun as_u64 :: "json \<Rightarrow> int option" where
  "as_u64 (JInt i) = (if 0 \<le> i \<and> i < 2 ^ 64 then Some i else None)"
| "as_u64 _ = None"

fun as_array :: "json \<Rightarrow> json list option" where
  "as_array (JArr xs) = Some xs"
| "as_array _ = None"

fun is_object :: "json \<Rightarrow> bool" where
  "is_object (JObj _) = True"
| "is_object _ = False"

definition get_str :: "json \<Rightarrow> string \<Rightarrow> string option" where
  "get_str v k = Option.bind (json_get v k) as_str"

section \<open>Machine integers\<close>

text \<open>
  \<open>u64\<close> is a 64-bit word.  \<open>usize\<close> counters that the code only increments or compares are \<open>nat\<close>;
  where a conversion to \<open>i64\<close> can wrap it is written out (\<open>usize_as_i64\<close>).
\<close>

type_synonym u64 = "64 word"

definition u64_max :: u64 where "u64_max = 0xFFFFFFFFFFFFFFFF"

definition sat_add :: "u64 \<Rightarrow> u64 \<Rightarrow> u64" where
  "sat_add a b = (if unat a + unat b < 2 ^ 64 then a + b else u64_max)"

definition sat_mul :: "u64 \<Rightarrow> u64 \<Rightarrow> u64" where
  "sat_mul a b = (if unat a * unat b < 2 ^ 64 then a * b else u64_max)"

lemma unat_u64_max [simp]: "unat u64_max = 2 ^ 64 - 1"
  by (simp add: u64_max_def)

lemma unat_u64_less: "unat (a :: u64) < 2 ^ 64"
  using unsigned_less [of a] by simp

lemma unat_sat_add: "unat (sat_add a b) = min (unat a + unat b) (2 ^ 64 - 1)"
  by (auto simp: sat_add_def unat_word_ariths)

lemma unat_sat_mul: "unat (sat_mul a b) = min (unat a * unat b) (2 ^ 64 - 1)"
  by (auto simp: sat_mul_def unat_word_ariths)

definition usize_as_i64 :: "nat \<Rightarrow> int" where
  "usize_as_i64 n = (if n < 2 ^ 63 then int n else int n - 2 ^ 64)"

definition usize_try_from :: "int \<Rightarrow> nat option" where
  "usize_try_from i = (if 0 \<le> i then Some (nat i) else None)"

text \<open>\<open>i64::saturating_add\<close> and \<open>saturating_sub\<close>.\<close>

definition clamp_i64 :: "int \<Rightarrow> int" where
  "clamp_i64 i = max (- (2 ^ 63)) (min i (2 ^ 63 - 1))"

end
