(* ===== verification/Error_Codes.thy ===== *)
theory Error_Codes
  imports Prelude
begin

text \<open>
  The canonical error model of \<open>core/src/coordinator/error_normalizer.rs\<close>: provider-agnostic error
  classes, the E-series codes, the two maps between them, the retry policy of a code, and the
  truncation of a raw message at a UTF-8 boundary.  The per-adapter normalizers are a parameter of
  the components that call them (a registry \<open>tool_id \<rightharpoonup> normalizer\<close>).
\<close>

datatype canonical_class =
    Auth | Billing | RateLimit | QuotaExhausted | Overloaded | Timeout | SessionConflict
  | ToolNotFound | OutputMalformed | Network | GitConflict | PolicyViolation
  | PostCommitFailure | Internal | Unknown

fun class_label :: "canonical_class \<Rightarrow> string" where
  "class_label Auth = ''auth''"
| "class_label Billing = ''billing''"
| "class_label RateLimit = ''rate_limit''"
| "class_label QuotaExhausted = ''quota_exhausted''"
| "class_label Overloaded = ''overloaded''"
| "class_label Timeout = ''timeout''"
| "class_label SessionConflict = ''session_conflict''"
| "class_label ToolNotFound = ''tool_not_found''"
| "class_label OutputMalformed = ''output_malformed''"
| "class_label Network = ''network''"
| "class_label GitConflict = ''git_conflict''"
| "class_label PolicyViolation = ''policy_violation''"
| "class_label PostCommitFailure = ''post_commit_failure''"
| "class_label Internal = ''internal''"
| "class_label Unknown = ''unknown''"

record tool_error =
  te_provider :: string
  te_class :: canonical_class
  te_retryable :: bool
  te_retry_after_seconds :: "u64 option"
  te_user_action_required :: bool
  te_raw_message :: string
  te_error_code :: string
  te_request_id :: "string option"
  te_attempt :: nat
  te_operation :: string

text \<open>A normalizer reads the exit code, stderr and stdout of a performer.\<close>

type_synonym normalizer = "int \<Rightarrow> string \<Rightarrow> string \<Rightarrow> tool_error option"
type_synonym normalizer_registry = "string \<Rightarrow> normalizer option"

fun canonical_to_error_code :: "canonical_class \<Rightarrow> string" where
  "canonical_to_error_code Auth = ''E201''"
| "canonical_to_error_code Billing = ''E201''"
| "canonical_to_error_code RateLimit = ''E601''"
| "canonical_to_error_code QuotaExhausted = ''E602''"
| "canonical_to_error_code Overloaded = ''E601''"
| "canonical_to_error_code Timeout = ''E101''"
| "canonical_to_error_code SessionConflict = ''E603''"
| "canonical_to_error_code ToolNotFound = ''E102''"
| "canonical_to_error_code OutputMalformed = ''E103''"
| "canonical_to_error_code Network = ''E101''"
| "canonical_to_error_code GitConflict = ''E304''"
| "canonical_to_error_code PolicyViolation = ''E201''"
| "canonical_to_error_code PostCommitFailure = ''E504''"
| "canonical_to_error_code Internal = ''E901''"
| "canonical_to_error_code Unknown = ''E901''"

datatype retry_policy = Retryable | NotRetryable | Conditional

text \<open>The \<open>match\<close> arms in the source's order; the first matching arm wins.\<close>

definition code_classes :: "(string \<times> canonical_class) list" where
  "code_classes =
     [(''E101'', Timeout), (''E102'', ToolNotFound), (''E103'', OutputMalformed),
      (''E104'', Internal), (''E105'', Internal),
      (''E201'', Auth), (''E202'', PolicyViolation),
      (''E301'', Internal), (''E302'', Internal), (''E303'', Internal),
      (''E304'', GitConflict), (''E305'', Internal), (''E306'', Internal),
      (''E401'', Internal), (''E402'', SessionConflict), (''E403'', SessionConflict),
      (''E501'', GitConflict), (''E502'', Internal), (''E503'', PolicyViolation),
      (''E504'', PostCommitFailure),
      (''E601'', RateLimit), (''E602'', QuotaExhausted), (''E603'', SessionConflict),
      (''E410'', SessionConflict), (''E411'', Internal), (''E412'', Internal),
      (''E413'', Internal), (''E414'', Internal), (''E415'', Internal), (''E416'', Internal),
      (''E417'', GitConflict), (''E418'', SessionConflict),
      (''E901'', Unknown)]"

definition error_code_to_canonical_class :: "string \<Rightarrow> canonical_class" where
  "error_code_to_canonical_class code = unwrap_or Unknown (map_of code_classes (trim code))"

definition retry_policy_for_error_code :: "string \<Rightarrow> retry_policy" where
  "retry_policy_for_error_code code =
     (let c = trim code in
      if c \<in> {''E101'', ''E601'', ''E603'', ''E403''} then Retryable
      else if c \<in> {''E102'', ''E103'', ''E201'', ''E202'', ''E503'', ''E602'', ''E901'', ''E410'',
                   ''E411'', ''E412'', ''E415'', ''E416'', ''E417'', ''E418''} then NotRetryable
      else if c \<in> {''E104'', ''E105'', ''E301'', ''E302'', ''E303'', ''E304'', ''E305'', ''E306'',
                   ''E401'', ''E402'', ''E501'', ''E502'', ''E504'', ''E413'', ''E414''}
        then Conditional
      else NotRetryable)"

definition is_retryable :: "canonical_class \<Rightarrow> bool" where
  "is_retryable c =
     (c \<in> {RateLimit, Overloaded, Timeout, SessionConflict, Network, Internal})"

definition is_user_action_required :: "canonical_class \<Rightarrow> bool" where
  "is_user_action_required c =
     (c \<in> {Auth, Billing, QuotaExhausted, PolicyViolation, ToolNotFound})"

text \<open>
  \<open>str::is_char_boundary\<close>: an offset is a boundary at the ends and in front of any byte that is not
  a UTF-8 continuation byte.
\<close>

definition continuation_byte :: "char \<Rightarrow> bool" where
  "continuation_byte c = (let n = (of_char c :: nat) in 128 \<le> n \<and> n < 192)"

definition is_char_boundary :: "string \<Rightarrow> nat \<Rightarrow> bool" where
  "is_char_boundary s i =
     (i = 0 \<or> i = length s \<or> (i < length s \<and> \<not> continuation_byte (s ! i)))"

fun back_to_boundary :: "string \<Rightarrow> nat \<Rightarrow> nat" where
  "back_to_boundary s 0 = 0"
| "back_to_boundary s (Suc i) =
     (if is_char_boundary s (Suc i) then Suc i else back_to_boundary s i)"

definition truncate_raw_message :: "string \<Rightarrow> string" where
  "truncate_raw_message msg =
     (if length msg \<le> 500 then msg else take (back_to_boundary msg 500) msg @ ellipsis)"

section \<open>Lemmas\<close>

lemma trim_code [simp]: "trim (canonical_to_error_code c) = canonical_to_error_code c"
  by (rule trim_graphic; cases c) (simp_all add: graphic_def)

text \<open>The code of a class is retryable exactly when the class is, with one exception.\<close>

lemma code_policy_class:
  "retry_policy_for_error_code (canonical_to_error_code c) =
     (if c = GitConflict \<or> c = PostCommitFailure then Conditional
      else if is_retryable c \<and> c \<noteq> Internal then Retryable
      else NotRetryable)"
  unfolding retry_policy_for_error_code_def trim_code Let_def
  by (cases c) (simp_all add: is_retryable_def)

text \<open>Classes that survive the trip through their code.\<close>

lemma class_code_roundtrip:
  "error_code_to_canonical_class (canonical_to_error_code c) =
     (if c = Billing \<or> c = PolicyViolation then Auth
      else if c = Overloaded then RateLimit
      else if c = Network then Timeout
      else if c = Internal then Unknown
      else c)"
  unfolding error_code_to_canonical_class_def trim_code
  by (cases c) (simp_all add: code_classes_def)

lemma code_class_code:
  "canonical_to_error_code (error_code_to_canonical_class (canonical_to_error_code c)) =
     canonical_to_error_code c"
  by (simp add: class_code_roundtrip)

lemma back_to_boundary_le: "back_to_boundary s i \<le> i"
  by (induction i) auto

lemma back_to_boundary_is_boundary: "is_char_boundary s (back_to_boundary s i)"
  by (induction i) (auto simp: is_char_boundary_def)

lemma back_to_boundary_last:
  "back_to_boundary s i < j \<Longrightarrow> j \<le> i \<Longrightarrow> \<not> is_char_boundary s j"
  by (induction i) (auto simp: le_Suc_eq split: if_splits)

section \<open>Properties\<close>

text \<open>The code of an error class decides about retries as the class does, except that an
  internal error is retryable as a class and not by its code E901; a code survives the trip through
  its class; and no class is both retryable and in need of the user.\<close>

theorem error_code_policy:
  "(retry_policy_for_error_code (canonical_to_error_code c) = Retryable \<longleftrightarrow>
      is_retryable c \<and> c \<noteq> Internal)
   \<and> retry_policy_for_error_code (canonical_to_error_code Internal) = NotRetryable
   \<and> canonical_to_error_code (error_code_to_canonical_class (canonical_to_error_code c))
       = canonical_to_error_code c
   \<and> {x. is_retryable x \<and> is_user_action_required x} = {}
   \<and> {x. is_user_action_required x
         \<and> retry_policy_for_error_code (canonical_to_error_code x) \<noteq> NotRetryable} = {}"
  unfolding code_policy_class code_class_code
  by (auto simp: is_retryable_def is_user_action_required_def)

text \<open>A truncated raw message is a prefix that ends at a UTF-8 boundary, the last one within 500
  bytes, followed by an ellipsis; the result never exceeds 503 bytes.\<close>

theorem truncate_at_boundary:
  "truncate_raw_message msg =
     (if length msg \<le> 500 then msg else take (back_to_boundary msg 500) msg @ ellipsis)
   \<and> length (truncate_raw_message msg) \<le> 503
   \<and> is_char_boundary msg (back_to_boundary msg 500)
   \<and> {j. back_to_boundary msg 500 < j \<and> j \<le> 500 \<and> is_char_boundary msg j} = {}"
proof -
  have "length (truncate_raw_message msg) \<le> 503"
    using back_to_boundary_le [of msg 500] by (auto simp: truncate_raw_message_def ellipsis_def)
  moreover have "{j. back_to_boundary msg 500 < j \<and> j \<le> 500 \<and> is_char_boundary msg j} = {}"
    using back_to_boundary_last [of msg 500] by blast
  ultimately show ?thesis
    using back_to_boundary_is_boundary [of msg 500] by (simp add: truncate_raw_message_def)
qed

end
