(* ===== verification/Workflow.thy ===== *)
theory Workflow
  imports Prelude
begin

text \<open>
  The state vocabulary of the coordinator (\<open>core/src/coordinator.rs\<close>): the workflow states of a
  task, the runtime states of its performer, the kinds of completion a performer reports, the two
  transition tables, and the rule that decides whether the performer's own signal or its exit code
  is believed (\<open>resolve_completion_authority\<close>).
\<close>

section \<open>Workflow states\<close>

datatype workflow_state =
    Todo | Claimed | InProgress | Testing | ChangesRequested | Reviewing | PrOpen | Queued
  | Merged | Blocked | Abandoned | WaitingApproval | Approved | Rejected | Expired

fun workflow_as_str :: "workflow_state \<Rightarrow> string" where
  "workflow_as_str Todo = ''todo''"
| "workflow_as_str Claimed = ''claimed''"
| "workflow_as_str InProgress = ''in_progress''"
| "workflow_as_str Testing = ''testing''"
| "workflow_as_str ChangesRequested = ''changes_requested''"
| "workflow_as_str Reviewing = ''reviewing''"
| "workflow_as_str PrOpen = ''pr_open''"
| "workflow_as_str Queued = ''queued''"
| "workflow_as_str Merged = ''merged''"
| "workflow_as_str Blocked = ''blocked''"
| "workflow_as_str Abandoned = ''abandoned''"
| "workflow_as_str WaitingApproval = ''waiting_approval''"
| "workflow_as_str Approved = ''approved''"
| "workflow_as_str Rejected = ''rejected''"
| "workflow_as_str Expired = ''expired''"

definition state_satisfies_dependants :: "workflow_state \<Rightarrow> bool" where
  "state_satisfies_dependants s = (s = Merged \<or> s = Approved)"

text \<open>\<open>FromStr\<close>: the comparison is on the trimmed, lower-cased text.\<close>

definition workflow_from_str :: "string \<Rightarrow> string + workflow_state" where
  "workflow_from_str s =
     (let t = to_ascii_lowercase (trim s) in
      if t = ''todo'' then Inr Todo
      else if t = ''claimed'' then Inr Claimed
      else if t = ''in_progress'' then Inr InProgress
      else if t = ''testing'' then Inr Testing
      else if t = ''changes_requested'' then Inr ChangesRequested
      else if t = ''reviewing'' then Inr Reviewing
      else if t = ''pr_open'' then Inr PrOpen
      else if t = ''queued'' then Inr Queued
      else if t = ''merged'' then Inr Merged
      else if t = ''blocked'' then Inr Blocked
      else if t = ''abandoned'' then Inr Abandoned
      else if t = ''waiting_approval'' then Inr WaitingApproval
      else if t = ''approved'' then Inr Approved
      else if t = ''rejected'' then Inr Rejected
      else if t = ''expired'' then Inr Expired
      else Inl (''unknown workflow state: '' @ t))"

section \<open>Runtime status\<close>

datatype runtime_status =
    Rt_Idle | Rt_Dispatched | Rt_Running | Rt_WaitingForUser | Rt_PhaseDone | Rt_Failed
  | Rt_Stale | Rt_Paused

fun runtime_as_str :: "runtime_status \<Rightarrow> string" where
  "runtime_as_str Rt_Idle = ''idle''"
| "runtime_as_str Rt_Dispatched = ''dispatched''"
| "runtime_as_str Rt_Running = ''running''"
| "runtime_as_str Rt_WaitingForUser = ''waiting_for_user''"
| "runtime_as_str Rt_PhaseDone = ''phase_done''"
| "runtime_as_str Rt_Failed = ''failed''"
| "runtime_as_str Rt_Stale = ''stale''"
| "runtime_as_str Rt_Paused = ''paused''"

definition runtime_from_str :: "string \<Rightarrow> string + runtime_status" where
  "runtime_from_str s =
     (let t = to_ascii_lowercase (trim s) in
      if t = ''idle'' then Inr Rt_Idle
      else if t = ''dispatched'' then Inr Rt_Dispatched
      else if t = ''running'' then Inr Rt_Running
      else if t = ''waiting_for_user'' then Inr Rt_WaitingForUser
      else if t = ''phase_done'' then Inr Rt_PhaseDone
      else if t = ''failed'' then Inr Rt_Failed
      else if t = ''stale'' then Inr Rt_Stale
      else if t = ''paused'' then Inr Rt_Paused
      else Inl (''unknown runtime status: '' @ t))"

section \<open>Performer completion kinds\<close>

datatype completion_kind =
    SuccessWithChanges | SuccessWithoutChanges | AlreadySatisfied
  | ErrorWithChanges | ErrorWithoutChanges | PreconditionUnmet

fun completion_as_str :: "completion_kind \<Rightarrow> string" where
  "completion_as_str SuccessWithChanges = ''success_with_changes''"
| "completion_as_str SuccessWithoutChanges = ''success_without_changes''"
| "completion_as_str AlreadySatisfied = ''already_satisfied''"
| "completion_as_str ErrorWithChanges = ''error_with_changes''"
| "completion_as_str ErrorWithoutChanges = ''error_without_changes''"
| "completion_as_str PreconditionUnmet = ''precondition_unmet''"

definition kind_is_error :: "completion_kind \<Rightarrow> bool" where
  "kind_is_error k = (k = ErrorWithChanges \<or> k = ErrorWithoutChanges \<or> k = PreconditionUnmet)"

definition completion_from_str :: "string \<Rightarrow> string + completion_kind" where
  "completion_from_str s =
     (let t = to_ascii_lowercase (trim s) in
      if t = ''success_with_changes'' then Inr SuccessWithChanges
      else if t = ''success_without_changes'' then Inr SuccessWithoutChanges
      else if t = ''already_satisfied'' \<or> t = ''already_done'' \<or> t = ''noop_success''
        then Inr AlreadySatisfied
      else if t = ''error_with_changes'' then Inr ErrorWithChanges
      else if t = ''error_without_changes'' \<or> t = ''error'' \<or> t = ''failed''
        then Inr ErrorWithoutChanges
      else if t = ''precondition_unmet'' \<or> t = ''blocked'' then Inr PreconditionUnmet
      else Inl (''unknown performer completion kind: '' @ t))"

datatype completion_authority = IpcSignal | ExitCodeHeuristic | Fallback

record authority_resolution =
  ar_authority :: completion_authority
  ar_success :: bool
  ar_kind :: "completion_kind option"

definition resolve_completion_authority ::
  "completion_kind option \<Rightarrow> bool \<Rightarrow> bool \<Rightarrow> authority_resolution" where
  "resolve_completion_authority ipc_completion_kind has_commits_ahead_of_base exit_code_success =
     (case (has_commits_ahead_of_base, ipc_completion_kind) of
        (True, Some kind) \<Rightarrow> \<lparr>ar_authority = IpcSignal, ar_success = True, ar_kind = Some kind\<rparr>
      | _ \<Rightarrow>
        if exit_code_success
        then \<lparr>ar_authority = ExitCodeHeuristic, ar_success = ipc_completion_kind \<noteq> None,
              ar_kind = ipc_completion_kind\<rparr>
        else \<lparr>ar_authority = Fallback, ar_success = False, ar_kind = None\<rparr>)"

section \<open>Transition tables\<close>

definition workflow_edges :: "(workflow_state \<times> workflow_state) list" where
  "workflow_edges =
     [(Todo, Claimed),
      (Claimed, InProgress), (Claimed, Blocked), (Claimed, Abandoned),
      (InProgress, Testing), (InProgress, Reviewing), (InProgress, PrOpen),
      (InProgress, ChangesRequested), (InProgress, Merged), (InProgress, Blocked),
      (InProgress, Abandoned),
      (Testing, Reviewing), (Testing, Merged), (Testing, InProgress), (Testing, PrOpen),
      (Testing, ChangesRequested), (Testing, Blocked), (Testing, Abandoned),
      (Reviewing, Merged), (Reviewing, InProgress), (Reviewing, ChangesRequested),
      (Reviewing, PrOpen), (Reviewing, Blocked), (Reviewing, Abandoned),
      (PrOpen, ChangesRequested), (PrOpen, Queued), (PrOpen, Merged), (PrOpen, Blocked),
      (PrOpen, Abandoned),
      (ChangesRequested, PrOpen), (ChangesRequested, InProgress), (ChangesRequested, Testing),
      (ChangesRequested, Reviewing), (ChangesRequested, Merged), (ChangesRequested, Blocked),
      (ChangesRequested, Abandoned),
      (Queued, Merged), (Queued, PrOpen), (Queued, Blocked), (Queued, Abandoned),
      (Blocked, Todo), (Blocked, Claimed), (Blocked, InProgress), (Blocked, Testing),
      (Blocked, Reviewing), (Blocked, PrOpen), (Blocked, ChangesRequested), (Blocked, Queued),
      (Blocked, Abandoned),
      (Abandoned, Todo)]"

definition is_valid_workflow_transition :: "workflow_state \<Rightarrow> workflow_state \<Rightarrow> bool" where
  "is_valid_workflow_transition from to = ((from, to) \<in> set workflow_edges)"

definition runtime_edges :: "(runtime_status \<times> runtime_status) list" where
  "runtime_edges =
     [(Rt_Idle, Rt_Dispatched), (Rt_Idle, Rt_Running),
      (Rt_Dispatched, Rt_Running), (Rt_Dispatched, Rt_Failed), (Rt_Dispatched, Rt_Stale),
      (Rt_Running, Rt_PhaseDone), (Rt_Running, Rt_Failed), (Rt_Running, Rt_Stale),
      (Rt_Running, Rt_Paused), (Rt_Running, Rt_WaitingForUser),
      (Rt_WaitingForUser, Rt_Running), (Rt_WaitingForUser, Rt_Failed),
      (Rt_WaitingForUser, Rt_Paused), (Rt_WaitingForUser, Rt_Idle),
      (Rt_PhaseDone, Rt_Running), (Rt_PhaseDone, Rt_Idle), (Rt_PhaseDone, Rt_Failed),
      (Rt_Failed, Rt_Dispatched), (Rt_Failed, Rt_Paused), (Rt_Failed, Rt_Idle),
      (Rt_Stale, Rt_Dispatched), (Rt_Stale, Rt_Failed), (Rt_Stale, Rt_Paused),
      (Rt_Paused, Rt_Dispatched), (Rt_Paused, Rt_Running), (Rt_Paused, Rt_Failed),
      (Rt_Paused, Rt_Idle)]"

definition is_valid_runtime_transition :: "runtime_status \<Rightarrow> runtime_status \<Rightarrow> bool" where
  "is_valid_runtime_transition from to = ((from, to) \<in> set runtime_edges)"

definition runtime_status_from_event :: "string \<Rightarrow> string \<Rightarrow> runtime_status" where
  "runtime_status_from_event event_type status =
     (let st = to_ascii_lowercase (trim status); ev = to_ascii_lowercase (trim event_type) in
      if st \<in> {''started'', ''dispatched''} then Rt_Dispatched
      else if st \<in> {''running'', ''progress'', ''heartbeat''} then Rt_Running
      else if st \<in> {''waiting_for_user'', ''input_required''} then Rt_WaitingForUser
      else if st \<in> {''done'', ''phase_done'', ''already_satisfied'', ''success_without_changes''}
        then Rt_PhaseDone
      else if st \<in> {''failed'', ''error''} then Rt_Failed
      else if st = ''stale'' then Rt_Stale
      else if st = ''paused'' then Rt_Paused
      else if ev = ''started'' then Rt_Dispatched
      else if ev \<in> {''progress'', ''heartbeat''} then Rt_Running
      else if ev = ''input_required'' then Rt_WaitingForUser
      else if ev = ''phase_result'' then Rt_Running
      else if ev = ''failed'' then Rt_Failed
      else Rt_Running)"

section \<open>Lemmas\<close>

lemma plain_workflow_word: "plain_word (workflow_as_str s)"
  by (cases s) (simp_all add: plain_word_def graphic_def no_capital_def)

lemma plain_runtime_word: "plain_word (runtime_as_str s)"
  by (cases s) (simp_all add: plain_word_def graphic_def no_capital_def)

lemma plain_completion_word: "plain_word (completion_as_str s)"
  by (cases s) (simp_all add: plain_word_def graphic_def no_capital_def)

lemmas plain_words = plain_workflow_word plain_runtime_word plain_completion_word

lemma plain_workflow_str: "to_ascii_lowercase (trim (workflow_as_str s)) = workflow_as_str s"
  by (simp add: trim_plain lower_plain plain_words)

lemma plain_runtime_str: "to_ascii_lowercase (trim (runtime_as_str s)) = runtime_as_str s"
  by (simp add: trim_plain lower_plain plain_words)

lemma plain_completion_str:
  "to_ascii_lowercase (trim (completion_as_str s)) = completion_as_str s"
  by (simp add: trim_plain lower_plain plain_words)

interpretation wf_text: text_enum workflow_as_str workflow_from_str
proof unfold_locales
  fix x
  show "workflow_from_str (workflow_as_str x) = Inr x"
    unfolding workflow_from_str_def plain_workflow_str Let_def by (cases x) simp_all
qed

interpretation rt_text: text_enum runtime_as_str runtime_from_str
proof unfold_locales
  fix x
  show "runtime_from_str (runtime_as_str x) = Inr x"
    unfolding runtime_from_str_def plain_runtime_str Let_def by (cases x) simp_all
qed

interpretation ck_text: text_enum completion_as_str completion_from_str
proof unfold_locales
  fix x
  show "completion_from_str (completion_as_str x) = Inr x"
    unfolding completion_from_str_def plain_completion_str Let_def by (cases x) simp_all
qed

section \<open>Properties\<close>

text \<open>The stored text of a workflow state, a runtime status or a completion kind is read back
  as the same value, and white space around it is ignored.\<close>

theorem state_text_roundtrip:
  "workflow_from_str (workflow_as_str s) = Inr s
   \<and> runtime_from_str (runtime_as_str r) = Inr r
   \<and> completion_from_str (completion_as_str k) = Inr k
   \<and> workflow_from_str (trim txt) = workflow_from_str txt
   \<and> runtime_from_str (trim txt) = runtime_from_str txt
   \<and> completion_from_str (trim txt) = completion_from_str txt"
  by (simp add: wf_text.parse_show rt_text.parse_show ck_text.parse_show)
     (simp add: workflow_from_str_def runtime_from_str_def completion_from_str_def)

lemma table_closure:
  assumes "(a, b) \<in> (set workflow_edges)\<^sup>*" "a \<notin> {WaitingApproval, Approved, Rejected, Expired}"
  shows "b \<notin> {WaitingApproval, Approved, Rejected, Expired}"
  using assms by (induction rule: rtrancl_induct) (auto simp: workflow_edges_def)

lemma table_reaches:
  "(Todo, b) \<in> (set workflow_edges)\<^sup>* \<or> b \<in> {WaitingApproval, Approved, Rejected, Expired}"
proof -
  let ?E = "(set workflow_edges)\<^sup>*"
  have claimed: "(Todo, Claimed) \<in> ?E" by (rule r_into_rtrancl) (simp add: workflow_edges_def)
  have step: "(Claimed, x) \<in> set workflow_edges \<Longrightarrow> (Todo, x) \<in> ?E" for x
    using claimed by (rule rtrancl_into_rtrancl)
  have prog: "(Todo, InProgress) \<in> ?E" by (rule step) (simp add: workflow_edges_def)
  have step2: "(InProgress, x) \<in> set workflow_edges \<Longrightarrow> (Todo, x) \<in> ?E" for x
    using prog by (rule rtrancl_into_rtrancl)
  have open': "(Todo, PrOpen) \<in> ?E" by (rule step2) (simp add: workflow_edges_def)
  have queued: "(Todo, Queued) \<in> ?E"
    using open' by (rule rtrancl_into_rtrancl) (simp add: workflow_edges_def)
  show ?thesis
    using claimed prog open' queued step2 by (cases b) (auto simp: workflow_edges_def)
qed

text \<open>In the transition table the only way out of \<open>todo\<close> is a claim, \<open>merged\<close> is final and is
  entered only from the six states a merge may start from, and the states of approval gates are
  neither entered nor left; every other state can be reached from \<open>todo\<close>.\<close>

theorem transition_table:
  "{b. is_valid_workflow_transition Todo b} = {Claimed}
   \<and> {b. is_valid_workflow_transition Merged b} = {}
   \<and> {a. is_valid_workflow_transition a Merged}
       = {InProgress, Testing, Reviewing, PrOpen, ChangesRequested, Queued}
   \<and> - {b. (Todo, b) \<in> {(x, y). is_valid_workflow_transition x y}\<^sup>*}
       = {WaitingApproval, Approved, Rejected, Expired}
   \<and> {b. \<exists>g \<in> {WaitingApproval, Approved, Rejected, Expired}.
        is_valid_workflow_transition g b \<or> is_valid_workflow_transition b g} = {}"
proof -
  have "{(x, y). is_valid_workflow_transition x y} = set workflow_edges"
    by (auto simp: is_valid_workflow_transition_def)
  moreover have "- {b. (Todo, b) \<in> (set workflow_edges)\<^sup>*} = {WaitingApproval, Approved, Rejected, Expired}"
    using table_closure [of Todo] table_reaches by auto
  ultimately show ?thesis
    by (auto simp: is_valid_workflow_transition_def workflow_edges_def)
qed

end
