(* ===== verification/Gate.thy ===== *)
theory Gate
  imports Prelude
begin

text \<open>
  Gate tasks and approvals, the first part of \<open>core/src/coordinator/model.rs\<close>: what a PRD declares
  about a gate (\<open>TaskGate\<close>), the decisions people record (\<open>ApprovalRecord\<close>), and the pure checks on
  them: the structural rules of a human gate, the quorum, the progress line.
\<close>

section \<open>Verdicts, kinds, quorum\<close>

datatype gate_verdict = Gv_Pending | Gv_Accepted | Gv_Rejected

definition gate_verdict_from_str :: "string \<Rightarrow> string + gate_verdict" where
  "gate_verdict_from_str value =
     (let t = to_ascii_lowercase (trim value) in
      if t \<in> {''pending'', ''unknown''} then Inr Gv_Pending
      else if t \<in> {''accepted'', ''accept'', ''positive'', ''passed''} then Inr Gv_Accepted
      else if t \<in> {''rejected'', ''reject'', ''negative'', ''not_accepted'', ''failed''}
        then Inr Gv_Rejected
      else Inl (''unknown gate verdict: '' @ t))"

text \<open>\<open>{value:?}\<close> lower-cased, as \<open>blocked_task_reason\<close> prints a verdict.\<close>

fun gate_verdict_debug :: "gate_verdict \<Rightarrow> string" where
  "gate_verdict_debug Gv_Pending = ''Pending''"
| "gate_verdict_debug Gv_Accepted = ''Accepted''"
| "gate_verdict_debug Gv_Rejected = ''Rejected''"

datatype gate_kind = Verdict | HumanApproval

record required_approver =
  ra_role :: string
  ra_count :: nat

datatype quorum = Q_All | Q_Any | Q_Count nat

fun quorum_to_json :: "quorum \<Rightarrow> json" where
  "quorum_to_json Q_All = JStr ''all''"
| "quorum_to_json Q_Any = JStr ''any''"
| "quorum_to_json (Q_Count n) = JInt (int n)"

text \<open>
  The error for any other JSON value shows that value as \<open>serde_json\<close> renders it (\<open>render\<close>).
\<close>

fun quorum_of_json :: "(json \<Rightarrow> string) \<Rightarrow> json \<Rightarrow> string + quorum" where
  "quorum_of_json render (JStr s) =
     (let t = to_ascii_lowercase (trim s) in
      if t = ''all'' then Inr Q_All
      else if t = ''any'' then Inr Q_Any
      else case parse_usize t of
             Some n \<Rightarrow> Inr (Q_Count n)
           | None \<Rightarrow> Inl (''invalid gate quorum '' @ quoted t @ '': use '' @ dquoted ''all'' @ '', ''
                           @ dquoted ''any'' @ '' or a number''))"
| "quorum_of_json render (JInt i) =
     (case as_u64 (JInt i) of
        Some n \<Rightarrow> Inr (Q_Count (nat n))
      | None \<Rightarrow> Inl ''gate quorum must be a positive integer'')"
| "quorum_of_json render (JFloat _) = Inl ''gate quorum must be a positive integer''"
| "quorum_of_json render other =
     Inl (''invalid gate quorum '' @ render other @ '': use '' @ dquoted ''all'' @ '', ''
          @ dquoted ''any'' @ '' or a number'')"

record task_gate =
  tg_required_verdict :: gate_verdict
  tg_description :: "string option"
  tg_kind :: gate_kind
  tg_subject_task :: "string option"
  tg_required_approvers :: "required_approver list"
  tg_quorum :: quorum
  tg_bind_to :: string
  tg_evidence_type :: "string option"
  tg_invalidate_on_subject_change :: bool
  tg_expires_after_days :: "nat option"
  tg_risks :: "string list"
  tg_governance_ref :: "string option"
  tg_approval_trigger :: "string option"

section \<open>Decisions\<close>

datatype approval_decision = Dec_Approved | Dec_Rejected | Dec_ChangesRequested

fun decision_as_str :: "approval_decision \<Rightarrow> string" where
  "decision_as_str Dec_Approved = ''approved''"
| "decision_as_str Dec_Rejected = ''rejected''"
| "decision_as_str Dec_ChangesRequested = ''changes_requested''"

definition decision_from_str :: "string \<Rightarrow> string + approval_decision" where
  "decision_from_str value =
     (let t = map (\<lambda>c. if c = CHR ''-'' then CHR ''_'' else c) (to_ascii_lowercase (trim value)) in
      if t \<in> {''approved'', ''approve''} then Inr Dec_Approved
      else if t \<in> {''rejected'', ''reject''} then Inr Dec_Rejected
      else if t \<in> {''changes_requested'', ''request_changes''} then Inr Dec_ChangesRequested
      else Inl (''unknown approval decision: '' @ t))"

record approval_record =
  ap_decision :: approval_decision
  ap_role :: string
  ap_actor :: string
  ap_revision :: "string option"
  ap_evidence :: "string option"
  ap_reason :: "string option"
  ap_recorded_at :: string

datatype approval_status =
  St_WaitingApproval | St_ChangesRequested | St_Approved | St_Rejected | St_Expired

fun approval_status_as_str :: "approval_status \<Rightarrow> string" where
  "approval_status_as_str St_WaitingApproval = ''waiting_approval''"
| "approval_status_as_str St_ChangesRequested = ''changes_requested''"
| "approval_status_as_str St_Approved = ''approved''"
| "approval_status_as_str St_Rejected = ''rejected''"
| "approval_status_as_str St_Expired = ''expired''"

record approval_state =
  as_status :: approval_status
  as_subject_revision :: "string option"
  as_effective :: "approval_record list"
  as_history :: "approval_record list"
  as_requested_at :: "string option"
  as_approved_at :: "string option"
  as_approved_revision :: "string option"
  as_note :: "string option"

definition default_approval_state :: approval_state where
  "default_approval_state =
     \<lparr>as_status = St_WaitingApproval, as_subject_revision = None, as_effective = [],
      as_history = [], as_requested_at = None, as_approved_at = None,
      as_approved_revision = None, as_note = None\<rparr>"

section \<open>Operations of a gate\<close>

definition is_human_approval :: "task_gate \<Rightarrow> bool" where
  "is_human_approval g = (tg_kind g = HumanApproval)"

definition approver_problems :: "string \<Rightarrow> required_approver \<Rightarrow> string list" where
  "approver_problems task_id a =
     (if trim (ra_role a) = [] then [task_id @ '': a required approver has an empty role''] else [])
     @ (if ra_count a = 0
        then [task_id @ '': required approver '' @ quoted (ra_role a) @ '' has count 0''] else [])"

definition validate_human_approval :: "task_gate \<Rightarrow> string \<Rightarrow> string list \<Rightarrow> string list" where
  "validate_human_approval g task_id dependencies =
     (if \<not> is_human_approval g then []
      else
        (case map_option trim (tg_subject_task g) of
           None \<Rightarrow> [task_id @ '': gate.subject_task is required for a human_approval gate'']
         | Some subject \<Rightarrow>
             if subject = []
             then [task_id @ '': gate.subject_task is required for a human_approval gate'']
             else if subject \<notin> set dependencies
             then [task_id @ '': gate.subject_task '' @ quoted subject
                   @ '' must also be listed in dependencies so it is delivered before approval'']
             else [])
        @ (if tg_required_approvers g = []
           then [task_id @ '': gate.required_approvers must name at least one role''] else [])
        @ concat (map (approver_problems task_id) (tg_required_approvers g))
        @ (case tg_quorum g of
             Q_Count n \<Rightarrow>
               (let mx = sum_list (map ra_count (tg_required_approvers g)) in
                if n = 0 \<or> n > mx
                then [task_id @ '': gate.quorum '' @ show_nat n @ '' is outside 1..='' @ show_nat mx
                      @ '' (the total approvals declared)'']
                else [])
           | _ \<Rightarrow> [])
        @ (if tg_bind_to g \<noteq> ''commit_sha''
           then [task_id @ '': gate.bind_to '' @ quoted (tg_bind_to g) @ '' is not supported; use commit_sha'']
           else []))"

text \<open>Distinct approving actors of a role: a person approving twice counts once.\<close>

definition approving_actors :: "approval_record list \<Rightarrow> string \<Rightarrow> string list" where
  "approving_actors approvals role =
     remdups (map ap_actor
       (filter (\<lambda>a. ap_decision a = Dec_Approved \<and> ap_role a = role) approvals))"

definition quorum_met :: "task_gate \<Rightarrow> approval_record list \<Rightarrow> bool" where
  "quorum_met g approvals =
     (case tg_quorum g of
        Q_All \<Rightarrow> list_all (\<lambda>r. ra_count r \<le> length (approving_actors approvals (ra_role r)))
                   (tg_required_approvers g)
      | Q_Any \<Rightarrow> list_ex (\<lambda>r. ra_count r \<le> length (approving_actors approvals (ra_role r)))
                   (tg_required_approvers g)
      | Q_Count n \<Rightarrow>
          n \<le> length (remdups (map (\<lambda>a. (ap_actor a, ap_role a))
                (filter (\<lambda>a. ap_decision a = Dec_Approved
                            \<and> ap_role a \<in> set (map ra_role (tg_required_approvers g)))
                  approvals))))"

definition approval_progress :: "task_gate \<Rightarrow> approval_record list \<Rightarrow> string" where
  "approval_progress g approvals =
     join '', ''
       (map (\<lambda>r. ra_role r @ '' ''
                 @ show_nat (min (length (approving_actors approvals (ra_role r))) (ra_count r))
                 @ ''/'' @ show_nat (ra_count r))
            (tg_required_approvers g))"

definition required_roles :: "task_gate \<Rightarrow> string list" where
  "required_roles g = map ra_role (tg_required_approvers g)"

section \<open>Lemmas\<close>

lemma plain_decision_word: "plain_word (decision_as_str d)"
  by (cases d) (simp_all add: plain_word_def graphic_def no_capital_def)

interpretation dec_text: text_enum decision_as_str decision_from_str
proof unfold_locales
  fix x
  show "decision_from_str (decision_as_str x) = Inr x"
    unfolding decision_from_str_def Let_def trim_plain [OF plain_decision_word]
      lower_plain [OF plain_decision_word]
    by (cases x) simp_all
qed

text \<open>The people behind a role, as a set.\<close>

lemma length_approving_actors:
  "length (approving_actors approvals role) =
     card (ap_actor ` {a \<in> set approvals. ap_decision a = Dec_Approved \<and> ap_role a = role})"
  by (simp add: approving_actors_def length_remdups_card_conv)

lemma approving_actors_mono:
  "set xs \<subseteq> set ys \<Longrightarrow> length (approving_actors xs role) \<le> length (approving_actors ys role)"
  unfolding length_approving_actors by (intro card_mono image_mono) auto

lemma quorum_met_mono: "set xs \<subseteq> set ys \<Longrightarrow> quorum_met g xs \<Longrightarrow> quorum_met g ys"
proof -
  assume sub: "set xs \<subseteq> set ys" and q: "quorum_met g xs"
  let ?P = "\<lambda>a. ap_decision a = Dec_Approved \<and> ap_role a \<in> set (map ra_role (tg_required_approvers g))"
  have "card ((\<lambda>a. (ap_actor a, ap_role a)) ` {a \<in> set xs. ?P a})
      \<le> card ((\<lambda>a. (ap_actor a, ap_role a)) ` {a \<in> set ys. ?P a})"
    using sub by (intro card_mono image_mono) auto
  then have "length (remdups (map (\<lambda>a. (ap_actor a, ap_role a)) (filter ?P xs)))
      \<le> length (remdups (map (\<lambda>a. (ap_actor a, ap_role a)) (filter ?P ys)))"
    by (simp add: length_remdups_card_conv)
  then show ?thesis
    using q approving_actors_mono [OF sub] unfolding quorum_met_def
    by (cases "tg_quorum g") (auto simp: list_all_iff list_ex_iff intro: order.trans)
qed

text \<open>A gate that passes validation needs at least one approval.\<close>

lemma validated_gate:
  assumes "validate_human_approval g t deps = []" and "is_human_approval g"
  shows "\<exists>s. tg_subject_task g = Some s \<and> trim s \<in> set deps"
    and "tg_required_approvers g \<noteq> []"
    and "\<forall>r \<in> set (tg_required_approvers g). 0 < ra_count r"
    and "tg_quorum g = Q_Count n \<Longrightarrow> 0 < n"
  using assms
  by (auto simp: validate_human_approval_def approver_problems_def Let_def
      split: option.splits if_splits quorum.splits)

lemma validated_quorum_needs_approval:
  assumes v: "validate_human_approval g t deps = []" "is_human_approval g"
    and q: "quorum_met g approvals"
  shows "\<exists>a \<in> set approvals. ap_decision a = Dec_Approved \<and> ap_role a \<in> set (required_roles g)"
proof -
  note vs = validated_gate [OF v]
  have role: "\<exists>a \<in> set approvals. ap_decision a = Dec_Approved \<and> ap_role a = ra_role r"
    if "r \<in> set (tg_required_approvers g)" "ra_count r \<le> length (approving_actors approvals (ra_role r))"
    for r
  proof -
    have "approving_actors approvals (ra_role r) \<noteq> []" using vs(3) that by fastforce
    then show ?thesis by (auto simp: approving_actors_def filter_empty_conv)
  qed
  show ?thesis
  proof (cases "tg_quorum g")
    case Q_All
    obtain r where "r \<in> set (tg_required_approvers g)" using vs(2) by fastforce
    with role [of r] q Q_All show ?thesis
      by (auto simp: quorum_met_def list_all_iff required_roles_def)
  next
    case Q_Any
    with role q show ?thesis
      by (fastforce simp: quorum_met_def list_ex_iff required_roles_def)
  next
    case (Q_Count n)
    with vs(4) q have "filter (\<lambda>a. ap_decision a = Dec_Approved
        \<and> ap_role a \<in> set (map ra_role (tg_required_approvers g))) approvals \<noteq> []"
      by (auto simp: quorum_met_def)
    then show ?thesis by (fastforce simp: filter_empty_conv required_roles_def)
  qed
qed

section \<open>Properties\<close>

text \<open>A human gate that passes validation can only reach its quorum with at least one approval
  by a declared role, and its subject is one of its dependencies.\<close>

theorem validated_gate_needs_people:
  assumes "validate_human_approval g task_id deps = []" "is_human_approval g"
  shows "(quorum_met g approvals \<longrightarrow>
      (\<exists>a \<in> set approvals. ap_decision a = Dec_Approved \<and> ap_role a \<in> set (required_roles g)))
    \<and> \<not> quorum_met g []
    \<and> (\<exists>s. tg_subject_task g = Some s \<and> trim s \<in> set deps)"
  using validated_quorum_needs_approval [OF assms] validated_gate(1) [OF assms] by fastforce

definition sample_gate :: task_gate where
  "sample_gate =
     \<lparr>tg_required_verdict = Gv_Accepted, tg_description = None, tg_kind = HumanApproval,
      tg_subject_task = Some ''T1'',
      tg_required_approvers = [\<lparr>ra_role = ''lead'', ra_count = 1\<rparr>], tg_quorum = Q_All,
      tg_bind_to = ''commit_sha'', tg_evidence_type = None,
      tg_invalidate_on_subject_change = True, tg_expires_after_days = None, tg_risks = [],
      tg_governance_ref = None, tg_approval_trigger = None\<rparr>"

definition sample_approval :: approval_record where
  "sample_approval =
     \<lparr>ap_decision = Dec_Approved, ap_role = ''lead'', ap_actor = ''ann'', ap_revision = None,
      ap_evidence = None, ap_reason = None, ap_recorded_at = ''t''\<rparr>"

lemma sample_gate_valid: "validate_human_approval sample_gate ''G'' [''T1''] = []"
  and sample_gate_human: "is_human_approval sample_gate"
proof -
  have "trim ''T1'' = ''T1''" "trim ''lead'' = ''lead''"
    by (rule trim_graphic; simp add: graphic_def)+
  then show "validate_human_approval sample_gate ''G'' [''T1''] = []" "is_human_approval sample_gate"
    by (simp_all add: sample_gate_def validate_human_approval_def is_human_approval_def approver_problems_def)
qed

theorem validated_gate_needs_people_witness:
  "\<not> quorum_met sample_gate []"
  using validated_gate_needs_people [OF sample_gate_valid sample_gate_human] by blast

lemma approving_actors_same_set:
  "ap_actor ` {a \<in> set xs. ap_decision a = Dec_Approved \<and> ap_role a = role} =
   ap_actor ` {a \<in> set ys. ap_decision a = Dec_Approved \<and> ap_role a = role} \<Longrightarrow>
     length (approving_actors xs role) = length (approving_actors ys role)"
  by (simp add: length_approving_actors)

text \<open>A person who approves a second time in the same role adds nothing to the quorum.\<close>

theorem second_approval_ignored:
  assumes "b \<in> set xs" "ap_decision b = Dec_Approved" "ap_decision a = Dec_Approved"
    "ap_actor a = ap_actor b" "ap_role a = ap_role b"
  shows "quorum_met g (a # xs) = quorum_met g xs
    \<and> approval_progress g (a # xs) = approval_progress g xs"
proof -
  have roles: "length (approving_actors (a # xs) role) = length (approving_actors xs role)" for role
    using assms by (intro approving_actors_same_set) (auto simp: image_iff)
  let ?P = "\<lambda>a. ap_decision a = Dec_Approved \<and> ap_role a \<in> set (map ra_role (tg_required_approvers g))"
  have "(\<lambda>a. (ap_actor a, ap_role a)) ` set (filter ?P (a # xs)) =
      (\<lambda>a. (ap_actor a, ap_role a)) ` set (filter ?P xs)"
    using assms by force
  then have pairs: "length (remdups (map (\<lambda>a. (ap_actor a, ap_role a)) (filter ?P (a # xs)))) =
      length (remdups (map (\<lambda>a. (ap_actor a, ap_role a)) (filter ?P xs)))"
    unfolding length_remdups_card_conv set_map by (rule arg_cong)
  show ?thesis
    unfolding quorum_met_def approval_progress_def roles pairs by simp
qed

theorem second_approval_ignored_witness:
  "quorum_met sample_gate [sample_approval, sample_approval]
     = quorum_met sample_gate [sample_approval]"
  using second_approval_ignored [of sample_approval "[sample_approval]" sample_approval sample_gate]
  by (simp add: sample_approval_def)

end
