(* ===== verification/Rate_Limit.thy ===== *)
theory Rate_Limit
  imports Prelude
begin

text \<open>
  Throttling of tools (\<open>core/src/coordinator/rate_limit.rs\<close>): the per-tool throttle state, the
  exponential backoff in saturating \<open>u64\<close> arithmetic, and the predicates that suppress dispatch.
  RFC 3339 parsing and formatting belong to the \<open>chrono\<close> crate; the functions that use them take
  \<open>ts\<close> (an RFC 3339 text to its Unix timestamp) and \<open>fmt\<close> (the converse) as arguments.
\<close>

type_synonym u32 = "32 word"
type_synonym ts_parser = "string \<Rightarrow> int option"

definition E601_RATE_LIMITED :: string where "E601_RATE_LIMITED = ''E601''"
definition E602_QUOTA_EXHAUSTED :: string where "E602_QUOTA_EXHAUSTED = ''E602''"

record rate_limit_info =
  rl_tool_id :: string
  rl_error_code :: string
  rl_retry_after_seconds :: "u64 option"
  rl_detected_at :: u64
  rl_source_header :: "string option"

record throttle_state =
  th_tool_id :: string
  th_throttled_until :: u64
  th_consecutive_429_count :: u32
  th_backoff_seconds :: u64
  th_last_info :: "rate_limit_info option"

type_synonym throttle_registry = "(string, throttle_state) btree"

text \<open>\<open>parse_from_rfc3339(now).map(|dt| dt.timestamp() as u64).unwrap_or(0)\<close>\<close>

definition epoch_of :: "ts_parser \<Rightarrow> string \<Rightarrow> u64" where
  "epoch_of ts now = (case ts now of None \<Rightarrow> 0 | Some t \<Rightarrow> word_of_int t)"

definition is_tool_throttled :: "ts_parser \<Rightarrow> throttle_registry \<Rightarrow> string \<Rightarrow> string \<Rightarrow> bool" where
  "is_tool_throttled ts registry tool_id now =
     (if now = [] \<or> tool_id = [] then False
      else case bt_get registry tool_id of
        None \<Rightarrow> False
      | Some state \<Rightarrow>
          if th_throttled_until state = 0 then False
          else epoch_of ts now < th_throttled_until state)"

definition next_throttle_expiry ::
  "(int \<Rightarrow> string option) \<Rightarrow> throttle_registry \<Rightarrow> string option" where
  "next_throttle_expiry fmt registry =
     (case filter (\<lambda>t. 0 < t) (map (th_throttled_until \<circ> snd) registry) of
        [] \<Rightarrow> None
      | t # us \<Rightarrow> fmt (sint (fold min us t)))"

definition compute_backoff_delay :: "nat \<Rightarrow> u64 \<Rightarrow> u64 \<Rightarrow> u64 option \<Rightarrow> u64" where
  "compute_backoff_delay attempt base_seconds max_seconds retry_after =
     (let shift = min (attempt - 1) 62;
          raw = sat_mul base_seconds (push_bit shift 1);
          capped = min raw max_seconds;
          delay = sat_add capped (capped div 10)
      in unwrap_or delay (opt_filter (\<lambda>ra. delay \<le> ra) retry_after))"

definition sat_add_u32 :: "u32 \<Rightarrow> u32 \<Rightarrow> u32" where
  "sat_add_u32 a b = (if unat a + unat b < 2 ^ 32 then a + b else 0xFFFFFFFF)"

definition update_throttle_state ::
  "throttle_state \<Rightarrow> rate_limit_info \<Rightarrow> u64 \<Rightarrow> u64 \<Rightarrow> throttle_state" where
  "update_throttle_state state info backoff now_ts =
     state\<lparr>th_consecutive_429_count := sat_add_u32 (th_consecutive_429_count state) 1,
           th_backoff_seconds := backoff,
           th_throttled_until := sat_add now_ts backoff,
           th_last_info := Some info\<rparr>"

text \<open>
  \<open>is_task_delayed\<close> compares the two timestamps as text; it is stated on the task's
  \<open>delayed_until\<close> field (the caller passes \<open>task.task_runtime.delayed_until\<close>).
\<close>

definition is_delayed :: "string option \<Rightarrow> string \<Rightarrow> bool" where
  "is_delayed delayed_until now =
     (if now = [] then False
      else case delayed_until of
        Some d \<Rightarrow> if d \<noteq> [] then now < d else False
      | None \<Rightarrow> False)"

definition clear_throttle_state :: "throttle_state \<Rightarrow> throttle_state" where
  "clear_throttle_state state =
     state\<lparr>th_consecutive_429_count := 0, th_backoff_seconds := 0, th_throttled_until := 0,
           th_last_info := None\<rparr>"

definition job_clears_throttle :: "throttle_state \<Rightarrow> u64 \<Rightarrow> u64 \<Rightarrow> bool" where
  "job_clears_throttle entry job_started_at now =
     (th_throttled_until entry \<le> now
      \<or> (case th_last_info entry of None \<Rightarrow> False | Some info \<Rightarrow> rl_detected_at info < job_started_at))"

section \<open>Lemmas\<close>

lemma unat_two_power [simp]: "n \<le> 62 \<Longrightarrow> unat (2 ^ n :: u64) = 2 ^ n"
proof -
  assume "n \<le> 62"
  then have "(2::nat) ^ n < 2 ^ 64" by (intro power_strict_increasing) auto
  then have "unat (of_nat (2 ^ n) :: u64) = 2 ^ n"
    by (simp only: unat_of_nat) (simp add: take_bit_nat_eq_self)
  then show ?thesis by simp
qed

text \<open>The backoff, on the natural numbers.\<close>

definition backoff_nat :: "nat \<Rightarrow> nat \<Rightarrow> nat \<Rightarrow> nat option \<Rightarrow> nat" where
  "backoff_nat attempt base mx retry_after =
     (let capped = min (base * 2 ^ min (attempt - 1) 62) mx;
          delay = min (capped + capped div 10) (2 ^ 64 - 1)
      in case retry_after of None \<Rightarrow> delay | Some ra \<Rightarrow> max ra delay)"

lemma unat_min: "unat (min a b :: u64) = min (unat a) (unat b)"
  by (simp add: min_def word_le_nat_alt)

lemma compute_backoff_delay_nat:
  "unat (compute_backoff_delay attempt base mx ra) =
     backoff_nat attempt (unat base) (unat mx) (map_option unat ra)"
proof -
  let ?s = "min (attempt - 1) 62"
  let ?raw = "sat_mul base (2 ^ ?s)"
  let ?cap = "min ?raw mx"
  let ?d = "sat_add ?cap (?cap div 10)"
  have raw: "unat ?raw = min (unat base * 2 ^ ?s) (2 ^ 64 - 1)"
    by (simp add: unat_sat_mul)
  have cap: "unat ?cap = min (unat base * 2 ^ ?s) (unat mx)"
  proof -
    have "min (2 ^ 64 - 1) (unat mx) = unat mx"
      using unat_u64_less [of mx] by (intro min.absorb2) simp
    then show ?thesis by (simp only: unat_min raw min.assoc)
  qed
  have d: "unat ?d = min (unat ?cap + unat ?cap div 10) (2 ^ 64 - 1)"
    by (simp only: unat_sat_add unat_div) simp
  have "compute_backoff_delay attempt base mx ra = unwrap_or ?d (opt_filter (\<lambda>r. ?d \<le> r) ra)"
    by (simp only: compute_backoff_delay_def Let_def push_bit_of_1)
  moreover have "backoff_nat attempt (unat base) (unat mx) (map_option unat ra) =
      (case map_option unat ra of None \<Rightarrow> unat ?d | Some r \<Rightarrow> max r (unat ?d))"
    by (simp only: backoff_nat_def Let_def d cap)
  moreover have "unat (unwrap_or x (opt_filter (\<lambda>r. x \<le> r) ra)) =
      (case map_option unat ra of None \<Rightarrow> unat x | Some r \<Rightarrow> max r (unat x))" for x
    by (cases ra) (auto simp: word_le_nat_alt max_def)
  ultimately show ?thesis by (simp only:)
qed

lemma backoff_nat_ge_retry_after: "retry_after = Some ra \<Longrightarrow> ra \<le> backoff_nat a b m retry_after"
  by (simp only: backoff_nat_def Let_def option.case max.cobounded1)

lemma backoff_nat_mono: "a \<le> a' \<Longrightarrow> backoff_nat a b m r \<le> backoff_nat a' b m r"
proof -
  assume "a \<le> a'"
  then have "min (a - 1) 62 \<le> min (a' - 1) 62" by simp
  then have "(2::nat) ^ min (a - 1) 62 \<le> 2 ^ min (a' - 1) 62" by (rule power_increasing) simp
  then have c: "min (b * 2 ^ min (a - 1) 62) m \<le> min (b * 2 ^ min (a' - 1) 62) m"
    by (intro min.mono mult_le_mono order.refl)
  have "min (c + c div 10) x \<le> min (d + d div 10) x" if "c \<le> d" for c d x :: nat
    using that by (intro min.mono add_le_mono div_le_mono order.refl)
  from this [OF c] show ?thesis
    unfolding backoff_nat_def Let_def
    by (cases r) (simp_all only: option.case max.mono order.refl)
qed

section \<open>Properties\<close>

text \<open>The backoff never overflows: without a \<open>Retry-After\<close> it is at most the configured maximum
  and a tenth; it never shrinks from one attempt to the next; and a \<open>Retry-After\<close> is honoured, the
  longer of the two delays being taken.\<close>

theorem backoff_bounds:
  "unat (compute_backoff_delay attempt base mx None) \<le> unat mx + unat mx div 10
   \<and> unat (compute_backoff_delay attempt base mx ra)
       \<le> unat (compute_backoff_delay (attempt + 1) base mx ra)
   \<and> unat (compute_backoff_delay attempt base mx (Some r))
       = max (unat r) (unat (compute_backoff_delay attempt base mx None))"
proof -
  have "backoff_nat attempt (unat base) (unat mx) None \<le> unat mx + unat mx div 10"
  proof -
    let ?c = "min (unat base * 2 ^ min (attempt - 1) 62) (unat mx)"
    have "?c + ?c div 10 \<le> unat mx + unat mx div 10" by (intro add_le_mono div_le_mono) auto
    then show ?thesis unfolding backoff_nat_def Let_def by (simp only: option.case min.coboundedI1)
  qed
  moreover have "backoff_nat attempt b m (Some r') = max r' (backoff_nat attempt b m None)" for b m r'
    by (simp only: backoff_nat_def Let_def option.case)
  ultimately show ?thesis
    unfolding compute_backoff_delay_nat
    using backoff_nat_mono [of attempt "attempt + 1" "unat base" "unat mx" "map_option unat ra"]
    by (simp only: option.map)
qed

text \<open>A tool whose throttle state was updated at \<open>t0\<close> is held back exactly until \<open>t0\<close> plus the
  backoff (saturating), clearing the state releases it at once, and other tools are not affected.\<close>

theorem throttle_window:
  assumes "tool \<noteq> []" "now \<noteq> []" "bt_ok r"
  shows "(is_tool_throttled ts (bt_insert tool (update_throttle_state st info backoff t0) r) tool now
      \<longleftrightarrow> unat (epoch_of ts now) < min (unat t0 + unat backoff) (2 ^ 64 - 1))
    \<and> \<not> is_tool_throttled ts (bt_insert tool (clear_throttle_state st) r) tool now
    \<and> (other = tool \<or> is_tool_throttled ts (bt_insert tool st r) other now
        = is_tool_throttled ts r other now)"
proof -
  let ?until = "sat_add t0 backoff"
  have "is_tool_throttled ts (bt_insert tool (update_throttle_state st info backoff t0) r) tool now
      \<longleftrightarrow> ?until \<noteq> 0 \<and> epoch_of ts now < ?until"
    using assms by (simp add: is_tool_throttled_def bt.get_ins update_throttle_state_def)
  also have "\<dots> \<longleftrightarrow> unat (epoch_of ts now) < unat ?until"
    by (auto simp: word_less_nat_alt)
  also have "unat ?until = min (unat t0 + unat backoff) (2 ^ 64 - 1)" by (rule unat_sat_add)
  finally show ?thesis
    using assms by (auto simp: is_tool_throttled_def bt.get_ins clear_throttle_state_def)
qed

theorem throttle_window_witness:
  "is_tool_throttled (\<lambda>_. Some 90)
     (bt_insert ''codex''
       (update_throttle_state
         \<lparr>th_tool_id = ''codex'', th_throttled_until = 0, th_consecutive_429_count = 0,
          th_backoff_seconds = 0, th_last_info = None\<rparr>
         \<lparr>rl_tool_id = ''codex'', rl_error_code = ''E601'', rl_retry_after_seconds = None,
          rl_detected_at = 60, rl_source_header = None\<rparr> 33 60) []) ''codex'' ''now''"
  using throttle_window [of "''codex''" "''now''" "[]" "\<lambda>_. Some 90"
      "\<lparr>th_tool_id = ''codex'', th_throttled_until = 0, th_consecutive_429_count = 0,
        th_backoff_seconds = 0, th_last_info = None\<rparr>"
      "\<lparr>rl_tool_id = ''codex'', rl_error_code = ''E601'', rl_retry_after_seconds = None,
        rl_detected_at = 60, rl_source_header = None\<rparr>" 33 60 "''codex''"]
  by (simp add: epoch_of_def)

end
