(* ===== verification/Model.thy ===== *)
theory Model
  imports Workflow Gate Rate_Limit
begin

text \<open>
  The typed task registry of \<open>core/src/coordinator/model.rs\<close>: the records \<open>Task\<close>, \<open>TaskRuntime\<close>,
  \<open>TaskWorktree\<close> and \<open>TaskRegistry\<close> with every field of the source, and their methods.
  \<open>BTreeMap\<close> fields are ordered association lists (\<open>btree\<close>); states stay the strings the source
  stores, parsed by \<open>workflow_state_of\<close> and \<open>runtime_status_of\<close> exactly where the code parses them.
\<close>

section \<open>Records\<close>

datatype external_block_source = Src_Prd | Src_Operator

record external_block =
  eb_reason :: string
  eb_clears_when :: string
  eb_tracking_id :: "string option"
  eb_source :: external_block_source

record external_block_resolution =
  er_evidence :: string
  er_resolved_at :: string
  er_block_reason :: string
  er_tracking_id :: "string option"

record task_worktree =
  wt_worktree_path :: "string option"
  wt_branch :: "string option"
  wt_base_branch :: "string option"
  wt_last_commit :: "string option"
  wt_session_id :: "string option"
  wt_extra :: "(string, json) btree"

record task_review =
  rv_changed :: "bool option"
  rv_last_reviewed_at :: "string option"
  rv_reviewer :: "string option"
  rv_reason :: "string option"
  rv_extra :: "(string, json) btree"

record runtime_metrics =
  mx_retries :: "int option"
  mx_extra :: "(string, int) btree"

record slo_warning =
  sw_metric :: "string option"
  sw_threshold :: "int option"
  sw_value :: "int option"
  sw_warned_at :: "string option"
  sw_suggestion :: "string option"
  sw_extra :: "(string, json) btree"

record task_runtime =
  tr_claim_id :: "string option"
  tr_run_id :: "string option"
  tr_coordinator_epoch :: "int option"
  tr_process_group_id :: "int option"
  tr_heartbeat_seq :: "int option"
  tr_lease_expires_at :: "string option"
  tr_locked_resources_json :: "string option"
  tr_status :: "string option"
  tr_pid :: "int option"
  tr_current_phase :: "string option"
  tr_message :: "string option"
  tr_progress :: "nat option"
  tr_worker_id :: "string option"
  tr_tool :: "string option"
  tr_worktree :: "string option"
  tr_branch :: "string option"
  tr_stdout_log :: "string option"
  tr_stderr_log :: "string option"
  tr_events_log :: "string option"
  tr_last_event_at :: "string option"
  tr_registry_updated_at :: "string option"
  tr_last_error :: "string option"
  tr_last_error_code :: "string option"
  tr_last_error_origin :: "string option"
  tr_last_error_message :: "string option"
  tr_last_heartbeat :: "string option"
  tr_started_at :: "string option"
  tr_phase_started_at :: "string option"
  tr_attempt :: "int option"
  tr_retries :: "int option"
  tr_completion_kind :: "string option"
  tr_metrics :: "runtime_metrics option"
  tr_slo_warnings :: "(string, slo_warning) btree option"
  tr_merge_result_pending :: "bool option"
  tr_merge_result_file :: "string option"
  tr_merge_worker_pid :: "int option"
  tr_merge_result_started_at :: "string option"
  tr_last_merge_result_file :: "string option"
  tr_last_merge_result_status :: "string option"
  tr_last_merge_result_rc :: "int option"
  tr_last_merge_result_at :: "string option"
  tr_delayed_until :: "string option"
  tr_review_cycles :: "nat option"
  tr_active_session_id :: "string option"
  tr_last_session_id :: "string option"
  tr_last_session_tool :: "string option"
  tr_last_worktree_path :: "string option"
  tr_last_branch :: "string option"
  tr_result_explanation :: "string option"
  tr_unmet_preconditions :: "string list"
  tr_gate_verdict :: "gate_verdict option"
  tr_external_block_resolution :: "external_block_resolution option"
  tr_approval :: "approval_state option"
  tr_extra :: "(string, json) btree"

record task =
  tk_id :: string
  tk_state :: string
  tk_title :: "string option"
  tk_priority :: "string option"
  tk_category :: "string option"
  tk_scope :: "string option"
  tk_base_branch :: "string option"
  tk_coordinator_tool :: "string option"
  tk_tool :: "string option"
  tk_assignee :: "json option"
  tk_claimed_at :: "string option"
  tk_pr_url :: "string option"
  tk_review :: "task_review option"
  tk_worktree :: "task_worktree option"
  tk_dependencies :: "string list"
  tk_exclusive_resources :: "string list"
  tk_blocked_on_external :: "external_block option"
  tk_gate :: "task_gate option"
  tk_runtime :: task_runtime
  tk_state_changed_at :: "string option"
  tk_updated_at :: "string option"
  tk_extra :: "(string, json) btree"

record resource_lock =
  lk_task_id :: string
  lk_claim_id :: string
  lk_worktree_path :: string
  lk_locked_at :: string
  lk_expires_at :: "string option"
  lk_extra :: "(string, json) btree"

record task_registry =
  rg_tasks :: "task list"
  rg_resource_locks :: "(string, resource_lock) btree"
  rg_external_merged :: "string list"
  rg_updated_at :: "string option"
  rg_extra :: "(string, json) btree"

definition default_worktree :: task_worktree where
  "default_worktree =
     \<lparr>wt_worktree_path = None, wt_branch = None, wt_base_branch = None, wt_last_commit = None,
      wt_session_id = None, wt_extra = []\<rparr>"

definition default_metrics :: runtime_metrics where
  "default_metrics = \<lparr>mx_retries = None, mx_extra = []\<rparr>"

definition default_runtime :: task_runtime where
  "default_runtime =
     \<lparr>tr_claim_id = None, tr_run_id = None, tr_coordinator_epoch = None, tr_process_group_id = None,
      tr_heartbeat_seq = None, tr_lease_expires_at = None, tr_locked_resources_json = None,
      tr_status = None, tr_pid = None, tr_current_phase = None, tr_message = None,
      tr_progress = None, tr_worker_id = None, tr_tool = None, tr_worktree = None,
      tr_branch = None, tr_stdout_log = None, tr_stderr_log = None, tr_events_log = None,
      tr_last_event_at = None, tr_registry_updated_at = None, tr_last_error = None,
      tr_last_error_code = None, tr_last_error_origin = None, tr_last_error_message = None,
      tr_last_heartbeat = None, tr_started_at = None, tr_phase_started_at = None,
      tr_attempt = None, tr_retries = None, tr_completion_kind = None, tr_metrics = None,
      tr_slo_warnings = None, tr_merge_result_pending = None, tr_merge_result_file = None,
      tr_merge_worker_pid = None, tr_merge_result_started_at = None,
      tr_last_merge_result_file = None, tr_last_merge_result_status = None,
      tr_last_merge_result_rc = None, tr_last_merge_result_at = None, tr_delayed_until = None,
      tr_review_cycles = None, tr_active_session_id = None, tr_last_session_id = None,
      tr_last_session_tool = None, tr_last_worktree_path = None, tr_last_branch = None,
      tr_result_explanation = None, tr_unmet_preconditions = [], tr_gate_verdict = None,
      tr_external_block_resolution = None, tr_approval = None, tr_extra = []\<rparr>"

text \<open>A task as the PRD loader creates it: state \<open>todo\<close>, everything else absent.\<close>

definition default_task :: task where
  "default_task =
     \<lparr>tk_id = [], tk_state = ''todo'', tk_title = None, tk_priority = None, tk_category = None,
      tk_scope = None, tk_base_branch = None, tk_coordinator_tool = None, tk_tool = None,
      tk_assignee = None, tk_claimed_at = None, tk_pr_url = None, tk_review = None,
      tk_worktree = None, tk_dependencies = [], tk_exclusive_resources = [],
      tk_blocked_on_external = None, tk_gate = None, tk_runtime = default_runtime,
      tk_state_changed_at = None, tk_updated_at = None, tk_extra = []\<rparr>"

definition default_registry :: task_registry where
  "default_registry =
     \<lparr>rg_tasks = [], rg_resource_locks = [], rg_external_merged = [], rg_updated_at = None,
      rg_extra = []\<rparr>"

text \<open>Identifiers and dependency lists of a PRD may be strings or numbers.\<close>

fun stringish :: "(json \<Rightarrow> string) \<Rightarrow> json \<Rightarrow> string + string" where
  "stringish render (JStr s) = Inr s"
| "stringish render (JInt i) = Inr (show_int i)"
| "stringish render (JFloat s) = Inr s"
| "stringish render other = Inl (''expected string or number, got '' @ render other)"

fun vec_stringish :: "(json \<Rightarrow> string) \<Rightarrow> json list \<Rightarrow> string + string list" where
  "vec_stringish render [] = Inr []"
| "vec_stringish render (v # vs) =
     try_bind (stringish render v) (\<lambda>s. try_bind (vec_stringish render vs) (\<lambda>ss. Inr (s # ss)))"

section \<open>Methods of a task\<close>

definition workflow_state_of :: "task \<Rightarrow> workflow_state option" where
  "workflow_state_of t = (case workflow_from_str (tk_state t) of Inl _ \<Rightarrow> None | Inr s \<Rightarrow> Some s)"

definition is_active :: "task \<Rightarrow> bool" where
  "is_active t =
     (workflow_state_of t \<in> {Some Claimed, Some InProgress, Some PrOpen, Some ChangesRequested,
                             Some Queued})"

definition is_merged :: "task \<Rightarrow> bool" where
  "is_merged t = (workflow_state_of t = Some Merged)"

definition is_human_approval_gate :: "task \<Rightarrow> bool" where
  "is_human_approval_gate t =
     (case tk_gate t of None \<Rightarrow> False | Some g \<Rightarrow> is_human_approval g)"

definition is_awaiting_approval :: "task \<Rightarrow> bool" where
  "is_awaiting_approval t = (workflow_state_of t \<in> {Some WaitingApproval, Some Expired})"

definition gate_verdict_satisfies_dependencies :: "task \<Rightarrow> bool" where
  "gate_verdict_satisfies_dependencies t =
     (case tk_gate t of
        None \<Rightarrow> True
      | Some g \<Rightarrow> is_human_approval g
                 \<or> tr_gate_verdict (tk_runtime t) = Some (tg_required_verdict g))"

definition satisfies_dependants :: "task \<Rightarrow> bool" where
  "satisfies_dependants t =
     ((case workflow_state_of t of None \<Rightarrow> False | Some s \<Rightarrow> state_satisfies_dependants s)
      \<and> gate_verdict_satisfies_dependencies t)"

definition worktree_field :: "(task_worktree \<Rightarrow> string option) \<Rightarrow> task \<Rightarrow> string option" where
  "worktree_field f t = Option.bind (tk_worktree t) f"

definition worktree_path :: "task \<Rightarrow> string option" where
  "worktree_path t = nonempty (worktree_field wt_worktree_path t)"

definition branch_of :: "task \<Rightarrow> string option" where
  "branch_of t = nonempty (worktree_field wt_branch t)"

definition last_commit :: "task \<Rightarrow> string option" where
  "last_commit t = nonempty (worktree_field wt_last_commit t)"

definition session_id :: "task \<Rightarrow> string option" where
  "session_id t = nonempty (worktree_field wt_session_id t)"

definition has_worktree_attached :: "task \<Rightarrow> bool" where
  "has_worktree_attached t =
     (case tk_worktree t of
        None \<Rightarrow> False
      | Some w \<Rightarrow> wt_worktree_path w \<noteq> None \<or> wt_branch w \<noteq> None \<or> wt_base_branch w \<noteq> None
                 \<or> wt_last_commit w \<noteq> None \<or> wt_session_id w \<noteq> None \<or> wt_extra w \<noteq> [])"

definition status_of :: "task_runtime \<Rightarrow> runtime_status" where
  "status_of rt =
     (case runtime_from_str (unwrap_or (runtime_as_str Rt_Idle) (tr_status rt)) of
        Inl _ \<Rightarrow> Rt_Idle | Inr s \<Rightarrow> s)"

definition runtime_status_of :: "task \<Rightarrow> runtime_status" where
  "runtime_status_of t = status_of (tk_runtime t)"

definition is_awaiting_same_worktree_retry :: "task \<Rightarrow> bool" where
  "is_awaiting_same_worktree_retry t =
     (workflow_state_of t = Some Todo \<and> runtime_status_of t = Rt_Failed
      \<and> branch_of t \<noteq> None \<and> worktree_path t \<noteq> None)"

definition is_awaiting_tool_availability_retry :: "task \<Rightarrow> bool" where
  "is_awaiting_tool_availability_retry t =
     (is_awaiting_same_worktree_retry t
      \<and> tr_last_error_code (tk_runtime t) \<in> {Some ''E601'', Some ''E602''})"

definition task_tool :: "task \<Rightarrow> string option" where
  "task_tool t = nonempty (tk_tool t)"

definition coordinator_tool :: "task \<Rightarrow> string option" where
  "coordinator_tool t = nonempty (tk_coordinator_tool t)"

definition category :: "task \<Rightarrow> string option" where
  "category t = nonempty (tk_category t)"

definition scope_of :: "task \<Rightarrow> string option" where
  "scope_of t = nonempty (tk_scope t)"

definition base_branch :: "string \<Rightarrow> task \<Rightarrow> string" where
  "base_branch dflt t =
     unwrap_or dflt
       (or_else (nonempty (tk_base_branch t)) (nonempty (worktree_field wt_base_branch t)))"

definition parse_priority_value :: "string option \<Rightarrow> int" where
  "parse_priority_value priority =
     (case map_option (\<lambda>v. to_ascii_lowercase (trim v)) priority of
        None \<Rightarrow> 99
      | Some v \<Rightarrow>
          if v = ''p0'' then 0 else if v = ''p1'' then 1 else if v = ''p2'' then 2
          else if v = ''p3'' then 3 else if v = ''p4'' then 4
          else unwrap_or 99 (parse_i32 v))"

definition priority_rank :: "task \<Rightarrow> int" where
  "priority_rank t = parse_priority_value (tk_priority t)"

definition external_block_is_cleared :: "task \<Rightarrow> bool" where
  "external_block_is_cleared t =
     (case tk_blocked_on_external t of
        None \<Rightarrow> True
      | Some block \<Rightarrow>
          (case tr_external_block_resolution (tk_runtime t) of
             None \<Rightarrow> False
           | Some r \<Rightarrow> er_tracking_id r = eb_tracking_id block \<and> er_block_reason r = eb_reason block))"

definition current_phase :: "task \<Rightarrow> string" where
  "current_phase t = unwrap_or ''dev'' (nonempty (tr_current_phase (tk_runtime t)))"

definition set_workflow_state :: "workflow_state \<Rightarrow> task \<Rightarrow> task" where
  "set_workflow_state s t = t\<lparr>tk_state := workflow_as_str s\<rparr>"

definition ensure_worktree :: "task \<Rightarrow> task_worktree" where
  "ensure_worktree t = unwrap_or default_worktree (tk_worktree t)"

definition clear_assignment :: "task \<Rightarrow> task" where
  "clear_assignment t = t\<lparr>tk_assignee := None, tk_claimed_at := None, tk_worktree := None\<rparr>"

text \<open>Mutation of the runtime through \<open>ensure_runtime\<close>.\<close>

definition upd_runtime :: "(task_runtime \<Rightarrow> task_runtime) \<Rightarrow> task \<Rightarrow> task" where
  "upd_runtime f t = t\<lparr>tk_runtime := f (tk_runtime t)\<rparr>"

definition touch_state_changed :: "string \<Rightarrow> task \<Rightarrow> task" where
  "touch_state_changed now t = t\<lparr>tk_state_changed_at := Some now, tk_updated_at := Some now\<rparr>"

section \<open>Methods of the runtime record\<close>

definition set_status :: "runtime_status \<Rightarrow> task_runtime \<Rightarrow> task_runtime" where
  "set_status st rt = rt\<lparr>tr_status := Some (runtime_as_str st)\<rparr>"

definition set_last_error_details ::
  "string \<Rightarrow> string \<Rightarrow> string \<Rightarrow> task_runtime \<Rightarrow> task_runtime" where
  "set_last_error_details code origin message rt =
     rt\<lparr>tr_last_error_code := Some code, tr_last_error_origin := Some origin,
        tr_last_error_message := Some message\<rparr>"

definition clear_last_error_details :: "task_runtime \<Rightarrow> task_runtime" where
  "clear_last_error_details rt =
     rt\<lparr>tr_last_error_code := None, tr_last_error_origin := None, tr_last_error_message := None,
        tr_result_explanation := None, tr_unmet_preconditions := []\<rparr>"

definition ensure_metrics :: "task_runtime \<Rightarrow> runtime_metrics" where
  "ensure_metrics rt = unwrap_or default_metrics (tr_metrics rt)"

definition metric_i64 :: "string \<Rightarrow> task_runtime \<Rightarrow> int option" where
  "metric_i64 metric_name rt =
     (if metric_name = ''retries''
      then or_else (tr_retries rt) (Option.bind (tr_metrics rt) mx_retries)
      else Option.bind (tr_metrics rt) (\<lambda>m. bt_get (mx_extra m) metric_name))"

definition set_metric_i64 :: "string \<Rightarrow> int \<Rightarrow> task_runtime \<Rightarrow> task_runtime" where
  "set_metric_i64 metric_name value rt =
     (let m = ensure_metrics rt in
      if metric_name = ''retries''
      then rt\<lparr>tr_retries := Some value, tr_metrics := Some (m\<lparr>mx_retries := Some value\<rparr>)\<rparr>
      else rt\<lparr>tr_metrics := Some (m\<lparr>mx_extra := bt_insert metric_name value (mx_extra m)\<rparr>)\<rparr>)"

definition has_slo_warning :: "string \<Rightarrow> task_runtime \<Rightarrow> bool" where
  "has_slo_warning metric_name rt =
     (case tr_slo_warnings rt of None \<Rightarrow> False | Some ws \<Rightarrow> bt_get ws metric_name \<noteq> None)"

definition upsert_slo_warning ::
  "string \<Rightarrow> int \<Rightarrow> int \<Rightarrow> string \<Rightarrow> string \<Rightarrow> task_runtime \<Rightarrow> task_runtime" where
  "upsert_slo_warning metric threshold value suggestion warned_at rt =
     rt\<lparr>tr_slo_warnings := Some
          (bt_insert metric
             \<lparr>sw_metric = Some metric, sw_threshold = Some threshold, sw_value = Some value,
              sw_warned_at = Some warned_at, sw_suggestion = Some suggestion, sw_extra = []\<rparr>
             (unwrap_or [] (tr_slo_warnings rt)))\<rparr>"

definition retries_count :: "task_runtime \<Rightarrow> nat" where
  "retries_count rt = unwrap_or 0 (Option.bind (metric_i64 ''retries'' rt) usize_try_from)"

text \<open>\<open>retries_count().saturating_add(1)\<close>, stored back as \<open>i64\<close>; also returned.\<close>

definition increment_retries :: "task_runtime \<Rightarrow> task_runtime \<times> nat" where
  "increment_retries rt =
     (let nxt = min (retries_count rt + 1) (2 ^ 64 - 1)
      in (set_metric_i64 ''retries'' (usize_as_i64 nxt) rt, nxt))"

section \<open>Methods of the registry\<close>

definition find_task :: "task list \<Rightarrow> string \<Rightarrow> task option" where
  "find_task ts task_id = List.find (\<lambda>t. tk_id t = task_id) ts"

text \<open>\<open>find_task_mut\<close>: the first task with the id, changed in place.\<close>

fun update_task :: "string \<Rightarrow> (task \<Rightarrow> task) \<Rightarrow> task list \<Rightarrow> task list" where
  "update_task task_id f [] = []"
| "update_task task_id f (t # ts) =
     (if tk_id t = task_id then f t # ts else t # update_task task_id f ts)"

definition lock_states :: "string list" where
  "lock_states = [''claimed'', ''in_progress'', ''pr_open'', ''changes_requested'', ''queued'']"

definition lock_claim_id :: "task \<Rightarrow> string" where
  "lock_claim_id t =
     unwrap_or (''unclaimed-'' @ tk_id t)
       (or_else (nonempty (tr_claim_id (tk_runtime t))) (tr_active_session_id (tk_runtime t)))"

definition make_lock ::
  "(string, resource_lock) btree \<Rightarrow> string \<Rightarrow> task \<Rightarrow> string \<Rightarrow> resource_lock" where
  "make_lock previous now t resource =
     (let path = unwrap_or [] (worktree_field wt_worktree_path t);
          claim = lock_claim_id t
      in \<lparr>lk_task_id = tk_id t, lk_claim_id = claim, lk_worktree_path = path,
          lk_locked_at =
            unwrap_or now
              (map_option lk_locked_at
                (opt_filter (\<lambda>l. lk_task_id l = tk_id t \<and> lk_claim_id l = claim
                                 \<and> lk_worktree_path l = path)
                  (bt_get previous resource))),
          lk_expires_at = tr_lease_expires_at (tk_runtime t), lk_extra = []\<rparr>)"

text \<open>The (resource, lock) pairs the loop inserts, in the order it inserts them.\<close>

definition task_locks ::
  "(string, resource_lock) btree \<Rightarrow> string \<Rightarrow> task \<Rightarrow> (string \<times> resource_lock) list" where
  "task_locks previous now t =
     (if tk_id t = [] \<or> tk_state t \<notin> set lock_states then []
      else map (\<lambda>r. (r, make_lock previous now t r))
             (filter (\<lambda>r. r \<noteq> []) (tk_exclusive_resources t)))"

definition recompute_resource_locks :: "string \<Rightarrow> task_registry \<Rightarrow> task_registry" where
  "recompute_resource_locks now r =
     r\<lparr>rg_resource_locks :=
         fold (\<lambda>(k, v). bt_insert k v)
           (concat (map (task_locks (rg_resource_locks r) now) (rg_tasks r))) []\<rparr>"

definition active_task_worktree_paths :: "task_registry \<Rightarrow> string list" where
  "active_task_worktree_paths r =
     remdups (concat (map (\<lambda>t.
       if tk_state t \<notin> set lock_states then []
       else case nonempty (worktree_field wt_worktree_path t) of None \<Rightarrow> [] | Some p \<Rightarrow> [p])
       (rg_tasks r)))"

definition slot_blocking_states :: "string list" where
  "slot_blocking_states =
     [''claimed'', ''in_progress'', ''pr_open'', ''changes_requested'', ''queued'', ''blocked'']"

definition can_reuse_worktree_slot :: "task_registry \<Rightarrow> string \<Rightarrow> bool" where
  "can_reuse_worktree_slot r path =
     list_all (\<lambda>t. worktree_field wt_worktree_path t \<noteq> Some path
                 \<or> \<not> (tk_state t \<in> set slot_blocking_states \<or> is_awaiting_same_worktree_retry t))
       (rg_tasks r)"

definition task_on_worktree_is_permanently_stuck :: "task_registry \<Rightarrow> string \<Rightarrow> bool" where
  "task_on_worktree_is_permanently_stuck r path =
     (let here = filter (\<lambda>t. Model.worktree_path t = Some path) (rg_tasks r) in
      list_ex (\<lambda>t. tk_state t \<in> {''blocked'', ''failed'', ''abandoned''}) here \<or> here = [])"

definition has_in_progress_or_queued_on_worktree :: "task_registry \<Rightarrow> string \<Rightarrow> bool" where
  "has_in_progress_or_queued_on_worktree r path =
     list_ex (\<lambda>t. workflow_state_of t \<in> {Some InProgress, Some Queued}
                \<and> Model.worktree_path t = Some path) (rg_tasks r)"

record task_counts =
  ct_total :: nat
  ct_todo :: nat
  ct_active :: nat
  ct_blocked :: nat
  ct_merged :: nat

definition state_or_todo :: "task \<Rightarrow> workflow_state" where
  "state_or_todo t = unwrap_or Todo (workflow_state_of t)"

fun count_task :: "workflow_state \<Rightarrow> task_counts \<Rightarrow> task_counts" where
  "count_task Todo c = c\<lparr>ct_todo := ct_todo c + 1\<rparr>"
| "count_task Blocked c = c\<lparr>ct_blocked := ct_blocked c + 1\<rparr>"
| "count_task Merged c = c\<lparr>ct_merged := ct_merged c + 1\<rparr>"
| "count_task Claimed c = c\<lparr>ct_active := ct_active c + 1\<rparr>"
| "count_task InProgress c = c\<lparr>ct_active := ct_active c + 1\<rparr>"
| "count_task Testing c = c\<lparr>ct_active := ct_active c + 1\<rparr>"
| "count_task Reviewing c = c\<lparr>ct_active := ct_active c + 1\<rparr>"
| "count_task PrOpen c = c\<lparr>ct_active := ct_active c + 1\<rparr>"
| "count_task ChangesRequested c = c\<lparr>ct_active := ct_active c + 1\<rparr>"
| "count_task Queued c = c\<lparr>ct_active := ct_active c + 1\<rparr>"
| "count_task Approved c = c\<lparr>ct_merged := ct_merged c + 1\<rparr>"
| "count_task Rejected c = c\<lparr>ct_blocked := ct_blocked c + 1\<rparr>"
| "count_task Abandoned c = c"
| "count_task WaitingApproval c = c"
| "count_task Expired c = c"

definition counts :: "task_registry \<Rightarrow> task_counts" where
  "counts r =
     fold (\<lambda>t. count_task (state_or_todo t)) (rg_tasks r)
       \<lparr>ct_total = length (rg_tasks r), ct_todo = 0, ct_active = 0, ct_blocked = 0, ct_merged = 0\<rparr>"

definition waiting_approval_count :: "task_registry \<Rightarrow> nat" where
  "waiting_approval_count r = length (filter is_awaiting_approval (rg_tasks r))"

definition requires_integrity_pause :: "string option \<Rightarrow> bool \<Rightarrow> bool \<Rightarrow> bool" where
  "requires_integrity_pause error_code has_commits_ahead_of_base branch_merged_into_base =
     (error_code = Some ''E901'' \<and> has_commits_ahead_of_base \<and> \<not> branch_merged_into_base)"

definition task_delayed :: "task \<Rightarrow> string \<Rightarrow> bool" where
  "task_delayed t now = is_delayed (tr_delayed_until (tk_runtime t)) now"

section \<open>Lemmas\<close>

text \<open>Reading back what a setter wrote.\<close>

lemma workflow_state_of_set [simp]: "workflow_state_of (set_workflow_state s t) = Some s"
  by (simp add: workflow_state_of_def set_workflow_state_def wf_text.parse_show)

lemma status_of_set [simp]: "status_of (set_status st rt) = st"
  by (simp add: status_of_def set_status_def rt_text.parse_show)

lemma upd_runtime_id [simp]: "tk_id (upd_runtime f t) = tk_id t"
  by (simp add: upd_runtime_def)

text \<open>\<open>workflow_state_of\<close> only reads the state text; frame facts for the other setters.\<close>

lemma state_frame [coord_frame]:
  "workflow_state_of (upd_runtime f t) = workflow_state_of t"
  "workflow_state_of (touch_state_changed now t) = workflow_state_of t"
  "workflow_state_of (t\<lparr>tk_assignee := a\<rparr>) = workflow_state_of t"
  "workflow_state_of (t\<lparr>tk_worktree := w\<rparr>) = workflow_state_of t"
  "workflow_state_of (t\<lparr>tk_tool := tool\<rparr>) = workflow_state_of t"
  by (simp_all add: workflow_state_of_def upd_runtime_def touch_state_changed_def)

lemma retries_frame [coord_frame]:
  "retries_count (set_status st rt) = retries_count rt"
  "retries_count (rt\<lparr>tr_pid := p\<rparr>) = retries_count rt"
  by (simp_all add: retries_count_def metric_i64_def set_status_def)

lemma retries_count_set_metric:
  "retries_count (set_metric_i64 ''retries'' v rt) = unwrap_or 0 (usize_try_from v)"
  by (simp add: retries_count_def metric_i64_def set_metric_i64_def Let_def)

lemma retries_count_increment:
  "retries_count rt < 2 ^ 63 - 1 \<Longrightarrow>
     retries_count (fst (increment_retries rt)) = retries_count rt + 1"
  by (simp add: increment_retries_def retries_count_set_metric usize_as_i64_def
      usize_try_from_def Let_def nat_add_distrib)

text \<open>The task store: finding and changing a task by its id.\<close>

locale keyed_store =
  fixes find :: "'s \<Rightarrow> 'k \<Rightarrow> 'v option"
    and upd :: "'k \<Rightarrow> ('v \<Rightarrow> 'v) \<Rightarrow> 's \<Rightarrow> 's"
    and key :: "'v \<Rightarrow> 'k"
  assumes find_key: "find s k = Some v \<Longrightarrow> key v = k"
    and find_upd: "\<forall>v. key (f v) = key v \<Longrightarrow>
      find (upd k f s) j = (if j = k then map_option f (find s k) else find s j)"
begin

lemma find_upd_same:
  "\<forall>v. key (f v) = key v \<Longrightarrow> find s k = Some v \<Longrightarrow> find (upd k f s) k = Some (f v)"
  by (simp add: find_upd)

lemma find_upd_other:
  "\<forall>v. key (f v) = key v \<Longrightarrow> j \<noteq> k \<Longrightarrow> find (upd k f s) j = find s j"
  by (simp add: find_upd)

lemma find_upd_twice:
  assumes "\<forall>v. key (f v) = key v" "\<forall>v. key (g v) = key v"
  shows "find (upd k g (upd k f s)) j = find (upd k (g \<circ> f) s) j"
  using assms by (simp add: find_upd option.map_comp)

end

lemma find_task_Nil [simp]: "find_task [] k = None"
  by (simp add: find_task_def)

lemma find_task_Cons [simp]:
  "find_task (t # ts) k = (if tk_id t = k then Some t else find_task ts k)"
  by (simp add: find_task_def)

lemma find_task_in: "find_task ts k = Some t \<Longrightarrow> t \<in> set ts \<and> tk_id t = k"
  by (induction ts) (auto split: if_splits)

lemma find_task_update:
  "\<forall>t. tk_id (f t) = tk_id t \<Longrightarrow>
     find_task (update_task k f ts) j = (if j = k then map_option f (find_task ts k) else find_task ts j)"
  by (induction ts) auto

interpretation tasks: keyed_store find_task update_task tk_id
  by unfold_locales (auto dest: find_task_in simp: find_task_update)

lemma set_update_task:
  "set (update_task k f ts) \<subseteq> set ts \<union> f ` {t \<in> set ts. tk_id t = k}"
  by (induction ts) auto

lemma length_update_task [simp]: "length (update_task k f ts) = length ts"
  by (induction ts) auto

lemma update_task_none: "find_task ts k = None \<Longrightarrow> update_task k f ts = ts"
  by (induction ts) (auto split: if_splits)

text \<open>Resource locks.  The loop writes one entry per pair (resource, active holder).\<close>

definition lock_pairs :: "task list \<Rightarrow> (string \<times> task) list" where
  "lock_pairs ts =
     concat (map (\<lambda>t. if tk_id t = [] \<or> tk_state t \<notin> set lock_states then []
                     else map (\<lambda>r. (r, t)) (filter (\<lambda>r. r \<noteq> []) (tk_exclusive_resources t))) ts)"

lemma locks_of_pairs:
  "concat (map (task_locks prev now) ts) = map (\<lambda>(k, t). (k, make_lock prev now t k)) (lock_pairs ts)"
  by (induction ts) (auto simp: lock_pairs_def task_locks_def)

lemma map_of_map_pair:
  "map_of (map (\<lambda>(k, t). (k, g t k)) kts) k = map_option (\<lambda>t. g t k) (map_of kts k)"
  by (induction kts) auto

lemma recompute_ok: "bt_ok (rg_resource_locks (recompute_resource_locks now r))"
  using bt.fold_ins_inv [of "[]"] by (simp add: recompute_resource_locks_def)

lemma recompute_get:
  "bt_get (rg_resource_locks (recompute_resource_locks now r)) k =
     map_option (\<lambda>t. make_lock (rg_resource_locks r) now t k) (map_of (rev (lock_pairs (rg_tasks r))) k)"
  by (simp add: recompute_resource_locks_def bt.fold_ins_get locks_of_pairs rev_map
      map_of_map_pair map_add_def fun_eq_iff split: option.splits)

lemma lock_pairs_iff:
  "(k, t) \<in> set (lock_pairs ts) \<longleftrightarrow>
     t \<in> set ts \<and> tk_id t \<noteq> [] \<and> tk_state t \<in> set lock_states
     \<and> k \<in> set (tk_exclusive_resources t) \<and> k \<noteq> []"
  by (induction ts) (auto simp: lock_pairs_def split: if_splits)

lemma make_lock_task [simp]: "lk_task_id (make_lock prev now t k) = tk_id t"
  by (simp add: make_lock_def Let_def)

lemma make_lock_stable:
  "bt_get prev' k = Some (make_lock prev now t k) \<Longrightarrow> make_lock prev' now' t k = make_lock prev now t k"
  by (simp add: make_lock_def Let_def)

lemma recompute_again: "recompute_resource_locks now' (recompute_resource_locks now r) = recompute_resource_locks now r"
proof -
  let ?r = "recompute_resource_locks now r"
  have "rg_resource_locks (recompute_resource_locks now' ?r) = rg_resource_locks ?r"
  proof (rule bt_eqI [OF recompute_ok recompute_ok], rule ext)
    fix j
    have tasks: "rg_tasks ?r = rg_tasks r" by (simp add: recompute_resource_locks_def)
    show "bt_get (rg_resource_locks (recompute_resource_locks now' ?r)) j = bt_get (rg_resource_locks ?r) j"
    proof (cases "map_of (rev (lock_pairs (rg_tasks r))) j")
      case None
      then show ?thesis by (simp add: recompute_get tasks)
    next
      case (Some t)
      then have "bt_get (rg_resource_locks ?r) j = Some (make_lock (rg_resource_locks r) now t j)"
        by (simp add: recompute_get)
      from make_lock_stable [OF this] this Some show ?thesis
        unfolding recompute_get [of now' ?r] tasks by simp
    qed
  qed
  then show ?thesis
    by (simp add: recompute_resource_locks_def)
qed

text \<open>A task in a given state with nothing else set, for concrete instances.\<close>

definition sample_task :: "string \<Rightarrow> workflow_state \<Rightarrow> task" where
  "sample_task k s = set_workflow_state s (default_task\<lparr>tk_id := k\<rparr>)"

lemma sample_task_fields [simp]:
  "tk_id (sample_task k s) = k"
  "workflow_state_of (sample_task k s) = Some s"
  "tk_runtime (sample_task k s) = default_runtime"
  "tk_gate (sample_task k s) = None"
  "tk_dependencies (sample_task k s) = []"
  "tk_worktree (sample_task k s) = None"
  "tk_blocked_on_external (sample_task k s) = None"
  "tk_exclusive_resources (sample_task k s) = []"
  "tk_tool (sample_task k s) = None"
  "tk_category (sample_task k s) = None"
  "tk_priority (sample_task k s) = None"
  by (simp_all add: sample_task_def) (simp_all add: set_workflow_state_def default_task_def)

lemma sample_task_upd [coord_frame]:
  "workflow_state_of (t\<lparr>tk_gate := g\<rparr>) = workflow_state_of t"
  "workflow_state_of (t\<lparr>tk_dependencies := ds\<rparr>) = workflow_state_of t"
  "workflow_state_of (t\<lparr>tk_runtime := rt\<rparr>) = workflow_state_of t"
  by (simp_all add: workflow_state_of_def)

section \<open>Properties\<close>

text \<open>After the resource locks are recomputed, a resource is locked exactly when some task in a
  lock-holding state declares it, the lock names such a task, and recomputing again at any time
  changes nothing, so a lock keeps the time it was first taken.\<close>

theorem locks_belong_to_holders:
  "(bt_get (rg_resource_locks (recompute_resource_locks now r)) k \<noteq> None) =
     (\<exists>t. (k, t) \<in> set (lock_pairs (rg_tasks r)))
   \<and> {l. bt_get (rg_resource_locks (recompute_resource_locks now r)) k = Some l
         \<and> \<not> (\<exists>t \<in> set (rg_tasks r). tk_id t \<noteq> [] \<and> tk_state t \<in> set lock_states
              \<and> k \<in> set (tk_exclusive_resources t) \<and> k \<noteq> []
              \<and> lk_task_id l = tk_id t \<and> lk_claim_id l = lock_claim_id t)} = {}
   \<and> recompute_resource_locks now' (recompute_resource_locks now r) = recompute_resource_locks now r"
proof -
  let ?r = "recompute_resource_locks now r"
  have mem: "map_of (rev (lock_pairs (rg_tasks r))) k = Some t \<Longrightarrow> (k, t) \<in> set (lock_pairs (rg_tasks r))"
    for k t using map_of_SomeD by fastforce
  have "map_of (rev (lock_pairs (rg_tasks r))) k \<noteq> None \<longleftrightarrow> k \<in> fst ` set (lock_pairs (rg_tasks r))"
    by (metis map_of_eq_None_iff set_rev)
  then have locked: "(bt_get (rg_resource_locks ?r) k \<noteq> None) = (\<exists>t. (k, t) \<in> set (lock_pairs (rg_tasks r)))"
    unfolding recompute_get by force
  have owner: "\<exists>t \<in> set (rg_tasks r). tk_id t \<noteq> [] \<and> tk_state t \<in> set lock_states
      \<and> k \<in> set (tk_exclusive_resources t) \<and> k \<noteq> [] \<and> lk_task_id l = tk_id t
      \<and> lk_claim_id l = lock_claim_id t"
    if "bt_get (rg_resource_locks ?r) k = Some l" for l
  proof -
    obtain t where t: "map_of (rev (lock_pairs (rg_tasks r))) k = Some t"
        "l = make_lock (rg_resource_locks r) now t k"
      using \<open>bt_get (rg_resource_locks ?r) k = Some l\<close> unfolding recompute_get by auto
    have "lk_task_id l = tk_id t" "lk_claim_id l = lock_claim_id t"
      unfolding t(2) by (simp_all add: make_lock_def Let_def)
    with mem [OF t(1)] show ?thesis unfolding lock_pairs_iff by blast
  qed
  from locked owner recompute_again [of now' now r] show ?thesis by blast
qed

text \<open>Counting keeps a balance: each task adds one, to a counter or to the states left out of them.\<close>

definition uncounted :: "task \<Rightarrow> bool" where
  "uncounted t = (workflow_state_of t \<in> {Some WaitingApproval, Some Expired, Some Abandoned})"

definition counted_sum :: "task_counts \<Rightarrow> nat" where
  "counted_sum c = ct_todo c + ct_active c + ct_blocked c + ct_merged c"

lemma count_task_sum:
  "ct_total (count_task (state_or_todo t) c) = ct_total c"
  "counted_sum (count_task (state_or_todo t) c) = counted_sum c + (if uncounted t then 0 else 1)"
  by (cases "workflow_state_of t"; cases "the (workflow_state_of t)";
      simp add: counted_sum_def uncounted_def state_or_todo_def)+

lemma fold_count_sum:
  "ct_total (fold (\<lambda>t. count_task (state_or_todo t)) ts c) = ct_total c
   \<and> counted_sum (fold (\<lambda>t. count_task (state_or_todo t)) ts c) + length (filter uncounted ts)
     = counted_sum c + length ts"
  by (induction ts arbitrary: c) (auto simp: count_task_sum)

text \<open>The counts of a registry are a partition of its tasks: every task is counted once, as \<open>todo\<close>,
  active, blocked, merged, waiting for an approval or abandoned.\<close>

theorem counts_partition_tasks:
  "ct_total (counts r) = length (rg_tasks r)
   \<and> ct_todo (counts r) + ct_active (counts r) + ct_blocked (counts r) + ct_merged (counts r)
       + waiting_approval_count r + length (filter (\<lambda>t. workflow_state_of t = Some Abandoned) (rg_tasks r))
     = length (rg_tasks r)"
proof -
  have "length (filter uncounted ts) = length (filter is_awaiting_approval ts)
      + length (filter (\<lambda>t. workflow_state_of t = Some Abandoned) ts)" for ts
    by (induction ts) (auto simp: uncounted_def is_awaiting_approval_def)
  then show ?thesis
    using fold_count_sum [of "rg_tasks r" "\<lparr>ct_total = length (rg_tasks r), ct_todo = 0, ct_active = 0,
      ct_blocked = 0, ct_merged = 0\<rparr>"]
    by (simp add: counts_def counted_sum_def waiting_approval_count_def)
qed

end
