(* ===== verification/Selector.thy ===== *)
theory Selector
  imports Model "HOL-Library.Product_Lexorder"
begin

text \<open>
  Dispatch (\<open>core/src/coordinator/task_selector.rs\<close>): which \<open>todo\<close> task is dispatched next, with
  which tool, and why the whole dispatch pass may be blocked by a priority-zero task.  The
  functions take \<open>ts\<close>, the RFC 3339 parser of \<open>chrono\<close>, because throttled tools are compared by time.
\<close>

section \<open>Configuration and results\<close>

record selector_config =
  sc_enabled_tools :: "string list"
  sc_tool_priority :: "string list"
  sc_max_parallel_per_tool :: "(string \<times> nat) list"
  sc_tool_specializations :: "(string \<times> string list) list"
  sc_max_parallel :: nat
  sc_default_tool :: string
  sc_default_base_branch :: string
  sc_now :: string
  sc_throttle_registry :: throttle_registry
  sc_rate_limit_fallback_enabled :: bool
  sc_external_merged_ids :: "string list"
  sc_max_same_worktree_retries :: nat

record resume_worktree =
  rw_path :: string
  rw_branch :: string

record selected_task =
  st_id :: string
  st_title :: string
  st_tool :: string
  st_base_branch :: string
  st_is_fallback :: bool
  st_resume_worktree :: "resume_worktree option"

datatype dispatch_block_reason =
    ActivePriorityZero string
  | ReadyPriorityZeroBlocked string

section \<open>Eligibility of a task\<close>

definition satisfied_dependency_ids :: "task_registry \<Rightarrow> string list" where
  "satisfied_dependency_ids r = map tk_id (filter satisfies_dependants (rg_tasks r))"

definition dependencies_ready :: "task \<Rightarrow> string list \<Rightarrow> string list \<Rightarrow> bool" where
  "dependencies_ready t satisfied_ids external_merged_ids =
     list_all (\<lambda>d. d \<in> set satisfied_ids \<or> d \<in> set external_merged_ids) (tk_dependencies t)"

definition resources_available :: "task \<Rightarrow> (string, resource_lock) btree \<Rightarrow> bool" where
  "resources_available t locks =
     list_all (\<lambda>r. r = [] \<or> (case bt_get locks r of
                 None \<Rightarrow> True
               | Some l \<Rightarrow> lk_task_id l = [] \<or> lk_task_id l = tk_id t))
       (tk_exclusive_resources t)"

definition resume_worktree_for :: "task \<Rightarrow> nat \<Rightarrow> resume_worktree option" where
  "resume_worktree_for t max_retries =
     (if \<not> is_awaiting_same_worktree_retry t then None
      else if \<not> is_awaiting_tool_availability_retry t
              \<and> (max_retries = 0 \<or> retries_count (tk_runtime t) > max_retries) then None
      else case (worktree_path t, branch_of t) of
        (Some p, Some b) \<Rightarrow> Some \<lparr>rw_path = p, rw_branch = b\<rparr>
      | _ \<Rightarrow> None)"

section \<open>Choosing a tool\<close>

definition dedup_and_clean :: "string list \<Rightarrow> string list" where
  "dedup_and_clean values = dedup (filter (\<lambda>v. v \<noteq> []) (map trim values))"

definition preference_list :: "task \<Rightarrow> selector_config \<Rightarrow> string list" where
  "preference_list t cfg =
     (let out = (case category t of
                   None \<Rightarrow> []
                 | Some c \<Rightarrow> unwrap_or [] (map_of (sc_tool_specializations cfg) c));
          out' = (if out = []
                  then (case task_tool t of
                          Some tool \<Rightarrow> [tool]
                        | None \<Rightarrow> sc_tool_priority cfg)
                  else out)
      in dedup_and_clean out')"

text \<open>The specialization tools go through a \<open>BTreeSet\<close>: sorted and distinct.\<close>

definition fallback_pool :: "task \<Rightarrow> selector_config \<Rightarrow> string list \<Rightarrow> string list" where
  "fallback_pool t cfg preference =
     (if sc_enabled_tools cfg \<noteq> [] then sc_enabled_tools cfg
      else dedup_and_clean
        (preference @ sc_tool_priority cfg
         @ (case task_tool t of Some tool \<Rightarrow> [tool] | None \<Rightarrow> [])
         @ [sc_default_tool cfg]
         @ sort (remdups (concat (map snd (sc_tool_specializations cfg))))))"

text \<open>The tools left after the enabled set and the per-tool caps, as (rank, load, tool).\<close>

definition tool_candidates ::
  "task \<Rightarrow> selector_config \<Rightarrow> (string \<Rightarrow> nat) \<Rightarrow> (nat \<times> nat \<times> string) list" where
  "tool_candidates t cfg active_by_tool =
     (let preference = preference_list t cfg;
          uniq = dedup (preference @ fallback_pool t cfg preference);
          pref_rank = map_of (rev (zip preference [0..<length preference]))
      in map (\<lambda>tool. (unwrap_or 999 (pref_rank tool), active_by_tool tool, tool))
           (filter (\<lambda>tool.
              (sc_enabled_tools cfg = [] \<or> tool \<in> set (sc_enabled_tools cfg))
              \<and> (case map_of (sc_max_parallel_per_tool cfg) tool of
                   None \<Rightarrow> True | Some capacity \<Rightarrow> active_by_tool tool < capacity))
            uniq))"

definition apply_throttle_filter :: "ts_parser \<Rightarrow> task \<Rightarrow> selector_config \<Rightarrow> bool" where
  "apply_throttle_filter ts t cfg =
     (let mid_flight = (tr_current_phase (tk_runtime t) \<in> {Some ''review'', Some ''fix''});
          own_throttled = (case tk_tool t of
             None \<Rightarrow> False
           | Some tool \<Rightarrow> is_tool_throttled ts (sc_throttle_registry cfg) tool (sc_now cfg))
      in sc_rate_limit_fallback_enabled cfg \<and> sc_throttle_registry cfg \<noteq> []
         \<and> (\<not> mid_flight \<or> own_throttled))"

definition pick_tool ::
  "ts_parser \<Rightarrow> task \<Rightarrow> selector_config \<Rightarrow> (string \<Rightarrow> nat) \<Rightarrow> (string \<times> bool) option" where
  "pick_tool ts t cfg active_by_tool =
     (let candidates = sort (tool_candidates t cfg active_by_tool);
          primary_tool = (case candidates of [] \<Rightarrow> None | (_, _, tool) # _ \<Rightarrow> Some tool);
          selected =
            (if apply_throttle_filter ts t cfg
             then map_option (\<lambda>(_, _, tool). tool)
                    (List.find (\<lambda>(_, _, tool).
                       \<not> is_tool_throttled ts (sc_throttle_registry cfg) tool (sc_now cfg)) candidates)
             else primary_tool)
      in map_option (\<lambda>tool. (tool, Some tool \<noteq> primary_tool)) selected)"

section \<open>Dispatch\<close>

definition active_tasks :: "task_registry \<Rightarrow> task list" where
  "active_tasks r = filter is_active (rg_tasks r)"

definition active_by_tool :: "task_registry \<Rightarrow> string \<Rightarrow> nat" where
  "active_by_tool r tool = length (filter (\<lambda>t. task_tool t = Some tool) (active_tasks r))"

definition ready_priority_zero :: "ts_parser \<Rightarrow> task_registry \<Rightarrow> selector_config \<Rightarrow> task \<Rightarrow> bool" where
  "ready_priority_zero ts r cfg t =
     (workflow_state_of t = Some Todo \<and> \<not> has_worktree_attached t
      \<and> tk_id t \<noteq> [] \<and> priority_rank t = 0
      \<and> dependencies_ready t (satisfied_dependency_ids r) (sc_external_merged_ids cfg)
      \<and> resources_available t (rg_resource_locks r)
      \<and> pick_tool ts t cfg (\<lambda>_. 0) \<noteq> None)"

definition dispatch_block_reason_typed ::
  "ts_parser \<Rightarrow> task_registry \<Rightarrow> selector_config \<Rightarrow> dispatch_block_reason option" where
  "dispatch_block_reason_typed ts r cfg =
     (case List.find (\<lambda>t. priority_rank t = 0) (active_tasks r) of
        Some t \<Rightarrow> Some (ActivePriorityZero (tk_id t))
      | None \<Rightarrow>
          if active_tasks r = [] then None
          else map_option (\<lambda>t. ReadyPriorityZeroBlocked (tk_id t))
                 (List.find (ready_priority_zero ts r cfg) (rg_tasks r)))"

type_synonym candidate_key = "int \<times> string \<times> string"

definition candidate ::
  "ts_parser \<Rightarrow> task_registry \<Rightarrow> selector_config \<Rightarrow> task \<Rightarrow> (candidate_key \<times> selected_task) option" where
  "candidate ts r cfg t =
     (if workflow_state_of t \<noteq> Some Todo then None
      else if is_human_approval_gate t then None
      else
        let resume = resume_worktree_for t (sc_max_same_worktree_retries cfg) in
        if has_worktree_attached t \<and> resume = None then None
        else if tk_id t = [] then None
        else if \<not> dependencies_ready t (satisfied_dependency_ids r) (sc_external_merged_ids cfg)
          then None
        else if \<not> resources_available t (rg_resource_locks r) then None
        else if task_delayed t (sc_now cfg) then None
        else case pick_tool ts t cfg (active_by_tool r) of
          None \<Rightarrow> None
        | Some (tool, is_fallback) \<Rightarrow>
            Some ((priority_rank t, unwrap_or ''zzz'' (category t), tk_id t),
                  \<lparr>st_id = tk_id t, st_title = unwrap_or [] (tk_title t), st_tool = tool,
                   st_base_branch = base_branch (sc_default_base_branch cfg) t,
                   st_is_fallback = is_fallback,
                   st_resume_worktree = (if has_worktree_attached t then resume else None)\<rparr>))"

definition select_next_ready_task_typed ::
  "ts_parser \<Rightarrow> task_registry \<Rightarrow> selector_config \<Rightarrow> selected_task option" where
  "select_next_ready_task_typed ts r cfg =
     (if dispatch_block_reason_typed ts r cfg \<noteq> None then None
      else if 0 < sc_max_parallel cfg \<and> sc_max_parallel cfg \<le> length (active_tasks r) then None
      else map_option snd (first_by fst (List.map_filter (candidate ts r cfg) (rg_tasks r))))"

text \<open>The entry points on the JSON registry; \<open>from_value\<close> is \<open>TaskRegistry::from_value\<close> (serde).\<close>

definition dispatch_block_reason ::
  "('v \<Rightarrow> task_registry res) \<Rightarrow> ts_parser \<Rightarrow> 'v \<Rightarrow> selector_config \<Rightarrow> dispatch_block_reason option" where
  "dispatch_block_reason from_value ts registry cfg =
     (case from_value registry of
        Inl _ \<Rightarrow> None | Inr r \<Rightarrow> dispatch_block_reason_typed ts r cfg)"

definition select_next_ready_task ::
  "('v \<Rightarrow> task_registry res) \<Rightarrow> ts_parser \<Rightarrow> 'v \<Rightarrow> selector_config \<Rightarrow> selected_task option" where
  "select_next_ready_task from_value ts registry cfg =
     (case from_value registry of
        Inl _ \<Rightarrow> None | Inr r \<Rightarrow> select_next_ready_task_typed ts r cfg)"

section \<open>Lemmas\<close>

lemma pick_tool_Some:
  assumes "pick_tool ts t cfg load = Some (tool, fb)"
  shows "\<exists>rank. (rank, load tool, tool) \<in> set (tool_candidates t cfg load)"
    and "apply_throttle_filter ts t cfg \<Longrightarrow>
      \<not> is_tool_throttled ts (sc_throttle_registry cfg) tool (sc_now cfg)"
proof -
  let ?cs = "sort (tool_candidates t cfg load)"
  have mem: "\<exists>rank. (rank, load tool, tool) \<in> set (tool_candidates t cfg load)"
    if "(x, y, tool) \<in> set ?cs" for x y
    using that by (auto simp: tool_candidates_def Let_def)
  show "\<exists>rank. (rank, load tool, tool) \<in> set (tool_candidates t cfg load)"
  proof (cases "apply_throttle_filter ts t cfg")
    case True
    then obtain x y where "List.find (\<lambda>(_, _, tool).
        \<not> is_tool_throttled ts (sc_throttle_registry cfg) tool (sc_now cfg)) ?cs = Some (x, y, tool)"
      using assms by (auto simp: pick_tool_def Let_def)
    then have "(x, y, tool) \<in> set ?cs" by (metis find_Some_iff nth_mem)
    then show ?thesis by (rule mem)
  next
    case False
    then obtain x y zs where "?cs = (x, y, tool) # zs"
      using assms by (auto simp: pick_tool_def Let_def split: list.splits)
    then have "(x, y, tool) \<in> set ?cs" by simp
    then show ?thesis by (rule mem)
  qed
  show "\<not> is_tool_throttled ts (sc_throttle_registry cfg) tool (sc_now cfg)"
    if "apply_throttle_filter ts t cfg"
    using assms that by (auto simp: pick_tool_def Let_def find_Some_iff)
qed

lemma tool_candidate_allowed:
  "(rank, load tool, tool) \<in> set (tool_candidates t cfg load) \<Longrightarrow>
     (sc_enabled_tools cfg = [] \<or> tool \<in> set (sc_enabled_tools cfg))
     \<and> (case map_of (sc_max_parallel_per_tool cfg) tool of None \<Rightarrow> True | Some c \<Rightarrow> load tool < c)"
  by (auto simp: tool_candidates_def Let_def)

lemma candidate_Some:
  assumes "candidate ts r cfg t = Some (k, s)"
  shows "workflow_state_of t = Some Todo" "\<not> is_human_approval_gate t" "tk_id t \<noteq> []"
    "st_id s = tk_id t" "k = (priority_rank t, unwrap_or ''zzz'' (category t), tk_id t)"
    "dependencies_ready t (satisfied_dependency_ids r) (sc_external_merged_ids cfg)"
    "resources_available t (rg_resource_locks r)"
    "\<not> task_delayed t (sc_now cfg)"
    "pick_tool ts t cfg (active_by_tool r) = Some (st_tool s, st_is_fallback s)"
    "has_worktree_attached t \<Longrightarrow>
       st_resume_worktree s = resume_worktree_for t (sc_max_same_worktree_retries cfg)
       \<and> st_resume_worktree s \<noteq> None"
    "\<not> has_worktree_attached t \<Longrightarrow> st_resume_worktree s = None"
  using assms by (auto simp: candidate_def Let_def split: if_splits option.splits)

lemma select_Some:
  assumes "select_next_ready_task_typed ts r cfg = Some s"
  obtains t k where "t \<in> set (rg_tasks r)" "candidate ts r cfg t = Some (k, s)"
    "\<forall>t' k' s'. t' \<in> set (rg_tasks r) \<longrightarrow> candidate ts r cfg t' = Some (k', s') \<longrightarrow> k \<le> k'"
    "dispatch_block_reason_typed ts r cfg = None"
    "sc_max_parallel cfg = 0 \<or> length (active_tasks r) < sc_max_parallel cfg"
proof -
  let ?cs = "List.map_filter (candidate ts r cfg) (rg_tasks r)"
  obtain k where k: "first_by fst ?cs = Some (k, s)"
    and blk: "dispatch_block_reason_typed ts r cfg = None"
    and cap: "sc_max_parallel cfg = 0 \<or> length (active_tasks r) < sc_max_parallel cfg"
    using assms by (auto simp: select_next_ready_task_typed_def split: if_splits)
  have inset: "x \<in> set ?cs \<longleftrightarrow> (\<exists>t \<in> set (rg_tasks r). candidate ts r cfg t = Some x)" for x
    by (rule set_map_filter)
  from first_by_Some [OF k] obtain t where "t \<in> set (rg_tasks r)" "candidate ts r cfg t = Some (k, s)"
    using inset by blast
  moreover have "k \<le> k'" if "t' \<in> set (rg_tasks r)" "candidate ts r cfg t' = Some (k', s')" for t' k' s'
  proof -
    have "(k', s') \<in> set ?cs" using that inset by blast
    then show ?thesis using first_by_Some [OF k] by (metis fst_conv)
  qed
  ultimately show thesis using that blk cap by blast
qed

lemma select_None:
  assumes "select_next_ready_task_typed ts r cfg = None"
    and "dispatch_block_reason_typed ts r cfg = None"
    and "sc_max_parallel cfg = 0 \<or> length (active_tasks r) < sc_max_parallel cfg"
    and "t \<in> set (rg_tasks r)"
  shows "candidate ts r cfg t = None"
proof -
  have "List.map_filter (candidate ts r cfg) (rg_tasks r) = []"
    using assms(1-3) by (auto simp: select_next_ready_task_typed_def split: if_splits)
  then show ?thesis using assms(4) by (simp add: map_filter_Nil_iff)
qed

section \<open>Properties\<close>

lemma no_active_priority_zero:
  "dispatch_block_reason_typed ts r cfg = None \<Longrightarrow> u \<in> set (active_tasks r) \<Longrightarrow> priority_rank u \<noteq> 0"
  by (auto simp: dispatch_block_reason_typed_def find_None_iff split: option.splits)

lemma satisfied_id_iff:
  "d \<in> set (satisfied_dependency_ids r) \<longleftrightarrow> (\<exists>u \<in> set (rg_tasks r). tk_id u = d \<and> satisfies_dependants u)"
  by (auto simp: satisfied_dependency_ids_def)

text \<open>C2: A task the selector hands out is a \<open>todo\<close> task and no human gate; its dependencies are
  delivered here or were merged elsewhere, its exclusive resources are free or its own and its delay
  has passed.  The tool is enabled, below its own cap and, unless the task is exempt from the throttle
  filter, not throttled.  The run is below its parallel cap and no priority-zero task is active.  A
  task with a worktree goes back to exactly that worktree.\<close>

theorem dispatch_is_safe:
  assumes "select_next_ready_task_typed ts r cfg = Some s"
  shows "\<exists>t \<in> set (rg_tasks r). tk_id t = st_id s \<and> workflow_state_of t = Some Todo
    \<and> \<not> is_human_approval_gate t
    \<and> (\<forall>d \<in> set (tk_dependencies t). d \<in> set (sc_external_merged_ids cfg)
        \<or> (\<exists>u \<in> set (rg_tasks r). tk_id u = d \<and> satisfies_dependants u))
    \<and> (\<forall>k \<in> set (tk_exclusive_resources t). \<forall>l. k \<noteq> [] \<longrightarrow> bt_get (rg_resource_locks r) k = Some l \<longrightarrow>
        lk_task_id l = [] \<or> lk_task_id l = tk_id t)
    \<and> \<not> task_delayed t (sc_now cfg)
    \<and> (sc_enabled_tools cfg = [] \<or> st_tool s \<in> set (sc_enabled_tools cfg))
    \<and> (\<forall>c. map_of (sc_max_parallel_per_tool cfg) (st_tool s) = Some c \<longrightarrow> active_by_tool r (st_tool s) < c)
    \<and> (apply_throttle_filter ts t cfg \<longrightarrow>
        \<not> is_tool_throttled ts (sc_throttle_registry cfg) (st_tool s) (sc_now cfg))
    \<and> (sc_max_parallel cfg = 0 \<or> length (active_tasks r) < sc_max_parallel cfg)
    \<and> (\<forall>u \<in> set (active_tasks r). priority_rank u \<noteq> 0)
    \<and> (has_worktree_attached t \<longrightarrow>
        (\<exists>p b. worktree_path t = Some p \<and> branch_of t = Some b
               \<and> st_resume_worktree s = Some \<lparr>rw_path = p, rw_branch = b\<rparr>))"
  using assms
proof (cases rule: select_Some)
  case sel: (1 t k)
  note c = candidate_Some [OF sel(2)]
  have tool: "(sc_enabled_tools cfg = [] \<or> st_tool s \<in> set (sc_enabled_tools cfg))
      \<and> (\<forall>c. map_of (sc_max_parallel_per_tool cfg) (st_tool s) = Some c \<longrightarrow> active_by_tool r (st_tool s) < c)"
    using pick_tool_Some(1) [OF c(9)] tool_candidate_allowed by fastforce
  have resume: "\<exists>p b. worktree_path t = Some p \<and> branch_of t = Some b
      \<and> st_resume_worktree s = Some \<lparr>rw_path = p, rw_branch = b\<rparr>" if "has_worktree_attached t"
    using c(10) [OF that] by (auto simp: resume_worktree_for_def split: if_splits option.splits)
  show ?thesis
    using c(1,2,4,6,7,8) tool pick_tool_Some(2) [OF c(9)] sel(5) no_active_priority_zero [OF sel(4)] resume
    by (intro bexI [OF _ sel(1)] conjI)
       (auto simp: dependencies_ready_def resources_available_def list_all_iff satisfied_id_iff
         split: option.splits)
qed

text \<open>The selector picks a best candidate: no other task that could be dispatched now has a
  smaller key (priority, then category, then id); and when nothing blocks dispatch and there is room,
  it returns nothing only if no task is a candidate.\<close>

theorem dispatch_picks_best:
  "case select_next_ready_task_typed ts r cfg of
     Some s \<Rightarrow> (\<exists>t \<in> set (rg_tasks r). candidate ts r cfg t \<noteq> None \<and> st_id s = tk_id t
       \<and> (\<forall>u \<in> set (rg_tasks r). candidate ts r cfg u = None
            \<or> (priority_rank t, unwrap_or ''zzz'' (category t), tk_id t)
                \<le> (priority_rank u, unwrap_or ''zzz'' (category u), tk_id u)))
   | None \<Rightarrow> dispatch_block_reason_typed ts r cfg \<noteq> None
       \<or> (0 < sc_max_parallel cfg \<and> sc_max_parallel cfg \<le> length (active_tasks r))
       \<or> (\<forall>t \<in> set (rg_tasks r). candidate ts r cfg t = None)"
proof (cases "select_next_ready_task_typed ts r cfg")
  case None
  from select_None [OF None] show ?thesis unfolding None option.case
    by (metis gr0I not_le_imp_less)
next
  case (Some s)
  then obtain t k where sel: "t \<in> set (rg_tasks r)" "candidate ts r cfg t = Some (k, s)"
      "\<forall>t' k' s'. t' \<in> set (rg_tasks r) \<longrightarrow> candidate ts r cfg t' = Some (k', s') \<longrightarrow> k \<le> k'"
    by (rule select_Some)
  have "candidate ts r cfg u = None
      \<or> k \<le> (priority_rank u, unwrap_or ''zzz'' (category u), tk_id u)" if u: "u \<in> set (rg_tasks r)" for u
  proof (cases "candidate ts r cfg u")
    case (Some ks)
    then obtain k' s' where "candidate ts r cfg u = Some (k', s')" by (cases ks) auto
    then show ?thesis using sel(3) u candidate_Some(5) by blast
  qed simp
  then show ?thesis using sel(2) candidate_Some(4,5) [OF sel(2)] unfolding Some option.case
    by (intro bexI [OF _ sel(1)] conjI ballI) (simp_all del: less_eq_prod_simp)
qed

definition sample_config :: selector_config where
  "sample_config =
     \<lparr>sc_enabled_tools = [''codex''], sc_tool_priority = [''codex''],
      sc_max_parallel_per_tool = [(''codex'', 1)], sc_tool_specializations = [], sc_max_parallel = 2,
      sc_default_tool = ''codex'', sc_default_base_branch = ''main'', sc_now = ''2024'',
      sc_throttle_registry = [], sc_rate_limit_fallback_enabled = True, sc_external_merged_ids = [],
      sc_max_same_worktree_retries = 2\<rparr>"

definition sample_ready :: task_registry where
  "sample_ready =
     default_registry\<lparr>rg_tasks := [(sample_task ''A'' Todo)\<lparr>tk_dependencies := [''B'']\<rparr>,
       sample_task ''B'' Merged]\<rparr>"

lemma sample_candidate:
  assumes "set ds \<subseteq> set (satisfied_dependency_ids r)" "active_tasks r = []" "k \<noteq> []"
  shows "candidate (\<lambda>_. None) r sample_config ((sample_task k Todo)\<lparr>tk_dependencies := ds\<rparr>) \<noteq> None"
proof -
  have "trim ''codex'' = ''codex''" by (rule trim_graphic; simp add: graphic_def)
  then show ?thesis
    using assms
    by (simp add: candidate_def coord_frame is_human_approval_gate_def has_worktree_attached_def
        dependencies_ready_def resources_available_def task_delayed_def is_delayed_def Let_def
        pick_tool_def apply_throttle_filter_def tool_candidates_def preference_list_def
        fallback_pool_def dedup_and_clean_def category_def task_tool_def sample_config_def
        active_by_tool_def default_runtime_def dedup_def list_all_iff subset_iff split: prod.split)
qed

lemma sample_ready_selects: "select_next_ready_task_typed (\<lambda>_. None) sample_ready sample_config \<noteq> None"
proof -
  have sat: "set [''B''] \<subseteq> set (satisfied_dependency_ids sample_ready)"
    by (simp add: satisfied_id_iff sample_ready_def default_registry_def satisfies_dependants_def
        state_satisfies_dependants_def gate_verdict_satisfies_dependencies_def)
  have idle: "active_tasks sample_ready = []"
    by (simp add: active_tasks_def sample_ready_def default_registry_def is_active_def coord_frame)
  from sample_candidate [OF sat idle, of "''A''"]
  have "List.map_filter (candidate (\<lambda>_. None) sample_ready sample_config) (rg_tasks sample_ready) \<noteq> []"
    by (auto simp: map_filter_Nil_iff sample_ready_def default_registry_def)
  then show ?thesis
    by (simp add: select_next_ready_task_typed_def dispatch_block_reason_typed_def idle sample_config_def)
qed

theorem dispatch_is_safe_witness:
  "\<exists>s. select_next_ready_task_typed (\<lambda>_. None) sample_ready sample_config = Some s
     \<and> st_tool s = ''codex''"
proof -
  obtain s where s: "select_next_ready_task_typed (\<lambda>_. None) sample_ready sample_config = Some s"
    using sample_ready_selects by blast
  from dispatch_is_safe [OF s] show ?thesis
    using s by (auto simp: sample_config_def)
qed

theorem dispatch_picks_best_witness:
  "\<exists>s. select_next_ready_task_typed (\<lambda>_. None) sample_ready sample_config = Some s
     \<and> (\<exists>t \<in> set (rg_tasks sample_ready).
          candidate (\<lambda>_. None) sample_ready sample_config t \<noteq> None \<and> st_id s = tk_id t)"
  using sample_ready_selects dispatch_picks_best [of "\<lambda>_. None" sample_ready sample_config] by fastforce

end
