(* ===== verification/Blocks.thy ===== *)
theory Blocks
  imports Selector "HOL-Library.Transitive_Closure_Table"
begin

text \<open>
  Blocked subtrees of the dependency graph (\<open>core/src/coordinator/task_selector.rs\<close>): the search for a
  blocked root (\<open>blocked_dependency_path\<close>), the loop that materializes and releases external and
  propagated blocks (\<open>reconcile_task_blocks\<close>), and the stall diagnosis
  (\<open>diagnose_unschedulable_tasks\<close>).

  The search passes its \<open>visiting\<close> set as an argument: every call that returns \<open>None\<close> has removed
  what it inserted, and a call that returns \<open>Some\<close> ends the search, so no caller can see a change.
  The reconciliation loop runs on fuel \<open>length tasks + 3\<close>, which the last section proves enough.
\<close>

section \<open>The search for a blocked root\<close>

text \<open>\<open>tasks_by_id\<close>: collecting into a \<open>HashMap\<close>, so the last task with an id is kept.\<close>

definition task_by_id :: "task list \<Rightarrow> string \<Rightarrow> task option" where
  "task_by_id ts k = (if k = [] then None else List.find (\<lambda>t. tk_id t = k) (rev ts))"

definition blocking_root :: "task \<Rightarrow> bool" where
  "blocking_root t =
     (workflow_state_of t \<in> {Some Blocked, Some Rejected}
      \<or> (is_merged t \<and> \<not> gate_verdict_satisfies_dependencies t))"

lemma task_by_id_Some: "task_by_id ts k = Some t \<Longrightarrow> t \<in> set ts \<and> tk_id t = k \<and> k \<noteq> []"
  by (auto simp: task_by_id_def find_Some_iff in_set_conv_nth split: if_splits)
     (metis length_rev nth_mem set_rev in_set_conv_nth)

text \<open>The measure of the search: the ids that are not marked yet.  Each call to the path function marks
  one; the loop shrinks its list.\<close>

definition unvisited :: "task list \<Rightarrow> string list \<Rightarrow> task \<Rightarrow> nat" where
  "unvisited ts visiting t = card (insert (tk_id t) (tk_id ` set ts) - set visiting)"

function (sequential)
  blocked_dependency_path :: "task list \<Rightarrow> string list \<Rightarrow> string list \<Rightarrow> task \<Rightarrow> string list option"
and blocked_dependency_loop ::
  "task list \<Rightarrow> string list \<Rightarrow> string list \<Rightarrow> task \<Rightarrow> string list \<Rightarrow> string list option"
where
  "blocked_dependency_path ts sat visiting t =
     (if tk_id t \<in> set visiting then None
      else blocked_dependency_loop ts sat (tk_id t # visiting) t (tk_dependencies t))"
| "blocked_dependency_loop ts sat visiting t [] = None"
| "blocked_dependency_loop ts sat visiting t (d # ds) =
     (if d \<in> set sat then blocked_dependency_loop ts sat visiting t ds
      else case task_by_id ts d of
        None \<Rightarrow> blocked_dependency_loop ts sat visiting t ds
      | Some dependency \<Rightarrow>
          if blocking_root dependency then Some [tk_id t, tk_id dependency]
          else case blocked_dependency_path ts sat visiting dependency of
            Some path \<Rightarrow> Some (tk_id t # path)
          | None \<Rightarrow> blocked_dependency_loop ts sat visiting t ds)"
  by pat_completeness auto

termination
proof (relation "measures
    [\<lambda>x. case x of Inl (ts, sat, vis, t) \<Rightarrow> unvisited ts vis t
                 | Inr (ts, sat, vis, t, ds) \<Rightarrow> card (tk_id ` set ts - set vis),
     \<lambda>x. case x of Inl _ \<Rightarrow> 0 | Inr (ts, sat, vis, t, ds) \<Rightarrow> Suc (length ds)]", goal_cases)
  case 1
  show ?case by simp
next
  case (2 ts sat vis t)
  have "card (tk_id ` set ts - set (tk_id t # vis)) < unvisited ts vis t"
    unfolding unvisited_def by (intro psubset_card_mono) (use 2 in auto)
  then show ?case by simp
next
  case (5 ts sat vis t d ds dep)
  then have "tk_id dep \<in> tk_id ` set ts" by (auto dest: task_by_id_Some)
  then show ?case by (simp add: unvisited_def insert_absorb)
qed auto

declare blocked_dependency_path.simps [simp del] blocked_dependency_loop.simps [simp del]


text \<open>The explanation recorded for a root (\<open>blocked_task_reason\<close>).\<close>

definition plural :: "'a list \<Rightarrow> string" where
  "plural xs = (if length xs = 1 then [] else ''s'')"

definition rejected_by :: "task \<Rightarrow> string" where
  "rejected_by t =
     unwrap_or []
       (map_option
         (\<lambda>a. '' by '' @ ap_actor a @ '' ('' @ ap_role a @ '')''
              @ unwrap_or [] (map_option (\<lambda>r. '': '' @ r) (ap_reason a)))
         (Option.bind (tr_approval (tk_runtime t))
           (\<lambda>st. List.find (\<lambda>a. ap_decision a = Dec_Rejected) (rev (as_effective st)))))"

definition cleaned_preconditions :: "task_runtime \<Rightarrow> string list" where
  "cleaned_preconditions rt = filter (\<lambda>p. p \<noteq> []) (map trim (tr_unmet_preconditions rt))"

definition blocked_task_reason :: "task \<Rightarrow> string" where
  "blocked_task_reason t =
     (if workflow_state_of t = Some Rejected
      then ''approval gate rejected'' @ rejected_by t @ '' [E909]''
      else if is_merged t \<and> \<not> gate_verdict_satisfies_dependencies t
      then ''gate verdict is ''
           @ unwrap_or ''missing''
               (map_option (\<lambda>v. to_ascii_lowercase (gate_verdict_debug v))
                 (tr_gate_verdict (tk_runtime t)))
           @ ''; an accepted verdict is required''
      else
        let rt = tk_runtime t;
            code = unwrap_or ''unknown error'' (nonempty (tr_last_error_code rt));
            preconditions = cleaned_preconditions rt
        in if code \<noteq> ''E903'' \<and> preconditions \<noteq> []
           then ''blocked ('' @ code @ ''): unmet precondition'' @ plural preconditions @ '': ''
                @ join ''; '' preconditions
           else
             let message =
                   unwrap_or ''no blocking explanation was recorded''
                     (nonempty
                       (or_else
                         (opt_filter (\<lambda>_. code \<noteq> ''E903'')
                           (trimmed_nonempty (tr_result_explanation rt)))
                         (or_else (tr_last_error_message rt) (tr_last_error rt))))
             in if code = ''E903'' then message @ '' ['' @ code @ '']''
                else ''blocked ('' @ code @ ''): '' @ message)"

definition root_reason :: "task list \<Rightarrow> string \<Rightarrow> string" where
  "root_reason ts root_id =
     unwrap_or ''blocked'' (map_option blocked_task_reason (task_by_id ts root_id))"

definition path_root :: "string list \<Rightarrow> string" where
  "path_root path = (if path = [] then [] else last path)"

section \<open>Reconciling blocks\<close>

definition uncleared_block :: "task \<Rightarrow> external_block option" where
  "uncleared_block t = opt_filter (\<lambda>_. \<not> external_block_is_cleared t) (tk_blocked_on_external t)"

definition block_with :: "string \<Rightarrow> string \<Rightarrow> string \<Rightarrow> string \<Rightarrow> task \<Rightarrow> task" where
  "block_with now code origin detail t =
     touch_state_changed now
       (upd_runtime (\<lambda>rt. set_last_error_details code origin detail (set_status Rt_Failed rt)
                           \<lparr>tr_last_error := Some detail\<rparr>)
         (set_workflow_state Blocked t))"

definition block_external :: "string \<Rightarrow> external_block \<Rightarrow> task \<Rightarrow> task" where
  "block_external now b t =
     block_with now ''E904'' ''external_precondition''
       (''External condition is not met: '' @ eb_reason b @ '' Clears when: '' @ eb_clears_when b
        @ unwrap_or [] (map_option (\<lambda>i. '' (tracking: '' @ i @ '')'') (eb_tracking_id b))) t"

definition block_propagated :: "string \<Rightarrow> task list \<Rightarrow> string list \<Rightarrow> task \<Rightarrow> task" where
  "block_propagated now snap path t =
     upd_runtime (\<lambda>rt. rt\<lparr>tr_extra :=
         bt_insert ''blocked_dependency_path'' (JArr (map JStr path)) (tr_extra rt)\<rparr>)
       (block_with now ''E905'' ''dependency''
         (''Dependency chain is blocked via '' @ join '' -> '' path @ ''; root '' @ path_root path
          @ '' is '' @ root_reason snap (path_root path)) t)"

definition release_block :: "string \<Rightarrow> bool \<Rightarrow> task \<Rightarrow> task" where
  "release_block now propagated t =
     touch_state_changed now
       (upd_runtime
         (\<lambda>rt. set_status Rt_Idle rt
            \<lparr>tr_last_error := None, tr_last_error_code := None, tr_last_error_origin := None,
             tr_last_error_message := None,
             tr_extra := (if propagated then bt_remove ''blocked_dependency_path'' (tr_extra rt)
                          else tr_extra rt)\<rparr>)
         (set_workflow_state Todo t))"

text \<open>One task in one pass: \<open>Some\<close> the changed task, or \<open>None\<close> when the pass leaves it alone.\<close>

definition snapshot_path :: "task list \<Rightarrow> string list \<Rightarrow> string \<Rightarrow> string list option" where
  "snapshot_path snap sat k = Option.bind (task_by_id snap k) (blocked_dependency_path snap sat [])"

definition reconcile_task :: "string \<Rightarrow> task list \<Rightarrow> string list \<Rightarrow> task \<Rightarrow> task option" where
  "reconcile_task now snap sat t =
     (case uncleared_block t of
        Some b \<Rightarrow> if workflow_state_of t = Some Todo then Some (block_external now b t) else None
      | None \<Rightarrow>
          (case snapshot_path snap sat (tk_id t) of
             Some path \<Rightarrow>
               if workflow_state_of t = Some Todo then Some (block_propagated now snap path t)
               else None
           | None \<Rightarrow>
               if tr_last_error_code (tk_runtime t) = Some ''E905''
                  \<and> workflow_state_of t = Some Blocked
               then Some (release_block now True t)
               else if tr_last_error_code (tk_runtime t) = Some ''E904''
                       \<and> workflow_state_of t = Some Blocked
               then Some (release_block now False t)
               else None))"

definition reconcile_pass :: "string \<Rightarrow> task_registry \<Rightarrow> task_registry" where
  "reconcile_pass now r =
     r\<lparr>rg_tasks :=
         map (\<lambda>t. unwrap_or t (reconcile_task now (rg_tasks r) (satisfied_dependency_ids r) t))
           (rg_tasks r)\<rparr>"

definition pass_changes :: "string \<Rightarrow> task_registry \<Rightarrow> string list" where
  "pass_changes now r =
     map tk_id
       (filter (\<lambda>t. reconcile_task now (rg_tasks r) (satisfied_dependency_ids r) t \<noteq> None)
         (rg_tasks r))"

fun reconcile_loop ::
  "nat \<Rightarrow> string \<Rightarrow> task_registry \<Rightarrow> string list \<Rightarrow> (task_registry \<times> string list) option"
where
  "reconcile_loop 0 now r changed = None"
| "reconcile_loop (Suc fuel) now r changed =
     (if pass_changes now r = [] then Some (r, changed)
      else reconcile_loop fuel now (reconcile_pass now r) (changed @ pass_changes now r))"

definition reconcile_task_blocks :: "string \<Rightarrow> task_registry \<Rightarrow> task_registry \<times> string list" where
  "reconcile_task_blocks now r =
     (case reconcile_loop (length (rg_tasks r) + 3) now r [] of
        Some (r', changed) \<Rightarrow> (r', sort (remdups changed))
      | None \<Rightarrow> (r, []))"


section \<open>What the search finds\<close>

text \<open>An unsatisfied dependency on a task of the registry, as an edge between ids.\<close>

definition dep_edge :: "task list \<Rightarrow> string list \<Rightarrow> string \<Rightarrow> string \<Rightarrow> bool" where
  "dep_edge ts sat a b \<longleftrightarrow>
     (\<exists>t. task_by_id ts a = Some t \<and> b \<in> set (tk_dependencies t))
     \<and> b \<notin> set sat \<and> task_by_id ts b \<noteq> None"

definition is_root :: "task list \<Rightarrow> string \<Rightarrow> bool" where
  "is_root ts k \<longleftrightarrow> (\<exists>t. task_by_id ts k = Some t \<and> blocking_root t)"

lemma path_sound:
  "blocked_dependency_path ts sat vis t = Some p \<Longrightarrow> task_by_id ts (tk_id t) = Some t \<Longrightarrow>
     \<exists>xs r. p = tk_id t # xs @ [r] \<and> rtrancl_path (dep_edge ts sat) (tk_id t) (xs @ [r]) r \<and> is_root ts r"
  "blocked_dependency_loop ts sat vis t ds = Some p \<Longrightarrow> task_by_id ts (tk_id t) = Some t \<Longrightarrow>
     set ds \<subseteq> set (tk_dependencies t) \<Longrightarrow>
     \<exists>xs r. p = tk_id t # xs @ [r] \<and> rtrancl_path (dep_edge ts sat) (tk_id t) (xs @ [r]) r \<and> is_root ts r"
proof (induction ts sat vis t and ts sat vis t ds arbitrary: p and p
    rule: blocked_dependency_path_blocked_dependency_loop.induct)
  case (1 ts sat vis t)
  then show ?case by (auto simp: blocked_dependency_path.simps [of ts sat vis t] split: if_splits)
next
  case (2 ts sat vis t)
  then show ?case by (simp add: blocked_dependency_loop.simps)
next
  case (3 ts sat vis t d ds)
  show ?case
  proof (cases "d \<in> set sat \<or> task_by_id ts d = None")
    case True
    with 3 show ?thesis by (auto simp: blocked_dependency_loop.simps split: option.splits)
  next
    case False
    then obtain dep where d: "d \<notin> set sat" "task_by_id ts d = Some dep" by auto
    then have id: "tk_id dep = d" by (auto dest: task_by_id_Some)
    have edge: "dep_edge ts sat (tk_id t) d" using d "3.prems" by (auto simp: dep_edge_def)
    consider (root) "blocking_root dep"
      | (deep) q where "\<not> blocking_root dep" "blocked_dependency_path ts sat vis dep = Some q"
          "p = tk_id t # q"
      | (later) "\<not> blocking_root dep" "blocked_dependency_path ts sat vis dep = None"
          "blocked_dependency_loop ts sat vis t ds = Some p"
      using "3.prems"(1) d by (auto simp: blocked_dependency_loop.simps split: if_splits option.splits)
    then show ?thesis
    proof cases
      case root
      then have "p = tk_id t # [] @ [d]" "is_root ts d"
        using "3.prems"(1) d id by (auto simp: blocked_dependency_loop.simps is_root_def)
      moreover have "rtrancl_path (dep_edge ts sat) (tk_id t) ([] @ [d]) d"
        using edge by (auto intro: rtrancl_path.intros)
      ultimately show ?thesis by blast
    next
      case deep
      then obtain xs r where "q = d # xs @ [r]" "rtrancl_path (dep_edge ts sat) d (xs @ [r]) r"
          "is_root ts r"
        using "3.IH"(3) d id by blast
      then have "p = tk_id t # (d # xs) @ [r]"
          "rtrancl_path (dep_edge ts sat) (tk_id t) ((d # xs) @ [r]) r" "is_root ts r"
        using deep edge by (auto intro: rtrancl_path.step)
      then show ?thesis by blast
    next
      case later
      then show ?thesis using "3.IH"(4) d "3.prems" by auto
    qed
  qed
qed

lemma loop_None:
  "blocked_dependency_loop ts sat vis t ds = None \<longleftrightarrow>
     (\<forall>d \<in> set ds. d \<in> set sat \<or> (case task_by_id ts d of None \<Rightarrow> True
        | Some dep \<Rightarrow> \<not> blocking_root dep \<and> blocked_dependency_path ts sat vis dep = None))"
  by (induction ds) (auto simp: blocked_dependency_loop.simps split: option.splits)

lemma path_complete:
  "rtrancl_path (dep_edge ts sat) (tk_id t) xs u \<Longrightarrow> distinct (tk_id t # xs) \<Longrightarrow>
     set (tk_id t # xs) \<inter> set vis = {} \<Longrightarrow> dep_edge ts sat u r \<Longrightarrow> is_root ts r \<Longrightarrow>
     task_by_id ts (tk_id t) = Some t \<Longrightarrow> blocked_dependency_path ts sat vis t \<noteq> None"
proof (induction xs arbitrary: t vis)
  case Nil
  then have "u = tk_id t" by (auto elim: rtrancl_path.cases)
  then have "r \<in> set (tk_dependencies t)" "r \<notin> set sat" "\<exists>dep. task_by_id ts r = Some dep \<and> blocking_root dep"
    using Nil by (auto simp: dep_edge_def is_root_def)
  then show ?case using Nil.prems(3)
    by (auto simp: blocked_dependency_path.simps [of ts sat vis t] loop_None)
next
  case (Cons y ys)
  then have edge: "dep_edge ts sat (tk_id t) y" and rest: "rtrancl_path (dep_edge ts sat) y ys u"
    by (auto elim: rtrancl_path.cases)
  then obtain dep where y: "y \<in> set (tk_dependencies t)" "y \<notin> set sat" "task_by_id ts y = Some dep"
    using Cons.prems(6) by (auto simp: dep_edge_def)
  then have id: "tk_id dep = y" by (auto dest: task_by_id_Some)
  have "blocked_dependency_path ts sat (tk_id t # vis) dep \<noteq> None"
    by (rule Cons.IH) (use Cons.prems rest y id in auto)
  then show ?case using y Cons.prems(3)
    by (auto simp: blocked_dependency_path.simps [of ts sat vis t] loop_None)
qed

lemma snapshot_path_sound:
  assumes "snapshot_path ts sat k = Some p"
  obtains xs r where "p = k # xs @ [r]" "rtrancl_path (dep_edge ts sat) k (xs @ [r]) r" "is_root ts r"
proof -
  obtain t where "task_by_id ts k = Some t" "blocked_dependency_path ts sat [] t = Some p"
    using assms by (auto simp: snapshot_path_def split: Option.bind_splits)
  then show thesis using that path_sound(1) task_by_id_Some by blast
qed

lemma snapshot_path_iff:
  "snapshot_path ts sat k \<noteq> None \<longleftrightarrow> (\<exists>r. (dep_edge ts sat)\<^sup>+\<^sup>+ k r \<and> is_root ts r)"
proof
  assume "snapshot_path ts sat k \<noteq> None"
  then obtain xs r where "rtrancl_path (dep_edge ts sat) k (xs @ [r]) r" "is_root ts r"
    by (metis not_None_eq snapshot_path_sound)
  moreover have "(dep_edge ts sat)\<^sup>+\<^sup>+ k r" if "rtrancl_path (dep_edge ts sat) k ys r" "ys \<noteq> []" for ys
    using that
  proof (cases rule: rtrancl_path.cases)
    case (step y zs)
    then have "(dep_edge ts sat)\<^sup>*\<^sup>* y r" by (auto simp: rtranclp_eq_rtrancl_path)
    with step show ?thesis by (blast intro: rtranclp_into_tranclp2)
  qed simp
  ultimately show "\<exists>r. (dep_edge ts sat)\<^sup>+\<^sup>+ k r \<and> is_root ts r"
    by blast
next
  assume "\<exists>r. (dep_edge ts sat)\<^sup>+\<^sup>+ k r \<and> is_root ts r"
  then obtain r where "(dep_edge ts sat)\<^sup>+\<^sup>+ k r" and r: "is_root ts r" by blast
  then obtain u where ku: "(dep_edge ts sat)\<^sup>*\<^sup>* k u" and ur: "dep_edge ts sat u r"
    by (cases rule: tranclp.cases) (auto dest: tranclp_into_rtranclp)
  from ku obtain xs where "rtrancl_path (dep_edge ts sat) k xs u" "distinct (k # xs)"
    by (auto simp: rtranclp_eq_rtrancl_path elim: rtrancl_path_distinct)
  moreover have "task_by_id ts k \<noteq> None"
    using ku ur by (cases rule: converse_rtranclpE) (auto simp: dep_edge_def)
  then obtain t where t: "task_by_id ts k = Some t" "tk_id t = k" by (auto dest: task_by_id_Some)
  ultimately show "snapshot_path ts sat k \<noteq> None"
    using ur r path_complete [of ts sat t xs u "[]" r] by (simp add: snapshot_path_def)
qed


section \<open>The reconciliation loop ends in a fixpoint\<close>

text \<open>What each of the three changes does to the fields the search reads.\<close>

lemma block_with_fields:
  "workflow_state_of (block_with now c og d t) = Some Blocked"
  "tr_last_error_code (tk_runtime (block_with now c og d t)) = Some c"
  by (simp_all add: block_with_def coord_frame)
     (simp add: touch_state_changed_def upd_runtime_def set_last_error_details_def)

lemma change_fields:
  "workflow_state_of (block_external now b t) = Some Blocked"
  "workflow_state_of (block_propagated now snap path t) = Some Blocked"
  "workflow_state_of (release_block now p t) = Some Todo"
  "tr_last_error_code (tk_runtime (block_external now b t)) = Some ''E904''"
  "tr_last_error_code (tk_runtime (block_propagated now snap path t)) = Some ''E905''"
  "tr_last_error_code (tk_runtime (release_block now p t)) = None"
  by (simp_all add: block_external_def block_propagated_def release_block_def block_with_fields
      coord_frame)
     (simp_all add: upd_runtime_def touch_state_changed_def set_workflow_state_def block_with_fields)

definition same_core :: "task \<Rightarrow> task \<Rightarrow> bool" where
  "same_core t' t \<longleftrightarrow>
     tk_id t' = tk_id t \<and> tk_dependencies t' = tk_dependencies t \<and> tk_gate t' = tk_gate t
     \<and> tk_blocked_on_external t' = tk_blocked_on_external t \<and> tk_worktree t' = tk_worktree t
     \<and> tr_gate_verdict (tk_runtime t') = tr_gate_verdict (tk_runtime t)
     \<and> tr_external_block_resolution (tk_runtime t') = tr_external_block_resolution (tk_runtime t)"

lemma same_core_refl [simp]: "same_core t t"
  by (simp add: same_core_def)

lemma same_core_trans: "same_core a b \<Longrightarrow> same_core b c \<Longrightarrow> same_core a c"
  by (simp add: same_core_def)

lemma change_core:
  "same_core (block_external now b t) t"
  "same_core (block_propagated now snap path t) t"
  "same_core (release_block now p t) t"
  by (simp_all add: same_core_def block_external_def block_propagated_def release_block_def
      block_with_def touch_state_changed_def upd_runtime_def set_workflow_state_def set_status_def
      set_last_error_details_def)

lemma same_core_uncleared: "same_core t' t \<Longrightarrow> uncleared_block t' = uncleared_block t"
  by (cases "tk_blocked_on_external t")
     (simp_all add: same_core_def uncleared_block_def external_block_is_cleared_def)

lemma reconcile_task_cases:
  assumes "reconcile_task now snap sat t = Some t'"
  obtains (external) b where "uncleared_block t = Some b" "workflow_state_of t = Some Todo"
      "t' = block_external now b t"
    | (propagated) path where "uncleared_block t = None" "snapshot_path snap sat (tk_id t) = Some path"
      "workflow_state_of t = Some Todo" "t' = block_propagated now snap path t"
    | (released) p where "uncleared_block t = None" "snapshot_path snap sat (tk_id t) = None"
      "workflow_state_of t = Some Blocked"
      "tr_last_error_code (tk_runtime t) \<in> {Some ''E904'', Some ''E905''}"
      "t' = release_block now p t"
  using assms by (auto simp: reconcile_task_def split: option.splits if_splits)

lemma reconcile_task_core: "reconcile_task now snap sat t = Some t' \<Longrightarrow> same_core t' t"
  by (auto elim: reconcile_task_cases simp: change_core)

lemma reconcile_task_states:
  assumes "reconcile_task now snap sat t = Some t'"
  shows "(workflow_state_of t = Some Todo \<and> workflow_state_of t' = Some Blocked)
    \<or> (workflow_state_of t = Some Blocked \<and> workflow_state_of t' = Some Todo)"
  using assms by (cases rule: reconcile_task_cases) (simp_all add: change_fields)

lemma reconcile_task_satisfies:
  "reconcile_task now snap sat t = Some t' \<Longrightarrow> satisfies_dependants t' = satisfies_dependants t"
  using reconcile_task_states reconcile_task_core
  by (fastforce simp: satisfies_dependants_def state_satisfies_dependants_def)

text \<open>A pass, as the map of one function over the tasks.\<close>

definition stepped :: "string \<Rightarrow> task_registry \<Rightarrow> task \<Rightarrow> task" where
  "stepped now r t = unwrap_or t (reconcile_task now (rg_tasks r) (satisfied_dependency_ids r) t)"

lemma pass_tasks: "rg_tasks (reconcile_pass now r) = map (stepped now r) (rg_tasks r)"
  by (simp add: reconcile_pass_def stepped_def)

lemma stepped_core: "same_core (stepped now r t) t"
  using reconcile_task_core
  by (cases "reconcile_task now (rg_tasks r) (satisfied_dependency_ids r) t") (auto simp: stepped_def)

lemma stepped_id [simp]: "tk_id (stepped now r t) = tk_id t"
  using stepped_core by (simp add: same_core_def)

lemma pass_length [simp]: "length (rg_tasks (reconcile_pass now r)) = length (rg_tasks r)"
  by (simp add: pass_tasks)

lemma pass_satisfied: "satisfied_dependency_ids (reconcile_pass now r) = satisfied_dependency_ids r"
proof -
  have "satisfies_dependants (stepped now r t) = satisfies_dependants t" for t
    using reconcile_task_satisfies
    by (cases "reconcile_task now (rg_tasks r) (satisfied_dependency_ids r) t") (auto simp: stepped_def)
  then show ?thesis by (simp add: satisfied_dependency_ids_def pass_tasks filter_map comp_def)
qed

lemma find_map: "List.find P (map f xs) = map_option f (List.find (P \<circ> f) xs)"
  by (induction xs) auto

lemma pass_by_id:
  "task_by_id (rg_tasks (reconcile_pass now r)) k = map_option (stepped now r) (task_by_id (rg_tasks r) k)"
  by (simp add: task_by_id_def pass_tasks rev_map find_map comp_def)

abbreviation reg_edge :: "task_registry \<Rightarrow> string \<Rightarrow> string \<Rightarrow> bool" where
  "reg_edge r \<equiv> dep_edge (rg_tasks r) (satisfied_dependency_ids r)"

lemma pass_edge: "reg_edge (reconcile_pass now r) = reg_edge r"
  using stepped_core
  by (auto simp: fun_eq_iff dep_edge_def pass_satisfied pass_by_id same_core_def)


text \<open>
  The tasks that reach a root.  After the first pass no task with a standing external block is
  \<open>todo\<close> (\<open>settled\<close>); from then on every new root already reached one, so the set only shrinks, and a
  pass that leaves it unchanged is followed by a pass that changes nothing.
\<close>

definition reaching :: "task_registry \<Rightarrow> string set" where
  "reaching r = {k. snapshot_path (rg_tasks r) (satisfied_dependency_ids r) k \<noteq> None}"

definition settled :: "task_registry \<Rightarrow> bool" where
  "settled r =
     (\<forall>t \<in> set (rg_tasks r). uncleared_block t \<noteq> None \<longrightarrow> workflow_state_of t \<noteq> Some Todo)"

lemma reaching_iff: "k \<in> reaching r \<longleftrightarrow> (\<exists>j. (reg_edge r)\<^sup>+\<^sup>+ k j \<and> is_root (rg_tasks r) j)"
  unfolding reaching_def mem_Collect_eq snapshot_path_iff ..

lemma reaching_ids: "reaching r \<subseteq> tk_id ` set (rg_tasks r)"
  by (force simp: reaching_def snapshot_path_def dest: task_by_id_Some split: Option.bind_splits)

lemma reaching_finite [simp]: "finite (reaching r)"
  using reaching_ids finite_subset by blast

lemma reaching_card: "card (reaching r) \<le> length (rg_tasks r)"
proof -
  have "card (reaching r) \<le> card (tk_id ` set (rg_tasks r))"
    by (rule card_mono [OF _ reaching_ids]) simp
  also have "\<dots> \<le> length (map tk_id (rg_tasks r))"
    by (metis card_length list.set_map)
  finally show ?thesis by simp
qed

lemma stepped_cases:
  obtains (same) "stepped now r t = t"
      "reconcile_task now (rg_tasks r) (satisfied_dependency_ids r) t = None"
  | (changed) "reconcile_task now (rg_tasks r) (satisfied_dependency_ids r) t = Some (stepped now r t)"
  by (cases "reconcile_task now (rg_tasks r) (satisfied_dependency_ids r) t") (auto simp: stepped_def)

lemma stepped_uncleared [simp]: "uncleared_block (stepped now r t) = uncleared_block t"
  by (rule same_core_uncleared [OF stepped_core])

lemma pass_settled: "settled (reconcile_pass now r)"
proof -
  have "workflow_state_of (stepped now r t) \<noteq> Some Todo" if "uncleared_block t \<noteq> None" for t
  proof (cases rule: stepped_cases [of now r t])
    case same
    with that show ?thesis by (auto simp: reconcile_task_def split: option.splits if_splits)
  next
    case changed
    then show ?thesis using that by (cases rule: reconcile_task_cases) (simp_all add: change_fields)
  qed
  then show ?thesis by (simp add: settled_def pass_tasks)
qed

lemma new_root:
  assumes s: "settled r" and new: "is_root (rg_tasks (reconcile_pass now r)) k"
    and old: "\<not> is_root (rg_tasks r) k"
  shows "k \<in> reaching r"
proof -
  obtain t where t: "task_by_id (rg_tasks r) k = Some t" "blocking_root (stepped now r t)"
      "\<not> blocking_root t"
    using new old by (auto simp: is_root_def pass_by_id)
  then have mem: "t \<in> set (rg_tasks r)" "tk_id t = k" by (auto dest: task_by_id_Some)
  show ?thesis
  proof (cases rule: stepped_cases [of now r t])
    case same
    with t show ?thesis by simp
  next
    case changed
    then show ?thesis
    proof (cases rule: reconcile_task_cases)
      case external
      with s mem show ?thesis by (auto simp: settled_def)
    next
      case propagated
      with mem show ?thesis by (simp add: reaching_def)
    next
      case released
      with t show ?thesis by (simp add: blocking_root_def)
    qed
  qed
qed

lemma reaching_antitone: "settled r \<Longrightarrow> reaching (reconcile_pass now r) \<subseteq> reaching r"
proof
  fix k
  assume s: "settled r" and "k \<in> reaching (reconcile_pass now r)"
  then obtain j where j: "(reg_edge r)\<^sup>+\<^sup>+ k j" "is_root (rg_tasks (reconcile_pass now r)) j"
    by (auto simp: reaching_iff pass_edge)
  show "k \<in> reaching r"
  proof (cases "is_root (rg_tasks r) j")
    case True
    with j show ?thesis by (auto simp: reaching_iff)
  next
    case False
    with new_root [OF s j(2)] obtain i where "(reg_edge r)\<^sup>+\<^sup>+ j i" "is_root (rg_tasks r) i"
      by (auto simp: reaching_iff)
    with j(1) show ?thesis unfolding reaching_iff by (meson tranclp_trans)
  qed
qed

lemma pass_changes_Nil:
  "pass_changes now r = [] \<longleftrightarrow>
     (\<forall>t \<in> set (rg_tasks r). reconcile_task now (rg_tasks r) (satisfied_dependency_ids r) t = None)"
  by (simp add: pass_changes_def filter_empty_conv)

text \<open>What it means that a pass leaves a task alone.\<close>

lemma reconcile_task_None_iff:
  "reconcile_task now (rg_tasks r) (satisfied_dependency_ids r) t = None \<longleftrightarrow>
     (if uncleared_block t \<noteq> None \<or> tk_id t \<in> reaching r then workflow_state_of t \<noteq> Some Todo
      else \<not> (workflow_state_of t = Some Blocked
              \<and> tr_last_error_code (tk_runtime t) \<in> {Some ''E904'', Some ''E905''}))"
  by (auto simp: reconcile_task_def reaching_def split: option.splits)

lemma quiet_pass:
  assumes eq: "reaching (reconcile_pass now r) = reaching r"
  shows "pass_changes now' (reconcile_pass now r) = []"
  unfolding pass_changes_Nil
proof
  fix t1
  assume t1: "t1 \<in> set (rg_tasks (reconcile_pass now r))"
  then obtain t where t: "t \<in> set (rg_tasks r)" "t1 = stepped now r t" by (auto simp: pass_tasks)
  show "reconcile_task now' (rg_tasks (reconcile_pass now r))
      (satisfied_dependency_ids (reconcile_pass now r)) t1 = None"
  proof (cases rule: stepped_cases [of now r t])
    case same
    with t eq show ?thesis by (simp add: reconcile_task_None_iff)
  next
    case changed
    then show ?thesis
    proof (cases rule: reconcile_task_cases)
      case (released p)
      then have "tk_id t \<notin> reaching r" by (simp add: reaching_def)
      then have "tk_id t1 \<notin> reaching r" using t by (metis stepped_id)
      moreover have "uncleared_block t1 = None" using released t stepped_uncleared by metis
      moreover have "workflow_state_of t1 = Some Todo"
        using released t by (simp add: change_fields)
      ultimately show ?thesis using eq by (simp add: reconcile_task_None_iff)
    next
      case (propagated path)
      then have "tk_id t \<in> reaching r" by (simp add: reaching_def)
      moreover have "workflow_state_of t1 = Some Blocked"
        using propagated t by (simp add: change_fields)
      ultimately show ?thesis using t eq by (simp add: reconcile_task_None_iff)
    next
      case (external b)
      then have "workflow_state_of t1 = Some Blocked" "uncleared_block t1 \<noteq> None"
        using t stepped_uncleared [of now r t] by (simp_all add: change_fields)
      then show ?thesis by (simp add: reconcile_task_None_iff)
    qed
  qed
qed

lemma loop_terminates_settled:
  "settled r \<Longrightarrow> card (reaching r) + 2 \<le> fuel \<Longrightarrow> reconcile_loop fuel now r changed \<noteq> None"
proof (induction "card (reaching r)" arbitrary: r fuel changed rule: less_induct)
  case less
  let ?r = "reconcile_pass now r"
  obtain f where f: "fuel = Suc (Suc f)" using less.prems by (cases fuel; cases "fuel - 1") auto
  show ?case
  proof (cases "reaching ?r = reaching r")
    case True
    then show ?thesis using f quiet_pass by (auto split: if_splits)
  next
    case False
    then have "card (reaching ?r) < card (reaching r)"
      using reaching_antitone [OF less.prems(1)] by (intro psubset_card_mono) auto
    then have "reconcile_loop (Suc f) now ?r ch \<noteq> None" for ch
      using less.hyps [of ?r "Suc f" ch] less.prems f pass_settled by simp
    then show ?thesis using f by (metis reconcile_loop.simps(2) option.distinct(1))
  qed
qed

lemma reconcile_loop_terminates: "reconcile_loop (length (rg_tasks r) + 3) now r changed \<noteq> None"
proof -
  have "card (reaching (reconcile_pass now r)) + 2 \<le> length (rg_tasks r) + 2"
    using reaching_card [of "reconcile_pass now r"] by simp
  from loop_terminates_settled [OF pass_settled this]
  have "reconcile_loop (length (rg_tasks r) + 2) now (reconcile_pass now r) ch \<noteq> None" for ch .
  then show ?thesis using reconcile_loop.simps(2) [of "length (rg_tasks r) + 2" now r changed]
    by (auto simp: numeral_eq_Suc)
qed


text \<open>The loop as iterated passes: what every pass keeps, the result has.\<close>

lemma reconcile_loop_result:
  "reconcile_loop fuel now r ch = Some (r', ch') \<Longrightarrow>
     pass_changes now r' = [] \<and> (\<exists>n. r' = (reconcile_pass now ^^ n) r)"
proof (induction fuel arbitrary: r ch)
  case (Suc fuel)
  show ?case
  proof (cases "pass_changes now r = []")
    case True
    then show ?thesis using Suc.prems by (auto intro: exI [of _ 0])
  next
    case False
    with Suc obtain n where "pass_changes now r' = []" "r' = (reconcile_pass now ^^ n) (reconcile_pass now r)"
      by auto
    then have "r' = (reconcile_pass now ^^ Suc n) r" by (simp add: funpow_swap1)
    with \<open>pass_changes now r' = []\<close> show ?thesis by blast
  qed
qed simp

lemma reconcile_result:
  obtains n where "fst (reconcile_task_blocks now r) = (reconcile_pass now ^^ n) r"
    and "pass_changes now (fst (reconcile_task_blocks now r)) = []"
proof -
  obtain r' ch where "reconcile_loop (length (rg_tasks r) + 3) now r [] = Some (r', ch)"
    using reconcile_loop_terminates by (metis not_None_eq prod.exhaust)
  with reconcile_loop_result [OF this] that show thesis
    by (auto simp: reconcile_task_blocks_def)
qed

lemma funpow_keeps: "P r \<Longrightarrow> (\<And>r. P r \<Longrightarrow> P (f r)) \<Longrightarrow> P ((f ^^ n) r)"
  by (induction n) auto

lemma reconcile_keeps:
  "P r \<Longrightarrow> (\<And>s. P s \<Longrightarrow> P (reconcile_pass now s)) \<Longrightarrow> P (fst (reconcile_task_blocks now r))"
  by (metis funpow_keeps reconcile_result)

lemma reconcile_satisfied:
  "satisfied_dependency_ids (fst (reconcile_task_blocks now r)) = satisfied_dependency_ids r"
  by (rule reconcile_keeps [where P = "\<lambda>s. satisfied_dependency_ids s = satisfied_dependency_ids r"])
     (simp_all add: pass_satisfied)

lemma reconcile_edge: "reg_edge (fst (reconcile_task_blocks now r)) = reg_edge r"
  by (rule reconcile_keeps [where P = "\<lambda>s. reg_edge s = reg_edge r"]) (simp_all add: pass_edge)

text \<open>Tasks keep their place, identity, dependencies, gate, worktree and verdict.\<close>

lemma reconcile_core:
  "list_all2 same_core (rg_tasks (fst (reconcile_task_blocks now r))) (rg_tasks r)"
proof (rule reconcile_keeps [where P = "\<lambda>s. list_all2 same_core (rg_tasks s) (rg_tasks r)"])
  show "list_all2 same_core (rg_tasks (reconcile_pass now s)) (rg_tasks r)"
    if "list_all2 same_core (rg_tasks s) (rg_tasks r)" for s
    using that stepped_core same_core_trans
    by (fastforce simp: pass_tasks list_all2_conv_all_nth)
qed (simp add: list_all2_refl)

lemma pass_changes_now: "pass_changes now r = pass_changes now' r"
proof -
  have "reconcile_task now (rg_tasks r) (satisfied_dependency_ids r) t = None \<longleftrightarrow>
      reconcile_task now' (rg_tasks r) (satisfied_dependency_ids r) t = None" for t
    by (simp add: reconcile_task_None_iff)
  then show ?thesis by (simp add: pass_changes_def)
qed

lemma reconcile_again: "pass_changes now' (fst (reconcile_task_blocks now r)) = []"
  using reconcile_result pass_changes_now by metis

lemma reconcile_quiet: "pass_changes now r = [] \<Longrightarrow> reconcile_task_blocks now r = (r, [])"
  by (simp add: reconcile_task_blocks_def numeral_eq_Suc)

text \<open>A task reconciliation leaves, and the states it can move.\<close>

definition blocked_by_reconcile :: "task \<Rightarrow> bool" where
  "blocked_by_reconcile t =
     (workflow_state_of t = Some Blocked
      \<and> tr_last_error_code (tk_runtime t) \<in> {Some ''E904'', Some ''E905''})"

lemma fixpoint_tasks:
  assumes "pass_changes now r = []" "t \<in> set (rg_tasks r)"
  shows "uncleared_block t \<noteq> None \<or> tk_id t \<in> reaching r \<Longrightarrow> workflow_state_of t \<noteq> Some Todo"
    and "uncleared_block t = None \<Longrightarrow> tk_id t \<notin> reaching r \<Longrightarrow> \<not> blocked_by_reconcile t"
  using assms
  by (auto simp: pass_changes_Nil reconcile_task_None_iff blocked_by_reconcile_def split: if_splits)

text \<open>
  When dependencies have no cycle, every task that stays blocked as a dependant really depends on a
  root that reconciliation did not create.
\<close>

definition genuine_root :: "task \<Rightarrow> bool" where
  "genuine_root t = (blocking_root t \<and> (uncleared_block t \<noteq> None \<or> \<not> blocked_by_reconcile t))"

lemma edges_finite: "finite {(a, b). dep_edge ts sat a b}"
proof (rule finite_subset)
  show "{(a, b). dep_edge ts sat a b} \<subseteq> tk_id ` set ts \<times> tk_id ` set ts"
    by (force simp: dep_edge_def dest: task_by_id_Some)
qed simp

lemma reaching_genuine:
  assumes quiet: "pass_changes now r = []" and acyc: "acyclic {(a, b). reg_edge r a b}"
    and k: "k \<in> reaching r"
  shows "\<exists>j t. (reg_edge r)\<^sup>+\<^sup>+ k j \<and> task_by_id (rg_tasks r) j = Some t \<and> genuine_root t"
proof -
  let ?E = "{(a, b). reg_edge r a b}"
  have "wf ((?E\<inverse>)\<^sup>+)"
    using finite_acyclic_wf_converse [OF edges_finite acyc] by (rule wf_trancl)
  then show ?thesis using k
  proof (induction k rule: wf_induct_rule)
    case (less k)
    then obtain j t where j: "(reg_edge r)\<^sup>+\<^sup>+ k j" "task_by_id (rg_tasks r) j = Some t" "blocking_root t"
      by (auto simp: reaching_iff is_root_def)
    show ?case
    proof (cases "genuine_root t")
      case True
      with j show ?thesis by blast
    next
      case False
      then have "uncleared_block t = None" "blocked_by_reconcile t"
        using j(3) by (auto simp: genuine_root_def)
      then have "j \<in> reaching r"
        using fixpoint_tasks(2) [OF quiet] j(2) by (auto dest: task_by_id_Some)
      moreover have "(j, k) \<in> (?E\<inverse>)\<^sup>+"
        using j(1) by (simp add: trancl_converse tranclp_unfold)
      ultimately obtain i u where "(reg_edge r)\<^sup>+\<^sup>+ j i" "task_by_id (rg_tasks r) i = Some u" "genuine_root u"
        using less.IH by blast
      with j(1) show ?thesis by (meson tranclp_trans)
    qed
  qed
qed


section \<open>Stall diagnosis\<close>

record unschedulable_task =
  un_id :: string
  un_reason :: string
  un_branch :: "string option"
  un_blocked_root :: bool
  un_depends_on_blocked :: bool

definition global_entry :: "string \<Rightarrow> unschedulable_task" where
  "global_entry reason =
     \<lparr>un_id = ''-'', un_reason = reason, un_branch = None, un_blocked_root = False,
      un_depends_on_blocked = False\<rparr>"

definition blocked_root_entry :: "task \<Rightarrow> unschedulable_task" where
  "blocked_root_entry t =
     \<lparr>un_id = tk_id t, un_reason = blocked_task_reason t, un_branch = branch_of t,
      un_blocked_root = True, un_depends_on_blocked = False\<rparr>"

definition todo_entry :: "task \<Rightarrow> bool \<Rightarrow> string \<Rightarrow> unschedulable_task" where
  "todo_entry t on_blocked reason =
     \<lparr>un_id = tk_id t, un_reason = reason, un_branch = branch_of t, un_blocked_root = False,
      un_depends_on_blocked = on_blocked\<rparr>"

definition not_resumable_detail :: "task \<Rightarrow> selector_config \<Rightarrow> string" where
  "not_resumable_detail t cfg =
     (let retries = retries_count (tk_runtime t) in
      if runtime_status_of t \<noteq> Rt_Failed then ''runtime='' @ runtime_as_str (runtime_status_of t)
      else if sc_max_same_worktree_retries cfg = 0 then ''same-worktree resume disabled''
      else if retries > sc_max_same_worktree_retries cfg
      then ''retry budget spent ('' @ show_nat retries @ ''/''
           @ show_nat (sc_max_same_worktree_retries cfg) @ '')''
      else ''no branch to resume'')"

definition unmet_dependencies :: "task_registry \<Rightarrow> selector_config \<Rightarrow> task \<Rightarrow> string list" where
  "unmet_dependencies r cfg t =
     filter (\<lambda>d. d \<notin> set (satisfied_dependency_ids r) \<and> d \<notin> set (sc_external_merged_ids cfg))
       (tk_dependencies t)"

definition dependency_entry ::
  "task_registry \<Rightarrow> selector_config \<Rightarrow> task \<Rightarrow> unschedulable_task" where
  "dependency_entry r cfg t =
     (let unmet = unmet_dependencies r cfg t in
      case blocked_dependency_path (rg_tasks r)
             (satisfied_dependency_ids r @ sc_external_merged_ids cfg) [] t of
        Some path \<Rightarrow>
          todo_entry t True
            (''depends on blocked task '' @ path_root path @ '' via '' @ join '' -> '' path
             @ ''; root '' @ path_root path @ '' is '' @ root_reason (rg_tasks r) (path_root path))
      | None \<Rightarrow>
          let waiting = filter (\<lambda>d. list_ex (\<lambda>u. tk_id u = d \<and> is_awaiting_approval u) (rg_tasks r)) unmet
          in if waiting \<noteq> []
             then todo_entry t False
               (''waiting on human approval of '' @ join '', '' waiting
                @ '' (no worker is used; run `macc coordinator approve`)'')
             else todo_entry t False (''waiting on dependencies: '' @ join '', '' unmet))"

definition held_resources :: "task_registry \<Rightarrow> task \<Rightarrow> string list" where
  "held_resources r t =
     filter (\<lambda>k. k \<noteq> [] \<and> (case bt_get (rg_resource_locks r) k of None \<Rightarrow> False
                           | Some l \<Rightarrow> lk_task_id l \<noteq> [] \<and> lk_task_id l \<noteq> tk_id t))
       (tk_exclusive_resources t)"

definition diagnose_task ::
  "ts_parser \<Rightarrow> task_registry \<Rightarrow> selector_config \<Rightarrow> task \<Rightarrow> unschedulable_task option" where
  "diagnose_task ts r cfg t =
     (if workflow_state_of t \<noteq> Some Todo then None
      else if has_worktree_attached t \<and> resume_worktree_for t (sc_max_same_worktree_retries cfg) = None
      then Some (todo_entry t False
             (''worktree attached, not resumable: '' @ not_resumable_detail t cfg))
      else if tk_id t = [] then Some (todo_entry t False ''task has an empty id'')
      else if unmet_dependencies r cfg t \<noteq> [] then Some (dependency_entry r cfg t)
      else if held_resources r t \<noteq> []
      then Some (todo_entry t False
             (''exclusive resources held: '' @ join '', '' (held_resources r t)))
      else if task_delayed t (sc_now cfg)
      then Some (todo_entry t False
             (''delayed until '' @ unwrap_or ''unknown'' (tr_delayed_until (tk_runtime t))))
      else if pick_tool ts t cfg (active_by_tool r) = None
      then Some (todo_entry t False
             ''no eligible tool (all candidates throttled, disabled, or at their parallel cap)'')
      else None)"

text \<open>\<open>debug\<close> is the derived \<open>Debug\<close> text of the global block reason.\<close>

definition diagnose_unschedulable_tasks ::
  "(dispatch_block_reason \<Rightarrow> string) \<Rightarrow> ts_parser \<Rightarrow> task_registry \<Rightarrow> selector_config
     \<Rightarrow> unschedulable_task list" where
  "diagnose_unschedulable_tasks debug ts r cfg =
     (case dispatch_block_reason_typed ts r cfg of
        Some reason \<Rightarrow> [global_entry (''dispatch blocked: '' @ debug reason)]
      | None \<Rightarrow>
          if 0 < sc_max_parallel cfg \<and> sc_max_parallel cfg \<le> length (active_tasks r)
          then [global_entry (''parallelism cap reached ('' @ show_nat (length (active_tasks r))
                 @ '' active >= max_parallel '' @ show_nat (sc_max_parallel cfg) @ '')'')]
          else map blocked_root_entry
                 (filter (\<lambda>t. workflow_state_of t = Some Blocked) (rg_tasks r))
               @ List.map_filter (diagnose_task ts r cfg) (rg_tasks r))"

lemma unmet_ready:
  "unmet_dependencies r cfg t = [] \<longleftrightarrow>
     dependencies_ready t (satisfied_dependency_ids r) (sc_external_merged_ids cfg)"
  by (auto simp: unmet_dependencies_def dependencies_ready_def filter_empty_conv list_all_iff)

lemma held_available: "held_resources r t = [] \<longleftrightarrow> resources_available t (rg_resource_locks r)"
  by (auto simp: held_resources_def resources_available_def filter_empty_conv list_all_iff
      split: option.splits)

lemma diagnose_task_candidate:
  assumes "workflow_state_of t = Some Todo" "\<not> is_human_approval_gate t"
  shows "diagnose_task ts r cfg t = None \<longleftrightarrow> candidate ts r cfg t \<noteq> None"
  using assms unmet_ready [of r cfg t] held_available [of r t]
  by (simp add: diagnose_task_def candidate_def Let_def split: option.split prod.split)

section \<open>Properties\<close>

text \<open>The search for a blocked dependency is exact: it returns a path precisely when a chain of
  undelivered dependencies leads from the task to a blocking root, whatever cycles the dependencies
  have, and the path it returns starts at the task, follows such dependencies and ends at a root.\<close>

theorem blocked_path_exact:
  "case snapshot_path ts sat k of
     None \<Rightarrow> \<not> (\<exists>root. (dep_edge ts sat)\<^sup>+\<^sup>+ k root \<and> is_root ts root)
   | Some p \<Rightarrow> \<exists>xs root. p = k # xs @ [root] \<and> rtrancl_path (dep_edge ts sat) k (xs @ [root]) root
                \<and> is_root ts root"
proof (cases "snapshot_path ts sat k")
  case None
  then show ?thesis using snapshot_path_iff [of ts sat k] by simp
next
  case (Some p)
  then show ?thesis by (simp, metis snapshot_path_sound)
qed

text \<open>C13: Reconciling blocks always ends: \<open>length + 3\<close> passes are enough on any registry, cyclic
  dependencies included, and more fuel does not change the result.\<close>

theorem reconcile_blocks_terminates:
  "\<exists>res. reconcile_loop (length (rg_tasks r) + 3) now r [] = Some res
     \<and> reconcile_task_blocks now r = (fst res, sort (remdups (snd res)))
     \<and> reconcile_loop (length (rg_tasks r) + 3 + k) now r [] = Some res"
proof -
  have more: "reconcile_loop fuel now r ch = Some res \<Longrightarrow> reconcile_loop (fuel + k) now r ch = Some res"
    for fuel r ch res
    by (induction fuel arbitrary: r ch) (auto split: if_splits)
  obtain res where res: "reconcile_loop (length (rg_tasks r) + 3) now r [] = Some res"
    using reconcile_loop_terminates by blast
  then show ?thesis using more [OF res]
    by (cases res) (simp add: reconcile_task_blocks_def)
qed

text \<open>C11: After reconciliation no \<open>todo\<close> task carries a standing external block or depends, through
  undelivered dependencies, on a blocking root; a task still blocked with one of the two reconciliation
  codes has such a reason; a second reconciliation changes nothing; and no task changed its identity,
  dependencies, gate or worktree.\<close>

theorem reconcile_blocks_meaning:
  assumes "t \<in> set (rg_tasks (fst (reconcile_task_blocks now r)))"
  defines "r' \<equiv> fst (reconcile_task_blocks now r)"
  shows "(workflow_state_of t = Some Todo \<longrightarrow> uncleared_block t = None
      \<and> \<not> (\<exists>root. (reg_edge r')\<^sup>+\<^sup>+ (tk_id t) root \<and> is_root (rg_tasks r') root))
    \<and> (blocked_by_reconcile t \<longrightarrow> uncleared_block t \<noteq> None
      \<or> (\<exists>root. (reg_edge r')\<^sup>+\<^sup>+ (tk_id t) root \<and> is_root (rg_tasks r') root))
    \<and> reconcile_task_blocks now' r' = (r', [])
    \<and> list_all2 same_core (rg_tasks r') (rg_tasks r)"
proof -
  have quiet: "pass_changes now' r' = []" by (simp add: r'_def reconcile_again)
  note fix' = fixpoint_tasks [OF quiet assms(1) [folded r'_def]]
  show ?thesis
    using fix' reconcile_quiet [OF quiet] reconcile_core [of now r] unfolding reaching_iff r'_def by blast
qed

text \<open>C12: With acyclic dependencies no task stays blocked without a cause: from every task that
  reconciliation leaves blocked as a dependant, undelivered dependencies lead to a task that blocks on
  its own account (a standing external block, or a blocked state that reconciliation did not set).\<close>

theorem no_phantom_blocks:
  assumes "t \<in> set (rg_tasks (fst (reconcile_task_blocks now r)))"
    and "blocked_by_reconcile t" "uncleared_block t = None"
    and "acyclic {(a, b). reg_edge r a b}"
  shows "\<exists>j u. (reg_edge r)\<^sup>+\<^sup>+ (tk_id t) j
    \<and> task_by_id (rg_tasks (fst (reconcile_task_blocks now r))) j = Some u \<and> genuine_root u"
proof -
  let ?r = "fst (reconcile_task_blocks now r)"
  have quiet: "pass_changes now ?r = []" by (rule reconcile_again)
  have "tk_id t \<in> reaching ?r" using fixpoint_tasks(2) [OF quiet assms(1)] assms(2,3) by blast
  with reaching_genuine [OF quiet] assms(4) show ?thesis unfolding reconcile_edge by blast
qed

text \<open>The stall diagnosis explains every task the selector passes over: when nothing blocks
  dispatch as a whole, the report has an entry for a \<open>todo\<close> task that is no human gate exactly when the
  selector would not consider it.\<close>

theorem diagnosis_explains_selection:
  assumes "t \<in> set (rg_tasks r)" "workflow_state_of t = Some Todo" "\<not> is_human_approval_gate t"
    and "dispatch_block_reason_typed ts r cfg = None"
    and "sc_max_parallel cfg = 0 \<or> length (active_tasks r) < sc_max_parallel cfg"
  shows "(diagnose_task ts r cfg t = None) = (candidate ts r cfg t \<noteq> None)
    \<and> (select_next_ready_task_typed ts r cfg = None \<longrightarrow>
        (\<exists>e \<in> set (diagnose_unschedulable_tasks debug ts r cfg). un_id e = tk_id t \<and> \<not> un_blocked_root e))"
proof -
  note iff = diagnose_task_candidate [OF assms(2,3), of ts r cfg]
  have entry: "un_id e = tk_id t \<and> \<not> un_blocked_root e" if "diagnose_task ts r cfg t = Some e" for e
    using that
    by (auto simp: diagnose_task_def todo_entry_def dependency_entry_def Let_def
        split: if_splits option.splits)
  have "\<exists>e \<in> set (diagnose_unschedulable_tasks debug ts r cfg). un_id e = tk_id t \<and> \<not> un_blocked_root e"
    if "select_next_ready_task_typed ts r cfg = None"
  proof -
    have cap: "\<not> (0 < sc_max_parallel cfg \<and> sc_max_parallel cfg \<le> length (active_tasks r))"
      using assms(5) by linarith
    have "candidate ts r cfg t = None" using select_None [OF that assms(4,5,1)] .
    then obtain e where e: "diagnose_task ts r cfg t = Some e" using iff by blast
    then have "e \<in> set (List.map_filter (diagnose_task ts r cfg) (rg_tasks r))"
      using assms(1) by (auto simp: set_map_filter)
    then have "e \<in> set (diagnose_unschedulable_tasks debug ts r cfg)"
      unfolding diagnose_unschedulable_tasks_def assms(4) option.case if_not_P [OF cap] by simp
    with entry [OF e] show ?thesis by blast
  qed
  with iff show ?thesis by blast
qed

definition sample_dependant :: task where
  "sample_dependant =
     (sample_task ''A'' Blocked)\<lparr>tk_dependencies := [''B''],
       tk_runtime := default_runtime\<lparr>tr_last_error_code := Some ''E905''\<rparr>\<rparr>"

lemma sample_dependant_fields [simp]:
  "tk_id sample_dependant = ''A''" "tk_dependencies sample_dependant = [''B'']"
  "workflow_state_of sample_dependant = Some Blocked"
  "tr_last_error_code (tk_runtime sample_dependant) = Some ''E905''"
  "uncleared_block sample_dependant = None"
  by (simp_all add: sample_dependant_def coord_frame uncleared_block_def)

definition sample_blocked :: task_registry where
  "sample_blocked = default_registry\<lparr>rg_tasks := [sample_dependant, sample_task ''B'' Blocked]\<rparr>"

lemma sample_blocked_tasks: "rg_tasks sample_blocked = [sample_dependant, sample_task ''B'' Blocked]"
  by (simp add: sample_blocked_def)

lemma sample_blocked_by_id:
  "task_by_id (rg_tasks sample_blocked) k =
     (if k = ''B'' then Some (sample_task ''B'' Blocked)
      else if k = ''A'' then Some sample_dependant else None)"
  by (simp add: task_by_id_def sample_blocked_tasks)

lemma sample_blocked_satisfied: "satisfied_dependency_ids sample_blocked = []"
  by (simp add: satisfied_dependency_ids_def sample_blocked_tasks
      satisfies_dependants_def state_satisfies_dependants_def)

lemma sample_blocked_edges: "reg_edge sample_blocked a b \<longleftrightarrow> a = ''A'' \<and> b = ''B''"
  unfolding dep_edge_def sample_blocked_by_id sample_blocked_satisfied
  by (auto split: if_splits)

lemma sample_blocked_quiet: "pass_changes now sample_blocked = []"
proof -
  have root: "is_root (rg_tasks sample_blocked) ''B''"
    by (simp add: is_root_def sample_blocked_by_id blocking_root_def)
  have "''A'' \<in> reaching sample_blocked"
    unfolding reaching_iff
    by (rule exI [of _ "''B''"]) (auto simp: root sample_blocked_edges intro: tranclp.r_into_trancl)
  moreover have "uncleared_block (sample_task ''B'' Blocked) = None"
      "tr_last_error_code default_runtime = None"
    by (simp_all add: uncleared_block_def default_runtime_def)
  ultimately show ?thesis
    unfolding pass_changes_Nil reconcile_task_None_iff by (simp add: sample_blocked_tasks)
qed

theorem reconcile_blocks_meaning_witness:
  "\<not> (\<exists>t \<in> set (rg_tasks sample_blocked). workflow_state_of t = Some Todo)
   \<and> reconcile_task_blocks ''later'' (fst (reconcile_task_blocks ''now'' sample_blocked))
     = (fst (reconcile_task_blocks ''now'' sample_blocked), [])"
proof -
  have "sample_task ''B'' Blocked \<in> set (rg_tasks (fst (reconcile_task_blocks ''now'' sample_blocked)))"
    by (simp add: reconcile_quiet [OF sample_blocked_quiet] sample_blocked_tasks)
  from reconcile_blocks_meaning [OF this, of "''later''"] show ?thesis
    by (simp add: sample_blocked_tasks)
qed

theorem no_phantom_blocks_witness:
  "\<exists>j u. (reg_edge sample_blocked)\<^sup>+\<^sup>+ ''A'' j \<and> task_by_id (rg_tasks sample_blocked) j = Some u
     \<and> genuine_root u"
proof -
  note quiet = reconcile_quiet [OF sample_blocked_quiet, of "''now''"]
  have t: "sample_dependant \<in> set (rg_tasks (fst (reconcile_task_blocks ''now'' sample_blocked)))"
    by (simp add: quiet sample_blocked_tasks)
  have by_rec: "blocked_by_reconcile sample_dependant" by (simp add: blocked_by_reconcile_def)
  have "acyclic {(a, b). reg_edge sample_blocked a b}"
  proof (rule acyclic_subset)
    show "acyclic {(''A'', ''B'')}" by (simp add: acyclic_def trancl_insert)
  qed (auto simp: sample_blocked_edges)
  from no_phantom_blocks [OF t by_rec _ this] show ?thesis by (simp add: quiet)
qed

definition sample_waiting :: task_registry where
  "sample_waiting =
     default_registry\<lparr>rg_tasks := [(sample_task ''A'' Todo)\<lparr>tk_dependencies := [''B'']\<rparr>]\<rparr>"

theorem diagnosis_explains_selection_witness:
  "\<exists>e \<in> set (diagnose_unschedulable_tasks (\<lambda>_. []) (\<lambda>_. None) sample_waiting sample_config).
     un_id e = ''A'' \<and> \<not> un_blocked_root e"
proof -
  let ?t = "(sample_task ''A'' Todo)\<lparr>tk_dependencies := [''B'']\<rparr>"
  have t: "?t \<in> set (rg_tasks sample_waiting)" "workflow_state_of ?t = Some Todo"
      "\<not> is_human_approval_gate ?t"
    by (simp_all add: sample_waiting_def default_registry_def coord_frame is_human_approval_gate_def)
  have idle: "active_tasks sample_waiting = []"
    by (simp add: active_tasks_def is_active_def sample_waiting_def default_registry_def coord_frame)
  have block: "dispatch_block_reason_typed (\<lambda>_. None) sample_waiting sample_config = None"
    by (simp add: dispatch_block_reason_typed_def idle)
  have room: "sc_max_parallel sample_config = 0 \<or> length (active_tasks sample_waiting) < sc_max_parallel sample_config"
    by (simp add: idle sample_config_def)
  have "candidate (\<lambda>_. None) sample_waiting sample_config ?t = None"
    using unmet_ready [of sample_waiting sample_config ?t]
    by (simp add: candidate_def Let_def unmet_dependencies_def satisfied_dependency_ids_def
        satisfies_dependants_def state_satisfies_dependants_def coord_frame sample_config_def
        sample_waiting_def default_registry_def)
  then have "select_next_ready_task_typed (\<lambda>_. None) sample_waiting sample_config = None"
    by (simp add: select_next_ready_task_typed_def sample_waiting_def default_registry_def
        List.map_filter_def)
  with diagnosis_explains_selection [OF t block room] show ?thesis by simp
qed

end
