(* ===== verification/Scope.thy ===== *)
theory Scope
  imports Model
begin

text \<open>
  Locating a fix that a task may not make (\<open>core/src/coordinator/precondition_scope.rs\<close>): the paths
  a free-text precondition names, the glob match against the task's \<open>change_scope\<close>, and the paths
  outside it.  The glob matcher is proved equal to a declarative reading of its patterns.
\<close>

section \<open>Paths in prose\<close>

definition token_delimiters :: string where
  "token_delimiters =
     [CHR ''('', CHR '')'', CHR ''['', CHR '']'', CHR ''{'', CHR ''}'', CHR '','', CHR '';'',
      CHR 0x60, CHR 0x22, CHR 0x27, CHR ''<'', CHR ''>'']"

text \<open>
  \<open>text.split(|c| c.is_whitespace() || matches!(c, ...))\<close>: white space is a UTF-8 sequence, the other
  separators are single bytes.
\<close>

function tokens :: "string \<Rightarrow> string list" where
  "tokens s =
     (case strip_one white_space s of
        Some rest \<Rightarrow> [] # tokens rest
      | None \<Rightarrow>
          (case s of
             [] \<Rightarrow> [[]]
           | c # rest \<Rightarrow>
               if c \<in> set token_delimiters then [] # tokens rest
               else (case tokens rest of [] \<Rightarrow> [[c]] | w # ws \<Rightarrow> (c # w) # ws)))"
  by pat_completeness auto
termination
  by (relation "measure length") (auto dest: strip_one_shorter)

declare tokens.simps [simp del]

definition path_char :: "char \<Rightarrow> bool" where
  "path_char c =
     (let n = (of_char c :: nat) in
      (48 \<le> n \<and> n \<le> 57) \<or> (65 \<le> n \<and> n \<le> 90) \<or> (97 \<le> n \<and> n \<le> 122)
      \<or> c \<in> set ''/.-_*@'')"

definition slash :: "char \<Rightarrow> bool" where "slash c = (c = CHR ''/'')"

definition path_token :: "string \<Rightarrow> string option" where
  "path_token raw =
     (let token = trim_start_matches ''./'' (trim_end_matches ''.:!?'' raw) in
      if str_contains token ''://'' \<or> prefix_of ''/'' token \<or> \<not> str_contains token ''/'' then None
      else if list_all path_char token \<and> list_all (\<lambda>seg. seg \<noteq> []) (split_on slash token)
      then Some token
      else None)"

definition mentioned_paths :: "string \<Rightarrow> string list" where
  "mentioned_paths s = dedup (List.map_filter path_token (tokens s))"

section \<open>Glob patterns\<close>

definition star :: char where "star = CHR ''*''"

function glob :: "string \<Rightarrow> string \<Rightarrow> bool" where
  "glob [] s = (s = [])"
| "glob (c # p) s =
     (if c = star
      then (case p of
              d # rest \<Rightarrow>
                if d = star
                then (let rest' = (case rest of e # q \<Rightarrow> if e = CHR ''/'' then q else rest | [] \<Rightarrow> rest) in
                      list_ex (\<lambda>i. glob rest (drop i s) \<or> glob rest' (drop i s))
                        [0..<Suc (length s)])
                else list_ex (\<lambda>i. glob p (drop i s))
                       (takeWhile (\<lambda>i. i = 0 \<or> s ! (i - 1) \<noteq> CHR ''/'') [0..<Suc (length s)])
            | [] \<Rightarrow> list_ex (\<lambda>i. glob p (drop i s))
                      (takeWhile (\<lambda>i. i = 0 \<or> s ! (i - 1) \<noteq> CHR ''/'') [0..<Suc (length s)]))
      else (case s of [] \<Rightarrow> False | d # s' \<Rightarrow> d = c \<and> glob p s'))"
  by pat_completeness auto
termination
  by (relation "measure (length \<circ> fst)") (auto split: list.splits if_splits)

declare glob.simps [simp del]

definition path_matches :: "string \<Rightarrow> string \<Rightarrow> bool" where
  "path_matches pattern path =
     (let pat = trim_end_matches ''/'' pattern in
      if star \<notin> set pat then path = pat \<or> prefix_of (pat @ ''/'') path
      else glob pat path)"

section \<open>Paths outside the scope\<close>

definition scope_list :: "task \<Rightarrow> string \<Rightarrow> string list" where
  "scope_list t key =
     (case Option.bind (bt_get (tk_extra t) ''change_scope'')
             (\<lambda>s. Option.bind (json_get s key) as_array) of
        None \<Rightarrow> []
      | Some items \<Rightarrow>
          filter (\<lambda>p. p \<noteq> [])
            (map (\<lambda>p. trim_start_matches ''./'' (trim p)) (List.map_filter as_str items)))"

definition writable :: "task \<Rightarrow> string \<Rightarrow> bool" where
  "writable t path =
     (list_ex (\<lambda>p. path_matches p path) (scope_list t ''allowed_paths'')
      \<and> \<not> list_ex (\<lambda>p. path_matches p path)
            (scope_list t ''read_only_paths'' @ scope_list t ''forbidden_paths''))"

definition out_of_scope_paths :: "task \<Rightarrow> string list \<Rightarrow> string list" where
  "out_of_scope_paths t texts =
     (if scope_list t ''allowed_paths'' = [] then []
      else dedup (filter (\<lambda>p. \<not> writable t p) (concat (map mentioned_paths texts))))"

definition out_of_scope_note :: "string \<Rightarrow> string list \<Rightarrow> string" where
  "out_of_scope_note task_id paths =
     ''The fix lies outside '' @ task_id @ CHR 0x27 # ''s change scope ('' @ join '', '' paths
     @ ''): it needs a source change in the module that owns ''
     @ (if length paths = 1 then ''that path'' else ''those paths'')
     @ '', not a retry of '' @ task_id @ ''. A supervisor repair or a task owning ''
     @ (if length paths = 1 then ''it'' else ''them'')
     @ '' must land first; dependants stay blocked until then.''"

section \<open>What the glob matcher accepts\<close>

inductive glob_matches :: "string \<Rightarrow> string \<Rightarrow> bool" where
  empty: "glob_matches [] []"
| literal: "c \<noteq> star \<Longrightarrow> glob_matches p s \<Longrightarrow> glob_matches (c # p) (c # s)"
| segment: "(\<And>q. p \<noteq> star # q) \<Longrightarrow> CHR ''/'' \<notin> set w \<Longrightarrow> glob_matches p s \<Longrightarrow>
    glob_matches (star # p) (w @ s)"
| tree: "glob_matches p s \<Longrightarrow> glob_matches (star # star # p) (w @ s)"
| tree_slash: "glob_matches p s \<Longrightarrow> glob_matches (star # star # CHR ''/'' # p) (w @ s)"

lemma takeWhile_upt: "i \<in> set (takeWhile P [0..<n]) \<longleftrightarrow> i < n \<and> (\<forall>j \<le> i. P j)"
proof (induction n)
  case (Suc n)
  show ?case
  proof (cases "\<forall>j < n. P j")
    case True
    then have "takeWhile P [0..<Suc n] = [0..<n] @ (if P n then [n] else [])"
      by (simp add: takeWhile_append)
    then show ?thesis using True by (auto simp: less_Suc_eq le_less)
  next
    case False
    then have "takeWhile P [0..<Suc n] = takeWhile P [0..<n]"
      by (auto simp: takeWhile_append)
    then show ?thesis using Suc False by (auto simp: less_Suc_eq)
  qed
qed simp

lemma slash_free_take:
  assumes "i \<le> length s"
  shows "(\<forall>j \<le> i. j = 0 \<or> s ! (j - 1) \<noteq> x) \<longleftrightarrow> x \<notin> set (take i s)"
proof -
  have "(\<forall>j \<le> i. j = 0 \<or> s ! (j - 1) \<noteq> x) \<longleftrightarrow> (\<forall>k < i. s ! k \<noteq> x)"
  proof
    assume left: "\<forall>j \<le> i. j = 0 \<or> s ! (j - 1) \<noteq> x"
    show "\<forall>k < i. s ! k \<noteq> x" using left [rule_format, of "Suc _"] by simp
  next
    assume "\<forall>k < i. s ! k \<noteq> x"
    then show "\<forall>j \<le> i. j = 0 \<or> s ! (j - 1) \<noteq> x" by (metis Suc_le_lessD diff_Suc_1 not0_implies_Suc)
  qed
  also have "\<dots> \<longleftrightarrow> x \<notin> set (take i s)"
    using assms by (auto simp: in_set_conv_nth)
  finally show ?thesis .
qed

lemma segment_splits:
  "list_ex (\<lambda>i. Q (drop i s))
     (takeWhile (\<lambda>i. i = 0 \<or> s ! (i - 1) \<noteq> x) [0..<Suc (length s)]) \<longleftrightarrow>
   (\<exists>w v. s = w @ v \<and> x \<notin> set w \<and> Q v)"
proof -
  have "list_ex (\<lambda>i. Q (drop i s))
      (takeWhile (\<lambda>i. i = 0 \<or> s ! (i - 1) \<noteq> x) [0..<Suc (length s)]) \<longleftrightarrow>
      (\<exists>i \<le> length s. x \<notin> set (take i s) \<and> Q (drop i s))"
    unfolding list_ex_iff Bex_def takeWhile_upt less_Suc_eq_le
    using slash_free_take [of _ s x] by blast
  also have "\<dots> \<longleftrightarrow> (\<exists>w v. s = w @ v \<and> x \<notin> set w \<and> Q v)"
    by (metis append_eq_conv_conj append_take_drop_id length_append le_add1)
  finally show ?thesis .
qed

lemma tree_splits:
  "list_ex (\<lambda>i. Q (drop i s)) [0..<Suc (length s)] \<longleftrightarrow> (\<exists>w v. s = w @ v \<and> Q v)"
proof -
  have "list_ex (\<lambda>i. Q (drop i s)) [0..<Suc (length s)] \<longleftrightarrow> (\<exists>i \<le> length s. Q (drop i s))"
    by (auto simp: list_ex_iff less_Suc_eq_le simp del: upt_Suc)
  also have "\<dots> \<longleftrightarrow> (\<exists>w v. s = w @ v \<and> Q v)"
    by (metis append_eq_conv_conj append_take_drop_id length_append le_add1)
  finally show ?thesis .
qed

text \<open>The three kinds of pattern, without indices.\<close>

lemma glob_Nil: "glob [] s \<longleftrightarrow> s = []"
  by (simp add: glob.simps)

lemma glob_literal: "c \<noteq> star \<Longrightarrow> glob (c # p) s \<longleftrightarrow> (\<exists>v. s = c # v \<and> glob p v)"
  by (auto simp: glob.simps(2) split: list.splits)

lemma glob_segment:
  assumes "\<And>q. p \<noteq> star # q"
  shows "glob (star # p) s \<longleftrightarrow> (\<exists>w v. s = w @ v \<and> CHR ''/'' \<notin> set w \<and> glob p v)"
proof (cases p)
  case Nil
  show ?thesis unfolding Nil glob.simps(2) segment_splits by simp
next
  case (Cons d q)
  then have "d \<noteq> star" using assms by blast
  then show ?thesis unfolding Cons glob.simps(2) [of star "d # q"] segment_splits by simp
qed

lemma glob_tree:
  "glob (star # star # p) s \<longleftrightarrow>
     (\<exists>w v. s = w @ v \<and> (glob p v \<or> (\<exists>q. p = CHR ''/'' # q \<and> glob q v)))"
proof -
  let ?p' = "case p of e # q \<Rightarrow> if e = CHR ''/'' then q else p | [] \<Rightarrow> p"
  have "glob (star # star # p) s \<longleftrightarrow>
      list_ex (\<lambda>i. glob p (drop i s) \<or> glob ?p' (drop i s)) [0..<Suc (length s)]"
    by (simp add: glob.simps(2) Let_def del: upt_Suc)
  also have "\<dots> \<longleftrightarrow> (\<exists>w v. s = w @ v \<and> (glob p v \<or> glob ?p' v))"
    by (rule tree_splits)
  also have "\<dots> \<longleftrightarrow> (\<exists>w v. s = w @ v \<and> (glob p v \<or> (\<exists>q. p = CHR ''/'' # q \<and> glob q v)))"
    by (auto split: list.splits if_splits)
  finally show ?thesis .
qed

lemma glob_matches_sound: "glob_matches p s \<Longrightarrow> glob p s"
proof (induction rule: glob_matches.induct)
  case (segment p w s)
  then show ?case using glob_segment [of p "w @ s"] by blast
next
  case (tree p s w)
  then show ?case using glob_tree by blast
next
  case (tree_slash p s w)
  then show ?case using glob_tree by blast
qed (simp_all add: glob_Nil glob_literal)

lemma glob_sound: "glob p s \<Longrightarrow> glob_matches p s"
proof (induction "length p" arbitrary: p s rule: less_induct)
  case less
  consider (nil) "p = []" | (lit) c q where "p = c # q" "c \<noteq> star"
    | (seg) q where "p = star # q" "\<And>r. q \<noteq> star # r" | (tree) q where "p = star # star # q"
    by (metis list.exhaust)
  then show ?case
  proof cases
    case nil
    then show ?thesis using less.prems by (simp add: glob_Nil glob_matches.empty)
  next
    case lit
    then obtain v where "s = c # v" "glob q v" using less.prems by (auto simp: glob_literal)
    then show ?thesis using lit less.hyps by (auto intro: glob_matches.literal)
  next
    case seg
    then obtain w v where "s = w @ v" "CHR ''/'' \<notin> set w" "glob q v"
      using less.prems by (auto simp: glob_segment)
    then show ?thesis using seg less.hyps by (auto intro: glob_matches.segment)
  next
    case tree
    then obtain w v where "s = w @ v" and alt: "glob q v \<or> (\<exists>r. q = CHR ''/'' # r \<and> glob r v)"
      using less.prems by (auto simp: glob_tree)
    then show ?thesis using tree less.hyps
      by (auto intro: glob_matches.tree glob_matches.tree_slash)
  qed
qed

lemma glob_iff: "glob p s \<longleftrightarrow> glob_matches p s"
  using glob_sound glob_matches_sound by blast

section \<open>Properties\<close>

text \<open>The recursive glob matcher decides exactly the inductive reading of scope patterns: literal
  bytes, \<open>*\<close> within one path segment, \<open>**\<close> across segments, with or without the slash after it.\<close>

theorem glob_decides: "glob pat s = glob_matches pat s"
  by (rule glob_iff)

end
