(* ===== verification/Completion.thy ===== *)
theory Completion
  imports Error_Codes Blocks Scope
begin

text \<open>
  What happens when a performer process ends (\<open>core/src/coordinator/engine\<close>): classifying its outcome
  (\<open>completion.rs\<close>) and choosing a strategy (\<open>retry.rs\<close>).  The normalizers of the tool adapters
  are values of type \<open>normalizer\<close>; the clock functions of \<open>chrono\<close> are \<open>ts\<close> (parse) and
  \<open>add_secs\<close> (\<open>now\<close> plus a number of seconds, as text, \<open>None\<close> when it cannot be computed).
\<close>

section \<open>Input and classification\<close>

record normalizer_input =
  ni_exit_code :: int
  ni_stderr :: string
  ni_stdout :: string

record job_completion_input =
  ji_success :: bool
  ji_attempt :: nat
  ji_max_attempts :: nat
  ji_timed_out :: bool
  ji_phase_timeout_seconds :: nat
  ji_elapsed_seconds :: u64
  ji_status_text :: string
  ji_completion_kind :: "completion_kind option"
  ji_error_code :: "string option"
  ji_error_origin :: "string option"
  ji_error_message :: "string option"
  ji_result_explanation :: "string option"
  ji_unmet_preconditions :: "string list"
  ji_auto_retry_error_codes :: "string list"
  ji_auto_retry_max :: nat
  ji_backoff_base_seconds :: u64
  ji_backoff_max_seconds :: u64
  ji_normalizer_input :: "normalizer_input option"

record job_completion_result =
  jr_should_retry :: bool
  jr_status_label :: string
  jr_detail :: string
  jr_completion_kind :: "completion_kind option"
  jr_tool_error :: "tool_error option"

record error_classification =
  ec_canonical_class :: canonical_class
  ec_error_code :: string
  ec_error_origin :: string
  ec_error_message :: string
  ec_completion_kind :: "completion_kind option"
  ec_completion_success :: bool
  ec_completion_authority :: completion_authority
  ec_has_commits :: bool
  ec_tool_error :: "tool_error option"

definition structured_error_message :: "job_completion_input \<Rightarrow> string option" where
  "structured_error_message input =
     (let preconditions = filter (\<lambda>p. p \<noteq> []) (map trim (ji_unmet_preconditions input));
          explanation = trimmed_nonempty (ji_result_explanation input)
      in if preconditions \<noteq> []
         then Some (''unmet precondition'' @ plural preconditions @ '': '' @ join ''; '' preconditions
                    @ (case explanation of None \<Rightarrow> [] | Some e \<Rightarrow> '' '' @ em_dash @ '' '' @ e))
         else explanation)"

definition reported_preconditions :: "job_completion_input \<Rightarrow> bool" where
  "reported_preconditions input =
     (ji_completion_kind input = Some PreconditionUnmet
      \<or> list_ex (\<lambda>p. trim p \<noteq> []) (ji_unmet_preconditions input))"

definition normalized_error ::
  "job_completion_input \<Rightarrow> normalizer option \<Rightarrow> tool_error option" where
  "normalized_error input normalizer =
     (if \<not> ji_success input \<and> \<not> reported_preconditions input
      then Option.bind (ji_normalizer_input input) (\<lambda>ni.
             Option.bind normalizer (\<lambda>n.
               map_option
                 (\<lambda>te. te\<lparr>te_attempt := ji_attempt input mod 2 ^ 32,
                         te_operation := ''performer_run''\<rparr>)
                 (n (ni_exit_code ni) (ni_stderr ni) (ni_stdout ni))))
      else None)"

definition classify_completion_error ::
  "job_completion_input \<Rightarrow> normalizer option \<Rightarrow> bool \<Rightarrow> error_classification" where
  "classify_completion_error input normalizer has_commits =
     (let tool_error = normalized_error input normalizer;
          error_code = unwrap_or (unwrap_or ''E101'' (ji_error_code input))
                         (map_option te_error_code tool_error);
          error_message =
            unwrap_or (unwrap_or (ji_status_text input) (ji_error_message input))
              (or_else (structured_error_message input) (map_option te_raw_message tool_error));
          canonical = unwrap_or (error_code_to_canonical_class error_code)
                        (map_option te_class tool_error);
          resolution =
            resolve_completion_authority (ji_completion_kind input) has_commits (ji_success input);
          override = (ar_authority resolution = IpcSignal
                      \<and> ar_kind resolution = Some SuccessWithChanges)
      in \<lparr>ec_canonical_class = canonical, ec_error_code = error_code,
          ec_error_origin = unwrap_or ''runner'' (ji_error_origin input),
          ec_error_message = error_message,
          ec_completion_kind =
            (if override then Some SuccessWithChanges else ji_completion_kind input),
          ec_completion_success = (if override then True else ji_success input),
          ec_completion_authority = ar_authority resolution,
          ec_has_commits = has_commits, ec_tool_error = tool_error\<rparr>)"

section \<open>Strategies\<close>

record completion_error_details =
  ce_code :: string
  ce_origin :: string
  ce_message :: string

definition from_classification :: "error_classification \<Rightarrow> completion_error_details" where
  "from_classification c =
     \<lparr>ce_code = ec_error_code c, ce_origin = ec_error_origin c, ce_message = ec_error_message c\<rparr>"

record coordinator_config =
  cc_auto_retry_error_codes :: "string list"
  cc_auto_retry_max :: nat
  cc_backoff_base_seconds :: u64
  cc_backoff_max_seconds :: u64

definition from_input :: "job_completion_input \<Rightarrow> coordinator_config" where
  "from_input input =
     \<lparr>cc_auto_retry_error_codes = ji_auto_retry_error_codes input,
      cc_auto_retry_max = ji_auto_retry_max input,
      cc_backoff_base_seconds = ji_backoff_base_seconds input,
      cc_backoff_max_seconds = ji_backoff_max_seconds input\<rparr>"

datatype retry_outcome =
    ToolReportedError completion_kind "tool_error option"
  | AttemptRetry completion_error_details "tool_error option" u64
  | RateLimitBackoff u64 string completion_error_details "tool_error option" u64
  | QuotaExhaustedRequeue u64 completion_error_details "tool_error option" u64
  | AutoRetry completion_error_details "tool_error option" u64

datatype block_outcome =
    InvalidInput
  | TerminalFailure completion_error_details "tool_error option" u64
  | RetryBudgetExhausted completion_kind "tool_error option" nat
  | ToolReportedTerminal completion_kind string nat

text \<open>\<open>Retry\<close> has the flag \<open>same_worktree\<close>, the reason and the outcome.\<close>

datatype retry_strategy =
    Retry bool string retry_outcome
  | Block string block_outcome
  | Merge string completion_kind "tool_error option"
  | PhaseDone string completion_kind
  | NoOp

definition retry_budget_exhausted :: "task \<Rightarrow> job_completion_input \<Rightarrow> bool" where
  "retry_budget_exhausted t input =
     (max (ji_max_attempts input) 1 \<le> retries_count (tk_runtime t))"

definition terminal_tool_report ::
  "task \<Rightarrow> job_completion_input \<Rightarrow> completion_kind \<Rightarrow> retry_strategy option" where
  "terminal_tool_report t input kind =
     (let explanation = trimmed_nonempty (ji_result_explanation input);
          previous = trimmed_nonempty (tr_result_explanation (tk_runtime t));
          retries = retries_count (tk_runtime t);
          report = (\<lambda>code attempts.
            Some (Block (ji_status_text input) (ToolReportedTerminal kind code attempts)))
      in if kind = PreconditionUnmet then report ''E903'' 1
         else if kind = ErrorWithoutChanges \<and> explanation \<noteq> None then report ''E906'' 1
         else if explanation \<noteq> None \<and> explanation = previous \<and> 0 < retries
         then report ''E907'' (retries + 1)
         else None)"

definition should_auto_retry_error_code :: "string \<Rightarrow> string list \<Rightarrow> nat \<Rightarrow> nat \<Rightarrow> bool" where
  "should_auto_retry_error_code code codes max_retries current_retries =
     (if code = [] \<or> max_retries = 0 then False
      else if max_retries \<le> current_retries then False
      else list_ex (\<lambda>entry. trim entry = code) codes)"

text \<open>A failure the tool reported: retried while the budget lasts.\<close>

definition tool_reported ::
  "task \<Rightarrow> job_completion_input \<Rightarrow> completion_kind \<Rightarrow> bool \<Rightarrow> bool \<Rightarrow> tool_error option
     \<Rightarrow> retry_strategy" where
  "tool_reported t input kind has_commits healthy te =
     (if retry_budget_exhausted t input
      then Block (ji_status_text input)
             (RetryBudgetExhausted kind te (retries_count (tk_runtime t)))
      else Retry (kind = ErrorWithChanges \<and> has_commits \<and> healthy) (ji_status_text input)
             (ToolReportedError kind te))"

definition success_strategy ::
  "task \<Rightarrow> job_completion_input \<Rightarrow> error_classification \<Rightarrow> bool \<Rightarrow> retry_strategy" where
  "success_strategy t input c healthy =
     (let kind = unwrap_or SuccessWithChanges (ec_completion_kind c) in
      if kind_is_error kind then tool_reported t input kind (ec_has_commits c) healthy None
      else if kind = AlreadySatisfied \<or> kind = SuccessWithoutChanges
      then Merge (ji_status_text input) kind None
      else PhaseDone (ji_status_text input) kind)"

text \<open>What the standard output says, when the exit code says failure.\<close>

definition stdout_strategy ::
  "task \<Rightarrow> job_completion_input \<Rightarrow> error_classification \<Rightarrow> bool \<Rightarrow> string \<Rightarrow> retry_strategy option" where
  "stdout_strategy t input c healthy out =
     (let says_done = str_contains out ''MACC_TASK_RESULT: success''
                      \<or> str_contains out ''already_satisfied'';
          transient = (case ec_tool_error c of None \<Rightarrow> False
                       | Some te \<Rightarrow> te_class te \<in> {Overloaded, RateLimit});
          says_error = str_contains out ''MACC_TASK_RESULT: error_with_changes''
                       \<or> str_contains out ''MACC_TASK_RESULT: error_without_changes''
      in if says_done \<and> transient
         then Some (Merge ''exit-code override: stdout indicates completion despite transient error''
                      AlreadySatisfied (ec_tool_error c))
         else if says_error
         then Some (tool_reported t input
                      (if str_contains out ''error_with_changes'' then ErrorWithChanges
                       else ErrorWithoutChanges)
                      (ec_has_commits c) healthy (ec_tool_error c))
         else None)"

definition attempt_reason :: "job_completion_input \<Rightarrow> string" where
  "attempt_reason input =
     (if ji_timed_out input
      then ''performer timed out after '' @ show_nat (ji_phase_timeout_seconds input)
           @ ''s on attempt '' @ show_nat (ji_attempt input)
           @ '' (elapsed='' @ show_nat (unat (ji_elapsed_seconds input)) @ ''s)''
      else ''performer failed on attempt '' @ show_nat (ji_attempt input) @ '': ''
           @ ji_status_text input)"

definition terminal_reason :: "job_completion_input \<Rightarrow> string" where
  "terminal_reason input =
     (if ji_timed_out input
      then ''performer timed out after '' @ show_nat (ji_phase_timeout_seconds input)
           @ ''s (max attempts reached: '' @ show_nat (ji_max_attempts input)
           @ '', elapsed='' @ show_nat (unat (ji_elapsed_seconds input)) @ ''s)''
      else ''performer failed after '' @ show_nat (ji_attempt input) @ '' attempts: ''
           @ ji_status_text input)"

definition availability_strategy ::
  "(string \<Rightarrow> int \<Rightarrow> string option) \<Rightarrow> task \<Rightarrow> job_completion_input \<Rightarrow> error_classification
     \<Rightarrow> coordinator_config \<Rightarrow> u64 \<Rightarrow> string \<Rightarrow> retry_strategy option" where
  "availability_strategy add_secs t input c config now_ts now =
     (let details = from_classification c;
          retry_after = Option.bind (ec_tool_error c) te_retry_after_seconds
      in if ce_code details = E601_RATE_LIMITED
         then (let backoff = compute_backoff_delay (ji_attempt input) (cc_backoff_base_seconds config)
                               (cc_backoff_max_seconds config) retry_after;
                   delayed_until = unwrap_or [] (add_secs now (sint backoff))
               in Some (Retry (has_worktree_attached t)
                    (''rate-limited; backoff '' @ show_nat (unat backoff) @ ''s, delayed until ''
                     @ delayed_until)
                    (RateLimitBackoff backoff delayed_until details (ec_tool_error c) now_ts)))
         else if ce_code details = E602_QUOTA_EXHAUSTED
         then (let cooldown = unwrap_or 3600 retry_after in
               Some (Retry (has_worktree_attached t)
                 (''quota exhausted; cooldown '' @ show_nat (unat cooldown)
                  @ ''s, re-queued for tool fallback'')
                 (QuotaExhaustedRequeue cooldown details (ec_tool_error c) now_ts)))
         else None)"

definition failure_strategy ::
  "task \<Rightarrow> job_completion_input \<Rightarrow> error_classification \<Rightarrow> coordinator_config \<Rightarrow> bool \<Rightarrow> u64
     \<Rightarrow> retry_strategy" where
  "failure_strategy t input c config healthy now_ts =
     (let details = from_classification c in
      if ji_attempt input < ji_max_attempts input
      then Retry True (attempt_reason input) (AttemptRetry details (ec_tool_error c) now_ts)
      else if should_auto_retry_error_code (ce_code details) (cc_auto_retry_error_codes config)
                (cc_auto_retry_max config) (retries_count (tk_runtime t))
      then Retry healthy (''auto-retry scheduled for error code '' @ ce_code details)
             (AutoRetry details (ec_tool_error c) now_ts)
      else Block (terminal_reason input) (TerminalFailure details (ec_tool_error c) now_ts))"

definition resolve_retry_strategy ::
  "ts_parser \<Rightarrow> (string \<Rightarrow> int \<Rightarrow> string option) \<Rightarrow> task \<Rightarrow> job_completion_input \<Rightarrow> error_classification
     \<Rightarrow> coordinator_config \<Rightarrow> bool \<Rightarrow> string \<Rightarrow> retry_strategy" where
  "resolve_retry_strategy ts add_secs t input c config healthy now =
     (if ji_attempt input = 0 \<or> ji_max_attempts input = 0
      then Block ''performer completion received with invalid attempt counters'' InvalidInput
      else if ji_status_text input = []
      then Block ''performer completion received without status detail'' InvalidInput
      else
        let now_ts = epoch_of ts now;
            availability_failure = (ec_error_code c = E602_QUOTA_EXHAUSTED);
            reported = (case ec_completion_kind c of
                          None \<Rightarrow> None
                        | Some kind \<Rightarrow>
                            if \<not> availability_failure \<and> kind_is_error kind
                            then terminal_tool_report t input kind else None)
        in case reported of
             Some strategy \<Rightarrow> strategy
           | None \<Rightarrow>
               if ec_completion_success c \<and> \<not> availability_failure
               then success_strategy t input c healthy
               else
                 (case (if availability_failure then None
                        else Option.bind (ji_normalizer_input input)
                               (\<lambda>ni. stdout_strategy t input c healthy (ni_stdout ni))) of
                    Some strategy \<Rightarrow> strategy
                  | None \<Rightarrow>
                      (case availability_strategy add_secs t input c config now_ts now of
                         Some strategy \<Rightarrow> strategy
                       | None \<Rightarrow> failure_strategy t input c config healthy now_ts)))"


section \<open>Lemmas\<close>

lemma ipc_authority_iff:
  "ar_authority (resolve_completion_authority kind has_commits ok) = IpcSignal
   \<and> ar_kind (resolve_completion_authority kind has_commits ok) = Some k
     \<longleftrightarrow> has_commits \<and> kind = Some k"
  by (cases has_commits; cases kind) (auto simp: resolve_completion_authority_def)

lemma classify_success_iff:
  "ec_completion_success (classify_completion_error input n has_commits) \<longleftrightarrow>
     ji_success input \<or> (has_commits \<and> ji_completion_kind input = Some SuccessWithChanges)"
  by (auto simp: classify_completion_error_def ipc_authority_iff Let_def)

lemma classify_kind:
  "ec_completion_kind (classify_completion_error input n has_commits) = ji_completion_kind input"
  by (auto simp: classify_completion_error_def ipc_authority_iff Let_def)

lemma classify_structured:
  "reported_preconditions input \<Longrightarrow> ec_tool_error (classify_completion_error input n has_commits) = None"
  "structured_error_message input = Some m \<Longrightarrow>
     ec_error_message (classify_completion_error input n has_commits) = m"
  by (simp_all add: classify_completion_error_def normalized_error_def Let_def)

text \<open>The six ways a strategy comes about.\<close>

lemma resolve_cases:
  assumes "resolve_retry_strategy ts add_secs t input c config healthy now = s"
  obtains (invalid) reason where "s = Block reason InvalidInput"
    "ji_attempt input = 0 \<or> ji_max_attempts input = 0 \<or> ji_status_text input = []"
  | (reported) kind where "terminal_tool_report t input kind = Some s"
    "ec_completion_kind c = Some kind" "kind_is_error kind" "ec_error_code c \<noteq> E602_QUOTA_EXHAUSTED"
  | (success) "s = success_strategy t input c healthy" "ec_completion_success c"
    "ec_error_code c \<noteq> E602_QUOTA_EXHAUSTED"
  | (stdout) ni where "ji_normalizer_input input = Some ni"
    "stdout_strategy t input c healthy (ni_stdout ni) = Some s" "\<not> ec_completion_success c"
  | (availability) "availability_strategy add_secs t input c config (epoch_of ts now) now = Some s"
    "ec_error_code c = E602_QUOTA_EXHAUSTED \<or> \<not> ec_completion_success c"
  | (failure) "s = failure_strategy t input c config healthy (epoch_of ts now)"
    "\<not> ec_completion_success c"
    "availability_strategy add_secs t input c config (epoch_of ts now) now = None"
proof -
  let ?avail = "ec_error_code c = E602_QUOTA_EXHAUSTED"
  note def = resolve_retry_strategy_def [of ts add_secs t input c config healthy now]
  have quota: "?avail \<Longrightarrow> availability_strategy add_secs t input c config n now \<noteq> None" for n
    by (simp add: availability_strategy_def from_classification_def Let_def E601_RATE_LIMITED_def
        E602_QUOTA_EXHAUSTED_def)
  show thesis
  proof (cases "ji_attempt input = 0 \<or> ji_max_attempts input = 0 \<or> ji_status_text input = []")
    case True
    then show thesis using assms invalid by (auto simp: def split: if_splits)
  next
    case valid: False
    show thesis
    proof (cases ?avail)
      case True
      then obtain s' where s': "availability_strategy add_secs t input c config (epoch_of ts now) now = Some s'"
        using quota by blast
      with True valid assms have "s = s'" by (simp add: def Let_def split: option.splits)
      then show thesis using s' True availability by blast
    next
      case False
      define rep where "rep = (case ec_completion_kind c of None \<Rightarrow> None
        | Some kind \<Rightarrow> if kind_is_error kind then terminal_tool_report t input kind else None)"
      define out where "out = Option.bind (ji_normalizer_input input)
        (\<lambda>ni. stdout_strategy t input c healthy (ni_stdout ni))"
      have s: "s = (case rep of Some strategy \<Rightarrow> strategy
        | None \<Rightarrow> if ec_completion_success c then success_strategy t input c healthy
          else (case out of Some strategy \<Rightarrow> strategy
            | None \<Rightarrow> (case availability_strategy add_secs t input c config (epoch_of ts now) now of
                Some strategy \<Rightarrow> strategy
              | None \<Rightarrow> failure_strategy t input c config healthy (epoch_of ts now))))"
        using assms valid False
        by (cases "ec_completion_kind c"; cases "ec_completion_success c")
           (auto simp add: def rep_def out_def Let_def split: option.split)
      show thesis
      proof (cases rep)
        case (Some strategy)
        then show thesis using s False reported
          by (auto simp: rep_def split: option.splits if_splits)
      next
        case None
        then show thesis
          using s False success stdout availability failure
          by (auto simp: out_def split: if_splits option.splits Option.bind_splits)
      qed
    qed
  qed
qed

lemma availability_cases:
  assumes "availability_strategy add_secs t input c config now_ts now = Some s"
  obtains (rate_limit) backoff until reason where "ec_error_code c = E601_RATE_LIMITED"
      "backoff = compute_backoff_delay (ji_attempt input) (cc_backoff_base_seconds config)
        (cc_backoff_max_seconds config) (Option.bind (ec_tool_error c) te_retry_after_seconds)"
      "s = Retry (has_worktree_attached t) reason
        (RateLimitBackoff backoff until (from_classification c) (ec_tool_error c) now_ts)"
  | (quota) cooldown reason where "ec_error_code c = E602_QUOTA_EXHAUSTED"
      "s = Retry (has_worktree_attached t) reason
        (QuotaExhaustedRequeue cooldown (from_classification c) (ec_tool_error c) now_ts)"
  using assms
  by (auto simp: availability_strategy_def Let_def from_classification_def split: if_splits)

lemma terminal_report_block:
  "terminal_tool_report t input kind = Some s \<Longrightarrow>
     \<exists>code n. s = Block (ji_status_text input) (ToolReportedTerminal kind code n)"
  by (auto simp: terminal_tool_report_def Let_def split: if_splits)

text \<open>Every re-dispatch is paid for by a budget.\<close>

lemma tool_reported_cases:
  "tool_reported t input kind hc healthy te =
     Block (ji_status_text input) (RetryBudgetExhausted kind te (retries_count (tk_runtime t)))
   \<or> (tool_reported t input kind hc healthy te =
        Retry (kind = ErrorWithChanges \<and> hc \<and> healthy) (ji_status_text input) (ToolReportedError kind te)
      \<and> retries_count (tk_runtime t) < max (ji_max_attempts input) 1)"
  by (auto simp: tool_reported_def retry_budget_exhausted_def)

fun budget_of :: "job_completion_input \<Rightarrow> coordinator_config \<Rightarrow> retry_strategy \<Rightarrow> nat option" where
  "budget_of input config (Retry _ _ (ToolReportedError _ _)) = Some (max (ji_max_attempts input) 1)"
| "budget_of input config (Retry _ _ (AutoRetry _ _ _)) = Some (cc_auto_retry_max config)"
| "budget_of input config _ = None"

lemma tool_reported_budget:
  "budget_of input config (tool_reported t input kind hc healthy te) = Some b \<Longrightarrow>
     retries_count (tk_runtime t) < b"
  using tool_reported_cases [of t input kind hc healthy te] by auto

lemma resolve_budget:
  assumes "resolve_retry_strategy ts add_secs t input c config healthy now = s"
    and "budget_of input config s = Some b"
  shows "retries_count (tk_runtime t) < b"
  using assms(1)
proof (cases rule: resolve_cases)
  case invalid
  then show ?thesis using assms(2) by simp
next
  case (reported kind)
  then show ?thesis using assms(2) terminal_report_block by fastforce
next
  case success
  then show ?thesis using assms(2) tool_reported_budget
    by (auto simp: success_strategy_def Let_def split: if_splits)
next
  case (stdout ni)
  then show ?thesis using assms(2) tool_reported_budget
    by (auto simp: stdout_strategy_def Let_def split: if_splits)
next
  case availability
  from this(1) assms(2) show ?thesis by (cases rule: availability_cases) auto
next
  case failure
  then show ?thesis using assms(2)
    by (auto simp: failure_strategy_def Let_def should_auto_retry_error_code_def split: if_splits)
qed

text \<open>A delivery needs a success, or the tool's own word for it during a provider outage.\<close>

lemma tool_reported_no_delivery:
  "tool_reported t input kind hc healthy te \<noteq> PhaseDone d k"
  "tool_reported t input kind hc healthy te \<noteq> Merge d k te'"
  using tool_reported_cases [of t input kind hc healthy te] by auto

lemma resolve_phase_done:
  assumes "resolve_retry_strategy ts add_secs t input c config healthy now = PhaseDone d k"
  shows "ec_completion_success c" "ec_error_code c \<noteq> E602_QUOTA_EXHAUSTED" "k = SuccessWithChanges"
proof -
  have "ec_completion_success c \<and> ec_error_code c \<noteq> E602_QUOTA_EXHAUSTED \<and> k = SuccessWithChanges"
    using assms
  proof (cases rule: resolve_cases)
    case (reported kind)
    then show ?thesis using terminal_report_block by fastforce
  next
    case success
    then show ?thesis
      by (cases k) (auto simp: success_strategy_def Let_def kind_is_error_def tool_reported_no_delivery
          dest: sym split: if_splits)
  next
    case (stdout ni)
    then show ?thesis
      by (auto simp: stdout_strategy_def Let_def tool_reported_no_delivery split: if_splits)
  next
    case availability
    from this(1) show ?thesis by (cases rule: availability_cases) auto
  next
    case failure
    then show ?thesis by (auto simp: failure_strategy_def Let_def split: if_splits)
  qed simp
  then show "ec_completion_success c" "ec_error_code c \<noteq> E602_QUOTA_EXHAUSTED" "k = SuccessWithChanges"
    by simp_all
qed

lemma resolve_merge:
  assumes "resolve_retry_strategy ts add_secs t input c config healthy now = Merge d k te"
  shows "(ec_completion_success c \<and> k \<in> {AlreadySatisfied, SuccessWithoutChanges})
    \<or> (k = AlreadySatisfied
       \<and> (\<exists>ni e. ji_normalizer_input input = Some ni \<and> ec_tool_error c = Some e
            \<and> te_class e \<in> {Overloaded, RateLimit}
            \<and> (str_contains (ni_stdout ni) ''MACC_TASK_RESULT: success''
               \<or> str_contains (ni_stdout ni) ''already_satisfied'')))"
  using assms
proof (cases rule: resolve_cases)
  case (reported kind)
  then show ?thesis using terminal_report_block by fastforce
next
  case success
  then show ?thesis
    by (auto simp: success_strategy_def Let_def tool_reported_no_delivery [symmetric] split: if_splits)
next
  case (stdout ni)
  then show ?thesis
    by (auto simp: stdout_strategy_def Let_def tool_reported_no_delivery split: if_splits option.splits)
next
  case availability
  from this(1) show ?thesis by (cases rule: availability_cases) auto
next
  case failure
  then show ?thesis by (auto simp: failure_strategy_def Let_def split: if_splits)
qed simp

lemma resolve_not_NoOp: "resolve_retry_strategy ts add_secs t input c config healthy now \<noteq> NoOp"
proof
  assume "resolve_retry_strategy ts add_secs t input c config healthy now = NoOp"
  then show False
  proof (cases rule: resolve_cases)
    case (reported kind)
    then show False using terminal_report_block by fastforce
  next
    case success
    then show False using tool_reported_cases [of t input]
      by (auto simp: success_strategy_def Let_def split: if_splits)
         (metis retry_strategy.distinct)+
  next
    case (stdout ni)
    then show False using tool_reported_cases [of t input]
      by (auto simp: stdout_strategy_def Let_def split: if_splits) (metis retry_strategy.distinct)+
  next
    case availability
    from this(1) show False by (cases rule: availability_cases) auto
  next
    case failure
    then show False by (auto simp: failure_strategy_def Let_def split: if_splits)
  qed simp
qed

section \<open>Properties\<close>

text \<open>A completion counts as a success exactly when the process succeeded, or the tool reported
  success with changes and commits are there to show for it; the tool's word alone never overrides a
  failed process.\<close>

theorem completion_success_authority:
  "ec_completion_success (classify_completion_error input n has_commits) =
     (ji_success input \<or> (has_commits \<and> ji_completion_kind input = Some SuccessWithChanges))
   \<and> ec_completion_authority (classify_completion_error input n False) \<noteq> IpcSignal"
  by (simp add: classify_success_iff)
     (simp add: classify_completion_error_def resolve_completion_authority_def Let_def)

text \<open>A task the tool declares impossible for want of a precondition is blocked at once with E903, on
  its first attempt and whatever budget is left, unless the run was stopped by an exhausted quota.\<close>

theorem precondition_blocks_at_once:
  assumes "ji_attempt input \<noteq> 0" "ji_max_attempts input \<noteq> 0" "ji_status_text input \<noteq> []"
    and "ji_completion_kind input = Some PreconditionUnmet"
    and "ec_error_code (classify_completion_error input n has_commits) \<noteq> E602_QUOTA_EXHAUSTED"
  shows "resolve_retry_strategy ts add_secs t input (classify_completion_error input n has_commits) config
      healthy now
    = Block (ji_status_text input) (ToolReportedTerminal PreconditionUnmet ''E903'' 1)"
  using assms
  by (simp add: resolve_retry_strategy_def classify_kind kind_is_error_def terminal_tool_report_def)

definition sample_input :: job_completion_input where
  "sample_input =
     \<lparr>ji_success = True, ji_attempt = 1, ji_max_attempts = 1, ji_timed_out = False,
      ji_phase_timeout_seconds = 0, ji_elapsed_seconds = 0, ji_status_text = ''done'',
      ji_completion_kind = None, ji_error_code = None, ji_error_origin = None,
      ji_error_message = None, ji_result_explanation = None, ji_unmet_preconditions = [],
      ji_auto_retry_error_codes = [], ji_auto_retry_max = 0, ji_backoff_base_seconds = 30,
      ji_backoff_max_seconds = 600, ji_normalizer_input = None\<rparr>"

definition sample_unmet :: job_completion_input where
  "sample_unmet = sample_input\<lparr>ji_success := False, ji_completion_kind := Some PreconditionUnmet\<rparr>"

theorem precondition_blocks_at_once_witness:
  "resolve_retry_strategy (\<lambda>_. None) (\<lambda>_ _. None) (sample_task ''A'' Claimed) sample_unmet
     (classify_completion_error sample_unmet None False) (from_input sample_unmet) True ''now''
   = Block ''done'' (ToolReportedTerminal PreconditionUnmet ''E903'' 1)"
proof -
  have "ec_error_code (classify_completion_error sample_unmet None False) \<noteq> E602_QUOTA_EXHAUSTED"
    by (simp add: classify_completion_error_def normalized_error_def sample_unmet_def sample_input_def
        E602_QUOTA_EXHAUSTED_def Let_def)
  from precondition_blocks_at_once [OF _ _ _ _ this, of "\<lambda>_. None" "\<lambda>_ _. None"
      "sample_task ''A'' Claimed" "from_input sample_unmet" True "''now''"]
  show ?thesis by (simp add: sample_unmet_def sample_input_def)
qed

end
