(* ===== verification/Worktree.thy ===== *)
theory Worktree
  imports Prelude
begin

text \<open>
  Queries on a git worktree: whether it can be reused (\<open>is_worktree_healthy\<close>,
  \<open>core/src/coordinator/engine/fsm.rs\<close>) and the commits it holds (\<open>core/src/git.rs\<close>).  The file
  system and the \<open>git\<close> executable are a \<open>host\<close>: existence of paths, and the result of running git
  with arguments in a directory (exit success, lossy standard output and error; \<open>Inl\<close>
  when the process could not be started).
\<close>

record git_output =
  go_success :: bool
  go_stdout :: string
  go_stderr :: string

record host =
  hs_exists :: "string \<Rightarrow> bool"
  hs_is_dir :: "string \<Rightarrow> bool"
  hs_git :: "string \<Rightarrow> string list \<Rightarrow> git_output res"

section \<open>Health\<close>

text \<open>\<open>Path::join\<close> on Unix paths: an absolute operand replaces the base.\<close>

definition path_join :: "string \<Rightarrow> string \<Rightarrow> string" where
  "path_join base p =
     (if prefix_of ''/'' p then p
      else if base = [] \<or> last base = CHR ''/'' then base @ p
      else base @ ''/'' @ p)"

definition git_path_for :: "host \<Rightarrow> string \<Rightarrow> string \<Rightarrow> string option" where
  "git_path_for h worktree relative =
     (case hs_git h worktree [''rev-parse'', ''--git-path'', relative] of
        Inl _ \<Rightarrow> None
      | Inr out \<Rightarrow>
          if \<not> go_success out then None
          else if trim (go_stdout out) = [] then None
          else Some (path_join worktree (trim (go_stdout out))))"

definition git_path_exists :: "host \<Rightarrow> string \<Rightarrow> string \<Rightarrow> bool" where
  "git_path_exists h worktree relative =
     (case git_path_for h worktree relative of None \<Rightarrow> False | Some p \<Rightarrow> hs_exists h p)"

definition is_worktree_healthy :: "host \<Rightarrow> string \<Rightarrow> bool" where
  "is_worktree_healthy h worktree =
     (if \<not> hs_exists h worktree \<or> \<not> hs_is_dir h worktree then False
      else
        let inside = (case hs_git h worktree [''rev-parse'', ''--is-inside-work-tree''] of
                        Inl _ \<Rightarrow> False
                      | Inr out \<Rightarrow>
                          go_success out \<and> to_ascii_lowercase (trim (go_stdout out)) = ''true'')
        in if \<not> inside then False
           else if list_ex (git_path_exists h worktree)
                     [''index.lock'', ''HEAD.lock'', ''packed-refs.lock''] then False
           else if list_ex (git_path_exists h worktree)
                     [''MERGE_HEAD'', ''rebase-apply'', ''rebase-merge''] then False
           else True)"

section \<open>Commits\<close>

definition has_commits_ahead :: "host \<Rightarrow> string \<Rightarrow> string \<Rightarrow> bool" where
  "has_commits_ahead h worktree base_ref =
     (case hs_git h worktree [''rev-list'', ''--count'', base_ref @ ''..HEAD''] of
        Inl _ \<Rightarrow> False
      | Inr out \<Rightarrow> go_success out \<and> 0 < unwrap_or 0 (parse_usize (trim (go_stdout out))))"

record commit_info =
  ci_hash :: string
  ci_subject :: string
  ci_author_date :: string

text \<open>\<open>str::lines\<close>: pieces that end with a newline (and a carriage return before it), and the rest.\<close>

definition chomp_cr :: "string \<Rightarrow> string" where
  "chomp_cr l = (if l \<noteq> [] \<and> last l = CHR 0x0D then butlast l else l)"

definition str_lines :: "string \<Rightarrow> string list" where
  "str_lines s =
     (let ps = split_on (\<lambda>c. c = CHR 0x0A) s
      in map chomp_cr (butlast ps) @ (if last ps = [] then [] else [last ps]))"

text \<open>\<open>splitn(3, '\x1f')\<close>: two cuts at most.\<close>

fun splitn :: "nat \<Rightarrow> (char \<Rightarrow> bool) \<Rightarrow> string \<Rightarrow> string list" where
  "splitn 0 f s = []"
| "splitn (Suc 0) f s = [s]"
| "splitn (Suc (Suc n)) f s =
     (let w = takeWhile (\<lambda>c. \<not> f c) s in
      if w = s then [s] else w # splitn (Suc n) f (drop (Suc (length w)) s))"

definition parse_commit_info_line :: "string \<Rightarrow> commit_info option" where
  "parse_commit_info_line line =
     (if trim line = [] then None
      else case splitn 3 (\<lambda>c. c = CHR 0x1F) (trim line) of
        [a, b, c] \<Rightarrow> Some \<lparr>ci_hash = trim a, ci_subject = trim b, ci_author_date = trim c\<rparr>
      | _ \<Rightarrow> None)"

definition parse_commit_info_records :: "string \<Rightarrow> commit_info list" where
  "parse_commit_info_records raw = List.map_filter parse_commit_info_line (str_lines raw)"

definition commits_containing_pattern ::
  "host \<Rightarrow> string \<Rightarrow> string \<Rightarrow> string \<Rightarrow> commit_info list res" where
  "commits_containing_pattern h worktree base pattern =
     try_bind
       (hs_git h worktree
         [''log'', ''--format=%H%x1f%s%x1f%aI'', ''--grep='' @ pattern, base @ ''..HEAD''])
       (\<lambda>out. if \<not> go_success out
              then Inl (Git_Err ''log''
                     (''Failed to read commits matching pattern in '' @ worktree @ '': ''
                      @ trim (go_stderr out)))
              else Inr (parse_commit_info_records (go_stdout out)))"

lemma healthy_not_locked:
  "is_worktree_healthy h w \<Longrightarrow>
     hs_exists h w \<and> hs_is_dir h w
     \<and> (\<forall>p \<in> {''index.lock'', ''HEAD.lock'', ''packed-refs.lock'', ''MERGE_HEAD'', ''rebase-apply'',
             ''rebase-merge''}. \<not> git_path_exists h w p)"
  by (simp add: is_worktree_healthy_def Let_def split: if_splits)

end
