(* ===== verification/Transitions.thy ===== *)
theory Transitions
  imports Completion Worktree
begin

text \<open>
  Applying a completion strategy to its task (\<open>core/src/coordinator/engine/transitions.rs\<close> with the
  helpers of \<open>fsm.rs\<close> it calls).  The JSON images of \<open>ToolError\<close>, \<open>RateLimitInfo\<close> and
  \<open>ToolThrottleState\<close> are produced by serde's derived code: a \<open>codec\<close> is an argument, and \<open>None\<close> is
  its error.
\<close>

record codec =
  enc_tool_error :: "tool_error \<Rightarrow> json option"
  enc_rate_limit :: "rate_limit_info \<Rightarrow> json option"
  enc_throttle :: "throttle_state \<Rightarrow> json option"
  dec_throttle :: "json \<Rightarrow> throttle_state option"

section \<open>Helpers\<close>

definition insert_extra :: "string \<Rightarrow> json option \<Rightarrow> task_runtime \<Rightarrow> task_runtime" where
  "insert_extra key v rt =
     (case v of None \<Rightarrow> rt | Some j \<Rightarrow> rt\<lparr>tr_extra := bt_insert key j (tr_extra rt)\<rparr>)"

definition store_classified_error_in_extra ::
  "codec \<Rightarrow> tool_error option \<Rightarrow> u64 \<Rightarrow> task_runtime \<Rightarrow> task_runtime" where
  "store_classified_error_in_extra cd te now_ts rt =
     (case te of
        None \<Rightarrow> rt
      | Some e \<Rightarrow>
          let rt' = insert_extra ''tool_error'' (enc_tool_error cd e) rt in
          if te_class e = RateLimit \<or> te_class e = QuotaExhausted
          then insert_extra ''rate_limit_info''
                 (enc_rate_limit cd
                   \<lparr>rl_tool_id = te_provider e, rl_error_code = te_error_code e,
                    rl_retry_after_seconds = te_retry_after_seconds e, rl_detected_at = now_ts,
                    rl_source_header = None\<rparr>) rt'
          else rt')"

definition capture_last_assignment_before_clear :: "task \<Rightarrow> task" where
  "capture_last_assignment_before_clear t =
     (let path = trimmed_nonempty (worktree_field wt_worktree_path t);
          br = trimmed_nonempty (worktree_field wt_branch t)
      in upd_runtime (\<lambda>rt. rt\<lparr>tr_last_worktree_path := or_else path (tr_last_worktree_path rt),
                              tr_last_branch := or_else br (tr_last_branch rt)\<rparr>) t)"

definition preserve_active_session_chain :: "task \<Rightarrow> task" where
  "preserve_active_session_chain t =
     (case or_else (trimmed_nonempty (tr_active_session_id (tk_runtime t)))
             (trimmed_nonempty (session_id t)) of
        None \<Rightarrow> t
      | Some sid \<Rightarrow>
          upd_runtime (\<lambda>rt. rt\<lparr>tr_last_session_id := Some sid, tr_last_session_tool := tk_tool t\<rparr>) t)"

definition tool_error_code :: "completion_kind \<Rightarrow> string" where
  "tool_error_code kind = (if kind = ErrorWithChanges then ''E104'' else ''E105'')"

definition describe_tool_error :: "task \<Rightarrow> string \<Rightarrow> string" where
  "describe_tool_error t reason =
     (case trimmed_nonempty (tr_result_explanation (tk_runtime t)) of
        Some explanation \<Rightarrow> reason @ '' '' @ em_dash @ '' '' @ explanation
      | None \<Rightarrow> reason @ '' (no explanation provided: the tool omitted the required MACC_TASK_RESULT_EXP line)'')"

definition newline :: string where "newline = [CHR 0x0A]"

definition describe_unmet_preconditions ::
  "string \<Rightarrow> string list \<Rightarrow> string option \<Rightarrow> string" where
  "describe_unmet_preconditions task_id unmet explanation =
     (let e = trimmed_nonempty explanation;
          items = (if unmet = [] then (case e of None \<Rightarrow> [] | Some x \<Rightarrow> [x]) else unmet)
      in ''Task '' @ task_id @ '' cannot be implemented because the following precondition''
         @ (if length items = 1 then '' is'' else ''s are'') @ '' not satisfied:''
         @ (if items = []
            then newline @ ''  - (the tool did not name the condition: MACC_TASK_PRECONDITION and MACC_TASK_RESULT_EXP were both missing)''
            else [])
         @ concat (map (\<lambda>item. newline @ ''  - '' @ item) items)
         @ (case (unmet \<noteq> [], e) of
              (True, Some x) \<Rightarrow> newline @ ''Tool summary: '' @ x
            | _ \<Rightarrow> []))"

fun is_availability_outcome :: "retry_strategy \<Rightarrow> bool" where
  "is_availability_outcome (Retry _ _ (RateLimitBackoff _ _ _ _ _)) = True"
| "is_availability_outcome (Retry _ _ (QuotaExhaustedRequeue _ _ _ _)) = True"
| "is_availability_outcome _ = False"

definition clear_stale_throttle :: "task \<Rightarrow> task" where
  "clear_stale_throttle t =
     (if bt_get (tr_extra (tk_runtime t)) ''throttle_state'' \<noteq> None
      then upd_runtime (\<lambda>rt. rt\<lparr>tr_extra := bt_remove ''throttle_state'' (tr_extra rt),
                                tr_delayed_until := None\<rparr>) t
      else t)"

definition set_error :: "completion_error_details \<Rightarrow> task_runtime \<Rightarrow> task_runtime" where
  "set_error e rt = set_last_error_details (ce_code e) (ce_origin e) (ce_message e) rt"

definition result_of ::
  "bool \<Rightarrow> string \<Rightarrow> string \<Rightarrow> completion_kind option \<Rightarrow> tool_error option
     \<Rightarrow> job_completion_result" where
  "result_of retry label detail kind te =
     \<lparr>jr_should_retry = retry, jr_status_label = label, jr_detail = detail,
      jr_completion_kind = kind, jr_tool_error = te\<rparr>"

definition drop_worktree :: "task \<Rightarrow> task" where
  "drop_worktree t = t\<lparr>tk_worktree := None\<rparr>"

section \<open>Retries\<close>

definition apply_tool_reported_error ::
  "bool \<Rightarrow> string \<Rightarrow> completion_kind \<Rightarrow> tool_error option \<Rightarrow> string \<Rightarrow> task
     \<Rightarrow> task \<times> job_completion_result" where
  "apply_tool_reported_error same_worktree reason kind te now t =
     (let detail = describe_tool_error t reason;
          t1 = capture_last_assignment_before_clear
                 (preserve_active_session_chain (set_workflow_state Todo t));
          t2 = (if same_worktree then t1 else drop_worktree t1);
          t3 = upd_runtime
                 (\<lambda>rt. set_last_error_details (tool_error_code kind) ''tool'' detail
                    (set_status Rt_Failed
                      ((fst (increment_retries rt))\<lparr>tr_completion_kind := Some (completion_as_str kind)\<rparr>)
                      \<lparr>tr_current_phase := None, tr_pid := None\<rparr>)
                    \<lparr>tr_last_error := Some detail\<rparr>) t2
      in (touch_state_changed now (t3\<lparr>tk_tool := None, tk_assignee := None\<rparr>),
          result_of False (completion_as_str kind) detail (Some kind) te))"

definition apply_attempt_retry ::
  "codec \<Rightarrow> string \<Rightarrow> completion_error_details \<Rightarrow> tool_error option \<Rightarrow> u64 \<Rightarrow> string \<Rightarrow> task
     \<Rightarrow> task \<times> job_completion_result" where
  "apply_attempt_retry cd reason e te now_ts now t =
     (touch_state_changed now
        (upd_runtime
          (\<lambda>rt. store_classified_error_in_extra cd te now_ts
             (set_error e
               (set_status Rt_Running rt
                 \<lparr>tr_current_phase := Some ''dev'', tr_completion_kind := None, tr_pid := None\<rparr>)
               \<lparr>tr_last_error := Some reason\<rparr>))
          (set_workflow_state Claimed t)),
      result_of True ''retry'' reason None te)"

text \<open>The throttle record of the task, or a fresh one for its tool.\<close>

definition task_throttle :: "codec \<Rightarrow> string \<Rightarrow> task_runtime \<Rightarrow> throttle_state" where
  "task_throttle cd tool rt =
     unwrap_or
       \<lparr>th_tool_id = tool, th_throttled_until = 0, th_consecutive_429_count = 0,
        th_backoff_seconds = 0, th_last_info = None\<rparr>
       (Option.bind (bt_get (tr_extra rt) ''throttle_state'') (dec_throttle cd))"

definition record_throttle ::
  "codec \<Rightarrow> string \<Rightarrow> string \<Rightarrow> u64 option \<Rightarrow> u64 \<Rightarrow> u64 \<Rightarrow> task_runtime \<Rightarrow> task_runtime" where
  "record_throttle cd tool code retry_after backoff now_ts rt =
     insert_extra ''throttle_state''
       (enc_throttle cd
         (update_throttle_state (task_throttle cd tool rt)
           \<lparr>rl_tool_id = tool, rl_error_code = code, rl_retry_after_seconds = retry_after,
            rl_detected_at = now_ts, rl_source_header = None\<rparr> backoff now_ts)) rt"

definition apply_rate_limit_backoff ::
  "codec \<Rightarrow> bool \<Rightarrow> string \<Rightarrow> u64 \<Rightarrow> string \<Rightarrow> completion_error_details \<Rightarrow> tool_error option
     \<Rightarrow> u64 \<Rightarrow> string \<Rightarrow> task \<Rightarrow> task \<times> job_completion_result" where
  "apply_rate_limit_backoff cd same_worktree reason backoff delayed_until e te now_ts now t =
     (let tool = unwrap_or [] (tk_tool t);
          t1 = upd_runtime
                 (\<lambda>rt. store_classified_error_in_extra cd te now_ts
                    (set_error e
                      (set_status Rt_Idle
                        ((record_throttle cd tool E601_RATE_LIMITED
                           (Option.bind te te_retry_after_seconds) backoff now_ts rt)
                         \<lparr>tr_delayed_until := (if same_worktree then None else Some delayed_until)\<rparr>)
                       \<lparr>tr_current_phase := Some ''dev'', tr_completion_kind := None, tr_pid := None\<rparr>)
                     \<lparr>tr_last_error :=
                        Some (''rate-limited; backoff '' @ show_nat (unat backoff) @ ''s'')\<rparr>)) t;
          t2 = capture_last_assignment_before_clear (preserve_active_session_chain t1);
          t3 = (if same_worktree then upd_runtime (set_status Rt_Failed) t2 else drop_worktree t2)
      in (touch_state_changed now (set_workflow_state Todo t3),
          result_of False ''rate_limit_backoff'' reason None te))"

definition apply_quota_exhausted ::
  "codec \<Rightarrow> bool \<Rightarrow> string \<Rightarrow> u64 \<Rightarrow> completion_error_details \<Rightarrow> tool_error option
     \<Rightarrow> u64 \<Rightarrow> string \<Rightarrow> task \<Rightarrow> task \<times> job_completion_result" where
  "apply_quota_exhausted cd same_worktree reason cooldown e te now_ts now t =
     (let tool = unwrap_or [] (tk_tool t);
          t1 = upd_runtime
                 (\<lambda>rt.
                    let rt1 = set_error e
                          (set_status Rt_Idle
                            (record_throttle cd tool E602_QUOTA_EXHAUSTED (Some cooldown) cooldown
                              now_ts rt)
                           \<lparr>tr_completion_kind := None, tr_pid := None\<rparr>)
                         \<lparr>tr_last_error :=
                            Some (''quota exhausted; cooldown '' @ show_nat (unat cooldown) @ ''s''),
                          tr_delayed_until := None\<rparr>;
                        rt2 = (if same_worktree then set_status Rt_Failed rt1 else rt1)
                    in store_classified_error_in_extra cd te now_ts rt2) t;
          t2 = capture_last_assignment_before_clear (preserve_active_session_chain t1);
          t3 = (if same_worktree then t2 else drop_worktree t2)
      in (touch_state_changed now (set_workflow_state Todo t3),
          result_of False ''quota_exhausted_requeue'' reason None te))"

definition apply_auto_retry ::
  "codec \<Rightarrow> bool \<Rightarrow> string \<Rightarrow> completion_error_details \<Rightarrow> tool_error option
     \<Rightarrow> u64 \<Rightarrow> string \<Rightarrow> task \<Rightarrow> task \<times> job_completion_result" where
  "apply_auto_retry cd same_worktree reason e te now_ts now t =
     (let t1 = capture_last_assignment_before_clear
                 (preserve_active_session_chain (set_workflow_state Todo t));
          t2 = (if same_worktree then t1 else drop_worktree t1)
      in (touch_state_changed now
            (upd_runtime
              (\<lambda>rt. store_classified_error_in_extra cd te now_ts
                 (set_error e
                   (set_status (if same_worktree then Rt_Failed else Rt_Idle)
                     (fst (increment_retries rt))
                    \<lparr>tr_pid := None, tr_current_phase := Some ''dev'', tr_completion_kind := None\<rparr>)
                  \<lparr>tr_last_error := Some reason\<rparr>)) t2),
          result_of False ''auto_retry'' reason None te))"

section \<open>Blocks\<close>

definition apply_invalid_input :: "string \<Rightarrow> string \<Rightarrow> task \<Rightarrow> task \<times> job_completion_result" where
  "apply_invalid_input reason now t =
     (touch_state_changed now
        (upd_runtime
          (\<lambda>rt. set_last_error_details ''E901'' ''coordinator'' reason
             (set_status Rt_Failed rt\<lparr>tr_pid := None\<rparr>)
             \<lparr>tr_last_error := Some reason\<rparr>)
          (set_workflow_state Blocked t)),
      result_of False ''failed'' reason None None)"

definition apply_terminal_failure ::
  "codec \<Rightarrow> string \<Rightarrow> completion_error_details \<Rightarrow> tool_error option \<Rightarrow> u64 \<Rightarrow> string \<Rightarrow> task
     \<Rightarrow> task \<times> job_completion_result" where
  "apply_terminal_failure cd reason e te now_ts now t =
     (touch_state_changed now
        (upd_runtime
          (\<lambda>rt. store_classified_error_in_extra cd te now_ts
             (set_error e (set_status Rt_Failed rt\<lparr>tr_completion_kind := None, tr_pid := None\<rparr>)
               \<lparr>tr_last_error := Some reason\<rparr>))
          (set_workflow_state Blocked t)),
      result_of False ''failed'' reason None te)"

definition apply_retry_budget_exhausted ::
  "string \<Rightarrow> completion_kind \<Rightarrow> tool_error option \<Rightarrow> nat \<Rightarrow> string \<Rightarrow> task
     \<Rightarrow> task \<times> job_completion_result" where
  "apply_retry_budget_exhausted reason kind te attempts now t =
     (let described = describe_tool_error t reason;
          t1 = preserve_active_session_chain (set_workflow_state Blocked t);
          branch = unwrap_or [] (branch_of t1);
          t2 = (if kind = ErrorWithoutChanges then drop_worktree t1 else t1);
          budget = '' (retry budget exhausted after '' @ show_nat attempts @ '' attempt(s)'';
          detail =
            described @ budget
            @ (if kind = ErrorWithoutChanges then '')''
               else if branch = [] then '' in the same worktree)''
               else ''; committed work is unmerged on branch '' @ branch @ '')'');
          t3 = upd_runtime
                 (\<lambda>rt. set_last_error_details ''E902'' ''coordinator'' detail
                    (set_status Rt_Failed (rt\<lparr>tr_completion_kind := Some (completion_as_str kind)\<rparr>)
                      \<lparr>tr_current_phase := None, tr_pid := None\<rparr>)
                    \<lparr>tr_last_error := Some detail\<rparr>) t2
      in (touch_state_changed now (t3\<lparr>tk_tool := None, tk_assignee := None\<rparr>),
          result_of False ''retry_budget_exhausted'' detail (Some kind) te))"

definition terminal_detail ::
  "string \<Rightarrow> completion_kind \<Rightarrow> string \<Rightarrow> nat \<Rightarrow> string list \<Rightarrow> task \<Rightarrow> string" where
  "terminal_detail reason kind code attempts out_of_scope t =
     (let rt = tk_runtime t in
      if kind = PreconditionUnmet
      then describe_unmet_preconditions (tk_id t) (tr_unmet_preconditions rt)
             (tr_result_explanation rt)
           @ (if out_of_scope = [] then [] else newline @ out_of_scope_note (tk_id t) out_of_scope)
      else describe_tool_error t reason @ '' (''
           @ (if code = ''E907''
              then ''identical explanation repeated on '' @ show_nat attempts
                   @ '' consecutive attempts''
              else ''explained failure without repository changes; not retried'')
           @ '')'')"

definition apply_tool_reported_terminal ::
  "string \<Rightarrow> completion_kind \<Rightarrow> string \<Rightarrow> nat \<Rightarrow> string \<Rightarrow> task
     \<Rightarrow> task \<times> job_completion_result" where
  "apply_tool_reported_terminal reason kind code attempts now t =
     (let rt0 = tk_runtime t;
          texts = tr_unmet_preconditions rt0
                  @ (case tr_result_explanation rt0 of None \<Rightarrow> [] | Some e \<Rightarrow> [e]);
          out_of_scope = (if kind = PreconditionUnmet then out_of_scope_paths t texts else []);
          detail = terminal_detail reason kind code attempts out_of_scope t;
          origin = (if kind = PreconditionUnmet then ''precondition'' else ''coordinator'');
          t1 = capture_last_assignment_before_clear
                 (preserve_active_session_chain (set_workflow_state Blocked t));
          t2 = (if kind \<noteq> ErrorWithChanges then drop_worktree t1 else t1);
          t3 = upd_runtime
                 (\<lambda>rt. let rt1 = set_last_error_details code origin detail
                          (set_status Rt_Failed
                            (rt\<lparr>tr_completion_kind := Some (completion_as_str kind)\<rparr>)
                            \<lparr>tr_current_phase := None, tr_pid := None\<rparr>)
                          \<lparr>tr_last_error := Some detail\<rparr>
                        in rt1\<lparr>tr_extra :=
                             (if out_of_scope = [] then bt_remove ''out_of_scope_fix'' (tr_extra rt1)
                              else bt_insert ''out_of_scope_fix''
                                     (JObj [(''paths'', JArr (map JStr out_of_scope))])
                                     (tr_extra rt1))\<rparr>) t2
      in (touch_state_changed now (t3\<lparr>tk_tool := None, tk_assignee := None\<rparr>),
          result_of False (completion_as_str kind) detail (Some kind) None))"

section \<open>Deliveries\<close>

definition apply_merge_strategy ::
  "string \<Rightarrow> completion_kind \<Rightarrow> tool_error option \<Rightarrow> string \<Rightarrow> task
     \<Rightarrow> task \<times> job_completion_result" where
  "apply_merge_strategy detail kind te now t =
     (touch_state_changed now
        (upd_runtime
          (\<lambda>rt. set_status Rt_Idle (rt\<lparr>tr_completion_kind := Some (completion_as_str kind)\<rparr>)
             \<lparr>tr_current_phase := None, tr_pid := None\<rparr>)
          (set_workflow_state Merged t)),
      result_of False
        (if kind = SuccessWithoutChanges then ''success_without_changes'' else ''already_satisfied'')
        detail (Some kind) te)"

definition apply_phase_done ::
  "string \<Rightarrow> completion_kind \<Rightarrow> string \<Rightarrow> task \<Rightarrow> task \<times> job_completion_result" where
  "apply_phase_done detail kind now t =
     (touch_state_changed now
        (upd_runtime
          (\<lambda>rt. set_status Rt_PhaseDone (rt\<lparr>tr_completion_kind := Some (completion_as_str kind)\<rparr>)
             \<lparr>tr_current_phase := Some ''dev'', tr_pid := None\<rparr>)
          (set_workflow_state InProgress t)),
      result_of False ''phase_done'' detail (Some kind) None)"

section \<open>The dispatcher\<close>

fun apply_strategy ::
  "codec \<Rightarrow> retry_strategy \<Rightarrow> string \<Rightarrow> task \<Rightarrow> task \<times> job_completion_result" where
  "apply_strategy cd (Retry same reason (ToolReportedError kind te)) now t =
     apply_tool_reported_error same reason kind te now t"
| "apply_strategy cd (Retry same reason (AttemptRetry e te now_ts)) now t =
     apply_attempt_retry cd reason e te now_ts now t"
| "apply_strategy cd (Retry same reason (RateLimitBackoff b until e te now_ts)) now t =
     apply_rate_limit_backoff cd same reason b until e te now_ts now t"
| "apply_strategy cd (Retry same reason (QuotaExhaustedRequeue c e te now_ts)) now t =
     apply_quota_exhausted cd same reason c e te now_ts now t"
| "apply_strategy cd (Retry same reason (AutoRetry e te now_ts)) now t =
     apply_auto_retry cd same reason e te now_ts now t"
| "apply_strategy cd (Block reason InvalidInput) now t = apply_invalid_input reason now t"
| "apply_strategy cd (Block reason (TerminalFailure e te now_ts)) now t =
     apply_terminal_failure cd reason e te now_ts now t"
| "apply_strategy cd (Block reason (RetryBudgetExhausted kind te attempts)) now t =
     apply_retry_budget_exhausted reason kind te attempts now t"
| "apply_strategy cd (Block reason (ToolReportedTerminal kind code attempts)) now t =
     apply_tool_reported_terminal reason kind code attempts now t"
| "apply_strategy cd (Merge detail kind te) now t = apply_merge_strategy detail kind te now t"
| "apply_strategy cd (PhaseDone detail kind) now t = apply_phase_done detail kind now t"
| "apply_strategy cd NoOp now t =
     (t, result_of False ''failed'' ''completion strategy resolved to no-op'' None None)"

definition apply_state_transitions ::
  "codec \<Rightarrow> task \<Rightarrow> retry_strategy \<Rightarrow> string \<Rightarrow> task \<times> job_completion_result" where
  "apply_state_transitions cd t strategy now =
     apply_strategy cd strategy now
       (if is_availability_outcome strategy then t else clear_stale_throttle t)"

text \<open>The whole completion of a job.\<close>

definition apply_job_completion_typed ::
  "codec \<Rightarrow> ts_parser \<Rightarrow> (string \<Rightarrow> int \<Rightarrow> string option) \<Rightarrow> host \<Rightarrow> normalizer_registry
     \<Rightarrow> task \<Rightarrow> job_completion_input \<Rightarrow> string \<Rightarrow> task \<times> job_completion_result" where
  "apply_job_completion_typed cd ts add_secs h normalizers t input now =
     (let path = Model.worktree_path t;
          has_commits = (case path of None \<Rightarrow> False
                         | Some p \<Rightarrow> has_commits_ahead h p (base_branch ''master'' t));
          healthy = (case path of None \<Rightarrow> False | Some p \<Rightarrow> is_worktree_healthy h p);
          c = classify_completion_error input (Option.bind (tk_tool t) normalizers) has_commits;
          strategy = resolve_retry_strategy ts add_secs t input c (from_input input) healthy now;
          t1 = upd_runtime (\<lambda>rt. rt\<lparr>tr_result_explanation := ji_result_explanation input,
                                    tr_unmet_preconditions := ji_unmet_preconditions input\<rparr>) t
      in apply_state_transitions cd t1 strategy now)"


section \<open>Lemmas\<close>

text \<open>The abstract effect of a strategy: the state it leads to and the worktree it keeps.\<close>

fun strategy_state :: "retry_strategy \<Rightarrow> workflow_state option" where
  "strategy_state (Retry _ _ (AttemptRetry _ _ _)) = Some Claimed"
| "strategy_state (Retry _ _ _) = Some Todo"
| "strategy_state (Block _ _) = Some Blocked"
| "strategy_state (Merge _ _ _) = Some Merged"
| "strategy_state (PhaseDone _ _) = Some InProgress"
| "strategy_state NoOp = None"

fun keeps_worktree :: "retry_strategy \<Rightarrow> bool" where
  "keeps_worktree (Retry _ _ (AttemptRetry _ _ _)) = True"
| "keeps_worktree (Retry same _ _) = same"
| "keeps_worktree (Block _ (RetryBudgetExhausted kind _ _)) = (kind \<noteq> ErrorWithoutChanges)"
| "keeps_worktree (Block _ (ToolReportedTerminal kind _ _)) = (kind = ErrorWithChanges)"
| "keeps_worktree _ = True"

fun counts_retry :: "retry_strategy \<Rightarrow> bool" where
  "counts_retry (Retry _ _ (ToolReportedError _ _)) = True"
| "counts_retry (Retry _ _ (AutoRetry _ _ _)) = True"
| "counts_retry _ = False"

lemmas task_setters =
  upd_runtime_def touch_state_changed_def set_workflow_state_def drop_worktree_def set_error_def
  set_last_error_details_def set_status_def

lemmas outcome_defs =
  apply_tool_reported_error_def apply_attempt_retry_def apply_rate_limit_backoff_def
  apply_quota_exhausted_def apply_auto_retry_def apply_invalid_input_def apply_terminal_failure_def
  apply_retry_budget_exhausted_def apply_tool_reported_terminal_def apply_merge_strategy_def
  apply_phase_done_def

text \<open>The runtime updates in \<open>extra\<close> touch nothing else.\<close>

lemma insert_extra_frame [coord_frame]:
  "tr_pid (insert_extra k v rt) = tr_pid rt"
  "tr_retries (insert_extra k v rt) = tr_retries rt"
  "tr_metrics (insert_extra k v rt) = tr_metrics rt"
  "tr_last_branch (insert_extra k v rt) = tr_last_branch rt"
  "tr_last_worktree_path (insert_extra k v rt) = tr_last_worktree_path rt"
  "tr_delayed_until (insert_extra k v rt) = tr_delayed_until rt"
  "tr_status (insert_extra k v rt) = tr_status rt"
  "tr_review_cycles (insert_extra k v rt) = tr_review_cycles rt"
  by (simp_all add: insert_extra_def split: option.split)

lemma store_error_frame [coord_frame]:
  "tr_pid (store_classified_error_in_extra cd te n rt) = tr_pid rt"
  "tr_retries (store_classified_error_in_extra cd te n rt) = tr_retries rt"
  "tr_metrics (store_classified_error_in_extra cd te n rt) = tr_metrics rt"
  "tr_last_branch (store_classified_error_in_extra cd te n rt) = tr_last_branch rt"
  "tr_last_worktree_path (store_classified_error_in_extra cd te n rt) = tr_last_worktree_path rt"
  "tr_delayed_until (store_classified_error_in_extra cd te n rt) = tr_delayed_until rt"
  "tr_status (store_classified_error_in_extra cd te n rt) = tr_status rt"
  "tr_review_cycles (store_classified_error_in_extra cd te n rt) = tr_review_cycles rt"
  by (simp_all add: store_classified_error_in_extra_def coord_frame Let_def split: option.split)

lemma record_throttle_frame [coord_frame]:
  "tr_pid (record_throttle cd tool c ra b n rt) = tr_pid rt"
  "tr_retries (record_throttle cd tool c ra b n rt) = tr_retries rt"
  "tr_metrics (record_throttle cd tool c ra b n rt) = tr_metrics rt"
  "tr_last_branch (record_throttle cd tool c ra b n rt) = tr_last_branch rt"
  "tr_last_worktree_path (record_throttle cd tool c ra b n rt) = tr_last_worktree_path rt"
  "tr_review_cycles (record_throttle cd tool c ra b n rt) = tr_review_cycles rt"
  by (simp_all add: record_throttle_def coord_frame)

lemma increment_frame [coord_frame]:
  "tr_pid (fst (increment_retries rt)) = tr_pid rt"
  "tr_last_branch (fst (increment_retries rt)) = tr_last_branch rt"
  "tr_last_worktree_path (fst (increment_retries rt)) = tr_last_worktree_path rt"
  "tr_review_cycles (fst (increment_retries rt)) = tr_review_cycles rt"
  by (simp_all add: increment_retries_def set_metric_i64_def Let_def)

lemma session_frame [coord_frame]:
  "tk_id (preserve_active_session_chain t) = tk_id t"
  "tk_gate (preserve_active_session_chain t) = tk_gate t"
  "tk_state (preserve_active_session_chain t) = tk_state t"
  "tk_worktree (preserve_active_session_chain t) = tk_worktree t"
  "tk_tool (preserve_active_session_chain t) = tk_tool t"
  "tr_pid (tk_runtime (preserve_active_session_chain t)) = tr_pid (tk_runtime t)"
  "tr_retries (tk_runtime (preserve_active_session_chain t)) = tr_retries (tk_runtime t)"
  "tr_metrics (tk_runtime (preserve_active_session_chain t)) = tr_metrics (tk_runtime t)"
  "tr_last_branch (tk_runtime (preserve_active_session_chain t)) = tr_last_branch (tk_runtime t)"
  "tr_last_worktree_path (tk_runtime (preserve_active_session_chain t)) =
     tr_last_worktree_path (tk_runtime t)"
  "tr_delayed_until (tk_runtime (preserve_active_session_chain t)) = tr_delayed_until (tk_runtime t)"
  "tr_review_cycles (tk_runtime (preserve_active_session_chain t)) = tr_review_cycles (tk_runtime t)"
  by (simp_all add: preserve_active_session_chain_def upd_runtime_def split: option.split)

lemma capture_frame [coord_frame]:
  "tk_id (capture_last_assignment_before_clear t) = tk_id t"
  "tk_gate (capture_last_assignment_before_clear t) = tk_gate t"
  "tk_state (capture_last_assignment_before_clear t) = tk_state t"
  "tk_worktree (capture_last_assignment_before_clear t) = tk_worktree t"
  "tr_pid (tk_runtime (capture_last_assignment_before_clear t)) = tr_pid (tk_runtime t)"
  "tr_retries (tk_runtime (capture_last_assignment_before_clear t)) = tr_retries (tk_runtime t)"
  "tr_metrics (tk_runtime (capture_last_assignment_before_clear t)) = tr_metrics (tk_runtime t)"
  "tr_delayed_until (tk_runtime (capture_last_assignment_before_clear t)) =
     tr_delayed_until (tk_runtime t)"
  "tr_review_cycles (tk_runtime (capture_last_assignment_before_clear t)) =
     tr_review_cycles (tk_runtime t)"
  by (simp_all add: capture_last_assignment_before_clear_def upd_runtime_def Let_def)

lemma capture_records:
  "tr_last_branch (tk_runtime (capture_last_assignment_before_clear t)) =
     or_else (trimmed_nonempty (worktree_field wt_branch t)) (tr_last_branch (tk_runtime t))"
  "tr_last_worktree_path (tk_runtime (capture_last_assignment_before_clear t)) =
     or_else (trimmed_nonempty (worktree_field wt_worktree_path t)) (tr_last_worktree_path (tk_runtime t))"
  by (simp_all add: capture_last_assignment_before_clear_def upd_runtime_def Let_def)

lemma clear_throttle_frame [coord_frame]:
  "tk_id (clear_stale_throttle t) = tk_id t"
  "tk_gate (clear_stale_throttle t) = tk_gate t"
  "tk_state (clear_stale_throttle t) = tk_state t"
  "tk_worktree (clear_stale_throttle t) = tk_worktree t"
  "tr_pid (tk_runtime (clear_stale_throttle t)) = tr_pid (tk_runtime t)"
  "tr_retries (tk_runtime (clear_stale_throttle t)) = tr_retries (tk_runtime t)"
  "tr_metrics (tk_runtime (clear_stale_throttle t)) = tr_metrics (tk_runtime t)"
  "tr_last_branch (tk_runtime (clear_stale_throttle t)) = tr_last_branch (tk_runtime t)"
  "tr_last_worktree_path (tk_runtime (clear_stale_throttle t)) = tr_last_worktree_path (tk_runtime t)"
  "tr_review_cycles (tk_runtime (clear_stale_throttle t)) = tr_review_cycles (tk_runtime t)"
  by (simp_all add: clear_stale_throttle_def upd_runtime_def)

text \<open>State, process id, worktree and identity after any strategy.\<close>

lemma strategy_result_state:
  "tk_state (fst (apply_strategy cd s now t)) =
     (case strategy_state s of None \<Rightarrow> tk_state t | Some w \<Rightarrow> workflow_as_str w)"
  by (cases "(cd, s, now, t)" rule: apply_strategy.cases)
     (simp_all add: outcome_defs Let_def task_setters coord_frame)

lemma strategy_result_pid:
  "s \<noteq> NoOp \<Longrightarrow> tr_pid (tk_runtime (fst (apply_strategy cd s now t))) = None"
  by (cases "(cd, s, now, t)" rule: apply_strategy.cases)
     (simp_all add: outcome_defs Let_def task_setters coord_frame)

lemma strategy_result_worktree:
  "tk_worktree (fst (apply_strategy cd s now t)) = (if keeps_worktree s then tk_worktree t else None)"
  by (cases "(cd, s, now, t)" rule: apply_strategy.cases)
     (simp_all add: outcome_defs Let_def task_setters coord_frame)

lemma strategy_result_id: "tk_id (fst (apply_strategy cd s now t)) = tk_id t"
  by (cases "(cd, s, now, t)" rule: apply_strategy.cases)
     (simp_all add: outcome_defs Let_def task_setters coord_frame)

lemma strategy_result_gate: "tk_gate (fst (apply_strategy cd s now t)) = tk_gate t"
  by (cases "(cd, s, now, t)" rule: apply_strategy.cases)
     (simp_all add: outcome_defs Let_def task_setters coord_frame)

lemma strategy_result_reviews:
  "tr_review_cycles (tk_runtime (fst (apply_strategy cd s now t))) = tr_review_cycles (tk_runtime t)"
  by (cases "(cd, s, now, t)" rule: apply_strategy.cases)
     (simp_all add: outcome_defs Let_def task_setters coord_frame)


text \<open>Retry counters.\<close>

lemma retries_cong:
  "tr_retries a = tr_retries b \<Longrightarrow> tr_metrics a = tr_metrics b \<Longrightarrow> retries_count a = retries_count b"
  by (simp add: retries_count_def metric_i64_def)

definition bumped :: "nat \<Rightarrow> nat" where
  "bumped n = unwrap_or 0 (usize_try_from (usize_as_i64 (min (n + 1) (2 ^ 64 - 1))))"

lemma retries_bumped: "retries_count (fst (increment_retries rt)) = bumped (retries_count rt)"
  by (simp only: increment_retries_def Let_def fst_conv retries_count_set_metric bumped_def)

lemma bumped_Suc: "n < 2 ^ 63 - 1 \<Longrightarrow> bumped n = n + 1"
  by (simp add: bumped_def usize_as_i64_def usize_try_from_def nat_add_distrib)

lemma retries_store [coord_frame]:
  "retries_count (store_classified_error_in_extra cd te n rt) = retries_count rt"
  "retries_count (set_error e rt) = retries_count rt"
  "retries_count (set_last_error_details c og m rt) = retries_count rt"
  "retries_count (record_throttle cd tool c ra b n rt) = retries_count rt"
  "retries_count (rt\<lparr>tr_last_error := x1\<rparr>) = retries_count rt"
  "retries_count (rt\<lparr>tr_current_phase := x2\<rparr>) = retries_count rt"
  "retries_count (rt\<lparr>tr_completion_kind := x3\<rparr>) = retries_count rt"
  "retries_count (rt\<lparr>tr_delayed_until := x4\<rparr>) = retries_count rt"
  "retries_count (rt\<lparr>tr_extra := x5\<rparr>) = retries_count rt"
  by (rule retries_cong; simp add: coord_frame set_error_def set_last_error_details_def)+

lemma retries_task [coord_frame]:
  "retries_count (tk_runtime (preserve_active_session_chain t)) = retries_count (tk_runtime t)"
  "retries_count (tk_runtime (capture_last_assignment_before_clear t)) = retries_count (tk_runtime t)"
  "retries_count (tk_runtime (clear_stale_throttle t)) = retries_count (tk_runtime t)"
  by (rule retries_cong; simp add: coord_frame)+

lemma runtime_setters [simp]:
  "tk_runtime (upd_runtime f t) = f (tk_runtime t)"
  "tk_runtime (touch_state_changed now t) = tk_runtime t"
  "tk_runtime (set_workflow_state w t) = tk_runtime t"
  "tk_runtime (drop_worktree t) = tk_runtime t"
  by (simp_all add: upd_runtime_def touch_state_changed_def set_workflow_state_def drop_worktree_def)

lemma strategy_result_retries:
  "retries_count (tk_runtime (fst (apply_strategy cd s now t))) =
     (if counts_retry s then bumped (retries_count (tk_runtime t)) else retries_count (tk_runtime t))"
  by (cases "(cd, s, now, t)" rule: apply_strategy.cases)
     (simp_all add: outcome_defs Let_def coord_frame retries_bumped)

text \<open>
  Where the work of a task can be found: its worktree is still attached, or the runtime remembers
  path and branch.
\<close>

definition work_traced :: "task \<Rightarrow> string \<Rightarrow> string \<Rightarrow> bool" where
  "work_traced t path br =
     ((trimmed_nonempty (worktree_field wt_worktree_path t) = Some path
       \<and> trimmed_nonempty (worktree_field wt_branch t) = Some br)
      \<or> (tr_last_worktree_path (tk_runtime t) = Some path \<and> tr_last_branch (tk_runtime t) = Some br))"

fun forgets_worktree :: "retry_strategy \<Rightarrow> bool" where
  "forgets_worktree (Block _ (RetryBudgetExhausted kind _ _)) = (kind = ErrorWithoutChanges)"
| "forgets_worktree _ = False"

lemma worktree_field_frame [coord_frame]:
  "worktree_field f (upd_runtime g t) = worktree_field f t"
  "worktree_field f (touch_state_changed now t) = worktree_field f t"
  "worktree_field f (set_workflow_state w t) = worktree_field f t"
  "worktree_field f (preserve_active_session_chain t) = worktree_field f t"
  "worktree_field f (clear_stale_throttle t) = worktree_field f t"
  by (simp_all add: worktree_field_def coord_frame)
     (simp_all add: upd_runtime_def touch_state_changed_def set_workflow_state_def)

lemma strategy_records_assignment:
  assumes "\<not> keeps_worktree s" "\<not> forgets_worktree s"
  shows "tr_last_branch (tk_runtime (fst (apply_strategy cd s now t))) =
      or_else (trimmed_nonempty (worktree_field wt_branch t)) (tr_last_branch (tk_runtime t))"
    and "tr_last_worktree_path (tk_runtime (fst (apply_strategy cd s now t))) =
      or_else (trimmed_nonempty (worktree_field wt_worktree_path t))
        (tr_last_worktree_path (tk_runtime t))"
  using assms
  by (cases "(cd, s, now, t)" rule: apply_strategy.cases;
      simp add: outcome_defs Let_def coord_frame set_error_def set_last_error_details_def
        set_status_def capture_records)+

lemma strategy_traces_work:
  assumes "trimmed_nonempty (worktree_field wt_worktree_path t) = Some path"
    and "trimmed_nonempty (worktree_field wt_branch t) = Some br"
    and "\<not> forgets_worktree s"
  shows "work_traced (fst (apply_strategy cd s now t)) path br"
proof (cases "keeps_worktree s")
  case True
  then show ?thesis using assms strategy_result_worktree [of cd s now t]
    by (simp add: work_traced_def worktree_field_def)
next
  case False
  then show ?thesis using assms strategy_records_assignment [OF False assms(3), of cd now t]
    by (simp add: work_traced_def)
qed

text \<open>The throttle entry of the task: only availability outcomes write it.\<close>

definition own_keys :: "string list" where
  "own_keys = [''tool_error'', ''rate_limit_info'', ''out_of_scope_fix'']"

lemma insert_extra_get:
  "bt_ok (tr_extra rt) \<Longrightarrow> bt_ok (tr_extra (insert_extra k v rt))"
  "bt_ok (tr_extra rt) \<Longrightarrow> j \<noteq> k \<Longrightarrow> bt_get (tr_extra (insert_extra k v rt)) j = bt_get (tr_extra rt) j"
  by (auto simp: insert_extra_def bt.inv_ins bt.get_ins_other split: option.split)

lemma store_error_get:
  assumes "bt_ok (tr_extra rt)"
  shows "bt_ok (tr_extra (store_classified_error_in_extra cd te n rt))"
    and "j \<notin> set own_keys \<Longrightarrow>
      bt_get (tr_extra (store_classified_error_in_extra cd te n rt)) j = bt_get (tr_extra rt) j"
  using assms
  by (auto simp: store_classified_error_in_extra_def Let_def own_keys_def insert_extra_get
      split: option.split)

lemma extra_frame [coord_frame]:
  "tr_extra (set_error e rt) = tr_extra rt"
  "tr_extra (set_last_error_details c og m rt) = tr_extra rt"
  "tr_extra (set_status st rt) = tr_extra rt"
  "tr_extra (fst (increment_retries rt)) = tr_extra rt"
  "tr_extra (tk_runtime (preserve_active_session_chain t)) = tr_extra (tk_runtime t)"
  "tr_extra (tk_runtime (capture_last_assignment_before_clear t)) = tr_extra (tk_runtime t)"
  by (simp_all add: set_error_def set_last_error_details_def set_status_def increment_retries_def
      set_metric_i64_def preserve_active_session_chain_def capture_last_assignment_before_clear_def
      Let_def split: option.split)

lemma strategy_throttle_entry:
  assumes "bt_ok (tr_extra (tk_runtime t))" "\<not> is_availability_outcome s" "j \<notin> set own_keys"
  shows "bt_get (tr_extra (tk_runtime (fst (apply_strategy cd s now t)))) j
    = bt_get (tr_extra (tk_runtime t)) j"
  using assms
  by (cases "(cd, s, now, t)" rule: apply_strategy.cases)
     (simp_all add: outcome_defs Let_def coord_frame store_error_get bt.get_rem_other bt.get_ins_other
       own_keys_def)

lemma clear_stale_throttle_entry:
  "bt_ok (tr_extra (tk_runtime t)) \<Longrightarrow>
     bt_ok (tr_extra (tk_runtime (clear_stale_throttle t)))
     \<and> bt_get (tr_extra (tk_runtime (clear_stale_throttle t))) ''throttle_state'' = None"
  by (auto simp: clear_stale_throttle_def bt.inv_rem bt.get_rem_same)

section \<open>The completion of a job, by its strategy\<close>

definition work_committed :: "host \<Rightarrow> task \<Rightarrow> bool" where
  "work_committed h t =
     (case Model.worktree_path t of None \<Rightarrow> False
      | Some p \<Rightarrow> has_commits_ahead h p (base_branch ''master'' t))"

definition completion_class ::
  "host \<Rightarrow> normalizer_registry \<Rightarrow> task \<Rightarrow> job_completion_input \<Rightarrow> error_classification" where
  "completion_class h normalizers t input =
     classify_completion_error input (Option.bind (tk_tool t) normalizers) (work_committed h t)"

definition completion_strategy ::
  "ts_parser \<Rightarrow> (string \<Rightarrow> int \<Rightarrow> string option) \<Rightarrow> host \<Rightarrow> normalizer_registry
     \<Rightarrow> task \<Rightarrow> job_completion_input \<Rightarrow> string \<Rightarrow> retry_strategy" where
  "completion_strategy ts add_secs h normalizers t input now =
     resolve_retry_strategy ts add_secs t input (completion_class h normalizers t input) (from_input input)
       (case Model.worktree_path t of None \<Rightarrow> False | Some p \<Rightarrow> is_worktree_healthy h p) now"

definition noted :: "job_completion_input \<Rightarrow> task \<Rightarrow> task" where
  "noted input t =
     upd_runtime (\<lambda>rt. rt\<lparr>tr_result_explanation := ji_result_explanation input,
                         tr_unmet_preconditions := ji_unmet_preconditions input\<rparr>) t"

lemma completion_by_strategy:
  "apply_job_completion_typed cd ts add_secs h normalizers t input now =
     apply_state_transitions cd (noted input t)
       (completion_strategy ts add_secs h normalizers t input now) now"
  unfolding apply_job_completion_typed_def Let_def completion_strategy_def completion_class_def
    work_committed_def noted_def ..

lemma noted_frame [coord_frame, simp]:
  "tk_worktree (noted input t) = tk_worktree t"
  "tr_extra (tk_runtime (noted input t)) = tr_extra (tk_runtime t)"
  "retries_count (tk_runtime (noted input t)) = retries_count (tk_runtime t)"
  "worktree_field f (noted input t) = worktree_field f t"
  by (simp_all add: noted_def coord_frame)
     (simp_all add: upd_runtime_def retries_count_def metric_i64_def)

lemma worktree_field_cong: "tk_worktree a = tk_worktree b \<Longrightarrow> worktree_field f a = worktree_field f b"
  by (simp add: worktree_field_def)

lemma completion_worktree:
  "tk_worktree (fst (apply_job_completion_typed cd ts add_secs h nr t input now)) =
     (if keeps_worktree (completion_strategy ts add_secs h nr t input now) then tk_worktree t else None)"
  by (simp add: completion_by_strategy apply_state_transitions_def strategy_result_worktree coord_frame)

lemma completion_retries:
  "retries_count (tk_runtime (fst (apply_job_completion_typed cd ts add_secs h nr t input now))) =
     (if counts_retry (completion_strategy ts add_secs h nr t input now)
      then bumped (retries_count (tk_runtime t)) else retries_count (tk_runtime t))"
  by (simp add: completion_by_strategy apply_state_transitions_def strategy_result_retries coord_frame)

lemma completion_state_text:
  "tk_state (fst (apply_job_completion_typed cd ts add_secs h nr t input now)) =
     (case strategy_state (completion_strategy ts add_secs h nr t input now) of
        None \<Rightarrow> tk_state t | Some w \<Rightarrow> workflow_as_str w)"
  by (simp add: completion_by_strategy apply_state_transitions_def strategy_result_state coord_frame
      noted_def split: option.split) (simp add: upd_runtime_def)

lemma completion_workflow:
  "workflow_state_of (fst (apply_job_completion_typed cd ts add_secs h nr t input now)) =
     strategy_state (completion_strategy ts add_secs h nr t input now)"
proof -
  have "completion_strategy ts add_secs h nr t input now \<noteq> NoOp"
    unfolding completion_strategy_def by (rule resolve_not_NoOp)
  then obtain w where "strategy_state (completion_strategy ts add_secs h nr t input now) = Some w"
    by (cases "completion_strategy ts add_secs h nr t input now" rule: strategy_state.cases) auto
  then show ?thesis using completion_state_text [of cd ts add_secs h nr t input now]
    by (simp add: workflow_state_of_def wf_text.parse_show)
qed

text \<open>The code an availability outcome records, and the runtime it leaves behind.\<close>

fun availability_code :: "retry_outcome \<Rightarrow> string" where
  "availability_code (RateLimitBackoff _ _ e _ _) = ce_code e"
| "availability_code (QuotaExhaustedRequeue _ e _ _) = ce_code e"
| "availability_code _ = []"

lemma availability_strategy_shape:
  assumes "resolve_retry_strategy ts add_secs t input c config healthy now = s"
    and "has_worktree_attached t" "is_availability_outcome s"
  obtains reason out where "s = Retry True reason out" "is_availability_outcome s"
    "availability_code out \<in> {''E601'', ''E602''}"
proof -
  have not_tool: "\<not> is_availability_outcome (tool_reported t input kind hc healthy te)" for kind hc te
    using tool_reported_cases [of t input kind hc healthy te] by auto
  from assms(1) show thesis
  proof (cases rule: resolve_cases)
    case (reported kind)
    then show thesis using assms(3) terminal_report_block by fastforce
  next
    case success
    then show thesis using assms(3) not_tool by (auto simp: success_strategy_def Let_def split: if_splits)
  next
    case (stdout ni)
    then show thesis using assms(3) not_tool by (auto simp: stdout_strategy_def Let_def split: if_splits)
  next
    case availability
    from this(1) show thesis
      by (cases rule: availability_cases)
         (use assms(2,3) that in \<open>auto simp: from_classification_def E601_RATE_LIMITED_def
            E602_QUOTA_EXHAUSTED_def\<close>)
  next
    case failure
    then show thesis using assms(3) by (auto simp: failure_strategy_def Let_def split: if_splits)
  qed (use assms(3) in auto)
qed

lemma error_code_frame [coord_frame]:
  "tr_last_error_code (insert_extra k v rt) = tr_last_error_code rt"
  "tr_last_error_code (store_classified_error_in_extra cd te n rt) = tr_last_error_code rt"
  "tr_last_error_code (tk_runtime (preserve_active_session_chain t)) = tr_last_error_code (tk_runtime t)"
  "tr_last_error_code (tk_runtime (capture_last_assignment_before_clear t)) = tr_last_error_code (tk_runtime t)"
  "tr_status (tk_runtime (preserve_active_session_chain t)) = tr_status (tk_runtime t)"
  "tr_status (tk_runtime (capture_last_assignment_before_clear t)) = tr_status (tk_runtime t)"
  by (simp_all add: insert_extra_def store_classified_error_in_extra_def preserve_active_session_chain_def
      capture_last_assignment_before_clear_def Let_def split: option.split)

lemma availability_result:
  assumes "is_availability_outcome (Retry True reason out)"
  shows "tr_status (tk_runtime (fst (apply_strategy cd (Retry True reason out) now t)))
      = Some (runtime_as_str Rt_Failed)"
    and "tr_last_error_code (tk_runtime (fst (apply_strategy cd (Retry True reason out) now t)))
      = Some (availability_code out)"
proof -
  show "tr_status (tk_runtime (fst (apply_strategy cd (Retry True reason out) now t)))
      = Some (runtime_as_str Rt_Failed)"
    using assms
    by (cases out) (simp_all add: apply_rate_limit_backoff_def apply_quota_exhausted_def Let_def
        coord_frame set_status_def)
  show "tr_last_error_code (tk_runtime (fst (apply_strategy cd (Retry True reason out) now t)))
      = Some (availability_code out)"
    using assms
    by (cases out) (simp_all add: apply_rate_limit_backoff_def apply_quota_exhausted_def Let_def
        coord_frame set_error_def set_last_error_details_def set_status_def)
qed

section \<open>Properties\<close>

text \<open>C5: Whatever way a job ends, the work of a task whose worktree and branch are known can still be
  found afterwards: they stay attached or the runtime remembers both.  The one exception is a retry
  budget spent on attempts that changed nothing.\<close>

theorem completion_traces_work:
  assumes "trimmed_nonempty (worktree_field wt_worktree_path t) = Some path"
    and "trimmed_nonempty (worktree_field wt_branch t) = Some br"
    and "\<not> forgets_worktree (completion_strategy ts add_secs h nr t input now)"
  shows "work_traced (fst (apply_job_completion_typed cd ts add_secs h nr t input now)) path br"
  unfolding completion_by_strategy apply_state_transitions_def
  by (rule strategy_traces_work) (use assms in \<open>simp_all add: coord_frame\<close>)

text \<open>The throttle mark of a task is written by availability outcomes only: after any other
  completion it is gone, so a task that got through is never held back by an old rate limit.\<close>

theorem completion_clears_throttle:
  assumes "bt_ok (tr_extra (tk_runtime t))"
    and "\<not> is_availability_outcome (completion_strategy ts add_secs h nr t input now)"
  shows "bt_get (tr_extra (tk_runtime (fst (apply_job_completion_typed cd ts add_secs h nr t input now))))
    ''throttle_state'' = None"
proof -
  have ok: "bt_ok (tr_extra (tk_runtime (noted input t)))" using assms(1) by simp
  note cleared = clear_stale_throttle_entry [OF ok]
  have "''throttle_state'' \<notin> set own_keys" by (simp add: own_keys_def)
  with strategy_throttle_entry [OF conjunct1 [OF cleared] assms(2)] cleared assms(2) show ?thesis
    by (simp add: completion_by_strategy apply_state_transitions_def)
qed

lemma completion_success:
  "ec_completion_success (completion_class h nr t input) \<longleftrightarrow>
     ji_success input \<or> (work_committed h t \<and> ji_completion_kind input = Some SuccessWithChanges)"
  by (simp add: completion_class_def classify_success_iff)

text \<open>A completed job moves its task on to the next phase only if the process succeeded or the
  tool reported success and committed work is there; it counts as merged without a merge only on
  success too, or when a provider outage hit a run whose output says the task is done.\<close>

theorem delivery_needs_success:
  fixes cd ts add_secs h nr t input now
  defines "t' \<equiv> fst (apply_job_completion_typed cd ts add_secs h nr t input now)"
    and "succeeded \<equiv> ji_success input
      \<or> (work_committed h t \<and> ji_completion_kind input = Some SuccessWithChanges)"
  shows "(workflow_state_of t' = Some InProgress \<longrightarrow>
      succeeded \<and> ec_error_code (completion_class h nr t input) \<noteq> E602_QUOTA_EXHAUSTED)
    \<and> (workflow_state_of t' = Some Merged \<longrightarrow> succeeded
      \<or> (\<exists>ni e. ji_normalizer_input input = Some ni
          \<and> ec_tool_error (completion_class h nr t input) = Some e \<and> te_class e \<in> {Overloaded, RateLimit}
          \<and> (str_contains (ni_stdout ni) ''MACC_TASK_RESULT: success''
             \<or> str_contains (ni_stdout ni) ''already_satisfied'')))"
proof -
  let ?s = "completion_strategy ts add_secs h nr t input now"
  have "succeeded \<and> ec_error_code (completion_class h nr t input) \<noteq> E602_QUOTA_EXHAUSTED"
    if st: "strategy_state ?s = Some InProgress"
  proof -
    obtain d k where "?s = PhaseDone d k" using st by (cases ?s rule: strategy_state.cases) auto
    from resolve_phase_done [OF this [unfolded completion_strategy_def]] show ?thesis
      by (simp add: completion_success succeeded_def)
  qed
  moreover have "succeeded \<or> (\<exists>ni e. ji_normalizer_input input = Some ni
          \<and> ec_tool_error (completion_class h nr t input) = Some e \<and> te_class e \<in> {Overloaded, RateLimit}
          \<and> (str_contains (ni_stdout ni) ''MACC_TASK_RESULT: success''
             \<or> str_contains (ni_stdout ni) ''already_satisfied''))"
    if st: "strategy_state ?s = Some Merged"
  proof -
    obtain d k te where "?s = Merge d k te" using st by (cases ?s rule: strategy_state.cases) auto
    from resolve_merge [OF this [unfolded completion_strategy_def]] show ?thesis
      unfolding completion_success succeeded_def by blast
  qed
  ultimately show ?thesis unfolding t'_def completion_workflow by blast
qed

text \<open>A task stopped by a rate limit or an exhausted quota goes back to \<open>todo\<close> in its worktree, and
  the selector may resume it there whatever the retry budget is: waiting for a provider never spends a
  retry.\<close>

theorem availability_parks_worktree:
  fixes cd ts add_secs h nr t input now
  assumes "is_availability_outcome (completion_strategy ts add_secs h nr t input now)"
    and "Model.worktree_path t = Some p" "branch_of t = Some b"
  defines "t' \<equiv> fst (apply_job_completion_typed cd ts add_secs h nr t input now)"
  shows "workflow_state_of t' = Some Todo
    \<and> resume_worktree_for t' max_retries = Some \<lparr>rw_path = p, rw_branch = b\<rparr>
    \<and> retries_count (tk_runtime t') = retries_count (tk_runtime t)"
proof -
  let ?s = "completion_strategy ts add_secs h nr t input now"
  note res = completion_strategy_def [of ts add_secs h nr t input now, symmetric]
  have att: "has_worktree_attached t"
    using assms(2) by (auto simp: Model.worktree_path_def worktree_field_def has_worktree_attached_def
        nonempty_Some_iff split: Option.bind_splits option.splits)
  obtain reason out where s: "?s = Retry True reason out" "is_availability_outcome ?s"
      "availability_code out \<in> {''E601'', ''E602''}"
    using assms(1) by (rule availability_strategy_shape [OF res att])
  have wt: "tk_worktree t' = tk_worktree t"
    unfolding t'_def completion_worktree using s by (cases out) auto
  have st: "workflow_state_of t' = Some Todo"
    unfolding t'_def completion_workflow using s by (cases out) auto
  have rt: "status_of (tk_runtime t') = Rt_Failed"
      "tr_last_error_code (tk_runtime t') = Some (availability_code out)"
    unfolding t'_def completion_by_strategy apply_state_transitions_def s(1)
    using s by (simp_all add: availability_result status_of_def rt_text.parse_show del: runtime_as_str.simps)
  have "branch_of t' = Some b" "Model.worktree_path t' = Some p"
    using assms(2,3) wt by (simp_all add: branch_of_def Model.worktree_path_def worktree_field_def)
  moreover have "\<not> counts_retry ?s" using s by (cases out) auto
  ultimately show ?thesis using st rt s(3)
    by (auto simp: resume_worktree_for_def is_awaiting_tool_availability_retry_def
        is_awaiting_same_worktree_retry_def runtime_status_of_def completion_retries t'_def)
qed

text \<open>A claimed task in its worktree, and three ways its job can end.\<close>

definition sample_claimed :: task where
  "sample_claimed =
     (sample_task ''A'' Claimed)\<lparr>tk_worktree := Some (default_worktree
        \<lparr>wt_worktree_path := Some ''/w'', wt_branch := Some ''b''\<rparr>)\<rparr>"

definition sample_quota :: job_completion_input where
  "sample_quota = sample_input\<lparr>ji_success := False, ji_error_code := Some ''E602''\<rparr>"

definition sample_codec :: codec where
  "sample_codec =
     \<lparr>enc_tool_error = \<lambda>_. None, enc_rate_limit = \<lambda>_. None, enc_throttle = \<lambda>_. None,
      dec_throttle = \<lambda>_. None\<rparr>"

definition sample_host :: host where
  "sample_host =
     \<lparr>hs_exists = \<lambda>_. False, hs_is_dir = \<lambda>_. False,
      hs_git = \<lambda>_ _. Inl (Git_Err ''git'' ''no repository'')\<rparr>"

abbreviation sample_completion :: "job_completion_input \<Rightarrow> task" where
  "sample_completion input \<equiv>
     fst (apply_job_completion_typed sample_codec (\<lambda>_. None) (\<lambda>_ _. None) sample_host (\<lambda>_. None)
       sample_claimed input ''now'')"

abbreviation sample_strategy :: "job_completion_input \<Rightarrow> retry_strategy" where
  "sample_strategy input \<equiv>
     completion_strategy (\<lambda>_. None) (\<lambda>_ _. None) sample_host (\<lambda>_. None) sample_claimed input ''now''"

lemma sample_claimed_fields [simp]:
  "Model.worktree_path sample_claimed = Some ''/w''" "branch_of sample_claimed = Some ''b''"
  "has_worktree_attached sample_claimed"
  "tk_tool sample_claimed = None" "tk_runtime sample_claimed = default_runtime"
  "worktree_field wt_worktree_path sample_claimed = Some ''/w''"
  "worktree_field wt_branch sample_claimed = Some ''b''"
  by (simp_all add: sample_claimed_def Model.worktree_path_def branch_of_def worktree_field_def
      has_worktree_attached_def nonempty_def)

lemma sample_not_committed: "work_committed sample_host sample_claimed = False"
  by (simp add: work_committed_def has_commits_ahead_def sample_host_def)

lemma sample_success_strategy: "sample_strategy sample_input = PhaseDone ''done'' SuccessWithChanges"
  unfolding completion_strategy_def completion_class_def sample_not_committed
  by (simp add: resolve_retry_strategy_def classify_completion_error_def normalized_error_def
      resolve_completion_authority_def success_strategy_def E602_QUOTA_EXHAUSTED_def sample_input_def
      kind_is_error_def Let_def)

lemma sample_quota_strategy:
  "\<exists>reason cooldown details te n.
     sample_strategy sample_quota = Retry True reason (QuotaExhaustedRequeue cooldown details te n)"
  unfolding completion_strategy_def completion_class_def sample_not_committed
  by (simp add: resolve_retry_strategy_def classify_completion_error_def normalized_error_def
      reported_preconditions_def resolve_completion_authority_def availability_strategy_def
      from_classification_def E602_QUOTA_EXHAUSTED_def E601_RATE_LIMITED_def sample_input_def
      sample_quota_def Let_def)

theorem completion_traces_work_witness:
  "work_traced (sample_completion sample_input) ''/w'' ''b''"
proof (rule completion_traces_work)
  have "trim ''/w'' = ''/w''" "trim ''b'' = ''b''" by (rule trim_graphic; simp add: graphic_def)+
  then show "trimmed_nonempty (worktree_field wt_worktree_path sample_claimed) = Some ''/w''"
    "trimmed_nonempty (worktree_field wt_branch sample_claimed) = Some ''b''"
    by (simp_all add: trimmed_nonempty_Some_iff)
qed (simp add: sample_success_strategy)

theorem completion_clears_throttle_witness:
  "bt_get (tr_extra (tk_runtime (sample_completion sample_input))) ''throttle_state'' = None"
  by (rule completion_clears_throttle) (simp_all add: sample_success_strategy default_runtime_def)

theorem delivery_needs_success_witness:
  "workflow_state_of (sample_completion sample_input) = Some InProgress
   \<and> (ji_success sample_input
      \<or> (work_committed sample_host sample_claimed
         \<and> ji_completion_kind sample_input = Some SuccessWithChanges))"
  using delivery_needs_success [of sample_codec "\<lambda>_. None" "\<lambda>_ _. None" sample_host "\<lambda>_. None"
      sample_claimed sample_input "''now''"]
  by (simp add: completion_workflow sample_success_strategy)

theorem availability_parks_worktree_witness:
  "resume_worktree_for (sample_completion sample_quota) 0 = Some \<lparr>rw_path = ''/w'', rw_branch = ''b''\<rparr>"
proof -
  have "is_availability_outcome (sample_strategy sample_quota)" using sample_quota_strategy by auto
  from availability_parks_worktree [OF this sample_claimed_fields(1,2)] show ?thesis by blast
qed

end
