(* ===== verification/Fsm.thy ===== *)
theory Fsm
  imports Transitions
begin

text \<open>
  The coordinator's state machine (\<open>core/src/coordinator/engine/fsm.rs\<close> and \<open>advance_plan.rs\<close>): the
  plan of the next phase, the transition function of workflow events, the handlers that apply a
  dispatch, a phase, a review, a merge or a completion to a task, and the reclaiming of tasks whose
  process is gone.  The handlers on the stored registry take \<open>from_value\<close> and \<open>to_value\<close>
  (\<open>TaskRegistry\<close>'s serde conversions) as arguments.
\<close>

section \<open>Plans\<close>

record phases_config =
  ph_testing_enabled :: bool
  ph_review_enabled :: bool

record phase_transition =
  pt_mode :: string
  pt_next_state :: workflow_state
  pt_runtime_phase :: string

datatype advance_plan =
    RunPhase phase_transition
  | Plan_Merge
  | ReviewBudgetExhausted
  | Plan_Noop

datatype review_verdict = Verdict_Ok | Verdict_ChangesRequested

definition test_phase :: phase_transition where
  "test_phase = \<lparr>pt_mode = ''test'', pt_next_state = Testing, pt_runtime_phase = ''test''\<rparr>"

definition review_phase :: phase_transition where
  "review_phase = \<lparr>pt_mode = ''review'', pt_next_state = Reviewing, pt_runtime_phase = ''review''\<rparr>"

definition fix_phase :: phase_transition where
  "fix_phase = \<lparr>pt_mode = ''fix'', pt_next_state = InProgress, pt_runtime_phase = ''fix''\<rparr>"

definition review_available :: "nat option \<Rightarrow> nat \<Rightarrow> phases_config \<Rightarrow> bool" where
  "review_available max_review_cycles review_cycles phases =
     (ph_review_enabled phases
      \<and> (case max_review_cycles of None \<Rightarrow> True | Some mx \<Rightarrow> review_cycles < mx))"

definition plan_advance ::
  "workflow_state \<Rightarrow> nat option \<Rightarrow> nat \<Rightarrow> phases_config \<Rightarrow> advance_plan" where
  "plan_advance state max_review_cycles review_cycles phases =
     (let available = review_available max_review_cycles review_cycles phases in
      case state of
        InProgress \<Rightarrow>
          if ph_testing_enabled phases then RunPhase test_phase
          else if available then RunPhase review_phase
          else Plan_Merge
      | Testing \<Rightarrow> if available then RunPhase review_phase else Plan_Merge
      | Reviewing \<Rightarrow> Plan_Merge
      | PrOpen \<Rightarrow> Plan_Merge
      | ChangesRequested \<Rightarrow>
          (case max_review_cycles of
             Some mx \<Rightarrow> if mx = 0 \<or> mx < review_cycles then ReviewBudgetExhausted
                        else RunPhase fix_phase
           | None \<Rightarrow> RunPhase fix_phase)
      | Queued \<Rightarrow> Plan_Merge
      | _ \<Rightarrow> Plan_Noop)"

section \<open>Events and transitions\<close>

datatype workflow_event =
    PhaseSucceeded string
  | PhaseFailed string
  | ReviewChangesRequested
  | MergeSucceeded
  | MergeFailed

fun event_debug :: "workflow_event \<Rightarrow> string" where
  "event_debug (PhaseSucceeded m) = ''PhaseSucceeded('' @ dquoted m @ '')''"
| "event_debug (PhaseFailed m) = ''PhaseFailed('' @ dquoted m @ '')''"
| "event_debug ReviewChangesRequested = ''ReviewChangesRequested''"
| "event_debug MergeSucceeded = ''MergeSucceeded''"
| "event_debug MergeFailed = ''MergeFailed''"

definition merge_event_states :: "workflow_state list" where
  "merge_event_states = [InProgress, Testing, Reviewing, PrOpen, ChangesRequested, Queued]"

fun event_target ::
  "workflow_state \<Rightarrow> workflow_event \<Rightarrow> workflow_state option \<Rightarrow> workflow_state option" where
  "event_target from (PhaseSucceeded mode) nxt =
     (if from = InProgress \<and> mode = ''test'' then Some Testing
      else if from = InProgress \<and> mode = ''review'' then Some (unwrap_or PrOpen nxt)
      else if from = Testing \<and> mode = ''test'' then Some (unwrap_or Reviewing nxt)
      else if from = Testing \<and> mode = ''review'' then Some (unwrap_or Reviewing nxt)
      else if from = Reviewing \<and> mode = ''review'' then Some (unwrap_or PrOpen nxt)
      else if from = ChangesRequested \<and> mode = ''fix'' then Some (unwrap_or PrOpen nxt)
      else None)"
| "event_target from ReviewChangesRequested nxt =
     (if from \<in> {InProgress, Reviewing, Testing} then Some ChangesRequested else None)"
| "event_target from (PhaseFailed mode) nxt =
     (if from = InProgress \<and> mode = ''dev'' then Some Blocked
      else if from = InProgress \<and> mode = ''review'' then Some Blocked
      else if from = Testing \<and> mode = ''test'' then Some InProgress
      else if from = Reviewing \<and> mode = ''review'' then Some Blocked
      else if from = Testing \<and> mode = ''review'' then Some Blocked
      else if from = ChangesRequested \<and> mode = ''fix'' then Some Blocked
      else None)"
| "event_target from MergeSucceeded nxt =
     (if from \<in> set merge_event_states then Some Merged else None)"
| "event_target from MergeFailed nxt =
     (if from \<in> set merge_event_states then Some Blocked else None)"

definition transition_workflow_state ::
  "workflow_state \<Rightarrow> workflow_event \<Rightarrow> workflow_state option \<Rightarrow> workflow_state res" where
  "transition_workflow_state from event nxt =
     (case event_target from event nxt of
        None \<Rightarrow> Inl (Coordinator_Err ''invalid_transition''
                  (''Invalid coordinator FSM transition: from='' @ workflow_as_str from
                   @ '' event='' @ event_debug event))
      | Some to \<Rightarrow>
          if \<not> is_valid_workflow_transition from to
          then Inl (Coordinator_Err ''invalid_transition''
                 (''Coordinator FSM produced invalid workflow transition '' @ workflow_as_str from
                  @ '' -> '' @ workflow_as_str to))
          else Inr to)"

section \<open>Handlers on one task\<close>

definition task_workflow_state_typed :: "task \<Rightarrow> workflow_state res" where
  "task_workflow_state_typed t =
     (case workflow_state_of t of
        None \<Rightarrow> Inl (Validation_Err (''Invalid coordinator workflow state '' @ quoted (tk_state t)))
      | Some s \<Rightarrow> Inr s)"

definition apply_phase_success_typed ::
  "task \<Rightarrow> phase_transition \<Rightarrow> string \<Rightarrow> task res" where
  "apply_phase_success_typed t tr now =
     try_bind (task_workflow_state_typed t) (\<lambda>from.
     try_bind (transition_workflow_state from (PhaseSucceeded (pt_mode tr)) (Some (pt_next_state tr)))
       (\<lambda>to.
         if to \<noteq> pt_next_state tr
         then Inl (Validation_Err
                (''Coordinator FSM mismatch for mode='' @ quoted (pt_mode tr) @ '': expected next=''
                 @ workflow_as_str (pt_next_state tr) @ '' got '' @ workflow_as_str to))
         else Inr (touch_state_changed now
                (upd_runtime
                  (\<lambda>rt. set_status Rt_PhaseDone rt
                     \<lparr>tr_current_phase := Some (pt_runtime_phase tr), tr_pid := None,
                      tr_delayed_until := None\<rparr>)
                  (set_workflow_state to t)))))"

definition apply_review_phase_success_typed ::
  "task \<Rightarrow> review_verdict \<Rightarrow> string \<Rightarrow> (task \<times> workflow_state) res" where
  "apply_review_phase_success_typed t verdict now =
     try_bind (task_workflow_state_typed t) (\<lambda>from.
     try_bind
       (case verdict of
          Verdict_Ok \<Rightarrow> transition_workflow_state from (PhaseSucceeded ''review'') (Some PrOpen)
        | Verdict_ChangesRequested \<Rightarrow>
            transition_workflow_state from ReviewChangesRequested (Some ChangesRequested))
       (\<lambda>to. Inr
         (touch_state_changed now
            (upd_runtime
              (\<lambda>rt. set_status Rt_PhaseDone rt
                 \<lparr>tr_current_phase := Some ''review'', tr_pid := None, tr_delayed_until := None,
                  tr_review_cycles := Some (unwrap_or 0 (tr_review_cycles rt) + 1)\<rparr>)
              (set_workflow_state to t)),
          to)))"

definition apply_phase_failure_typed :: "task \<Rightarrow> string \<Rightarrow> string \<Rightarrow> string \<Rightarrow> task res" where
  "apply_phase_failure_typed t mode reason now =
     try_bind (task_workflow_state_typed t) (\<lambda>from.
     try_bind (transition_workflow_state from (PhaseFailed mode) None) (\<lambda>to.
       Inr (touch_state_changed now
         (upd_runtime
           (\<lambda>rt. set_status Rt_Failed rt
              \<lparr>tr_current_phase := Some mode, tr_last_error := Some reason, tr_pid := None\<rparr>)
           (set_workflow_state to t)))))"

definition apply_merge_success_typed :: "task \<Rightarrow> string \<Rightarrow> task res" where
  "apply_merge_success_typed t now =
     try_bind (task_workflow_state_typed t) (\<lambda>from.
     try_bind (transition_workflow_state from MergeSucceeded (Some Merged)) (\<lambda>to.
       Inr (touch_state_changed now
         (upd_runtime (\<lambda>rt. set_status Rt_Idle rt\<lparr>tr_pid := None\<rparr>) (set_workflow_state to t)))))"

definition apply_merge_failure_typed :: "task \<Rightarrow> string \<Rightarrow> string \<Rightarrow> task res" where
  "apply_merge_failure_typed t reason now =
     try_bind (task_workflow_state_typed t) (\<lambda>from.
     try_bind (transition_workflow_state from MergeFailed (Some Blocked)) (\<lambda>to.
       Inr (touch_state_changed now
         (upd_runtime
           (\<lambda>rt. set_status Rt_Paused rt
              \<lparr>tr_current_phase := Some ''merge'', tr_last_error := Some reason, tr_pid := None\<rparr>)
           (set_workflow_state to t)))))"

definition with_local_pr_url :: "task \<Rightarrow> task" where
  "with_local_pr_url t =
     (if unwrap_or [] (tk_pr_url t) = []
      then t\<lparr>tk_pr_url := Some (''local://'' @ unwrap_or ''unknown'' (branch_of t))\<rparr> else t)"

definition apply_phase_outcome_typed ::
  "task \<Rightarrow> string \<Rightarrow> phase_transition \<Rightarrow> review_verdict option \<Rightarrow> string option \<Rightarrow> string
     \<Rightarrow> task res" where
  "apply_phase_outcome_typed t mode tr verdict phase_error now =
     (case phase_error of
        Some reason \<Rightarrow> apply_phase_failure_typed t mode reason now
      | None \<Rightarrow>
          let t1 = upd_runtime
                (\<lambda>rt. rt\<lparr>tr_extra := bt_remove ''phase_tool_unavailable'' (tr_extra rt)\<rparr>) t
          in if mode = ''review''
             then (case verdict of
                     None \<Rightarrow> Inl (Validation_Err (''Missing review verdict for task ''
                               @ quoted (tk_id t) @ '' during review phase''))
                   | Some v \<Rightarrow>
                       try_bind (apply_review_phase_success_typed t1 v now) (\<lambda>(t2, nxt).
                         Inr (if nxt = PrOpen then with_local_pr_url t2 else t2)))
             else try_bind (apply_phase_success_typed t1 tr now) (\<lambda>t2.
                    Inr (if pt_next_state tr = PrOpen then with_local_pr_url t2 else t2)))"

definition block_unapplicable_phase_outcome ::
  "task \<Rightarrow> string \<Rightarrow> string \<Rightarrow> string \<Rightarrow> task" where
  "block_unapplicable_phase_outcome t mode message now =
     (let detail =
        ''The '' @ mode @ '' phase result of '' @ tk_id t
        @ '' could not be applied from state '' @ quoted (tk_state t) @ '' ('' @ message
        @ ''). The task is blocked with its worktree and commits kept; inspect it, then run `macc coordinator unblock-task --task ''
        @ tk_id t @ '' --evidence '' @ dquoted ''<evidence>'' @ ''` to resume.''
      in touch_state_changed now
           (upd_runtime
             (\<lambda>rt. set_last_error_details ''E910'' ''coordinator'' detail
                (set_status Rt_Failed rt\<lparr>tr_current_phase := Some mode, tr_pid := None\<rparr>)
                \<lparr>tr_last_error := Some detail\<rparr>)
             (set_workflow_state Blocked t)))"

text \<open>The outcome of a phase on the task as the registry handler leaves it.\<close>

definition phase_outcome_or_block ::
  "task \<Rightarrow> string \<Rightarrow> phase_transition \<Rightarrow> review_verdict option \<Rightarrow> string option \<Rightarrow> string
     \<Rightarrow> task res" where
  "phase_outcome_or_block t mode tr verdict phase_error now =
     (case apply_phase_outcome_typed t mode tr verdict phase_error now of
        Inr t' \<Rightarrow> Inr t'
      | Inl (Coordinator_Err code message) \<Rightarrow>
          if code = ''invalid_transition''
          then Inr (block_unapplicable_phase_outcome t mode message now)
          else Inl (Coordinator_Err code message)
      | Inl err \<Rightarrow> Inl err)"

record dispatch_claim_update =
  dc_task_id :: string
  dc_tool :: string
  dc_worktree_path :: string
  dc_branch :: string
  dc_base_branch :: string
  dc_last_commit :: string
  dc_session_id :: string
  dc_active_session_id :: "string option"
  dc_pid :: "int option"
  dc_phase :: string
  dc_now :: string
  dc_run_id :: string
  dc_coordinator_epoch :: int

definition claim_log_prefix :: "dispatch_claim_update \<Rightarrow> string" where
  "claim_log_prefix u = ''.macc/log/performer/'' @ dc_task_id u @ ''/'' @ dc_run_id u"

definition apply_dispatch_claim_typed :: "task \<Rightarrow> dispatch_claim_update \<Rightarrow> task" where
  "apply_dispatch_claim_typed t u =
     (let tool_changed =
            (case or_else (task_tool t) (tr_last_session_tool (tk_runtime t)) of
               None \<Rightarrow> False | Some previous \<Rightarrow> previous \<noteq> dc_tool u);
          t1 = (set_workflow_state Claimed t)\<lparr>tk_tool := Some (dc_tool u)\<rparr>;
          t2 = t1\<lparr>tk_worktree := Some ((ensure_worktree t1)
                   \<lparr>wt_worktree_path := Some (dc_worktree_path u), wt_branch := Some (dc_branch u),
                    wt_base_branch := Some (dc_base_branch u),
                    wt_last_commit := Some (dc_last_commit u),
                    wt_session_id := Some (dc_session_id u)\<rparr>)\<rparr>
      in touch_state_changed (dc_now u)
           (upd_runtime
             (\<lambda>rt. set_status Rt_Dispatched rt
                \<lparr>tr_current_phase := Some (dc_phase u), tr_started_at := Some (dc_now u),
                 tr_run_id := Some (dc_run_id u),
                 tr_coordinator_epoch := Some (dc_coordinator_epoch u),
                 tr_claim_id := Some (dc_session_id u),
                 tr_active_session_id :=
                   (if tool_changed then dc_active_session_id u
                    else or_else (dc_active_session_id u) (tr_active_session_id rt)),
                 tr_events_log := Some (claim_log_prefix u @ ''.events.jsonl''),
                 tr_stdout_log := Some (claim_log_prefix u @ ''.stdout.log''),
                 tr_stderr_log := Some (claim_log_prefix u @ ''.stderr.log''),
                 tr_pid := dc_pid u\<rparr>) t2))"

definition apply_dispatch_pid_typed :: "task \<Rightarrow> int option \<Rightarrow> task" where
  "apply_dispatch_pid_typed t pid =
     upd_runtime (\<lambda>rt. set_status Rt_Running (rt\<lparr>tr_pid := pid\<rparr>)) t"


section \<open>Handlers on the registry\<close>

definition task_not_found :: "string \<Rightarrow> macc_error" where
  "task_not_found task_id =
     Coordinator_Err ''task_not_found'' (''Task '' @ quoted task_id @ '' not found in registry'')"

text \<open>The common frame: read the registry, change the named task, write the registry back.\<close>

definition on_task ::
  "('v \<Rightarrow> task_registry res) \<Rightarrow> (task_registry \<Rightarrow> 'v res) \<Rightarrow> 'v \<Rightarrow> string
     \<Rightarrow> (task \<Rightarrow> (task \<times> 'a) res) \<Rightarrow> (task_registry \<Rightarrow> task_registry) \<Rightarrow> ('v \<times> 'a) res" where
  "on_task from_value to_value registry task_id f finish =
     try_bind (from_value registry) (\<lambda>typed.
       case find_task (rg_tasks typed) task_id of
         None \<Rightarrow> Inl (task_not_found task_id)
       | Some t \<Rightarrow>
           try_bind (f t) (\<lambda>(t', out).
           try_bind
             (to_value (finish (typed\<lparr>rg_tasks := update_task task_id (\<lambda>_. t') (rg_tasks typed)\<rparr>)))
             (\<lambda>v. Inr (v, out))))"

definition apply_dispatch_claim_in_registry where
  "apply_dispatch_claim_in_registry from_value to_value registry u =
     on_task from_value to_value registry (dc_task_id u)
       (\<lambda>t. Inr (apply_dispatch_claim_typed t u, ())) id"

definition apply_dispatch_pid_in_registry where
  "apply_dispatch_pid_in_registry from_value to_value registry task_id pid =
     on_task from_value to_value registry task_id
       (\<lambda>t. Inr (apply_dispatch_pid_typed t pid, ())) id"

definition apply_phase_outcome_in_registry where
  "apply_phase_outcome_in_registry from_value to_value registry task_id mode tr verdict phase_error now =
     on_task from_value to_value registry task_id
       (\<lambda>t. try_bind (phase_outcome_or_block t mode tr verdict phase_error now) (\<lambda>t'. Inr (t', ()))) id"

definition apply_job_completion_in_registry where
  "apply_job_completion_in_registry from_value to_value cd ts add_secs h normalizers registry task_id
       input now =
     on_task from_value to_value registry task_id
       (\<lambda>t. Inr (apply_job_completion_typed cd ts add_secs h normalizers t input now))
       (\<lambda>r. fst (reconcile_task_blocks now r))"

definition apply_merge_result_in_registry where
  "apply_merge_result_in_registry from_value to_value registry task_id success reason now =
     on_task from_value to_value registry task_id
       (\<lambda>t. try_bind (if success then apply_merge_success_typed t now
                      else apply_merge_failure_typed t reason now) (\<lambda>t'. Inr (t', ())))
       (\<lambda>r. fst (reconcile_task_blocks now r))"

text \<open>
  A tool never decides a human gate: for such a task the call returns before the registry is
  written back.
\<close>

definition set_task_gate_verdict_in_registry ::
  "('v \<Rightarrow> task_registry res) \<Rightarrow> (task_registry \<Rightarrow> 'v res) \<Rightarrow> 'v \<Rightarrow> string \<Rightarrow> gate_verdict
     \<Rightarrow> 'v res" where
  "set_task_gate_verdict_in_registry from_value to_value registry task_id verdict =
     try_bind (from_value registry) (\<lambda>typed.
       case find_task (rg_tasks typed) task_id of
         None \<Rightarrow> Inl (task_not_found task_id)
       | Some t \<Rightarrow>
           if is_human_approval_gate t then Inr registry
           else to_value (typed\<lparr>rg_tasks :=
             update_task task_id (upd_runtime (\<lambda>rt. rt\<lparr>tr_gate_verdict := Some verdict\<rparr>))
               (rg_tasks typed)\<rparr>))"

text \<open>
  The same handlers on a task stored as a value: \<open>dec\<close> is \<open>serde_json::from_value\<close> (a value that does
  not parse becomes \<open>Task::default()\<close>, whose state is the empty string), \<open>enc\<close> is \<open>to_value\<close> (a task
  that does not serialize leaves the value alone).
\<close>

definition compat_default :: task where
  "compat_default = default_task\<lparr>tk_state := []\<rparr>"

definition parse_compat_task :: "('v \<Rightarrow> task option) \<Rightarrow> 'v \<Rightarrow> task" where
  "parse_compat_task dec v = unwrap_or compat_default (dec v)"

definition write_compat_task :: "(task \<Rightarrow> 'v option) \<Rightarrow> 'v \<Rightarrow> task \<Rightarrow> 'v" where
  "write_compat_task enc v t = unwrap_or v (enc t)"

definition apply_dispatch_claim where
  "apply_dispatch_claim dec enc v u =
     write_compat_task enc v (apply_dispatch_claim_typed (parse_compat_task dec v) u)"

definition apply_dispatch_pid where
  "apply_dispatch_pid dec enc v pid =
     write_compat_task enc v (apply_dispatch_pid_typed (parse_compat_task dec v) pid)"

definition apply_phase_success where
  "apply_phase_success dec enc v tr now =
     try_bind (apply_phase_success_typed (parse_compat_task dec v) tr now)
       (\<lambda>t. Inr (write_compat_task enc v t))"

definition apply_review_phase_success where
  "apply_review_phase_success dec enc v verdict now =
     try_bind (apply_review_phase_success_typed (parse_compat_task dec v) verdict now)
       (\<lambda>(t, to). Inr (write_compat_task enc v t, to))"

definition apply_phase_failure where
  "apply_phase_failure dec enc v mode reason now =
     try_bind (apply_phase_failure_typed (parse_compat_task dec v) mode reason now)
       (\<lambda>t. Inr (write_compat_task enc v t))"

definition apply_merge_success where
  "apply_merge_success dec enc v now =
     try_bind (apply_merge_success_typed (parse_compat_task dec v) now)
       (\<lambda>t. Inr (write_compat_task enc v t))"

definition apply_merge_failure where
  "apply_merge_failure dec enc v reason now =
     try_bind (apply_merge_failure_typed (parse_compat_task dec v) reason now)
       (\<lambda>t. Inr (write_compat_task enc v t))"

definition apply_job_completion where
  "apply_job_completion dec enc cd ts add_secs h normalizers v input now =
     (let (t, out) = apply_job_completion_typed cd ts add_secs h normalizers
                       (parse_compat_task dec v) input now
      in (write_compat_task enc v t, out))"

section \<open>The actions of an advance cycle\<close>

record merge_task_context =
  mc_tool :: string
  mc_worktree_path :: string
  mc_title :: string
  mc_description :: string
  mc_objective :: string

datatype advance_task_action =
    RunPhaseAction string string phase_transition
  | QueueMerge string string string merge_task_context
  | BlockNoBranch string
  | BlockReviewBudget string

definition merge_context :: "task \<Rightarrow> merge_task_context" where
  "merge_context t =
     \<lparr>mc_tool = unwrap_or [] (tk_tool t),
      mc_worktree_path = unwrap_or [] (Model.worktree_path t),
      mc_title = unwrap_or [] (tk_title t),
      mc_description = unwrap_or [] (Option.bind (bt_get (tk_extra t) ''description'') as_str),
      mc_objective = unwrap_or [] (Option.bind (bt_get (tk_extra t) ''objective'') as_str)\<rparr>"

definition advance_action ::
  "string list \<Rightarrow> string \<Rightarrow> nat option \<Rightarrow> phases_config \<Rightarrow> task \<Rightarrow> advance_task_action option" where
  "advance_action active_merge_jobs now max_review_cycles phases t =
     (if task_delayed t now then None
      else
        case (case workflow_state_of t of
                None \<Rightarrow> Plan_Noop
              | Some s \<Rightarrow> plan_advance s max_review_cycles
                            (unwrap_or 0 (tr_review_cycles (tk_runtime t))) phases) of
          RunPhase tr \<Rightarrow> Some (RunPhaseAction (tk_id t) (pt_mode tr) tr)
        | Plan_Merge \<Rightarrow>
            if tk_id t \<in> set active_merge_jobs then None
            else (case branch_of t of
                    None \<Rightarrow> Some (BlockNoBranch (tk_id t))
                  | Some b \<Rightarrow>
                      Some (QueueMerge (tk_id t) b (base_branch ''master'' t) (merge_context t)))
        | ReviewBudgetExhausted \<Rightarrow> Some (BlockReviewBudget (tk_id t))
        | Plan_Noop \<Rightarrow> None)"

definition build_advance_actions ::
  "('v \<Rightarrow> task_registry res) \<Rightarrow> 'v \<Rightarrow> string list \<Rightarrow> string \<Rightarrow> nat option \<Rightarrow> phases_config
     \<Rightarrow> advance_task_action list res" where
  "build_advance_actions from_value registry active_merge_jobs now max_review_cycles phases =
     try_bind (from_value registry) (\<lambda>typed.
       Inr (List.map_filter (advance_action active_merge_jobs now max_review_cycles phases)
              (rg_tasks typed)))"

section \<open>Reclaiming tasks whose process is gone\<close>

record dead_runtime_cleanup_entry =
  dr_task_id :: string
  dr_old_state :: string
  dr_phase :: string
  dr_pid :: int
  dr_new_state :: string

definition within_grace :: "ts_parser \<Rightarrow> string \<Rightarrow> int \<Rightarrow> task \<Rightarrow> bool" where
  "within_grace ts now grace t =
     (0 < grace
      \<and> (case Option.bind (tr_last_heartbeat (tk_runtime t)) ts of
           None \<Rightarrow> False
         | Some beat \<Rightarrow> clamp_i64 (unwrap_or 0 (ts now) - beat) \<le> grace))"

definition reclaimable ::
  "ts_parser \<Rightarrow> string \<Rightarrow> int \<Rightarrow> (int \<Rightarrow> bool) \<Rightarrow> (string \<Rightarrow> string \<Rightarrow> bool) \<Rightarrow> task \<Rightarrow> bool" where
  "reclaimable ts now grace is_pid_running has_terminal_result t =
     (case tr_pid (tk_runtime t) of
        None \<Rightarrow> False
      | Some pid \<Rightarrow>
          runtime_status_of t = Rt_Running \<and> \<not> is_pid_running pid
          \<and> \<not> (case tr_claim_id (tk_runtime t) of
                 None \<Rightarrow> False | Some claim \<Rightarrow> has_terminal_result (tk_id t) claim)
          \<and> \<not> within_grace ts now grace t)"

definition reclaim_task :: "string \<Rightarrow> (task \<Rightarrow> bool) \<Rightarrow> task \<Rightarrow> task \<times> dead_runtime_cleanup_entry" where
  "reclaim_task now holds_unmerged_work t =
     (let pid = unwrap_or 0 (tr_pid (tk_runtime t));
          phase = current_phase t;
          branch = unwrap_or [] (branch_of t);
          unmerged = (branch \<noteq> [] \<and> holds_unmerged_work t);
          requeue = (tk_state t = workflow_as_str Claimed \<and> phase = ''dev'' \<and> \<not> unmerged);
          prefix = ''runtime pid '' @ show_int pid @ '' is not running; '';
          detail = (if unmerged
                    then prefix @ ''committed work is unmerged on branch '' @ branch
                         @ '' -- blocked instead of requeued so it is not lost''
                    else prefix @ ''auto-reset'');
          t1 = upd_runtime (\<lambda>rt. set_status Rt_Stale (rt\<lparr>tr_pid := None\<rparr>)
                             \<lparr>tr_last_error_code := Some ''E414'', tr_last_error := Some detail\<rparr>) t;
          t2 = (if requeue
                then (set_workflow_state Todo t1)\<lparr>tk_assignee := None, tk_worktree := None\<rparr>
                else set_workflow_state Blocked t1)
      in (touch_state_changed now t2,
          \<lparr>dr_task_id = tk_id t, dr_old_state = tk_state t, dr_phase = phase, dr_pid = pid,
           dr_new_state = workflow_as_str (if requeue then Todo else Blocked)\<rparr>))"

definition cleanup_dead_runtime_tasks_in_registry_with ::
  "('v \<Rightarrow> task_registry res) \<Rightarrow> (task_registry \<Rightarrow> 'v res) \<Rightarrow> ts_parser \<Rightarrow> 'v \<Rightarrow> string \<Rightarrow> int
     \<Rightarrow> (int \<Rightarrow> bool) \<Rightarrow> (string \<Rightarrow> string \<Rightarrow> bool) \<Rightarrow> (task \<Rightarrow> bool)
     \<Rightarrow> ('v \<times> dead_runtime_cleanup_entry list) res" where
  "cleanup_dead_runtime_tasks_in_registry_with from_value to_value ts registry now grace
       is_pid_running has_terminal_result holds_unmerged_work =
     try_bind (from_value registry) (\<lambda>typed.
       let dead = reclaimable ts now grace is_pid_running has_terminal_result;
           tasks = map (\<lambda>t. if dead t then fst (reclaim_task now holds_unmerged_work t) else t)
                     (rg_tasks typed);
           cleaned = map (snd \<circ> reclaim_task now holds_unmerged_work) (filter dead (rg_tasks typed))
       in try_bind (to_value (typed\<lparr>rg_tasks := tasks\<rparr>)) (\<lambda>v. Inr (v, cleaned)))"

definition ghost_grace_with_stall :: "int \<Rightarrow> int \<Rightarrow> int" where
  "ghost_grace_with_stall configured last_cycle =
     (if configured \<le> 0 then configured else clamp_i64 (configured + max last_cycle 0))"

section \<open>Salvage\<close>

datatype salvage_result = Salvage_Merged | ConflictProceedRetry | NoCommitsProceedRetry

text \<open>
  \<open>merge\<close> is \<open>merge_task_with_policy_native\<close>: git commands and hooks on the repository, an error or a
  failed merge both count as a conflict.
\<close>

definition salvage_check_typed ::
  "host \<Rightarrow> (string \<Rightarrow> string \<Rightarrow> string \<Rightarrow> merge_task_context \<Rightarrow> (string + unit) res) \<Rightarrow> task \<Rightarrow> string
     \<Rightarrow> task \<times> salvage_result" where
  "salvage_check_typed h merge t now =
     (let rt = tk_runtime t;
          path = trimmed_nonempty (or_else (tr_last_worktree_path rt) (Model.worktree_path t));
          br = trimmed_nonempty (or_else (tr_last_branch rt) (branch_of t));
          base = base_branch ''master'' t
      in case (path, br) of
           (Some p, Some b) \<Rightarrow>
             (case commits_containing_pattern h p base (tk_id t) of
                Inl _ \<Rightarrow> (t, NoCommitsProceedRetry)
              | Inr commits \<Rightarrow>
                  if commits = [] then (t, NoCommitsProceedRetry)
                  else (case merge (tk_id t) b base ((merge_context t)\<lparr>mc_worktree_path := p\<rparr>) of
                          Inr (Inr _) \<Rightarrow>
                            (touch_state_changed now
                               (upd_runtime
                                 (\<lambda>rt. set_status Rt_Idle rt
                                    \<lparr>tr_current_phase := None, tr_pid := None\<rparr>)
                                 (set_workflow_state Merged t)),
                             Salvage_Merged)
                        | _ \<Rightarrow> (t, ConflictProceedRetry)))
         | _ \<Rightarrow> (t, NoCommitsProceedRetry))"

definition salvage_check_in_registry where
  "salvage_check_in_registry from_value to_value h merge registry task_id now =
     on_task from_value to_value registry task_id
       (\<lambda>t. Inr (salvage_check_typed h merge t now)) id"


section \<open>Lemmas\<close>

text \<open>Plans and transitions agree, phase by phase.\<close>

lemma plan_run_cases:
  assumes "plan_advance s mx cycles ph = RunPhase tr"
  obtains (test) "s = InProgress" "tr = test_phase" "ph_testing_enabled ph"
  | (review) "s \<in> {InProgress, Testing}" "tr = review_phase" "review_available mx cycles ph"
  | (fixing) "s = ChangesRequested" "tr = fix_phase" "\<forall>m. mx = Some m \<longrightarrow> 0 < m \<and> cycles \<le> m"
  using assms
  by (cases s) (auto simp: plan_advance_def Let_def split: if_splits option.splits)

lemma plan_merge_states:
  "plan_advance s mx cycles ph = Plan_Merge \<Longrightarrow> s \<in> {InProgress, Testing, Reviewing, PrOpen, Queued}"
  by (cases s) (auto simp: plan_advance_def Let_def split: if_splits option.splits)

lemma plan_budget_states:
  "plan_advance s mx cycles ph = ReviewBudgetExhausted \<longleftrightarrow>
     s = ChangesRequested \<and> (\<exists>m. mx = Some m \<and> (m = 0 \<or> m < cycles))"
  by (cases s) (auto simp: plan_advance_def Let_def split: option.split)

lemmas transition_defs =
  transition_workflow_state_def is_valid_workflow_transition_def workflow_edges_def
  merge_event_states_def

lemma transition_valid:
  "transition_workflow_state from ev nxt = Inr to \<Longrightarrow> is_valid_workflow_transition from to"
  by (auto simp: transition_workflow_state_def split: option.splits if_splits)

lemma merge_transitions:
  "s \<in> set merge_event_states \<Longrightarrow> transition_workflow_state s MergeSucceeded nxt = Inr Merged"
  "s \<in> set merge_event_states \<Longrightarrow> transition_workflow_state s MergeFailed nxt = Inr Blocked"
  by (auto simp: transition_defs)

lemma merge_succeeded_iff:
  "transition_workflow_state s MergeSucceeded nxt = Inr to \<longleftrightarrow> s \<in> set merge_event_states \<and> to = Merged"
  using merge_transitions(1) [of s nxt] by (auto simp: transition_workflow_state_def split: if_splits)

lemma merge_rejected:
  "s \<notin> set merge_event_states \<Longrightarrow> \<exists>m. transition_workflow_state s MergeSucceeded nxt
     = Inl (Coordinator_Err ''invalid_transition'' m)"
  by (simp add: transition_workflow_state_def)

lemma planned_success:
  assumes "plan_advance s mx cycles ph = RunPhase tr"
  shows "pt_mode tr \<noteq> ''review'' \<Longrightarrow>
      transition_workflow_state s (PhaseSucceeded (pt_mode tr)) (Some (pt_next_state tr))
        = Inr (pt_next_state tr)"
    and "pt_mode tr = ''review'' \<Longrightarrow>
      transition_workflow_state s (PhaseSucceeded ''review'') (Some PrOpen) = Inr PrOpen
      \<and> transition_workflow_state s ReviewChangesRequested nxt = Inr ChangesRequested"
  using assms
  by (cases rule: plan_run_cases; auto simp: transition_defs test_phase_def review_phase_def fix_phase_def)+

text \<open>A failing phase blocks the task, but a failing test phase is not accepted where it is planned.\<close>

lemma planned_failure:
  assumes "plan_advance s mx cycles ph = RunPhase tr"
  shows "transition_workflow_state s (PhaseFailed (pt_mode tr)) None =
    (if pt_mode tr = ''test''
     then Inl (Coordinator_Err ''invalid_transition''
            (''Invalid coordinator FSM transition: from='' @ workflow_as_str InProgress
             @ '' event='' @ event_debug (PhaseFailed ''test'')))
     else Inr Blocked)"
  using assms
  by (cases rule: plan_run_cases)
     (auto simp: transition_defs test_phase_def review_phase_def fix_phase_def)

text \<open>Handlers: the state they reach, and the process id they clear.\<close>

lemma task_state_typed_iff: "task_workflow_state_typed t = Inr s \<longleftrightarrow> workflow_state_of t = Some s"
  by (auto simp: task_workflow_state_typed_def split: option.splits)

lemma phase_success_Inr:
  "apply_phase_success_typed t tr now = Inr t' \<longleftrightarrow>
     (\<exists>s. workflow_state_of t = Some s
      \<and> transition_workflow_state s (PhaseSucceeded (pt_mode tr)) (Some (pt_next_state tr))
        = Inr (pt_next_state tr)
      \<and> t' = touch_state_changed now
          (upd_runtime
            (\<lambda>rt. set_status Rt_PhaseDone rt
               \<lparr>tr_current_phase := Some (pt_runtime_phase tr), tr_pid := None, tr_delayed_until := None\<rparr>)
            (set_workflow_state (pt_next_state tr) t)))"
  by (auto simp: apply_phase_success_typed_def try_bind_Inr_iff task_state_typed_iff split: if_splits)

lemma review_success_Inr:
  "apply_review_phase_success_typed t v now = Inr (t', to) \<longleftrightarrow>
     (\<exists>s. workflow_state_of t = Some s
      \<and> (case v of
           Verdict_Ok \<Rightarrow> transition_workflow_state s (PhaseSucceeded ''review'') (Some PrOpen)
         | Verdict_ChangesRequested \<Rightarrow>
             transition_workflow_state s ReviewChangesRequested (Some ChangesRequested)) = Inr to
      \<and> t' = touch_state_changed now
          (upd_runtime
            (\<lambda>rt. set_status Rt_PhaseDone rt
               \<lparr>tr_current_phase := Some ''review'', tr_pid := None, tr_delayed_until := None,
                tr_review_cycles := Some (unwrap_or 0 (tr_review_cycles rt) + 1)\<rparr>)
            (set_workflow_state to t)))"
  by (auto simp: apply_review_phase_success_typed_def try_bind_Inr_iff task_state_typed_iff)

lemma phase_failure_Inr:
  "apply_phase_failure_typed t mode reason now = Inr t' \<longleftrightarrow>
     (\<exists>s to. workflow_state_of t = Some s
      \<and> transition_workflow_state s (PhaseFailed mode) None = Inr to
      \<and> t' = touch_state_changed now
          (upd_runtime
            (\<lambda>rt. set_status Rt_Failed rt
               \<lparr>tr_current_phase := Some mode, tr_last_error := Some reason, tr_pid := None\<rparr>)
            (set_workflow_state to t)))"
  by (auto simp: apply_phase_failure_typed_def try_bind_Inr_iff task_state_typed_iff)

lemma merge_success_Inr:
  "apply_merge_success_typed t now = Inr t' \<longleftrightarrow>
     (\<exists>s. workflow_state_of t = Some s \<and> s \<in> set merge_event_states
      \<and> t' = touch_state_changed now
          (upd_runtime (\<lambda>rt. set_status Rt_Idle rt\<lparr>tr_pid := None\<rparr>) (set_workflow_state Merged t)))"
  by (auto simp: apply_merge_success_typed_def try_bind_Inr_iff task_state_typed_iff
      merge_succeeded_iff)

lemma merge_failure_Inr:
  "apply_merge_failure_typed t reason now = Inr t' \<longleftrightarrow>
     (\<exists>s to. workflow_state_of t = Some s
      \<and> transition_workflow_state s MergeFailed (Some Blocked) = Inr to
      \<and> t' = touch_state_changed now
          (upd_runtime
            (\<lambda>rt. set_status Rt_Paused rt
               \<lparr>tr_current_phase := Some ''merge'', tr_last_error := Some reason, tr_pid := None\<rparr>)
            (set_workflow_state to t)))"
  by (auto simp: apply_merge_failure_typed_def try_bind_Inr_iff task_state_typed_iff)

lemma pr_url_frame [coord_frame]:
  "tk_runtime (with_local_pr_url t) = tk_runtime t"
  "tk_worktree (with_local_pr_url t) = tk_worktree t"
  "workflow_state_of (with_local_pr_url t) = workflow_state_of t"
  "tk_id (with_local_pr_url t) = tk_id t"
  "tk_gate (with_local_pr_url t) = tk_gate t"
  by (simp_all add: with_local_pr_url_def workflow_state_of_def)

text \<open>The phase outcome never loses the worktree, and never fails for a known state and verdict.\<close>

lemma block_unapplicable_fields:
  "workflow_state_of (block_unapplicable_phase_outcome t mode m now) = Some Blocked"
  "tk_worktree (block_unapplicable_phase_outcome t mode m now) = tk_worktree t"
  "tk_gate (block_unapplicable_phase_outcome t mode m now) = tk_gate t"
  "tr_review_cycles (tk_runtime (block_unapplicable_phase_outcome t mode m now))
     = tr_review_cycles (tk_runtime t)"
  "tr_pid (tk_runtime (block_unapplicable_phase_outcome t mode m now)) = None"
  by (simp_all add: block_unapplicable_phase_outcome_def Let_def coord_frame)
     (simp_all add: touch_state_changed_def upd_runtime_def set_workflow_state_def
       set_last_error_details_def set_status_def)

lemma phase_outcome_Inr_cases:
  assumes "apply_phase_outcome_typed t mode tr verdict err now = Inr t'"
  obtains (failed) reason where "err = Some reason" "apply_phase_failure_typed t mode reason now = Inr t'"
  | (reviewed) v t1 t2 nxt where "err = None" "mode = ''review''" "verdict = Some v"
      "t1 = upd_runtime (\<lambda>rt. rt\<lparr>tr_extra := bt_remove ''phase_tool_unavailable'' (tr_extra rt)\<rparr>) t"
      "apply_review_phase_success_typed t1 v now = Inr (t2, nxt)"
      "t' = t2 \<or> t' = with_local_pr_url t2"
  | (succeeded) t1 t2 where "err = None" "mode \<noteq> ''review''"
      "t1 = upd_runtime (\<lambda>rt. rt\<lparr>tr_extra := bt_remove ''phase_tool_unavailable'' (tr_extra rt)\<rparr>) t"
      "apply_phase_success_typed t1 tr now = Inr t2"
      "t' = t2 \<or> t' = with_local_pr_url t2"
  using assms
  by (auto simp: apply_phase_outcome_typed_def Let_def try_bind_Inr_iff
      split: option.splits if_splits prod.splits)

lemma phase_outcome_or_block_cases:
  assumes "phase_outcome_or_block t mode tr verdict err now = Inr t'"
  obtains (applied) "apply_phase_outcome_typed t mode tr verdict err now = Inr t'"
  | (blocked) m where "t' = block_unapplicable_phase_outcome t mode m now"
      "apply_phase_outcome_typed t mode tr verdict err now
        = Inl (Coordinator_Err ''invalid_transition'' m)"
  using assms
  by (auto simp: phase_outcome_or_block_def split: sum.splits macc_error.splits if_splits)

lemma phase_outcome_reviews:
  assumes "phase_outcome_or_block t mode tr verdict err now = Inr t'"
  shows "tr_review_cycles (tk_runtime t') = tr_review_cycles (tk_runtime t)
    \<or> (mode = ''review''
       \<and> tr_review_cycles (tk_runtime t') = Some (unwrap_or 0 (tr_review_cycles (tk_runtime t)) + 1))"
  using assms
proof (cases rule: phase_outcome_or_block_cases)
  case applied
  then show ?thesis
    by (cases rule: phase_outcome_Inr_cases)
       (auto simp: phase_failure_Inr review_success_Inr phase_success_Inr coord_frame set_status_def)
next
  case (blocked m)
  then show ?thesis by (simp add: block_unapplicable_fields)
qed

lemma phase_outcome_worktree:
  assumes "phase_outcome_or_block t mode tr verdict err now = Inr t'"
  shows "tk_worktree t' = tk_worktree t" "tr_pid (tk_runtime t') = None" "tk_gate t' = tk_gate t"
proof -
  have "tk_worktree t' = tk_worktree t \<and> tr_pid (tk_runtime t') = None \<and> tk_gate t' = tk_gate t"
    using assms
  proof (cases rule: phase_outcome_or_block_cases)
    case applied
    then show ?thesis
      by (cases rule: phase_outcome_Inr_cases)
         (auto simp: phase_failure_Inr review_success_Inr phase_success_Inr coord_frame set_status_def
           touch_state_changed_def upd_runtime_def set_workflow_state_def)
  next
    case (blocked m)
    then show ?thesis by (simp add: block_unapplicable_fields)
  qed
  then show "tk_worktree t' = tk_worktree t" "tr_pid (tk_runtime t') = None" "tk_gate t' = tk_gate t"
    by simp_all
qed

text \<open>Reclaiming.\<close>

lemma reclaim_worktree:
  assumes "branch_of t = Some b" "holds t"
  shows "tk_worktree (fst (reclaim_task now holds t)) = tk_worktree t"
    and "workflow_state_of (fst (reclaim_task now holds t)) = Some Blocked"
proof -
  have "b \<noteq> []" using assms(1) by (auto simp: branch_of_def nonempty_Some_iff)
  then show "tk_worktree (fst (reclaim_task now holds t)) = tk_worktree t"
    and "workflow_state_of (fst (reclaim_task now holds t)) = Some Blocked"
    using assms
    by (simp_all add: reclaim_task_def Let_def coord_frame)
       (simp add: touch_state_changed_def upd_runtime_def set_workflow_state_def)
qed

lemma reclaim_states:
  "workflow_state_of (fst (reclaim_task now holds t)) \<in> {Some Todo, Some Blocked}"
  "tr_pid (tk_runtime (fst (reclaim_task now holds t))) = None"
  "tr_review_cycles (tk_runtime (fst (reclaim_task now holds t))) = tr_review_cycles (tk_runtime t)"
  "tk_gate (fst (reclaim_task now holds t)) = tk_gate t"
proof -
  show "workflow_state_of (fst (reclaim_task now holds t)) \<in> {Some Todo, Some Blocked}"
    by (auto simp: reclaim_task_def Let_def coord_frame)
qed (simp_all add: reclaim_task_def Let_def set_status_def touch_state_changed_def upd_runtime_def
    set_workflow_state_def)

section \<open>Properties\<close>

text \<open>Every phase the plan schedules has an outcome the state machine accepts: a finished test or
  fix phase moves the task to the phase's own next state, a review that ends with a verdict moves it to
  \<open>pr_open\<close> or \<open>changes_requested\<close>, and a failed phase blocks it.  The one exception is the test
  phase, whose failure the transition function rejects in the state where it is planned.\<close>

theorem planned_phase_accepted:
  assumes plan: "plan_advance s mx cycles ph = RunPhase tr" and s: "workflow_state_of t = Some s"
  shows "(pt_mode tr \<noteq> ''review'' \<longrightarrow>
      (\<exists>t'. apply_phase_outcome_typed t (pt_mode tr) tr verdict None now = Inr t'
        \<and> workflow_state_of t' = Some (pt_next_state tr)))
    \<and> (\<exists>t'. pt_mode tr = ''review'' \<longrightarrow> apply_phase_outcome_typed t ''review'' tr (Some v) None now = Inr t'
        \<and> workflow_state_of t' =
            Some (case v of Verdict_Ok \<Rightarrow> PrOpen | Verdict_ChangesRequested \<Rightarrow> ChangesRequested))
    \<and> (if pt_mode tr = ''test''
        then \<exists>m. apply_phase_outcome_typed t ''test'' tr verdict (Some reason) now
               = Inl (Coordinator_Err ''invalid_transition'' m)
        else \<exists>t'. apply_phase_outcome_typed t (pt_mode tr) tr verdict (Some reason) now = Inr t'
               \<and> workflow_state_of t' = Some Blocked)"
proof -
  let ?t1 = "upd_runtime (\<lambda>rt. rt\<lparr>tr_extra := bt_remove ''phase_tool_unavailable'' (tr_extra rt)\<rparr>) t"
  have s1: "workflow_state_of ?t1 = Some s" using s by (simp add: coord_frame)
  have ok: "\<exists>t'. apply_phase_outcome_typed t (pt_mode tr) tr verdict None now = Inr t'
        \<and> workflow_state_of t' = Some (pt_next_state tr)" if mode: "pt_mode tr \<noteq> ''review''"
  proof -
    obtain t2 where "apply_phase_success_typed ?t1 tr now = Inr t2"
        "workflow_state_of t2 = Some (pt_next_state tr)"
      using planned_success(1) [OF plan mode] s1 by (auto simp: phase_success_Inr coord_frame)
    then show ?thesis using mode by (simp add: apply_phase_outcome_typed_def coord_frame)
  qed
  have review: "\<exists>t'. apply_phase_outcome_typed t ''review'' tr (Some v) None now = Inr t'
        \<and> workflow_state_of t' =
            Some (case v of Verdict_Ok \<Rightarrow> PrOpen | Verdict_ChangesRequested \<Rightarrow> ChangesRequested)"
    if mode: "pt_mode tr = ''review''"
  proof -
    obtain t2 nxt where "apply_review_phase_success_typed ?t1 v now = Inr (t2, nxt)"
        "workflow_state_of t2 = Some nxt"
        "nxt = (case v of Verdict_Ok \<Rightarrow> PrOpen | Verdict_ChangesRequested \<Rightarrow> ChangesRequested)"
      using planned_success(2) [OF plan mode] s1
      by (cases v) (auto simp: review_success_Inr coord_frame)
    then show ?thesis by (simp add: apply_phase_outcome_typed_def coord_frame)
  qed
  have fail: "if pt_mode tr = ''test''
        then \<exists>m. apply_phase_outcome_typed t ''test'' tr verdict (Some reason) now
               = Inl (Coordinator_Err ''invalid_transition'' m)
        else \<exists>t'. apply_phase_outcome_typed t (pt_mode tr) tr verdict (Some reason) now = Inr t'
               \<and> workflow_state_of t' = Some Blocked"
    using planned_failure [OF plan] s
    by (auto simp: apply_phase_outcome_typed_def apply_phase_failure_typed_def task_workflow_state_typed_def
        coord_frame)
  show ?thesis using ok review fail by blast
qed

theorem planned_phase_accepted_witness:
  "plan_advance InProgress None 0 \<lparr>ph_testing_enabled = True, ph_review_enabled = True\<rparr> = RunPhase test_phase
   \<and> (\<exists>t'. apply_phase_outcome_typed (sample_task ''A'' InProgress) ''test'' test_phase None None ''now''
        = Inr t' \<and> workflow_state_of t' = Some Testing)"
proof -
  have p: "plan_advance InProgress None 0 \<lparr>ph_testing_enabled = True, ph_review_enabled = True\<rparr>
      = RunPhase test_phase"
    by (simp add: plan_advance_def)
  from planned_phase_accepted [OF p, of "sample_task ''A'' InProgress" None "''now''" Verdict_Ok "[]"] p
  show ?thesis by (simp add: test_phase_def)
qed




text \<open>A tool's verdict is recorded on an ordinary task only: on a human gate the call changes
  nothing, and the verdict of one task never changes another.\<close>

theorem verdict_never_decides_human_gate:
  assumes "from_value registry = Inr r" "find_task (rg_tasks r) k = Some t"
  shows "set_task_gate_verdict_in_registry from_value to_value registry k verdict =
    (if is_human_approval_gate t then Inr registry
     else to_value (r\<lparr>rg_tasks := update_task k (upd_runtime (\<lambda>rt. rt\<lparr>tr_gate_verdict := Some verdict\<rparr>))
            (rg_tasks r)\<rparr>))
   \<and> find_task (update_task k (upd_runtime (\<lambda>rt. rt\<lparr>tr_gate_verdict := Some verdict\<rparr>)) (rg_tasks r)) j =
     (if j = k then Some (upd_runtime (\<lambda>rt. rt\<lparr>tr_gate_verdict := Some verdict\<rparr>) t)
      else find_task (rg_tasks r) j)"
  using assms by (simp add: set_task_gate_verdict_in_registry_def tasks.find_upd)

theorem verdict_never_decides_human_gate_witness:
  "set_task_gate_verdict_in_registry Inr Inr
     (default_registry\<lparr>rg_tasks := [(sample_task ''G'' Todo)\<lparr>tk_gate := Some sample_gate\<rparr>]\<rparr>) ''G'' Gv_Accepted
   = Inr (default_registry\<lparr>rg_tasks := [(sample_task ''G'' Todo)\<lparr>tk_gate := Some sample_gate\<rparr>]\<rparr>)"
  using sample_gate_human
    verdict_never_decides_human_gate [of Inr
      "default_registry\<lparr>rg_tasks := [(sample_task ''G'' Todo)\<lparr>tk_gate := Some sample_gate\<rparr>]\<rparr>"
      "default_registry\<lparr>rg_tasks := [(sample_task ''G'' Todo)\<lparr>tk_gate := Some sample_gate\<rparr>]\<rparr>"
      "''G''" "(sample_task ''G'' Todo)\<lparr>tk_gate := Some sample_gate\<rparr>" Inr Gv_Accepted]
  by (simp add: is_human_approval_gate_def)

text \<open>Advancing never queues a merge that is already running, never merges a task a reviewer sent
  back, and names a merge only for a task with a branch; a task to merge without a branch is blocked.
  A delayed task gets no action.\<close>

theorem advance_actions_safe:
  "case advance_action merging now mx ph t of
     Some (QueueMerge k b base ctx) \<Rightarrow> k = tk_id t \<and> tk_id t \<notin> set merging \<and> branch_of t = Some b
       \<and> workflow_state_of t \<in> {Some InProgress, Some Testing, Some Reviewing, Some PrOpen, Some Queued}
       \<and> \<not> task_delayed t now
   | Some (RunPhaseAction k mode tr) \<Rightarrow> k = tk_id t \<and> mode = pt_mode tr \<and> \<not> task_delayed t now
       \<and> workflow_state_of t \<in> {Some InProgress, Some Testing, Some ChangesRequested}
   | Some (BlockNoBranch k) \<Rightarrow> k = tk_id t \<and> branch_of t = None \<and> \<not> task_delayed t now
   | Some (BlockReviewBudget k) \<Rightarrow> k = tk_id t \<and> workflow_state_of t = Some ChangesRequested
   | None \<Rightarrow> task_delayed t now \<or> tk_id t \<in> set merging
       \<or> workflow_state_of t \<notin> {Some InProgress, Some ChangesRequested}"
proof (cases "workflow_state_of t")
  case None
  then show ?thesis by (simp add: advance_action_def)
next
  case (Some s)
  let ?p = "plan_advance s mx (unwrap_or 0 (tr_review_cycles (tk_runtime t))) ph"
  have runs: "s \<in> {InProgress, Testing, ChangesRequested}" if "?p = RunPhase tr" for tr
    using that by (cases rule: plan_run_cases) auto
  have noop: "s \<notin> {InProgress, ChangesRequested}" if "?p = Plan_Noop"
    using that by (cases s) (auto simp: plan_advance_def Let_def split: if_splits option.splits)
  have act: "advance_action merging now mx ph t =
      (if task_delayed t now then None
       else case ?p of
          RunPhase tr \<Rightarrow> Some (RunPhaseAction (tk_id t) (pt_mode tr) tr)
        | Plan_Merge \<Rightarrow>
            if tk_id t \<in> set merging then None
            else (case branch_of t of None \<Rightarrow> Some (BlockNoBranch (tk_id t))
                  | Some b \<Rightarrow> Some (QueueMerge (tk_id t) b (base_branch ''master'' t) (merge_context t)))
        | ReviewBudgetExhausted \<Rightarrow> Some (BlockReviewBudget (tk_id t))
        | Plan_Noop \<Rightarrow> None)"
    by (simp add: advance_action_def Some)
  show ?thesis
  proof (cases ?p)
    case (RunPhase tr)
    with runs [OF RunPhase] Some show ?thesis unfolding act by auto
  next
    case Plan_Merge
    with plan_merge_states [OF Plan_Merge] Some show ?thesis
      unfolding act by (cases "branch_of t") auto
  next
    case ReviewBudgetExhausted
    moreover from this have "s = ChangesRequested" unfolding plan_budget_states by blast
    ultimately show ?thesis using Some unfolding act by auto
  next
    case Plan_Noop
    with noop [OF Plan_Noop] Some show ?thesis unfolding act by auto
  qed
qed

text \<open>Salvage merges only what it finds: a task is taken as merged when its branch is known, commits
  that name it lie ahead of the base and the merge of that branch succeeded; in every other case the
  task is left as it is.\<close>

theorem salvage_merges_only_found_work:
  "case salvage_check_typed h merge t now of
     (t', Salvage_Merged) \<Rightarrow> workflow_state_of t' = Some Merged
       \<and> (\<exists>p b commits. trimmed_nonempty (or_else (tr_last_worktree_path (tk_runtime t)) (Model.worktree_path t)) = Some p
            \<and> trimmed_nonempty (or_else (tr_last_branch (tk_runtime t)) (branch_of t)) = Some b
            \<and> commits_containing_pattern h p (base_branch ''master'' t) (tk_id t) = Inr commits \<and> commits \<noteq> []
            \<and> merge (tk_id t) b (base_branch ''master'' t) ((merge_context t)\<lparr>mc_worktree_path := p\<rparr>) = Inr (Inr ()))
   | (t', _) \<Rightarrow> t' = t"
  by (auto simp: salvage_check_typed_def Let_def coord_frame split: option.split sum.split)

section \<open>Concrete instances\<close>

definition sample_advanced :: task where
  "sample_advanced =
     (sample_task ''A'' InProgress)\<lparr>tk_worktree := Some (default_worktree\<lparr>wt_branch := Some ''ai/a''\<rparr>)\<rparr>"

theorem advance_actions_safe_witness:
  "\<exists>b base ctx. advance_action [''B''] ''2024'' None \<lparr>ph_testing_enabled = False, ph_review_enabled = False\<rparr>
       sample_advanced = Some (QueueMerge ''A'' b base ctx)
     \<and> branch_of sample_advanced = Some b \<and> tk_id sample_advanced \<notin> set [''B'']"
proof -
  let ?ph = "\<lparr>ph_testing_enabled = False, ph_review_enabled = False\<rparr>"
  have branch: "branch_of sample_advanced = Some ''ai/a''"
    by (simp add: sample_advanced_def branch_of_def worktree_field_def nonempty_def)
  then obtain base ctx where act: "advance_action [''B''] ''2024'' None ?ph sample_advanced =
      Some (QueueMerge ''A'' ''ai/a'' base ctx)"
    by (simp add: advance_action_def sample_advanced_def coord_frame task_delayed_def is_delayed_def
        default_runtime_def plan_advance_def review_available_def)
  then show ?thesis using advance_actions_safe [where merging = "[''B'']" and now = "''2024''" and mx = None and ph = ?ph
      and t = sample_advanced] by simp
qed

end
