(* ===== verification/Approval.thy ===== *)
theory Approval
  imports Blocks Error_Codes Worktree
begin

text \<open>
  Human approval gates (\<open>core/src/coordinator/approval.rs\<close>): the state of a gate derived from the
  ledger of decisions (\<open>evaluate_gate\<close>), the reconciliation of every gate of the registry, the
  validation of an operator's decision, and the views of pending approvals.  The arguments \<open>tn\<close>
  (RFC 3339 text to nanoseconds, the chrono parser), \<open>subject_digest\<close> (the subject's revision on the
  reference branch) and \<open>ledger\<close> (the recorded decisions of a task, oldest first) are the closures
  the source passes in.
\<close>

section \<open>Revisions\<close>

definition MIN_REVISION_PREFIX :: nat where "MIN_REVISION_PREFIX = 7"

definition same_revision :: "string \<Rightarrow> string \<Rightarrow> bool" where
  "same_revision a b =
     (let a' = trim a; b' = trim b; shorter = min (length a') (length b')
      in MIN_REVISION_PREFIX \<le> shorter \<and> (prefix_of b' a' \<or> prefix_of a' b'))"

section \<open>The state of one gate\<close>

record gate_evaluation =
  ge_state :: workflow_state
  ge_status :: approval_status
  ge_revision :: "string option"
  ge_effective :: "approval_record list"
  ge_note :: string

definition is_expired :: "ts_parser \<Rightarrow> approval_record \<Rightarrow> task_gate \<Rightarrow> string \<Rightarrow> bool" where
  "is_expired tn record gate now =
     (case tg_expires_after_days gate of
        None \<Rightarrow> False
      | Some days \<Rightarrow>
          (case (tn now, tn (ap_recorded_at record)) of
             (Some n, Some at) \<Rightarrow> int days * 86400 * 10 ^ 9 < n - at
           | _ \<Rightarrow> False))"

definition is_bound :: "string option \<Rightarrow> approval_record \<Rightarrow> bool" where
  "is_bound revision record =
     (case (revision, ap_revision record) of
        (Some current, Some decided) \<Rightarrow> same_revision current decided
      | (None, None) \<Rightarrow> True
      | _ \<Rightarrow> False)"

text \<open>\<open>BTreeMap<(actor, role), record>\<close>: the last bound decision for each pair, in key order.\<close>

definition latest_per_actor ::
  "approval_record list \<Rightarrow> string option \<Rightarrow> approval_record list" where
  "latest_per_actor ledger revision =
     map snd (fold (\<lambda>(k, v). bt_insert k v)
       (map (\<lambda>a. ((ap_actor a, ap_role a), a)) (filter (is_bound revision) ledger)) [])"

definition find_decision :: "approval_decision \<Rightarrow> approval_record list \<Rightarrow> approval_record option" where
  "find_decision d records = List.find (\<lambda>a. ap_decision a = d) records"

definition gate_subject :: "task_gate \<Rightarrow> string" where
  "gate_subject gate = unwrap_or ''the subject'' (tg_subject_task gate)"

definition by_whom :: "approval_record \<Rightarrow> string" where
  "by_whom a =
     ap_actor a @ '' ('' @ ap_role a @ '')''
     @ unwrap_or [] (map_option (\<lambda>r. '': '' @ r) (ap_reason a))"

definition gate_revision :: "string option \<Rightarrow> approval_record list \<Rightarrow> string option" where
  "gate_revision subject_digest ledger =
     or_else subject_digest
       (case List.map_filter ap_revision (rev ledger) of [] \<Rightarrow> None | r # _ \<Rightarrow> Some r)"

text \<open>The notes a gate carries in each state.\<close>

definition revision_text :: "string option \<Rightarrow> string" where
  "revision_text revision = unwrap_or ''an unknown revision'' revision"

definition rejected_note :: "task_gate \<Rightarrow> approval_record \<Rightarrow> string" where
  "rejected_note gate rejection =
     ''rejected by '' @ by_whom rejection @ ''; revise '' @ gate_subject gate
     @ '' to open a new approval''"

definition approved_note :: "task_gate \<Rightarrow> string option \<Rightarrow> approval_record list \<Rightarrow> string" where
  "approved_note gate revision live =
     ''approved at '' @ revision_text revision @ '' ('' @ approval_progress gate live @ '')''"

definition expired_note :: "task_gate \<Rightarrow> approval_record list \<Rightarrow> string" where
  "expired_note gate live =
     ''approvals older than '' @ show_nat (unwrap_or 0 (tg_expires_after_days gate))
     @ '' day(s) expired; renewal required ('' @ approval_progress gate live @ '')''"

definition changes_note :: "task_gate \<Rightarrow> approval_record \<Rightarrow> string" where
  "changes_note gate changes =
     ''changes requested by '' @ by_whom changes @ ''; revise '' @ gate_subject gate @ '' ''
     @ em_dash @ '' the gate re-opens on the new revision''"

definition waiting_note :: "task_gate \<Rightarrow> string option \<Rightarrow> approval_record list \<Rightarrow> string" where
  "waiting_note gate revision live =
     ''waiting for approval of '' @ gate_subject gate @ '' at '' @ revision_text revision @ '' (''
     @ approval_progress gate live @ '')''"

definition evaluate_gate ::
  "ts_parser \<Rightarrow> task_gate \<Rightarrow> bool \<Rightarrow> string option \<Rightarrow> approval_record list \<Rightarrow> string
     \<Rightarrow> gate_evaluation option" where
  "evaluate_gate tn gate deps_satisfied subject_digest ledger now =
     (if \<not> deps_satisfied then None
      else
        let revision = gate_revision subject_digest ledger;
            bound = latest_per_actor ledger revision;
            live = filter (\<lambda>a. \<not> is_expired tn a gate now) bound;
            expired = filter (\<lambda>a. is_expired tn a gate now) bound;
            verdict = (\<lambda>state status note.
              Some \<lparr>ge_state = state, ge_status = status, ge_revision = revision,
                    ge_effective = live, ge_note = note\<rparr>)
        in case find_decision Dec_Rejected live of
             Some rejection \<Rightarrow> verdict Rejected St_Rejected (rejected_note gate rejection)
           | None \<Rightarrow>
               if quorum_met gate live
               then verdict Approved St_Approved (approved_note gate revision live)
               else if list_ex (\<lambda>a. ap_decision a = Dec_Approved) expired
               then verdict Expired St_Expired (expired_note gate live)
               else case find_decision Dec_ChangesRequested live of
                      Some changes \<Rightarrow>
                        verdict WaitingApproval St_ChangesRequested (changes_note gate changes)
                    | None \<Rightarrow>
                        verdict WaitingApproval St_WaitingApproval (waiting_note gate revision live))"

section \<open>Reconciling every gate\<close>

record human_gate_transition =
  hg_task_id :: string
  hg_event :: string
  hg_severity :: string
  hg_detail :: string

definition gate_invalidated ::
  "workflow_state option \<Rightarrow> approval_state \<Rightarrow> gate_evaluation \<Rightarrow> bool" where
  "gate_invalidated previous prior ev =
     (previous = Some Approved \<and> ge_state ev \<noteq> Approved
      \<and> (case (as_approved_revision prior, ge_revision ev) of
           (Some was, Some now_rev) \<Rightarrow> \<not> same_revision was now_rev
         | _ \<Rightarrow> False))"

definition gate_event ::
  "string \<Rightarrow> workflow_state option \<Rightarrow> approval_state \<Rightarrow> gate_evaluation
     \<Rightarrow> string \<times> string \<times> string" where
  "gate_event subject previous prior ev =
     (if gate_invalidated previous prior ev
      then (''approval_invalidated'', ''warning'',
            ''subject '' @ subject @ '' changed after approval (''
            @ unwrap_or ''?'' (as_approved_revision prior) @ '' -> ''
            @ unwrap_or ''?'' (ge_revision ev) @ ''); approval withdrawn, waiting again'')
      else if ge_state ev = Approved then (''gate_approved'', ''info'', ge_note ev)
      else if ge_state ev = Rejected then (''gate_rejected'', ''error'', ge_note ev)
      else if ge_state ev = Expired then (''approval_expired'', ''warning'', ge_note ev)
      else if ge_status ev = St_ChangesRequested
      then (''approval_changes_requested'', ''warning'', ge_note ev)
      else if previous = Some Approved
      then (''approval_unverified'', ''warning'',
            ''state was approved without a recorded quorum; reverted '' @ em_dash @ '' '' @ ge_note ev)
      else (''approval_requested'', ''info'', ge_note ev))"

text \<open>A gate whose dependencies are no longer delivered.\<close>

definition withdraw_gate :: "string \<Rightarrow> task \<Rightarrow> task \<times> human_gate_transition list" where
  "withdraw_gate now t =
     (if workflow_state_of t \<in> {Some Approved, Some WaitingApproval, Some Expired, Some Rejected}
      then (touch_state_changed now (upd_runtime (set_status Rt_Idle) (set_workflow_state Todo t)),
            [\<lparr>hg_task_id = tk_id t, hg_event = ''approval_withdrawn'', hg_severity = ''warning'',
              hg_detail = ''a dependency of '' @ tk_id t @ '' is no longer delivered''\<rparr>])
      else (t, []))"

definition next_approval ::
  "string \<Rightarrow> workflow_state option \<Rightarrow> approval_state \<Rightarrow> approval_record list \<Rightarrow> gate_evaluation
     \<Rightarrow> approval_state" where
  "next_approval now previous prior decisions ev =
     \<lparr>as_status = ge_status ev, as_subject_revision = ge_revision ev,
      as_effective = ge_effective ev, as_history = decisions,
      as_requested_at = or_else (as_requested_at prior) (Some now),
      as_approved_at =
        (if ge_state ev = Approved
         then if previous \<noteq> Some Approved then Some now else as_approved_at prior
         else None),
      as_approved_revision =
        (if ge_state ev = Approved then ge_revision ev else as_approved_revision prior),
      as_note = Some (ge_note ev)\<rparr>"

definition apply_evaluation ::
  "string \<Rightarrow> string \<Rightarrow> approval_record list \<Rightarrow> gate_evaluation \<Rightarrow> task
     \<Rightarrow> task \<times> human_gate_transition list" where
  "apply_evaluation now subject decisions ev t =
     (let previous = workflow_state_of t;
          prior = unwrap_or default_approval_state (tr_approval (tk_runtime t));
          changed_state = (previous \<noteq> Some (ge_state ev));
          changed_status = (as_status prior \<noteq> ge_status ev \<and> tr_approval (tk_runtime t) \<noteq> None);
          events = (if changed_state \<or> changed_status
                    then case gate_event subject previous prior ev of (event, severity, detail) \<Rightarrow>
                      [\<lparr>hg_task_id = tk_id t, hg_event = event, hg_severity = severity,
                        hg_detail = detail\<rparr>]
                    else []);
          t1 = (if changed_state
                then touch_state_changed now (set_workflow_state (ge_state ev) t) else t);
          t2 = upd_runtime
                 (\<lambda>rt. let rt1 = set_status (if ge_state ev = Approved then Rt_Idle else Rt_WaitingForUser)
                              rt\<lparr>tr_approval := Some (next_approval now previous prior decisions ev)\<rparr>
                       in if ge_state ev \<noteq> Rejected
                          then rt1\<lparr>tr_last_error := None, tr_last_error_code := None,
                                   tr_last_error_origin := None, tr_last_error_message := None\<rparr>
                          else set_last_error_details ''E909'' ''approval'' (ge_note ev) rt1) t1
      in (t2, events))"

definition gate_satisfied_ids :: "task_registry \<Rightarrow> string list" where
  "gate_satisfied_ids r = satisfied_dependency_ids r @ rg_external_merged r"

definition reconcile_gate ::
  "ts_parser \<Rightarrow> string \<Rightarrow> string list \<Rightarrow> (string \<Rightarrow> string option) \<Rightarrow> (string \<Rightarrow> approval_record list)
     \<Rightarrow> task \<Rightarrow> task \<times> human_gate_transition list" where
  "reconcile_gate tn now satisfied subject_digest ledger t =
     (case opt_filter is_human_approval (tk_gate t) of
        None \<Rightarrow> (t, [])
      | Some gate \<Rightarrow>
          if workflow_state_of t = Some Abandoned then (t, [])
          else
            let subject = unwrap_or [] (tg_subject_task gate);
                decisions = ledger (tk_id t)
            in case evaluate_gate tn gate (list_all (\<lambda>d. d \<in> set satisfied) (tk_dependencies t))
                      (subject_digest subject) decisions now of
                 None \<Rightarrow> withdraw_gate now t
               | Some ev \<Rightarrow> apply_evaluation now subject decisions ev t)"

definition reconcile_human_gates ::
  "ts_parser \<Rightarrow> task_registry \<Rightarrow> string \<Rightarrow> (string \<Rightarrow> string option)
     \<Rightarrow> (string \<Rightarrow> approval_record list) \<Rightarrow> task_registry \<times> human_gate_transition list" where
  "reconcile_human_gates tn r now subject_digest ledger =
     (let results = map (reconcile_gate tn now (gate_satisfied_ids r) subject_digest ledger) (rg_tasks r)
      in (r\<lparr>rg_tasks := map fst results\<rparr>, concat (map snd results)))"


section \<open>Decisions of operators\<close>

record decision_request =
  dq_task_id :: string
  dq_decision :: approval_decision
  dq_role :: string
  dq_actor :: string
  dq_revision :: "string option"
  dq_evidence :: "string option"
  dq_reason :: "string option"

definition evidence_required :: "task_gate \<Rightarrow> bool" where
  "evidence_required gate =
     (case tg_evidence_type gate of None \<Rightarrow> False | Some kind \<Rightarrow> kind \<noteq> ''manual'')"

definition decision_revision ::
  "task_gate \<Rightarrow> decision_request \<Rightarrow> string option \<Rightarrow> string option res" where
  "decision_revision gate req subject_digest =
     (case (trimmed_nonempty (dq_revision req), subject_digest) of
        (Some given, Some current) \<Rightarrow>
          if \<not> same_revision given current
          then Inl (Validation_Err (''Revision '' @ quoted given @ '' is not the current revision of ''
                 @ gate_subject gate @ '' ('' @ current
                 @ ''). Review the current revision and decide on it.''))
          else Inr (Some current)
      | (Some given, None) \<Rightarrow>
          if length given < MIN_REVISION_PREFIX
          then Inl (Validation_Err (''Revision '' @ quoted given @ '' is too short; give at least ''
                 @ show_nat MIN_REVISION_PREFIX @ '' characters of the commit SHA.''))
          else Inr (Some given)
      | (None, current) \<Rightarrow>
          if dq_decision req = Dec_Approved
          then Inl (Validation_Err
                 (''An approval must name the revision it approves: --revision <commit-sha>''
                  @ unwrap_or [] (map_option (\<lambda>d. '' (current revision of the subject: '' @ d @ '')'') current)
                  @ ''.''))
          else Inr current)"

definition gate_open_for_decisions :: "task \<Rightarrow> bool" where
  "gate_open_for_decisions t =
     (workflow_state_of t \<in> {Some WaitingApproval, Some Expired, Some Approved, Some Rejected})"

definition validate_decision ::
  "task_registry \<Rightarrow> decision_request \<Rightarrow> string option \<Rightarrow> string \<Rightarrow> approval_record res" where
  "validate_decision r req subject_digest now =
     (case find_task (rg_tasks r) (dq_task_id req) of
        None \<Rightarrow> Inl (Validation_Err (''Unknown task '' @ quoted (dq_task_id req) @ ''.''))
      | Some t \<Rightarrow>
     (case opt_filter is_human_approval (tk_gate t) of
        None \<Rightarrow> Inl (Validation_Err (''Task '' @ quoted (tk_id t)
                  @ '' is not a human approval gate (gate.kind: human_approval).''))
      | Some gate \<Rightarrow>
          if \<not> gate_open_for_decisions t
          then Inl (Validation_Err (''Gate '' @ quoted (tk_id t)
                 @ '' is not open for decisions yet (state: '' @ tk_state t
                 @ ''). Its dependencies, including the subject ''
                 @ unwrap_or ''?'' (tg_subject_task gate) @ '', must be delivered first.''))
          else
            let role = trim (dq_role req); actor = trim (dq_actor req) in
            if role \<notin> set (required_roles gate)
            then Inl (Validation_Err (''Role '' @ quoted role @ '' is not a required approver of ''
                   @ quoted (tk_id t) @ ''. Required roles: '' @ join '', '' (required_roles gate)
                   @ ''.''))
            else if actor = []
            then Inl (Validation_Err ''The decision has no identity: pass --as <name> or configure git user.name/user.email.'')
            else try_bind (decision_revision gate req subject_digest) (\<lambda>revision.
              let evidence = trimmed_nonempty (dq_evidence req);
                  reason = trimmed_nonempty (dq_reason req)
              in if dq_decision req = Dec_Approved \<and> evidence_required gate \<and> evidence = None
                 then Inl (Validation_Err (''Gate '' @ quoted (tk_id t) @ '' requires ''
                        @ unwrap_or [] (tg_evidence_type gate)
                        @ '' evidence: pass --evidence <url-or-path>.''))
                 else if dq_decision req \<noteq> Dec_Approved \<and> reason = None
                 then Inl (Validation_Err (''A '' @ decision_as_str (dq_decision req)
                        @ '' decision needs --reason '' @ dquoted ellipsis
                        @ '' so the subject author knows what to change.''))
                 else Inr \<lparr>ap_decision = dq_decision req, ap_role = role, ap_actor = actor,
                           ap_revision = revision, ap_evidence = evidence, ap_reason = reason,
                           ap_recorded_at = now\<rparr>)))"

section \<open>Pending approvals\<close>

record pending_approval =
  pa_task_id :: string
  pa_title :: "string option"
  pa_state :: string
  pa_status :: string
  pa_subject_task :: string
  pa_subject_revision :: "string option"
  pa_description :: "string option"
  pa_risks :: "string list"
  pa_approval_trigger :: "string option"
  pa_governance_ref :: "string option"
  pa_required :: string
  pa_missing_roles :: "string list"
  pa_evidence_type :: "string option"
  pa_note :: "string option"
  pa_diff_stat :: "string option"
  pa_approve_command :: string
  pa_question :: string
  pa_awaiting_decision :: bool
  pa_subject_title :: "string option"
  pa_subject_objective :: "string option"
  pa_subject_description :: "string option"
  pa_subject_result :: "string option"
  pa_subject_acceptance_criteria :: "string list"
  pa_required_roles :: "string list"
  pa_quorum :: string
  pa_evidence_required :: bool
  pa_expires_after_days :: "nat option"
  pa_invalidate_on_subject_change :: bool
  pa_decisions :: "approval_record list"
  pa_unblocks :: "string list"

definition extra_text :: "task \<Rightarrow> string \<Rightarrow> string option" where
  "extra_text t key = trimmed_nonempty (Option.bind (bt_get (tk_extra t) key) as_str)"

definition extra_list :: "task \<Rightarrow> string \<Rightarrow> string list" where
  "extra_list t key =
     (case Option.bind (bt_get (tk_extra t) key) as_array of
        None \<Rightarrow> []
      | Some items \<Rightarrow> filter (\<lambda>v. v \<noteq> []) (map trim (List.map_filter as_str items)))"

definition quorum_text :: "task_gate \<Rightarrow> string" where
  "quorum_text gate =
     (let counted = (if list_ex (\<lambda>r. 1 < ra_count r) (tg_required_approvers gate)
                     then '' (each with its declared count)'' else [])
      in case tg_quorum gate of
           Q_All \<Rightarrow>
             (case tg_required_approvers gate of
                [r] \<Rightarrow> ''the '' @ ra_role r @ '' role must approve'' @ counted
              | _ \<Rightarrow> ''every listed role must approve'' @ counted @ '': one decision per role'')
         | Q_Any \<Rightarrow> ''one listed role approving is enough'' @ counted
         | Q_Count n \<Rightarrow> show_nat n @ '' approval(s) from the listed roles are enough'')"

text \<open>\<open>revision.get(..12)\<close>: the first 12 bytes when they end at a character boundary.\<close>

definition short_revision :: "string \<Rightarrow> string" where
  "short_revision revision =
     (if 12 \<le> length revision \<and> is_char_boundary revision 12 then take 12 revision else revision)"

definition missing_roles :: "task_gate \<Rightarrow> approval_state \<Rightarrow> string list" where
  "missing_roles gate st =
     map ra_role
       (filter (\<lambda>r. length (filter (\<lambda>a. ap_decision a = Dec_Approved \<and> ap_role a = ra_role r)
                              (as_effective st)) < ra_count r)
         (tg_required_approvers gate))"

definition with_dash :: "string \<Rightarrow> string option \<Rightarrow> string" where
  "with_dash s title = s @ unwrap_or [] (map_option (\<lambda>t. '' '' @ em_dash @ '' '' @ t) title)"

definition pending_view ::
  "task_registry \<Rightarrow> (string \<Rightarrow> string option) \<Rightarrow> task \<Rightarrow> task_gate \<Rightarrow> pending_approval" where
  "pending_view r diff_stat t gate =
     (let st = unwrap_or default_approval_state (tr_approval (tk_runtime t));
          missing = missing_roles gate st;
          role = (case missing of [] \<Rightarrow> ''<ROLE>'' | m # _ \<Rightarrow> m);
          revision = unwrap_or ''<commit-sha>'' (as_subject_revision st);
          subject_id = unwrap_or [] (tg_subject_task gate);
          subject = find_task (rg_tasks r) subject_id;
          subject_title = Option.bind subject tk_title
      in \<lparr>pa_task_id = tk_id t, pa_title = tk_title t, pa_state = tk_state t,
          pa_status = approval_status_as_str (as_status st), pa_subject_task = subject_id,
          pa_subject_revision = as_subject_revision st, pa_description = tg_description gate,
          pa_risks = tg_risks gate, pa_approval_trigger = tg_approval_trigger gate,
          pa_governance_ref = tg_governance_ref gate,
          pa_required = approval_progress gate (as_effective st), pa_missing_roles = missing,
          pa_evidence_type = tg_evidence_type gate, pa_note = as_note st,
          pa_diff_stat = Option.bind (as_subject_revision st) diff_stat,
          pa_approve_command =
            ''macc coordinator approve '' @ tk_id t @ '' --role '' @ role @ '' --revision ''
            @ revision @ (if evidence_required gate then '' --evidence <url>'' else []),
          pa_question =
            ''Do you approve '' @ subject_id
            @ unwrap_or [] (map_option (\<lambda>x. '' ('' @ dquoted x @ '')'') subject_title)
            @ '' as delivered at revision ''
            @ unwrap_or ''unknown'' (map_option short_revision (as_subject_revision st)) @ ''?'',
          pa_awaiting_decision =
            (is_awaiting_approval t \<and> as_status st \<in> {St_WaitingApproval, St_Expired}),
          pa_subject_title = subject_title,
          pa_subject_objective = Option.bind subject (\<lambda>x. extra_text x ''objective''),
          pa_subject_description = Option.bind subject (\<lambda>x. extra_text x ''description''),
          pa_subject_result = Option.bind subject (\<lambda>x. extra_text x ''result''),
          pa_subject_acceptance_criteria =
            (case subject of None \<Rightarrow> [] | Some x \<Rightarrow> extra_list x ''acceptance_criteria''),
          pa_required_roles = required_roles gate, pa_quorum = quorum_text gate,
          pa_evidence_required = evidence_required gate,
          pa_expires_after_days = tg_expires_after_days gate,
          pa_invalidate_on_subject_change = tg_invalidate_on_subject_change gate,
          pa_decisions = as_effective st,
          pa_unblocks =
            map (\<lambda>x. with_dash (tk_id x) (tk_title x))
              (filter (\<lambda>x. tk_id t \<in> set (tk_dependencies x)) (rg_tasks r))\<rparr>)"

definition pending_approvals ::
  "task_registry \<Rightarrow> (string \<Rightarrow> string option) \<Rightarrow> pending_approval list" where
  "pending_approvals r diff_stat =
     List.map_filter
       (\<lambda>t. map_option (pending_view r diff_stat t) (tk_gate t))
       (filter (\<lambda>t. is_human_approval_gate t
                    \<and> workflow_state_of t \<in> {Some WaitingApproval, Some Expired, Some Rejected})
         (rg_tasks r))"

section \<open>The explanation of a request\<close>

record brief_section =
  bs_title :: string
  bs_lines :: "string list"

definition brief_of :: "string \<Rightarrow> string list \<Rightarrow> brief_section list" where
  "brief_of title ls =
     (let kept = filter (\<lambda>l. trim l \<noteq> []) ls
      in if kept = [] then [] else [\<lparr>bs_title = title, bs_lines = kept\<rparr>])"

definition opt_line :: "string \<Rightarrow> string option \<Rightarrow> string list" where
  "opt_line prefix v = (case v of None \<Rightarrow> [] | Some x \<Rightarrow> [prefix @ x])"

definition decision_line :: "approval_record \<Rightarrow> string" where
  "decision_line d =
     ''- '' @ decision_as_str (ap_decision d) @ '' by '' @ ap_actor d @ '' ('' @ ap_role d
     @ '') at '' @ ap_recorded_at d
     @ unwrap_or [] (map_option (\<lambda>e. '' '' @ em_dash @ '' evidence: '' @ e) (ap_evidence d))
     @ unwrap_or [] (map_option (\<lambda>x. '' '' @ em_dash @ '' reason: '' @ x) (ap_reason d))"

definition rule_lines :: "pending_approval \<Rightarrow> string list" where
  "rule_lines p =
     [case (pa_evidence_required p, pa_evidence_type p) of
        (True, Some kind) \<Rightarrow> ''An approval must cite '' @ kind @ '' evidence (a link or path).''
      | _ \<Rightarrow> ''No evidence is required with an approval.'',
      ''A rejection or a change request must give a reason.'']
     @ (if pa_invalidate_on_subject_change p
        then [''Decisions are bound to this revision: a new revision of '' @ pa_subject_task p
              @ '' cancels them.''] else [])
     @ (case pa_expires_after_days p of
          None \<Rightarrow> [] | Some days \<Rightarrow> [''Approvals expire after '' @ show_nat days @ '' day(s).''])"

definition approval_brief :: "pending_approval \<Rightarrow> brief_section list" where
  "approval_brief p =
     brief_of ''Question'' [pa_question p]
     @ brief_of ''Decision'' (case pa_description p of None \<Rightarrow> [] | Some d \<Rightarrow> [d])
     @ brief_of ''Why people decide''
         (opt_line ''Trigger: '' (pa_approval_trigger p)
          @ opt_line ''Decision rights: '' (pa_governance_ref p))
     @ brief_of ''What is being approved''
         ([with_dash (pa_subject_task p) (pa_subject_title p),
           ''Revision: '' @ unwrap_or ''unknown (no commit carries its [macc:task] trailer yet)''
             (pa_subject_revision p)]
          @ opt_line ''Objective: '' (pa_subject_objective p)
          @ opt_line ''Expected result: '' (pa_subject_result p))
     @ brief_of ''Subject description''
         (case pa_subject_description p of None \<Rightarrow> [] | Some d \<Rightarrow> str_lines d)
     @ brief_of ''Acceptance criteria'' (map (\<lambda>c. ''- '' @ c) (pa_subject_acceptance_criteria p))
     @ brief_of ''Changes in the revision''
         (case pa_diff_stat p of None \<Rightarrow> [] | Some d \<Rightarrow> str_lines d)
     @ brief_of ''Risks to weigh'' (map (\<lambda>x. ''- '' @ x) (pa_risks p))
     @ brief_of ''Approvers''
         ([''Progress: '' @ pa_required p, ''Rule: '' @ pa_quorum p]
          @ (if pa_missing_roles p = [] then []
             else [''Still needed: '' @ join '', '' (pa_missing_roles p)]))
     @ brief_of ''Decisions so far'' (map decision_line (pa_decisions p))
     @ brief_of ''Rules'' (rule_lines p)
     @ brief_of ''Consequences''
         [''Approve: once the quorum is met, the run continues with ''
          @ (if pa_unblocks p = [] then ''nothing else waits on this gate''
             else join '', '' (pa_unblocks p)) @ ''.'',
          ''Reject: the gate fails (E909) and its dependants stay blocked (E905) until ''
          @ pa_subject_task p @ '' is revised.'',
          ''Request changes: the gate waits for a new revision of '' @ pa_subject_task p @ ''.'']
     @ brief_of ''Status'' (case pa_note p of None \<Rightarrow> [] | Some n \<Rightarrow> [n])"


section \<open>Lemmas\<close>

lemma same_revision_sym: "same_revision a b \<longleftrightarrow> same_revision b a"
  by (auto simp: same_revision_def Let_def min.commute)

lemma same_revision_refl: "MIN_REVISION_PREFIX \<le> length (trim a) \<Longrightarrow> same_revision a a"
  using prefix_of_append [of "trim a" "[]"] by (simp add: same_revision_def Let_def)

text \<open>The live decision of a person in a role: their last one bound to the revision.\<close>

definition last_decision ::
  "approval_record list \<Rightarrow> string option \<Rightarrow> string \<Rightarrow> string \<Rightarrow> approval_record option" where
  "last_decision ledger revision actor role =
     (let ds = filter (\<lambda>a. is_bound revision a \<and> ap_actor a = actor \<and> ap_role a = role) ledger
      in if ds = [] then None else Some (last ds))"

lemma map_of_rev_keyed:
  "map_of (rev (map (\<lambda>a. (f a, a)) xs)) k =
     (let ds = filter (\<lambda>a. f a = k) xs in if ds = [] then None else Some (last ds))"
  by (induction xs) (auto simp: Let_def map_add_def split: option.splits)

lemma latest_per_actor_iff:
  "a \<in> set (latest_per_actor ledger revision) \<longleftrightarrow>
     last_decision ledger revision (ap_actor a) (ap_role a) = Some a"
proof -
  let ?kvs = "map (\<lambda>a. ((ap_actor a, ap_role a), a)) (filter (is_bound revision) ledger)"
  let ?m = "fold (\<lambda>(k, v). bt_insert k v) ?kvs []"
  have ok: "bt_ok ?m" by (rule bt.fold_ins_inv) simp
  have get: "bt_get ?m k = map_of (rev ?kvs) k" for k
    by (simp add: bt.fold_ins_get map_add_def fun_eq_iff split: option.splits)
  have last_eq: "map_of (rev ?kvs) (x, y) = last_decision ledger revision x y" for x y
    unfolding map_of_rev_keyed last_decision_def
    by (simp add: Let_def conj_commute)
  have key: "last_decision ledger revision x y = Some b \<Longrightarrow> ap_actor b = x \<and> ap_role b = y" for x y b
    by (auto simp: last_decision_def Let_def split: if_splits dest!: last_in_set)
  have "a \<in> set (latest_per_actor ledger revision) \<longleftrightarrow> (\<exists>x y. ((x, y), a) \<in> set ?m)"
    by (force simp: latest_per_actor_def)
  also have "\<dots> \<longleftrightarrow> (\<exists>x y. last_decision ledger revision x y = Some a)"
    by (simp only: bt_in_iff [OF ok] get last_eq)
  also have "\<dots> \<longleftrightarrow> last_decision ledger revision (ap_actor a) (ap_role a) = Some a"
    using key by blast
  finally show ?thesis .
qed

lemma last_decision_in:
  "last_decision ledger revision x y = Some a \<Longrightarrow> a \<in> set ledger \<and> is_bound revision a"
  by (auto simp: last_decision_def Let_def split: if_splits dest!: last_in_set)

definition live_decisions ::
  "ts_parser \<Rightarrow> task_gate \<Rightarrow> string option \<Rightarrow> approval_record list \<Rightarrow> string
     \<Rightarrow> approval_record list" where
  "live_decisions tn gate subject_digest ledger now =
     filter (\<lambda>a. \<not> is_expired tn a gate now)
       (latest_per_actor ledger (gate_revision subject_digest ledger))"

lemma live_decisions_iff:
  "a \<in> set (live_decisions tn gate digest ledger now) \<longleftrightarrow>
     last_decision ledger (gate_revision digest ledger) (ap_actor a) (ap_role a) = Some a
     \<and> \<not> is_expired tn a gate now"
  by (simp add: live_decisions_def latest_per_actor_iff conj_commute)

lemma find_decision_None: "find_decision d xs = None \<longleftrightarrow> (\<forall>a \<in> set xs. ap_decision a \<noteq> d)"
  by (auto simp: find_decision_def find_None_iff)

text \<open>The state of a gate, read off its live decisions.\<close>

lemma evaluate_gate_None: "evaluate_gate tn gate deps digest ledger now = None \<longleftrightarrow> \<not> deps"
  by (simp add: evaluate_gate_def Let_def split: option.splits)

lemma evaluate_gate_fields:
  assumes "evaluate_gate tn gate True digest ledger now = Some ev"
  defines "live \<equiv> live_decisions tn gate digest ledger now"
  shows "ge_effective ev = live \<and> ge_revision ev = gate_revision digest ledger
    \<and> (if find_decision Dec_Rejected live \<noteq> None then ge_state ev = Rejected
        else if quorum_met gate live then ge_state ev = Approved
        else ge_state ev \<in> {Expired, WaitingApproval})"
proof -
  note eq = assms(1) [unfolded evaluate_gate_def Let_def, folded live_decisions_def live_def]
  show ?thesis
  proof (cases "find_decision Dec_Rejected live")
    case none: None
    show ?thesis
    proof (cases "quorum_met gate live")
      case True
      with eq none show ?thesis by auto
    next
      case False
      with eq none show ?thesis
        by (cases "find_decision Dec_ChangesRequested live") (auto split: if_splits)
    qed
  next
    case (Some rejection)
    with eq show ?thesis by auto
  qed
qed

lemma evaluate_gate_Some:
  assumes "evaluate_gate tn gate deps digest ledger now = Some ev"
  shows "deps" "ge_effective ev = live_decisions tn gate digest ledger now"
    "ge_revision ev = gate_revision digest ledger"
    "ge_state ev = Rejected \<longleftrightarrow> (\<exists>a \<in> set (ge_effective ev). ap_decision a = Dec_Rejected)"
    "ge_state ev = Approved \<longleftrightarrow>
       quorum_met gate (ge_effective ev) \<and> (\<forall>a \<in> set (ge_effective ev). ap_decision a \<noteq> Dec_Rejected)"
    "ge_state ev \<in> {Rejected, Approved, Expired, WaitingApproval}"
proof -
  show d: deps
  proof (rule ccontr)
    assume "\<not> deps"
    then have "evaluate_gate tn gate deps digest ledger now = None" by (simp add: evaluate_gate_def)
    with assms show False by simp
  qed
  note f = evaluate_gate_fields [OF assms [unfolded eqTrueI [OF d]]]
  show eff: "ge_effective ev = live_decisions tn gate digest ledger now"
    and "ge_revision ev = gate_revision digest ledger" using f by blast+
  have st: "if \<exists>a \<in> set (ge_effective ev). ap_decision a = Dec_Rejected then ge_state ev = Rejected
      else if quorum_met gate (ge_effective ev) then ge_state ev = Approved
      else ge_state ev \<in> {Expired, WaitingApproval}"
    using f find_decision_None [of Dec_Rejected "ge_effective ev"] unfolding eff
    by (metis (no_types, lifting))
  then show "ge_state ev = Rejected \<longleftrightarrow> (\<exists>a \<in> set (ge_effective ev). ap_decision a = Dec_Rejected)"
    by (auto split: if_splits)
  from st show "ge_state ev = Approved \<longleftrightarrow>
      quorum_met gate (ge_effective ev) \<and> (\<forall>a \<in> set (ge_effective ev). ap_decision a \<noteq> Dec_Rejected)"
    by (auto split: if_splits)
  from st show "ge_state ev \<in> {Rejected, Approved, Expired, WaitingApproval}"
    by (auto split: if_splits)
qed

lemma apply_evaluation_fields:
  "workflow_state_of (fst (apply_evaluation now subject decisions ev t)) = Some (ge_state ev)"
  "\<exists>st. tr_approval (tk_runtime (fst (apply_evaluation now subject decisions ev t))) = Some st
     \<and> as_effective st = ge_effective ev \<and> as_status st = ge_status ev
     \<and> (ge_state ev = Approved \<longrightarrow> as_approved_revision st = ge_revision ev)"
  "tk_id (fst (apply_evaluation now subject decisions ev t)) = tk_id t"
  "tk_gate (fst (apply_evaluation now subject decisions ev t)) = tk_gate t"
  "tk_dependencies (fst (apply_evaluation now subject decisions ev t)) = tk_dependencies t"
  by (simp_all add: apply_evaluation_def Let_def coord_frame)
     (auto simp: upd_runtime_def next_approval_def set_last_error_details_def set_status_def
       touch_state_changed_def set_workflow_state_def)

lemma withdraw_gate_fields:
  "workflow_state_of (fst (withdraw_gate now t)) \<noteq> Some Approved"
  "tk_gate (fst (withdraw_gate now t)) = tk_gate t"
  "tk_id (fst (withdraw_gate now t)) = tk_id t"
  "tk_dependencies (fst (withdraw_gate now t)) = tk_dependencies t"
proof -
  show "workflow_state_of (fst (withdraw_gate now t)) \<noteq> Some Approved"
    by (auto simp: withdraw_gate_def coord_frame)
qed (simp_all add: withdraw_gate_def touch_state_changed_def upd_runtime_def set_workflow_state_def)

lemma trimmed_nonempty_trim: "trimmed_nonempty v = Some s \<Longrightarrow> trim s = s"
  by (auto simp: trimmed_nonempty_Some_iff)

lemma decision_revision_approved:
  assumes "decision_revision gate req digest = Inr revision" "dq_decision req = Dec_Approved"
  shows "\<exists>given. trimmed_nonempty (dq_revision req) = Some given \<and> MIN_REVISION_PREFIX \<le> length given
    \<and> (case digest of None \<Rightarrow> revision = Some given
       | Some current \<Rightarrow> same_revision given current \<and> revision = Some current)"
proof -
  have len: "same_revision given current \<Longrightarrow> MIN_REVISION_PREFIX \<le> length (trim given)" for given current
    by (simp add: same_revision_def Let_def)
  show ?thesis
    using assms trimmed_nonempty_trim [of "dq_revision req"]
    by (cases "trimmed_nonempty (dq_revision req)"; cases digest)
       (auto simp: decision_revision_def not_less dest: len split: if_splits)
qed

lemma validate_decision_Inr:
  assumes "validate_decision r req digest now = Inr rec"
  obtains t gate where "find_task (rg_tasks r) (dq_task_id req) = Some t" "tk_gate t = Some gate"
    "is_human_approval gate" "gate_open_for_decisions t" "trim (dq_role req) \<in> set (required_roles gate)"
    "trim (dq_actor req) \<noteq> []" "decision_revision gate req digest = Inr (ap_revision rec)"
    "dq_decision req = Dec_Approved \<Longrightarrow> evidence_required gate \<Longrightarrow> ap_evidence rec \<noteq> None"
    "dq_decision req \<noteq> Dec_Approved \<Longrightarrow> ap_reason rec \<noteq> None"
    "ap_decision rec = dq_decision req" "ap_role rec = trim (dq_role req)"
    "ap_actor rec = trim (dq_actor req)" "ap_recorded_at rec = now"
proof -
  obtain t where t: "find_task (rg_tasks r) (dq_task_id req) = Some t"
    using assms by (auto simp: validate_decision_def split: option.splits)
  obtain gate where gate: "tk_gate t = Some gate" "is_human_approval gate"
    using assms t by (cases "tk_gate t") (auto simp: validate_decision_def opt_filter_def split: if_splits)
  have fl: "opt_filter is_human_approval (tk_gate t) = Some gate" using gate by (simp add: opt_filter_def)
  note eq = assms [unfolded validate_decision_def t option.case fl Let_def]
  show thesis
    by (rule that [OF t gate]) (use eq in \<open>auto simp: try_bind_Inr_iff split: if_splits\<close>)
qed

section \<open>Properties\<close>

lemma reconcile_gate_approved:
  assumes "workflow_state_of (fst (reconcile_gate tn now sat digest ledger t)) = Some Approved"
    and "tk_gate t = Some gate" "is_human_approval gate"
  shows "\<exists>ev. evaluate_gate tn gate True (digest (unwrap_or [] (tg_subject_task gate))) (ledger (tk_id t)) now
      = Some ev \<and> ge_state ev = Approved \<and> (\<forall>d \<in> set (tk_dependencies t). d \<in> set sat)
      \<and> reconcile_gate tn now sat digest ledger t
        = apply_evaluation now (unwrap_or [] (tg_subject_task gate)) (ledger (tk_id t)) ev t"
proof -
  let ?s = "unwrap_or [] (tg_subject_task gate)"
  let ?deps = "list_all (\<lambda>d. d \<in> set sat) (tk_dependencies t)"
  have na: "workflow_state_of t \<noteq> Some Abandoned"
    using assms by (auto simp: reconcile_gate_def)
  show ?thesis
  proof (cases "evaluate_gate tn gate ?deps (digest ?s) (ledger (tk_id t)) now")
    case None
    then show ?thesis using assms na
      by (simp add: reconcile_gate_def Let_def withdraw_gate_fields)
  next
    case (Some ev)
    then have ?deps by (rule evaluate_gate_Some(1))
    with Some assms na show ?thesis
      by (auto simp: reconcile_gate_def Let_def apply_evaluation_fields list_all_iff)
  qed
qed

lemma reconcile_human_gates_task:
  "t' \<in> set (rg_tasks (fst (reconcile_human_gates tn r now digest ledger))) \<longleftrightarrow>
     (\<exists>t \<in> set (rg_tasks r). t' = fst (reconcile_gate tn now (gate_satisfied_ids r) digest ledger t))"
  by (auto simp: reconcile_human_gates_def Let_def)

lemma reconcile_gate_keeps:
  "tk_id (fst (reconcile_gate tn now sat digest ledger t)) = tk_id t"
  "tk_gate (fst (reconcile_gate tn now sat digest ledger t)) = tk_gate t"
  "tk_dependencies (fst (reconcile_gate tn now sat digest ledger t)) = tk_dependencies t"
  by (auto simp: reconcile_gate_def Let_def withdraw_gate_fields apply_evaluation_fields
      split: option.split)

text \<open>C4: After the human gates of a registry are reconciled, a gate that stands approved has all its
  dependencies delivered, and the decisions recorded on it as effective are exactly each person's last
  decision of the ledger bound to the gate's current revision and not expired; they meet the declared
  quorum and none of them is a rejection.  The approval names that revision.\<close>

theorem approved_gate_has_quorum:
  assumes t': "t' \<in> set (rg_tasks (fst (reconcile_human_gates tn r now digest ledger)))"
    and gate: "tk_gate t' = Some gate" "is_human_approval gate"
    and approved: "workflow_state_of t' = Some Approved"
  defines "revision \<equiv> gate_revision (digest (unwrap_or [] (tg_subject_task gate))) (ledger (tk_id t'))"
  shows "(\<forall>d \<in> set (tk_dependencies t'). d \<in> set (satisfied_dependency_ids r) \<union> set (rg_external_merged r))
    \<and> (\<exists>st. tr_approval (tk_runtime t') = Some st \<and> as_approved_revision st = revision
        \<and> quorum_met gate (as_effective st)
        \<and> (\<forall>a. a \<in> set (as_effective st) \<longleftrightarrow>
              last_decision (ledger (tk_id t')) revision (ap_actor a) (ap_role a) = Some a
              \<and> \<not> is_expired tn a gate now)
        \<and> (\<forall>a \<in> set (as_effective st). ap_decision a \<noteq> Dec_Rejected))"
proof -
  obtain t where t: "t \<in> set (rg_tasks r)"
      "t' = fst (reconcile_gate tn now (gate_satisfied_ids r) digest ledger t)"
    using t' by (auto simp: reconcile_human_gates_task)
  then have g: "tk_gate t = Some gate" and id: "tk_id t' = tk_id t"
    using gate by (simp_all add: reconcile_gate_keeps)
  obtain ev where ev: "evaluate_gate tn gate True (digest (unwrap_or [] (tg_subject_task gate)))
        (ledger (tk_id t)) now = Some ev" "ge_state ev = Approved"
      "\<forall>d \<in> set (tk_dependencies t). d \<in> set (gate_satisfied_ids r)"
      "t' = fst (apply_evaluation now (unwrap_or [] (tg_subject_task gate)) (ledger (tk_id t)) ev t)"
    using reconcile_gate_approved [OF approved [unfolded t(2)] g gate(2)] t(2) by auto
  note facts = evaluate_gate_Some [OF ev(1)]
  obtain st where st: "tr_approval (tk_runtime t') = Some st" "as_effective st = ge_effective ev"
      "as_approved_revision st = revision"
  proof -
    obtain st where "tr_approval (tk_runtime t') = Some st \<and> as_effective st = ge_effective ev
        \<and> as_status st = ge_status ev \<and> (ge_state ev = Approved \<longrightarrow> as_approved_revision st = ge_revision ev)"
      unfolding ev(4) using apply_evaluation_fields(2) by blast
    then show thesis using that ev(2) facts(3) by (simp add: revision_def id)
  qed
  have "a \<in> set (as_effective st) \<longleftrightarrow>
      last_decision (ledger (tk_id t')) revision (ap_actor a) (ap_role a) = Some a
      \<and> \<not> is_expired tn a gate now" for a
    unfolding st(2) facts(2) live_decisions_iff revision_def id ..
  moreover have "quorum_met gate (as_effective st)"
    "\<forall>a \<in> set (as_effective st). ap_decision a \<noteq> Dec_Rejected"
    using facts(5) ev(2) by (simp_all add: st(2))
  moreover have "\<forall>d \<in> set (tk_dependencies t').
      d \<in> set (satisfied_dependency_ids r) \<union> set (rg_external_merged r)"
    using ev(3) t(2) by (simp add: reconcile_gate_keeps gate_satisfied_ids_def)
  ultimately show ?thesis using st(1,3) by blast
qed

text \<open>A decision that the coordinator accepts was made on an open human gate, in one of its
  declared roles, by a named person, with the evidence an approval needs or the reason anything else
  needs; and when it is an approval, appending it to the ledger binds it to the revision against which
  the next reconciliation judges the gate.\<close>

theorem accepted_decision_counts:
  assumes "validate_decision r req digest now = Inr rec"
  shows "(\<exists>t gate. find_task (rg_tasks r) (dq_task_id req) = Some t \<and> tk_gate t = Some gate
      \<and> is_human_approval gate \<and> gate_open_for_decisions t \<and> ap_role rec \<in> set (required_roles gate)
      \<and> ap_actor rec \<noteq> [] \<and> ap_decision rec = dq_decision req
      \<and> (if dq_decision req = Dec_Approved then evidence_required gate \<longrightarrow> ap_evidence rec \<noteq> None
          else ap_reason rec \<noteq> None))
    \<and> (dq_decision req = Dec_Approved \<longrightarrow>
        last_decision (ledger @ [rec]) (gate_revision digest (ledger @ [rec])) (ap_actor rec) (ap_role rec)
          = Some rec)"
  using assms
proof (cases rule: validate_decision_Inr)
  case prems: (1 t gate)
  have "is_bound (gate_revision digest (ledger @ [rec])) rec" if approval: "dq_decision req = Dec_Approved"
  proof -
    obtain given where given: "trimmed_nonempty (dq_revision req) = Some given"
        "MIN_REVISION_PREFIX \<le> length given"
        "case digest of None \<Rightarrow> ap_revision rec = Some given
         | Some current \<Rightarrow> same_revision given current \<and> ap_revision rec = Some current"
      using decision_revision_approved [OF prems(7) approval] by blast
    show ?thesis
    proof (cases digest)
      case None
      then show ?thesis using given trimmed_nonempty_trim [OF given(1)]
        by (simp add: gate_revision_def is_bound_def same_revision_refl)
    next
      case (Some current)
      then have "same_revision current current"
        using given(3) by (intro same_revision_refl) (auto simp: same_revision_def Let_def)
      then show ?thesis using given(3) Some
        by (simp add: gate_revision_def is_bound_def)
    qed
  qed
  then have "dq_decision req = Dec_Approved \<Longrightarrow> last_decision (ledger @ [rec])
      (gate_revision digest (ledger @ [rec])) (ap_actor rec) (ap_role rec) = Some rec"
    by (simp add: last_decision_def Let_def)
  with prems show ?thesis
    by (intro conjI exI [of _ t] exI [of _ gate]) auto
qed

definition sample_gate_task :: task where
  "sample_gate_task =
     (sample_task ''G'' WaitingApproval)\<lparr>tk_gate := Some sample_gate, tk_dependencies := [''T1'']\<rparr>"

definition sample_registry :: task_registry where
  "sample_registry = default_registry\<lparr>rg_tasks := [sample_task ''T1'' Merged, sample_gate_task]\<rparr>"

lemma sample_gate_evaluates:
  "\<exists>ev. evaluate_gate (\<lambda>_. None) sample_gate True None [sample_approval] now = Some ev
     \<and> ge_state ev = Approved"
  by (simp add: evaluate_gate_def gate_revision_def latest_per_actor_def is_bound_def is_expired_def
      find_decision_def sample_gate_def sample_approval_def quorum_met_def approving_actors_def
      List.map_filter_def Let_def)

lemma sample_gate_task_fields:
  "workflow_state_of sample_gate_task = Some WaitingApproval" "tk_gate sample_gate_task = Some sample_gate"
  "tk_id sample_gate_task = ''G''" "tk_dependencies sample_gate_task = [''T1'']"
  by (simp_all add: sample_gate_task_def coord_frame)

lemma sample_satisfied: "set (gate_satisfied_ids sample_registry) \<supseteq> {''T1''}"
  by (simp add: gate_satisfied_ids_def satisfied_dependency_ids_def sample_registry_def
      default_registry_def satisfies_dependants_def state_satisfies_dependants_def
      gate_verdict_satisfies_dependencies_def)

definition sample_gate_after :: task where
  "sample_gate_after = fst (reconcile_gate (\<lambda>_. None) ''now'' (gate_satisfied_ids sample_registry)
     (\<lambda>_. None) (\<lambda>_. [sample_approval]) sample_gate_task)"

lemma sample_gate_after_state:
  "workflow_state_of sample_gate_after = Some Approved"
  "tk_gate sample_gate_after = Some sample_gate"
proof -
  obtain ev where "evaluate_gate (\<lambda>_. None) sample_gate True None [sample_approval] ''now'' = Some ev"
      "ge_state ev = Approved"
    using sample_gate_evaluates by blast
  then show "workflow_state_of sample_gate_after = Some Approved"
    using sample_satisfied sample_gate_human
    by (simp add: sample_gate_after_def reconcile_gate_def sample_gate_task_fields
        apply_evaluation_fields Let_def)
qed (simp add: sample_gate_after_def reconcile_gate_keeps sample_gate_task_fields)

theorem approved_gate_has_quorum_witness:
  "\<exists>st. tr_approval (tk_runtime sample_gate_after) = Some st \<and> quorum_met sample_gate (as_effective st)"
proof -
  have "sample_gate_after \<in> set (rg_tasks (fst (reconcile_human_gates (\<lambda>_. None) sample_registry ''now''
      (\<lambda>_. None) (\<lambda>_. [sample_approval]))))"
    unfolding reconcile_human_gates_task
    by (rule bexI [of _ sample_gate_task])
       (simp_all add: sample_gate_after_def sample_registry_def default_registry_def)
  from approved_gate_has_quorum [OF this sample_gate_after_state(2) sample_gate_human
      sample_gate_after_state(1)]
  show ?thesis by blast
qed

definition sample_request :: decision_request where
  "sample_request =
     \<lparr>dq_task_id = ''G'', dq_decision = Dec_Approved, dq_role = ''lead'', dq_actor = ''ann'',
      dq_revision = Some ''abcdefgh'', dq_evidence = None, dq_reason = None\<rparr>"

theorem accepted_decision_counts_witness:
  "\<exists>rec. validate_decision sample_registry sample_request None ''now'' = Inr rec
     \<and> last_decision [rec] (gate_revision None [rec]) (ap_actor rec) (ap_role rec) = Some rec"
proof -
  have "trim ''lead'' = ''lead''" "trim ''ann'' = ''ann''" "trim ''abcdefgh'' = ''abcdefgh''"
    by (rule trim_graphic; simp add: graphic_def)+
  moreover have "sample_gate_task \<in> set (rg_tasks sample_registry)"
    "find_task (rg_tasks sample_registry) ''G'' = Some sample_gate_task"
    by (simp_all add: sample_registry_def default_registry_def sample_gate_task_fields)
  moreover have "set (required_roles sample_gate) = {''lead''}" "tg_evidence_type sample_gate = None"
    by (simp_all add: sample_gate_def required_roles_def)
  ultimately have "\<exists>rec. validate_decision sample_registry sample_request None ''now'' = Inr rec"
    using sample_gate_human
    by (simp add: validate_decision_def sample_request_def sample_gate_task_fields
        gate_open_for_decisions_def decision_revision_def trimmed_nonempty_def
        evidence_required_def MIN_REVISION_PREFIX_def Let_def)
  then obtain rec where v: "validate_decision sample_registry sample_request None ''now'' = Inr rec"
      "dq_decision sample_request = Dec_Approved"
    by (auto simp: sample_request_def)
  show ?thesis using accepted_decision_counts [OF v(1), of "[]"] v by auto
qed

end
