(* ===== verification/Lifecycle.thy ===== *)
theory Lifecycle
  imports Fsm Approval
begin

text \<open>
  The life of one task as a step relation: every handler of the coordinator that moves a task, each
  under the condition in which the control plane calls it (\<open>control_plane/base.rs\<close>,
  \<open>engine/fsm.rs\<close>).  The clocks, the host, the normalizers, the ledgers and the outcomes of phases
  are arbitrary.  Operator commands (\<open>unblock-task\<close>, \<open>abandon\<close>) are not steps of the relation.
\<close>

definition planned :: "nat option \<Rightarrow> phases_config \<Rightarrow> task \<Rightarrow> advance_plan" where
  "planned mx ph t =
     (case workflow_state_of t of
        None \<Rightarrow> Plan_Noop
      | Some s \<Rightarrow> plan_advance s mx (unwrap_or 0 (tr_review_cycles (tk_runtime t))) ph)"

inductive task_step :: "nat option \<Rightarrow> phases_config \<Rightarrow> task \<Rightarrow> task \<Rightarrow> bool"
  for mx :: "nat option" and ph :: phases_config where
  dispatched: "workflow_state_of t = Some Todo \<Longrightarrow> \<not> is_human_approval_gate t \<Longrightarrow>
    task_step mx ph t (apply_dispatch_claim_typed t u)"
| started: "workflow_state_of t = Some Claimed \<Longrightarrow> task_step mx ph t (apply_dispatch_pid_typed t pid)"
| completed: "workflow_state_of t = Some Claimed \<Longrightarrow>
    task_step mx ph t
      (fst (apply_job_completion_typed cd ts add_secs h normalizers t input now))"
| phase_ended: "planned mx ph t = RunPhase tr \<Longrightarrow>
    phase_outcome_or_block t (pt_mode tr) tr verdict err now = Inr t' \<Longrightarrow> task_step mx ph t t'"
| budget_spent: "planned mx ph t = ReviewBudgetExhausted \<Longrightarrow>
    phase_outcome_or_block t ''fix'' fix_phase None (Some reason) now = Inr t' \<Longrightarrow> task_step mx ph t t'"
| merged: "planned mx ph t = Plan_Merge \<Longrightarrow> apply_merge_success_typed t now = Inr t' \<Longrightarrow>
    task_step mx ph t t'"
| merge_failed: "planned mx ph t = Plan_Merge \<Longrightarrow> apply_merge_failure_typed t reason now = Inr t' \<Longrightarrow>
    task_step mx ph t t'"
| reclaimed: "reclaimable ts now grace running has_result t \<Longrightarrow>
    task_step mx ph t (fst (reclaim_task now holds t))"
| reconciled: "reconcile_task now snap sat t = Some t' \<Longrightarrow> task_step mx ph t t'"
| gate_evaluated: "is_human_approval_gate t \<Longrightarrow>
    task_step mx ph t (fst (reconcile_gate tn now sat digest ledger t))"

inductive_cases task_step_cases: "task_step mx ph t t'"

definition initial_task :: "task \<Rightarrow> bool" where
  "initial_task t =
     (workflow_state_of t = Some Todo \<and> tr_pid (tk_runtime t) = None
      \<and> tr_review_cycles (tk_runtime t) = None)"

definition reachable :: "nat option \<Rightarrow> phases_config \<Rightarrow> task \<Rightarrow> bool" where
  "reachable mx ph t = (\<exists>t0. initial_task t0 \<and> (task_step mx ph)\<^sup>*\<^sup>* t0 t)"

lemma reachable_induct [consumes 1, case_names initial step]:
  assumes "reachable mx ph t"
    and "\<And>t. initial_task t \<Longrightarrow> P t"
    and "\<And>t t'. reachable mx ph t \<Longrightarrow> P t \<Longrightarrow> task_step mx ph t t' \<Longrightarrow> P t'"
  shows "P t"
proof -
  obtain t0 where "initial_task t0" and steps: "(task_step mx ph)\<^sup>*\<^sup>* t0 t"
    using assms(1) by (auto simp: reachable_def)
  from steps show ?thesis
  proof (induction rule: rtranclp_induct)
    case base
    then show ?case using \<open>initial_task t0\<close> assms(2) by blast
  next
    case (step y z)
    then show ?case using \<open>initial_task t0\<close> assms(3) by (auto simp: reachable_def)
  qed
qed

section \<open>What each handler does to state, process id and review count\<close>

lemma claim_fields:
  "workflow_state_of (apply_dispatch_claim_typed t u) = Some Claimed"
  "tr_review_cycles (tk_runtime (apply_dispatch_claim_typed t u)) = tr_review_cycles (tk_runtime t)"
  by (simp_all add: apply_dispatch_claim_typed_def Let_def coord_frame set_status_def)

lemma pid_fields:
  "workflow_state_of (apply_dispatch_pid_typed t pid) = workflow_state_of t"
  "tr_review_cycles (tk_runtime (apply_dispatch_pid_typed t pid)) = tr_review_cycles (tk_runtime t)"
  by (simp_all add: apply_dispatch_pid_typed_def coord_frame set_status_def)

lemma transitions_state:
  "workflow_state_of (fst (apply_state_transitions cd t s now)) =
     (case strategy_state s of None \<Rightarrow> workflow_state_of t | Some w \<Rightarrow> Some w)"
proof -
  let ?t = "if is_availability_outcome s then t else clear_stale_throttle t"
  have "tk_state (fst (apply_state_transitions cd t s now)) =
      (case strategy_state s of None \<Rightarrow> tk_state t | Some w \<Rightarrow> workflow_as_str w)"
    by (simp add: apply_state_transitions_def strategy_result_state coord_frame split: option.split)
  then show ?thesis
    by (cases "strategy_state s") (simp_all add: workflow_state_of_def wf_text.parse_show)
qed

lemma transitions_pid:
  "s \<noteq> NoOp \<Longrightarrow> tr_pid (tk_runtime (fst (apply_state_transitions cd t s now))) = None"
  by (simp add: apply_state_transitions_def strategy_result_pid)

lemma transitions_reviews:
  "tr_review_cycles (tk_runtime (fst (apply_state_transitions cd t s now)))
     = tr_review_cycles (tk_runtime t)"
  by (simp add: apply_state_transitions_def strategy_result_reviews coord_frame)

lemma completion_fields:
  "tr_pid (tk_runtime (fst (apply_job_completion_typed cd ts add_secs h nr t input now))) = None"
  "tr_review_cycles (tk_runtime (fst (apply_job_completion_typed cd ts add_secs h nr t input now)))
     = tr_review_cycles (tk_runtime t)"
  "\<exists>w. workflow_state_of (fst (apply_job_completion_typed cd ts add_secs h nr t input now)) = Some w
     \<and> w \<in> {Claimed, Todo, Blocked, Merged, InProgress}"
proof -
  let ?s = "\<lambda>c healthy. resolve_retry_strategy ts add_secs t input c (from_input input) healthy now"
  have st: "\<exists>w. strategy_state s = Some w \<and> w \<in> {Claimed, Todo, Blocked, Merged, InProgress}"
    if "s \<noteq> NoOp" for s
    using that by (cases s rule: strategy_state.cases) auto
  show "\<exists>w. workflow_state_of (fst (apply_job_completion_typed cd ts add_secs h nr t input now)) = Some w
     \<and> w \<in> {Claimed, Todo, Blocked, Merged, InProgress}"
    unfolding apply_job_completion_typed_def Let_def transitions_state
    using st [OF resolve_not_NoOp] by (metis (no_types, lifting) option.simps(5))
qed (simp_all add: apply_job_completion_typed_def Let_def transitions_pid transitions_reviews resolve_not_NoOp)

lemma step_gate: "task_step mx ph t t' \<Longrightarrow> tk_gate t' = tk_gate t"
proof (induction rule: task_step.induct)
  case (completed t cd ts add_secs h normalizers input now)
  show ?case
    by (simp add: apply_job_completion_typed_def Let_def apply_state_transitions_def
        strategy_result_gate coord_frame) (simp add: upd_runtime_def)
next
  case (reconciled now snap sat t t')
  then show ?case using reconcile_task_core same_core_def by blast
next
  case (gate_evaluated t tn now sat digest ledger)
  then show ?case
    by (auto simp: reconcile_gate_def Let_def withdraw_gate_fields apply_evaluation_fields
        split: option.splits)
next
  case (dispatched t u)
  show ?case
    by (simp add: apply_dispatch_claim_typed_def Let_def touch_state_changed_def upd_runtime_def
        set_workflow_state_def)
qed (auto simp: apply_dispatch_pid_typed_def upd_runtime_def touch_state_changed_def
    set_workflow_state_def merge_success_Inr merge_failure_Inr reclaim_states
    phase_outcome_worktree(3))

lemma gate_fields:
  assumes "t' = fst (reconcile_gate tn now sat digest ledger t)"
  shows "tr_pid (tk_runtime t') = tr_pid (tk_runtime t)"
    and "tr_review_cycles (tk_runtime t') = tr_review_cycles (tk_runtime t)"
    and "workflow_state_of t' = workflow_state_of t
      \<or> workflow_state_of t' \<in> {Some Todo, Some Rejected, Some Approved, Some Expired, Some WaitingApproval}"
proof -
  have w: "tr_pid (tk_runtime (fst (withdraw_gate now t))) = tr_pid (tk_runtime t)"
    "tr_review_cycles (tk_runtime (fst (withdraw_gate now t))) = tr_review_cycles (tk_runtime t)"
    "workflow_state_of (fst (withdraw_gate now t)) \<in> {workflow_state_of t, Some Todo}"
    by (auto simp: withdraw_gate_def set_status_def coord_frame)
  have a: "tr_pid (tk_runtime (fst (apply_evaluation now sb ds ev t))) = tr_pid (tk_runtime t)"
    "tr_review_cycles (tk_runtime (fst (apply_evaluation now sb ds ev t))) = tr_review_cycles (tk_runtime t)"
    for sb ds ev
    by (simp_all add: apply_evaluation_def Let_def set_status_def set_last_error_details_def)
  show "tr_pid (tk_runtime t') = tr_pid (tk_runtime t)"
    and "tr_review_cycles (tk_runtime t') = tr_review_cycles (tk_runtime t)"
    using assms w a by (auto simp: reconcile_gate_def Let_def split: option.splits)
  show "workflow_state_of t' = workflow_state_of t
      \<or> workflow_state_of t' \<in> {Some Todo, Some Rejected, Some Approved, Some Expired, Some WaitingApproval}"
    using assms w(3) evaluate_gate_Some(6)
    by (auto simp: reconcile_gate_def Let_def apply_evaluation_fields(1) split: option.splits)
qed

lemma reconcile_fields:
  assumes "reconcile_task now snap sat t = Some t'"
  shows "tr_pid (tk_runtime t') = tr_pid (tk_runtime t)"
    and "tr_review_cycles (tk_runtime t') = tr_review_cycles (tk_runtime t)"
  using assms
  by (cases rule: reconcile_task_cases;
      simp add: block_external_def block_propagated_def release_block_def block_with_def
        set_status_def set_last_error_details_def)+

lemma phase_outcome_states:
  assumes "planned mx ph t = RunPhase tr" "phase_outcome_or_block t (pt_mode tr) tr verdict err now = Inr t'"
  obtains s where "workflow_state_of t = Some s"
    "(s, workflow_state_of t') \<in>
       {(InProgress, Some Testing), (InProgress, Some PrOpen), (InProgress, Some ChangesRequested),
        (InProgress, Some Blocked), (Testing, Some PrOpen), (Testing, Some ChangesRequested),
        (Testing, Some Blocked), (ChangesRequested, Some InProgress), (ChangesRequested, Some Blocked)}"
    "workflow_state_of t' = Some ChangesRequested \<Longrightarrow>
       tr = review_phase \<and> tr_review_cycles (tk_runtime t')
         = Some (unwrap_or 0 (tr_review_cycles (tk_runtime t)) + 1)"
proof -
  obtain s where s: "workflow_state_of t = Some s"
      "plan_advance s mx (unwrap_or 0 (tr_review_cycles (tk_runtime t))) ph = RunPhase tr"
    using assms(1) by (auto simp: planned_def split: option.splits)
  have mode: "(s, tr) \<in> {(InProgress, test_phase), (InProgress, review_phase), (Testing, review_phase),
      (ChangesRequested, fix_phase)}"
    using s(2) by (cases rule: plan_run_cases) auto
  show thesis
    using assms(2)
  proof (cases rule: phase_outcome_or_block_cases)
    case (blocked m)
    show thesis by (rule that [OF s(1)]) (use mode blocked in \<open>auto simp: block_unapplicable_fields\<close>)
  next
    case applied
    then show thesis
    proof (cases rule: phase_outcome_Inr_cases)
      case (failed reason)
      then have "workflow_state_of t' = Some Blocked"
        using s planned_failure [OF s(2)] by (auto simp: phase_failure_Inr coord_frame split: if_splits)
      then show thesis by (intro that [OF s(1)]) (use mode in auto)
    next
      case (reviewed v t1 t2 nxt)
      then have "workflow_state_of t1 = Some s" using s by (simp add: coord_frame)
      with reviewed have "workflow_state_of t' = Some nxt" "nxt \<in> {PrOpen, ChangesRequested}"
          "tr_review_cycles (tk_runtime t') = Some (unwrap_or 0 (tr_review_cycles (tk_runtime t)) + 1)"
        using planned_success(2) [OF s(2)]
        by (auto simp: review_success_Inr coord_frame set_status_def split: review_verdict.splits)
      moreover have "tr = review_phase" "s \<in> {InProgress, Testing}"
        using mode reviewed(2) by (auto simp: test_phase_def fix_phase_def)
      ultimately show thesis by (intro that [OF s(1)]) auto
    next
      case (succeeded t1 t2)
      then have "workflow_state_of t' = Some (pt_next_state tr)"
        by (auto simp: phase_success_Inr coord_frame)
      then show thesis using mode succeeded(2)
        by (intro that [OF s(1)]) (auto simp: test_phase_def review_phase_def fix_phase_def)
    qed
  qed
qed


section \<open>Invariants of the reachable states\<close>

definition review_count :: "task \<Rightarrow> nat" where
  "review_count t = unwrap_or 0 (tr_review_cycles (tk_runtime t))"

definition gate_states :: "workflow_state list" where
  "gate_states = [Todo, Rejected, Approved, Expired, WaitingApproval, Blocked]"

definition life_inv :: "nat option \<Rightarrow> task \<Rightarrow> bool" where
  "life_inv mx t =
     (workflow_state_of t \<noteq> None
      \<and> (tr_pid (tk_runtime t) \<noteq> None \<longrightarrow> workflow_state_of t = Some Claimed)
      \<and> (is_human_approval_gate t \<longrightarrow> workflow_state_of t \<in> Some ` set gate_states)
      \<and> (case mx of None \<Rightarrow> True
         | Some m \<Rightarrow> review_count t \<le> m
             \<and> (workflow_state_of t = Some ChangesRequested \<longrightarrow> 0 < m)))"

text \<open>Edges the handlers take without the transition table, and the states of a gate.\<close>

definition direct_edges :: "(workflow_state \<times> workflow_state) list" where
  "direct_edges = [(Claimed, Todo), (Claimed, Merged), (Todo, Blocked)]"

definition allowed_edge :: "bool \<Rightarrow> workflow_state \<Rightarrow> workflow_state \<Rightarrow> bool" where
  "allowed_edge human s s' =
     (s = s' \<or> is_valid_workflow_transition s s' \<or> (s, s') \<in> set direct_edges
      \<or> (human \<and> s' \<in> set gate_states))"

lemma allowed_edges_table [simp]:
  "allowed_edge g Todo Claimed" "allowed_edge g s s" "allowed_edge g Claimed Todo"
  "allowed_edge g Claimed Merged" "allowed_edge g Todo Blocked" "allowed_edge g Claimed Blocked"
  "allowed_edge g Claimed InProgress" "allowed_edge g Blocked Todo"
  by (simp_all add: allowed_edge_def is_valid_workflow_transition_def workflow_edges_def direct_edges_def)

text \<open>One step, read as: new state along an allowed edge, no process id unless claimed, one review
  at most.\<close>

lemma merge_failed_state:
  "apply_merge_failure_typed t reason now = Inr t' \<Longrightarrow> workflow_state_of t = Some s \<Longrightarrow>
     workflow_state_of t' = Some Blocked \<and> is_valid_workflow_transition s Blocked"
  by (auto simp: merge_failure_Inr transition_workflow_state_def coord_frame split: if_splits)

lemma merge_success_state:
  "apply_merge_success_typed t now = Inr t' \<Longrightarrow> workflow_state_of t = Some s \<Longrightarrow>
     workflow_state_of t' = Some Merged \<and> is_valid_workflow_transition s Merged"
  using transition_valid merge_transitions(1) by (fastforce simp: merge_success_Inr coord_frame)

lemma merge_outcome_fields:
  "apply_merge_success_typed t now = Inr t' \<Longrightarrow> tr_pid (tk_runtime t') = None \<and> review_count t' = review_count t"
  "apply_merge_failure_typed t reason now = Inr t' \<Longrightarrow>
     tr_pid (tk_runtime t') = None \<and> review_count t' = review_count t"
  by (auto simp: merge_success_Inr merge_failure_Inr review_count_def set_status_def)

lemma reclaimable_pid: "reclaimable ts now grace running has_result t \<Longrightarrow> tr_pid (tk_runtime t) \<noteq> None"
  by (auto simp: reclaimable_def split: option.splits)

lemma planned_mode:
  "planned mx ph t = RunPhase tr \<Longrightarrow> pt_mode tr = ''review'' \<Longrightarrow> tr = review_phase"
  by (auto simp: planned_def test_phase_def fix_phase_def split: option.splits elim!: plan_run_cases)

lemma step_edge:
  assumes step: "task_step mx ph t t'" and inv: "life_inv mx t"
  shows "\<exists>s s'. workflow_state_of t = Some s \<and> workflow_state_of t' = Some s'
    \<and> allowed_edge (is_human_approval_gate t) s s'
    \<and> (tr_pid (tk_runtime t') \<noteq> None \<longrightarrow> s' = Claimed)
    \<and> (s' = ChangesRequested \<and> s \<noteq> ChangesRequested \<longrightarrow>
        planned mx ph t = RunPhase review_phase)
    \<and> (review_count t' = review_count t
       \<or> (planned mx ph t = RunPhase review_phase \<and> review_count t' = review_count t + 1))"
proof -
  obtain s where s: "workflow_state_of t = Some s" using inv by (auto simp: life_inv_def)
  have pid: "tr_pid (tk_runtime t) \<noteq> None \<Longrightarrow> s = Claimed" using inv s by (auto simp: life_inv_def)
  have gate: "is_human_approval_gate t \<Longrightarrow> s \<in> set gate_states" using inv s by (auto simp: life_inv_def)
  show ?thesis
    using step
  proof (cases rule: task_step.cases)
    case (dispatched u)
    then show ?thesis using s by (auto simp: claim_fields review_count_def)
  next
    case (started pid)
    then show ?thesis using s by (auto simp: pid_fields review_count_def)
  next
    case (completed cd ts add_secs h normalizers input now)
    moreover obtain w where "workflow_state_of t' = Some w" "w \<in> {Claimed, Todo, Blocked, Merged, InProgress}"
      using completed completion_fields(3) by blast
    ultimately show ?thesis using s by (auto simp: completion_fields review_count_def)
  next
    case (phase_ended tr verdict err now)
    obtain s' where s': "workflow_state_of t' = Some s'" "is_valid_workflow_transition s s'"
      "s' = ChangesRequested \<Longrightarrow> tr = review_phase"
      using phase_ended(1,2)
    proof (rule phase_outcome_states)
      fix s0
      assume a: "workflow_state_of t = Some s0"
        "(s0, workflow_state_of t') \<in>
           {(InProgress, Some Testing), (InProgress, Some PrOpen), (InProgress, Some ChangesRequested),
            (InProgress, Some Blocked), (Testing, Some PrOpen), (Testing, Some ChangesRequested),
            (Testing, Some Blocked), (ChangesRequested, Some InProgress), (ChangesRequested, Some Blocked)}"
        "workflow_state_of t' = Some ChangesRequested \<Longrightarrow> tr = review_phase
           \<and> tr_review_cycles (tk_runtime t') = Some (unwrap_or 0 (tr_review_cycles (tk_runtime t)) + 1)"
      then obtain s' where "workflow_state_of t' = Some s'" by auto
      then show thesis using a s by (intro that)
        (auto simp: is_valid_workflow_transition_def workflow_edges_def)
    qed
    have "pt_mode tr = ''review'' \<Longrightarrow> tr = review_phase"
      using planned_mode [OF phase_ended(1)] by blast
    then show ?thesis
      using s s' phase_ended(1) phase_outcome_worktree(2) [OF phase_ended(2)]
        phase_outcome_reviews [OF phase_ended(2)]
      by (auto simp: allowed_edge_def review_count_def)
  next
    case (budget_spent reason now)
    then have "s = ChangesRequested"
      using s by (simp add: planned_def plan_budget_states)
    moreover have "workflow_state_of t' = Some Blocked"
      using budget_spent(2)
    proof (cases rule: phase_outcome_or_block_cases)
      case applied
      then show ?thesis
        using s \<open>s = ChangesRequested\<close>
        by (auto simp: apply_phase_outcome_typed_def phase_failure_Inr transition_defs coord_frame)
    qed (simp add: block_unapplicable_fields)
    ultimately show ?thesis
      using s phase_outcome_worktree(2) [OF budget_spent(2)] phase_outcome_reviews [OF budget_spent(2)]
      by (auto simp: allowed_edge_def review_count_def is_valid_workflow_transition_def workflow_edges_def)
  next
    case (merged now)
    then show ?thesis using s merge_success_state merge_outcome_fields(1)
      by (fastforce simp: allowed_edge_def)
  next
    case (merge_failed reason now)
    then show ?thesis using s merge_failed_state merge_outcome_fields(2)
      by (fastforce simp: allowed_edge_def)
  next
    case (reclaimed ts now grace running has_result holds)
    then have "s = Claimed" using pid reclaimable_pid by blast
    then show ?thesis using s reclaimed reclaim_states [of now holds t] by (auto simp: review_count_def)
  next
    case (reconciled now snap sat)
    note f = reconcile_task_states [OF this] reconcile_fields [OF this]
    have "tr_pid (tk_runtime t') = None" using f(1,2) pid s by (cases "tr_pid (tk_runtime t)") auto
    then show ?thesis using s f by (auto simp: review_count_def)
  next
    case (gate_evaluated tn now sat digest ledger)
    then have "tr_pid (tk_runtime t) = None"
      using gate pid by (cases "tr_pid (tk_runtime t)") (auto simp: gate_states_def)
    then show ?thesis using s gate_evaluated(2) gate_fields [OF gate_evaluated(1)]
      by (auto simp: review_count_def allowed_edge_def gate_states_def)
  qed
qed


lemma gate_no_plan:
  "workflow_state_of t = Some s \<Longrightarrow> s \<in> set gate_states \<Longrightarrow> planned mx ph t = Plan_Noop"
  by (auto simp: planned_def plan_advance_def gate_states_def)

lemma step_gate_state:
  assumes "task_step mx ph t t'" "life_inv mx t" "is_human_approval_gate t"
  shows "workflow_state_of t' \<in> Some ` set gate_states"
proof -
  obtain s where s: "workflow_state_of t = Some s" "s \<in> set gate_states"
    using assms(2,3) by (auto simp: life_inv_def)
  then have ns: "s \<noteq> Claimed" by (auto simp: gate_states_def)
  then have pid: "tr_pid (tk_runtime t) = None"
    using assms(2) s(1) by (cases "tr_pid (tk_runtime t)") (auto simp: life_inv_def)
  show ?thesis
    using assms(1)
  proof (cases rule: task_step.cases)
    case (reclaimed ts now grace running has_result holds)
    then show ?thesis using pid reclaimable_pid by blast
  next
    case (reconciled now snap sat)
    then show ?thesis using reconcile_task_states by (fastforce simp: gate_states_def)
  next
    case (gate_evaluated tn now sat digest ledger)
    then show ?thesis using s gate_fields(3) [OF gate_evaluated(1)]
      by (auto simp: gate_states_def)
  qed (use s ns assms(3) gate_no_plan [OF s, of mx ph] in auto)
qed

lemma step_inv: "task_step mx ph t t' \<Longrightarrow> life_inv mx t \<Longrightarrow> life_inv mx t'"
proof -
  assume step: "task_step mx ph t t'" and inv: "life_inv mx t"
  from step_edge [OF this] obtain s s' where s: "workflow_state_of t = Some s"
      "workflow_state_of t' = Some s'" "tr_pid (tk_runtime t') \<noteq> None \<longrightarrow> s' = Claimed"
    and rev: "s' = ChangesRequested \<and> s \<noteq> ChangesRequested \<longrightarrow> planned mx ph t = RunPhase review_phase"
      "review_count t' = review_count t
       \<or> (planned mx ph t = RunPhase review_phase \<and> review_count t' = review_count t + 1)"
    by blast
  have avail: "review_available mx (review_count t) ph" if "planned mx ph t = RunPhase review_phase"
  proof -
    from that s(1) have "plan_advance s mx (review_count t) ph = RunPhase review_phase"
      by (simp add: planned_def review_count_def)
    then show ?thesis
      by (cases rule: plan_run_cases) (simp_all add: review_phase_def test_phase_def fix_phase_def)
  qed
  have gate: "is_human_approval_gate t' \<longrightarrow> workflow_state_of t' \<in> Some ` set gate_states"
    using step_gate_state [OF step inv] step_gate [OF step] by (simp add: is_human_approval_gate_def)
  show "life_inv mx t'"
  proof (cases mx)
    case None
    then show ?thesis using s gate by (simp add: life_inv_def)
  next
    case (Some m)
    then have "review_count t \<le> m" "s = ChangesRequested \<Longrightarrow> 0 < m"
      using inv s(1) by (auto simp: life_inv_def)
    moreover have "planned mx ph t = RunPhase review_phase \<Longrightarrow> review_count t < m"
      using avail Some by (simp add: review_available_def)
    ultimately have "review_count t' \<le> m" "s' = ChangesRequested \<Longrightarrow> 0 < m"
      using rev by auto
    then show ?thesis using s Some gate by (simp add: life_inv_def)
  qed
qed

lemma reachable_inv: "reachable mx ph t \<Longrightarrow> life_inv mx t"
proof (induction rule: reachable_induct)
  case (initial t)
  then show ?case
    by (simp add: initial_task_def life_inv_def review_count_def gate_states_def split: option.split)
next
  case (step t t')
  then show ?case using step_inv by blast
qed

text \<open>A task that is not a gate never leaves \<open>merged\<close>.\<close>

lemma merged_no_plan: "workflow_state_of t = Some Merged \<Longrightarrow> planned mx ph t = Plan_Noop"
  by (simp add: planned_def plan_advance_def)

lemma merged_stays:
  assumes "task_step mx ph t t'" "life_inv mx t" "workflow_state_of t = Some Merged"
    "\<not> is_human_approval_gate t"
  shows "False"
  using assms(1)
proof (cases rule: task_step.cases)
  case (reclaimed ts now grace running has_result holds)
  then show False using assms reclaimable_pid by (auto simp: life_inv_def)
next
  case (reconciled now snap sat)
  then show False using assms(3) reconcile_task_states by fastforce
qed (use assms merged_no_plan in simp_all)

section \<open>Retries along a sequence of attempts\<close>

record attempt =
  at_claim :: dispatch_claim_update
  at_pid :: "int option"
  at_input :: job_completion_input
  at_now :: string

text \<open>Each attempt claims the task, starts its process and completes it; the number of retries charged to
  the budget is returned with the task.\<close>

definition started_attempt :: "task \<Rightarrow> attempt \<Rightarrow> task" where
  "started_attempt t a = apply_dispatch_pid_typed (apply_dispatch_claim_typed t (at_claim a)) (at_pid a)"

fun run_attempts ::
  "codec \<Rightarrow> ts_parser \<Rightarrow> (string \<Rightarrow> int \<Rightarrow> string option) \<Rightarrow> host \<Rightarrow> normalizer_registry
     \<Rightarrow> attempt list \<Rightarrow> task \<Rightarrow> task \<times> nat"
where
  "run_attempts cd ts add_secs h nr [] t = (t, 0)"
| "run_attempts cd ts add_secs h nr (a # as) t =
     (let t1 = started_attempt t a;
          charged = counts_retry (completion_strategy ts add_secs h nr t1 (at_input a) (at_now a));
          t2 = fst (apply_job_completion_typed cd ts add_secs h nr t1 (at_input a) (at_now a));
          (t', n) = run_attempts cd ts add_secs h nr as t2
      in (t', n + (if charged then 1 else 0)))"

lemma retries_started: "retries_count (tk_runtime (started_attempt t a)) = retries_count (tk_runtime t)"
  by (rule retries_cong)
     (simp_all add: started_attempt_def apply_dispatch_pid_typed_def apply_dispatch_claim_typed_def
       Let_def set_status_def set_workflow_state_def)

lemma charged_within_budget:
  assumes "counts_retry (completion_strategy ts add_secs h nr t input now)"
    and "ji_max_attempts input \<le> B" "ji_auto_retry_max input \<le> B" "0 < B"
  shows "retries_count (tk_runtime t) < B"
proof -
  let ?s = "completion_strategy ts add_secs h nr t input now"
  obtain b where b: "budget_of input (from_input input) ?s = Some b" "b \<le> B"
    using assms by (cases ?s rule: counts_retry.cases) (auto simp: from_input_def)
  from resolve_budget [OF completion_strategy_def [symmetric] b(1)] b(2) show ?thesis by linarith
qed

section \<open>Properties\<close>


text \<open>With a review limit no task is reviewed more often than the limit, and the plan never has to
  give up on a task for having spent its reviews: the correction a last review asks for is still made.\<close>

theorem review_budget_respected:
  assumes "reachable (Some m) ph t"
  shows "review_count t \<le> m \<and> planned (Some m) ph t \<noteq> ReviewBudgetExhausted
    \<and> (planned (Some m) ph t = RunPhase review_phase \<longrightarrow> review_count t < m)"
proof -
  note inv = reachable_inv [OF assms]
  obtain s where s: "workflow_state_of t = Some s" using inv by (auto simp: life_inv_def)
  have plan: "planned (Some m) ph t = plan_advance s (Some m) (review_count t) ph"
    by (simp add: planned_def s review_count_def)
  have "review_count t < m" if "planned (Some m) ph t = RunPhase review_phase"
    using that unfolding plan
    by (cases rule: plan_run_cases)
       (simp_all add: review_phase_def test_phase_def fix_phase_def review_available_def)
  moreover have "planned (Some m) ph t \<noteq> ReviewBudgetExhausted"
    using inv s unfolding plan plan_budget_states by (auto simp: life_inv_def)
  ultimately show ?thesis using inv by (simp add: life_inv_def)
qed

text \<open>A merged task that is no gate stays exactly as it is: no handler of the coordinator takes a step
  from it.\<close>

theorem merged_is_final:
  assumes "reachable mx ph t" "workflow_state_of t = Some Merged" "\<not> is_human_approval_gate t"
    and "(task_step mx ph)\<^sup>*\<^sup>* t t'"
  shows "t' = t"
  using assms(4)
proof (cases rule: converse_rtranclpE)
  case (step y)
  then show ?thesis using merged_stays reachable_inv [OF assms(1)] assms(2,3) by blast
qed simp

text \<open>C9: However often a task is dispatched again, the retries charged to its budget never exceed the
  largest budget any of its completions names.\<close>

theorem retries_bounded:
  assumes "\<forall>a \<in> set as. ji_max_attempts (at_input a) \<le> B \<and> ji_auto_retry_max (at_input a) \<le> B"
    and "0 < B" "B < 2 ^ 63"
  shows "snd (run_attempts cd ts add_secs h nr as t) + retries_count (tk_runtime t)
    \<le> max B (retries_count (tk_runtime t))"
  using assms(1)
proof (induction as arbitrary: t)
  case (Cons a as)
  let ?t1 = "started_attempt t a"
  let ?t2 = "fst (apply_job_completion_typed cd ts add_secs h nr ?t1 (at_input a) (at_now a))"
  let ?c = "counts_retry (completion_strategy ts add_secs h nr ?t1 (at_input a) (at_now a))"
  have ih: "snd (run_attempts cd ts add_secs h nr as ?t2) + retries_count (tk_runtime ?t2)
      \<le> max B (retries_count (tk_runtime ?t2))"
    using Cons by simp
  have run: "snd (run_attempts cd ts add_secs h nr (a # as) t) =
      snd (run_attempts cd ts add_secs h nr as ?t2) + (if ?c then 1 else 0)"
    by (simp add: Let_def split: prod.split)
  show ?case
  proof (cases ?c)
    case True
    then have "retries_count (tk_runtime t) < B"
      using charged_within_budget [OF True] Cons.prems assms(2) by (simp add: retries_started)
    moreover from this have "retries_count (tk_runtime ?t2) = retries_count (tk_runtime t) + 1"
      using True assms(3) by (simp add: completion_retries retries_started bumped_Suc)
    ultimately show ?thesis using ih run True by simp
  next
    case False
    then show ?thesis using ih run by (simp add: completion_retries retries_started)
  qed
qed simp

section \<open>Concrete instances\<close>

lemma sample_task_initial: "initial_task (sample_task ''A'' Todo)"
  by (simp add: initial_task_def default_runtime_def)

lemma sample_task_reachable: "reachable mx ph (sample_task ''A'' Todo)"
  using sample_task_initial by (auto simp: reachable_def)

definition sample_claim :: dispatch_claim_update where
  "sample_claim =
     \<lparr>dc_task_id = ''A'', dc_tool = ''codex'', dc_worktree_path = ''/w'', dc_branch = ''b'',
      dc_base_branch = ''main'', dc_last_commit = ''c'', dc_session_id = ''s'',
      dc_active_session_id = None, dc_pid = Some 7, dc_phase = ''dev'', dc_now = ''now'',
      dc_run_id = ''r'', dc_coordinator_epoch = 1\<rparr>"

abbreviation sample_phases :: phases_config where
  "sample_phases \<equiv> \<lparr>ph_testing_enabled = True, ph_review_enabled = True\<rparr>"

lemma sample_dispatched:
  "task_step mx ph (sample_task ''A'' Todo) (apply_dispatch_claim_typed (sample_task ''A'' Todo) sample_claim)"
  by (rule task_step.dispatched) (simp_all add: is_human_approval_gate_def)


theorem review_budget_respected_witness: "review_count (sample_task ''A'' Todo) \<le> 1"
  using review_budget_respected [OF sample_task_reachable, of 1 sample_phases] by blast

theorem retries_bounded_witness:
  "snd (run_attempts sample_codec (\<lambda>_. None) (\<lambda>_ _. None) sample_host (\<lambda>_. None)
     [\<lparr>at_claim = sample_claim, at_pid = Some 7, at_input = sample_input, at_now = ''now''\<rparr>]
     (sample_task ''A'' Todo)) \<le> 1"
  using retries_bounded [of "[\<lparr>at_claim = sample_claim, at_pid = Some 7, at_input = sample_input,
      at_now = ''now''\<rparr>]" 1 sample_codec "\<lambda>_. None" "\<lambda>_ _. None" sample_host "\<lambda>_. None"
      "sample_task ''A'' Todo"]
  by (simp add: sample_input_def default_runtime_def retries_count_def metric_i64_def
      del: run_attempts.simps)

definition sample_satisfied_input :: job_completion_input where
  "sample_satisfied_input = sample_input\<lparr>ji_completion_kind := Some AlreadySatisfied\<rparr>"

definition sample_merged :: task where
  "sample_merged =
     fst (apply_job_completion_typed sample_codec (\<lambda>_. None) (\<lambda>_ _. None) sample_host (\<lambda>_. None)
       (apply_dispatch_claim_typed (sample_task ''A'' Todo) sample_claim) sample_satisfied_input ''now'')"

lemma sample_merged_state: "workflow_state_of sample_merged = Some Merged"
proof -
  have "completion_strategy (\<lambda>_. None) (\<lambda>_ _. None) sample_host (\<lambda>_. None) t sample_satisfied_input ''now''
      = Merge ''done'' AlreadySatisfied None" for t
    unfolding completion_strategy_def completion_class_def
    by (simp add: resolve_retry_strategy_def classify_completion_error_def normalized_error_def
        resolve_completion_authority_def success_strategy_def E602_QUOTA_EXHAUSTED_def sample_input_def
        sample_satisfied_input_def kind_is_error_def Let_def split: bool.split)
  then show ?thesis by (simp add: sample_merged_def completion_workflow)
qed

lemma sample_merged_steps: "(task_step mx ph)\<^sup>*\<^sup>* (sample_task ''A'' Todo) sample_merged"
proof -
  have "task_step mx ph (apply_dispatch_claim_typed (sample_task ''A'' Todo) sample_claim) sample_merged"
    unfolding sample_merged_def by (rule task_step.completed) (rule claim_fields(1))
  with sample_dispatched show ?thesis by (meson r_into_rtranclp rtranclp_trans)
qed

lemma sample_merged_fields:
  "tk_gate sample_merged = None" "tk_id sample_merged = ''A''"
proof -
  have "tk_gate t' = None" if "(task_step None sample_phases)\<^sup>*\<^sup>* (sample_task ''A'' Todo) t'" for t'
    using that by (induction rule: rtranclp_induct) (simp_all add: step_gate)
  then show "tk_gate sample_merged = None" using sample_merged_steps by blast
  show "tk_id sample_merged = ''A''"
    by (simp add: sample_merged_def completion_by_strategy apply_state_transitions_def strategy_result_id
        coord_frame noted_def apply_dispatch_claim_typed_def Let_def)
       (simp add: upd_runtime_def touch_state_changed_def set_workflow_state_def)
qed

theorem merged_is_final_witness:
  "{t'. (task_step None sample_phases)\<^sup>*\<^sup>* sample_merged t'} = {sample_merged}"
proof -
  have reach: "reachable None sample_phases sample_merged"
    unfolding reachable_def using sample_task_initial sample_merged_steps by blast
  have "\<not> is_human_approval_gate sample_merged"
    by (simp add: is_human_approval_gate_def sample_merged_fields)
  from merged_is_final [OF reach sample_merged_state this] show ?thesis by blast
qed

end
