(* ===== verification/Control_Loop.thy ===== *)
theory Control_Loop
  imports Prelude
begin

text \<open>
  The control-plane loop (\<open>core/src/coordinator/engine/fsm.rs\<close>): the controller that decides after
  each cycle whether the run continues, completes or aborts, one cycle over the backend, and the
  loop that tolerates transient errors.  The backend (\<open>trait ControlPlaneBackend\<close>) is a record of
  operations on an arbitrary state; each returns the new state and a result.  The loop may run for
  ever, so it has fuel: \<open>None\<close> is "still running after that many cycles".
\<close>

section \<open>Controller\<close>

record coordinator_counts =
  cn_total :: nat
  cn_todo :: nat
  cn_active :: nat
  cn_blocked :: nat
  cn_merged :: nat
  cn_waiting_approval :: nat

datatype control_plane_decision = Continue | Complete

record stall_diagnosis =
  sd_lines :: "string list"
  sd_terminal_blocked :: bool

definition default_stall :: stall_diagnosis where
  "default_stall = \<lparr>sd_lines = [], sd_terminal_blocked = False\<rparr>"

text \<open>The timeout and the elapsed time are durations in nanoseconds.\<close>

record run_controller =
  rc_timeout :: "nat option"
  rc_max_no_progress_cycles :: nat
  rc_no_progress_cycles :: nat
  rc_previous_counts :: "coordinator_counts option"

definition new_controller :: "nat option \<Rightarrow> nat \<Rightarrow> run_controller" where
  "new_controller timeout max_no_progress =
     \<lparr>rc_timeout = timeout, rc_max_no_progress_cycles = max_no_progress,
      rc_no_progress_cycles = 0, rc_previous_counts = None\<rparr>"

definition nl :: string where "nl = [CHR 0x0A]"

definition bullet_lines :: "string list \<Rightarrow> string" where
  "bullet_lines ls = join nl (map (\<lambda>l. ''  - '' @ l) ls)"

definition blocked_run_error :: "nat \<Rightarrow> stall_diagnosis \<Rightarrow> macc_error" where
  "blocked_run_error blocked stalled =
     (let details = bullet_lines (sd_lines stalled) in
      Validation_Err
        (''Coordinator cannot continue: the run finished with blocked tasks ('' @ show_nat blocked
         @ '').'' @ (if details = [] then [] else nl @ nl @ ''Root blocked task(s):'' @ nl) @ details
         @ nl @ ''Inspect the blocked task, fix its recorded cause, then retry the coordinator.''))"

definition stall_error ::
  "nat \<Rightarrow> coordinator_counts \<Rightarrow> string option \<Rightarrow> stall_diagnosis \<Rightarrow> macc_error" where
  "stall_error cycles counts last_dispatch_failure stalled =
     (let hint = (case last_dispatch_failure of
                    Some msg \<Rightarrow> '' Last dispatch failure: '' @ msg | None \<Rightarrow> []);
          diagnosis = (if sd_lines stalled = [] then []
                       else nl @ nl @ show_nat (length (sd_lines stalled))
                            @ '' task(s) could not be dispatched:'' @ nl
                            @ bullet_lines (sd_lines stalled) @ nl)
      in if sd_terminal_blocked stalled
         then Validation_Err
           (''Coordinator cannot continue: a task is blocked and every remaining todo task depends on a blocked task.''
            @ nl @ nl @ ''Blocking diagnosis:'' @ nl @ bullet_lines (sd_lines stalled) @ nl
            @ ''Inspect the blocked task, fix its recorded cause, then retry the coordinator.'')
         else Validation_Err
           (''Coordinator made no progress for '' @ show_nat cycles @ '' cycles (todo=''
            @ show_nat (cn_todo counts) @ '', active='' @ show_nat (cn_active counts)
            @ '', blocked='' @ show_nat (cn_blocked counts) @ '').'' @ hint @ diagnosis @ nl
            @ ''Run `macc coordinator status`, then `macc coordinator unlock --all`, and inspect logs with `macc logs tail --component coordinator`.''))"

definition timeout_error :: "nat \<Rightarrow> macc_error" where
  "timeout_error timeout =
     Validation_Err (''Coordinator run timed out after '' @ show_nat (timeout div 10 ^ 9)
       @ '' seconds. Run `macc coordinator status` and `macc logs tail --component coordinator`.'')"

definition next_no_progress :: "run_controller \<Rightarrow> coordinator_counts \<Rightarrow> nat" where
  "next_no_progress c counts =
     (if 0 < cn_active counts then 0
      else if rc_previous_counts c = Some counts then rc_no_progress_cycles c + 1
      else 0)"

definition on_cycle_counts_with ::
  "run_controller \<Rightarrow> coordinator_counts \<Rightarrow> string option \<Rightarrow> stall_diagnosis \<Rightarrow> nat
     \<Rightarrow> run_controller \<times> control_plane_decision res" where
  "on_cycle_counts_with c counts last_dispatch_failure diagnosis elapsed =
     (if 0 < cn_waiting_approval counts \<and> cn_active counts = 0
      then (c\<lparr>rc_no_progress_cycles := 0, rc_previous_counts := Some counts\<rparr>, Inr Continue)
      else if cn_todo counts = 0 \<and> cn_active counts = 0
      then (c, if 0 < cn_blocked counts
               then Inl (blocked_run_error (cn_blocked counts) diagnosis)
               else Inr Complete)
      else
        let n = next_no_progress c counts;
            c' = c\<lparr>rc_no_progress_cycles := n, rc_previous_counts := Some counts\<rparr>
        in (c',
            if rc_max_no_progress_cycles c \<le> n
            then Inl (stall_error n counts last_dispatch_failure diagnosis)
            else case rc_timeout c of
                   Some timeout \<Rightarrow>
                     if timeout \<le> elapsed then Inl (timeout_error timeout) else Inr Continue
                 | None \<Rightarrow> Inr Continue))"

definition on_cycle_counts where
  "on_cycle_counts c counts last_dispatch_failure elapsed =
     on_cycle_counts_with c counts last_dispatch_failure default_stall elapsed"

section \<open>One cycle\<close>

record advance_result =
  av_progressed :: bool
  av_blocked_merge :: "(string \<times> string) option"

record 's backend =
  bk_on_cycle_start :: "nat \<Rightarrow> 's \<Rightarrow> 's \<times> unit res"
  bk_monitor_active_jobs :: "'s \<Rightarrow> 's \<times> (string \<times> string) option res"
  bk_monitor_merge_jobs :: "'s \<Rightarrow> 's \<times> (string \<times> string) option res"
  bk_on_blocked_merge :: "string \<Rightarrow> string \<Rightarrow> 's \<Rightarrow> 's \<times> unit res"
  bk_on_integrity_pause :: "string \<Rightarrow> string \<Rightarrow> 's \<Rightarrow> 's \<times> unit res"
  bk_advance_tasks :: "'s \<Rightarrow> 's \<times> advance_result res"
  bk_dispatch_ready_tasks :: "'s \<Rightarrow> 's \<times> nat res"
  bk_on_cycle_end :: "nat \<Rightarrow> advance_result \<Rightarrow> nat \<Rightarrow> 's \<Rightarrow> 's \<times> coordinator_counts res"
  bk_sleep_between_cycles :: "'s \<Rightarrow> 's \<times> unit res"
  bk_should_terminate_run :: "coordinator_counts \<Rightarrow> 's \<Rightarrow> string option"
  bk_last_dispatch_failure :: "'s \<Rightarrow> string option"
  bk_waiting_for_tools :: "'s \<Rightarrow> bool"
  bk_diagnose_stall :: "'s \<Rightarrow> stall_diagnosis"
  bk_elapsed :: "'s \<Rightarrow> nat"

text \<open>Sequencing: an error stops the cycle, with the state reached so far.\<close>

definition seq :: "('s \<Rightarrow> 's \<times> 'a res) \<Rightarrow> ('a \<Rightarrow> 's \<Rightarrow> 's \<times> 'b res) \<Rightarrow> 's \<Rightarrow> 's \<times> 'b res" where
  "seq m f s = (case m s of (s', Inl e) \<Rightarrow> (s', Inl e) | (s', Inr a) \<Rightarrow> f a s')"

definition when_reported ::
  "(string \<Rightarrow> string \<Rightarrow> 's \<Rightarrow> 's \<times> unit res) \<Rightarrow> (string \<times> string) option \<Rightarrow> 's \<Rightarrow> 's \<times> unit res" where
  "when_reported handler report s =
     (case report of None \<Rightarrow> (s, Inr ()) | Some (task_id, reason) \<Rightarrow> handler task_id reason s)"

text \<open>The effects of a cycle up to its counts.\<close>

definition cycle_body :: "'s backend \<Rightarrow> nat \<Rightarrow> 's \<Rightarrow> 's \<times> coordinator_counts res" where
  "cycle_body b cycle =
     seq (bk_on_cycle_start b cycle) (\<lambda>_.
     seq (bk_monitor_active_jobs b) (\<lambda>active.
     seq (when_reported (bk_on_integrity_pause b) active) (\<lambda>_.
     seq (bk_monitor_merge_jobs b) (\<lambda>merged.
     seq (when_reported (bk_on_blocked_merge b) merged) (\<lambda>_.
     seq (bk_advance_tasks b) (\<lambda>advance.
     seq (bk_monitor_active_jobs b) (\<lambda>active'.
     seq (when_reported (bk_on_integrity_pause b) active') (\<lambda>_.
     seq (bk_monitor_merge_jobs b) (\<lambda>merged'.
     seq (when_reported (bk_on_blocked_merge b) (or_else merged' (av_blocked_merge advance))) (\<lambda>_.
     seq (bk_dispatch_ready_tasks b) (\<lambda>dispatched.
     seq (bk_monitor_merge_jobs b) (\<lambda>merged''.
     seq (when_reported (bk_on_blocked_merge b) merged'') (\<lambda>_.
     bk_on_cycle_end b cycle advance dispatched)))))))))))))"

definition run_control_plane_cycle ::
  "'s backend \<Rightarrow> run_controller \<Rightarrow> nat \<Rightarrow> 's \<Rightarrow> ('s \<times> run_controller) \<times> control_plane_decision res"
where
  "run_control_plane_cycle b c cycle s =
     (case cycle_body b cycle s of
        (s', Inl e) \<Rightarrow> ((s', c), Inl e)
      | (s', Inr counts) \<Rightarrow>
          if bk_should_terminate_run b counts s' \<noteq> None then ((s', c), Inr Complete)
          else
            let c1 = (if cn_active counts = 0 \<and> 0 < cn_todo counts \<and> bk_waiting_for_tools b s'
                      then c\<lparr>rc_no_progress_cycles := 0, rc_previous_counts := None\<rparr> else c);
                (c2, decision) = on_cycle_counts_with c1 counts (bk_last_dispatch_failure b s')
                                   (bk_diagnose_stall b s') (bk_elapsed b s')
            in ((s', c2), decision))"

section \<open>The loop\<close>

definition MAX_TRANSIENT_ERRORS :: nat where "MAX_TRANSIENT_ERRORS = 5"

fun control_loop ::
  "nat \<Rightarrow> 's backend \<Rightarrow> nat \<Rightarrow> nat \<Rightarrow> run_controller \<Rightarrow> 's \<Rightarrow> ('s \<times> unit res) option" where
  "control_loop 0 b cycle errors c s = None"
| "control_loop (Suc fuel) b cycle errors c s =
     (case run_control_plane_cycle b c (cycle + 1) s of
        ((s', c'), Inr Continue) \<Rightarrow>
          (case bk_sleep_between_cycles b s' of
             (s2, Inl e) \<Rightarrow> Some (s2, Inl e)
           | (s2, Inr _) \<Rightarrow> control_loop fuel b (cycle + 1) 0 c' s2)
      | ((s', c'), Inr Complete) \<Rightarrow> Some (s', Inr ())
      | ((s', c'), Inl e) \<Rightarrow>
          if is_transient e
          then if MAX_TRANSIENT_ERRORS \<le> errors + 1 then Some (s', Inl e)
               else control_loop fuel b (cycle + 1) (errors + 1) c' s'
          else Some (s', Inl e))"

definition run_control_plane ::
  "nat \<Rightarrow> 's backend \<Rightarrow> nat option \<Rightarrow> nat \<Rightarrow> 's \<Rightarrow> ('s \<times> unit res) option" where
  "run_control_plane fuel b timeout max_no_progress s =
     control_loop fuel b 0 0 (new_controller timeout max_no_progress) s"

definition is_operator_blocked_merge :: "string \<Rightarrow> bool" where
  "is_operator_blocked_merge reason = prefix_of ''failure:local_merge step=merge'' reason"

text \<open>
  The native backend's planned stop: \<open>max_dispatch\<close> is the resolved limit, the other arguments are
  fields of the run state.
\<close>

definition should_terminate_run ::
  "nat \<Rightarrow> nat \<Rightarrow> nat \<Rightarrow> nat \<Rightarrow> coordinator_counts \<Rightarrow> string option" where
  "should_terminate_run max_dispatch dispatched active_jobs active_merge_jobs counts =
     (if 0 < max_dispatch \<and> max_dispatch \<le> dispatched \<and> cn_active counts = 0
         \<and> active_jobs = 0 \<and> active_merge_jobs = 0
      then Some (''Coordinator stopped: dispatch limit reached (dispatched='' @ show_nat dispatched
             @ '', max_dispatch='' @ show_nat max_dispatch @ ''). Remaining: todo=''
             @ show_nat (cn_todo counts) @ '', merged='' @ show_nat (cn_merged counts)
             @ ''. Restart the coordinator to continue.'')
      else None)"

section \<open>Lemmas\<close>

text \<open>The controller, by the shape of the counts.\<close>

lemma counts_complete_iff:
  "snd (on_cycle_counts_with c counts f d e) = Inr Complete \<longleftrightarrow>
     cn_todo counts = 0 \<and> cn_active counts = 0 \<and> cn_blocked counts = 0
     \<and> cn_waiting_approval counts = 0"
  by (auto simp: on_cycle_counts_with_def Let_def split: option.splits)

lemma counts_waiting:
  "0 < cn_waiting_approval counts \<Longrightarrow> cn_active counts = 0 \<Longrightarrow>
     snd (on_cycle_counts_with c counts f d e) = Inr Continue"
  by (simp add: on_cycle_counts_with_def)

lemma controller_config:
  "rc_timeout (fst (on_cycle_counts_with c counts f d e)) = rc_timeout c"
  "rc_max_no_progress_cycles (fst (on_cycle_counts_with c counts f d e)) = rc_max_no_progress_cycles c"
  by (simp_all add: on_cycle_counts_with_def Let_def)

lemma controller_not_transient:
  "snd (on_cycle_counts_with c counts f d e) = Inl err \<Longrightarrow> \<not> is_transient err"
  by (auto simp: on_cycle_counts_with_def Let_def blocked_run_error_def stall_error_def
      timeout_error_def split: if_splits option.splits)

text \<open>The controller after the same idle counts over and over.\<close>

fun repeat_counts ::
  "nat \<Rightarrow> coordinator_counts \<Rightarrow> run_controller \<Rightarrow> run_controller \<times> control_plane_decision res" where
  "repeat_counts 0 counts c = on_cycle_counts_with c counts None default_stall 0"
| "repeat_counts (Suc n) counts c =
     on_cycle_counts_with (fst (repeat_counts n counts c)) counts None default_stall 0"

lemma repeat_counts_state:
  assumes "cn_active counts = 0" "0 < cn_todo counts" "cn_waiting_approval counts = 0"
  shows "fst (repeat_counts n counts (new_controller None m)) =
    \<lparr>rc_timeout = None, rc_max_no_progress_cycles = m, rc_no_progress_cycles = n,
     rc_previous_counts = Some counts\<rparr>"
  using assms
  by (induction n)
     (simp_all add: on_cycle_counts_with_def new_controller_def next_no_progress_def Let_def)

lemma repeat_counts_decision:
  assumes "cn_active counts = 0" "0 < cn_todo counts" "cn_waiting_approval counts = 0"
  shows "snd (repeat_counts n counts (new_controller None m)) =
    (if m \<le> n then Inl (stall_error n counts None default_stall) else Inr Continue)"
  using assms repeat_counts_state [OF assms]
  by (cases n)
     (simp_all add: on_cycle_counts_with_def new_controller_def next_no_progress_def Let_def)

text \<open>The loop with one more cycle of fuel gives the same answer.\<close>

lemma control_loop_more_fuel:
  "control_loop fuel b cycle errors c s = Some r \<Longrightarrow> control_loop (Suc fuel) b cycle errors c s = Some r"
proof (induction fuel arbitrary: cycle errors c s)
  case (Suc fuel)
  show ?case
    using Suc.prems Suc.IH
    by (subst control_loop.simps(2), subst (asm) control_loop.simps(2))
       (auto split: prod.splits sum.splits control_plane_decision.splits if_splits
         simp del: control_loop.simps)
qed simp


text \<open>Consecutive cycles that fail with a transient error, and the last of their errors.\<close>

inductive failing_cycles ::
  "'s backend \<Rightarrow> nat \<Rightarrow> run_controller \<Rightarrow> 's \<Rightarrow> nat \<Rightarrow> 's \<Rightarrow> macc_error \<Rightarrow> bool"
  for b :: "'s backend" where
  last_failure: "run_control_plane_cycle b c (cycle + 1) s = ((s', c'), Inl e) \<Longrightarrow> is_transient e \<Longrightarrow>
     failing_cycles b cycle c s 1 s' e"
| failure: "run_control_plane_cycle b c (cycle + 1) s = ((s', c'), Inl e') \<Longrightarrow> is_transient e' \<Longrightarrow>
     failing_cycles b (cycle + 1) c' s' n s'' e \<Longrightarrow> failing_cycles b cycle c s (n + 1) s'' e"

lemma control_loop_transient:
  assumes sleep: "\<And>s. \<exists>s'. bk_sleep_between_cycles b s = (s', Inr ())"
  shows "control_loop fuel b cycle errors c s = Some (s', Inl e) \<Longrightarrow> is_transient e \<Longrightarrow>
    errors < MAX_TRANSIENT_ERRORS \<Longrightarrow>
    failing_cycles b cycle c s (MAX_TRANSIENT_ERRORS - errors) s' e
    \<or> (\<exists>cycle0 c0 s0. failing_cycles b cycle0 c0 s0 MAX_TRANSIENT_ERRORS s' e)"
proof (induction fuel arbitrary: cycle errors c s)
  case (Suc fuel)
  obtain s1 c1 out where cyc: "run_control_plane_cycle b c (cycle + 1) s = ((s1, c1), out)"
    by (metis prod.exhaust)
  show ?case
  proof (cases out)
    case (Inl e1)
    show ?thesis
    proof (cases "is_transient e1")
      case False
      then show ?thesis using Suc.prems cyc Inl by simp
    next
      case tr: True
      show ?thesis
      proof (cases "MAX_TRANSIENT_ERRORS \<le> errors + 1")
        case True
        then have "s1 = s'" "e1 = e" "MAX_TRANSIENT_ERRORS - errors = 1"
          using Suc.prems cyc Inl tr by simp_all
        then show ?thesis using cyc Inl tr failing_cycles.last_failure [of b c cycle s s' c1 e] by simp
      next
        case False
        then have "control_loop fuel b (cycle + 1) (errors + 1) c1 s1 = Some (s', Inl e)"
          using Suc.prems cyc Inl tr by simp
        from Suc.IH [OF this Suc.prems(2)] False
        consider "failing_cycles b (cycle + 1) c1 s1 (MAX_TRANSIENT_ERRORS - (errors + 1)) s' e"
          | "\<exists>cycle0 c0 s0. failing_cycles b cycle0 c0 s0 MAX_TRANSIENT_ERRORS s' e" by fastforce
        then show ?thesis
        proof cases
          case 1
          from failing_cycles.failure [OF cyc [unfolded Inl] tr this]
          have "failing_cycles b cycle c s (MAX_TRANSIENT_ERRORS - errors) s' e"
            using Suc.prems(3) by (simp add: Suc_diff_Suc)
          then show ?thesis ..
        qed simp
      qed
    qed
  next
    case (Inr d)
    show ?thesis
    proof (cases d)
      case Continue
      obtain s2 where "bk_sleep_between_cycles b s1 = (s2, Inr ())" using sleep by blast
      then have "control_loop fuel b (cycle + 1) 0 c1 s2 = Some (s', Inl e)"
        using Suc.prems cyc Inr Continue by simp
      from Suc.IH [OF this Suc.prems(2)] show ?thesis by (auto simp: MAX_TRANSIENT_ERRORS_def)
    next
      case Complete
      then show ?thesis using Suc.prems cyc Inr by simp
    qed
  qed
qed simp

lemma failing_cycles_stop:
  "failing_cycles b cycle c s n s' e \<Longrightarrow> errors + n = MAX_TRANSIENT_ERRORS \<Longrightarrow>
     control_loop n b cycle errors c s = Some (s', Inl e)"
proof (induction arbitrary: errors rule: failing_cycles.induct)
  case (last_failure c cycle s s' c' e)
  then show ?case by simp
next
  case (failure c cycle s s' c' e' n s'' e)
  moreover have "0 < n" using failure(3) by (cases rule: failing_cycles.cases) auto
  ultimately show ?case by simp
qed

text \<open>A run that ends well ended with a cycle that asked for it.\<close>

lemma control_loop_complete:
  "control_loop fuel b cycle errors c s = Some (s', Inr u) \<Longrightarrow>
     \<exists>cycle0 c0 s0 c1. run_control_plane_cycle b c0 cycle0 s0 = ((s', c1), Inr Complete)"
proof (induction fuel arbitrary: cycle errors c s)
  case (Suc fuel)
  then show ?case
    by (fastforce split: prod.splits sum.splits control_plane_decision.splits if_splits)
qed simp

lemma cycle_complete:
  assumes "run_control_plane_cycle b c cycle s = ((s', c'), Inr Complete)"
  shows "\<exists>counts. cycle_body b cycle s = (s', Inr counts)
    \<and> (bk_should_terminate_run b counts s' \<noteq> None
       \<or> (cn_todo counts = 0 \<and> cn_active counts = 0 \<and> cn_blocked counts = 0
          \<and> cn_waiting_approval counts = 0))"
proof -
  obtain s1 out where body: "cycle_body b cycle s = (s1, out)" by (rule prod.exhaust)
  then obtain counts where out: "out = Inr counts"
    using assms by (cases out) (auto simp: run_control_plane_cycle_def)
  show ?thesis
  proof (cases "bk_should_terminate_run b counts s1 = None")
    case True
    let ?c1 = "if cn_active counts = 0 \<and> 0 < cn_todo counts \<and> bk_waiting_for_tools b s1
      then c\<lparr>rc_no_progress_cycles := 0, rc_previous_counts := None\<rparr> else c"
    have "s1 = s'" "snd (on_cycle_counts_with ?c1 counts (bk_last_dispatch_failure b s1)
        (bk_diagnose_stall b s1) (bk_elapsed b s1)) = Inr Complete"
      using assms body out True
      by (auto simp: run_control_plane_cycle_def Let_def case_prod_beta split del: if_split)
    then show ?thesis using body out unfolding counts_complete_iff by simp
  next
    case False
    then show ?thesis using assms body out by (simp add: run_control_plane_cycle_def)
  qed
qed

section \<open>Properties\<close>

text \<open>C10: A run reports success only when its last cycle counted nothing left to do (no \<open>todo\<close>, active,
  blocked or waiting task) or the backend asked to stop on purpose.\<close>

theorem run_success_means_done:
  assumes "run_control_plane fuel b timeout mx s = Some (s', Inr u)"
  shows "\<exists>cycle s0 counts. cycle_body b cycle s0 = (s', Inr counts)
    \<and> (bk_should_terminate_run b counts s' \<noteq> None
       \<or> (cn_todo counts = 0 \<and> cn_active counts = 0 \<and> cn_blocked counts = 0
          \<and> cn_waiting_approval counts = 0))"
proof -
  obtain cycle0 c0 s0 c1 where "run_control_plane_cycle b c0 cycle0 s0 = ((s', c1), Inr Complete)"
    using control_loop_complete [OF assms [unfolded run_control_plane_def]] by blast
  from cycle_complete [OF this] show ?thesis by blast
qed

text \<open>Transient errors are tolerated exactly five times in a row: a run that ends in one went through
  five failing cycles with nothing in between, and five failing cycles at its start end it with the
  error of the fifth.\<close>

theorem five_transient_errors:
  assumes "\<And>s. \<exists>s'. bk_sleep_between_cycles b s = (s', Inr ())" and "is_transient e"
  shows "(run_control_plane fuel b timeout mx s = Some (s', Inl e) \<longrightarrow>
      (\<exists>cycle0 c0 s0. failing_cycles b cycle0 c0 s0 5 s' e))
    \<and> (failing_cycles b 0 (new_controller timeout mx) s 5 s' e \<longrightarrow>
      run_control_plane 5 b timeout mx s = Some (s', Inl e))"
proof -
  have "\<exists>cycle0 c0 s0. failing_cycles b cycle0 c0 s0 5 s' e"
    if "run_control_plane fuel b timeout mx s = Some (s', Inl e)"
    using control_loop_transient [OF assms(1) that [unfolded run_control_plane_def] assms(2)]
    by (auto simp: MAX_TRANSIENT_ERRORS_def)
  moreover have "run_control_plane 5 b timeout mx s = Some (s', Inl e)"
    if "failing_cycles b 0 (new_controller timeout mx) s 5 s' e"
    using failing_cycles_stop [OF that, of 0] by (simp add: run_control_plane_def MAX_TRANSIENT_ERRORS_def)
  ultimately show ?thesis by blast
qed

text \<open>The controller's decision on a cycle: it completes exactly when nothing is left, it never ends a
  run while a person is asked for an approval and nothing else runs, it reports blocked tasks when
  nothing else is left, and no error of its own is transient, so none of them is retried.\<close>

theorem controller_decisions:
  fixes c counts f d elapsed
  defines "decision \<equiv> snd (on_cycle_counts_with c counts f d elapsed)"
  shows "(decision = Inr Complete \<longleftrightarrow> cn_todo counts = 0 \<and> cn_active counts = 0 \<and> cn_blocked counts = 0
      \<and> cn_waiting_approval counts = 0)
    \<and> (if 0 < cn_waiting_approval counts \<and> cn_active counts = 0 then decision = Inr Continue
       else if cn_todo counts = 0 \<and> cn_active counts = 0 \<and> 0 < cn_blocked counts
       then decision = Inl (blocked_run_error (cn_blocked counts) d)
       else True)
    \<and> (case decision of Inl e \<Rightarrow> \<not> is_transient e | Inr _ \<Rightarrow> True)"
  using counts_complete_iff [of c counts f d elapsed] counts_waiting [of counts c f d elapsed]
    controller_not_transient [of c counts f d elapsed]
  by (cases decision) (simp_all add: decision_def on_cycle_counts_with_def)

text \<open>A run that makes no progress is stopped after exactly the configured number of cycles: while the
  same counts with \<open>todo\<close> tasks and nothing active come back, the controller goes on for that many
  cycles and then reports a stall.\<close>

theorem stall_after_bound:
  assumes "cn_active counts = 0" "0 < cn_todo counts" "cn_waiting_approval counts = 0"
  shows "snd (repeat_counts n counts (new_controller None m)) =
    (if n < m then Inr Continue else Inl (stall_error n counts None default_stall))"
  using repeat_counts_decision [OF assms] by simp

definition sample_counts :: coordinator_counts where
  "sample_counts =
     \<lparr>cn_total = 1, cn_todo = 1, cn_active = 0, cn_blocked = 0, cn_merged = 0, cn_waiting_approval = 0\<rparr>"

theorem stall_after_bound_witness:
  "snd (repeat_counts 3 sample_counts (new_controller None 3))
     = Inl (stall_error 3 sample_counts None default_stall)"
  using stall_after_bound [of sample_counts 3 3] by (simp add: sample_counts_def)

definition sample_backend :: "coordinator_counts res \<Rightarrow> unit backend" where
  "sample_backend result =
     \<lparr>bk_on_cycle_start = \<lambda>_ s. (s, Inr ()), bk_monitor_active_jobs = \<lambda>s. (s, Inr None),
      bk_monitor_merge_jobs = \<lambda>s. (s, Inr None), bk_on_blocked_merge = \<lambda>_ _ s. (s, Inr ()),
      bk_on_integrity_pause = \<lambda>_ _ s. (s, Inr ()),
      bk_advance_tasks = \<lambda>s. (s, Inr \<lparr>av_progressed = False, av_blocked_merge = None\<rparr>),
      bk_dispatch_ready_tasks = \<lambda>s. (s, Inr 0), bk_on_cycle_end = \<lambda>_ _ _ s. (s, result),
      bk_sleep_between_cycles = \<lambda>s. (s, Inr ()), bk_should_terminate_run = \<lambda>_ _. None,
      bk_last_dispatch_failure = \<lambda>_. None, bk_waiting_for_tools = \<lambda>_. False,
      bk_diagnose_stall = \<lambda>_. default_stall, bk_elapsed = \<lambda>_. 0\<rparr>"

lemma sample_cycle: "cycle_body (sample_backend result) n s = (s, result)"
  by (simp add: cycle_body_def sample_backend_def seq_def when_reported_def)

theorem run_success_means_done_witness:
  "\<exists>cycle counts. cycle_body (sample_backend (Inr (sample_counts\<lparr>cn_todo := 0\<rparr>))) cycle () = ((), Inr counts)
     \<and> cn_todo counts = 0"
proof -
  let ?b = "sample_backend (Inr (sample_counts\<lparr>cn_todo := 0\<rparr>))"
  have "run_control_plane 1 ?b None 3 () = Some ((), Inr ())"
    unfolding run_control_plane_def One_nat_def control_loop.simps run_control_plane_cycle_def sample_cycle
    by (simp add: sample_backend_def sample_counts_def on_cycle_counts_with_def)
  from run_success_means_done [OF this] show ?thesis by (auto simp: sample_backend_def)
qed

theorem five_transient_errors_witness:
  "\<exists>e. is_transient e \<and> run_control_plane 5 (sample_backend (Inl e)) None 3 () = Some ((), Inl e)"
proof -
  define e where "e = Storage_Err ''sqlite'' ''busy''"
  have tr: "is_transient e" by (simp add: e_def)
  have cyc: "run_control_plane_cycle (sample_backend (Inl e)) c n () = (((), c), Inl e)" for c n
    by (simp add: run_control_plane_cycle_def sample_cycle)
  have one: "failing_cycles (sample_backend (Inl e)) n c () 1 () e" for n c
    by (rule failing_cycles.last_failure [OF cyc tr])
  have more: "failing_cycles (sample_backend (Inl e)) n c () (k + 1) () e"
    if "\<And>n c. failing_cycles (sample_backend (Inl e)) n c () k () e" for n c k
    by (rule failing_cycles.failure [OF cyc tr that])
  have "failing_cycles (sample_backend (Inl e)) n c () (1 + 1 + 1 + 1 + 1) () e" for n c
    by (intro more one)
  then have five: "failing_cycles (sample_backend (Inl e)) 0 (new_controller None 3) () 5 () e"
    by (simp add: numeral_eq_Suc)
  have sleep: "\<exists>s'. bk_sleep_between_cycles (sample_backend (Inl e)) s = (s', Inr ())" for s
    by (simp add: sample_backend_def)
  from five_transient_errors [OF sleep tr] five tr show ?thesis by blast
qed

end
