(* ===== verification/Routing.thy ===== *)
theory Routing
  imports Model
begin

text \<open>
  The choice of a model tier and a reasoning depth for a task that is dispatched
  (\<open>model_routing.rs\<close>): the defaults of a phase, the hints of the PRD task, the manual mode and the
  budget option.
\<close>

section \<open>Tiers, depths and decisions\<close>

datatype model_tier = Mini | Tier_Standard | Heavy

fun tier_as_str :: "model_tier \<Rightarrow> string" where
  "tier_as_str Mini = ''mini''"
| "tier_as_str Tier_Standard = ''standard''"
| "tier_as_str Heavy = ''heavy''"

datatype reasoning_depth = Light | Depth_Standard | Deep

fun depth_as_str :: "reasoning_depth \<Rightarrow> string" where
  "depth_as_str Light = ''light''"
| "depth_as_str Depth_Standard = ''standard''"
| "depth_as_str Deep = ''deep''"

record routing_decision =
  rd_tier :: model_tier
  rd_reasoning_depth :: reasoning_depth
  rd_mode :: string
  rd_reasons :: "string list"

definition routing_summary :: "routing_decision \<Rightarrow> string" where
  "routing_summary d =
     (if rd_mode d = ''auto'' then ''Auto'' else ''Manual'') @ '' -> '' @ tier_as_str (rd_tier d)
     @ '' / '' @ depth_as_str (rd_reasoning_depth d) @ '' reasoning (''
     @ (if rd_reasons d = [] then ''defaults'' else join '', '' (rd_reasons d)) @ '')''"

section \<open>Hints\<close>

record routing_hints =
  rh_execution_mode :: "string option"
  rh_reasoning_depth :: "string option"
  rh_context_scope :: "string option"
  rh_risk_level :: "string option"
  rh_validation_profile :: "string option"

definition no_hints :: routing_hints where
  "no_hints =
     \<lparr>rh_execution_mode = None, rh_reasoning_depth = None, rh_context_scope = None,
      rh_risk_level = None, rh_validation_profile = None\<rparr>"

definition extract_routing_hints :: "task \<Rightarrow> routing_hints" where
  "extract_routing_hints t =
     (case bt_get (tk_extra t) ''routing_hints'' of
        None \<Rightarrow> no_hints
      | Some v \<Rightarrow>
          if \<not> is_object v then no_hints
          else let field = (\<lambda>k. Option.bind (json_get v k) as_str)
               in \<lparr>rh_execution_mode = field ''execution_mode'',
                   rh_reasoning_depth = field ''reasoning_depth'',
                   rh_context_scope = field ''context_scope'',
                   rh_risk_level = field ''risk_level'',
                   rh_validation_profile = field ''validation_profile''\<rparr>)"

definition phase_defaults :: "string \<Rightarrow> model_tier \<times> reasoning_depth" where
  "phase_defaults phase =
     (if phase \<in> {''exploration'', ''triage'', ''summarization'', ''log_reading'', ''light_review''}
      then (Mini, Light)
      else if phase \<in> {''architecture'', ''deep_refactor''} then (Heavy, Deep)
      else (Tier_Standard, Depth_Standard))"

section \<open>Orders\<close>

fun tier_rank :: "model_tier \<Rightarrow> nat" where
  "tier_rank Mini = 0" | "tier_rank Tier_Standard = 1" | "tier_rank Heavy = 2"

fun depth_rank :: "reasoning_depth \<Rightarrow> nat" where
  "depth_rank Light = 0" | "depth_rank Depth_Standard = 1" | "depth_rank Deep = 2"

instantiation model_tier :: linorder
begin

definition less_eq_model_tier :: "model_tier \<Rightarrow> model_tier \<Rightarrow> bool" where
  "less_eq_model_tier a b = (tier_rank a \<le> tier_rank b)"

definition less_model_tier :: "model_tier \<Rightarrow> model_tier \<Rightarrow> bool" where
  "less_model_tier a b = (tier_rank a < tier_rank b)"

instance
proof
  fix a b :: model_tier
  show "a \<le> b \<Longrightarrow> b \<le> a \<Longrightarrow> a = b"
    by (cases a; cases b) (simp_all add: less_eq_model_tier_def)
qed (auto simp: less_eq_model_tier_def less_model_tier_def)

end

instantiation reasoning_depth :: linorder
begin

definition less_eq_reasoning_depth :: "reasoning_depth \<Rightarrow> reasoning_depth \<Rightarrow> bool" where
  "less_eq_reasoning_depth a b = (depth_rank a \<le> depth_rank b)"

definition less_reasoning_depth :: "reasoning_depth \<Rightarrow> reasoning_depth \<Rightarrow> bool" where
  "less_reasoning_depth a b = (depth_rank a < depth_rank b)"

instance
proof
  fix a b :: reasoning_depth
  show "a \<le> b \<Longrightarrow> b \<le> a \<Longrightarrow> a = b"
    by (cases a; cases b) (simp_all add: less_eq_reasoning_depth_def)
qed (auto simp: less_eq_reasoning_depth_def less_reasoning_depth_def)

end

definition max_tier :: "model_tier \<Rightarrow> model_tier \<Rightarrow> model_tier" where
  "max_tier a b = (if tier_rank a \<ge> tier_rank b then a else b)"

definition max_depth :: "reasoning_depth \<Rightarrow> reasoning_depth \<Rightarrow> reasoning_depth" where
  "max_depth a b = (if depth_rank a \<ge> depth_rank b then a else b)"

definition min_tier :: "model_tier \<Rightarrow> model_tier \<Rightarrow> model_tier" where
  "min_tier a b = (if tier_rank a \<le> tier_rank b then a else b)"

definition min_depth :: "reasoning_depth \<Rightarrow> reasoning_depth \<Rightarrow> reasoning_depth" where
  "min_depth a b = (if depth_rank a \<le> depth_rank b then a else b)"

text \<open>The code's maxima and minima are those of the orders.\<close>

lemma tier_order [simp]: "max_tier a b = max a b" "min_tier a b = min a b"
  by (cases a; cases b; simp add: max_tier_def min_tier_def max_def min_def less_eq_model_tier_def)+

lemma depth_order [simp]: "max_depth a b = max a b" "min_depth a b = min a b"
  by (cases a; cases b; simp add: max_depth_def min_depth_def max_def min_def less_eq_reasoning_depth_def)+

lemma tier_extremes [simp]:
  "max t Heavy = Heavy" "min t Mini = Mini" "max t Tier_Standard = (if t = Mini then Tier_Standard else t)"
  by (cases t; simp add: max_def min_def less_eq_model_tier_def)+

lemma depth_extremes [simp]: "max d Deep = Deep" "min d Light = Light"
  by (cases d; simp add: max_def min_def less_eq_reasoning_depth_def)+

section \<open>The configuration\<close>

datatype routing_mode = Auto | Manual

fun routing_mode_as_str :: "routing_mode \<Rightarrow> string" where
  "routing_mode_as_str Auto = ''auto''"
| "routing_mode_as_str Manual = ''manual''"

record routing_manual_config =
  rm_default_tool :: "string option"
  rm_default_model :: "string option"
  rm_default_reasoning_depth :: "string option"

record routing_auto_config =
  ra_policy :: string
  ra_allow_escalation :: bool
  ra_allow_tool_fallback :: bool
  ra_allow_model_fallback :: bool
  ra_prefer_mini_under_budget_pressure :: bool

record routing_config =
  rc_mode :: routing_mode
  rc_client_override_allowed :: bool
  rc_manual :: "routing_manual_config option"
  rc_auto :: "routing_auto_config option"

definition tier_from_str :: "string \<Rightarrow> model_tier option" where
  "tier_from_str s =
     (if s = ''mini'' then Some Mini else if s = ''standard'' then Some Tier_Standard
      else if s = ''heavy'' then Some Heavy else None)"

definition depth_from_str :: "string \<Rightarrow> reasoning_depth option" where
  "depth_from_str s =
     (if s = ''light'' then Some Light else if s = ''standard'' then Some Depth_Standard
      else if s = ''deep'' then Some Deep else None)"

definition manual_defaults :: "routing_config option \<Rightarrow> model_tier \<times> reasoning_depth" where
  "manual_defaults cfg =
     (let manual = Option.bind cfg rc_manual
      in (unwrap_or Tier_Standard
            (Option.bind (Option.bind manual rm_default_model) tier_from_str),
          unwrap_or Depth_Standard
            (Option.bind (Option.bind manual rm_default_reasoning_depth) depth_from_str)))"

section \<open>The decision\<close>

text \<open>The state of the routine: tier, depth and the reasons so far; one step per hint.\<close>

type_synonym routing_state = "model_tier \<times> reasoning_depth \<times> string list"

definition apply_execution_mode :: "routing_hints \<Rightarrow> routing_state \<Rightarrow> routing_state" where
  "apply_execution_mode h = (\<lambda>(tier, depth, reasons).
     if rh_execution_mode h = Some ''structural''
     then (max_tier tier Heavy, max_depth depth Deep, reasons @ [''execution_mode=structural''])
     else if rh_execution_mode h = Some ''micro''
     then (min_tier tier Mini, min_depth depth Light, reasons @ [''execution_mode=micro''])
     else (tier, depth, reasons))"

definition apply_context_scope :: "routing_hints \<Rightarrow> routing_state \<Rightarrow> routing_state" where
  "apply_context_scope h = (\<lambda>(tier, depth, reasons).
     if rh_context_scope h = Some ''cross-cutting''
     then (max_tier tier Heavy, max_depth depth Deep, reasons @ [''context_scope=cross-cutting''])
     else if rh_context_scope h = Some ''local'' \<and> rh_execution_mode h = Some ''micro''
     then (min_tier tier Mini, depth, reasons)
     else (tier, depth, reasons))"

definition apply_risk_level :: "routing_hints \<Rightarrow> routing_state \<Rightarrow> routing_state" where
  "apply_risk_level h = (\<lambda>(tier, depth, reasons).
     if rh_risk_level h = Some ''high''
     then (max_tier tier Heavy, max_depth depth Deep, reasons @ [''risk_level=high''])
     else if rh_risk_level h = Some ''low'' \<and> tier = Tier_Standard \<and> depth = Depth_Standard
     then (Mini, Light, reasons @ [''risk_level=low''])
     else (tier, depth, reasons))"

definition apply_validation_profile :: "routing_hints \<Rightarrow> routing_state \<Rightarrow> routing_state" where
  "apply_validation_profile h = (\<lambda>(tier, depth, reasons).
     if rh_validation_profile h = Some ''heavy''
     then (max_tier tier Heavy, max_depth depth Deep, reasons @ [''validation_profile=heavy''])
     else if rh_validation_profile h = Some ''light''
     then (tier, min_depth depth Light, reasons @ [''validation_profile=light''])
     else (tier, depth, reasons))"

definition apply_reasoning_depth :: "routing_hints \<Rightarrow> routing_state \<Rightarrow> routing_state" where
  "apply_reasoning_depth h = (\<lambda>(tier, depth, reasons).
     if rh_reasoning_depth h = Some ''deep''
     then (max_tier tier Tier_Standard, max_depth depth Deep, reasons @ [''reasoning_depth=deep''])
     else if rh_reasoning_depth h = Some ''light''
     then (tier, min_depth depth Light, reasons @ [''reasoning_depth=light''])
     else if rh_reasoning_depth h = Some ''standard''
     then (tier, Depth_Standard, reasons)
     else (tier, depth, reasons))"

definition apply_budget :: "routing_config option \<Rightarrow> string \<Rightarrow> routing_state \<Rightarrow> routing_state" where
  "apply_budget cfg phase = (\<lambda>(tier, depth, reasons).
     case Option.bind cfg rc_auto of
       None \<Rightarrow> (tier, depth, reasons)
     | Some auto \<Rightarrow>
         if ra_prefer_mini_under_budget_pressure auto \<and> tier = Tier_Standard \<and> length reasons = 1
            \<and> phase \<notin> {''review'', ''architecture'', ''deep_refactor''}
         then (Mini, Light, reasons @ [''prefer_mini_budget_pressure''])
         else (tier, depth, reasons))"

definition decide :: "task \<Rightarrow> string \<Rightarrow> routing_config option \<Rightarrow> routing_decision" where
  "decide t phase cfg =
     (if unwrap_or ''auto'' (map_option (\<lambda>c. routing_mode_as_str (rc_mode c)) cfg) = ''manual''
      then \<lparr>rd_tier = fst (manual_defaults cfg), rd_reasoning_depth = snd (manual_defaults cfg),
            rd_mode = ''manual'', rd_reasons = [''manual mode'']\<rparr>
      else
        let h = extract_routing_hints t;
            (tier, depth, reasons) =
              apply_budget cfg phase
                (apply_reasoning_depth h
                  (apply_validation_profile h
                    (apply_risk_level h
                      (apply_context_scope h
                        (apply_execution_mode h
                          (fst (phase_defaults phase), snd (phase_defaults phase),
                           [''phase='' @ phase]))))))
        in \<lparr>rd_tier = tier, rd_reasoning_depth = depth, rd_mode = ''auto'', rd_reasons = reasons\<rparr>)"

section \<open>Lemmas\<close>

text \<open>The hints that ask for the heavy tier.\<close>

definition escalates :: "routing_hints \<Rightarrow> bool" where
  "escalates h =
     (rh_execution_mode h = Some ''structural'' \<or> rh_context_scope h = Some ''cross-cutting''
      \<or> rh_risk_level h = Some ''high'' \<or> rh_validation_profile h = Some ''heavy'')"

definition manual_mode :: "routing_config option \<Rightarrow> bool" where
  "manual_mode cfg = (case cfg of None \<Rightarrow> False | Some c \<Rightarrow> rc_mode c = Manual)"

lemma manual_mode_text:
  "(unwrap_or ''auto'' (map_option (\<lambda>c. routing_mode_as_str (rc_mode c)) cfg) = ''manual'') = manual_mode cfg"
proof (cases cfg)
  case (Some c)
  then show ?thesis by (cases "rc_mode c") (simp_all add: manual_mode_def)
qed (simp add: manual_mode_def)

lemmas step_defs = apply_execution_mode_def apply_context_scope_def apply_risk_level_def
  apply_validation_profile_def apply_reasoning_depth_def apply_budget_def

text \<open>When a step leaves the heavy tier.\<close>

lemma heavy_steps:
  "fst (apply_execution_mode h st) = Heavy \<longleftrightarrow>
     rh_execution_mode h = Some ''structural'' \<or> (rh_execution_mode h \<noteq> Some ''micro'' \<and> fst st = Heavy)"
  "fst (apply_context_scope h st) = Heavy \<longleftrightarrow> rh_context_scope h = Some ''cross-cutting''
     \<or> (\<not> (rh_context_scope h = Some ''local'' \<and> rh_execution_mode h = Some ''micro'') \<and> fst st = Heavy)"
  "fst (apply_risk_level h st) = Heavy \<longleftrightarrow> rh_risk_level h = Some ''high'' \<or> fst st = Heavy"
  "fst (apply_validation_profile h st) = Heavy \<longleftrightarrow> rh_validation_profile h = Some ''heavy'' \<or> fst st = Heavy"
  "fst (apply_reasoning_depth h st) = Heavy \<longleftrightarrow> fst st = Heavy"
  "fst (apply_budget cfg phase st) = Heavy \<longleftrightarrow> fst st = Heavy"
  by (cases st; auto simp: step_defs split: option.splits)+

text \<open>No step gives the deepest reasoning to the smallest tier.\<close>

definition balanced :: "routing_state \<Rightarrow> bool" where
  "balanced st = (fst st \<noteq> Mini \<or> fst (snd st) \<noteq> Deep)"

lemma balanced_steps:
  "balanced st \<Longrightarrow> balanced (apply_context_scope h (apply_execution_mode h st))"
  "balanced st \<Longrightarrow> balanced (apply_risk_level h st)"
  "balanced st \<Longrightarrow> balanced (apply_validation_profile h st)"
  "balanced st \<Longrightarrow> balanced (apply_reasoning_depth h st)"
  "balanced st \<Longrightarrow> balanced (apply_budget cfg phase st)"
  by (cases st; auto simp: step_defs balanced_def split: option.splits if_splits)+

lemma balanced_defaults: "balanced (fst (phase_defaults phase), snd (phase_defaults phase), reasons)"
  by (simp add: balanced_def phase_defaults_def)

section \<open>Properties\<close>

text \<open>In manual mode the decision is the configured default and no task, hint or phase changes it.
  In automatic mode a task gets the heavy tier exactly when one of its hints escalates (structural
  work, cross-cutting scope, high risk, heavy validation), or its phase is architecture or deep
  refactoring and it is not marked as micro work; and deep reasoning is never given to the mini tier.\<close>

theorem routing_tier:
  "if manual_mode cfg
   then (rd_tier (decide t phase cfg), rd_reasoning_depth (decide t phase cfg)) = manual_defaults cfg
   else (rd_tier (decide t phase cfg) = Heavy \<longleftrightarrow>
           escalates (extract_routing_hints t)
           \<or> (phase \<in> {''architecture'', ''deep_refactor''}
              \<and> rh_execution_mode (extract_routing_hints t) \<noteq> Some ''micro''))
     \<and> (rd_tier (decide t phase cfg), rd_reasoning_depth (decide t phase cfg)) \<noteq> (Mini, Deep)"
proof (cases "manual_mode cfg")
  case True
  then show ?thesis by (simp add: decide_def manual_mode_text)
next
  case False
  let ?h = "extract_routing_hints t"
  let ?st = "apply_budget cfg phase (apply_reasoning_depth ?h (apply_validation_profile ?h (apply_risk_level ?h
    (apply_context_scope ?h (apply_execution_mode ?h
      (fst (phase_defaults phase), snd (phase_defaults phase), [''phase='' @ phase]))))))"
  have d: "rd_tier (decide t phase cfg) = fst ?st" "rd_reasoning_depth (decide t phase cfg) = fst (snd ?st)"
    using False by (simp_all add: decide_def manual_mode_text Let_def split: prod.split)
  have "fst (phase_defaults phase) = Heavy \<longleftrightarrow> phase \<in> {''architecture'', ''deep_refactor''}"
    by (auto simp: phase_defaults_def)
  then have "fst ?st = Heavy \<longleftrightarrow> escalates ?h
      \<or> (phase \<in> {''architecture'', ''deep_refactor''} \<and> rh_execution_mode ?h \<noteq> Some ''micro'')"
    unfolding heavy_steps fst_conv escalates_def by auto
  moreover have "balanced ?st" by (intro balanced_steps balanced_defaults)
  ultimately show ?thesis using False unfolding d by (simp add: balanced_def)
qed

end
