(* ===== verification/Json_Codec.thy ===== *)
theory Json_Codec
  imports Prelude
begin

text \<open>
  What \<open>serde\<close> derives for the structs the coordinator stores as JSON: a field decoder per attribute
  (\<open>default\<close>, \<open>Option\<close>), the object a struct serializes to (\<open>skip_serializing_if\<close> leaves a field out,
  a flattened map adds its entries last), and the entries a flattened map collects.  A decoder gives
  \<open>None\<close> where \<open>serde\<close> gives an error.
\<close>

section \<open>Field decoders\<close>

definition d_str :: "json \<Rightarrow> string option" where
  "d_str v = as_str v"

definition d_option :: "(json \<Rightarrow> 'a option) \<Rightarrow> json option \<Rightarrow> 'a option option" where
  "d_option d v =
     (case v of None \<Rightarrow> Some None | Some JNull \<Rightarrow> Some None | Some x \<Rightarrow> map_option Some (d x))"

definition d_default :: "'a \<Rightarrow> (json \<Rightarrow> 'a option) \<Rightarrow> json option \<Rightarrow> 'a option" where
  "d_default dflt d v = (case v of None \<Rightarrow> Some dflt | Some x \<Rightarrow> d x)"

definition d_required :: "(json \<Rightarrow> 'a option) \<Rightarrow> json option \<Rightarrow> 'a option" where
  "d_required d v = Option.bind v d"

fun d_list :: "(json \<Rightarrow> 'a option) \<Rightarrow> json \<Rightarrow> 'a list option" where
  "d_list d (JArr xs) = those (map d xs)"
| "d_list d _ = None"

text \<open>An enumeration of unit variants: the name of a variant, or an object that maps it to null.\<close>

definition d_variant :: "('a \<Rightarrow> string) \<Rightarrow> 'a list \<Rightarrow> json \<Rightarrow> 'a option" where
  "d_variant name vs v =
     (case v of
        JStr s \<Rightarrow> List.find (\<lambda>x. name x = s) vs
      | JObj [(s, JNull)] \<Rightarrow> List.find (\<lambda>x. name x = s) vs
      | _ \<Rightarrow> None)"

section \<open>Objects\<close>

text \<open>The fields of a struct, each with its value or \<open>None\<close> where it is left out.\<close>

definition present :: "(string \<times> json option) list \<Rightarrow> (string \<times> json) list" where
  "present kvs = List.map_filter (\<lambda>(k, v). map_option (Pair k) v) kvs"

definition object_of :: "(string \<times> json option) list \<Rightarrow> (string, json) btree \<Rightarrow> json" where
  "object_of fields extra = JObj (fold (\<lambda>(k, v). bt_insert k v) (present fields @ extra) [])"

definition unknown :: "string list \<Rightarrow> (string, json) btree \<Rightarrow> (string, json) btree" where
  "unknown known m = filter (\<lambda>(k, v). k \<notin> set known) m"

lemma bt_ok_filter: "bt_ok m \<Longrightarrow> bt_ok (filter P m)"
  by (induction m) auto

lemma bt_get_unknown: "bt_get (unknown known m) k = (if k \<in> set known then None else bt_get m k)"
  unfolding unknown_def by (induction m) (auto split: if_splits)

lemma unknown_ok: "bt_ok m \<Longrightarrow> bt_ok (unknown known m)"
  by (simp add: unknown_def bt_ok_filter)

lemma unknown_keys: "fst ` set (unknown known m) \<inter> set known = {}"
  by (auto simp: unknown_def)

lemma fst_present: "fst ` set (present fields) \<subseteq> fst ` set fields"
  by (auto simp: present_def set_map_filter intro!: rev_image_eqI)

lemma map_of_present:
  "distinct (map fst fields) \<Longrightarrow> (k, v) \<in> set fields \<Longrightarrow> map_of (present fields) k = v"
proof (induction fields)
  case (Cons kv fields)
  obtain j w where kv: "kv = (j, w)" by (cases kv)
  have none: "map_of (present fields) j = None" if "j \<notin> fst ` set fields"
    using that fst_present [of fields] by (auto simp: map_of_eq_None_iff)
  show ?case
    using Cons kv none by (cases w) (auto simp: present_def map_filter_simps rev_image_eqI)
qed simp

lemma map_of_rev_distinct: "distinct (map fst xs) \<Longrightarrow> map_of (rev xs) = map_of xs"
  by (subst map_of_inject_set) (simp_all add: rev_map [symmetric])

lemma distinct_present: "distinct (map fst fields) \<Longrightarrow> distinct (map fst (present fields))"
proof (induction fields)
  case (Cons kv fields)
  then show ?case using fst_present [of fields]
    by (cases kv; cases "snd kv") (auto simp: present_def map_filter_simps)
qed (simp add: present_def map_filter_simps)

text \<open>
  What is found in the object: the value of a field where the flattened map does not know its name,
  an entry of the flattened map otherwise.
\<close>

lemma object_lookup:
  assumes "distinct (map fst fields)" "bt_ok extra" "fst ` set extra \<inter> fst ` set fields = {}"
  shows "(k, v) \<in> set fields \<Longrightarrow> json_get (object_of fields extra) k = v"
    and "k \<notin> fst ` set fields \<Longrightarrow> json_get (object_of fields extra) k = bt_get extra k"
proof -
  have dj: "\<forall>j. j \<in> fst ` set extra \<longrightarrow> j \<notin> fst ` set fields"
    using assms(3) by (simp only: disjoint_iff)
  have dist: "distinct (map fst extra)" using assms(2) by (simp add: bt_ok_def strict_sorted_iff)
  have get: "json_get (object_of fields extra) k = map_of (rev extra @ rev (present fields)) k"
    using bt.fold_ins_get [of "[]" "present fields @ extra"]
    by (simp add: object_of_def bt_get_def [of "[]", abs_def])
  have ext: "map_of (rev extra) k = bt_get extra k"
    using dist by (simp add: bt_get_def map_of_rev_distinct)
  have fld: "map_of (rev (present fields)) k = map_of (present fields) k"
    using distinct_present [OF assms(1)] by (simp add: map_of_rev_distinct)
  show "json_get (object_of fields extra) k = v" if "(k, v) \<in> set fields"
  proof -
    have "k \<in> fst ` set fields" using that by (metis fst_conv image_eqI)
    with dj have "k \<notin> fst ` set extra" by meson
    then have "bt_get extra k = None" using bt_get_in [of extra k] by simp
    then show ?thesis
      using get ext fld map_of_present [OF assms(1) that] by (simp add: map_add_def)
  qed
  show "json_get (object_of fields extra) k = bt_get extra k" if "k \<notin> fst ` set fields"
  proof -
    have "map_of (present fields) k = None"
      using that fst_present [of fields] by (auto simp: map_of_eq_None_iff)
    then show ?thesis using get ext fld by (simp add: map_add_def split: option.split)
  qed
qed

lemma object_unknown:
  assumes "distinct (map fst fields)" "bt_ok extra" "fst ` set extra \<inter> fst ` set fields = {}"
    and "object_of fields extra = JObj m"
  shows "bt_ok m" "unknown (map fst fields) m = extra"
proof -
  show ok: "bt_ok m" using assms(4) bt.fold_ins_inv [of "[]" "present fields @ extra"] by (simp add: object_of_def)
  have "bt_get (unknown (map fst fields) m) k = bt_get extra k" for k
  proof (cases "k \<in> fst ` set fields")
    case True
    then have "bt_get extra k = None" using assms(3) bt_get_in [of extra k] by blast
    then show ?thesis using True by (simp add: bt_get_unknown)
  next
    case False
    then show ?thesis using object_lookup(2) [OF assms(1-3) False] assms(4) by (simp add: bt_get_unknown)
  qed
  then show "unknown (map fst fields) m = extra"
    by (intro bt_eqI unknown_ok ok assms(2)) auto
qed

lemma object_is_object [simp]: "is_object (object_of fields extra)"
  by (simp add: object_of_def)

text \<open>Decoding what was encoded, field by field.\<close>

lemma d_encoded [simp]:
  "d_option d_str (map_option JStr o') = Some o'"
  "d_default dflt d_str (Some (JStr s)) = Some s"
  "d_required d_str (Some (JStr s)) = Some s"
  by (cases o'; simp add: d_option_def d_str_def d_default_def d_required_def)+

lemma d_encoded_int [simp]:
  "- (2 ^ 63) \<le> i \<Longrightarrow> i < 2 ^ 63 \<Longrightarrow> d_default dflt as_i64 (Some (JInt i)) = Some i"
  "pred_option (\<lambda>i. - (2 ^ 63) \<le> i \<and> i < 2 ^ 63) oi \<Longrightarrow> d_option as_i64 (map_option JInt oi) = Some oi"
  by (cases oi; simp add: d_default_def d_option_def)+

lemma d_i64_range:
  "d_option as_i64 v = Some oi \<Longrightarrow> pred_option (\<lambda>i. - (2 ^ 63) \<le> i \<and> i < 2 ^ 63) oi"
  "d_default 0 as_i64 v = Some i \<Longrightarrow> - (2 ^ 63) \<le> i \<and> i < 2 ^ 63"
  by (auto simp: d_option_def d_default_def elim!: as_i64.elims split: option.splits json.splits if_splits)

lemma those_map_Some [simp]: "(\<And>x. x \<in> set xs \<Longrightarrow> f x = Some (g x)) \<Longrightarrow> those (map f xs) = Some (map g xs)"
  by (induction xs) auto

lemma d_strings_encoded [simp]: "d_list d_str (JArr (map JStr xs)) = Some xs"
proof -
  have "those (map d_str (map JStr xs)) = Some (map id xs)"
    unfolding map_map by (rule those_map_Some) (simp add: d_str_def)
  then show ?thesis by simp
qed

lemma d_variant_encoded:
  "inj_on name (set vs) \<Longrightarrow> x \<in> set vs \<Longrightarrow> d_variant name vs (JStr (name x)) = Some x"
proof -
  assume inj: "inj_on name (set vs)" and x: "x \<in> set vs"
  then obtain y where y: "List.find (\<lambda>z. name z = name x) vs = Some y"
    by (cases "List.find (\<lambda>z. name z = name x) vs") (auto simp: find_None_iff)
  then have "y \<in> set vs" "name y = name x" by (auto simp: find_Some_iff)
  then have "y = x" using inj x by (simp add: inj_on_def)
  with y show "d_variant name vs (JStr (name x)) = Some x" by (simp add: d_variant_def)
qed

section \<open>Structs without a flattened map\<close>

text \<open>
  A struct is read from an object, or from an array of its fields in order in which trailing fields
  with a default may be missing.
\<close>

fun struct_fields :: "nat \<Rightarrow> string list \<Rightarrow> json \<Rightarrow> (string \<Rightarrow> json option) option" where
  "struct_fields required names (JObj m) = Some (bt_get m)"
| "struct_fields required names (JArr xs) =
     (if required \<le> length xs \<and> length xs \<le> length names then Some (map_of (zip names xs)) else None)"
| "struct_fields required names _ = None"

definition null_or :: "('a \<Rightarrow> json) \<Rightarrow> 'a option \<Rightarrow> json" where
  "null_or e v = (case v of None \<Rightarrow> JNull | Some x \<Rightarrow> e x)"

lemma struct_fields_object [simp]:
  "struct_fields n names (object_of fs []) = Some (json_get (object_of fs []))"
  by (auto simp: object_of_def fun_eq_iff)

lemma json_get_object:
  "distinct (map fst fs) \<Longrightarrow> json_get (object_of fs []) k = Option.bind (map_of fs k) id"
proof -
  assume d: "distinct (map fst fs)"
  note look = object_lookup [where fields = fs and extra = "[]", OF d]
  show ?thesis
  proof (cases "map_of fs k")
    case None
    then have "k \<notin> fst ` set fs" by (simp add: map_of_eq_None_iff)
    with look(2) None show ?thesis by simp
  next
    case (Some v)
    then have "(k, v) \<in> set fs" by (rule map_of_SomeD)
    with look(1) Some show ?thesis by simp
  qed
qed

lemma object_not_null: "object_of fs m \<noteq> JNull"
  by (simp add: object_of_def)

lemma d_option_encoded:
  "(\<And>x. v = Some x \<Longrightarrow> d (e x) = Some x \<and> e x \<noteq> JNull) \<Longrightarrow> d_option d (Some (null_or e v)) = Some v"
  by (cases v) (auto simp: d_option_def null_or_def split: json.splits)

lemma d_list_encoded:
  "(\<And>x. x \<in> set xs \<Longrightarrow> d (e x) = Some x) \<Longrightarrow> d_list d (JArr (map e xs)) = Some xs"
proof -
  assume "\<And>x. x \<in> set xs \<Longrightarrow> d (e x) = Some x"
  then have "those (map (d \<circ> e) xs) = Some (map id xs)" by (intro those_map_Some) simp
  then show "d_list d (JArr (map e xs)) = Some xs" by simp
qed

end
