(* ===== verification/Events.thy ===== *)
theory Events
  imports Json_Codec Model
begin

text \<open>
  Events of the coordinator (\<open>coordinator.rs\<close>): the record with its JSON form, the payloads of progress,
  phase results and failures, the readers that look for a value in several places, and the validation
  of events that performers send.  \<open>parse_json\<close> is \<open>serde_json::from_str\<close> on a text (\<open>None\<close> for an
  error) and \<open>dbg\<close> the \<open>Debug\<close> form of a JSON value.
\<close>

section \<open>The event record\<close>

definition COORDINATOR_EVENT_SCHEMA_VERSION :: string where
  "COORDINATOR_EVENT_SCHEMA_VERSION = ''1''"

record event_record =
  ev_schema_version :: string
  ev_event_id :: string
  ev_run_id :: "string option"
  ev_coordinator_epoch :: "int option"
  ev_claim_id :: "string option"
  ev_seq :: int
  ev_ts :: string
  ev_source :: string
  ev_task_id :: "string option"
  ev_event_type :: string
  ev_phase :: "string option"
  ev_status :: string
  ev_detail :: "string option"
  ev_msg :: "string option"
  ev_payload :: json
  ev_extra :: "(string, json) btree"

definition event_fields :: "event_record \<Rightarrow> (string \<times> json option) list" where
  "event_fields e =
     [(''schema_version'', Some (JStr (ev_schema_version e))),
      (''event_id'', Some (JStr (ev_event_id e))),
      (''run_id'', map_option JStr (ev_run_id e)),
      (''coordinator_epoch'', map_option JInt (ev_coordinator_epoch e)),
      (''claim_id'', map_option JStr (ev_claim_id e)),
      (''seq'', Some (JInt (ev_seq e))),
      (''ts'', Some (JStr (ev_ts e))),
      (''source'', Some (JStr (ev_source e))),
      (''task_id'', map_option JStr (ev_task_id e)),
      (''type'', Some (JStr (ev_event_type e))),
      (''phase'', map_option JStr (ev_phase e)),
      (''status'', Some (JStr (ev_status e))),
      (''detail'', map_option JStr (ev_detail e)),
      (''msg'', map_option JStr (ev_msg e)),
      (''payload'', Some (ev_payload e))]"

definition event_keys :: "string list" where
  "event_keys =
     [''schema_version'', ''event_id'', ''run_id'', ''coordinator_epoch'', ''claim_id'', ''seq'', ''ts'',
      ''source'', ''task_id'', ''type'', ''phase'', ''status'', ''detail'', ''msg'', ''payload'']"

definition event_to_value :: "event_record \<Rightarrow> json" where
  "event_to_value e = object_of (event_fields e) (ev_extra e)"

fun event_from_value :: "json \<Rightarrow> event_record option" where
  "event_from_value (JObj m) =
     (case (d_default COORDINATOR_EVENT_SCHEMA_VERSION d_str (bt_get m ''schema_version''),
            d_default [] d_str (bt_get m ''event_id''),
            d_option d_str (bt_get m ''run_id''),
            d_option as_i64 (bt_get m ''coordinator_epoch''),
            d_option d_str (bt_get m ''claim_id''),
            d_default 0 as_i64 (bt_get m ''seq''),
            d_default [] d_str (bt_get m ''ts''),
            d_default [] d_str (bt_get m ''source'')) of
        (Some sv, Some eid, Some rid, Some ce, Some cid, Some sq, Some ts, Some src) \<Rightarrow>
          (case (d_option d_str (bt_get m ''task_id''),
                 d_default [] d_str (bt_get m ''type''),
                 d_option d_str (bt_get m ''phase''),
                 d_default [] d_str (bt_get m ''status''),
                 d_option d_str (bt_get m ''detail''),
                 d_option d_str (bt_get m ''msg'')) of
             (Some tid, Some ty, Some ph, Some st, Some dt, Some mg) \<Rightarrow>
               Some \<lparr>ev_schema_version = sv, ev_event_id = eid, ev_run_id = rid,
                     ev_coordinator_epoch = ce, ev_claim_id = cid, ev_seq = sq, ev_ts = ts,
                     ev_source = src, ev_task_id = tid, ev_event_type = ty, ev_phase = ph,
                     ev_status = st, ev_detail = dt, ev_msg = mg,
                     ev_payload = unwrap_or JNull (bt_get m ''payload''),
                     ev_extra = unknown event_keys m\<rparr>
           | _ \<Rightarrow> None)
      | _ \<Rightarrow> None)"
| "event_from_value _ = None"

definition event_severity :: "event_record \<Rightarrow> string option" where
  "event_severity e = Option.bind (bt_get (ev_extra e) ''severity'') as_str"

section \<open>The payload\<close>

text \<open>
  A payload may be an object, an object whose \<open>value\<close> is a JSON text, or a JSON text; an object among
  the unknown fields of the event goes first.
\<close>

definition parse_object :: "(string \<Rightarrow> json option) \<Rightarrow> string \<Rightarrow> json option" where
  "parse_object parse_json s = opt_filter is_object (parse_json s)"

definition own_payload :: "(string \<Rightarrow> json option) \<Rightarrow> json \<Rightarrow> json" where
  "own_payload parse_json p =
     (if is_object p
      then unwrap_or p (Option.bind (get_str p ''value'') (parse_object parse_json))
      else unwrap_or (JObj []) (Option.bind (as_str p) (parse_object parse_json)))"

definition normalized_payload :: "(string \<Rightarrow> json option) \<Rightarrow> event_record \<Rightarrow> json" where
  "normalized_payload parse_json e =
     (case bt_get (ev_extra e) ''payload'' of
        None \<Rightarrow> own_payload parse_json (ev_payload e)
      | Some v \<Rightarrow>
          if is_object v then v
          else unwrap_or (own_payload parse_json (ev_payload e))
                 (Option.bind (as_str v) (parse_object parse_json)))"

record progress_payload =
  pp_message :: "string option"
  pp_reason :: "string option"
  pp_error :: "string option"
  pp_code :: "string option"
  pp_origin :: "string option"
  pp_attempt :: "int option"
  pp_extra :: "(string, json) btree"

record failed_payload = progress_payload +
  fp_error_code :: "string option"

record phase_result_payload = failed_payload +
  rp_result_kind :: "completion_kind option"
  rp_gate_verdict :: "gate_verdict option"
  rp_unmet_preconditions :: "string list"

definition d_kind :: "json \<Rightarrow> completion_kind option" where
  "d_kind = d_variant completion_as_str
     [SuccessWithChanges, SuccessWithoutChanges, AlreadySatisfied, ErrorWithChanges,
      ErrorWithoutChanges, PreconditionUnmet]"

fun verdict_text :: "gate_verdict \<Rightarrow> string" where
  "verdict_text Gv_Pending = ''pending''"
| "verdict_text Gv_Accepted = ''accepted''"
| "verdict_text Gv_Rejected = ''rejected''"

definition d_verdict :: "json \<Rightarrow> gate_verdict option" where
  "d_verdict = d_variant verdict_text [Gv_Pending, Gv_Accepted, Gv_Rejected]"

definition progress_keys :: "string list" where
  "progress_keys = [''message'', ''reason'', ''error'', ''code'', ''origin'', ''attempt'']"

definition failed_keys :: "string list" where
  "failed_keys = [''message'', ''reason'', ''error'', ''code'', ''error_code'', ''origin'', ''attempt'']"

definition phase_result_keys :: "string list" where
  "phase_result_keys =
     failed_keys @ [''result_kind'', ''gate_verdict'', ''unmet_preconditions'']"

text \<open>The common fields, read from an object.\<close>

definition read_progress :: "string list \<Rightarrow> (string, json) btree \<Rightarrow> progress_payload option" where
  "read_progress known m =
     (case (d_option d_str (bt_get m ''message''), d_option d_str (bt_get m ''reason''),
            d_option d_str (bt_get m ''error''), d_option d_str (bt_get m ''code''),
            d_option d_str (bt_get m ''origin''), d_option as_i64 (bt_get m ''attempt'')) of
        (Some ms, Some rs, Some er, Some cd, Some og, Some at) \<Rightarrow>
          Some \<lparr>pp_message = ms, pp_reason = rs, pp_error = er, pp_code = cd, pp_origin = og,
                pp_attempt = at, pp_extra = unknown known m\<rparr>
      | _ \<Rightarrow> None)"

fun parse_progress :: "json \<Rightarrow> progress_payload option" where
  "parse_progress (JObj m) = read_progress progress_keys m"
| "parse_progress _ = None"

fun parse_failed :: "json \<Rightarrow> failed_payload option" where
  "parse_failed (JObj m) =
     (case (read_progress failed_keys m, d_option d_str (bt_get m ''error_code'')) of
        (Some p, Some ec) \<Rightarrow> Some (progress_payload.extend p \<lparr>fp_error_code = ec\<rparr>)
      | _ \<Rightarrow> None)"
| "parse_failed _ = None"

fun parse_phase_result :: "json \<Rightarrow> phase_result_payload option" where
  "parse_phase_result (JObj m) =
     (case (read_progress phase_result_keys m, d_option d_str (bt_get m ''error_code''),
            d_option d_kind (bt_get m ''result_kind''), d_option d_verdict (bt_get m ''gate_verdict''),
            d_default [] (d_list d_str) (bt_get m ''unmet_preconditions'')) of
        (Some p, Some ec, Some kd, Some gv, Some up) \<Rightarrow>
          Some (progress_payload.extend p
                 \<lparr>fp_error_code = ec, rp_result_kind = kd, rp_gate_verdict = gv,
                  rp_unmet_preconditions = up\<rparr>)
      | _ \<Rightarrow> None)"
| "parse_phase_result _ = None"

lemma read_extension [simp]:
  "fp_error_code (progress_payload.extend p \<lparr>fp_error_code = ec, \<dots> = m\<rparr>) = ec"
  "pp_attempt (progress_payload.extend p x) = pp_attempt p"
  "pp_code (progress_payload.extend p x) = pp_code p"
  "pp_origin (progress_payload.extend p x) = pp_origin p"
  by (simp_all add: progress_payload.defs)

section \<open>Readers\<close>

definition progress_payload_of :: "(string \<Rightarrow> json option) \<Rightarrow> event_record \<Rightarrow> progress_payload option" where
  "progress_payload_of parse_json e =
     (if ev_event_type e = ''progress'' then parse_progress (normalized_payload parse_json e) else None)"

definition phase_result_payload_of ::
  "(string \<Rightarrow> json option) \<Rightarrow> event_record \<Rightarrow> phase_result_payload option" where
  "phase_result_payload_of parse_json e =
     (if ev_event_type e = ''phase_result''
      then parse_phase_result (normalized_payload parse_json e) else None)"

definition failed_payload_of :: "(string \<Rightarrow> json option) \<Rightarrow> event_record \<Rightarrow> failed_payload option" where
  "failed_payload_of parse_json e =
     (if ev_event_type e = ''failed'' then parse_failed (normalized_payload parse_json e) else None)"

definition extra_str :: "event_record \<Rightarrow> string \<Rightarrow> string option" where
  "extra_str e k = Option.bind (bt_get (ev_extra e) k) as_str"

definition payload_attempt :: "(string \<Rightarrow> json option) \<Rightarrow> event_record \<Rightarrow> int option" where
  "payload_attempt parse_json e =
     or_else (Option.bind (phase_result_payload_of parse_json e) pp_attempt)
      (or_else (Option.bind (failed_payload_of parse_json e) pp_attempt)
        (or_else (Option.bind (progress_payload_of parse_json e) pp_attempt)
          (or_else (Option.bind (json_get (ev_payload e) ''attempt'') as_i64)
            (Option.bind (bt_get (ev_extra e) ''attempt'') as_i64))))"

definition payload_error_code :: "(string \<Rightarrow> json option) \<Rightarrow> event_record \<Rightarrow> string option" where
  "payload_error_code parse_json e =
     or_else (Option.bind (failed_payload_of parse_json e) (\<lambda>p. or_else (fp_error_code p) (pp_code p)))
      (or_else (Option.bind (phase_result_payload_of parse_json e)
                  (\<lambda>p. or_else (fp_error_code p) (pp_code p)))
        (or_else (get_str (ev_payload e) ''error_code'')
          (or_else (extra_str e ''error_code'')
            (or_else (get_str (ev_payload e) ''code'') (extra_str e ''code'')))))"

definition payload_origin :: "(string \<Rightarrow> json option) \<Rightarrow> event_record \<Rightarrow> string option" where
  "payload_origin parse_json e =
     or_else (Option.bind (failed_payload_of parse_json e) pp_origin)
      (or_else (Option.bind (phase_result_payload_of parse_json e) pp_origin)
        (or_else (Option.bind (progress_payload_of parse_json e) pp_origin)
          (or_else (get_str (ev_payload e) ''origin'') (extra_str e ''origin''))))"

definition ok_of :: "'e + 'a \<Rightarrow> 'a option" where
  "ok_of r = (case r of Inl _ \<Rightarrow> None | Inr a \<Rightarrow> Some a)"

definition payload_result_kind :: "(string \<Rightarrow> json option) \<Rightarrow> event_record \<Rightarrow> completion_kind option" where
  "payload_result_kind parse_json e =
     or_else (Option.bind (phase_result_payload_of parse_json e) rp_result_kind)
      (or_else (Option.bind (get_str (normalized_payload parse_json e) ''result_kind'')
                  (\<lambda>s. ok_of (completion_from_str s)))
        (Option.bind (extra_str e ''result_kind'') (\<lambda>s. ok_of (completion_from_str s))))"

definition payload_gate_verdict :: "(string \<Rightarrow> json option) \<Rightarrow> event_record \<Rightarrow> gate_verdict option" where
  "payload_gate_verdict parse_json e =
     or_else (Option.bind (phase_result_payload_of parse_json e) rp_gate_verdict)
       (Option.bind (get_str (normalized_payload parse_json e) ''gate_verdict'')
          (\<lambda>s. ok_of (gate_verdict_from_str s)))"

definition payload_result_exp :: "(string \<Rightarrow> json option) \<Rightarrow> event_record \<Rightarrow> string option" where
  "payload_result_exp parse_json e =
     nonempty (or_else (get_str (normalized_payload parse_json e) ''result_exp'')
       (or_else (get_str (ev_payload e) ''result_exp'') (extra_str e ''result_exp'')))"

definition strings_from :: "json option \<Rightarrow> string list" where
  "strings_from v =
     (case Option.bind v as_array of
        None \<Rightarrow> []
      | Some items \<Rightarrow> filter (\<lambda>s. s \<noteq> []) (map trim (List.map_filter as_str items)))"

definition payload_unmet_preconditions :: "(string \<Rightarrow> json option) \<Rightarrow> event_record \<Rightarrow> string list" where
  "payload_unmet_preconditions parse_json e =
     (let out = strings_from (json_get (normalized_payload parse_json e) ''unmet_preconditions'');
          out = (if out = [] then strings_from (json_get (ev_payload e) ''unmet_preconditions'') else out)
      in if out = [] then strings_from (bt_get (ev_extra e) ''unmet_preconditions'') else out)"

definition is_terminal_success :: "(string \<Rightarrow> json option) \<Rightarrow> event_record \<Rightarrow> bool" where
  "is_terminal_success parse_json e =
     (ev_event_type e = ''commit_created''
      \<or> (ev_event_type e = ''phase_result''
         \<and> ev_status e \<in> {''done'', ''phase_done'', ''already_satisfied'', ''success_without_changes''}
         \<and> payload_result_kind parse_json e \<noteq> None))"

definition event_message :: "event_record \<Rightarrow> string option" where
  "event_message e =
     or_else (ev_detail e)
      (or_else (ev_msg e)
        (or_else (get_str (ev_payload e) ''reason'')
          (or_else (get_str (ev_payload e) ''message'')
            (or_else (get_str (ev_payload e) ''error'')
              (or_else (extra_str e ''reason'')
                (or_else (extra_str e ''message'') (extra_str e ''error'')))))))"

section \<open>Validation of performer events\<close>

definition is_performer_runtime_event :: "event_record \<Rightarrow> bool" where
  "is_performer_runtime_event e =
     (ev_event_type e \<in> {''started'', ''heartbeat'', ''progress'', ''phase_result'', ''failed'', ''commit_created''}
      \<and> (prefix_of ''coordinator-worktree:'' (ev_source e) \<or> prefix_of ''worktree-run:'' (ev_source e)
         \<or> prefix_of ''performer:'' (ev_source e)))"

definition payload_has_non_empty_string :: "json \<Rightarrow> string \<Rightarrow> bool" where
  "payload_has_non_empty_string payload key = (trimmed_nonempty (get_str payload key) \<noteq> None)"

definition payload_has_non_empty_string_in_sources :: "event_record \<Rightarrow> json \<Rightarrow> string \<Rightarrow> bool" where
  "payload_has_non_empty_string_in_sources e payload key =
     (payload_has_non_empty_string payload key \<or> trimmed_nonempty (extra_str e key) \<noteq> None)"

definition show_bool :: "bool \<Rightarrow> string" where
  "show_bool b = (if b then ''true'' else ''false'')"

definition unexpected_status :: "event_record \<Rightarrow> string" where
  "unexpected_status e =
     ''invalid performer event '' @ quoted (ev_event_type e) @ '': unexpected status ''
     @ quoted (ev_status e)"

text \<open>The rules of each type of event, given the payload.\<close>

definition validate_started :: "(json \<Rightarrow> string) \<Rightarrow> event_record \<Rightarrow> json \<Rightarrow> string + unit" where
  "validate_started dbg e payload =
     (if ev_status e \<notin> {''started'', ''running''} then Inl (unexpected_status e)
      else
        let has_tool = payload_has_non_empty_string_in_sources e payload ''tool'';
            has_worktree = payload_has_non_empty_string_in_sources e payload ''worktree''
        in if \<not> has_tool \<or> \<not> has_worktree
           then Inl (''invalid performer event 'started': payload.tool and payload.worktree are required. has_tool=''
                     @ show_bool has_tool @ '' has_worktree='' @ show_bool has_worktree
                     @ '' payload='' @ dbg payload)
           else Inr ())"

definition validate_phase_result ::
  "(string \<Rightarrow> json option) \<Rightarrow> (json \<Rightarrow> string) \<Rightarrow> event_record \<Rightarrow> string + unit" where
  "validate_phase_result parse_json dbg e =
     (if trimmed_nonempty (ev_phase e) = None
      then Inl ''invalid performer event 'phase_result': missing phase''
      else if ev_status e \<notin> {''done'', ''failed''} then Inl (unexpected_status e)
      else if ev_status e = ''done'' \<and> payload_result_kind parse_json e = None
      then Inl (''invalid performer event 'phase_result': payload.result_kind is required for successful terminal events. status=''
                @ ev_status e @ '' payload='' @ dbg (ev_payload e)
                @ '' normalized='' @ dbg (normalized_payload parse_json e))
      else Inr ())"

definition validate_by_type ::
  "(string \<Rightarrow> json option) \<Rightarrow> (json \<Rightarrow> string) \<Rightarrow> event_record \<Rightarrow> json \<Rightarrow> string + unit" where
  "validate_by_type parse_json dbg e payload =
     (if ev_event_type e = ''started'' then validate_started dbg e payload
      else if ev_event_type e \<in> {''heartbeat'', ''progress''}
      then (if ev_status e \<noteq> ''running'' then Inl (unexpected_status e) else Inr ())
      else if ev_event_type e = ''phase_result'' then validate_phase_result parse_json dbg e
      else if ev_event_type e = ''commit_created''
      then (if ev_status e \<noteq> ''done'' \<or> \<not> payload_has_non_empty_string_in_sources e payload ''sha''
            then Inl ''invalid performer event 'commit_created': status=done and payload.sha are required''
            else Inr ())
      else Inr ())"

definition validate_performer_runtime_event ::
  "(string \<Rightarrow> json option) \<Rightarrow> (json \<Rightarrow> string) \<Rightarrow> event_record \<Rightarrow> string + unit" where
  "validate_performer_runtime_event parse_json dbg e =
     (if \<not> is_performer_runtime_event e then Inr ()
      else if ev_schema_version e \<noteq> COORDINATOR_EVENT_SCHEMA_VERSION
      then Inl (''invalid performer event schema_version '' @ quoted (ev_schema_version e))
      else if trim (ev_event_id e) = [] then Inl ''invalid performer event: missing event_id''
      else if trim (ev_ts e) = [] then Inl ''invalid performer event: missing ts''
      else if trim (ev_source e) = [] then Inl ''invalid performer event: missing source''
      else if trimmed_nonempty (ev_task_id e) = None then Inl ''invalid performer event: missing task_id''
      else
        let payload = normalized_payload parse_json e in
        if \<not> is_object payload
        then Inl (''invalid performer event '' @ quoted (ev_event_type e)
                  @ '': payload must be an object (got '' @ dbg payload @ '')'')
        else validate_by_type parse_json dbg e payload)"

section \<open>Lemmas\<close>

lemma event_keys: "map fst (event_fields e) = event_keys"
  by (simp add: event_fields_def event_keys_def)

lemma event_from_value_Some:
  assumes "event_from_value (JObj m) = Some e"
  shows "ev_extra e = unknown event_keys m"
    and "- (2 ^ 63) \<le> ev_seq e \<and> ev_seq e < 2 ^ 63"
    and "pred_option (\<lambda>i. - (2 ^ 63) \<le> i \<and> i < 2 ^ 63) (ev_coordinator_epoch e)"
  using assms d_i64_range [of "bt_get m ''coordinator_epoch''"] d_i64_range(2) [of "bt_get m ''seq''"]
  by (auto split: option.splits)

lemma event_lookup:
  assumes "bt_ok (ev_extra e)" "fst ` set (ev_extra e) \<inter> set event_keys = {}"
    and "event_to_value e = JObj m"
  shows "(k, v) \<in> set (event_fields e) \<Longrightarrow> bt_get m k = v" "unknown event_keys m = ev_extra e"
proof -
  have disj: "fst ` set (ev_extra e) \<inter> fst ` set (event_fields e) = {}"
    using assms(2) event_keys [of e] by (metis list.set_map)
  have dist: "distinct (map fst (event_fields e))" by (simp add: event_keys event_keys_def)
  show "bt_get m k = v" if "(k, v) \<in> set (event_fields e)"
    using object_lookup(1) [OF dist assms(1) disj that] assms(3) by (simp add: event_to_value_def)
  show "unknown event_keys m = ev_extra e"
    using object_unknown(2) [OF dist assms(1) disj assms(3) [unfolded event_to_value_def]]
    by (simp add: event_keys)
qed

text \<open>Encoding and decoding a record whose unknown fields are ordered, new and whose integers fit.\<close>

lemma event_decode_encode:
  assumes "bt_ok (ev_extra e)" "fst ` set (ev_extra e) \<inter> set event_keys = {}"
    and "- (2 ^ 63) \<le> ev_seq e \<and> ev_seq e < 2 ^ 63"
    and "pred_option (\<lambda>i. - (2 ^ 63) \<le> i \<and> i < 2 ^ 63) (ev_coordinator_epoch e)"
  shows "event_from_value (event_to_value e) = Some e"
proof -
  obtain m where m: "event_to_value e = JObj m" by (simp add: event_to_value_def object_of_def)
  note get = event_lookup(1) [OF assms(1,2) m]
  note get = get [of "''schema_version''"] get [of "''event_id''"] get [of "''run_id''"]
    get [of "''coordinator_epoch''"] get [of "''claim_id''"] get [of "''seq''"] get [of "''ts''"]
    get [of "''source''"] get [of "''task_id''"] get [of "''type''"] get [of "''phase''"]
    get [of "''status''"] get [of "''detail''"] get [of "''msg''"] get [of "''payload''"]
  show ?thesis
    unfolding m event_from_value.simps event_lookup(2) [OF assms(1,2) m]
    using assms(3,4) by (simp add: get event_fields_def)
qed

lemma normalized_payload_object: "is_object (normalized_payload parse_json e)"
  by (auto simp: normalized_payload_def own_payload_def parse_object_def unwrap_or_def opt_filter_def
      split: option.splits if_splits Option.bind_splits)

section \<open>Properties\<close>

text \<open>The JSON form of an event loses nothing: whatever object an event was read from, writing the
  event and reading it again gives the same event, its unknown fields included.\<close>

theorem event_roundtrip:
  assumes "event_from_value (JObj m) = Some e" "bt_ok m"
  shows "event_from_value (event_to_value e) = Some e"
proof -
  note e = event_from_value_Some [OF assms(1)]
  show ?thesis
    by (rule event_decode_encode) (use e assms(2) unknown_ok unknown_keys in simp_all)
qed

text \<open>A performer event that passes validation is complete: it names its task, its time and its
  event id; its payload is an object; a phase result reported as done carries a result kind and counts
  as a success, as does a commit; and the check that the payload is an object can never fail.\<close>

theorem validated_event_complete:
  assumes "validate_performer_runtime_event parse_json dbg e = Inr ()" "is_performer_runtime_event e"
  shows "trimmed_nonempty (ev_task_id e) \<noteq> None \<and> ev_ts e \<noteq> [] \<and> ev_event_id e \<noteq> []
    \<and> is_object (normalized_payload parse_json e)
    \<and> (ev_event_type e = ''phase_result'' \<longrightarrow>
         ev_status e = ''failed'' \<or> is_terminal_success parse_json e)
    \<and> (ev_event_type e = ''commit_created'' \<longrightarrow> is_terminal_success parse_json e)
    \<and> (ev_event_type e \<in> {''heartbeat'', ''progress''} \<longrightarrow> ev_status e = ''running'')"
proof -
  have base: "trim (ev_event_id e) \<noteq> []" "trim (ev_ts e) \<noteq> []" "trimmed_nonempty (ev_task_id e) \<noteq> None"
      "validate_by_type parse_json dbg e (normalized_payload parse_json e) = Inr ()"
    using assms by (auto simp: validate_performer_runtime_event_def Let_def split: if_splits)
  then have "ev_ts e \<noteq> []" "ev_event_id e \<noteq> []" by auto
  then show ?thesis using base normalized_payload_object
    by (auto simp: validate_by_type_def validate_phase_result_def is_terminal_success_def split: if_splits)
qed

section \<open>Concrete instances\<close>

definition sample_event :: event_record where
  "sample_event =
     \<lparr>ev_schema_version = ''1'', ev_event_id = ''e1'', ev_run_id = None, ev_coordinator_epoch = Some 2,
      ev_claim_id = None, ev_seq = 7, ev_ts = ''t'', ev_source = ''performer:codex'', ev_task_id = Some ''A'',
      ev_event_type = ''phase_result'', ev_phase = Some ''dev'', ev_status = ''done'', ev_detail = None,
      ev_msg = None, ev_payload = JObj [(''result_kind'', JStr ''success_with_changes'')],
      ev_extra = [(''zone'', JNull)]\<rparr>"

theorem event_roundtrip_witness:
  "\<exists>e. event_from_value (JObj [(''seq'', JInt 3), (''zone'', JNull)]) = Some e
     \<and> ev_extra e = [(''zone'', JNull)] \<and> event_from_value (event_to_value e) = Some e"
proof -
  obtain e where e: "event_from_value (JObj [(''seq'', JInt 3), (''zone'', JNull)]) = Some e"
      "ev_extra e = [(''zone'', JNull)]"
    by (simp add: d_default_def d_option_def unknown_def event_keys_def)
  have "bt_ok [(''seq'', JInt 3), (''zone'', JNull)]" by (simp add: less_char_def)
  from event_roundtrip [OF e(1) this] e show ?thesis by blast
qed

lemma sample_event_valid:
  "validate_performer_runtime_event (\<lambda>_. None) (\<lambda>_. []) sample_event = Inr ()
   \<and> is_performer_runtime_event sample_event"
  by code_simp

theorem validated_event_complete_witness:
  "is_terminal_success (\<lambda>_. None) sample_event \<and> ev_event_type sample_event = ''phase_result''"
proof -
  have fields: "ev_event_type sample_event = ''phase_result''" "ev_status sample_event = ''done''"
    by (simp_all add: sample_event_def)
  from validated_event_complete [OF conjunct1 [OF sample_event_valid] conjunct2 [OF sample_event_valid]]
  show ?thesis using fields by simp
qed

end
