(* ===== verification/Text.thy ===== *)
theory Text
  imports Prelude
begin

text \<open>
  More of Rust's string functions: \<open>split_whitespace\<close>, \<open>split\<close> and \<open>split_once\<close> on a text, \<open>lines\<close>,
  \<open>to_ascii_uppercase\<close>, \<open>replace\<close>, and \<open>str::parse\<close> for \<open>u32\<close>.
\<close>

text \<open>The bytes before the first white space.  No encoding of white space starts inside another character.\<close>

fun word_prefix :: "string \<Rightarrow> string" where
  "word_prefix [] = []"
| "word_prefix (c # s) = (if strip_one white_space (c # s) \<noteq> None then [] else c # word_prefix s)"

lemma length_word_prefix: "length (word_prefix s) \<le> length s"
  by (induction s) auto

lemma strip_all_length: "length (strip_all ps s) \<le> length s"
proof (induction ps s rule: strip_all.induct)
  case (1 ps s)
  then show ?case
    by (subst strip_all.simps) (fastforce dest: strip_one_shorter split: option.split)
qed

lemma word_prefix_progress:
  "trim_start s = c # r \<Longrightarrow> word_prefix (c # r) \<noteq> []"
  using strip_all_stable [of white_space s] by (simp add: trim_start_def)

function split_whitespace :: "string \<Rightarrow> string list" where
  "split_whitespace s =
     (let t = trim_start s; w = word_prefix t
      in if w = [] then [] else w # split_whitespace (drop (length w) t))"
  by pat_completeness auto
termination
proof (relation "measure length", simp, goal_cases)
  case (1 s t w)
  then have "t \<noteq> []" by auto
  then have "length (drop (length w) t) < length t" using 1 by simp
  also have "length t \<le> length s" using 1 by (simp add: trim_start_def strip_all_length)
  finally show ?case by simp
qed

declare split_whitespace.simps [simp del]

text \<open>The text before and after the first occurrence of a pattern.\<close>

fun split_once :: "string \<Rightarrow> string \<Rightarrow> (string \<times> string) option" where
  "split_once p [] = (if p = [] then Some ([], []) else None)"
| "split_once p (c # s) =
     (if prefix_of p (c # s) then Some ([], drop (length p) (c # s))
      else map_option (\<lambda>(a, b). (c # a, b)) (split_once p s))"

lemma split_once_Some: "split_once p s = Some (a, b) \<Longrightarrow> s = a @ p @ b"
  by (induction p s arbitrary: a rule: split_once.induct)
     (auto simp: prefix_of_iff split: if_splits)

lemma split_once_None: "split_once p s = None \<longleftrightarrow> \<not> str_contains s p"
  by (induction p s rule: split_once.induct) auto

function split_str :: "string \<Rightarrow> string \<Rightarrow> string list" where
  "split_str p s =
     (if p = [] then [s]
      else case split_once p s of None \<Rightarrow> [s] | Some (a, b) \<Rightarrow> a # split_str p b)"
  by pat_completeness auto
termination
  by (relation "measure (\<lambda>(p, s). length s)") (auto dest: split_once_Some)

declare split_str.simps [simp del]

definition upper_char :: "char \<Rightarrow> char" where
  "upper_char c = (let n = (of_char c :: nat) in if 97 \<le> n \<and> n \<le> 122 then char_of (n - 32) else c)"

definition to_ascii_uppercase :: "string \<Rightarrow> string" where
  "to_ascii_uppercase s = map upper_char s"

definition parse_u32 :: "string \<Rightarrow> nat option" where
  "parse_u32 s =
     opt_filter (\<lambda>n. n < 2 ^ 32)
       (case s of [] \<Rightarrow> None | c # r \<Rightarrow> parse_digits (if c = CHR ''+'' then r else s))"

text \<open>\<open>Path::components\<close> of a path without its root: empty parts and dots are left out.\<close>

definition path_components :: "string \<Rightarrow> string list" where
  "path_components p = filter (\<lambda>c. c \<noteq> [] \<and> c \<noteq> ''.'') (split_on (\<lambda>c. c = CHR ''/'') p)"

definition strip_prefix :: "string \<Rightarrow> string \<Rightarrow> string option" where
  "strip_prefix p s = (if prefix_of p s then Some (drop (length p) s) else None)"

definition strip_suffix :: "string \<Rightarrow> string \<Rightarrow> string option" where
  "strip_suffix p s =
     (if prefix_of (rev p) (rev s) then Some (take (length s - length p) s) else None)"

end
