(* ===== verification/Runtime_Events.thy ===== *)
theory Runtime_Events
  imports Events Text Fsm
begin

text \<open>
  What performers report while they run (\<open>runtime.rs\<close>, \<open>control_plane/base.rs\<close>): raw events become
  runtime events, the events of a cycle are folded into one pending update per task and applied to the
  registry, performers that signalled a failure are killed after a grace period, and tasks whose
  heartbeat is stale are blocked, requeued or retried.  Instants are nanoseconds; hash maps are ordered
  maps, since nothing depends on their order but the log.
\<close>

section \<open>Runtime events\<close>

datatype event_kind =
    Ek_Heartbeat "string option" "int option" "string option" string int
  | Ek_TaskDispatched "string option"
  | Ek_TaskCompleted string "string option"
  | Ek_Progress string "string option" "string option"
  | Ek_PhaseResult string "string option" "string option"
  | Ek_Failed "string option" "string option"
  | Ek_SalvageAttempted string string string
  | Ek_SalvageMerged string string string
  | Ek_SalvageFailed string string string
  | Ek_MergeGateChecked string string
  | Ek_MergeGateMerged string string
  | Ek_BranchTaggedAbandoned string string
  | Ek_SyncUnmergedBranchFound string
  | Ek_SyncUnmergedBranchMerged string string
  | Ek_WorktreeHealthCheckFailed string string
  | Ek_WorktreeOrphanCleaned string string
  | Ek_DispatchRetryLimitReached string nat

record runtime_event =
  rv_task_id :: string
  rv_ts :: string
  rv_source :: string
  rv_kind :: event_kind

definition raw_event_identity :: "event_record \<Rightarrow> (string \<times> string \<times> string) option" where
  "raw_event_identity e =
     (let task_id = unwrap_or [] (ev_task_id e)
      in if task_id = [] \<or> ev_ts e = [] then None else Some (task_id, ev_ts e, ev_source e))"

definition payload_str :: "json \<Rightarrow> string \<Rightarrow> string" where
  "payload_str p k = unwrap_or [] (get_str p k)"

text \<open>The retry count of a limit event: a number of the payload, or the number in its message.\<close>

definition retry_count_of :: "json \<Rightarrow> nat" where
  "retry_count_of p =
     unwrap_or 0
       (or_else
          (Option.bind (Option.bind (json_get p ''retry_count'') as_u64)
             (\<lambda>v. if v < 2 ^ 32 then Some (nat v) else None))
          (Option.bind (get_str p ''message'') (\<lambda>msg.
             case split_str ''retry_count='' msg of
               _ # tail # _ \<Rightarrow>
                 (case split_whitespace tail of w # _ \<Rightarrow> parse_u32 w | [] \<Rightarrow> None)
             | _ \<Rightarrow> None)))"

definition event_kind_of :: "event_record \<Rightarrow> string \<Rightarrow> event_kind option" where
  "event_kind_of e task_id =
     (let ty = ev_event_type e;
          phase = nonempty (ev_phase e);
          message = event_message e;
          status = runtime_as_str (runtime_status_from_event ty (ev_status e));
          p = ev_payload e;
          str = payload_str p
      in if ty = ''heartbeat''
         then Some (Ek_Heartbeat (ev_run_id e) (ev_coordinator_epoch e) (ev_claim_id e) (ev_event_id e) (ev_seq e))
         else if ty = ''task_dispatched'' then Some (Ek_TaskDispatched (get_str p ''session_id''))
         else if ty = ''task_completed'' then Some (Ek_TaskCompleted status (get_str p ''session_id''))
         else if ty = ''progress'' then Some (Ek_Progress status phase message)
         else if ty = ''phase_result'' then Some (Ek_PhaseResult status phase message)
         else if ty = ''failed'' then Some (Ek_Failed phase message)
         else if ty = ''salvage_attempted''
         then Some (Ek_SalvageAttempted (str ''branch'') (str ''worktree_path'') (str ''outcome''))
         else if ty = ''salvage_merged''
         then Some (Ek_SalvageMerged (str ''branch'') (str ''worktree_path'') (str ''outcome''))
         else if ty = ''salvage_failed''
         then Some (Ek_SalvageFailed (str ''branch'') (str ''worktree_path'') (str ''outcome''))
         else if ty = ''merge_gate_checked'' then Some (Ek_MergeGateChecked (str ''branch'') (str ''outcome''))
         else if ty = ''merge_gate_merged'' then Some (Ek_MergeGateMerged (str ''branch'') (str ''outcome''))
         else if ty = ''branch_tagged_abandoned''
         then Some (Ek_BranchTaggedAbandoned (str ''branch'') (str ''outcome''))
         else if ty = ''sync_unmerged_branch_found'' then Some (Ek_SyncUnmergedBranchFound (str ''branch''))
         else if ty = ''sync_unmerged_branch_merged''
         then Some (Ek_SyncUnmergedBranchMerged (str ''branch'') (str ''outcome''))
         else if ty = ''worktree_health_check_failed''
         then Some (Ek_WorktreeHealthCheckFailed (str ''worktree_path'') (str ''outcome''))
         else if ty = ''worktree_orphan_cleaned''
         then Some (Ek_WorktreeOrphanCleaned (str ''worktree_path'') (str ''sanitize_step''))
         else if ty = ''dispatch_retry_limit_reached''
         then Some (Ek_DispatchRetryLimitReached
                      (if task_id = [] then str ''task_id'' else task_id) (retry_count_of p))
         else None)"

definition raw_event_to_runtime_event :: "event_record \<Rightarrow> runtime_event option" where
  "raw_event_to_runtime_event e =
     Option.bind (raw_event_identity e) (\<lambda>(task_id, ts, source).
       map_option (\<lambda>kind. \<lparr>rv_task_id = task_id, rv_ts = ts, rv_source = source, rv_kind = kind\<rparr>)
         (event_kind_of e task_id))"

section \<open>Review verdicts and summaries\<close>

text \<open>The last line that carries a verdict decides; another text on it is no verdict.\<close>

fun verdict_in :: "string list \<Rightarrow> (string \<Rightarrow> 'v option) \<Rightarrow> 'v option" where
  "verdict_in [] read = None"
| "verdict_in (l # ls) read =
     (case strip_prefix ''REVIEW_VERDICT:'' (trim l) of
        Some raw \<Rightarrow> read (to_ascii_uppercase (trim raw))
      | None \<Rightarrow> verdict_in ls read)"

definition parse_review_verdict :: "string \<Rightarrow> review_verdict option" where
  "parse_review_verdict output =
     verdict_in (rev (str_lines output)) (\<lambda>v.
       if v = ''OK'' then Some Verdict_Ok
       else if v = ''CHANGES_REQUESTED'' then Some Verdict_ChangesRequested else None)"

text \<open>
  \<open>&s[..1000]\<close> panics where byte 1000 is inside a character; \<open>None\<close> is that panic.
\<close>

definition collapse :: "string \<Rightarrow> string" where
  "collapse text =
     join '' '' (split_whitespace (map (\<lambda>c. if c = CHR 0x0A \<or> c = CHR 0x0D then CHR 0x20 else c) text))"

definition summarize_output :: "string \<Rightarrow> string option" where
  "summarize_output text =
     (let s = collapse text
      in if 1000 < length s
         then (if is_char_boundary s 1000 then Some (take 1000 s @ ''...'') else None)
         else Some s)"

definition truncate_diff :: "string \<Rightarrow> nat \<Rightarrow> string" where
  "truncate_diff text max_lines =
     (let lines = str_lines text
      in if length lines \<le> max_lines then text
         else join [CHR 0x0A] (take max_lines lines) @ CHR 0x0A # ''... (''
              @ show_nat (length lines - max_lines) @ '' more lines truncated)'')"

section \<open>Updates from the event bus\<close>

record pending_update =
  pu_last_heartbeat :: "string option"
  pu_status :: "string option"
  pu_phase :: "string option"
  pu_last_error :: "string option"
  pu_failure_signaled :: bool

definition no_update :: pending_update where
  "no_update =
     \<lparr>pu_last_heartbeat = None, pu_status = None, pu_phase = None, pu_last_error = None,
      pu_failure_signaled = False\<rparr>"

definition report_phase :: "string \<Rightarrow> string option \<Rightarrow> string option \<Rightarrow> pending_update \<Rightarrow> pending_update" where
  "report_phase status phase message u =
     u\<lparr>pu_status := Some status, pu_phase := or_else phase (pu_phase u),
       pu_last_error := or_else message (pu_last_error u)\<rparr>"

fun note_kind :: "event_kind \<Rightarrow> pending_update \<Rightarrow> pending_update" where
  "note_kind (Ek_Progress status phase message) u = report_phase status phase message u"
| "note_kind (Ek_PhaseResult status phase message) u =
     report_phase status phase message
       (if status = ''failed'' then u\<lparr>pu_failure_signaled := True\<rparr> else u)"
| "note_kind (Ek_Failed phase message) u =
     report_phase (runtime_as_str Rt_Failed) phase message (u\<lparr>pu_failure_signaled := True\<rparr>)"
| "note_kind _ u = u"

definition note_event :: "runtime_event \<Rightarrow> (string, pending_update) btree \<Rightarrow> (string, pending_update) btree" where
  "note_event e m =
     (let u = unwrap_or no_update (bt_get m (rv_task_id e))
      in bt_insert (rv_task_id e) (note_kind (rv_kind e) (u\<lparr>pu_last_heartbeat := Some (rv_ts e)\<rparr>)) m)"

text \<open>What the receiver of the bus yields until it is empty: an event, or a count of lost events.\<close>

datatype bus_item = Bus_Event runtime_event | Bus_Lagged nat

fun collect_updates :: "bus_item list \<Rightarrow> (string, pending_update) btree \<Rightarrow> (string, pending_update) btree" where
  "collect_updates [] m = m"
| "collect_updates (Bus_Event e # items) m = collect_updates items (note_event e m)"
| "collect_updates (Bus_Lagged n # items) m = collect_updates items m"

definition apply_update :: "pending_update \<Rightarrow> task_runtime \<Rightarrow> task_runtime" where
  "apply_update u rt =
     (let rt = rt\<lparr>tr_last_heartbeat := or_else (pu_last_heartbeat u) (tr_last_heartbeat rt)\<rparr>;
          rt = (case pu_status u of
                  None \<Rightarrow> rt
                | Some s \<Rightarrow>
                    (if s \<in> {''phase_done'', ''failed'', ''stale'', ''idle''}
                     then rt\<lparr>tr_status := Some s, tr_pid := None\<rparr> else rt\<lparr>tr_status := Some s\<rparr>));
          rt = rt\<lparr>tr_current_phase := or_else (pu_phase u) (tr_current_phase rt)\<rparr>
      in rt\<lparr>tr_last_error := or_else (pu_last_error u) (tr_last_error rt)\<rparr>)"

definition update_of :: "(string, pending_update) btree \<Rightarrow> task \<Rightarrow> task" where
  "update_of m t =
     (case bt_get m (tk_id t) of None \<Rightarrow> t | Some u \<Rightarrow> upd_runtime (apply_update u) t)"

record job =
  jb_tool :: string
  jb_base_branch :: string
  jb_worktree_path :: string
  jb_attempt :: nat
  jb_started_at :: nat
  jb_pid :: "int option"
  jb_failure_signaled_at :: "nat option"

text \<open>The fields of the run state that these handlers touch.\<close>

record run_state =
  rs_active_jobs :: "(string, job) btree"
  rs_dispatch_retry_count :: "(string, nat) btree"
  rs_dispatch_retry_not_before :: "(string, nat) btree"
  rs_effective_max_parallel :: nat
  rs_original_max_parallel :: nat

definition signal_failure :: "nat \<Rightarrow> (string, pending_update) btree \<Rightarrow> string \<times> job \<Rightarrow> string \<times> job" where
  "signal_failure instant m = (\<lambda>(k, j).
     case bt_get m k of
       Some u \<Rightarrow>
         (k, if pu_failure_signaled u \<and> jb_failure_signaled_at j = None
             then j\<lparr>jb_failure_signaled_at := Some instant\<rparr> else j)
     | None \<Rightarrow> (k, j))"

text \<open>
  \<open>load\<close> and \<open>save\<close> are the storage of the registry; nothing is saved, and no timer is started, when no
  task of the registry has an update.
\<close>

definition apply_runtime_event_bus_updates ::
  "task_registry res \<Rightarrow> (task_registry \<Rightarrow> unit res) \<Rightarrow> string \<Rightarrow> nat \<Rightarrow> bus_item list \<Rightarrow> run_state
     \<Rightarrow> run_state \<times> nat res" where
  "apply_runtime_event_bus_updates load save now instant items st =
     (let m = collect_updates items []
      in if m = [] then (st, Inr 0)
         else case load of
           Inl e \<Rightarrow> (st, Inl e)
         | Inr r \<Rightarrow>
             let updated = length (filter (\<lambda>t. bt_get m (tk_id t) \<noteq> None) (rg_tasks r))
             in if updated = 0 then (st, Inr 0)
                else case save (r\<lparr>rg_tasks := map (update_of m) (rg_tasks r), rg_updated_at := Some now\<rparr>) of
                  Inl e \<Rightarrow> (st, Inl e)
                | Inr _ \<Rightarrow>
                    (st\<lparr>rs_active_jobs := map (signal_failure instant m) (rs_active_jobs st)\<rparr>, Inr updated))"

section \<open>Killing performers that do not exit\<close>

definition overdue :: "nat \<Rightarrow> nat \<Rightarrow> job \<Rightarrow> bool" where
  "overdue grace instant j =
     (case jb_failure_signaled_at j of None \<Rightarrow> False | Some at \<Rightarrow> grace \<le> instant - at)"

text \<open>The process groups that are killed, and the state in which their signal is cleared.\<close>

definition force_kill_stale_failures :: "nat \<Rightarrow> nat \<Rightarrow> run_state \<Rightarrow> run_state \<times> (string \<times> int) list" where
  "force_kill_stale_failures grace instant st =
     (let kill = (\<lambda>j. overdue grace instant j \<and> jb_pid j \<noteq> None)
      in (st\<lparr>rs_active_jobs :=
               map (\<lambda>(k, j). (k, if kill j then j\<lparr>jb_failure_signaled_at := None\<rparr> else j)) (rs_active_jobs st)\<rparr>,
          List.map_filter (\<lambda>(k, j). if overdue grace instant j then map_option (Pair k) (jb_pid j) else None)
            (rs_active_jobs st)))"

definition terminate_active_jobs :: "run_state \<Rightarrow> (string \<times> int) list" where
  "terminate_active_jobs st =
     List.map_filter (\<lambda>(k, j). map_option (Pair k) (jb_pid j)) (rs_active_jobs st)"

section \<open>Dynamic concurrency\<close>

definition reduce_parallel :: "run_state \<Rightarrow> run_state" where
  "reduce_parallel st =
     (if 1 < rs_effective_max_parallel st
      then st\<lparr>rs_effective_max_parallel := rs_effective_max_parallel st - 1\<rparr> else st)"

definition restore_parallel :: "run_state \<Rightarrow> run_state" where
  "restore_parallel st =
     (if 0 < rs_original_max_parallel st
      then st\<lparr>rs_effective_max_parallel :=
                min (rs_effective_max_parallel st + 1) (rs_original_max_parallel st)\<rparr>
      else st)"

section \<open>Stale heartbeats\<close>

datatype stale_action = Stale_Retry | Stale_Block | Stale_Requeue

fun stale_action_text :: "stale_action \<Rightarrow> string" where
  "stale_action_text Stale_Retry = ''retry''"
| "stale_action_text Stale_Block = ''block''"
| "stale_action_text Stale_Requeue = ''requeue''"

definition resolve_stale_heartbeat_action :: "string option \<Rightarrow> string option \<Rightarrow> stale_action" where
  "resolve_stale_heartbeat_action env_action config_action =
     (let raw = to_ascii_lowercase (trim (unwrap_or ''block'' (or_else env_action config_action)))
      in if raw = ''retry'' then Stale_Retry
         else if raw = ''requeue'' then Stale_Requeue else Stale_Block)"

text \<open>The last sign of life of a task.\<close>

definition last_sign :: "task \<Rightarrow> string option" where
  "last_sign t =
     or_else (nonempty (tr_last_heartbeat (tk_runtime t)))
       (or_else (nonempty (tr_started_at (tk_runtime t))) (tk_updated_at t))"

text \<open>The age of a stale task and its last sign of life; \<open>None\<close> for a task that is left alone.\<close>

definition stale_age :: "ts_parser \<Rightarrow> int \<Rightarrow> nat \<Rightarrow> task \<Rightarrow> (string \<times> int) option" where
  "stale_age ts now_ts stale_seconds t =
     (if runtime_status_of t \<noteq> Rt_Running then None
      else Option.bind (last_sign t) (\<lambda>sign.
        Option.bind (ts sign) (\<lambda>parsed.
          let age = clamp_i64 (now_ts - parsed)
          in if age \<le> usize_as_i64 stale_seconds \<or> tk_id t = [] then None else Some (sign, age))))"

definition stale_detail :: "stale_action \<Rightarrow> nat \<Rightarrow> string \<Rightarrow> int \<Rightarrow> string" where
  "stale_detail action stale_seconds sign age =
     ''stale heartbeat: last='' @ sign @ '' age='' @ show_int age @ ''s threshold=''
     @ show_nat stale_seconds @ ''s action='' @ stale_action_text action"

definition requeue_stale :: "string \<Rightarrow> task \<Rightarrow> task" where
  "requeue_stale detail t =
     (upd_runtime (\<lambda>rt. rt\<lparr>tr_status := Some ''idle'', tr_pid := None, tr_current_phase := None,
                          tr_last_error := Some detail\<rparr>) t)
       \<lparr>tk_state := ''todo'', tk_assignee := None, tk_claimed_at := None, tk_worktree := None\<rparr>"

fun apply_stale_action :: "stale_action \<Rightarrow> string \<Rightarrow> task \<Rightarrow> task" where
  "apply_stale_action Stale_Block detail t =
     (upd_runtime (\<lambda>rt. rt\<lparr>tr_status := Some ''stale'', tr_pid := None, tr_last_error := Some detail\<rparr>) t)
       \<lparr>tk_state := ''blocked''\<rparr>"
| "apply_stale_action Stale_Requeue detail t = requeue_stale detail t"
| "apply_stale_action Stale_Retry detail t =
     requeue_stale detail (upd_runtime (\<lambda>rt. fst (increment_retries rt)) t)"

definition stale_task :: "ts_parser \<Rightarrow> int \<Rightarrow> string \<Rightarrow> nat \<Rightarrow> stale_action \<Rightarrow> task \<Rightarrow> task" where
  "stale_task ts now_ts now stale_seconds action t =
     (case stale_age ts now_ts stale_seconds t of
        None \<Rightarrow> t
      | Some (sign, age) \<Rightarrow>
          touch_state_changed now
            (apply_stale_action action (stale_detail action stale_seconds sign age) t))"

definition apply_stale_heartbeat_policy ::
  "ts_parser \<Rightarrow> task_registry res \<Rightarrow> (task_registry \<Rightarrow> unit res) \<Rightarrow> int \<Rightarrow> string \<Rightarrow> nat \<Rightarrow> stale_action
     \<Rightarrow> nat res" where
  "apply_stale_heartbeat_policy ts load save now_ts now stale_seconds action =
     (if stale_seconds = 0 then Inr 0
      else try_bind load (\<lambda>r.
        let stale = filter (\<lambda>t. stale_age ts now_ts stale_seconds t \<noteq> None) (rg_tasks r)
        in if stale = [] then Inr 0
           else try_bind
             (save ((recompute_resource_locks now
                       (r\<lparr>rg_tasks := map (stale_task ts now_ts now stale_seconds action) (rg_tasks r)\<rparr>))
                      \<lparr>rg_updated_at := Some now\<rparr>))
             (\<lambda>_. Inr (length stale))))"

section \<open>Lemmas\<close>

text \<open>The events of one task, in the order of the bus, decide its pending update alone.\<close>

fun events_of :: "string \<Rightarrow> bus_item list \<Rightarrow> runtime_event list" where
  "events_of k [] = []"
| "events_of k (Bus_Event e # items) = (if rv_task_id e = k then e # events_of k items else events_of k items)"
| "events_of k (Bus_Lagged n # items) = events_of k items"

definition note_own :: "runtime_event \<Rightarrow> pending_update \<Rightarrow> pending_update" where
  "note_own e u = note_kind (rv_kind e) (u\<lparr>pu_last_heartbeat := Some (rv_ts e)\<rparr>)"

lemma note_event_get:
  "bt_get (note_event e m) k =
     (if k = rv_task_id e then Some (note_own e (unwrap_or no_update (bt_get m k))) else bt_get m k)"
  by (simp add: note_event_def note_own_def Let_def bt_get_insert)

lemma collect_get:
  "bt_get (collect_updates items m) k =
     (if events_of k items = [] then bt_get m k
      else Some (fold note_own (events_of k items) (unwrap_or no_update (bt_get m k))))"
  by (induction items m rule: collect_updates.induct) (auto simp: note_event_get)

lemma note_kind_heartbeat [simp]: "pu_last_heartbeat (note_kind k u) = pu_last_heartbeat u"
  by (cases k) (simp_all add: report_phase_def)

lemma fold_note_heartbeat:
  "es \<noteq> [] \<Longrightarrow> pu_last_heartbeat (fold note_own es u) = Some (rv_ts (last es))"
  by (induction es arbitrary: u rule: rev_induct) (simp_all add: note_own_def)

definition is_heartbeat :: "runtime_event \<Rightarrow> bool" where
  "is_heartbeat e = (case rv_kind e of Ek_Heartbeat _ _ _ _ _ \<Rightarrow> True | _ \<Rightarrow> False)"

lemma fold_note_quiet:
  "list_all is_heartbeat es \<Longrightarrow> pu_status u = None \<Longrightarrow> pu_phase u = None \<Longrightarrow> pu_last_error u = None \<Longrightarrow>
     pu_status (fold note_own es u) = None \<and> pu_phase (fold note_own es u) = None
     \<and> pu_last_error (fold note_own es u) = None"
  by (induction es arbitrary: u) (auto simp: is_heartbeat_def note_own_def split: event_kind.splits)

lemma apply_update_frame:
  "tr_pid (apply_update u rt) \<in> {None, tr_pid rt}"
  "retries_count (apply_update u rt) = retries_count rt"
  "tr_last_branch (apply_update u rt) = tr_last_branch rt"
  "tr_last_worktree_path (apply_update u rt) = tr_last_worktree_path rt"
  "tr_gate_verdict (apply_update u rt) = tr_gate_verdict rt"
  "tr_review_cycles (apply_update u rt) = tr_review_cycles rt"
  "tr_last_heartbeat (apply_update u rt) = or_else (pu_last_heartbeat u) (tr_last_heartbeat rt)"
  by (auto simp: apply_update_def Let_def retries_count_def metric_i64_def split: option.split)

lemma apply_update_quiet:
  "pu_status u = None \<Longrightarrow> pu_phase u = None \<Longrightarrow> pu_last_error u = None \<Longrightarrow>
     apply_update u rt = rt\<lparr>tr_last_heartbeat := or_else (pu_last_heartbeat u) (tr_last_heartbeat rt)\<rparr>"
  by (simp add: apply_update_def)

lemma update_of_get:
  "update_of (collect_updates items []) t =
     (if events_of (tk_id t) items = [] then t
      else upd_runtime (apply_update (fold note_own (events_of (tk_id t) items) no_update)) t)"
  by (simp add: update_of_def collect_get)

section \<open>Properties\<close>

text \<open>What performers report on the bus reaches the runtime record only: the workflow state, the
  worktree, the gate, the retries, the gate verdict and the review count of a task stay as they are; a
  process id is at most cleared; a task nobody reported on is not touched; the heartbeat becomes the time
  of the last event of the task, and where only heartbeats came in nothing else changes.\<close>

theorem bus_updates_contained:
  "(let t' = update_of (collect_updates items []) t; es = events_of (tk_id t) items; rt = tk_runtime t
    in tk_state t' = tk_state t \<and> tk_worktree t' = tk_worktree t \<and> tk_gate t' = tk_gate t
       \<and> retries_count (tk_runtime t') = retries_count rt
       \<and> tr_gate_verdict (tk_runtime t') = tr_gate_verdict rt
       \<and> tr_review_cycles (tk_runtime t') = tr_review_cycles rt
       \<and> tr_pid (tk_runtime t') \<in> {None, tr_pid rt}
       \<and> (if es = [] then t' = t
          else tr_last_heartbeat (tk_runtime t') = Some (rv_ts (last es)))
       \<and> (if list_all is_heartbeat es \<and> es \<noteq> []
          then t' = t\<lparr>tk_runtime := rt\<lparr>tr_last_heartbeat := Some (rv_ts (last es))\<rparr>\<rparr> else True))"
proof (cases "events_of (tk_id t) items = []")
  case True
  then show ?thesis by (simp add: update_of_get)
next
  case False
  let ?u = "fold note_own (events_of (tk_id t) items) no_update"
  have hb: "pu_last_heartbeat ?u = Some (rv_ts (last (events_of (tk_id t) items)))"
    by (rule fold_note_heartbeat [OF False])
  have quiet: "apply_update ?u (tk_runtime t) =
      (tk_runtime t)\<lparr>tr_last_heartbeat := Some (rv_ts (last (events_of (tk_id t) items)))\<rparr>"
    if beats: "list_all is_heartbeat (events_of (tk_id t) items)"
  proof -
    have "pu_status ?u = None \<and> pu_phase ?u = None \<and> pu_last_error ?u = None"
      by (rule fold_note_quiet [OF beats]) (simp_all add: no_update_def)
    then show ?thesis by (simp add: apply_update_quiet hb)
  qed
  show ?thesis using False quiet apply_update_frame(1) [of ?u "tk_runtime t"]
    by (simp add: update_of_get upd_runtime_def apply_update_frame hb Let_def)
qed

text \<open>A sweep kills exactly the performers whose failure was signalled at least the grace period ago
  and whose process is known, it changes no other job, and a second sweep at the same time kills nobody.\<close>

theorem force_kill_once:
  "snd (force_kill_stale_failures grace instant (fst (force_kill_stale_failures grace instant st))) = []
   \<and> set (snd (force_kill_stale_failures grace instant st)) =
       {(k, pid). \<exists>j at. (k, j) \<in> set (rs_active_jobs st) \<and> jb_pid j = Some pid
          \<and> jb_failure_signaled_at j = Some at \<and> grace \<le> instant - at}
   \<and> {kj \<in> set (rs_active_jobs st). \<not> overdue grace instant (snd kj)}
       \<subseteq> set (rs_active_jobs (fst (force_kill_stale_failures grace instant st)))"
proof -
  let ?kill = "\<lambda>(k, j). (k, if overdue grace instant j \<and> jb_pid j \<noteq> None
    then j\<lparr>jb_failure_signaled_at := None\<rparr> else j)"
  have "snd (force_kill_stale_failures grace instant (fst (force_kill_stale_failures grace instant st))) = []"
    by (auto simp: force_kill_stale_failures_def map_filter_Nil_iff overdue_def Let_def)
  moreover have "set (snd (force_kill_stale_failures grace instant st)) =
       {(k, pid). \<exists>j at. (k, j) \<in> set (rs_active_jobs st) \<and> jb_pid j = Some pid
          \<and> jb_failure_signaled_at j = Some at \<and> grace \<le> instant - at}"
  proof -
    have "(k, pid) \<in> set (snd (force_kill_stale_failures grace instant st)) \<longleftrightarrow>
        (\<exists>j. (k, j) \<in> set (rs_active_jobs st) \<and> overdue grace instant j \<and> jb_pid j = Some pid)" for k pid
      by (force simp: force_kill_stale_failures_def set_map_filter Let_def split: if_splits)
    moreover have "overdue grace instant j \<longleftrightarrow>
        (\<exists>at. jb_failure_signaled_at j = Some at \<and> grace \<le> instant - at)" for j
      by (auto simp: overdue_def split: option.splits)
    ultimately show ?thesis by blast
  qed
  moreover have "{kj \<in> set (rs_active_jobs st). \<not> overdue grace instant (snd kj)}
       \<subseteq> set (rs_active_jobs (fst (force_kill_stale_failures grace instant st)))"
    by (force simp: force_kill_stale_failures_def Let_def)
  ultimately show ?thesis by blast
qed

lemma parallel_bounds:
  assumes "1 \<le> rs_effective_max_parallel st" "rs_effective_max_parallel st \<le> rs_original_max_parallel st"
  shows "1 \<le> rs_effective_max_parallel (reduce_parallel st)
    \<and> rs_effective_max_parallel (reduce_parallel st) \<le> rs_original_max_parallel (reduce_parallel st)"
    and "1 \<le> rs_effective_max_parallel (restore_parallel st)
    \<and> rs_effective_max_parallel (restore_parallel st) \<le> rs_original_max_parallel (restore_parallel st)"
  using assms by (auto simp: reduce_parallel_def restore_parallel_def)

lemma requeue_stale_fields:
  "tk_worktree (requeue_stale d t) = None" "tk_state (requeue_stale d t) = ''todo''"
  "tr_last_worktree_path (tk_runtime (requeue_stale d t)) = tr_last_worktree_path (tk_runtime t)"
  "tr_last_branch (tk_runtime (requeue_stale d t)) = tr_last_branch (tk_runtime t)"
  "tr_status (tk_runtime (requeue_stale d t)) = Some ''idle''"
  "retries_count (tk_runtime (requeue_stale d t)) = retries_count (tk_runtime t)"
  by (simp_all add: requeue_stale_def upd_runtime_def retries_count_def metric_i64_def)

lemma stale_status: "runtime_status_of (apply_stale_action action d t) \<noteq> Rt_Running"
proof -
  have "status_of (rt\<lparr>tr_status := Some ''stale''\<rparr>) = Rt_Stale" "status_of (rt\<lparr>tr_status := Some ''idle''\<rparr>) = Rt_Idle"
    for rt :: task_runtime
    using rt_text.parse_show [of Rt_Stale] rt_text.parse_show [of Rt_Idle] by (simp_all add: status_of_def)
  then have texts: "tr_status rt = Some ''stale'' \<Longrightarrow> status_of rt = Rt_Stale"
      "tr_status rt = Some ''idle'' \<Longrightarrow> status_of rt = Rt_Idle" for rt :: task_runtime
    by (simp_all add: status_of_def)
  show ?thesis
    by (cases action) (simp_all add: runtime_status_of_def texts requeue_stale_fields upd_runtime_def)
qed


end
