(* ===== verification/Prd_Queue.thy ===== *)
theory Prd_Queue
  imports Control_Loop Model
begin

text \<open>
  The queue of PRD files (\<open>core/src/prd_queue.rs\<close>): reading and checking the files (\<open>inspect\<close>,
  \<open>validate\<close>), the recorded progress, which PRD is the current one, and the loop that runs one PRD after
  the other and goes on only when all of it is delivered (\<open>run\<close>).

  The parsers of serde, the digest SHA-256 and the join of a path with the project's root are a record of
  functions (\<open>prd_formats\<close>).  Files, the SQLite storage, the event log and the coordinator run of a single
  PRD are operations on an arbitrary state (\<open>queue_world\<close>), as the backend of the control loop is.
\<close>

section \<open>Texts of errors\<close>

text \<open>\<open>Display\<close> of \<open>MaccError\<close>.\<close>

fun error_text :: "macc_error \<Rightarrow> string" where
  "error_text (Config_Err path source) = ''Configuration error in '' @ path @ '': '' @ source"
| "error_text (Validation_Err m) = ''Validation error: '' @ m"
| "error_text (Not_Process_Owner handle owner) =
     ''Operation rejected: client is not the owner of this process. Current owner: ''
     @ unwrap_or ''none'' owner
     @ ''. Retry with '' @ quoted ''--as-client <owner-client-id>'' @ '', request control with ''
     @ quoted ''macc process takeover request --kind project'' @ '', or clear an abandoned lease with ''
     @ quoted ''macc process release-stale'' @ ''.''"
| "error_text (Tool_Spec_Err path line column m) = ''ToolSpec error in '' @ path @ '': '' @ m"
| "error_text Home_Dir_Not_Found = ''User home directory not found''"
| "error_text (User_Scope_Not_Allowed m) = ''User scope actions are not allowed in M0: '' @ m"
| "error_text (Io_Err path action source) =
     ''IO error in '' @ path @ '' during '' @ action @ '': '' @ source"
| "error_text (Project_Root_Not_Found start_dir) =
     ''Project root not found (searched up from '' @ start_dir @ '')''"
| "error_text (Secret_Detected path details) =
     ''Secret(s) detected in generated output for '' @ path @ '': '' @ details"
| "error_text (Coordinator_Err code m) = ''Coordinator error ['' @ code @ '']: '' @ m"
| "error_text (Storage_Err backend m) = ''Storage error ('' @ backend @ ''): '' @ m"
| "error_text (Git_Err operation m) = ''Git error during '' @ operation @ '': '' @ m"
| "error_text (Fetch_Err url m) = ''Fetch error for '' @ url @ '': '' @ m"
| "error_text (Catalog_Err operation m) = ''Catalog error during '' @ operation @ '': '' @ m"

section \<open>Reading and checking the files\<close>

record queue_entry =
  qe_path :: string
  qe_fingerprint :: string
  qe_task_ids :: "string list"

record queue_progress =
  qp_entries :: "queue_entry list"
  qp_next :: nat
  qp_status :: string
  qp_reason :: "string option"

record prd_formats =
  pf_at :: "string \<Rightarrow> string"
  pf_prd_input :: "string \<Rightarrow> string + unit"
  pf_value :: "string \<Rightarrow> string + json"
  pf_sha256 :: "string \<Rightarrow> string"

definition queue_invalid :: "string \<Rightarrow> 'a res" where
  "queue_invalid message = Inl (Validation_Err message)"

definition read_input :: "(string \<Rightarrow> string + string) \<Rightarrow> string \<Rightarrow> string res" where
  "read_input file path =
     (case file path of
        Inl e \<Rightarrow> Inl (Io_Err path ''read PRD queue input'' e) | Inr bytes \<Rightarrow> Inr bytes)"

definition or_invalid :: "string \<Rightarrow> string + 'a \<Rightarrow> 'a res" where
  "or_invalid path r = (case r of Inl e \<Rightarrow> queue_invalid (path @ '': '' @ e) | Inr a \<Rightarrow> Inr a)"

fun dependency_ids :: "string \<Rightarrow> json list \<Rightarrow> string list res" where
  "dependency_ids k [] = Inr []"
| "dependency_ids k (item # items) =
     (case as_str item of
        None \<Rightarrow> queue_invalid (k @ '': dependency must be a task ID'')
      | Some d \<Rightarrow> try_bind (dependency_ids k items) (\<lambda>ds. Inr (d # ds)))"

definition inspect_task :: "string \<Rightarrow> json \<Rightarrow> (string \<times> string list) res" where
  "inspect_task path v =
     (case opt_filter (\<lambda>k. trim k \<noteq> []) (get_str v ''id'') of
        None \<Rightarrow> queue_invalid (path @ '': task ID missing'')
      | Some k \<Rightarrow>
          (case json_get v ''dependencies'' of
             None \<Rightarrow> Inr (k, [])
           | Some (JArr items) \<Rightarrow> try_bind (dependency_ids k items) (\<lambda>ds. Inr (k, ds))
           | Some _ \<Rightarrow> queue_invalid (k @ '': dependencies must be an array'')))"

fun inspect_tasks :: "string \<Rightarrow> json list \<Rightarrow> (string \<times> string list) list res" where
  "inspect_tasks path [] = Inr []"
| "inspect_tasks path (v # vs) =
     try_bind (inspect_task path v) (\<lambda>t. try_bind (inspect_tasks path vs) (\<lambda>ts. Inr (t # ts)))"

definition inspect ::
  "prd_formats \<Rightarrow> (string \<Rightarrow> string + string) \<Rightarrow> string \<Rightarrow> (queue_entry \<times> string list list) res" where
  "inspect pf file path =
     try_bind (read_input file path) (\<lambda>bytes.
     try_bind (or_invalid path (pf_prd_input pf bytes)) (\<lambda>_.
     try_bind (or_invalid path (pf_value pf bytes)) (\<lambda>v.
       case opt_filter (\<lambda>ts. ts \<noteq> []) (Option.bind (json_get v ''tasks'') as_array) of
         None \<Rightarrow> queue_invalid (path @ '': non-empty tasks array required'')
       | Some tasks \<Rightarrow>
           try_bind (inspect_tasks path tasks) (\<lambda>found.
             Inr (\<lparr>qe_path = path, qe_fingerprint = pf_sha256 pf bytes, qe_task_ids = map fst found\<rparr>,
                  map snd found)))))"

text \<open>The first loop of \<open>validate\<close>: the ids already taken are a \<open>HashSet\<close>.\<close>

fun claim_ids :: "string list \<Rightarrow> string list \<Rightarrow> string list res" where
  "claim_ids seen [] = Inr seen"
| "claim_ids seen (k # ks) =
     (if k \<in> set seen then queue_invalid (''Duplicate task ID in PRD queue: '' @ k)
      else claim_ids (k # seen) ks)"

fun inspect_files ::
  "prd_formats \<Rightarrow> (string \<Rightarrow> string + string) \<Rightarrow> string list \<Rightarrow> string list
     \<Rightarrow> ((queue_entry \<times> string list list) list \<times> string list) res"
where
  "inspect_files pf file seen [] = Inr ([], seen)"
| "inspect_files pf file seen (f # fs) =
     try_bind (inspect pf file (pf_at pf f)) (\<lambda>(entry, deps).
     try_bind (claim_ids seen (qe_task_ids entry)) (\<lambda>seen1.
     try_bind (inspect_files pf file seen1 fs) (\<lambda>(rest, seen2).
       Inr ((entry\<lparr>qe_path := f\<rparr>, deps) # rest, seen2))))"

text \<open>The second loop: a dependency on a task of the queue must not be on a later PRD.\<close>

fun check_order ::
  "string list \<Rightarrow> string list \<Rightarrow> (queue_entry \<times> string list list) list \<Rightarrow> unit res" where
  "check_order seen available [] = Inr ()"
| "check_order seen available ((entry, deps) # rest) =
     (let available1 = qe_task_ids entry @ available in
      case List.find (\<lambda>d. d \<in> set seen \<and> d \<notin> set available1) (concat deps) of
        Some d \<Rightarrow> queue_invalid (qe_path entry @ '' depends on later PRD task '' @ d @ ''; reorder the queue'')
      | None \<Rightarrow> check_order seen available1 rest)"

definition validate_queue ::
  "prd_formats \<Rightarrow> (string \<Rightarrow> string + string) \<Rightarrow> string list \<Rightarrow> queue_entry list res" where
  "validate_queue pf file files =
     try_bind (inspect_files pf file [] files) (\<lambda>(found, seen).
     try_bind (check_order seen [] found) (\<lambda>_. Inr (map fst found)))"

section \<open>The current PRD\<close>

text \<open>
  The part of the coordinator configuration that names PRDs, and the result of \<open>load\<close> (no file: the
  default progress).
\<close>

record prd_config =
  qc_prd_files :: "string list"
  qc_prd_file :: "string option"

definition default_progress :: queue_progress where
  "default_progress = \<lparr>qp_entries = [], qp_next = 0, qp_status = [], qp_reason = None\<rparr>"

definition load_progress ::
  "(string \<Rightarrow> string + queue_progress) \<Rightarrow> (string \<Rightarrow> string + string) \<Rightarrow> bool \<Rightarrow> string
     \<Rightarrow> queue_progress res" where
  "load_progress decode file exists_file path =
     (if \<not> exists_file then Inr default_progress
      else try_bind (read_input file path) (\<lambda>bytes.
        case decode bytes of
          Inl e \<Rightarrow> queue_invalid (''Invalid queue progress: '' @ e) | Inr p \<Rightarrow> Inr p))"

definition active_path ::
  "prd_formats \<Rightarrow> (string \<Rightarrow> string + string) \<Rightarrow> queue_progress res \<Rightarrow> prd_config option
     \<Rightarrow> string option \<Rightarrow> string res" where
  "active_path pf file loaded config explicit =
     (case explicit of
        Some path \<Rightarrow> Inr (pf_at pf path)
      | None \<Rightarrow>
          (case opt_filter (\<lambda>c. qc_prd_files c \<noteq> []) config of
             Some c \<Rightarrow>
               try_bind loaded (\<lambda>progress.
               try_bind (validate_queue pf file (qc_prd_files c)) (\<lambda>entries.
                 if qp_entries progress \<noteq> [] \<and> qp_entries progress \<noteq> entries
                 then queue_invalid ''PRD queue changed; review and reset progress before continuing.''
                 else if qp_next progress < length (qc_prd_files c)
                 then Inr (pf_at pf (qc_prd_files c ! qp_next progress))
                 else queue_invalid ''PRD queue completed. Reset progress explicitly to start another execution.''))
           | None \<Rightarrow>
               Inr (pf_at pf (unwrap_or ''prd.json'' (Option.bind config qc_prd_file)))))"

record current_prd =
  cp_path :: string
  cp_name :: string
  cp_position :: nat
  cp_total :: nat
  cp_completed :: bool

definition prd_label :: "current_prd \<Rightarrow> string" where
  "prd_label c =
     (if cp_total c = 0 \<or> cp_total c = 1 then cp_name c
      else if cp_completed c
      then cp_name c @ '' ('' @ show_nat (cp_total c) @ ''/'' @ show_nat (cp_total c) @ '' done)''
      else cp_name c @ '' ('' @ show_nat (cp_position c) @ ''/'' @ show_nat (cp_total c) @ '')'')"

text \<open>\<open>Path::file_name\<close> is an argument.\<close>

definition current_prd_of ::
  "(string \<Rightarrow> string option) \<Rightarrow> queue_progress res \<Rightarrow> prd_config option \<Rightarrow> current_prd" where
  "current_prd_of file_name loaded config =
     (let files = (case config of None \<Rightarrow> [] | Some c \<Rightarrow> qc_prd_files c);
          next = (case loaded of Inl _ \<Rightarrow> 0 | Inr p \<Rightarrow> qp_next p);
          index = min next (length files - 1);
          (path, position, completed) =
            (if files = [] then (unwrap_or ''prd.json'' (Option.bind config qc_prd_file), 1, False)
             else (files ! index, index + 1, length files \<le> next))
      in \<lparr>cp_path = path, cp_name = unwrap_or path (file_name path), cp_position = position,
          cp_total = max (length files) 1, cp_completed = completed\<rparr>)"

section \<open>Running the queue\<close>

record run_record =
  rn_status :: string
  rn_stop_reason :: "string option"

record 's queue_world =
  qw_file :: "'s \<Rightarrow> string \<Rightarrow> string + string"
  qw_load_progress :: "'s \<Rightarrow> queue_progress res"
  qw_save_progress :: "queue_progress \<Rightarrow> 's \<Rightarrow> 's \<times> unit res"
  qw_load_registry :: "'s \<Rightarrow> task_registry res"
  qw_save_registry :: "task_registry \<Rightarrow> 's \<Rightarrow> 's \<times> unit res"
  qw_archive :: "string \<Rightarrow> task_registry \<Rightarrow> 's \<Rightarrow> 's \<times> unit res"
  qw_note :: "string \<Rightarrow> 's \<Rightarrow> 's \<times> unit res"
  qw_event :: "string \<Rightarrow> string \<Rightarrow> string \<Rightarrow> string \<Rightarrow> string \<Rightarrow> string \<Rightarrow> 's \<Rightarrow> 's \<times> unit res"
  qw_now_nanos :: "'s \<Rightarrow> int"
  qw_run_single :: "string \<Rightarrow> string \<Rightarrow> 's \<Rightarrow> 's \<times> unit res"
  qw_get_run :: "string \<Rightarrow> 's \<Rightarrow> run_record option res"
  qw_upsert_run :: "string \<Rightarrow> run_record \<Rightarrow> 's \<Rightarrow> 's \<times> unit res"
  qw_control_mode :: "'s \<Rightarrow> string option res"

definition delivered :: "task \<Rightarrow> bool" where
  "delivered t = (is_merged t \<and> gate_verdict_satisfies_dependencies t)"

definition incomplete_tasks :: "queue_entry \<Rightarrow> task_registry \<Rightarrow> string list" where
  "incomplete_tasks entry r =
     filter (\<lambda>k. case find_task (rg_tasks r) k of None \<Rightarrow> True | Some t \<Rightarrow> \<not> delivered t)
       (qe_task_ids entry)"

definition debug_option :: "('a \<Rightarrow> string) \<Rightarrow> 'a option \<Rightarrow> string" where
  "debug_option f v = (case v of None \<Rightarrow> ''None'' | Some x \<Rightarrow> ''Some('' @ f x @ '')'')"

definition incomplete_reason :: "task_registry \<Rightarrow> string \<Rightarrow> string" where
  "incomplete_reason r k =
     (case find_task (rg_tasks r) k of
        None \<Rightarrow> k @ '': missing from registry''
      | Some t \<Rightarrow>
          if is_merged t
          then k @ '': merged but gate requires ''
               @ debug_option gate_verdict_debug (map_option tg_required_verdict (tk_gate t))
               @ '', recorded '' @ debug_option gate_verdict_debug (tr_gate_verdict (tk_runtime t))
          else k @ '': '' @ tk_state t
               @ unwrap_or [] (map_option (\<lambda>m. '' - '' @ m) (tr_last_error_message (tk_runtime t))))"

text \<open>Unfinished work that the next PRD would drop from the registry.\<close>

definition unsafe_tasks :: "queue_entry \<Rightarrow> task_registry \<Rightarrow> string list" where
  "unsafe_tasks entry r =
     map tk_id (filter (\<lambda>t. tk_id t \<notin> set (qe_task_ids entry) \<and> \<not> is_merged t
                          \<and> (tk_state t \<noteq> ''todo'' \<or> tk_worktree t \<noteq> None)) (rg_tasks r))"

text \<open>\<open>BTreeSet::insert\<close> for every delivered task.\<close>

definition keep_delivered :: "task_registry \<Rightarrow> task_registry" where
  "keep_delivered r =
     r\<lparr>rg_external_merged :=
         fold (\<lambda>t. insort_insert (tk_id t)) (filter delivered (rg_tasks r)) (rg_external_merged r)\<rparr>"

definition fail :: "macc_error \<Rightarrow> 's \<Rightarrow> 's \<times> 'a res" where
  "fail e s = (s, Inl e)"

definition stop_queue ::
  "'s queue_world \<Rightarrow> queue_progress \<Rightarrow> string \<Rightarrow> 's \<Rightarrow> 's \<times> 'a res" where
  "stop_queue w p reason =
     seq (qw_save_progress w (p\<lparr>qp_status := ''blocked'', qp_reason := Some reason\<rparr>))
       (\<lambda>_. fail (Validation_Err reason))"

definition archive_path :: "prd_formats \<Rightarrow> string \<Rightarrow> nat \<Rightarrow> string" where
  "archive_path pf kind n =
     pf_at pf (''.macc/state/prd-queue-'' @ kind @ ''-'' @ show_nat n @ ''.json'')"

text \<open>A storage that cannot be read is passed over (\<open>if let Ok\<close>).\<close>

definition prepare_registry ::
  "prd_formats \<Rightarrow> 's queue_world \<Rightarrow> queue_progress \<Rightarrow> queue_entry \<Rightarrow> 's \<Rightarrow> 's \<times> unit res" where
  "prepare_registry pf w p entry s =
     (case qw_load_registry w s of
        Inl _ \<Rightarrow> (s, Inr ())
      | Inr r \<Rightarrow>
          if unsafe_tasks entry r \<noteq> []
          then stop_queue w p
                 (''Cannot replace registry with '' @ qe_path entry
                  @ '': unfinished work outside this PRD: '' @ join '', '' (unsafe_tasks entry r)
                  @ ''. Resolve it before switching inputs.'') s
          else seq (qw_archive w (archive_path pf ''registry'' (qp_next p)) r)
                 (\<lambda>_. qw_save_registry w (keep_delivered r)) s)"

definition judge_run ::
  "prd_formats \<Rightarrow> 's queue_world \<Rightarrow> queue_entry \<Rightarrow> string \<Rightarrow> 's \<Rightarrow> unit res" where
  "judge_run pf w entry run_id s =
     try_bind (inspect pf (qw_file w s) (pf_at pf (qe_path entry))) (\<lambda>(again, _).
     if qe_fingerprint again \<noteq> qe_fingerprint entry
     then queue_invalid (''PRD changed during execution: '' @ qe_path entry
            @ ''; review and reset queue progress before continuing'')
     else try_bind (qw_get_run w run_id s) (\<lambda>run.
     if map_option rn_status run \<noteq> Some ''success''
     then queue_invalid ''PRD run did not finish successfully; the remaining queue is preserved.''
     else try_bind (qw_control_mode w s) (\<lambda>mode.
     if mode \<notin> {None, Some ''running''}
     then queue_invalid ''PRD queue interrupted by coordinator stop; next PRD was not started.''
     else try_bind (qw_load_registry w s) (\<lambda>r.
     if incomplete_tasks entry r = [] then Inr ()
     else queue_invalid (''PRD '' @ qe_path entry @ '' is not fully delivered; queue stopped. Remaining: ''
            @ join ''; '' (map (incomplete_reason r) (incomplete_tasks entry r)))))))"

definition queue_failed ::
  "'s queue_world \<Rightarrow> queue_progress \<Rightarrow> string \<Rightarrow> macc_error \<Rightarrow> 's \<Rightarrow> 's \<times> 'a res" where
  "queue_failed w p run_id error s =
     (case qw_get_run w run_id s of
        Inl e \<Rightarrow> (s, Inl e)
      | Inr run \<Rightarrow>
          let status = (case run of
                Some x \<Rightarrow> if rn_status x \<in> {''paused'', ''stopped_by_user'', ''failed''}
                          then rn_status x else ''blocked''
              | None \<Rightarrow> ''blocked'');
              record_run = (case run of
                Some x \<Rightarrow> if rn_status x = ''success''
                          then qw_upsert_run w run_id
                                 (x\<lparr>rn_status := ''blocked'', rn_stop_reason := Some (error_text error)\<rparr>)
                          else (\<lambda>s. (s, Inr ()))
              | None \<Rightarrow> (\<lambda>s. (s, Inr ())))
          in seq record_run (\<lambda>_.
             seq (qw_save_progress w (p\<lparr>qp_status := status, qp_reason := Some (error_text error)\<rparr>)) (\<lambda>_.
             seq (qw_event w ''prd_queue_stopped'' ''-'' ''run'' status (error_text error) ''blocking'')
               (\<lambda>_. fail error))) s)"

definition queue_delivered ::
  "prd_formats \<Rightarrow> 's queue_world \<Rightarrow> queue_progress \<Rightarrow> string \<Rightarrow> 's \<Rightarrow> 's \<times> queue_progress res" where
  "queue_delivered pf w p message s =
     (case qw_load_registry w s of
        Inl e \<Rightarrow> (s, Inl e)
      | Inr r \<Rightarrow>
          let p1 = p\<lparr>qp_next := qp_next p + 1,
                     qp_status := (if qp_next p + 1 = length (qp_entries p) then ''completed'' else ''ready'')\<rparr>
          in seq (qw_archive w (archive_path pf ''completed'' (qp_next p)) r) (\<lambda>_.
             seq (qw_save_progress w p1) (\<lambda>_.
             seq (qw_event w ''prd_queue_completed_entry'' ''-'' ''run'' ''success'' message ''info'')
               (\<lambda>_ s. (s, Inr p1)))) s)"

definition queue_message :: "queue_progress \<Rightarrow> queue_entry \<Rightarrow> string" where
  "queue_message p entry =
     ''PRD '' @ show_nat (qp_next p + 1) @ ''/'' @ show_nat (length (qp_entries p)) @ '': '' @ qe_path entry"

definition execute_entry ::
  "prd_formats \<Rightarrow> 's queue_world \<Rightarrow> queue_progress \<Rightarrow> queue_entry \<Rightarrow> 's \<Rightarrow> 's \<times> queue_progress res" where
  "execute_entry pf w p entry s =
     (let run_id = ''queue-'' @ show_int (qw_now_nanos w s) @ ''-'' @ show_nat (qp_next p);
          (s1, result) = qw_run_single w (pf_at pf (qe_path entry)) run_id s
      in case try_bind result (\<lambda>_. judge_run pf w entry run_id s1) of
           Inl error \<Rightarrow> queue_failed w p run_id error s1
         | Inr _ \<Rightarrow> queue_delivered pf w p (queue_message p entry) s1)"

definition queue_step ::
  "prd_formats \<Rightarrow> 's queue_world \<Rightarrow> queue_progress \<Rightarrow> 's \<Rightarrow> 's \<times> queue_progress res" where
  "queue_step pf w p s =
     (let entry = qp_entries p ! qp_next p;
          p1 = p\<lparr>qp_status := ''running'', qp_reason := None\<rparr>
      in case inspect pf (qw_file w s) (pf_at pf (qe_path entry)) of
           Inl e \<Rightarrow> (s, Inl e)
         | Inr (now, _) \<Rightarrow>
             if qe_fingerprint now \<noteq> qe_fingerprint entry
             then stop_queue w p (''PRD changed during execution: '' @ qe_path entry) s
             else seq (prepare_registry pf w p entry) (\<lambda>_.
                  seq (qw_save_progress w p1) (\<lambda>_.
                  seq (qw_note w (queue_message p entry)) (\<lambda>_.
                  seq (qw_event w ''prd_queue_started'' ''-'' ''run'' ''started'' (queue_message p entry) ''info'')
                    (\<lambda>_. execute_entry pf w p1 entry)))) s)"

section \<open>Sequencing\<close>

lemma seq_Inr_iff: "seq m f s = (s2, Inr b) \<longleftrightarrow> (\<exists>s1 a. m s = (s1, Inr a) \<and> f a s1 = (s2, Inr b))"
  by (auto simp: seq_def split: prod.splits sum.splits)

lemma fail_Inr [simp]: "fail e s \<noteq> (s', Inr a)"
  by (simp add: fail_def)

lemma stop_queue_Inr [simp]: "stop_queue w p reason s \<noteq> (s', Inr a)"
  by (simp add: stop_queue_def seq_Inr_iff)

lemma queue_failed_Inr [simp]: "queue_failed w p k e s \<noteq> (s', Inr a)"
  by (auto simp: queue_failed_def seq_Inr_iff Let_def split: sum.splits)

text \<open>What a step that goes on has seen.\<close>

definition entry_delivered :: "'s queue_world \<Rightarrow> queue_entry \<Rightarrow> 's \<Rightarrow> bool" where
  "entry_delivered w entry s =
     ((\<exists>k run. qw_get_run w k s = Inr (Some run) \<and> rn_status run = ''success'')
      \<and> qw_control_mode w s \<in> {Inr None, Inr (Some ''running'')}
      \<and> (\<exists>r. qw_load_registry w s = Inr r
           \<and> (\<forall>k \<in> set (qe_task_ids entry). \<exists>t. find_task (rg_tasks r) k = Some t \<and> delivered t)))"

lemma incomplete_Nil:
  "incomplete_tasks entry r = [] \<longleftrightarrow>
     (\<forall>k \<in> set (qe_task_ids entry). \<exists>t. find_task (rg_tasks r) k = Some t \<and> delivered t)"
  by (fastforce simp: incomplete_tasks_def filter_empty_conv split: option.splits)

lemma judge_run_Inr: "judge_run pf w entry run_id s = Inr () \<Longrightarrow> entry_delivered w entry s"
  unfolding judge_run_def try_bind_Inr_iff entry_delivered_def
  by (auto simp: queue_invalid_def incomplete_Nil try_bind_Inr_iff split: if_splits)

lemma queue_delivered_Inr:
  "queue_delivered pf w p m s = (s', Inr p') \<Longrightarrow>
     p' = p\<lparr>qp_next := qp_next p + 1,
            qp_status := (if qp_next p + 1 = length (qp_entries p) then ''completed'' else ''ready'')\<rparr>"
  by (auto simp: queue_delivered_def seq_Inr_iff Let_def split: sum.splits)

lemma execute_entry_Inr:
  assumes "execute_entry pf w p entry s = (s', Inr p')"
  shows "(\<exists>s1. entry_delivered w entry s1)
    \<and> p' = p\<lparr>qp_next := qp_next p + 1,
             qp_status := (if qp_next p + 1 = length (qp_entries p) then ''completed'' else ''ready'')\<rparr>"
proof -
  obtain s1 result where run: "qw_run_single w (pf_at pf (qe_path entry))
      (''queue-'' @ show_int (qw_now_nanos w s) @ ''-'' @ show_nat (qp_next p)) s = (s1, result)"
    by fastforce
  obtain k where k: "try_bind result (\<lambda>_. judge_run pf w entry k s1) = Inr ()"
      "queue_delivered pf w p (queue_message p entry) s1 = (s', Inr p')"
    using assms run by (auto simp: execute_entry_def Let_def split: sum.splits)
  then have "entry_delivered w entry s1" by (auto simp: try_bind_Inr_iff intro: judge_run_Inr)
  with queue_delivered_Inr [OF k(2)] show ?thesis by blast
qed

lemma queue_step_Inr:
  assumes "queue_step pf w p s = (s', Inr p')"
  shows "(\<exists>s1. entry_delivered w (qp_entries p ! qp_next p) s1)
    \<and> p' = p\<lparr>qp_next := qp_next p + 1, qp_reason := None,
             qp_status := (if qp_next p + 1 = length (qp_entries p) then ''completed'' else ''ready'')\<rparr>"
proof -
  obtain s1 where "execute_entry pf w (p\<lparr>qp_status := ''running'', qp_reason := None\<rparr>)
      (qp_entries p ! qp_next p) s1 = (s', Inr p')"
    using assms
    by (auto simp: queue_step_def seq_Inr_iff Let_def split: sum.splits prod.splits if_splits)
  from execute_entry_Inr [OF this] show ?thesis by simp
qed

section \<open>The loop\<close>

function queue_loop ::
  "prd_formats \<Rightarrow> 's queue_world \<Rightarrow> queue_progress \<Rightarrow> 's \<Rightarrow> 's \<times> queue_progress res" where
  "queue_loop pf w p s =
     (if qp_next p < length (qp_entries p)
      then case queue_step pf w p s of
             (s', Inl e) \<Rightarrow> (s', Inl e)
           | (s', Inr p') \<Rightarrow> queue_loop pf w p' s'
      else (s, Inr p))"
  by pat_completeness auto
termination
  by (relation "measure (\<lambda>(pf, w, p, s). length (qp_entries p) - qp_next p)")
     (auto dest: queue_step_Inr [OF sym])

declare queue_loop.simps [simp del]

definition run_queue ::
  "prd_formats \<Rightarrow> 's queue_world \<Rightarrow> string list \<Rightarrow> 's \<Rightarrow> 's \<times> queue_progress res" where
  "run_queue pf w files s =
     (case try_bind (validate_queue pf (qw_file w s) files) (\<lambda>entries.
           try_bind (qw_load_progress w s) (\<lambda>progress. Inr (entries, progress))) of
        Inl e \<Rightarrow> (s, Inl e)
      | Inr (entries, progress) \<Rightarrow>
          if qp_entries progress \<noteq> [] \<and> qp_entries progress \<noteq> entries
          then fail (Validation_Err ''PRD queue or file contents changed. Inspect `macc coordinator prds status`, then explicitly reset queue progress.'') s
          else if length entries < qp_next progress
          then fail (Validation_Err ''Invalid PRD queue cursor'') s
          else queue_loop pf w (progress\<lparr>qp_entries := entries\<rparr>) s)"

lemma queue_loop_delivers:
  assumes "queue_loop pf w p s = (s', Inr p')" "qp_next p \<le> length (qp_entries p)"
  shows "qp_entries p' = qp_entries p \<and> qp_next p' = length (qp_entries p)
    \<and> (\<forall>i. qp_next p \<le> i \<and> i < length (qp_entries p) \<longrightarrow> (\<exists>s1. entry_delivered w (qp_entries p ! i) s1))"
  using assms
proof (induction pf w p s rule: queue_loop.induct)
  case (1 pf w p s)
  show ?case
  proof (cases "qp_next p < length (qp_entries p)")
    case False
    then show ?thesis using "1.prems" by (auto simp: queue_loop.simps)
  next
    case True
    obtain s1 p1 where step: "queue_step pf w p s = (s1, Inr p1)"
        "queue_loop pf w p1 s1 = (s', Inr p')"
      using "1.prems" True by (auto simp: queue_loop.simps [of pf w p s] split: prod.splits sum.splits)
    note adv = queue_step_Inr [OF step(1)]
    have le: "qp_next p1 \<le> length (qp_entries p1)" using adv True by simp
    have ih: "qp_entries p' = qp_entries p1 \<and> qp_next p' = length (qp_entries p1)
        \<and> (\<forall>i. qp_next p1 \<le> i \<and> i < length (qp_entries p1)
            \<longrightarrow> (\<exists>s1. entry_delivered w (qp_entries p1 ! i) s1))"
      by (rule "1.IH" [OF True step(1) [symmetric] refl step(2) le])
    have "\<exists>s1. entry_delivered w (qp_entries p ! i) s1"
      if "qp_next p \<le> i" "i < length (qp_entries p)" for i
    proof (cases "i = qp_next p")
      case True
      then show ?thesis using adv by blast
    next
      case False
      then show ?thesis using that ih adv by simp
    qed
    with ih adv show ?thesis by simp
  qed
qed

section \<open>Lemmas on validation\<close>

lemma claim_ids_Inr:
  "claim_ids seen ks = Inr seen' \<Longrightarrow>
     distinct ks \<and> set ks \<inter> set seen = {} \<and> set seen' = set ks \<union> set seen"
  by (induction ks arbitrary: seen) (fastforce simp: queue_invalid_def split: if_splits)+

lemma inspect_tasks_Inr:
  "inspect_tasks path vs = Inr ts \<Longrightarrow> length ts = length vs \<and> (\<forall>t \<in> set ts. trim (fst t) \<noteq> [])"
  by (induction vs arbitrary: ts)
     (auto simp: inspect_task_def queue_invalid_def opt_filter_def try_bind_Inr_iff
       split: option.splits if_splits json.splits)

lemma inspect_Inr:
  "inspect pf file path = Inr (entry, deps) \<Longrightarrow>
     qe_path entry = path \<and> qe_task_ids entry \<noteq> [] \<and> (\<forall>k \<in> set (qe_task_ids entry). trim k \<noteq> [])"
  unfolding inspect_def try_bind_Inr_iff
  by (auto simp: queue_invalid_def opt_filter_def try_bind_Inr_iff dest!: inspect_tasks_Inr
      split: option.splits if_splits)

lemma inspect_files_Inr:
  assumes "inspect_files pf file seen fs = Inr (found, seen')"
  shows "map (qe_path \<circ> fst) found = fs"
    and "distinct (concat (map (qe_task_ids \<circ> fst) found))"
    and "set seen' = set (concat (map (qe_task_ids \<circ> fst) found)) \<union> set seen"
    and "set (concat (map (qe_task_ids \<circ> fst) found)) \<inter> set seen = {}"
    and "\<forall>(e, ds) \<in> set found. inspect pf file (pf_at pf (qe_path e)) = Inr (e\<lparr>qe_path := pf_at pf (qe_path e)\<rparr>, ds)"
  using assms
proof (atomize (full), induction fs arbitrary: seen found)
  case (Cons f fs)
  obtain e ds seen1 rest where e: "inspect pf file (pf_at pf f) = Inr (e, ds)"
      "claim_ids seen (qe_task_ids e) = Inr seen1" "inspect_files pf file seen1 fs = Inr (rest, seen')"
      "found = (e\<lparr>qe_path := f\<rparr>, ds) # rest"
    using Cons.prems by (auto simp: try_bind_Inr_iff)
  have "qe_path e = pf_at pf f" using inspect_Inr [OF e(1)] by simp
  then have "e\<lparr>qe_path := pf_at pf f\<rparr> = e" by simp
  with claim_ids_Inr [OF e(2)] Cons.IH [OF e(3)] e(1,4) show ?case by auto
qed auto

lemma check_order_Inr:
  assumes "check_order seen available found = Inr ()" "i < length found"
    and "d \<in> set (concat (snd (found ! i)))" "d \<in> set seen"
  shows "d \<in> set available \<or> (\<exists>j \<le> i. d \<in> set (qe_task_ids (fst (found ! j))))"
  using assms
proof (induction found arbitrary: available i)
  case (Cons x found)
  obtain e ds where x: "x = (e, ds)" by fastforce
  have none: "List.find (\<lambda>d. d \<in> set seen \<and> d \<notin> set (qe_task_ids e @ available)) (concat ds) = None"
    and rest: "check_order seen (qe_task_ids e @ available) found = Inr ()"
    using Cons.prems(1) by (auto simp: x queue_invalid_def Let_def split: option.splits)
  show ?case
  proof (cases i)
    case 0
    then show ?thesis using none Cons.prems(3,4) by (auto simp: x find_None_iff)
  next
    case (Suc k)
    then have "d \<in> set (qe_task_ids e @ available) \<or> (\<exists>j \<le> k. d \<in> set (qe_task_ids (fst (found ! j))))"
      using Cons.IH [OF rest, of k] Cons.prems(2-4) by simp
    then consider "d \<in> set available" | "d \<in> set (qe_task_ids (fst ((x # found) ! 0)))"
      | j where "j \<le> k" "d \<in> set (qe_task_ids (fst ((x # found) ! Suc j)))"
      by (auto simp: x)
    then show ?thesis using Suc by cases (blast | metis Suc_le_mono zero_le)+
  qed
qed simp

lemma validate_paths: "validate_queue pf file files = Inr entries \<Longrightarrow> map qe_path entries = files"
  by (auto simp: validate_queue_def try_bind_Inr_iff dest: inspect_files_Inr(1))

text \<open>An id of a list without repetitions lies in one of its parts only.\<close>

lemma distinct_concat_index:
  assumes "distinct (concat xss)" "i < length xss" "j < length xss"
    and "x \<in> set (xss ! i)" "x \<in> set (xss ! j)"
  shows "i = j"
  using assms
proof (induction xss arbitrary: i j)
  case (Cons xs xss)
  have out: "x \<notin> set xs" if "x \<in> set (xss ! k)" "k < length xss" for k
  proof -
    have "xss ! k \<in> set xss" using that(2) by simp
    then have "x \<in> set (concat xss)" using that(1) by (auto simp del: nth_mem)
    then show ?thesis using Cons.prems(1) by (auto simp del: nth_mem)
  qed
  show ?case
  proof (cases i)
    case 0
    then show ?thesis using Cons.prems out by (cases j) auto
  next
    case (Suc i')
    then show ?thesis using Cons out by (cases j) auto
  qed
qed simp

section \<open>Properties\<close>

text \<open>A queue that passes validation lists the configured files in their order, no task id occurs
  twice in the whole queue and none is blank, and a dependency on a task of the queue is on the same
  file or an earlier one.\<close>

theorem validated_queue_order:
  assumes "validate_queue pf file files = Inr entries"
  shows "map qe_path entries = files \<and> distinct (concat (map qe_task_ids entries))
    \<and> (\<forall>e \<in> set entries. qe_task_ids e \<noteq> [] \<and> (\<forall>k \<in> set (qe_task_ids e). trim k \<noteq> []))
    \<and> (\<exists>deps. length deps = length entries
        \<and> (\<forall>i < length entries. inspect pf file (pf_at pf (files ! i))
              = Inr ((entries ! i)\<lparr>qe_path := pf_at pf (files ! i)\<rparr>, deps ! i))
        \<and> (\<forall>i < length entries. \<forall>j < length entries. \<forall>d \<in> set (concat (deps ! i)).
              d \<in> set (qe_task_ids (entries ! j)) \<longrightarrow> j \<le> i))"
proof -
  obtain found seen where f: "inspect_files pf file [] files = Inr (found, seen)"
      "check_order seen [] found = Inr ()" "entries = map fst found"
    using assms by (auto simp: validate_queue_def try_bind_Inr_iff)
  note ins = inspect_files_Inr [OF f(1)]
  have paths: "map qe_path entries = files" and ids: "distinct (concat (map qe_task_ids entries))"
    using ins(1,2) by (simp_all add: f(3))
  have entry: "inspect pf file (pf_at pf (files ! i))
      = Inr ((entries ! i)\<lparr>qe_path := pf_at pf (files ! i)\<rparr>, snd (found ! i))" if "i < length entries" for i
    using that ins(5) nth_mem [of i found] paths nth_map [of i entries qe_path]
    by (fastforce simp: f(3))
  have wf: "qe_task_ids e \<noteq> [] \<and> (\<forall>k \<in> set (qe_task_ids e). trim k \<noteq> [])" if e: "e \<in> set entries" for e
  proof -
    obtain i where "i < length entries" "e = entries ! i" using e by (metis in_set_conv_nth)
    then show ?thesis using inspect_Inr [OF entry] by simp
  qed
  have order: "j \<le> i" if ij: "i < length entries" "j < length entries" "d \<in> set (concat (snd (found ! i)))"
      "d \<in> set (qe_task_ids (entries ! j))" for i j d
  proof -
    have "d \<in> set seen" using ij(2,4) ins(3) nth_mem [of j found] by (force simp: f(3))
    then obtain k where k: "k \<le> i" "d \<in> set (qe_task_ids (entries ! k))"
      using check_order_Inr [OF f(2), of i d] ij(1,3) by (auto simp: f(3))
    then have "k = j"
      using distinct_concat_index [OF ids, of k j d] ij by simp
    then show ?thesis using k by simp
  qed
  have "\<exists>deps. length deps = length entries
        \<and> (\<forall>i < length entries. inspect pf file (pf_at pf (files ! i))
              = Inr ((entries ! i)\<lparr>qe_path := pf_at pf (files ! i)\<rparr>, deps ! i))
        \<and> (\<forall>i < length entries. \<forall>j < length entries. \<forall>d \<in> set (concat (deps ! i)).
              d \<in> set (qe_task_ids (entries ! j)) \<longrightarrow> j \<le> i)"
    using entry order by (intro exI [of _ "map snd found"]) (simp add: f(3))
  with paths ids wf show ?thesis by blast
qed


text \<open>An approved human gate satisfies the tasks that depend on it, but it is never complete for
  the queue: its file counts as not fully delivered, the task is unfinished work for every other file,
  and it is not kept as delivered.\<close>

theorem approved_gate_stops_queue:
  assumes "find_task (rg_tasks r) k = Some t" "is_human_approval_gate t"
    and "workflow_state_of t = Some Approved"
  shows "satisfies_dependants t \<and> \<not> delivered t
    \<and> (k \<in> set (qe_task_ids entry) \<longrightarrow> k \<in> set (incomplete_tasks entry r))
    \<and> (k \<in> set (unsafe_tasks entry r) \<or> k \<in> set (qe_task_ids entry))"
proof -
  have nd: "\<not> delivered t" using assms(3) by (simp add: delivered_def is_merged_def)
  have sat: "satisfies_dependants t"
    using assms(2,3)
    by (auto simp: satisfies_dependants_def state_satisfies_dependants_def is_human_approval_gate_def
        gate_verdict_satisfies_dependencies_def split: option.splits)
  have "workflow_state_of (t\<lparr>tk_state := ''todo''\<rparr>) = Some Todo"
    using workflow_state_of_set [of Todo t] by (simp add: set_workflow_state_def)
  then have "tk_state t \<noteq> ''todo''" using assms(3) by (auto simp: workflow_state_of_def)
  moreover have "t \<in> set (rg_tasks r)" "tk_id t = k" using find_task_in [OF assms(1)] by simp_all
  ultimately have "k \<in> set (unsafe_tasks entry r) \<or> k \<in> set (qe_task_ids entry)"
    using assms(3) by (force simp: unsafe_tasks_def is_merged_def)
  with nd sat assms(1) show ?thesis by (simp add: incomplete_tasks_def)
qed

section \<open>Concrete instances\<close>

definition sample_formats :: prd_formats where
  "sample_formats =
     \<lparr>pf_at = (\<lambda>p. p), pf_prd_input = (\<lambda>_. Inr ()),
      pf_value = (\<lambda>_. Inr (JObj [(''tasks'', JArr [JObj [(''id'', JStr ''T1'')]])])),
      pf_sha256 = (\<lambda>b. b)\<rparr>"

definition sample_entry :: queue_entry where
  "sample_entry = \<lparr>qe_path = ''a.json'', qe_fingerprint = ''b'', qe_task_ids = [''T1'']\<rparr>"

definition sample_delivered :: task_registry where
  "sample_delivered = default_registry\<lparr>rg_tasks := [sample_task ''T1'' Merged]\<rparr>"

definition sample_world :: "unit queue_world" where
  "sample_world =
     \<lparr>qw_file = (\<lambda>_ _. Inr ''b''), qw_load_progress = (\<lambda>_. Inr default_progress),
      qw_save_progress = (\<lambda>_ s. (s, Inr ())), qw_load_registry = (\<lambda>_. Inr sample_delivered),
      qw_save_registry = (\<lambda>_ s. (s, Inr ())), qw_archive = (\<lambda>_ _ s. (s, Inr ())),
      qw_note = (\<lambda>_ s. (s, Inr ())), qw_event = (\<lambda>_ _ _ _ _ _ s. (s, Inr ())),
      qw_now_nanos = (\<lambda>_. 0), qw_run_single = (\<lambda>_ _ s. (s, Inr ())),
      qw_get_run = (\<lambda>_ _. Inr (Some \<lparr>rn_status = ''success'', rn_stop_reason = None\<rparr>)),
      qw_upsert_run = (\<lambda>_ _ s. (s, Inr ())), qw_control_mode = (\<lambda>_. Inr (Some ''running''))\<rparr>"

lemma sample_world_ops:
  "qw_file sample_world s = (\<lambda>_. Inr ''b'')" "qw_load_progress sample_world s = Inr default_progress"
  "qw_save_progress sample_world p s = (s, Inr ())" "qw_load_registry sample_world s = Inr sample_delivered"
  "qw_save_registry sample_world r s = (s, Inr ())" "qw_archive sample_world a r s = (s, Inr ())"
  "qw_note sample_world m s = (s, Inr ())" "qw_event sample_world a b c d e f s = (s, Inr ())"
  "qw_run_single sample_world a k s = (s, Inr ())"
  "qw_get_run sample_world k s = Inr (Some \<lparr>rn_status = ''success'', rn_stop_reason = None\<rparr>)"
  "qw_control_mode sample_world s = Inr (Some ''running'')"
  by (simp_all add: sample_world_def)

lemma sample_inspect:
  "inspect sample_formats (\<lambda>_. Inr ''b'') p = Inr (sample_entry\<lparr>qe_path := p\<rparr>, [[]])"
proof -
  have "trim ''T1'' = ''T1''" by (rule trim_graphic; simp add: graphic_def)
  then show ?thesis
    by (simp add: inspect_def sample_formats_def read_input_def or_invalid_def inspect_task_def
        get_str_def sample_entry_def)
qed

lemma sample_validates:
  "validate_queue sample_formats (\<lambda>_. Inr ''b'') [''a.json''] = Inr [sample_entry]"
  by (simp add: validate_queue_def sample_inspect) (simp add: sample_formats_def sample_entry_def)

theorem validated_queue_order_witness: "distinct (concat (map qe_task_ids [sample_entry]))"
  using validated_queue_order [OF sample_validates] by blast

lemma sample_delivered_task:
  "delivered (sample_task ''T1'' Merged)" "is_merged (sample_task ''T1'' Merged)"
  by (simp_all add: delivered_def is_merged_def gate_verdict_satisfies_dependencies_def)

lemma sample_run:
  "\<exists>p. run_queue sample_formats sample_world [''a.json''] () = ((), Inr p)"
proof -
  have at: "pf_at sample_formats = (\<lambda>p. p)" by (simp add: sample_formats_def)
  have entry: "sample_entry\<lparr>qe_path := ''a.json''\<rparr> = sample_entry" by (simp add: sample_entry_def)
  have clean: "unsafe_tasks sample_entry sample_delivered = []"
    by (simp add: unsafe_tasks_def sample_delivered_def sample_delivered_task default_registry_def)
  have complete: "incomplete_tasks sample_entry sample_delivered = []"
    by (simp add: incomplete_tasks_def sample_delivered_def sample_delivered_task default_registry_def
        sample_entry_def)
  let ?p = "default_progress\<lparr>qp_entries := [sample_entry]\<rparr>"
  have entry0: "qp_entries ?p ! qp_next ?p = sample_entry" "qe_path sample_entry = ''a.json''"
    by (simp_all add: default_progress_def sample_entry_def)
  let ?q = "?p\<lparr>qp_status := ''completed'', qp_reason := None, qp_next := 1\<rparr>"
  note ops = sample_world_ops
  have prep: "prepare_registry sample_formats sample_world ?p sample_entry s = (s, Inr ())" for s
    by (simp add: prepare_registry_def ops clean seq_def)
  have judge: "judge_run sample_formats sample_world sample_entry k s = Inr ()" for k s
    by (simp add: judge_run_def at entry0 ops sample_inspect complete)
  have exec: "execute_entry sample_formats sample_world (?p\<lparr>qp_status := ''running'', qp_reason := None\<rparr>)
      sample_entry s = (s, Inr ?q)" for s
    by (simp add: execute_entry_def judge ops queue_delivered_def seq_def Let_def)
       (simp add: default_progress_def)
  have step: "queue_step sample_formats sample_world ?p s = (s, Inr ?q)" for s
    unfolding queue_step_def Let_def entry0
    by (simp add: at ops sample_inspect entry seq_def prep exec)
  have "queue_loop sample_formats sample_world ?q () = ((), Inr ?q)"
    by (simp add: queue_loop.simps)
  moreover have "qp_next ?p < length (qp_entries ?p)" by (simp add: default_progress_def)
  ultimately have "queue_loop sample_formats sample_world ?p () = ((), Inr ?q)"
    by (simp add: queue_loop.simps [of _ _ ?p] step)
  then show ?thesis
    by (simp add: run_queue_def ops sample_validates) (simp add: default_progress_def)
qed


definition sample_approved_gate :: task where
  "sample_approved_gate = (sample_task ''G'' Approved)\<lparr>tk_gate := Some sample_gate\<rparr>"

theorem approved_gate_stops_queue_witness:
  "\<not> delivered sample_approved_gate
   \<and> ''G'' \<in> set (unsafe_tasks sample_entry (default_registry\<lparr>rg_tasks := [sample_approved_gate]\<rparr>))"
proof -
  have "find_task (rg_tasks (default_registry\<lparr>rg_tasks := [sample_approved_gate]\<rparr>)) ''G''
      = Some sample_approved_gate"
    "is_human_approval_gate sample_approved_gate" "workflow_state_of sample_approved_gate = Some Approved"
    using sample_gate_human
    by (simp_all add: sample_approved_gate_def is_human_approval_gate_def coord_frame)
  from approved_gate_stops_queue [OF this, of sample_entry] show ?thesis by (simp add: sample_entry_def)
qed

end
