(* ===== verification/Prd_Sync.thy ===== *)
theory Prd_Sync
  imports Approval Prd_Queue Json_Codec
begin

text \<open>
  Bringing the registry in line with the PRD at the start of every cycle (\<open>sync_registry_from_prd_native\<close>
  in \<open>core/src/coordinator/control_plane/base.rs\<close>): the fields of each task of the PRD are copied, tasks
  the PRD no longer has are dropped, then human gates, blocks and resource locks are reconciled, and the
  registry is saved only when it changed.

  The clock is an argument: \<open>clock n\<close> is the reading taken for the task at position \<open>n\<close>, and the four
  readings after the last task are those of the gates, the blocks, the locks and the registry.  The
  decision ledger is a result, since reading it may fail.
\<close>

section \<open>Tasks of a PRD\<close>

record prd_task =
  pd_id :: string
  pd_title :: "string option"
  pd_priority :: "string option"
  pd_category :: "string option"
  pd_scope :: "string option"
  pd_base_branch :: "string option"
  pd_coordinator_tool :: "string option"
  pd_dependencies :: "string list"
  pd_exclusive_resources :: "string list"
  pd_blocked_on_external :: "external_block option"
  pd_gate :: "task_gate option"
  pd_extra :: "(string, json) btree"

record prd_input =
  pi_tasks :: "prd_task list"
  pi_extra :: "(string, json) btree"

definition sync_fields :: "prd_task \<Rightarrow> task \<Rightarrow> task" where
  "sync_fields p t =
     t\<lparr>tk_id := pd_id p, tk_title := pd_title p, tk_priority := pd_priority p,
       tk_category := pd_category p, tk_scope := pd_scope p, tk_base_branch := pd_base_branch p,
       tk_coordinator_tool := pd_coordinator_tool p, tk_dependencies := pd_dependencies p,
       tk_exclusive_resources := pd_exclusive_resources p\<rparr>"

text \<open>A block of the PRD replaces what is there; only a block set by an operator outlives the PRD.\<close>

definition sync_external_block :: "prd_task \<Rightarrow> task \<Rightarrow> task" where
  "sync_external_block p t =
     (case pd_blocked_on_external p of
        Some block \<Rightarrow> t\<lparr>tk_blocked_on_external := Some (block\<lparr>eb_source := Src_Prd\<rparr>)\<rparr>
      | None \<Rightarrow>
          if map_option eb_source (tk_blocked_on_external t) = Some Src_Operator then t
          else t\<lparr>tk_blocked_on_external := None\<rparr>)"

definition park_invalid_gate :: "string list \<Rightarrow> task \<Rightarrow> task" where
  "park_invalid_gate problems t =
     upd_runtime
       (set_last_error_details ''E908'' ''prd''
         (''Invalid human approval gate: '' @ join ''; '' problems))
       (set_workflow_state Blocked t)"

definition reopen_valid_gate :: "task \<Rightarrow> task" where
  "reopen_valid_gate t =
     upd_runtime
       (\<lambda>rt. rt\<lparr>tr_last_error := None, tr_last_error_code := None, tr_last_error_origin := None,
               tr_last_error_message := None\<rparr>)
       (set_workflow_state Todo t)"

definition sync_gate :: "prd_task \<Rightarrow> task \<Rightarrow> task" where
  "sync_gate p t0 =
     (let t = t0\<lparr>tk_gate := pd_gate p\<rparr> in
      case tk_gate t of
        None \<Rightarrow> t
      | Some gate \<Rightarrow>
          let problems = validate_human_approval gate (tk_id t) (tk_dependencies t) in
          if problems \<noteq> [] then park_invalid_gate problems t
          else if is_human_approval gate \<and> tr_last_error_code (tk_runtime t) = Some ''E908''
          then reopen_valid_gate t
          else t)"

definition prd_owned_keys :: "string list" where
  "prd_owned_keys =
     [''description'', ''objective'', ''result'', ''steps'', ''notes'', ''category'',
      ''dependencies'', ''base_branch'', ''coordinator_tool'', ''scope'', ''blocked_on_external'',
      ''gate'']"

definition sync_extra :: "prd_task \<Rightarrow> task \<Rightarrow> task" where
  "sync_extra p t =
     t\<lparr>tk_extra :=
         fold (\<lambda>(k, v). bt_insert k v) (pd_extra p)
           (unknown prd_owned_keys (tk_extra t))\<rparr>"

definition sync_runtime :: "task \<Rightarrow> task" where
  "sync_runtime t =
     upd_runtime
       (\<lambda>rt. rt\<lparr>tr_status := or_else (tr_status rt) (Some ''idle''),
               tr_merge_result_pending := or_else (tr_merge_result_pending rt) (Some False),
               tr_external_block_resolution :=
                 (if tk_blocked_on_external t = None then None else tr_external_block_resolution rt)\<rparr>) t"

definition sync_content :: "prd_task \<Rightarrow> task \<Rightarrow> task" where
  "sync_content p t =
     sync_runtime (sync_extra p (sync_gate p (sync_external_block p (sync_fields p t))))"

definition sync_task :: "string \<Rightarrow> prd_task \<Rightarrow> task option \<Rightarrow> task" where
  "sync_task now p before =
     (let t = sync_content p (unwrap_or (default_task\<lparr>tk_id := pd_id p\<rparr>) before)
      in if before = Some t then t else t\<lparr>tk_updated_at := Some now\<rparr>)"

section \<open>The registry\<close>

text \<open>\<open>by_id\<close>: collecting into a map, so that the last task with an id is kept.\<close>

definition tasks_by_id :: "task list \<Rightarrow> (string, task) btree" where
  "tasks_by_id ts = fold (\<lambda>(k, t). bt_insert k t) (map (\<lambda>t. (tk_id t, t)) ts) []"

fun sync_loop ::
  "(nat \<Rightarrow> string) \<Rightarrow> nat \<Rightarrow> (string, task) btree \<Rightarrow> prd_task list \<Rightarrow> task list" where
  "sync_loop clock n by_id [] = []"
| "sync_loop clock n by_id (p # ps) =
     (if pd_id p = [] then sync_loop clock (n + 1) by_id ps
      else sync_task (clock n) p (bt_get by_id (pd_id p))
           # sync_loop clock (n + 1) (bt_remove (pd_id p) by_id) ps)"

text \<open>Tasks of finished PRDs of the queue count as delivered, when this PRD is the one in its turn.\<close>

definition with_completed :: "(string \<Rightarrow> bool) \<Rightarrow> queue_progress \<Rightarrow> task_registry \<Rightarrow> task_registry" where
  "with_completed is_this_prd queue r =
     (if qp_next queue < length (qp_entries queue)
         \<and> is_this_prd (qe_path (qp_entries queue ! qp_next queue))
      then r\<lparr>rg_external_merged :=
               fold insort_insert
                 (concat (map qe_task_ids (take (qp_next queue) (qp_entries queue))))
                 (rg_external_merged r)\<rparr>
      else r)"

definition evaluate_human_gates_for_project ::
  "ts_parser \<Rightarrow> (string \<Rightarrow> string option) \<Rightarrow> (string \<Rightarrow> approval_record list) res \<Rightarrow> string
     \<Rightarrow> task_registry \<Rightarrow> (task_registry \<times> human_gate_transition list) res" where
  "evaluate_human_gates_for_project tn digest ledger now r =
     (if \<not> list_ex is_human_approval_gate (rg_tasks r) then Inr (r, [])
      else try_bind ledger (\<lambda>l. Inr (reconcile_human_gates tn r now digest l)))"

text \<open>A gate reconciliation that fails leaves the registry alone.\<close>

definition gates_or_skip ::
  "ts_parser \<Rightarrow> (string \<Rightarrow> string option) \<Rightarrow> (string \<Rightarrow> approval_record list) res \<Rightarrow> string
     \<Rightarrow> task_registry \<Rightarrow> task_registry" where
  "gates_or_skip tn digest ledger now r =
     (case evaluate_human_gates_for_project tn digest ledger now r of
        Inl _ \<Rightarrow> r | Inr (r', _) \<Rightarrow> r')"

definition synced_registry ::
  "ts_parser \<Rightarrow> (nat \<Rightarrow> string) \<Rightarrow> (string \<Rightarrow> string option) \<Rightarrow> (string \<Rightarrow> approval_record list) res
     \<Rightarrow> (string \<Rightarrow> bool) \<Rightarrow> queue_progress \<Rightarrow> prd_task list \<Rightarrow> task_registry \<Rightarrow> task_registry" where
  "synced_registry tn clock digest ledger is_this_prd queue prd stored =
     (let n = length prd;
          r1 = with_completed is_this_prd queue stored;
          r2 = r1\<lparr>rg_tasks := sync_loop clock 0 (tasks_by_id (rg_tasks r1)) prd\<rparr>;
          r3 = gates_or_skip tn digest ledger (clock n) r2;
          r4 = fst (reconcile_task_blocks (clock (n + 1)) r3)
      in recompute_resource_locks (clock (n + 2)) r4)"

text \<open>The registry that is saved, or \<open>None\<close> when nothing changed.\<close>

definition sync_registry_from_prd_native ::
  "ts_parser \<Rightarrow> (nat \<Rightarrow> string) \<Rightarrow> (string \<Rightarrow> string option) \<Rightarrow> (string \<Rightarrow> approval_record list) res
     \<Rightarrow> (string \<Rightarrow> bool) \<Rightarrow> task_registry res \<Rightarrow> queue_progress res \<Rightarrow> prd_input res
     \<Rightarrow> (task_registry \<Rightarrow> unit res) \<Rightarrow> task_registry option res" where
  "sync_registry_from_prd_native tn clock digest ledger is_this_prd loaded queue prd save =
     try_bind loaded (\<lambda>stored. try_bind queue (\<lambda>q. try_bind prd (\<lambda>input.
       let r = synced_registry tn clock digest ledger is_this_prd q (pi_tasks input) stored
       in if r = stored then Inr None
          else let r' = r\<lparr>rg_updated_at := Some (clock (length (pi_tasks input) + 3))\<rparr>
               in try_bind (save r') (\<lambda>_. Inr (Some r')))))"

section \<open>What reconciliation leaves alone\<close>

text \<open>The part of a task that neither the gates nor the blocks change.\<close>

definition steady :: "task \<Rightarrow> task" where
  "steady t =
     t\<lparr>tk_state := [], tk_state_changed_at := None, tk_updated_at := None,
       tk_runtime := (tk_runtime t)
         \<lparr>tr_status := None, tr_last_error := None, tr_last_error_code := None,
          tr_last_error_origin := None, tr_last_error_message := None, tr_approval := None,
          tr_extra := []\<rparr>\<rparr>"

lemma steady_sel:
  "tk_id (steady t) = tk_id t"
  "tk_title (steady t) = tk_title t"
  "tk_priority (steady t) = tk_priority t"
  "tk_category (steady t) = tk_category t"
  "tk_scope (steady t) = tk_scope t"
  "tk_base_branch (steady t) = tk_base_branch t"
  "tk_coordinator_tool (steady t) = tk_coordinator_tool t"
  "tk_tool (steady t) = tk_tool t"
  "tk_assignee (steady t) = tk_assignee t"
  "tk_claimed_at (steady t) = tk_claimed_at t"
  "tk_pr_url (steady t) = tk_pr_url t"
  "tk_review (steady t) = tk_review t"
  "tk_worktree (steady t) = tk_worktree t"
  "tk_dependencies (steady t) = tk_dependencies t"
  "tk_exclusive_resources (steady t) = tk_exclusive_resources t"
  "tk_blocked_on_external (steady t) = tk_blocked_on_external t"
  "tk_gate (steady t) = tk_gate t"
  "tk_extra (steady t) = tk_extra t"
  "tr_retries (tk_runtime (steady t)) = tr_retries (tk_runtime t)"
  "tr_metrics (tk_runtime (steady t)) = tr_metrics (tk_runtime t)"
  "tr_pid (tk_runtime (steady t)) = tr_pid (tk_runtime t)"
  "tr_last_worktree_path (tk_runtime (steady t)) = tr_last_worktree_path (tk_runtime t)"
  "tr_last_branch (tk_runtime (steady t)) = tr_last_branch (tk_runtime t)"
  "tr_review_cycles (tk_runtime (steady t)) = tr_review_cycles (tk_runtime t)"
  "tr_gate_verdict (tk_runtime (steady t)) = tr_gate_verdict (tk_runtime t)"
  "tr_delayed_until (tk_runtime (steady t)) = tr_delayed_until (tk_runtime t)"
  "tr_external_block_resolution (tk_runtime (steady t)) = tr_external_block_resolution (tk_runtime t)"
  "tr_merge_result_pending (tk_runtime (steady t)) = tr_merge_result_pending (tk_runtime t)"
  by (simp_all add: steady_def)

lemma steady_fields:
  assumes "steady t' = steady t"
  shows "tk_id t' = tk_id t"
    and "tk_title t' = tk_title t"
    and "tk_priority t' = tk_priority t"
    and "tk_category t' = tk_category t"
    and "tk_scope t' = tk_scope t"
    and "tk_base_branch t' = tk_base_branch t"
    and "tk_coordinator_tool t' = tk_coordinator_tool t"
    and "tk_tool t' = tk_tool t"
    and "tk_assignee t' = tk_assignee t"
    and "tk_claimed_at t' = tk_claimed_at t"
    and "tk_pr_url t' = tk_pr_url t"
    and "tk_review t' = tk_review t"
    and "tk_worktree t' = tk_worktree t"
    and "tk_dependencies t' = tk_dependencies t"
    and "tk_exclusive_resources t' = tk_exclusive_resources t"
    and "tk_blocked_on_external t' = tk_blocked_on_external t"
    and "tk_gate t' = tk_gate t"
    and "tk_extra t' = tk_extra t"
    and "tr_retries (tk_runtime t') = tr_retries (tk_runtime t)"
    and "tr_metrics (tk_runtime t') = tr_metrics (tk_runtime t)"
    and "tr_pid (tk_runtime t') = tr_pid (tk_runtime t)"
    and "tr_last_worktree_path (tk_runtime t') = tr_last_worktree_path (tk_runtime t)"
    and "tr_last_branch (tk_runtime t') = tr_last_branch (tk_runtime t)"
    and "tr_review_cycles (tk_runtime t') = tr_review_cycles (tk_runtime t)"
    and "tr_gate_verdict (tk_runtime t') = tr_gate_verdict (tk_runtime t)"
    and "tr_delayed_until (tk_runtime t') = tr_delayed_until (tk_runtime t)"
    and "tr_external_block_resolution (tk_runtime t') = tr_external_block_resolution (tk_runtime t)"
    and "tr_merge_result_pending (tk_runtime t') = tr_merge_result_pending (tk_runtime t)"
  using assms by (metis steady_sel)+

definition has_status :: "task \<Rightarrow> bool" where
  "has_status t = (tr_status (tk_runtime t) \<noteq> None)"

definition kept :: "task \<Rightarrow> task \<Rightarrow> bool" where
  "kept t' t = (steady t' = steady t \<and> (has_status t \<longrightarrow> has_status t'))"

lemma kept_refl [simp]: "kept t t"
  by (simp add: kept_def)

lemma kept_trans: "kept a b \<Longrightarrow> kept b c \<Longrightarrow> kept a c"
  by (simp add: kept_def)

lemma withdraw_kept: "kept (fst (withdraw_gate now t)) t"
  by (simp add: kept_def withdraw_gate_def steady_def has_status_def touch_state_changed_def
      upd_runtime_def set_workflow_state_def set_status_def)

lemma apply_evaluation_kept: "kept (fst (apply_evaluation now subject ds ev t)) t"
  by (simp add: kept_def apply_evaluation_def steady_def has_status_def touch_state_changed_def
      upd_runtime_def set_workflow_state_def set_status_def set_last_error_details_def Let_def)

lemma reconcile_gate_kept: "kept (fst (reconcile_gate tn now sat digest ledger t)) t"
  by (simp add: reconcile_gate_def withdraw_kept apply_evaluation_kept Let_def split: option.split)

lemma change_kept:
  "kept (block_external now b t) t"
  "kept (block_propagated now snap path t) t"
  "kept (release_block now p t) t"
  by (simp_all add: kept_def block_external_def block_propagated_def release_block_def
      block_with_def steady_def has_status_def touch_state_changed_def upd_runtime_def
      set_workflow_state_def set_status_def set_last_error_details_def)

lemma stepped_kept: "kept (stepped now r t) t"
proof (cases "reconcile_task now (rg_tasks r) (satisfied_dependency_ids r) t")
  case (Some t')
  then show ?thesis by (auto simp: stepped_def change_kept elim!: reconcile_task_cases)
qed (simp add: stepped_def)

lemma blocks_kept: "list_all2 kept (rg_tasks (fst (reconcile_task_blocks now r))) (rg_tasks r)"
proof (rule reconcile_keeps [where P = "\<lambda>s. list_all2 kept (rg_tasks s) (rg_tasks r)"])
  show "list_all2 kept (rg_tasks (reconcile_pass now s)) (rg_tasks r)"
    if "list_all2 kept (rg_tasks s) (rg_tasks r)" for s
    using that stepped_kept kept_trans by (fastforce simp: pass_tasks list_all2_conv_all_nth)
qed (simp add: list_all2_refl)

lemma gates_kept: "list_all2 kept (rg_tasks (gates_or_skip tn digest ledger now r)) (rg_tasks r)"
  by (cases ledger)
     (auto simp: gates_or_skip_def evaluate_human_gates_for_project_def reconcile_human_gates_def
       reconcile_gate_kept list_all2_conv_all_nth Let_def)

text \<open>The stages of a synchronization after the loop.\<close>

lemma recompute_tasks [simp]: "rg_tasks (recompute_resource_locks now r) = rg_tasks r"
  by (simp add: recompute_resource_locks_def)

definition loop_tasks :: "(nat \<Rightarrow> string) \<Rightarrow> prd_task list \<Rightarrow> task_registry \<Rightarrow> task list" where
  "loop_tasks clock prd stored = sync_loop clock 0 (tasks_by_id (rg_tasks stored)) prd"

lemma with_completed_tasks [simp]: "rg_tasks (with_completed f q r) = rg_tasks r"
  by (simp add: with_completed_def)

lemma synced_kept:
  "list_all2 kept (rg_tasks (synced_registry tn clock digest ledger f q prd stored))
     (loop_tasks clock prd stored)"
proof -
  let ?r2 = "(with_completed f q stored)\<lparr>rg_tasks := loop_tasks clock prd stored\<rparr>"
  let ?r3 = "gates_or_skip tn digest ledger (clock (length prd)) ?r2"
  have "list_all2 kept (rg_tasks ?r3) (loop_tasks clock prd stored)"
    using gates_kept [of tn digest ledger "clock (length prd)" ?r2] by simp
  with blocks_kept [of "clock (length prd + 1)" ?r3]
  have "list_all2 kept (rg_tasks (fst (reconcile_task_blocks (clock (length prd + 1)) ?r3)))
      (loop_tasks clock prd stored)"
    using kept_trans by (rule list_all2_trans [rotated 1])
  then show ?thesis by (simp add: synced_registry_def loop_tasks_def Let_def)
qed

section \<open>Tasks after the loop\<close>

text \<open>A task carries what the PRD says of it.\<close>

definition block_follows :: "external_block option \<Rightarrow> external_block option \<Rightarrow> bool" where
  "block_follows declared b =
     (case declared of
        Some d \<Rightarrow> b = Some (d\<lparr>eb_source := Src_Prd\<rparr>)
      | None \<Rightarrow> b = None \<or> map_option eb_source b = Some Src_Operator)"

definition follows :: "task \<Rightarrow> prd_task \<Rightarrow> bool" where
  "follows t p =
     (tk_id t = pd_id p \<and> tk_title t = pd_title p \<and> tk_priority t = pd_priority p
      \<and> tk_category t = pd_category p \<and> tk_scope t = pd_scope p
      \<and> tk_base_branch t = pd_base_branch p \<and> tk_coordinator_tool t = pd_coordinator_tool p
      \<and> tk_dependencies t = pd_dependencies p \<and> tk_exclusive_resources t = pd_exclusive_resources p
      \<and> tk_gate t = pd_gate p \<and> block_follows (pd_blocked_on_external p) (tk_blocked_on_external t))"

lemma sync_gate_fields:
  "tk_id (sync_gate p t) = tk_id t" "tk_title (sync_gate p t) = tk_title t"
  "tk_priority (sync_gate p t) = tk_priority t" "tk_category (sync_gate p t) = tk_category t"
  "tk_scope (sync_gate p t) = tk_scope t" "tk_base_branch (sync_gate p t) = tk_base_branch t"
  "tk_coordinator_tool (sync_gate p t) = tk_coordinator_tool t"
  "tk_dependencies (sync_gate p t) = tk_dependencies t"
  "tk_exclusive_resources (sync_gate p t) = tk_exclusive_resources t"
  "tk_blocked_on_external (sync_gate p t) = tk_blocked_on_external t"
  "tk_gate (sync_gate p t) = pd_gate p" "tk_extra (sync_gate p t) = tk_extra t"
  by (simp_all add: sync_gate_def park_invalid_gate_def reopen_valid_gate_def upd_runtime_def
      set_workflow_state_def Let_def split: option.split)

lemma sync_gate_keeps: "kept (sync_gate p t) (t\<lparr>tk_gate := pd_gate p\<rparr>)"
  by (simp add: kept_def steady_def has_status_def sync_gate_def park_invalid_gate_def
      reopen_valid_gate_def upd_runtime_def set_workflow_state_def set_last_error_details_def Let_def
      split: option.split)

lemma sync_content_follows: "follows (sync_content p t) p"
proof -
  have "block_follows (pd_blocked_on_external p) (tk_blocked_on_external (sync_external_block p u))" for u
    by (cases "tk_blocked_on_external u")
       (auto simp: block_follows_def sync_external_block_def split: option.split)
  moreover have "tk_id (sync_external_block p u) = tk_id u" "tk_title (sync_external_block p u) = tk_title u"
    "tk_priority (sync_external_block p u) = tk_priority u" "tk_category (sync_external_block p u) = tk_category u"
    "tk_scope (sync_external_block p u) = tk_scope u" "tk_base_branch (sync_external_block p u) = tk_base_branch u"
    "tk_coordinator_tool (sync_external_block p u) = tk_coordinator_tool u"
    "tk_dependencies (sync_external_block p u) = tk_dependencies u"
    "tk_exclusive_resources (sync_external_block p u) = tk_exclusive_resources u" for u
    by (simp_all add: sync_external_block_def split: option.split)
  ultimately show ?thesis
    by (simp add: follows_def sync_content_def sync_runtime_def sync_extra_def upd_runtime_def
        sync_gate_fields) (simp add: sync_fields_def)
qed

lemma follows_updated [simp]: "follows (t\<lparr>tk_updated_at := u\<rparr>) p = follows t p"
  by (simp add: follows_def)

lemma sync_task_follows: "follows (sync_task now p before) p"
  by (simp add: sync_task_def sync_content_follows Let_def)

lemma follows_kept: "kept t' t \<Longrightarrow> follows t p \<Longrightarrow> follows t' p"
  using steady_fields [of t' t] by (simp add: kept_def follows_def)

definition named_tasks :: "prd_task list \<Rightarrow> prd_task list" where
  "named_tasks prd = filter (\<lambda>p. pd_id p \<noteq> []) prd"

lemma sync_loop_follows: "list_all2 follows (sync_loop clock n m prd) (named_tasks prd)"
  by (induction prd arbitrary: n m) (simp_all add: named_tasks_def sync_task_follows)

lemma synced_follows:
  "list_all2 follows (rg_tasks (synced_registry tn clock digest ledger f q prd stored)) (named_tasks prd)"
proof -
  have "list_all2 follows (loop_tasks clock prd stored) (named_tasks prd)"
    by (simp add: loop_tasks_def sync_loop_follows)
  with synced_kept show ?thesis
    by (rule list_all2_trans [rotated 1]) (rule follows_kept)
qed

lemma follows_ids: "list_all2 follows ts ps \<Longrightarrow> map tk_id ts = map pd_id ps"
  by (induction ts ps rule: list_all2_induct) (simp_all add: follows_def)

text \<open>Which stored task is taken up.\<close>

lemma tasks_by_id_ok: "bt_ok (tasks_by_id ts)"
  unfolding tasks_by_id_def by (rule bt.fold_ins_inv) simp

lemma tasks_by_id_get: "bt_get (tasks_by_id ts) k = find_task (rev ts) k"
proof -
  have "map_of (map (\<lambda>t. (tk_id t, t)) us) k = find_task us k" for us
    by (induction us) auto
  moreover have "bt_get (tasks_by_id ts) = (bt_get []) ++ map_of (map (\<lambda>t. (tk_id t, t)) (rev ts))"
    unfolding tasks_by_id_def by (simp add: bt.fold_ins_get rev_map)
  ultimately show ?thesis by (simp add: map_add_def split: option.splits)
qed

lemma sync_loop_find:
  assumes "bt_ok m" "find_task (sync_loop clock n m prd) k = Some t"
  shows "\<exists>i < length prd. pd_id (prd ! i) = k \<and> k \<noteq> []
    \<and> t = sync_task (clock (n + i)) (prd ! i) (bt_get m k)"
  using assms
proof (induction prd arbitrary: n m)
  case (Cons p prd)
  have later: "\<exists>i < length (p # prd). pd_id ((p # prd) ! i) = k \<and> k \<noteq> []
      \<and> t = sync_task (clock (n + i)) ((p # prd) ! i) (bt_get m k)"
    if m': "bt_ok m'" "find_task (sync_loop clock (n + 1) m' prd) k = Some t" "bt_get m' k = bt_get m k" for m'
  proof -
    obtain i where "i < length prd" "pd_id (prd ! i) = k" "k \<noteq> []"
        "t = sync_task (clock (n + 1 + i)) (prd ! i) (bt_get m k)"
      using Cons.IH [OF m'(1,2)] m'(3) by auto
    then show ?thesis by (intro exI [of _ "Suc i"]) simp
  qed
  have fid: "tk_id (sync_task now p b) = pd_id p" for now b
    using sync_task_follows by (simp add: follows_def)
  consider "pd_id p = []" | "pd_id p \<noteq> []" "pd_id p = k" | "pd_id p \<noteq> []" "pd_id p \<noteq> k" by blast
  then show ?case
  proof cases
    case 1
    then show ?thesis using later [OF Cons.prems(1)] Cons.prems(2) by simp
  next
    case 2
    then show ?thesis using Cons.prems(2) fid by (intro exI [of _ 0]) simp
  next
    case 3
    then have "bt_get (bt_remove (pd_id p) m) k = bt_get m k"
      by (intro bt.get_rem_other) (use Cons.prems in auto)
    then show ?thesis
      using 3 later [OF bt.inv_rem [OF Cons.prems(1)], of "pd_id p"] Cons.prems(2) fid by simp
  qed
qed simp

lemma list_all2_find:
  assumes "list_all2 kept ts us" "find_task ts k = Some t"
  shows "\<exists>u. find_task us k = Some u \<and> kept t u"
  using assms
proof (induction ts us rule: list_all2_induct)
  case (Cons t' ts u us)
  have "steady t' = steady u" using Cons.hyps(1) by (simp add: kept_def)
  then have "tk_id t' = tk_id u" by (rule steady_fields(1))
  then show ?case using Cons by (cases "tk_id u = k") simp_all
qed simp

text \<open>What a task keeps of the work done on it, whatever the PRD says now.\<close>

definition same_work :: "task \<Rightarrow> task \<Rightarrow> bool" where
  "same_work t u =
     (tk_worktree t = tk_worktree u \<and> tk_tool t = tk_tool u \<and> tk_assignee t = tk_assignee u
      \<and> tk_claimed_at t = tk_claimed_at u \<and> tk_pr_url t = tk_pr_url u \<and> tk_review t = tk_review u
      \<and> tr_retries (tk_runtime t) = tr_retries (tk_runtime u)
      \<and> tr_metrics (tk_runtime t) = tr_metrics (tk_runtime u)
      \<and> tr_pid (tk_runtime t) = tr_pid (tk_runtime u)
      \<and> tr_review_cycles (tk_runtime t) = tr_review_cycles (tk_runtime u)
      \<and> tr_gate_verdict (tk_runtime t) = tr_gate_verdict (tk_runtime u)
      \<and> tr_delayed_until (tk_runtime t) = tr_delayed_until (tk_runtime u)
      \<and> tr_last_worktree_path (tk_runtime t) = tr_last_worktree_path (tk_runtime u)
      \<and> tr_last_branch (tk_runtime t) = tr_last_branch (tk_runtime u))"

lemma kept_same_work: "kept t u \<Longrightarrow> same_work t u"
  using steady_fields [of t u] by (simp add: kept_def same_work_def)

lemma same_work_trans: "same_work a b \<Longrightarrow> same_work b c \<Longrightarrow> same_work a c"
  by (simp add: same_work_def)

lemma sync_content_same_work: "same_work (sync_content p t) t"
proof -
  let ?b = "sync_external_block p (sync_fields p t)"
  have "same_work ?b t"
    by (simp add: same_work_def sync_external_block_def sync_fields_def split: option.split)
  moreover have "same_work (sync_gate p ?b) (?b\<lparr>tk_gate := pd_gate p\<rparr>)"
    using kept_same_work sync_gate_keeps by blast
  then have "same_work (sync_gate p ?b) ?b" by (simp add: same_work_def)
  moreover have "same_work (sync_runtime (sync_extra p u)) u" for u
    by (simp add: same_work_def sync_runtime_def sync_extra_def upd_runtime_def)
  ultimately show ?thesis unfolding sync_content_def using same_work_trans by blast
qed

lemma sync_task_same_work: "same_work (sync_task now p before) (unwrap_or (default_task\<lparr>tk_id := pd_id p\<rparr>) before)"
proof -
  have "same_work (t\<lparr>tk_updated_at := u\<rparr>) v = same_work t v" for t u v by (simp add: same_work_def)
  then show ?thesis by (simp add: sync_task_def sync_content_same_work Let_def)
qed

section \<open>A second synchronization\<close>

definition human_gate :: "prd_task \<Rightarrow> bool" where
  "human_gate p = (case pd_gate p of None \<Rightarrow> False | Some g \<Rightarrow> is_human_approval g)"

definition in_line :: "task \<Rightarrow> prd_task \<Rightarrow> bool" where
  "in_line t p =
     (follows t p \<and> sync_extra p t = t \<and> has_status t
      \<and> tr_merge_result_pending (tk_runtime t) \<noteq> None
      \<and> (tk_blocked_on_external t = None \<longrightarrow> tr_external_block_resolution (tk_runtime t) = None))"

lemma in_line_content:
  assumes "in_line t p" "\<not> human_gate p"
  shows "sync_content p t = t"
proof -
  have f: "follows t p" using assms(1) by (simp add: in_line_def)
  have fields: "sync_fields p t = t"
    by (rule task.equality) (use f in \<open>simp_all add: follows_def sync_fields_def\<close>)
  have "map_option eb_source (tk_blocked_on_external t) \<noteq> Some Src_Operator \<Longrightarrow>
      pd_blocked_on_external p = None \<Longrightarrow> tk_blocked_on_external t = None"
    using f by (cases "tk_blocked_on_external t") (auto simp: follows_def block_follows_def)
  moreover have "pd_blocked_on_external p = Some d \<Longrightarrow> tk_blocked_on_external t = Some (d\<lparr>eb_source := Src_Prd\<rparr>)" for d
    using f by (simp add: follows_def block_follows_def)
  ultimately have block: "sync_external_block p t = t"
    by (intro task.equality) (auto simp: sync_external_block_def split: option.split)
  have "t\<lparr>tk_gate := pd_gate p\<rparr> = t"
    by (rule task.equality) (use f in \<open>simp_all add: follows_def\<close>)
  moreover have "validate_human_approval g k ds = []" if "pd_gate p = Some g" for g k ds
    using assms(2) that by (simp add: human_gate_def validate_human_approval_def)
  ultimately have gate: "sync_gate p t = t"
    using f assms(2) by (auto simp: follows_def sync_gate_def human_gate_def Let_def split: option.split)
  have "or_else (tr_status (tk_runtime t)) (Some ''idle'') = tr_status (tk_runtime t)"
    "or_else (tr_merge_result_pending (tk_runtime t)) (Some False) = tr_merge_result_pending (tk_runtime t)"
    "(if tk_blocked_on_external t = None then None else tr_external_block_resolution (tk_runtime t))
      = tr_external_block_resolution (tk_runtime t)"
    using assms(1) by (auto simp: in_line_def has_status_def)
  then have "sync_runtime t = t" by (simp add: sync_runtime_def upd_runtime_def)
  with fields block gate assms(1) show ?thesis by (simp add: sync_content_def in_line_def)
qed

lemma sync_extra_again: "bt_ok (tk_extra t) \<Longrightarrow> sync_extra p (sync_extra p t) = sync_extra p t"
proof -
  assume ok: "bt_ok (tk_extra t)"
  let ?ins = "fold (\<lambda>(k, v). bt_insert k v) (pd_extra p)"
  let ?e = "?ins (unknown prd_owned_keys (tk_extra t))"
  have e: "bt_ok ?e" by (intro bt.fold_ins_inv unknown_ok ok)
  have "bt_get (?ins (unknown prd_owned_keys ?e)) = bt_get ?e"
    by (simp add: bt.fold_ins_get unknown_ok ok e fun_eq_iff map_add_def bt_get_unknown split: option.split)
  then have "?ins (unknown prd_owned_keys ?e) = ?e"
    by (intro bt_eqI bt.fold_ins_inv unknown_ok e)
  then show ?thesis by (simp add: sync_extra_def)
qed

lemma sync_extra_updated:
  "sync_extra p (t\<lparr>tk_updated_at := u\<rparr>) = (sync_extra p t)\<lparr>tk_updated_at := u\<rparr>"
  "sync_extra p (upd_runtime f t) = upd_runtime f (sync_extra p t)"
  by (simp_all add: sync_extra_def upd_runtime_def)

lemma in_line_sync_content:
  assumes "bt_ok (tk_extra t)"
  shows "in_line (sync_content p t) p"
proof -
  let ?g = "sync_gate p (sync_external_block p (sync_fields p t))"
  have "bt_ok (tk_extra ?g)"
    using assms by (simp add: sync_gate_fields sync_external_block_def sync_fields_def split: option.split)
  then have "sync_extra p (sync_content p t) = sync_content p t"
    by (simp add: sync_content_def sync_runtime_def sync_extra_updated sync_extra_again)
  moreover have "has_status (sync_runtime u) \<and> tr_merge_result_pending (tk_runtime (sync_runtime u)) \<noteq> None
      \<and> (tk_blocked_on_external (sync_runtime u) = None
          \<longrightarrow> tr_external_block_resolution (tk_runtime (sync_runtime u)) = None)" for u
    by (simp add: has_status_def sync_runtime_def upd_runtime_def)
  ultimately show ?thesis
    using sync_content_follows [of p t] unfolding in_line_def sync_content_def by blast
qed

lemma in_line_updated: "in_line (t\<lparr>tk_updated_at := u\<rparr>) p = in_line t p"
proof -
  have "(sync_extra p t)\<lparr>tk_updated_at := u\<rparr> = t\<lparr>tk_updated_at := u\<rparr> \<longleftrightarrow> sync_extra p t = t"
  proof
    assume "(sync_extra p t)\<lparr>tk_updated_at := u\<rparr> = t\<lparr>tk_updated_at := u\<rparr>"
    then have "tk_extra ((sync_extra p t)\<lparr>tk_updated_at := u\<rparr>) = tk_extra (t\<lparr>tk_updated_at := u\<rparr>)"
      by (rule arg_cong)
    then show "sync_extra p t = t" by (simp add: sync_extra_def)
  qed simp
  then show ?thesis by (simp add: in_line_def sync_extra_updated has_status_def)
qed

lemma in_line_sync:
  "(case before of None \<Rightarrow> True | Some t \<Rightarrow> bt_ok (tk_extra t)) \<Longrightarrow> in_line (sync_task now p before) p"
proof (cases before)
  case None
  have "bt_ok (tk_extra (default_task\<lparr>tk_id := pd_id p\<rparr>))" by (simp add: default_task_def)
  from in_line_sync_content [OF this, of p] None show ?thesis
    by (simp add: sync_task_def in_line_updated Let_def)
next
  case (Some t)
  assume "case before of None \<Rightarrow> True | Some t \<Rightarrow> bt_ok (tk_extra t)"
  then have "in_line (sync_content p t) p" using Some by (simp add: in_line_sync_content)
  then show ?thesis
    by (cases "t = sync_content p t") (simp_all add: sync_task_def Some Let_def in_line_updated)
qed

lemma in_line_kept:
  assumes "kept t u" "in_line u p"
  shows "in_line t p"
proof -
  note eqs = steady_fields [OF assms(1) [unfolded kept_def, THEN conjunct1]]
  have "tk_extra (sync_extra p u) = tk_extra u" using assms(2) by (simp add: in_line_def)
  then have "sync_extra p t = t" by (simp add: sync_extra_def eqs)
  with assms eqs follows_kept [OF assms(1)] show ?thesis
    by (simp add: in_line_def kept_def)
qed

lemma sync_loop_in_line:
  assumes "\<forall>k t. bt_get m k = Some t \<longrightarrow> bt_ok (tk_extra t)" "bt_ok m"
  shows "list_all2 in_line (sync_loop clock n m prd) (named_tasks prd)"
  using assms
proof (induction prd arbitrary: n m)
  case (Cons p prd)
  have "\<forall>k t. bt_get (bt_remove (pd_id p) m) k = Some t \<longrightarrow> bt_ok (tk_extra t)"
    using Cons.prems by (auto simp: bt.get_rem)
  moreover have "in_line (sync_task (clock n) p (bt_get m (pd_id p))) p"
    using Cons.prems(1) by (intro in_line_sync) (auto split: option.split)
  ultimately show ?case
    using Cons.IH [of "bt_remove (pd_id p) m" "n + 1"] Cons.IH [OF Cons.prems, of "n + 1"]
      bt.inv_rem [OF Cons.prems(2), of "pd_id p"]
    by (simp add: named_tasks_def)
qed (simp add: named_tasks_def)

lemma sync_loop_again:
  assumes "list_all2 in_line ts (named_tasks prd)" "distinct (map tk_id ts)"
    and "\<not> list_ex human_gate prd" "bt_ok m" "\<forall>t \<in> set ts. bt_get m (tk_id t) = Some t"
  shows "sync_loop clock n m prd = ts"
  using assms
proof (induction prd arbitrary: n m ts)
  case (Cons p prd)
  show ?case
  proof (cases "pd_id p = []")
    case True
    then show ?thesis using Cons by (simp add: named_tasks_def)
  next
    case False
    then obtain t ts' where ts: "ts = t # ts'" "in_line t p" "list_all2 in_line ts' (named_tasks prd)"
      using Cons.prems(1) by (auto simp: named_tasks_def list_all2_Cons2)
    have tid: "tk_id t = pd_id p" using ts(2) by (simp add: in_line_def follows_def)
    have "sync_content p t = t" using in_line_content [OF ts(2)] Cons.prems(3) by simp
    then have "sync_task (clock n) p (bt_get m (pd_id p)) = t"
      using Cons.prems(5) by (simp add: sync_task_def ts(1) tid)
    moreover have "sync_loop clock (n + 1) (bt_remove (pd_id p) m) prd = ts'"
    proof (rule Cons.IH [OF ts(3)])
      show "\<forall>u \<in> set ts'. bt_get (bt_remove (pd_id p) m) (tk_id u) = Some u"
        using Cons.prems(2,4,5) by (force simp: ts(1) tid bt.get_rem)
    qed (use Cons.prems in \<open>auto simp: ts(1) bt.inv_rem\<close>)
    ultimately show ?thesis using False by (simp add: ts(1))
  qed
qed (simp add: named_tasks_def)

lemma find_task_distinct:
  "distinct (map tk_id ts) \<Longrightarrow> t \<in> set ts \<Longrightarrow> find_task ts (tk_id t) = Some t"
  by (induction ts) auto

text \<open>The other fields of the registry.\<close>

lemma gates_or_skip_more:
  "(gates_or_skip tn digest ledger now r)\<lparr>rg_tasks := ts\<rparr> = r\<lparr>rg_tasks := ts\<rparr>"
  by (cases ledger)
     (auto simp: gates_or_skip_def evaluate_human_gates_for_project_def reconcile_human_gates_def Let_def)

lemma blocks_more: "(fst (reconcile_task_blocks now r))\<lparr>rg_tasks := ts\<rparr> = r\<lparr>rg_tasks := ts\<rparr>"
  by (rule reconcile_keeps [where P = "\<lambda>s. s\<lparr>rg_tasks := ts\<rparr> = r\<lparr>rg_tasks := ts\<rparr>"])
     (simp_all add: reconcile_pass_def)

lemma insort_insert_fold: "set xs \<subseteq> set (ys :: string list) \<Longrightarrow> fold insort_insert xs ys = ys"
  by (induction xs) (simp_all add: insort_insert_key_def)

lemma set_insort_fold: "set (fold insort_insert xs (ys :: string list)) = set xs \<union> set ys"
  by (induction xs arbitrary: ys) (auto simp: insort_insert_key_def set_insort_key)

lemma with_completed_again:
  assumes "rg_external_merged r = rg_external_merged (with_completed f q s)"
  shows "with_completed f q r = r"
proof (cases "qp_next q < length (qp_entries q) \<and> f (qe_path (qp_entries q ! qp_next q))")
  case True
  let ?ids = "concat (map qe_task_ids (take (qp_next q) (qp_entries q)))"
  have "set ?ids \<subseteq> set (rg_external_merged r)"
    using True unfolding assms by (simp only: with_completed_def if_True, simp add: set_insort_fold)
  then have "fold insort_insert ?ids (rg_external_merged r) = rg_external_merged r"
    by (rule insort_insert_fold)
  then show ?thesis by (simp add: with_completed_def)
qed (auto simp: with_completed_def)

lemma quiet_recompute: "pass_changes now (recompute_resource_locks now' r) = pass_changes now r"
  by (simp add: pass_changes_def recompute_resource_locks_def satisfied_dependency_ids_def)

section \<open>Properties\<close>

lemma synced_recompute:
  "recompute_resource_locks now (synced_registry tn clock digest ledger f q prd stored)
     = synced_registry tn clock digest ledger f q prd stored"
  by (simp add: synced_registry_def recompute_again Let_def)

lemma synced_quiet: "pass_changes now (synced_registry tn clock digest ledger f q prd stored) = []"
  by (simp add: synced_registry_def quiet_recompute reconcile_again Let_def)

text \<open>C15: After a synchronization the registry holds one task for each task of the PRD with an id, in the
  order of the PRD and with its title, scope, dependencies, resources, gate and external block; the
  resource locks are current and the blocks settled, so dispatch finds the state it relies on.\<close>

theorem sync_in_line:
  "let r = synced_registry tn clock digest ledger f q prd stored
   in list_all2 follows (rg_tasks r) (named_tasks prd)
      \<and> map tk_id (rg_tasks r) = map pd_id (named_tasks prd)
      \<and> recompute_resource_locks now r = r \<and> reconcile_task_blocks now r = (r, [])"
  using synced_follows follows_ids [OF synced_follows] synced_recompute reconcile_quiet [OF synced_quiet]
  by (simp add: Let_def)

text \<open>C16: A synchronization never loses work: a task that stays in the PRD keeps its worktree, tool,
  assignment, pull request, review, retry and review counts, verdict and the record of its last
  worktree and branch, those of the last stored task with its id; a task that is new starts with none.\<close>

theorem sync_keeps_work:
  assumes "find_task (rg_tasks (synced_registry tn clock digest ledger f q prd stored)) k = Some t"
  shows "(\<exists>p \<in> set prd. follows t p \<and> pd_id p = k)
    \<and> (case find_task (rev (rg_tasks stored)) k of
         None \<Rightarrow> same_work t default_task | Some u \<Rightarrow> same_work t u)"
proof -
  obtain u where u: "find_task (loop_tasks clock prd stored) k = Some u" "kept t u"
    using list_all2_find [OF synced_kept assms] by blast
  then obtain i where i: "i < length prd" "pd_id (prd ! i) = k"
      "u = sync_task (clock i) (prd ! i) (find_task (rev (rg_tasks stored)) k)"
    using sync_loop_find [OF tasks_by_id_ok, of clock 0 _ prd k u]
    by (auto simp: loop_tasks_def tasks_by_id_get)
  have "follows t (prd ! i)" using follows_kept [OF u(2)] sync_task_follows by (simp add: i(3))
  moreover have "same_work t (unwrap_or (default_task\<lparr>tk_id := k\<rparr>) (find_task (rev (rg_tasks stored)) k))"
    using same_work_trans [OF kept_same_work [OF u(2)]] sync_task_same_work i(2) by (metis i(3))
  moreover have "same_work t (default_task\<lparr>tk_id := k\<rparr>) = same_work t default_task"
    by (simp add: same_work_def)
  ultimately show ?thesis using i(1,2)
    by (cases "find_task (rev (rg_tasks stored)) k") (auto intro!: bexI [of _ "prd ! i"])
qed

text \<open>Where no task of the PRD is a human gate, a second synchronization with the same PRD finds
  nothing to do, whatever the clock says and whoever decides, so the registry is not saved again.\<close>

theorem sync_settles:
  fixes tn clock digest ledger f q
  assumes "\<not> list_ex human_gate prd" "distinct (map pd_id (named_tasks prd))"
    and "list_all (\<lambda>t. bt_ok (tk_extra t)) (rg_tasks stored)"
  defines "r \<equiv> synced_registry tn clock digest ledger f q prd stored"
  shows "synced_registry tn' clock' digest' ledger' f q prd r = r
    \<and> sync_registry_from_prd_native tn' clock' digest' ledger' f (Inr r) (Inr q)
        (Inr \<lparr>pi_tasks = prd, pi_extra = x\<rparr>) save = Inr None"
proof -
  let ?n = "length prd"
  have all: "list_all2 in_line (loop_tasks clock prd stored) (named_tasks prd)"
    unfolding loop_tasks_def
  proof (rule sync_loop_in_line [OF _ tasks_by_id_ok])
    show "\<forall>k t. bt_get (tasks_by_id (rg_tasks stored)) k = Some t \<longrightarrow> bt_ok (tk_extra t)"
      using assms(3) by (auto simp: tasks_by_id_get list_all_iff dest: find_task_in)
  qed
  have line: "list_all2 in_line (rg_tasks r) (named_tasks prd)"
    unfolding r_def by (rule list_all2_trans [OF _ synced_kept all]) (rule in_line_kept)
  have ids: "map tk_id (rg_tasks r) = map pd_id (named_tasks prd)"
    unfolding r_def by (rule follows_ids [OF synced_follows])
  then have dist: "distinct (map tk_id (rg_tasks r))" using assms(2) by simp
  have no_gate: "\<not> list_ex is_human_approval_gate (rg_tasks r)"
  proof
    assume "list_ex is_human_approval_gate (rg_tasks r)"
    then obtain i where i: "i < length (rg_tasks r)" "is_human_approval_gate (rg_tasks r ! i)"
      by (auto simp: list_ex_iff in_set_conv_nth)
    then have "in_line (rg_tasks r ! i) (named_tasks prd ! i)" "named_tasks prd ! i \<in> set (named_tasks prd)"
      using line list_all2_nthD list_all2_lengthD by (blast, metis nth_mem list_all2_lengthD)
    then show False
      using i(2) assms(1)
      by (auto simp: in_line_def follows_def is_human_approval_gate_def human_gate_def named_tasks_def
          list_ex_iff split: option.splits)
  qed
  have merged: "rg_external_merged r = rg_external_merged (with_completed f q stored)"
  proof -
    have g: "rg_external_merged (gates_or_skip tn digest ledger now s) = rg_external_merged s" for now s
      using arg_cong [OF gates_or_skip_more, of rg_external_merged] by simp
    have b: "rg_external_merged (fst (reconcile_task_blocks now s)) = rg_external_merged s" for now s
      using arg_cong [OF blocks_more, of rg_external_merged] by simp
    show ?thesis
      by (simp add: r_def synced_registry_def recompute_resource_locks_def g b Let_def)
  qed
  have completed: "with_completed f q r = r" by (rule with_completed_again [OF merged])
  have loop: "sync_loop clock' 0 (tasks_by_id (rg_tasks r)) prd = rg_tasks r"
  proof (rule sync_loop_again [OF line dist assms(1) tasks_by_id_ok])
    show "\<forall>t \<in> set (rg_tasks r). bt_get (tasks_by_id (rg_tasks r)) (tk_id t) = Some t"
      using find_task_distinct [of "rev (rg_tasks r)"] dist
      by (simp add: tasks_by_id_get rev_map [symmetric])
  qed
  have "gates_or_skip tn' digest' ledger' now r = r" for now
    by (simp add: gates_or_skip_def evaluate_human_gates_for_project_def no_gate)
  moreover have "reconcile_task_blocks now r = (r, [])" for now
    by (rule reconcile_quiet) (simp add: r_def synced_quiet)
  moreover have "recompute_resource_locks now r = r" for now
    by (simp add: r_def synced_recompute)
  ultimately have "synced_registry tn' clock' digest' ledger' f q prd r = r"
    by (simp add: synced_registry_def completed loop Let_def)
  then show ?thesis by (simp add: sync_registry_from_prd_native_def)
qed

text \<open>A human gate that the PRD declares wrongly is parked as blocked with E908, but not for long:
  as soon as its dependencies are delivered, the reconciliation of human gates in the same
  synchronization replaces both the state and the code; and a gate that names no approver and asks for
  all of them becomes approved without any decision.\<close>

theorem invalid_gate_not_kept:
  fixes tn now now' digest ledger before
  assumes gate: "pd_gate p = Some g" "validate_human_approval g (pd_id p) (pd_dependencies p) \<noteq> []"
    and delivered: "set (pd_dependencies p) \<subseteq> set sat"
  defines "t \<equiv> sync_task now p before"
  defines "t' \<equiv> fst (reconcile_gate tn now' sat digest ledger t)"
  shows "workflow_state_of t = Some Blocked \<and> tr_last_error_code (tk_runtime t) = Some ''E908''
    \<and> workflow_state_of t' \<noteq> Some Blocked \<and> tr_last_error_code (tk_runtime t') \<noteq> Some ''E908''
    \<and> (tg_quorum g = Q_All \<and> tg_required_approvers g = [] \<and> ledger (pd_id p) = [] \<longrightarrow>
        workflow_state_of t' = Some Approved)"
proof -
  have "\<not> is_human_approval g \<Longrightarrow> validate_human_approval g (pd_id p) (pd_dependencies p) = []"
    by (simp add: validate_human_approval_def)
  with gate(2) have human: "is_human_approval g" by blast
  have upd: "workflow_state_of (u\<lparr>tk_updated_at := x\<rparr>) = workflow_state_of u"
    "workflow_state_of (u\<lparr>tk_extra := y\<rparr>) = workflow_state_of u" for u x y
    by (simp_all add: workflow_state_of_def)
  have f: "follows t p" by (simp add: t_def sync_task_follows)
  let ?b = "sync_external_block p (sync_fields p (unwrap_or (default_task\<lparr>tk_id := pd_id p\<rparr>) before))"
  have "tk_id ?b = pd_id p" "tk_dependencies ?b = pd_dependencies p"
    by (simp_all add: sync_external_block_def sync_fields_def split: option.split)
  then have parked: "workflow_state_of (sync_gate p ?b) = Some Blocked"
    "tr_last_error_code (tk_runtime (sync_gate p ?b)) = Some ''E908''"
    using gate by (simp_all add: sync_gate_def park_invalid_gate_def coord_frame Let_def)
      (simp add: upd_runtime_def set_last_error_details_def)
  have "workflow_state_of t = workflow_state_of (sync_gate p ?b)"
    "tr_last_error_code (tk_runtime t) = tr_last_error_code (tk_runtime (sync_gate p ?b))"
    by (simp_all add: t_def sync_task_def sync_content_def sync_runtime_def sync_extra_def upd
        coord_frame Let_def) (simp add: upd_runtime_def)
  with parked have blocked: "workflow_state_of t = Some Blocked" "tr_last_error_code (tk_runtime t) = Some ''E908''"
    by simp_all
  have deps: "list_all (\<lambda>d. d \<in> set sat) (tk_dependencies t)"
    using f delivered by (auto simp: follows_def list_all_iff)
  let ?s = "unwrap_or [] (tg_subject_task g)"
  have open_gate: "evaluate_gate tn g True (digest ?s) (ledger (tk_id t)) now' \<noteq> None"
    by (auto simp: evaluate_gate_def Let_def split: option.split)
  then obtain ev where ev: "evaluate_gate tn g True (digest ?s) (ledger (tk_id t)) now' = Some ev"
    by blast
  have t': "t' = fst (apply_evaluation now' ?s (ledger (tk_id t)) ev t)"
    using f gate(1) human deps blocked(1) ev by (simp add: t'_def reconcile_gate_def follows_def Let_def)
  have state: "workflow_state_of t' = Some (ge_state ev)" by (simp add: t' apply_evaluation_fields)
  have "ge_state ev \<noteq> Blocked" using evaluate_gate_Some(6) [OF ev] by auto
  moreover have "tr_last_error_code (tk_runtime t') \<noteq> Some ''E908''"
    by (simp add: t' apply_evaluation_def upd_runtime_def set_last_error_details_def set_status_def Let_def)
  moreover have "ge_state ev = Approved"
    if none: "tg_quorum g = Q_All" "tg_required_approvers g = []" "ledger (pd_id p) = []"
  proof -
    have "ledger (tk_id t) = []" using f none(3) by (simp add: follows_def)
    then have "live_decisions tn g (digest ?s) (ledger (tk_id t)) now' = []"
      by (simp add: live_decisions_def latest_per_actor_def)
    then show ?thesis
      using evaluate_gate_Some(2,5) [OF ev] none(1,2) by (simp add: quorum_met_def)
  qed
  ultimately show ?thesis using blocked state by auto
qed

section \<open>Concrete instances\<close>

definition sample_prd_task :: "string \<Rightarrow> prd_task" where
  "sample_prd_task k =
     \<lparr>pd_id = k, pd_title = None, pd_priority = None, pd_category = None, pd_scope = None,
      pd_base_branch = None, pd_coordinator_tool = None, pd_dependencies = [],
      pd_exclusive_resources = [], pd_blocked_on_external = None, pd_gate = None, pd_extra = []\<rparr>"

definition sample_stored :: task_registry where
  "sample_stored = default_registry\<lparr>rg_tasks := [sample_task ''A'' Todo]\<rparr>"

definition sample_synced :: task_registry where
  "sample_synced = synced_registry (\<lambda>_. None) (\<lambda>_. ''now'') (\<lambda>_. None) (Inr (\<lambda>_. []))
     (\<lambda>_. False) default_progress [sample_prd_task ''A''] sample_stored"

theorem sync_keeps_work_witness:
  "\<exists>t. find_task (rg_tasks sample_synced) ''A'' = Some t \<and> same_work t (sample_task ''A'' Todo)"
proof -
  have "list_all2 follows (rg_tasks sample_synced) (named_tasks [sample_prd_task ''A''])"
    unfolding sample_synced_def by (rule synced_follows)
  then obtain t where "rg_tasks sample_synced = [t]" "tk_id t = ''A''"
    by (auto simp: named_tasks_def sample_prd_task_def list_all2_Cons2 follows_def)
  then have t: "find_task (rg_tasks sample_synced) ''A'' = Some t" by simp
  from sync_keeps_work [OF t [unfolded sample_synced_def]] t show ?thesis
    by (simp add: sample_stored_def)
qed

theorem sync_settles_witness:
  "synced_registry (\<lambda>_. None) (\<lambda>_. ''later'') (\<lambda>_. None) (Inr (\<lambda>_. [])) (\<lambda>_. False) default_progress
     [sample_prd_task ''A''] sample_synced = sample_synced"
proof -
  have "\<not> list_ex human_gate [sample_prd_task ''A'']"
    "distinct (map pd_id (named_tasks [sample_prd_task ''A'']))"
    "list_all (\<lambda>t. bt_ok (tk_extra t)) (rg_tasks sample_stored)"
    by (simp_all add: human_gate_def named_tasks_def sample_prd_task_def sample_stored_def
        sample_task_def set_workflow_state_def default_task_def)
  from sync_settles [OF this] show ?thesis unfolding sample_synced_def by blast
qed

definition sample_bad_gate :: task_gate where
  "sample_bad_gate = sample_gate\<lparr>tg_required_approvers := []\<rparr>"

definition sample_bad_task :: prd_task where
  "sample_bad_task =
     (sample_prd_task ''G'')\<lparr>pd_dependencies := [''T1''], pd_gate := Some sample_bad_gate\<rparr>"

theorem invalid_gate_not_kept_witness:
  "workflow_state_of (sync_task ''now'' sample_bad_task None) = Some Blocked
   \<and> workflow_state_of (fst (reconcile_gate (\<lambda>_. None) ''now'' [''T1''] (\<lambda>_. None) (\<lambda>_. [])
        (sync_task ''now'' sample_bad_task None))) = Some Approved"
proof -
  have "is_human_approval sample_bad_gate"
    using sample_gate_human by (simp add: sample_bad_gate_def is_human_approval_def)
  then have "validate_human_approval sample_bad_gate (pd_id sample_bad_task) (pd_dependencies sample_bad_task) \<noteq> []"
    by (simp add: validate_human_approval_def sample_bad_gate_def)
  moreover have "pd_gate sample_bad_task = Some sample_bad_gate"
    "set (pd_dependencies sample_bad_task) \<subseteq> set [''T1'']"
    by (simp_all add: sample_bad_task_def)
  moreover have "tg_quorum sample_bad_gate = Q_All" "tg_required_approvers sample_bad_gate = []"
    by (simp_all add: sample_bad_gate_def sample_gate_def)
  ultimately show ?thesis
    using invalid_gate_not_kept [where p = sample_bad_task and g = sample_bad_gate and sat = "[''T1'']"
      and tn = "\<lambda>_. None" and now = "''now''" and now' = "''now''" and digest = "\<lambda>_. None"
      and ledger = "\<lambda>_. []" and before = None]
    by simp
qed

end
