(* ===== verification/Json_Text.thy ===== *)
theory Json_Text
  imports Json_Codec
begin

text \<open>
  A prefix-free text form of JSON values with its reader.  It stands in for \<open>serde_json\<close>'s printer and
  parser in the concrete instances of theorems that assume these are inverse.
\<close>

fun put_str :: "string \<Rightarrow> string" where
  "put_str [] = ''.''"
| "put_str (c # s) = ''+'' @ [c] @ put_str s"

fun get_text :: "string \<Rightarrow> (string \<times> string) option" where
  "get_text (m # s) =
     (if m = CHR ''.'' then Some ([], s)
      else case s of [] \<Rightarrow> None | c # r \<Rightarrow> map_option (\<lambda>(t, u). (c # t, u)) (get_text r))"
| "get_text [] = None"

lemma get_put_str [simp]: "get_text (put_str s @ r) = Some (s, r)"
  by (induction s) auto

fun put_json :: "json \<Rightarrow> string" where
  "put_json JNull = ''n''"
| "put_json (JBool b) = (if b then ''t'' else ''f'')"
| "put_json (JInt i) = ''i'' @ put_str ((if i < 0 then ''-'' else ''+'') @ replicate (nat \<bar>i\<bar>) CHR ''1'')"
| "put_json (JFloat s) = ''d'' @ put_str s"
| "put_json (JStr s) = ''s'' @ put_str s"
| "put_json (JArr xs) = ''['' @ concat (map (\<lambda>x. ''+'' @ put_json x) xs) @ ''.''"
| "put_json (JObj kvs) = ''{'' @ concat (map (\<lambda>(k, v). ''+'' @ put_str k @ put_json v) kvs) @ ''.''"

primrec get_items :: "nat \<Rightarrow> (string \<Rightarrow> ('a \<times> string) option) \<Rightarrow> string \<Rightarrow> ('a list \<times> string) option" where
  "get_items 0 g s = None"
| "get_items (Suc n) g s =
     (case s of
        [] \<Rightarrow> None
      | m # r \<Rightarrow>
          if m = CHR ''.'' then Some ([], r)
          else Option.bind (g r) (\<lambda>(x, u). map_option (\<lambda>(xs, v). (x # xs, v)) (get_items n g u)))"

definition get_int :: "string \<Rightarrow> int" where
  "get_int s = (if hd s = CHR ''-'' then - int (length (tl s)) else int (length (tl s)))"

primrec get_json :: "nat \<Rightarrow> string \<Rightarrow> (json \<times> string) option" where
  "get_json 0 s = None"
| "get_json (Suc n) s =
     (case s of
        [] \<Rightarrow> None
      | c # r \<Rightarrow>
          if c = CHR ''n'' then Some (JNull, r)
          else if c = CHR ''t'' then Some (JBool True, r)
          else if c = CHR ''f'' then Some (JBool False, r)
          else if c = CHR ''i'' then map_option (\<lambda>(t, u). (JInt (get_int t), u)) (get_text r)
          else if c = CHR ''d'' then map_option (\<lambda>(t, u). (JFloat t, u)) (get_text r)
          else if c = CHR ''s'' then map_option (\<lambda>(t, u). (JStr t, u)) (get_text r)
          else if c = CHR ''['' then map_option (\<lambda>(xs, u). (JArr xs, u)) (get_items (length r) (get_json n) r)
          else if c = CHR ''{''
          then map_option (\<lambda>(kvs, u). (JObj kvs, u))
                 (get_items (length r)
                    (\<lambda>s. Option.bind (get_text s) (\<lambda>(k, t). map_option (\<lambda>(v, u). ((k, v), u)) (get_json n t))) r)
          else None)"

lemma get_items_put:
  "(\<And>x r. x \<in> set xs \<Longrightarrow> g (p x @ r) = Some (x, r)) \<Longrightarrow> length xs < n \<Longrightarrow>
   get_items n g (concat (map (\<lambda>x. ''+'' @ p x) xs) @ ''.'' @ r) = Some (xs, r)"
proof (induction xs arbitrary: n)
  case Nil
  then show ?case by (cases n) auto
next
  case (Cons x xs)
  then obtain m where "n = Suc m" by (cases n) auto
  with Cons show ?case by simp
qed

lemma length_items: "length xs \<le> length (concat (map (\<lambda>x. ''+'' @ p x) xs))"
  by (induction xs) auto

lemma get_put_json: "size v < n \<Longrightarrow> get_json n (put_json v @ r) = Some (v, r)"
proof (induction v arbitrary: n r)
  case (JArr xs)
  then obtain m where m: "n = Suc m" by (cases n) auto
  have "get_json m (put_json x @ u) = Some (x, u)" if "x \<in> set xs" for x u
  proof -
    have "size x \<le> size_list size xs" using that by (simp add: size_list_estimation')
    then show ?thesis using JArr m that by simp
  qed
  then have "get_items (length (concat (map (\<lambda>x. ''+'' @ put_json x) xs) @ ''.'' @ r)) (get_json m)
      (concat (map (\<lambda>x. ''+'' @ put_json x) xs) @ ''.'' @ r) = Some (xs, r)"
    by (rule get_items_put) (use length_items [of xs put_json] in simp_all)
  then show ?case by (simp add: m del: get_items.simps)
next
  case (JObj kvs)
  then obtain m where m: "n = Suc m" by (cases n) auto
  let ?p = "\<lambda>(k, v). put_str k @ put_json v"
  let ?g = "\<lambda>s. Option.bind (get_text s) (\<lambda>(k, t). map_option (\<lambda>(v, u). ((k, v), u)) (get_json m t))"
  have "?g (?p kv @ u) = Some (kv, u)" if kv: "kv \<in> set kvs" for kv u
  proof -
    obtain k v where kv': "kv = (k, v)" by (cases kv)
    have "size_prod (\<lambda>_. 0) size kv \<le> size_list (size_prod (\<lambda>_. 0) size) kvs"
      using kv by (simp add: size_list_estimation')
    then have "size v < m" using JObj.prems m kv' by simp
    then have "get_json m (put_json v @ u) = Some (v, u)"
      using JObj.IH [of kv v m u] kv kv' by (simp add: snds.intros)
    then show ?thesis by (simp add: kv')
  qed
  then have "get_items (length (concat (map (\<lambda>x. ''+'' @ ?p x) kvs) @ ''.'' @ r)) ?g
      (concat (map (\<lambda>x. ''+'' @ ?p x) kvs) @ ''.'' @ r) = Some (kvs, r)"
    by (rule get_items_put) (use length_items [of kvs ?p] in simp_all)
  moreover have "(\<lambda>x. ''+'' @ ?p x) = (\<lambda>(k, v). ''+'' @ put_str k @ put_json v)" by auto
  ultimately show ?case by (simp add: m del: get_items.simps)
qed (auto simp: get_int_def elim!: less_natE)

lemma size_str: "size_list size (s :: string) \<le> length (put_str s)"
  by (induction s) auto

lemma put_str_pos: "Suc 0 \<le> length (put_str s)"
  by (cases s) auto

lemma size_items:
  "(\<And>x. x \<in> set xs \<Longrightarrow> f x \<le> length (p x)) \<Longrightarrow>
   size_list f xs \<le> length (concat (map (\<lambda>x. ''+'' @ p x) xs))"
  by (induction xs) (auto simp: add_le_mono)

lemma size_put_json: "size v \<le> length (put_json v)"
proof (induction v)
  case (JArr xs)
  then show ?case using size_items [of xs size put_json] by simp
next
  case (JObj kvs)
  have "size_prod (\<lambda>_. 0) size kv \<le> length (put_str (fst kv) @ put_json (snd kv))" if "kv \<in> set kvs" for kv
  proof -
    have "size (snd kv) \<le> length (put_json (snd kv))"
      using JObj [of kv "snd kv"] that by (cases kv) (simp add: snds.intros)
    moreover have "size_prod (\<lambda>_. 0) size kv = Suc (size (snd kv))" by (cases kv) simp
    ultimately show ?thesis using put_str_pos [of "fst kv"] by (simp only: length_append)
  qed
  then have "size_list (size_prod (\<lambda>_. 0) size) kvs
      \<le> length (concat (map (\<lambda>kv. ''+'' @ put_str (fst kv) @ put_json (snd kv)) kvs))"
    by (rule size_items)
  then show ?case by (simp add: case_prod_unfold)
qed auto

definition text_of_json :: "json \<Rightarrow> string" where
  "text_of_json v = put_json v"

definition json_of_text :: "string \<Rightarrow> string + json" where
  "json_of_text s =
     (case get_json (Suc (length s)) s of
        Some (v, r) \<Rightarrow> if r \<in> {[], [CHR 0x0A]} then Inr v else Inl ''trailing characters''
      | None \<Rightarrow> Inl ''not a value'')"

lemma json_of_text_of [simp]:
  "json_of_text (text_of_json v) = Inr v"
  "json_of_text (text_of_json v @ [CHR 0x0A]) = Inr v"
proof -
  have "size v < Suc (length (put_json v @ r))" for r using size_put_json [of v] by simp
  then have "get_json (Suc (length (put_json v @ r))) (put_json v @ r) = Some (v, r)" for r by (rule get_put_json)
  from this [of "[]"] this [of "[CHR 0x0A]"]
  show "json_of_text (text_of_json v) = Inr v" "json_of_text (text_of_json v @ [CHR 0x0A]) = Inr v"
    unfolding json_of_text_def text_of_json_def by simp_all
qed

end
