(* ===== verification/Ownership.thy ===== *)
theory Ownership
  imports Events Json_Text Text Worktree
begin

text \<open>
  Who controls a project (\<open>process_ownership/\<close>, \<open>service/process_ownership.rs\<close> and
  \<open>service/process_ownership_gate.rs\<close>): the records of running processes with the project-wide control
  lease among them, their JSON form, the eviction of clients whose heartbeat is stale, the time-out of
  takeover requests, the operations of clients, and the gate in front of mutating actions.  Instants
  are nanoseconds; what \<open>chrono\<close> and the file system answer are arguments.
\<close>

section \<open>Data\<close>

datatype client_kind = Ck_Tui | Ck_Web | Ck_Cli

record client_identity =
  ci_client_id :: string
  ci_kind :: client_kind
  ci_connected_at :: string
  ci_last_heartbeat :: string

datatype process_kind = Pk_Coordinator | Pk_Supervisor | Pk_WebServer | Pk_TerminalSession | Pk_Project

record process_handle =
  ph_kind :: process_kind
  ph_project_root :: string
  ph_pid :: "int option"

datatype ownership_status = Os_Owner | Os_Viewer | Os_Unregistered

record takeover_request =
  tr_request_id :: string
  tr_requester :: client_identity
  tr_requested_at :: string

record ownership_record =
  or_process :: process_handle
  or_owner :: "client_identity option"
  or_viewers :: "client_identity list"
  or_takeover_request :: "takeover_request option"
  or_started_at :: string

type_synonym ownership_store = "ownership_record list"

datatype takeover_default_response = Tdr_Deny | Tdr_AutoAccept | Tdr_AdminTakeover

definition from_str_lossy :: "string \<Rightarrow> takeover_default_response" where
  "from_str_lossy value =
     (let v = to_ascii_lowercase (trim value)
      in if v \<in> {''auto_accept'', ''auto-accept'', ''accept''} then Tdr_AutoAccept
         else if v \<in> {''admin_takeover'', ''admin-takeover'', ''admin''} then Tdr_AdminTakeover
         else Tdr_Deny)"

record heartbeat_config =
  hc_ttl_seconds :: nat
  hc_takeover_timeout_seconds :: nat
  hc_takeover_default_response :: takeover_default_response

definition default_heartbeat :: heartbeat_config where
  "default_heartbeat =
     \<lparr>hc_ttl_seconds = 15, hc_takeover_timeout_seconds = 60, hc_takeover_default_response = Tdr_Deny\<rparr>"

text \<open>The events the operations broadcast, with the handle their payload names.\<close>

datatype ownership_event =
    Oe_Registered process_handle
  | Oe_Claimed process_handle client_identity
  | Oe_Released process_handle client_identity
  | Oe_Viewer_Joined process_handle client_identity
  | Oe_Viewer_Left process_handle client_identity
  | Oe_Takeover_Requested process_handle client_identity string
  | Oe_Takeover_Accepted process_handle client_identity string
  | Oe_Takeover_Rejected process_handle client_identity string
  | Oe_Takeover_Timeout process_handle client_identity string string

section \<open>The JSON form of the store\<close>

fun client_kind_name :: "client_kind \<Rightarrow> string" where
  "client_kind_name Ck_Tui = ''Tui''"
| "client_kind_name Ck_Web = ''Web''"
| "client_kind_name Ck_Cli = ''Cli''"

fun process_kind_name :: "process_kind \<Rightarrow> string" where
  "process_kind_name Pk_Coordinator = ''Coordinator''"
| "process_kind_name Pk_Supervisor = ''Supervisor''"
| "process_kind_name Pk_WebServer = ''WebServer''"
| "process_kind_name Pk_TerminalSession = ''TerminalSession''"
| "process_kind_name Pk_Project = ''Project''"

definition d_client_kind :: "json \<Rightarrow> client_kind option" where
  "d_client_kind = d_variant client_kind_name [Ck_Tui, Ck_Web, Ck_Cli]"

definition d_process_kind :: "json \<Rightarrow> process_kind option" where
  "d_process_kind =
     d_variant process_kind_name [Pk_Coordinator, Pk_Supervisor, Pk_WebServer, Pk_TerminalSession, Pk_Project]"

fun d_i32 :: "json \<Rightarrow> int option" where
  "d_i32 (JInt i) = (if - (2 ^ 31) \<le> i \<and> i < 2 ^ 31 then Some i else None)"
| "d_i32 _ = None"

definition client_fields :: "client_identity \<Rightarrow> (string \<times> json option) list" where
  "client_fields c =
     [(''client_id'', Some (JStr (ci_client_id c))),
      (''kind'', Some (JStr (client_kind_name (ci_kind c)))),
      (''connected_at'', Some (JStr (ci_connected_at c))),
      (''last_heartbeat'', Some (JStr (ci_last_heartbeat c)))]"

definition client_to_value :: "client_identity \<Rightarrow> json" where
  "client_to_value c = object_of (client_fields c) []"

definition client_from_value :: "json \<Rightarrow> client_identity option" where
  "client_from_value v =
     Option.bind (struct_fields 3 [''client_id'', ''kind'', ''connected_at'', ''last_heartbeat''] v) (\<lambda>f.
     Option.bind (d_required d_str (f ''client_id'')) (\<lambda>id.
     Option.bind (d_required d_client_kind (f ''kind'')) (\<lambda>k.
     Option.bind (d_required d_str (f ''connected_at'')) (\<lambda>c.
     Option.bind (d_default [] d_str (f ''last_heartbeat'')) (\<lambda>h.
       Some \<lparr>ci_client_id = id, ci_kind = k, ci_connected_at = c, ci_last_heartbeat = h\<rparr>)))))"

definition handle_fields :: "process_handle \<Rightarrow> (string \<times> json option) list" where
  "handle_fields h =
     [(''kind'', Some (JStr (process_kind_name (ph_kind h)))),
      (''project_root'', Some (JStr (ph_project_root h))),
      (''pid'', Some (null_or JInt (ph_pid h)))]"

definition handle_to_value :: "process_handle \<Rightarrow> json" where
  "handle_to_value h = object_of (handle_fields h) []"

definition handle_from_value :: "json \<Rightarrow> process_handle option" where
  "handle_from_value v =
     Option.bind (struct_fields 3 [''kind'', ''project_root'', ''pid''] v) (\<lambda>f.
     Option.bind (d_required d_process_kind (f ''kind'')) (\<lambda>k.
     Option.bind (d_required d_str (f ''project_root'')) (\<lambda>r.
     Option.bind (d_option d_i32 (f ''pid'')) (\<lambda>p.
       Some \<lparr>ph_kind = k, ph_project_root = r, ph_pid = p\<rparr>))))"

definition takeover_fields :: "takeover_request \<Rightarrow> (string \<times> json option) list" where
  "takeover_fields t =
     [(''request_id'', Some (JStr (tr_request_id t))),
      (''requester'', Some (client_to_value (tr_requester t))),
      (''requested_at'', Some (JStr (tr_requested_at t)))]"

definition takeover_to_value :: "takeover_request \<Rightarrow> json" where
  "takeover_to_value t = object_of (takeover_fields t) []"

definition takeover_from_value :: "json \<Rightarrow> takeover_request option" where
  "takeover_from_value v =
     Option.bind (struct_fields 3 [''request_id'', ''requester'', ''requested_at''] v) (\<lambda>f.
     Option.bind (d_required d_str (f ''request_id'')) (\<lambda>id.
     Option.bind (d_required client_from_value (f ''requester'')) (\<lambda>c.
     Option.bind (d_required d_str (f ''requested_at'')) (\<lambda>a.
       Some \<lparr>tr_request_id = id, tr_requester = c, tr_requested_at = a\<rparr>))))"

definition record_fields :: "ownership_record \<Rightarrow> (string \<times> json option) list" where
  "record_fields r =
     [(''process'', Some (handle_to_value (or_process r))),
      (''owner'', Some (null_or client_to_value (or_owner r))),
      (''viewers'', Some (JArr (map client_to_value (or_viewers r)))),
      (''takeover_request'', Some (null_or takeover_to_value (or_takeover_request r))),
      (''started_at'', Some (JStr (or_started_at r)))]"

definition record_to_value :: "ownership_record \<Rightarrow> json" where
  "record_to_value r = object_of (record_fields r) []"

definition record_from_value :: "json \<Rightarrow> ownership_record option" where
  "record_from_value v =
     Option.bind (struct_fields 5 [''process'', ''owner'', ''viewers'', ''takeover_request'', ''started_at''] v) (\<lambda>f.
     Option.bind (d_required handle_from_value (f ''process'')) (\<lambda>h.
     Option.bind (d_option client_from_value (f ''owner'')) (\<lambda>ow.
     Option.bind (d_required (d_list client_from_value) (f ''viewers'')) (\<lambda>vs.
     Option.bind (d_option takeover_from_value (f ''takeover_request'')) (\<lambda>t.
     Option.bind (d_required d_str (f ''started_at'')) (\<lambda>s.
       Some \<lparr>or_process = h, or_owner = ow, or_viewers = vs, or_takeover_request = t, or_started_at = s\<rparr>))))))"

definition store_to_value :: "ownership_store \<Rightarrow> json" where
  "store_to_value s = object_of [(''records'', Some (JArr (map record_to_value s)))] []"

definition store_from_value :: "json \<Rightarrow> ownership_store option" where
  "store_from_value v =
     Option.bind (struct_fields 1 [''records''] v) (\<lambda>f. d_required (d_list record_from_value) (f ''records''))"

lemma d_client_kind_encoded [simp]: "d_client_kind (JStr (client_kind_name k)) = Some k"
  by (cases k) (simp_all add: d_client_kind_def d_variant_def)

lemma d_process_kind_encoded [simp]: "d_process_kind (JStr (process_kind_name p)) = Some p"
  by (cases p) (simp_all add: d_process_kind_def d_variant_def)

lemma client_roundtrip [simp]: "client_from_value (client_to_value c) = Some c"
  by (simp add: client_from_value_def client_to_value_def client_fields_def json_get_object d_required_def
      d_default_def d_str_def)

definition handle_ok :: "process_handle \<Rightarrow> bool" where
  "handle_ok h = pred_option (\<lambda>p. - (2 ^ 31) \<le> p \<and> p < 2 ^ 31) (ph_pid h)"

lemma d_i32_encoded: "handle_ok h \<Longrightarrow> ph_pid h = Some p \<Longrightarrow> d_i32 (JInt p) = Some p \<and> JInt p \<noteq> JNull"
  by (simp add: handle_ok_def)

lemma handle_roundtrip [simp]: "handle_ok h \<Longrightarrow> handle_from_value (handle_to_value h) = Some h"
  by (simp add: handle_from_value_def handle_to_value_def handle_fields_def json_get_object d_required_def
      d_str_def d_option_encoded [OF d_i32_encoded])

lemma takeover_roundtrip [simp]: "takeover_from_value (takeover_to_value t) = Some t"
  by (simp add: takeover_from_value_def takeover_to_value_def takeover_fields_def json_get_object
      d_required_def d_str_def)

lemma record_roundtrip: "handle_ok (or_process r) \<Longrightarrow> record_from_value (record_to_value r) = Some r"
  by (simp add: record_from_value_def record_to_value_def record_fields_def json_get_object d_required_def
      d_option_encoded d_list_encoded d_str_def client_to_value_def takeover_to_value_def object_not_null
      client_roundtrip [unfolded client_to_value_def] takeover_roundtrip [unfolded takeover_to_value_def])

lemma store_reads_back: "\<forall>r \<in> set s. handle_ok (or_process r) \<Longrightarrow> store_from_value (store_to_value s) = Some s"
  by (simp add: store_from_value_def store_to_value_def json_get_object d_required_def d_list_encoded
      record_roundtrip)

text \<open>What is saved is what is loaded: the JSON form of a store whose process ids fit an \<open>i32\<close> reads back
  as the store.\<close>

theorem store_roundtrip:
  assumes "\<forall>r \<in> set s. handle_ok (or_process r)"
  shows "store_from_value (store_to_value s) = Some s"
  using store_reads_back [OF assms] .

section \<open>Stale clients and takeover time-outs\<close>

text \<open>
  \<open>parse_time\<close> is \<open>parse_timestamp\<close> (\<open>None\<close> for a text that is no RFC 3339 time) and \<open>max_utc\<close> the last
  instant \<open>chrono\<close> represents.  The subtraction of the time to live never leaves \<open>chrono\<close>'s range for the
  periods a project configures.
\<close>

record own_env =
  oe_parse_time :: "string \<Rightarrow> int option"
  oe_max_utc :: int

definition secs :: "nat \<Rightarrow> int" where
  "secs n = 1000000000 * int (min n (2 ^ 63 - 1))"

definition is_stale_client :: "own_env \<Rightarrow> int \<Rightarrow> client_identity \<Rightarrow> bool" where
  "is_stale_client env cutoff c =
     (case oe_parse_time env (ci_last_heartbeat c) of None \<Rightarrow> True | Some heartbeat \<Rightarrow> heartbeat < cutoff)"

definition other_client :: "string \<Rightarrow> client_identity \<Rightarrow> bool" where
  "other_client cid v = (ci_client_id v \<noteq> cid)"

definition request_expired :: "own_env \<Rightarrow> int \<Rightarrow> takeover_request \<Rightarrow> bool" where
  "request_expired env cutoff req =
     (case oe_parse_time env (tr_requested_at req) of None \<Rightarrow> True | Some ts \<Rightarrow> ts < cutoff)"

definition policy_text :: "takeover_default_response \<Rightarrow> string" where
  "policy_text r =
     (case r of Tdr_Deny \<Rightarrow> ''deny'' | Tdr_AutoAccept \<Rightarrow> ''auto_accept'' | Tdr_AdminTakeover \<Rightarrow> ''admin_takeover'')"

definition grant_takeover :: "takeover_request \<Rightarrow> ownership_record \<Rightarrow> ownership_record" where
  "grant_takeover req r =
     r\<lparr>or_viewers := filter (other_client (ci_client_id (tr_requester req))) (or_viewers r),
       or_owner := Some (tr_requester req), or_takeover_request := None\<rparr>"

definition resolve_takeover ::
  "own_env \<Rightarrow> heartbeat_config \<Rightarrow> int \<Rightarrow> ownership_record \<Rightarrow> ownership_record \<times> ownership_event list" where
  "resolve_takeover env cfg now r =
     (if hc_takeover_timeout_seconds cfg = 0 then (r, [])
      else case or_takeover_request r of
             None \<Rightarrow> (r, [])
           | Some req \<Rightarrow>
               if request_expired env (now - secs (hc_takeover_timeout_seconds cfg)) req
               then (if hc_takeover_default_response cfg = Tdr_Deny
                     then r\<lparr>or_takeover_request := None\<rparr> else grant_takeover req r,
                     [Oe_Takeover_Timeout (or_process r) (tr_requester req) (tr_request_id req)
                        (policy_text (hc_takeover_default_response cfg))])
               else (r, []))"

text \<open>\<open>Iterator::min_by_key\<close> gives the first of the least elements.\<close>

fun min_index :: "('a \<Rightarrow> int) \<Rightarrow> 'a list \<Rightarrow> nat option" where
  "min_index key [] = None"
| "min_index key (x # xs) =
     (case min_index key xs of
        None \<Rightarrow> Some 0
      | Some i \<Rightarrow> if key x \<le> key (xs ! i) then Some 0 else Some (Suc i))"

definition connected_key :: "own_env \<Rightarrow> client_identity \<Rightarrow> int" where
  "connected_key env v = unwrap_or (oe_max_utc env) (oe_parse_time env (ci_connected_at v))"

definition remove_at :: "nat \<Rightarrow> 'a list \<Rightarrow> 'a list" where
  "remove_at i xs = take i xs @ drop (Suc i) xs"

definition promote_oldest_viewer :: "own_env \<Rightarrow> ownership_record \<Rightarrow> ownership_record" where
  "promote_oldest_viewer env r =
     (case min_index (connected_key env) (or_viewers r) of
        None \<Rightarrow> r\<lparr>or_owner := None\<rparr>
      | Some i \<Rightarrow> r\<lparr>or_owner := Some (or_viewers r ! i), or_viewers := remove_at i (or_viewers r)\<rparr>)"

definition evict_record ::
  "own_env \<Rightarrow> heartbeat_config \<Rightarrow> int \<Rightarrow> ownership_record \<Rightarrow> ownership_record \<times> ownership_event list" where
  "evict_record env cfg now r =
     (let cutoff = now - secs (hc_ttl_seconds cfg);
          (r1, events) = resolve_takeover env cfg now r;
          r2 = r1\<lparr>or_viewers := filter (\<lambda>v. \<not> is_stale_client env cutoff v) (or_viewers r1)\<rparr>
      in (if pred_option (\<lambda>ow. \<not> is_stale_client env cutoff ow) (or_owner r2) then r2
          else promote_oldest_viewer env r2, events))"

definition evict_stale_clients ::
  "own_env \<Rightarrow> heartbeat_config \<Rightarrow> int \<Rightarrow> ownership_store \<Rightarrow> ownership_store \<times> ownership_event list" where
  "evict_stale_clients env cfg now s =
     (map (\<lambda>r. fst (evict_record env cfg now r)) s, concat (map (\<lambda>r. snd (evict_record env cfg now r)) s))"

section \<open>The store on disk\<close>

text \<open>
  What the file system, the JSON library and the project's configuration answer.  \<open>ow_read\<close> gives the
  error of a read that fails for another reason than a missing file, \<open>ow_lock\<close> and the three steps of
  \<open>save\<close> their error; \<open>ow_parse\<close> is the syntax part of \<open>serde_json::from_str\<close>, \<open>ow_type_error\<close> its message for a value of
  another shape, and
  \<open>ow_config\<close> the \<open>process_ownership\<close> and \<open>automation.coordinator\<close> settings of the configuration under a
  root (\<open>None\<close> where it does not load).
\<close>

record takeover_settings =
  tk_timeout_seconds :: "nat option"
  tk_default_response :: "string option"

record own_io = own_env +
  ow_now :: int
  ow_stamp :: string
  ow_lock :: "macc_error option"
  ow_read :: "string option"
  ow_parse :: "string \<Rightarrow> string + json"
  ow_type_error :: "json \<Rightarrow> string"
  ow_pretty :: "json \<Rightarrow> string"
  ow_config :: "string \<Rightarrow> (takeover_settings option \<times> takeover_settings option) option"
  ow_mkdir :: "string option"
  ow_write :: "string option"
  ow_rename :: "string option"

record own_world =
  wo_file :: "string option"
  wo_events :: "ownership_event list"

definition store_path :: "string \<Rightarrow> string" where
  "store_path root = path_join root ''.macc/state/process_ownership.json''"

definition policy_of :: "takeover_settings \<Rightarrow> nat \<times> takeover_default_response" where
  "policy_of s = (unwrap_or 60 (tk_timeout_seconds s),
                  unwrap_or Tdr_Deny (map_option from_str_lossy (tk_default_response s)))"

definition load_takeover_policy :: "own_io \<Rightarrow> string \<Rightarrow> (nat \<times> takeover_default_response) option" where
  "load_takeover_policy io root =
     Option.bind (ow_config io root) (\<lambda>(ownership, coordinator).
       case ownership of Some s \<Rightarrow> Some (policy_of s) | None \<Rightarrow> map_option policy_of coordinator)"

definition eviction_config :: "own_io \<Rightarrow> ownership_store \<Rightarrow> heartbeat_config" where
  "eviction_config io s =
     (case s of
        [] \<Rightarrow> default_heartbeat
      | r # _ \<Rightarrow>
          (case load_takeover_policy io (ph_project_root (or_process r)) of
             None \<Rightarrow> default_heartbeat
           | Some (timeout, response) \<Rightarrow>
               default_heartbeat\<lparr>hc_takeover_timeout_seconds := timeout,
                                 hc_takeover_default_response := response\<rparr>))"

definition evict_stale_records :: "own_io \<Rightarrow> ownership_store \<Rightarrow> ownership_store \<times> ownership_event list" where
  "evict_stale_records io s = evict_stale_clients (own_env.truncate io) (eviction_config io s) (ow_now io) s"

definition emit :: "ownership_event list \<Rightarrow> own_world \<Rightarrow> own_world" where
  "emit es w = w\<lparr>wo_events := wo_events w @ es\<rparr>"

definition unreadable_store :: "string \<Rightarrow> string \<Rightarrow> macc_error" where
  "unreadable_store root e =
     Storage_Err ''json''
       (''Failed to parse process ownership store '' @ [CHR 0x27] @ store_path root @ [CHR 0x27] @ '': '' @ e)"

definition load_store :: "own_io \<Rightarrow> string \<Rightarrow> own_world \<Rightarrow> own_world \<times> ownership_store res" where
  "load_store io root w =
     (case ow_read io of
        Some e \<Rightarrow> (w, Inl (Io_Err (store_path root) ''read process ownership store'' e))
      | None \<Rightarrow>
          (case wo_file w of
             None \<Rightarrow> (w, Inr [])
           | Some raw \<Rightarrow>
               (case ow_parse io raw of
                  Inl e \<Rightarrow> (w, Inl (unreadable_store root e))
                | Inr v \<Rightarrow>
                    (case store_from_value v of
                       None \<Rightarrow> (w, Inl (unreadable_store root (ow_type_error io v)))
                     | Some s \<Rightarrow>
                         (case evict_stale_records io s of (s', events) \<Rightarrow> (emit events w, Inr s'))))))"

definition save_store :: "own_io \<Rightarrow> string \<Rightarrow> ownership_store \<Rightarrow> own_world \<Rightarrow> own_world \<times> unit res" where
  "save_store io root s w =
     (case (ow_mkdir io, ow_write io, ow_rename io) of
        (Some e, _, _) \<Rightarrow>
          (w, Inl (Io_Err (path_join root ''.macc/state'') ''create process ownership store parent directory'' e))
      | (None, Some e, _) \<Rightarrow>
          (w, Inl (Io_Err (store_path root @ ''.tmp'') ''write process ownership store temp file'' e))
      | (None, None, Some e) \<Rightarrow>
          (w, Inl (Io_Err (store_path root)
                 (''replace process ownership store from '' @ store_path root @ ''.tmp'') e))
      | (None, None, None) \<Rightarrow>
          (w\<lparr>wo_file := Some (ow_pretty io (store_to_value s) @ [CHR 0x0A])\<rparr>, Inr ()))"

text \<open>
  A modification sees the loaded store and gives the new one, its result and the events it broadcasts;
  the events go out before the store is saved, and stay out when saving fails.
\<close>

type_synonym 'a modification = "ownership_store \<Rightarrow> ownership_event list \<times> (ownership_store \<times> 'a) res"

definition load_and_modify :: "own_io \<Rightarrow> string \<Rightarrow> 'a modification \<Rightarrow> own_world \<Rightarrow> own_world \<times> 'a res" where
  "load_and_modify io root modify w =
     (case ow_lock io of
        Some e \<Rightarrow> (w, Inl e)
      | None \<Rightarrow>
          (case load_store io root w of
             (w1, Inl e) \<Rightarrow> (w1, Inl e)
           | (w1, Inr s) \<Rightarrow>
               (case modify s of
                  (events, Inl e) \<Rightarrow> (emit events w1, Inl e)
                | (events, Inr (s', a)) \<Rightarrow>
                    (case save_store io root s' (emit events w1) of
                       (w2, Inl e) \<Rightarrow> (w2, Inl e)
                     | (w2, Inr _) \<Rightarrow> (w2, Inr a)))))"

definition get_record :: "process_handle \<Rightarrow> ownership_store \<Rightarrow> ownership_record option" where
  "get_record h s = List.find (\<lambda>r. or_process r = h) s"

fun update_record ::
  "process_handle \<Rightarrow> (ownership_record \<Rightarrow> ownership_record) \<Rightarrow> ownership_store \<Rightarrow> ownership_store" where
  "update_record h f [] = []"
| "update_record h f (r # s) = (if or_process r = h then f r # s else r # update_record h f s)"

definition upsert_record :: "ownership_record \<Rightarrow> ownership_store \<Rightarrow> ownership_store" where
  "upsert_record r s =
     (if get_record (or_process r) s \<noteq> None then update_record (or_process r) (\<lambda>_. r) s else s @ [r])"

fun remove_record :: "process_handle \<Rightarrow> ownership_store \<Rightarrow> ownership_store" where
  "remove_record h [] = []"
| "remove_record h (r # s) = (if or_process r = h then s else r # remove_record h s)"

section \<open>The operations of clients\<close>

definition project_lease_handle :: "string \<Rightarrow> process_handle" where
  "project_lease_handle root = \<lparr>ph_kind = Pk_Project, ph_project_root = root, ph_pid = None\<rparr>"

definition empty_record :: "process_handle \<Rightarrow> string \<Rightarrow> ownership_record" where
  "empty_record h stamp =
     \<lparr>or_process = h, or_owner = None, or_viewers = [], or_takeover_request = None, or_started_at = stamp\<rparr>"

definition ensure_project_lease_record :: "string \<Rightarrow> string \<Rightarrow> ownership_store \<Rightarrow> ownership_store" where
  "ensure_project_lease_record root stamp s =
     (if get_record (project_lease_handle root) s = None
      then upsert_record (empty_record (project_lease_handle root) stamp) s else s)"

definition refreshed_identity :: "string \<Rightarrow> client_identity \<Rightarrow> client_identity" where
  "refreshed_identity stamp c =
     (if ci_connected_at c = [] then c\<lparr>ci_connected_at := stamp, ci_last_heartbeat := stamp\<rparr>
      else c\<lparr>ci_last_heartbeat := stamp\<rparr>)"

definition has_viewer :: "string \<Rightarrow> ownership_record \<Rightarrow> bool" where
  "has_viewer cid r = list_ex (\<lambda>v. ci_client_id v = cid) (or_viewers r)"

definition add_viewer_if_missing ::
  "string \<Rightarrow> process_handle \<Rightarrow> client_identity \<Rightarrow> ownership_record \<Rightarrow> ownership_record \<times> ownership_event list" where
  "add_viewer_if_missing stamp h c r =
     (if has_viewer (ci_client_id c) r then (r, [])
      else (r\<lparr>or_viewers := or_viewers r @ [refreshed_identity stamp c]\<rparr>,
            [Oe_Viewer_Joined h (refreshed_identity stamp c)]))"

definition owner_is :: "string \<Rightarrow> ownership_record \<Rightarrow> bool" where
  "owner_is cid r = (case or_owner r of None \<Rightarrow> False | Some ow \<Rightarrow> ci_client_id ow = cid)"

text \<open>
  A change of the lease record: of the record the store has, or nothing where it has none.
\<close>

definition on_lease ::
  "string \<Rightarrow> (ownership_record \<Rightarrow> ownership_event list \<times> (ownership_record \<times> 'a) res) \<Rightarrow>
   (ownership_store \<Rightarrow> ownership_event list \<times> (ownership_store \<times> 'a) res) \<Rightarrow> 'a modification" where
  "on_lease root f absent s =
     (case get_record (project_lease_handle root) s of
        None \<Rightarrow> absent s
      | Some r \<Rightarrow>
          (case f r of
             (events, Inl e) \<Rightarrow> (events, Inl e)
           | (events, Inr (r', a)) \<Rightarrow>
               (events, Inr (update_record (project_lease_handle root) (\<lambda>_. r') s, a))))"

definition unchanged :: "'a \<Rightarrow> 'a modification" where
  "unchanged a s = ([], Inr (s, a))"

definition register_mod :: "own_io \<Rightarrow> string \<Rightarrow> process_handle \<Rightarrow> unit modification" where
  "register_mod io root h s =
     ([], Inr (upsert_record (empty_record h (ow_stamp io)) (ensure_project_lease_record root (ow_stamp io) s), ()))"

definition register_process ::
  "own_io \<Rightarrow> string \<Rightarrow> process_handle \<Rightarrow> own_world \<Rightarrow> own_world \<times> unit res" where
  "register_process io root h w =
     (case load_and_modify io root (register_mod io root h) w of
        (w', Inl e) \<Rightarrow> (w', Inl e)
      | (w', Inr _) \<Rightarrow> (emit [Oe_Registered h] w', Inr ()))"

definition unregister_mod :: "process_handle \<Rightarrow> unit modification" where
  "unregister_mod h s = ([], Inr (remove_record h s, ()))"

definition unregister_process ::
  "own_io \<Rightarrow> string \<Rightarrow> process_handle \<Rightarrow> own_world \<Rightarrow> own_world \<times> unit res" where
  "unregister_process io root h = load_and_modify io root (unregister_mod h)"

definition claim_on ::
  "string \<Rightarrow> process_handle \<Rightarrow> client_identity \<Rightarrow> ownership_record \<Rightarrow>
   ownership_event list \<times> (ownership_record \<times> ownership_status) res" where
  "claim_on stamp h c r =
     (if or_owner r = None
      then (let ow = refreshed_identity stamp c
            in ([Oe_Claimed h ow],
                Inr (r\<lparr>or_owner := Some ow, or_viewers := filter (other_client (ci_client_id ow)) (or_viewers r),
                       or_takeover_request := None\<rparr>, Os_Owner)))
      else if owner_is (ci_client_id c) r then ([], Inr (r, Os_Owner))
      else (case add_viewer_if_missing stamp h c r of (r', events) \<Rightarrow> (events, Inr (r', Os_Viewer))))"

text \<open>The lease record exists once it has been ensured, so the \<open>expect\<close> that follows never panics.\<close>

definition with_lease ::
  "own_io \<Rightarrow> string \<Rightarrow> (ownership_record \<Rightarrow> ownership_event list \<times> (ownership_record \<times> 'a) res) \<Rightarrow>
   'a modification" where
  "with_lease io root f s =
     on_lease root f (\<lambda>s. ([], Inl (Validation_Err ''project lease record ensured'')))
       (ensure_project_lease_record root (ow_stamp io) s)"

definition claim_owner ::
  "own_io \<Rightarrow> string \<Rightarrow> process_handle \<Rightarrow> client_identity \<Rightarrow> own_world \<Rightarrow> own_world \<times> ownership_status res" where
  "claim_owner io root h c = load_and_modify io root (with_lease io root (claim_on (ow_stamp io) h c))"

definition release_on ::
  "process_handle \<Rightarrow> string \<Rightarrow> ownership_record \<Rightarrow> ownership_event list \<times> (ownership_record \<times> unit) res" where
  "release_on h cid r =
     (case or_owner r of
        None \<Rightarrow> ([], Inr (r, ()))
      | Some ow \<Rightarrow>
          if ci_client_id ow \<noteq> cid then ([], Inr (r, ()))
          else ([Oe_Released h ow], Inr (r\<lparr>or_owner := None, or_takeover_request := None\<rparr>, ())))"

definition release_owner ::
  "own_io \<Rightarrow> string \<Rightarrow> process_handle \<Rightarrow> string \<Rightarrow> own_world \<Rightarrow> own_world \<times> unit res" where
  "release_owner io root h cid = load_and_modify io root (on_lease root (release_on h cid) (unchanged ()))"

definition viewer_on ::
  "string \<Rightarrow> process_handle \<Rightarrow> client_identity \<Rightarrow> ownership_record \<Rightarrow>
   ownership_event list \<times> (ownership_record \<times> unit) res" where
  "viewer_on stamp h c r = (case add_viewer_if_missing stamp h c r of (r', events) \<Rightarrow> (events, Inr (r', ())))"

definition register_viewer ::
  "own_io \<Rightarrow> string \<Rightarrow> process_handle \<Rightarrow> client_identity \<Rightarrow> own_world \<Rightarrow> own_world \<times> unit res" where
  "register_viewer io root h c = load_and_modify io root (with_lease io root (viewer_on (ow_stamp io) h c))"

fun position :: "('a \<Rightarrow> bool) \<Rightarrow> 'a list \<Rightarrow> nat option" where
  "position P [] = None"
| "position P (x # xs) = (if P x then Some 0 else map_option Suc (position P xs))"

definition leave_on ::
  "process_handle \<Rightarrow> string \<Rightarrow> ownership_record \<Rightarrow> ownership_event list \<times> (ownership_record \<times> unit) res" where
  "leave_on h cid r =
     (case position (\<lambda>v. ci_client_id v = cid) (or_viewers r) of
        None \<Rightarrow> ([], Inr (r, ()))
      | Some i \<Rightarrow> ([Oe_Viewer_Left h (or_viewers r ! i)], Inr (r\<lparr>or_viewers := remove_at i (or_viewers r)\<rparr>, ())))"

definition unregister_viewer ::
  "own_io \<Rightarrow> string \<Rightarrow> process_handle \<Rightarrow> string \<Rightarrow> own_world \<Rightarrow> own_world \<times> unit res" where
  "unregister_viewer io root h cid = load_and_modify io root (on_lease root (leave_on h cid) (unchanged ()))"

definition request_on ::
  "process_handle \<Rightarrow> takeover_request \<Rightarrow> ownership_record \<Rightarrow> ownership_event list \<times> (ownership_record \<times> unit) res" where
  "request_on h req r =
     ([Oe_Takeover_Requested h (tr_requester req) (tr_request_id req)],
      Inr (r\<lparr>or_takeover_request := Some req\<rparr>, ()))"

definition new_request :: "own_io \<Rightarrow> string \<Rightarrow> client_identity \<Rightarrow> takeover_request" where
  "new_request io uuid c =
     \<lparr>tr_request_id = uuid, tr_requester = refreshed_identity (ow_stamp io) c, tr_requested_at = ow_stamp io\<rparr>"

definition request_takeover ::
  "own_io \<Rightarrow> string \<Rightarrow> string \<Rightarrow> process_handle \<Rightarrow> client_identity \<Rightarrow> own_world \<Rightarrow> own_world \<times> string res" where
  "request_takeover io root uuid h c w =
     (case load_and_modify io root (with_lease io root (request_on h (new_request io uuid c))) w of
        (w', Inl e) \<Rightarrow> (w', Inl e)
      | (w', Inr _) \<Rightarrow> (w', Inr uuid))"

definition respond_on ::
  "process_handle \<Rightarrow> string \<Rightarrow> string \<Rightarrow> bool \<Rightarrow> ownership_record \<Rightarrow>
   ownership_event list \<times> (ownership_record \<times> unit) res" where
  "respond_on h cid request_id accept r =
     (case or_owner r of
        None \<Rightarrow> ([], Inl (Validation_Err ''Cannot respond to takeover without an owner''))
      | Some ow \<Rightarrow>
          if ci_client_id ow \<noteq> cid
          then ([], Inl (Validation_Err (''Client '' @ quoted cid @ '' is not the current owner'')))
          else
            (case or_takeover_request r of
               None \<Rightarrow> ([], Inl (Validation_Err ''No pending takeover request''))
             | Some req \<Rightarrow>
                 if tr_request_id req \<noteq> request_id
                 then ([], Inl (Validation_Err (''Takeover request '' @ quoted request_id
                              @ '' does not match pending request '' @ quoted (tr_request_id req))))
                 else if accept
                 then ([Oe_Takeover_Accepted h (tr_requester req) (tr_request_id req)],
                       Inr (grant_takeover req r, ()))
                 else ([Oe_Takeover_Rejected h (tr_requester req) (tr_request_id req)],
                       Inr (r\<lparr>or_takeover_request := None\<rparr>, ()))))"

definition respond_takeover ::
  "own_io \<Rightarrow> string \<Rightarrow> process_handle \<Rightarrow> string \<Rightarrow> string \<Rightarrow> bool \<Rightarrow> own_world \<Rightarrow> own_world \<times> unit res" where
  "respond_takeover io root h cid request_id accept =
     load_and_modify io root
       (on_lease root (respond_on h cid request_id accept)
          (\<lambda>_. ([], Inl (Validation_Err ''Project control lease is not registered''))))"

fun beat_viewer :: "string \<Rightarrow> string \<Rightarrow> client_identity list \<Rightarrow> client_identity list" where
  "beat_viewer stamp cid [] = []"
| "beat_viewer stamp cid (v # vs) =
     (if ci_client_id v = cid then v\<lparr>ci_last_heartbeat := stamp\<rparr> # vs else v # beat_viewer stamp cid vs)"

definition beat_on ::
  "string \<Rightarrow> string \<Rightarrow> ownership_record \<Rightarrow> ownership_event list \<times> (ownership_record \<times> unit) res" where
  "beat_on stamp cid r =
     (if owner_is cid r
      then ([], Inr (r\<lparr>or_owner := map_option (\<lambda>ow. ow\<lparr>ci_last_heartbeat := stamp\<rparr>) (or_owner r)\<rparr>, ()))
      else ([], Inr (r\<lparr>or_viewers := beat_viewer stamp cid (or_viewers r)\<rparr>, ())))"

definition heartbeat ::
  "own_io \<Rightarrow> string \<Rightarrow> string \<Rightarrow> own_world \<Rightarrow> own_world \<times> unit res" where
  "heartbeat io root cid = load_and_modify io root (on_lease root (beat_on (ow_stamp io) cid) (unchanged ()))"

definition force_on :: "ownership_record \<Rightarrow> ownership_event list \<times> (ownership_record \<times> string option) res" where
  "force_on r =
     (case or_owner r of
        None \<Rightarrow> ([], Inr (r, None))
      | Some ow \<Rightarrow> ([], Inr (r\<lparr>or_owner := None, or_takeover_request := None\<rparr>, Some (ci_client_id ow))))"

definition force_release_project_owner :: "own_io \<Rightarrow> string \<Rightarrow> own_world \<Rightarrow> own_world \<times> string option res" where
  "force_release_project_owner io root =
     load_and_modify io root (on_lease root force_on (unchanged None))"

section \<open>Reading the store\<close>

text \<open>Reads load the store, and so evict and broadcast, but do not save what they evict.\<close>

definition service_record ::
  "own_io \<Rightarrow> string \<Rightarrow> process_handle \<Rightarrow> own_world \<Rightarrow> own_world \<times> ownership_record option res" where
  "service_record io root h w =
     (case load_store io root w of
        (w', Inl e) \<Rightarrow> (w', Inl e)
      | (w', Inr s) \<Rightarrow> (w', Inr (get_record h s)))"

definition list_records :: "own_io \<Rightarrow> string \<Rightarrow> own_world \<Rightarrow> own_world \<times> ownership_record list res" where
  "list_records = load_store"

definition project_lease :: "own_io \<Rightarrow> string \<Rightarrow> own_world \<Rightarrow> own_world \<times> ownership_record option res" where
  "project_lease io root = service_record io root (project_lease_handle root)"

definition is_current_owner :: "own_io \<Rightarrow> string \<Rightarrow> string \<Rightarrow> own_world \<Rightarrow> own_world \<times> bool res" where
  "is_current_owner io root cid w =
     (case project_lease io root w of
        (w', Inl e) \<Rightarrow> (w', Inl e)
      | (w', Inr r) \<Rightarrow> (w', Inr (case r of None \<Rightarrow> False | Some r \<Rightarrow> owner_is cid r)))"

section \<open>The gate in front of mutating actions\<close>

definition judge_owner :: "(process_handle \<Rightarrow> string) \<Rightarrow> string \<Rightarrow> process_handle \<Rightarrow> ownership_record \<Rightarrow> unit res" where
  "judge_owner handle_text cid h r =
     (case or_owner r of
        None \<Rightarrow> Inr ()
      | Some ow \<Rightarrow> if ci_client_id ow = cid then Inr () else Inl (Not_Process_Owner (handle_text h) (Some (ci_client_id ow))))"

definition gate_owner_action ::
  "(process_handle \<Rightarrow> string) \<Rightarrow> own_io \<Rightarrow> string \<Rightarrow> string \<Rightarrow> process_handle \<Rightarrow> own_world \<Rightarrow> own_world \<times> unit res" where
  "gate_owner_action handle_text io root cid h w =
     (case service_record io root (project_lease_handle root) w of
        (w1, Inl e) \<Rightarrow> (w1, Inl e)
      | (w1, Inr (Some r)) \<Rightarrow> (w1, judge_owner handle_text cid h r)
      | (w1, Inr None) \<Rightarrow>
          (case service_record io root h w1 of
             (w2, Inl e) \<Rightarrow> (w2, Inl e)
           | (w2, Inr (Some r)) \<Rightarrow> (w2, judge_owner handle_text cid h r)
           | (w2, Inr None) \<Rightarrow> (w2, Inr ())))"

text \<open>
  The web server's gate: a request without a client header passes only where no lease is registered.
  \<open>header\<close> is the value of \<open>X-Macc-Client-Id\<close> where it is a text.
\<close>

definition client_id_from_headers :: "string option \<Rightarrow> string option" where
  "client_id_from_headers header = trimmed_nonempty header"

definition require_project_owner ::
  "(process_handle \<Rightarrow> string) \<Rightarrow> own_io \<Rightarrow> string \<Rightarrow> string option \<Rightarrow> own_world \<Rightarrow> own_world \<times> unit res" where
  "require_project_owner handle_text io root header w =
     (case service_record io root (project_lease_handle root) w of
        (w1, Inl e) \<Rightarrow> (w1, Inl e)
      | (w1, Inr None) \<Rightarrow> (w1, Inr ())
      | (w1, Inr (Some _)) \<Rightarrow>
          (case client_id_from_headers header of
             None \<Rightarrow> (w1, Inl (Validation_Err
                 (''Missing required header '' @ quoted ''X-Macc-Client-Id''
                  @ '' (web client identity) for mutating action.'')))
           | Some cid \<Rightarrow> gate_owner_action handle_text io root cid (project_lease_handle root) w1))"

section \<open>The events as the coordinator's log has them\<close>

definition own_event_type :: "ownership_event \<Rightarrow> string" where
  "own_event_type e =
     (case e of
        Oe_Registered _ \<Rightarrow> ''process_registered''
      | Oe_Claimed _ _ \<Rightarrow> ''ownership_claimed''
      | Oe_Released _ _ \<Rightarrow> ''ownership_released''
      | Oe_Viewer_Joined _ _ \<Rightarrow> ''viewer_joined''
      | Oe_Viewer_Left _ _ \<Rightarrow> ''viewer_left''
      | Oe_Takeover_Requested _ _ _ \<Rightarrow> ''takeover_requested''
      | Oe_Takeover_Accepted _ _ _ \<Rightarrow> ''takeover_accepted''
      | Oe_Takeover_Rejected _ _ _ \<Rightarrow> ''takeover_rejected''
      | Oe_Takeover_Timeout _ _ _ _ \<Rightarrow> ''takeover_timeout'')"

definition client_payload :: "client_identity \<Rightarrow> (string \<times> json) list" where
  "client_payload c = [(''client'', client_to_value c)]"

definition request_payload :: "client_identity \<Rightarrow> string \<Rightarrow> (string \<times> json) list" where
  "request_payload c rid = client_payload c @ [(''request_id'', JStr rid)]"

definition own_event_payload :: "ownership_event \<Rightarrow> process_handle \<times> (string \<times> json) list" where
  "own_event_payload e =
     (case e of
        Oe_Registered h \<Rightarrow> (h, [])
      | Oe_Claimed h c \<Rightarrow> (h, client_payload c)
      | Oe_Released h c \<Rightarrow> (h, client_payload c)
      | Oe_Viewer_Joined h c \<Rightarrow> (h, client_payload c)
      | Oe_Viewer_Left h c \<Rightarrow> (h, client_payload c)
      | Oe_Takeover_Requested h c rid \<Rightarrow> (h, request_payload c rid)
      | Oe_Takeover_Accepted h c rid \<Rightarrow> (h, request_payload c rid)
      | Oe_Takeover_Rejected h c rid \<Rightarrow> (h, request_payload c rid)
      | Oe_Takeover_Timeout h c rid policy \<Rightarrow> (h, request_payload c rid @ [(''policy'', JStr policy)]))"

definition own_event_message :: "ownership_event \<Rightarrow> json" where
  "own_event_message e =
     (case own_event_payload e of (h, entries) \<Rightarrow>
        object_of ((''process'', Some (handle_to_value h)) # map (\<lambda>(k, v). (k, Some v)) entries) [])"

text \<open>The line of \<open>events.jsonl\<close>; \<open>print\<close> is \<open>Value::to_string\<close>, \<open>seq\<close> the clock in nanoseconds.\<close>

definition build_raw_event :: "(json \<Rightarrow> string) \<Rightarrow> string \<Rightarrow> int \<Rightarrow> string \<Rightarrow> ownership_event \<Rightarrow> json" where
  "build_raw_event print run_id seq ts e =
     object_of
       [(''schema_version'', Some (JStr ''1'')),
        (''event_id'', Some (JStr (''evt-'' @ own_event_type e @ ''---'' @ show_int seq))),
        (''run_id'', Some (JStr run_id)),
        (''seq'', Some (JInt seq)),
        (''ts'', Some (JStr ts)),
        (''source'', Some (JStr ''coordinator:native'')),
        (''task_id'', Some (JStr ''-'')),
        (''type'', Some (JStr (own_event_type e))),
        (''phase'', Some (JStr ''ownership'')),
        (''status'', Some (JStr ''info'')),
        (''severity'', Some (JStr ''info'')),
        (''payload'', Some (object_of [(''message'', Some (JStr (print (own_event_message e))))] []))]
       []"

text \<open>The readers of the log accept the line: it is an event of its type about no task.\<close>

lemma raw_event_reads:
  assumes "- (2 ^ 63) \<le> seq" "seq < 2 ^ 63"
  shows "\<exists>r. event_from_value (build_raw_event print run_id seq ts e) = Some r
    \<and> ev_event_type r = own_event_type e \<and> ev_task_id r = Some ''-'' \<and> event_severity r = Some ''info''
    \<and> is_object (ev_payload r)"
proof -
  obtain m where m: "build_raw_event print run_id seq ts e = JObj m"
    by (simp add: build_raw_event_def object_of_def)
  have get: "bt_get m k = json_get (build_raw_event print run_id seq ts e) k" for k by (simp add: m)
  note get' = get [unfolded build_raw_event_def, simplified json_get_object]
  show ?thesis
    using assms
    by (simp add: m get' json_get_object d_option_def d_default_def d_str_def event_severity_def
        bt_get_unknown event_keys_def)
qed

section \<open>The records of a store\<close>

text \<open>
  A store has one record per handle; only the lease of the project carries clients, the other records
  are an inventory of processes; a client views a record once; process ids fit an \<open>i32\<close>.
\<close>

definition record_ok :: "string \<Rightarrow> ownership_record \<Rightarrow> bool" where
  "record_ok root r =
     (distinct (map ci_client_id (or_viewers r)) \<and> handle_ok (or_process r)
      \<and> (or_process r \<noteq> project_lease_handle root \<longrightarrow>
           or_owner r = None \<and> or_viewers r = [] \<and> or_takeover_request r = None))"

definition store_ok :: "string \<Rightarrow> ownership_store \<Rightarrow> bool" where
  "store_ok root s = (distinct (map or_process s) \<and> (\<forall>r \<in> set s. record_ok root r))"

lemma lease_handle_ok [simp]: "handle_ok (project_lease_handle root)"
  by (simp add: handle_ok_def project_lease_handle_def)

lemma empty_record_ok: "handle_ok h \<Longrightarrow> record_ok root (empty_record h stamp)"
  by (simp add: record_ok_def empty_record_def)

lemma get_record_Some: "get_record h s = Some r \<Longrightarrow> r \<in> set s \<and> or_process r = h"
  by (auto simp: get_record_def find_Some_iff)

lemma get_record_None: "get_record h s = None \<longleftrightarrow> h \<notin> or_process ` set s"
  by (auto simp: get_record_def find_None_iff)

lemma update_record_handles:
  "(\<And>r. or_process r = h \<Longrightarrow> or_process (f r) = h) \<Longrightarrow> map or_process (update_record h f s) = map or_process s"
  by (induction s) auto

lemma update_record_members: "r \<in> set (update_record h f s) \<Longrightarrow> r \<in> set s \<or> (\<exists>q \<in> set s. or_process q = h \<and> r = f q)"
  by (induction s) (auto split: if_splits)

lemma get_update_record:
  "(\<And>r. or_process r = h \<Longrightarrow> or_process (f r) = h) \<Longrightarrow>
   get_record k (update_record h f s) = (if k = h then map_option f (get_record h s) else get_record k s)"
  by (induction s) (auto simp: get_record_def)

lemma update_record_ok:
  assumes "store_ok root s" "or_process r' = h" "record_ok root r'"
  shows "store_ok root (update_record h (\<lambda>_. r') s)"
proof -
  have "map or_process (update_record h (\<lambda>_. r') s) = map or_process s"
    by (rule update_record_handles) (simp add: assms(2))
  then show ?thesis using assms update_record_members [of _ h "\<lambda>_. r'" s] by (auto simp: store_ok_def)
qed

lemma upsert_record_ok: "store_ok root s \<Longrightarrow> record_ok root r \<Longrightarrow> store_ok root (upsert_record r s)"
  by (auto simp: upsert_record_def update_record_ok) (auto simp: store_ok_def get_record_None)

lemma get_upsert_record:
  "get_record k (upsert_record r s) = (if k = or_process r then Some r else get_record k s)"
proof (cases "get_record (or_process r) s")
  case None
  have snoc: "get_record k (s @ [r]) = (case get_record k s of None \<Rightarrow> get_record k [r] | Some q \<Rightarrow> Some q)"
    by (induction s) (simp_all add: get_record_def)
  show ?thesis using None snoc
    by (auto simp: upsert_record_def get_record_def split: option.splits)
next
  case (Some q)
  then show ?thesis
    using get_update_record [of "or_process r" "\<lambda>_. r" k s] by (simp add: upsert_record_def)
qed

lemma remove_record_subset: "set (remove_record h s) \<subseteq> set s"
  by (induction s) auto

lemma remove_record_ok: "store_ok root s \<Longrightarrow> store_ok root (remove_record h s)"
proof (induction s)
  case (Cons r s)
  then have "store_ok root s" by (simp add: store_ok_def)
  with Cons remove_record_subset [of h s] show ?case
    by (auto simp: store_ok_def)
qed simp

lemma get_remove_record:
  "distinct (map or_process s) \<Longrightarrow> get_record k (remove_record h s) = (if k = h then None else get_record k s)"
proof (induction s)
  case (Cons r s)
  show ?case
  proof (cases "or_process r = h")
    case True
    with Cons.prems have "get_record h s = None" by (simp add: get_record_None)
    with True show ?thesis by (simp add: get_record_def)
  next
    case False
    with Cons show ?thesis by (auto simp: get_record_def)
  qed
qed (simp add: get_record_def)

lemma ensured_lease:
  "get_record (project_lease_handle root) (ensure_project_lease_record root stamp s) \<noteq> None"
  by (simp add: ensure_project_lease_record_def get_upsert_record empty_record_def)

lemma ensure_ok: "store_ok root s \<Longrightarrow> store_ok root (ensure_project_lease_record root stamp s)"
  by (simp add: ensure_project_lease_record_def upsert_record_ok empty_record_ok)

lemma get_ensured:
  "get_record h (ensure_project_lease_record root stamp s) =
     (if h = project_lease_handle root \<and> get_record h s = None
      then Some (empty_record h stamp) else get_record h s)"
  by (auto simp: ensure_project_lease_record_def get_upsert_record empty_record_def)

section \<open>What a change of the lease keeps\<close>

text \<open>
  An operation on the lease keeps the record's handle and lists no viewer twice.  Every operation of
  the service is such a change, so the store laws are proved once for all of them.
\<close>

locale lease_operation =
  fixes act :: "ownership_record \<Rightarrow> ownership_event list \<times> (ownership_record \<times> 'a) res"
  assumes keeps_process: "act r = (es, Inr (r', a)) \<Longrightarrow> or_process r' = or_process r"
    and keeps_viewers:
      "act r = (es, Inr (r', a)) \<Longrightarrow> distinct (map ci_client_id (or_viewers r)) \<Longrightarrow>
       distinct (map ci_client_id (or_viewers r'))"
begin

lemma on_lease_ok:
  assumes "on_lease root act absent s = (es, Inr (s', a))" "store_ok root s"
    and "\<And>s es s' a. absent s = (es, Inr (s', a)) \<Longrightarrow> store_ok root s \<Longrightarrow> store_ok root s'"
  shows "store_ok root s'"
proof (cases "get_record (project_lease_handle root) s")
  case None
  with assms show ?thesis by (simp add: on_lease_def)
next
  case (Some r)
  then have r: "r \<in> set s" "or_process r = project_lease_handle root" by (auto dest: get_record_Some)
  obtain r' where r': "act r = (es, Inr (r', a))"
      and s': "s' = update_record (project_lease_handle root) (\<lambda>_. r') s"
    using assms(1) Some by (auto simp: on_lease_def split: prod.splits sum.splits)
  have "record_ok root r'"
    using r r' assms(2) keeps_process [OF r'] keeps_viewers [OF r'] by (auto simp: store_ok_def record_ok_def)
  then show ?thesis
    using assms(2) keeps_process [OF r'] r s' by (simp add: update_record_ok)
qed

lemma with_lease_ok:
  "with_lease io root act s = (es, Inr (s', a)) \<Longrightarrow> store_ok root s \<Longrightarrow> store_ok root s'"
  unfolding with_lease_def by (erule on_lease_ok) (simp_all add: ensure_ok)

lemma on_lease_get:
  assumes "on_lease root act absent s = (es, Inr (s', a))" "get_record (project_lease_handle root) s = Some r"
  obtains r' where "act r = (es, Inr (r', a))" "get_record (project_lease_handle root) s' = Some r'"
proof -
  have p: "or_process r = project_lease_handle root" using assms(2) by (auto dest: get_record_Some)
  obtain r' where r': "act r = (es, Inr (r', a))"
      and s': "s' = update_record (project_lease_handle root) (\<lambda>_. r') s"
    using assms by (auto simp: on_lease_def split: prod.splits sum.splits)
  have "get_record (project_lease_handle root) s' = Some r'"
    using s' assms(2) keeps_process [OF r'] p by (simp add: get_update_record)
  with r' that show thesis by blast
qed

end

lemma set_remove_at: "set (remove_at i xs) \<subseteq> set xs"
  by (auto simp: remove_at_def dest: in_set_takeD in_set_dropD)

lemma distinct_remove_at: "distinct (map f xs) \<Longrightarrow> distinct (map f (remove_at i xs))"
proof (induction xs arbitrary: i)
  case (Cons x xs)
  then show ?case
    using set_remove_at [of "i - 1" xs] by (cases i) (auto simp: remove_at_def)
qed (simp add: remove_at_def)

lemma refreshed_id [simp]: "ci_client_id (refreshed_identity stamp c) = ci_client_id c"
  by (simp add: refreshed_identity_def)

lemma beat_viewer_ids [simp]: "map ci_client_id (beat_viewer stamp cid vs) = map ci_client_id vs"
  by (induction vs) auto

lemma distinct_filter_ids: "distinct (map f xs) \<Longrightarrow> distinct (map f (filter P xs))"
  by (simp add: distinct_map_filter)

lemma add_viewer_keeps:
  "add_viewer_if_missing stamp h c r = (r', es) \<Longrightarrow>
   or_process r' = or_process r
   \<and> (distinct (map ci_client_id (or_viewers r)) \<longrightarrow> distinct (map ci_client_id (or_viewers r')))"
  by (auto simp: add_viewer_if_missing_def has_viewer_def list_ex_iff image_iff split: if_splits; metis)

interpretation claim_op: lease_operation "claim_on stamp h c" for stamp h c
  by unfold_locales
    (auto simp: claim_on_def Let_def distinct_filter_ids split: if_splits prod.splits dest: add_viewer_keeps)

interpretation release_op: lease_operation "release_on h cid" for h cid
  by unfold_locales (auto simp: release_on_def split: if_splits option.splits)

interpretation viewer_op: lease_operation "viewer_on stamp h c" for stamp h c
  by unfold_locales (auto simp: viewer_on_def split: prod.splits dest: add_viewer_keeps)

interpretation leave_op: lease_operation "leave_on h cid" for h cid
  by unfold_locales (auto simp: leave_on_def distinct_remove_at split: option.splits)

interpretation request_op: lease_operation "request_on h req" for h req
  by unfold_locales (auto simp: request_on_def)

interpretation respond_op: lease_operation "respond_on h cid rid accept" for h cid rid accept
  by unfold_locales
    (auto simp: respond_on_def grant_takeover_def distinct_filter_ids split: if_splits option.splits)

interpretation beat_op: lease_operation "beat_on stamp cid" for stamp cid
  by unfold_locales (auto simp: beat_on_def split: if_splits)

interpretation force_op: lease_operation force_on
  by unfold_locales (auto simp: force_on_def split: option.splits)

section \<open>Eviction keeps the store's shape\<close>

lemma min_index_bound: "min_index key xs = Some i \<Longrightarrow> i < length xs"
  by (induction xs arbitrary: i) (auto split: option.splits if_splits)

lemma min_index_None [simp]: "min_index key xs = None \<longleftrightarrow> xs = []"
  by (cases xs) (auto split: option.splits)

lemma resolve_takeover_ok: "record_ok root r \<Longrightarrow> record_ok root (fst (resolve_takeover env cfg now r))"
  by (auto simp: resolve_takeover_def record_ok_def grant_takeover_def distinct_filter_ids split: option.splits)

lemma promote_ok: "record_ok root r \<Longrightarrow> record_ok root (promote_oldest_viewer env r)"
proof -
  assume r: "record_ok root r"
  have "min_index (connected_key env) (or_viewers r) = Some i \<Longrightarrow> or_viewers r \<noteq> []" for i
    by (auto dest: min_index_bound)
  with r show ?thesis
    by (auto simp: promote_oldest_viewer_def record_ok_def distinct_remove_at split: option.splits)
qed

lemma drop_stale_ok: "record_ok root r \<Longrightarrow> record_ok root (r\<lparr>or_viewers := filter P (or_viewers r)\<rparr>)"
  by (auto simp: record_ok_def distinct_filter_ids)

lemma evict_record_ok: "record_ok root r \<Longrightarrow> record_ok root (fst (evict_record env cfg now r))"
proof -
  assume "record_ok root r"
  then have "record_ok root (fst (resolve_takeover env cfg now r))" by (rule resolve_takeover_ok)
  then show ?thesis
    by (cases "resolve_takeover env cfg now r") (simp add: evict_record_def Let_def promote_ok drop_stale_ok)
qed

lemma resolve_takeover_process [simp]: "or_process (fst (resolve_takeover env cfg now r)) = or_process r"
  by (simp add: resolve_takeover_def grant_takeover_def split: option.splits)

lemma evict_record_process [simp]: "or_process (fst (evict_record env cfg now r)) = or_process r"
  using resolve_takeover_process [of env cfg now r]
  by (cases "resolve_takeover env cfg now r")
    (simp add: evict_record_def Let_def promote_oldest_viewer_def split: option.splits)

lemma evict_stale_ok: "store_ok root s \<Longrightarrow> store_ok root (fst (evict_stale_records io s))"
  by (auto simp: store_ok_def evict_stale_records_def evict_stale_clients_def evict_record_ok comp_def)

section \<open>The operations as steps on the file\<close>

text \<open>
  The processes of a project share its store; the lock makes each operation one step.  \<open>stored\<close> is the
  store the file holds.
\<close>

definition stored :: "(string \<Rightarrow> string + json) \<Rightarrow> own_world \<Rightarrow> ownership_store option" where
  "stored parse w =
     (case wo_file w of
        None \<Rightarrow> Some []
      | Some raw \<Rightarrow> (case parse raw of Inl _ \<Rightarrow> None | Inr v \<Rightarrow> store_from_value v))"

definition json_law :: "(string \<Rightarrow> string + json) \<Rightarrow> (json \<Rightarrow> string) \<Rightarrow> bool" where
  "json_law parse pretty = (\<forall>v. parse (pretty v @ [CHR 0x0A]) = Inr v)"

datatype own_op =
    Op_Register process_handle
  | Op_Unregister process_handle
  | Op_Claim process_handle client_identity
  | Op_Release process_handle string
  | Op_View process_handle client_identity
  | Op_Leave process_handle string
  | Op_Request string process_handle client_identity
  | Op_Respond process_handle string string bool
  | Op_Beat string
  | Op_Force
  | Op_Read

fun run_op :: "own_io \<Rightarrow> string \<Rightarrow> own_op \<Rightarrow> own_world \<Rightarrow> own_world" where
  "run_op io root (Op_Register h) w = fst (register_process io root h w)"
| "run_op io root (Op_Unregister h) w = fst (unregister_process io root h w)"
| "run_op io root (Op_Claim h c) w = fst (claim_owner io root h c w)"
| "run_op io root (Op_Release h cid) w = fst (release_owner io root h cid w)"
| "run_op io root (Op_View h c) w = fst (register_viewer io root h c w)"
| "run_op io root (Op_Leave h cid) w = fst (unregister_viewer io root h cid w)"
| "run_op io root (Op_Request uuid h c) w = fst (request_takeover io root uuid h c w)"
| "run_op io root (Op_Respond h cid rid accept) w = fst (respond_takeover io root h cid rid accept w)"
| "run_op io root (Op_Beat cid) w = fst (heartbeat io root cid w)"
| "run_op io root Op_Force w = fst (force_release_project_owner io root w)"
| "run_op io root Op_Read w = fst (project_lease io root w)"

fun op_ok :: "own_op \<Rightarrow> bool" where
  "op_ok (Op_Register h) = handle_ok h"
| "op_ok _ = True"

inductive own_reach :: "(string \<Rightarrow> string + json) \<Rightarrow> (json \<Rightarrow> string) \<Rightarrow> string \<Rightarrow> own_world \<Rightarrow> bool"
  for parse pretty root where
  reach_start: "wo_file w = None \<Longrightarrow> own_reach parse pretty root w"
| reach_op: "own_reach parse pretty root w \<Longrightarrow> ow_parse io = parse \<Longrightarrow> ow_pretty io = pretty \<Longrightarrow> op_ok op \<Longrightarrow>
    own_reach parse pretty root (run_op io root op w)"

text \<open>Broadcasting and loading leave the file alone; so does an operation that fails.\<close>

lemma emit_file [simp]: "wo_file (emit es w) = wo_file w"
  by (simp add: emit_def)

lemma load_file: "load_store io root w = (w', r) \<Longrightarrow> wo_file w' = wo_file w"
  by (auto simp: load_store_def split: option.splits sum.splits prod.splits)

lemma load_stored:
  "load_store io root w = (w', Inr s') \<Longrightarrow>
   \<exists>s. stored (ow_parse io) w = Some s \<and> s' = fst (evict_stale_records io s)"
  by (cases "wo_file w")
    (auto simp: load_store_def stored_def evict_stale_records_def evict_stale_clients_def
      split: option.splits sum.splits prod.splits)

lemma save_file: "save_store io root s w = (w', Inl e) \<Longrightarrow> wo_file w' = wo_file w"
  by (auto simp: save_store_def split: option.splits)

lemma save_stored:
  assumes "save_store io root s w = (w', Inr u)" "json_law (ow_parse io) (ow_pretty io)" "store_ok root s"
  shows "stored (ow_parse io) w' = Some s"
proof -
  have "wo_file w' = Some (ow_pretty io (store_to_value s) @ [CHR 0x0A])"
    using assms(1) by (auto simp: save_store_def split: option.splits)
  moreover have "store_from_value (store_to_value s) = Some s"
    by (rule store_reads_back) (use assms(3) in \<open>auto simp: store_ok_def record_ok_def\<close>)
  ultimately show ?thesis using assms(2) by (simp add: stored_def json_law_def)
qed

lemma load_and_modify_cases:
  assumes "load_and_modify io root m w = (w', r)"
  obtains (failed) e where "r = Inl e" "wo_file w' = wo_file w"
    | (saved) s es s' a w1 where "stored (ow_parse io) w = Some s"
        "m (fst (evict_stale_records io s)) = (es, Inr (s', a))" "save_store io root s' w1 = (w', Inr ())" "r = Inr a"
proof (cases "ow_lock io")
  case (Some e)
  then show thesis using assms failed [of e] by (simp add: load_and_modify_def)
next
  case None
  obtain w1 l where l: "load_store io root w = (w1, l)" by (cases "load_store io root w")
  note f1 = load_file [OF l]
  show thesis
  proof (cases l)
    case (Inl e)
    then show thesis using assms None l f1 failed [of e] by (simp add: load_and_modify_def)
  next
    case (Inr s1)
    then obtain s where s: "stored (ow_parse io) w = Some s" "s1 = fst (evict_stale_records io s)"
      using load_stored [of io root w w1 s1] l by auto
    obtain es x where m: "m s1 = (es, x)" by (cases "m s1")
    show thesis
    proof (cases x)
      case (Inl e)
      then show thesis using assms None l Inr m f1 failed [of e] by (auto simp: load_and_modify_def)
    next
      case (Inr sa)
      obtain s' a where sa: "sa = (s', a)" by (cases sa)
      obtain w2 u where u: "save_store io root s' (emit es w1) = (w2, u)"
        by (cases "save_store io root s' (emit es w1)")
      show thesis
      proof (cases u)
        case (Inl e)
        then show thesis
          using assms None l \<open>l = Inr s1\<close> m Inr sa u f1 save_file [of io root s' "emit es w1" w2 e] failed [of e]
          by (simp add: load_and_modify_def)
      next
        case (Inr v)
        then show thesis
          using assms None l \<open>l = Inr s1\<close> m \<open>x = Inr sa\<close> sa u s saved by (simp add: load_and_modify_def)
      qed
    qed
  qed
qed

text \<open>An operation that fails, at whichever of its steps, leaves the stored ownership as it was.\<close>

theorem failed_operation_keeps_store:
  assumes "load_and_modify io root m w = (w', Inl e)"
  shows "wo_file w' = wo_file w"
  using load_and_modify_cases [OF assms] by blast

text \<open>One step on the file, for a change that keeps the store's shape.\<close>

definition keeps_shape :: "string \<Rightarrow> 'a modification \<Rightarrow> bool" where
  "keeps_shape root m = (\<forall>s es s' a. m s = (es, Inr (s', a)) \<longrightarrow> store_ok root s \<longrightarrow> store_ok root s')"

lemma modify_step_ok:
  assumes "keeps_shape root m" "json_law (ow_parse io) (ow_pretty io)"
    and "stored (ow_parse io) w = Some s" "store_ok root s"
  shows "\<exists>s'. stored (ow_parse io) (fst (load_and_modify io root m w)) = Some s' \<and> store_ok root s'"
proof -
  obtain w' r where wr: "load_and_modify io root m w = (w', r)" by (cases "load_and_modify io root m w")
  then show ?thesis
  proof (cases rule: load_and_modify_cases)
    case (failed e)
    then show ?thesis using wr assms by (auto simp: stored_def)
  next
    case (saved s0 es s' a w1)
    then have "store_ok root (fst (evict_stale_records io s0))"
      using assms(3,4) evict_stale_ok by simp
    then have "store_ok root s'" using saved(2) assms(1) unfolding keeps_shape_def by blast
    then show ?thesis using save_stored [OF saved(3) assms(2)] wr by auto
  qed
qed

lemma keeps_shape_unchanged: "unchanged a s = (es, Inr (s', b)) \<Longrightarrow> store_ok root s \<Longrightarrow> store_ok root s'"
  by (simp add: unchanged_def)

lemma keeps_shape_ops:
  "handle_ok h \<Longrightarrow> keeps_shape root (register_mod io root h)"
  "keeps_shape root (unregister_mod h)"
  "keeps_shape root (with_lease io root (claim_on stamp h c))"
  "keeps_shape root (on_lease root (release_on h cid) (unchanged ()))"
  "keeps_shape root (with_lease io root (viewer_on stamp h c))"
  "keeps_shape root (on_lease root (leave_on h cid) (unchanged ()))"
  "keeps_shape root (with_lease io root (request_on h req))"
  "keeps_shape root (on_lease root (respond_on h cid rid accept) (\<lambda>_. ([], Inl e)))"
  "keeps_shape root (on_lease root (beat_on stamp cid) (unchanged ()))"
  "keeps_shape root (on_lease root force_on (unchanged None))"
  unfolding keeps_shape_def
  by (auto simp: register_mod_def unregister_mod_def upsert_record_ok empty_record_ok ensure_ok remove_record_ok
      intro: claim_op.with_lease_ok viewer_op.with_lease_ok request_op.with_lease_ok
        release_op.on_lease_ok [OF _ _ keeps_shape_unchanged] leave_op.on_lease_ok [OF _ _ keeps_shape_unchanged]
        beat_op.on_lease_ok [OF _ _ keeps_shape_unchanged] force_op.on_lease_ok [OF _ _ keeps_shape_unchanged]
        respond_op.on_lease_ok)

lemma run_op_file:
  "wo_file (run_op io root (Op_Register h) w) = wo_file (fst (load_and_modify io root (register_mod io root h) w))"
  "wo_file (run_op io root (Op_Request uuid h c) w) =
     wo_file (fst (load_and_modify io root (with_lease io root (request_on h (new_request io uuid c))) w))"
  "wo_file (run_op io root Op_Read w) = wo_file w"
  by (auto simp: register_process_def request_takeover_def project_lease_def service_record_def
      split: prod.splits sum.splits dest: load_file)

lemma stored_file: "wo_file w = wo_file v \<Longrightarrow> stored parse w = stored parse v"
  by (simp add: stored_def)

lemma run_op_ok:
  assumes "json_law (ow_parse io) (ow_pretty io)" "op_ok op"
    and "stored (ow_parse io) w = Some s" "store_ok root s"
  shows "\<exists>s'. stored (ow_parse io) (run_op io root op w) = Some s' \<and> store_ok root s'"
proof -
  note step = modify_step_ok [OF _ assms(1,3,4)]
  show ?thesis
    using assms(2-4) step [OF keeps_shape_ops(1)] step [OF keeps_shape_ops(7)] 
    by (cases op)
      (auto simp: unregister_process_def claim_owner_def release_owner_def register_viewer_def
        unregister_viewer_def respond_takeover_def heartbeat_def force_release_project_owner_def
        stored_file [OF run_op_file(1)] stored_file [OF run_op_file(2)] stored_file [OF run_op_file(3)]
        simp del: run_op.simps(1,7,11) intro!: step keeps_shape_ops)
qed

text \<open>C19: Whatever clients and processes do, in whatever order and with whatever failures of the file
  system, the ownership file stays readable and well formed: one record per process handle, control and
  viewers on the project's lease only, and no client listed twice as a viewer.\<close>

theorem ownership_well_formed:
  assumes "own_reach parse pretty root w" "json_law parse pretty"
  shows "\<exists>s. stored parse w = Some s \<and> store_ok root s"
  using assms(1)
proof (induction rule: own_reach.induct)
  case (reach_start w)
  then show ?case by (simp add: stored_def store_ok_def)
next
  case (reach_op w io op)
  then show ?case using run_op_ok assms(2) by blast
qed

section \<open>Who is in control\<close>

abbreviation env_of :: "own_io \<Rightarrow> own_env" where
  "env_of io \<equiv> own_env.truncate io"

lemma get_evicted:
  "get_record h (fst (evict_stale_records io s)) =
     map_option (\<lambda>r. fst (evict_record (env_of io) (eviction_config io s) (ow_now io) r)) (get_record h s)"
proof -
  have "get_record h (map f s) = map_option f (get_record h s)" if "\<And>r. or_process (f r) = or_process r" for f
    using that by (induction s) (auto simp: get_record_def)
  then show ?thesis by (simp add: evict_stale_records_def evict_stale_clients_def)
qed

lemma eviction_ttl [simp]: "hc_ttl_seconds (eviction_config io s) = 15"
  by (simp add: eviction_config_def default_heartbeat_def split: list.split option.split prod.split)

text \<open>A request that has timed out under a policy that grants it.\<close>

definition granted_by_timeout :: "own_env \<Rightarrow> heartbeat_config \<Rightarrow> int \<Rightarrow> takeover_request \<Rightarrow> bool" where
  "granted_by_timeout env cfg now req =
     (hc_takeover_timeout_seconds cfg \<noteq> 0 \<and> hc_takeover_default_response cfg \<noteq> Tdr_Deny
      \<and> request_expired env (now - secs (hc_takeover_timeout_seconds cfg)) req)"

lemma evict_live_owner:
  assumes "or_owner r = Some a" "\<not> is_stale_client env (now - secs (hc_ttl_seconds cfg)) a"
    and "\<And>req. or_takeover_request r = Some req \<Longrightarrow> \<not> granted_by_timeout env cfg now req"
  shows "or_owner (fst (evict_record env cfg now r)) = Some a
    \<and> or_takeover_request (fst (evict_record env cfg now r)) \<in> {or_takeover_request r, None}"
  using assms by (auto simp: evict_record_def resolve_takeover_def granted_by_timeout_def Let_def split: option.splits)

text \<open>What each operation does to a lease that has an owner.\<close>

definition hands_over :: "own_op \<Rightarrow> ownership_record \<Rightarrow> client_identity \<Rightarrow> client_identity \<Rightarrow> bool" where
  "hands_over op r a b =
     (ci_client_id b = ci_client_id a
      \<or> (\<exists>h req. or_takeover_request r = Some req \<and> b = tr_requester req
                \<and> op = Op_Respond h (ci_client_id a) (tr_request_id req) True))"

lemma act_owner:
  "claim_on stamp h c r = (es, Inr (r', x)) \<Longrightarrow> or_owner r = Some a \<Longrightarrow> or_owner r' = Some a"
  "release_on h cid r = (es, Inr (r', u)) \<Longrightarrow> or_owner r = Some a \<Longrightarrow> or_owner r' \<in> {Some a, None}"
  "viewer_on stamp h c r = (es, Inr (r', u)) \<Longrightarrow> or_owner r = Some a \<Longrightarrow> or_owner r' = Some a"
  "leave_on h cid r = (es, Inr (r', u)) \<Longrightarrow> or_owner r = Some a \<Longrightarrow> or_owner r' = Some a"
  "request_on h req r = (es, Inr (r', u)) \<Longrightarrow> or_owner r = Some a \<Longrightarrow> or_owner r' = Some a"
  "force_on r = (es, Inr (r', y)) \<Longrightarrow> or_owner r = Some a \<Longrightarrow> or_owner r' = None"
  by (auto simp: claim_on_def release_on_def viewer_on_def leave_on_def request_on_def force_on_def
      add_viewer_if_missing_def Let_def split: if_splits option.splits)

lemma beat_owner:
  "beat_on stamp cid r = (es, Inr (r', u)) \<Longrightarrow> or_owner r = Some a \<Longrightarrow> or_owner r' = Some b \<Longrightarrow>
   ci_client_id b = ci_client_id a"
  by (auto simp: beat_on_def split: if_splits)

lemma respond_owner:
  "respond_on h cid rid accept r = (es, Inr (r', u)) \<Longrightarrow> or_owner r = Some a \<Longrightarrow> or_owner r' = Some b \<Longrightarrow>
   hands_over (Op_Respond h cid rid accept) r a b"
  by (auto simp: respond_on_def hands_over_def grant_takeover_def split: if_splits option.splits)

lemma with_lease_present:
  "get_record (project_lease_handle root) s = Some r \<Longrightarrow>
   with_lease io root f s = on_lease root f (\<lambda>s. ([], Inl (Validation_Err ''project lease record ensured''))) s"
  by (simp add: with_lease_def ensure_project_lease_record_def)

text \<open>The owner of the lease after a modification of a store whose lease has an owner.\<close>

definition owner_after ::
  "string \<Rightarrow> 'a modification \<Rightarrow> ownership_store \<Rightarrow> client_identity \<Rightarrow> bool" where
  "owner_after root m s b =
     (\<exists>es s' x r'. m s = (es, Inr (s', x)) \<and> get_record (project_lease_handle root) s' = Some r' \<and> or_owner r' = Some b)"

lemma on_lease_owner:
  assumes "owner_after root (on_lease root f absent) s b" "lease_operation f"
    and "get_record (project_lease_handle root) s = Some r"
  shows "\<exists>es x r'. f r = (es, Inr (r', x)) \<and> or_owner r' = Some b"
proof -
  obtain es s' x r' where m: "on_lease root f absent s = (es, Inr (s', x))"
      "get_record (project_lease_handle root) s' = Some r'" "or_owner r' = Some b"
    using assms(1) unfolding owner_after_def by blast
  show ?thesis using lease_operation.on_lease_get [OF assms(2) m(1) assms(3)] m(2,3) by (metis option.inject)
qed

lemma with_lease_owner:
  assumes "owner_after root (with_lease io root f) s b" "lease_operation f"
    and "get_record (project_lease_handle root) s = Some r"
  shows "\<exists>es x r'. f r = (es, Inr (r', x)) \<and> or_owner r' = Some b"
proof -
  have "owner_after root (on_lease root f (\<lambda>s. ([], Inl (Validation_Err ''project lease record ensured'')))) s b"
    using assms(1) by (simp add: owner_after_def with_lease_present [OF assms(3)])
  from on_lease_owner [OF this assms(2,3)] show ?thesis .
qed

lemma register_owner:
  "owner_after root (register_mod io root h) s b \<Longrightarrow> get_record (project_lease_handle root) s = Some r \<Longrightarrow>
   or_owner r = Some b"
  by (auto simp: owner_after_def register_mod_def get_upsert_record ensure_project_lease_record_def
      empty_record_def split: if_splits)

lemma unregister_owner:
  "owner_after root (unregister_mod h) s b \<Longrightarrow> distinct (map or_process s) \<Longrightarrow>
   get_record (project_lease_handle root) s = Some r \<Longrightarrow> or_owner r = Some b"
  by (auto simp: owner_after_def unregister_mod_def get_remove_record split: if_splits)

lemma modified_owner:
  assumes "json_law (ow_parse io) (ow_pretty io)" "keeps_shape root m"
    and "stored (ow_parse io) w = Some s" "store_ok root s"
    and "stored (ow_parse io) (fst (load_and_modify io root m w)) = Some s'"
    and "get_record (project_lease_handle root) s' = Some r'" "or_owner r' = Some b"
  shows "s' = s \<or> owner_after root m (fst (evict_stale_records io s)) b"
proof -
  obtain w' x where wr: "load_and_modify io root m w = (w', x)" by (cases "load_and_modify io root m w")
  then show ?thesis
  proof (cases rule: load_and_modify_cases)
    case (failed e)
    then have "stored (ow_parse io) w' = stored (ow_parse io) w" by (intro stored_file)
    then show ?thesis using wr assms(3,5) by simp
  next
    case (saved s0 es s1 a w1)
    then have s0: "s0 = s" using assms(3) by simp
    then have "store_ok root s1"
      using saved(2) assms(2,4) evict_stale_ok unfolding keeps_shape_def by blast
    then have "stored (ow_parse io) w' = Some s1" using save_stored [OF saved(3) assms(1)] by simp
    then have "s' = s1" using wr assms(5) by simp
    then show ?thesis using saved(2) s0 assms(6,7) unfolding owner_after_def by blast
  qed
qed

lemma op_owner:
  assumes "json_law (ow_parse io) (ow_pretty io)" "op_ok op"
    and "stored (ow_parse io) w = Some s" "store_ok root s"
    and "get_record (project_lease_handle root) (fst (evict_stale_records io s)) = Some r" "or_owner r = Some a"
    and "stored (ow_parse io) (run_op io root op w) = Some s'"
    and "get_record (project_lease_handle root) s' = Some r'" "or_owner r' = Some b"
  shows "s' = s \<or> hands_over op r a b"
proof -
  let ?s = "fst (evict_stale_records io s)"
  have d: "distinct (map or_process ?s)" using evict_stale_ok [OF assms(4)] by (simp add: store_ok_def)
  note mo = modified_owner [OF assms(1) _ assms(3,4) _ assms(8,9)]
  note ol = on_lease_owner [OF _ _ assms(5)] and wl = with_lease_owner [OF _ _ assms(5)]
  note same = assms(6) hands_over_def
  show ?thesis
  proof (cases op)
    case (Op_Register h)
    then have st: "stored (ow_parse io) (fst (load_and_modify io root (register_mod io root h) w)) = Some s'"
      using assms(7) stored_file [OF run_op_file(1)] by simp
    from mo [OF keeps_shape_ops(1) st] assms(2) Op_Register
    show ?thesis using register_owner [OF _ assms(5)] same by auto
  next
    case (Op_Unregister h)
    then show ?thesis using mo [OF keeps_shape_ops(2)] unregister_owner [OF _ d assms(5)] assms(7) same
      by (fastforce simp: unregister_process_def)
  next
    case (Op_Claim h c)
    then show ?thesis using mo [OF keeps_shape_ops(3)] wl [OF _ claim_op.lease_operation_axioms] assms(7) same
      by (fastforce simp: claim_owner_def dest: act_owner(1))
  next
    case (Op_Release h cid)
    then show ?thesis using mo [OF keeps_shape_ops(4)] ol [OF _ release_op.lease_operation_axioms] assms(7) same
      by (fastforce simp: release_owner_def dest: act_owner(2))
  next
    case (Op_View h c)
    then show ?thesis using mo [OF keeps_shape_ops(5)] wl [OF _ viewer_op.lease_operation_axioms] assms(7) same
      by (fastforce simp: register_viewer_def dest: act_owner(3))
  next
    case (Op_Leave h cid)
    then show ?thesis using mo [OF keeps_shape_ops(6)] ol [OF _ leave_op.lease_operation_axioms] assms(7) same
      by (fastforce simp: unregister_viewer_def dest: act_owner(4))
  next
    case (Op_Request uuid h c)
    then have st: "stored (ow_parse io)
        (fst (load_and_modify io root (with_lease io root (request_on h (new_request io uuid c))) w)) = Some s'"
      using assms(7) stored_file [OF run_op_file(2)] by simp
    from mo [OF keeps_shape_ops(7) st]
    show ?thesis using wl [OF _ request_op.lease_operation_axioms] same by (fastforce dest: act_owner(5))
  next
    case (Op_Respond h cid rid accept)
    then show ?thesis
      using mo [OF keeps_shape_ops(8)] ol [OF _ respond_op.lease_operation_axioms] assms(6,7)
      by (fastforce simp: respond_takeover_def dest: respond_owner)
  next
    case (Op_Beat cid)
    then show ?thesis using mo [OF keeps_shape_ops(9)] ol [OF _ beat_op.lease_operation_axioms] assms(7) same
      by (fastforce simp: heartbeat_def dest: beat_owner)
  next
    case Op_Force
    then show ?thesis using mo [OF keeps_shape_ops(10)] ol [OF _ force_op.lease_operation_axioms] assms(7) same
      by (fastforce simp: force_release_project_owner_def dest: act_owner(6))
  next
    case Op_Read
    then show ?thesis using stored_file [OF run_op_file(3), of "ow_parse io"] assms(3,7) by simp
  qed
qed

text \<open>C20: Control of a project changes hands only for a reason: a client other than the owner is in
  control after an operation only if the owner's heartbeat was stale, or a takeover request timed out
  under a policy that grants it, or the owner itself accepted the pending request of that client.\<close>

theorem control_changes_hands:
  assumes "json_law (ow_parse io) (ow_pretty io)" "op_ok op"
    and "stored (ow_parse io) w = Some s" "store_ok root s"
    and "get_record (project_lease_handle root) s = Some r" "or_owner r = Some a"
    and "stored (ow_parse io) (run_op io root op w) = Some s'"
    and "get_record (project_lease_handle root) s' = Some r'" "or_owner r' = Some b"
    and "ci_client_id b \<noteq> ci_client_id a"
  shows "is_stale_client (env_of io) (ow_now io - secs 15) a
    \<or> (\<exists>req. or_takeover_request r = Some req
          \<and> (granted_by_timeout (env_of io) (eviction_config io s) (ow_now io) req
             \<or> (\<exists>h. op = Op_Respond h (ci_client_id a) (tr_request_id req) True \<and> b = tr_requester req)))"
proof (rule ccontr)
  assume no: "\<not> ?thesis"
  let ?r = "fst (evict_record (env_of io) (eviction_config io s) (ow_now io) r)"
  have live: "or_owner ?r = Some a" "or_takeover_request ?r \<in> {or_takeover_request r, None}"
    using evict_live_owner [of r a "env_of io" "ow_now io" "eviction_config io s"] assms(6) no by auto
  have "get_record (project_lease_handle root) (fst (evict_stale_records io s)) = Some ?r"
    using get_evicted assms(5) by simp
  from op_owner [OF assms(1-4) this live(1) assms(7-9)] have "s' = s \<or> hands_over op ?r a b" .
  then show False
  proof
    assume "s' = s"
    then show False using assms(5,6,8,9,10) by simp
  next
    assume "hands_over op ?r a b"
    then show False using no live(2) assms(10) by (auto simp: hands_over_def)
  qed
qed

text \<open>The answer to a claim is true of the store it leaves behind: a client told it is the owner owns the
  lease, and a client told it is a viewer does not own it and is listed as a viewer.\<close>

theorem claim_answer_is_true:
  assumes "claim_owner io root h c w = (w', Inr st)"
    and "json_law (ow_parse io) (ow_pretty io)" "stored (ow_parse io) w = Some s" "store_ok root s"
  shows "\<exists>s' r'. stored (ow_parse io) w' = Some s' \<and> get_record (project_lease_handle root) s' = Some r'
    \<and> (st = Os_Owner \<and> owner_is (ci_client_id c) r'
       \<or> st = Os_Viewer \<and> \<not> owner_is (ci_client_id c) r' \<and> has_viewer (ci_client_id c) r')"
proof -
  let ?m = "with_lease io root (claim_on (ow_stamp io) h c)"
  have shape: "keeps_shape root ?m" by (rule keeps_shape_ops(3))
  from assms(1) have lm: "load_and_modify io root ?m w = (w', Inr st)" by (simp add: claim_owner_def)
  then show ?thesis
  proof (cases rule: load_and_modify_cases)
    case (saved s0 es s1 a w1)
    let ?s = "ensure_project_lease_record root (ow_stamp io) (fst (evict_stale_records io s0))"
    have "store_ok root (fst (evict_stale_records io s0))"
      using saved(1) assms(3,4) evict_stale_ok by simp
    then have "store_ok root s1" using shape saved(2) unfolding keeps_shape_def by blast
    then have st: "stored (ow_parse io) w' = Some s1" using save_stored [OF saved(3) assms(2)] by simp
    obtain r where r: "get_record (project_lease_handle root) ?s = Some r" using ensured_lease by blast
    obtain r' where r': "claim_on (ow_stamp io) h c r = (es, Inr (r', a))"
        "get_record (project_lease_handle root) s1 = Some r'"
      using claim_op.on_lease_get [OF saved(2) [unfolded with_lease_def] r] by blast
    have "a = Os_Owner \<and> owner_is (ci_client_id c) r'
        \<or> a = Os_Viewer \<and> \<not> owner_is (ci_client_id c) r' \<and> has_viewer (ci_client_id c) r'"
      using r'(1)
      by (auto simp: claim_on_def Let_def owner_is_def add_viewer_if_missing_def has_viewer_def
          split: if_splits option.splits prod.splits)
    then show ?thesis using st r'(2) saved(4) by auto
  qed simp
qed

lemma load_store_stored:
  assumes "ow_read io = None" "stored (ow_parse io) w = Some s"
  shows "load_store io root w =
    (emit (snd (evict_stale_records io s)) w, Inr (fst (evict_stale_records io s)))"
proof (cases "wo_file w")
  case None
  then show ?thesis
    using assms by (simp add: load_store_def stored_def evict_stale_records_def evict_stale_clients_def emit_def)
next
  case (Some raw)
  then obtain v where "ow_parse io raw = Inr v" "store_from_value v = Some s"
    using assms(2) by (auto simp: stored_def split: sum.splits)
  then show ?thesis using Some assms(1) by (simp add: load_store_def split: prod.split)
qed

text \<open>C21: The gate lets exactly the owner through: while the owner's heartbeat is fresh and no takeover has
  timed out, a mutating action of another client is refused with an error that names the owner.\<close>

theorem gate_admits_only_owner:
  assumes "ow_read io = None" "stored (ow_parse io) w = Some s"
    and "get_record (project_lease_handle root) s = Some r" "or_owner r = Some a"
    and "\<not> is_stale_client (env_of io) (ow_now io - secs 15) a"
    and "\<And>req. or_takeover_request r = Some req \<Longrightarrow>
           \<not> granted_by_timeout (env_of io) (eviction_config io s) (ow_now io) req"
  shows "snd (gate_owner_action handle_text io root cid h w) =
    (if cid = ci_client_id a then Inr () else Inl (Not_Process_Owner (handle_text h) (Some (ci_client_id a))))"
proof -
  obtain r1 where r1: "get_record (project_lease_handle root) (fst (evict_stale_records io s)) = Some r1"
      "or_owner r1 = Some a"
    using get_evicted [of "project_lease_handle root" io s] assms(3)
      evict_live_owner [of r a "env_of io" "ow_now io" "eviction_config io s"] assms(4-6) by simp
  show ?thesis
    unfolding gate_owner_action_def service_record_def load_store_stored [OF assms(1,2)]
    using r1 by (simp add: judge_owner_def)
qed

lemma min_index_least:
  "min_index key xs = Some i \<Longrightarrow> x \<in> set xs \<Longrightarrow> key (xs ! i) \<le> key x"
proof (induction xs arbitrary: i x)
  case (Cons y ys)
  show ?case
  proof (cases "min_index key ys")
    case None
    with Cons show ?thesis by auto
  next
    case (Some j)
    then have "\<forall>z \<in> set ys. key (ys ! j) \<le> key z" using Cons.IH by blast
    with Some Cons.prems show ?thesis by (fastforce split: if_splits)
  qed
qed simp

text \<open>An owner whose heartbeat is stale, with no takeover pending, is succeeded by the viewer connected
  longest among those whose heartbeat is fresh, who is no longer listed as a viewer; with no such viewer
  the lease is free.\<close>

theorem stale_owner_succession:
  assumes "or_owner r = Some a" "is_stale_client env (now - secs (hc_ttl_seconds cfg)) a"
    and "or_takeover_request r = None" "distinct (map ci_client_id (or_viewers r))"
  defines "fresh \<equiv> filter (\<lambda>v. \<not> is_stale_client env (now - secs (hc_ttl_seconds cfg)) v) (or_viewers r)"
    and "r' \<equiv> fst (evict_record env cfg now r)"
  shows "case or_owner r' of
      None \<Rightarrow> fresh = [] \<and> or_viewers r' = []
    | Some b \<Rightarrow> b \<in> set fresh \<and> (\<forall>v \<in> set fresh. connected_key env b \<le> connected_key env v)
        \<and> set (or_viewers r') = set fresh - {b}"
proof -
  have r': "r' = promote_oldest_viewer env (r\<lparr>or_viewers := fresh\<rparr>)"
    using assms(1-3) by (simp add: r'_def fresh_def evict_record_def resolve_takeover_def Let_def)
  show ?thesis
  proof (cases "min_index (connected_key env) fresh")
    case None
    then show ?thesis by (simp add: r' promote_oldest_viewer_def)
  next
    case (Some i)
    have i: "i < length fresh" using Some by (rule min_index_bound)
    have "distinct (map ci_client_id fresh)" using assms(4) by (simp add: fresh_def distinct_filter_ids)
    then have d: "distinct fresh" by (simp add: distinct_map)
    have "fresh = take i fresh @ fresh ! i # drop (Suc i) fresh" using i by (rule id_take_nth_drop)
    then have "set (remove_at i fresh) = set fresh - {fresh ! i}"
      using d unfolding remove_at_def
      by (metis (no_types, lifting) Diff_insert_absorb Un_insert_right distinct_append distinct.simps(2)
          disjoint_insert(1) insert_iff list.simps(15) set_append Un_iff)
    then show ?thesis using Some i min_index_least [OF Some] by (simp add: r' promote_oldest_viewer_def)
  qed
qed

text \<open>Control handed over slowly is lost.  A request carries the heartbeat its client had when it asked;
  when the owner accepts more than fifteen seconds later, or the time-out policy grants a request that
  waited for at least fifteen seconds, the next eviction drops the new owner, which is then neither owner
  nor viewer.\<close>

theorem slow_takeover_is_lost:
  assumes "oe_parse_time env (ow_stamp io) = Some t" "hc_ttl_seconds cfg = 15"
    and "r = grant_takeover (new_request io uuid c) q \<and> t < now - secs 15
      \<or> or_takeover_request r = Some (new_request io uuid c)
        \<and> granted_by_timeout env cfg now (new_request io uuid c) \<and> 15 \<le> hc_takeover_timeout_seconds cfg"
  shows "\<not> owner_is (ci_client_id c) (fst (evict_record env cfg now r))
    \<and> \<not> has_viewer (ci_client_id c) (fst (evict_record env cfg now r))"
proof -
  let ?req = "new_request io uuid c"
  have hb: "ci_last_heartbeat (tr_requester ?req) = ow_stamp io" "ci_client_id (tr_requester ?req) = ci_client_id c"
      "tr_requested_at ?req = ow_stamp io"
    by (simp_all add: new_request_def refreshed_identity_def)
  have granted: "\<exists>q. fst (resolve_takeover env cfg now r) = grant_takeover ?req q" and late: "t < now - secs 15"
  proof -
    consider "r = grant_takeover ?req q" "t < now - secs 15"
      | "or_takeover_request r = Some ?req" "granted_by_timeout env cfg now ?req" "15 \<le> hc_takeover_timeout_seconds cfg"
      using assms(3) by blast
    then show "\<exists>q. fst (resolve_takeover env cfg now r) = grant_takeover ?req q"
      by cases (auto simp: resolve_takeover_def grant_takeover_def granted_by_timeout_def)
    show "t < now - secs 15"
      using assms(3) assms(1) hb(3)
      by (auto simp: granted_by_timeout_def request_expired_def secs_def)
  qed
  obtain q' where q': "fst (resolve_takeover env cfg now r) = grant_takeover ?req q'" using granted by blast
  let ?vs = "filter (\<lambda>v. \<not> is_stale_client env (now - secs 15) v) (filter (other_client (ci_client_id c)) (or_viewers q'))"
  have stale: "is_stale_client env (now - secs 15) (tr_requester ?req)"
    using hb(1) assms(1) late by (simp add: is_stale_client_def)
  have ev: "fst (evict_record env cfg now r) = promote_oldest_viewer env ((grant_takeover ?req q')\<lparr>or_viewers := ?vs\<rparr>)"
    using q' stale hb(2) assms(2)
    by (cases "resolve_takeover env cfg now r") (simp add: evict_record_def Let_def grant_takeover_def)
  have others: "v \<in> set ?vs \<Longrightarrow> ci_client_id v \<noteq> ci_client_id c" for v by (auto simp: other_client_def)
  show ?thesis
  proof (cases "min_index (connected_key env) ?vs")
    case None
    then show ?thesis using ev others
      by (auto simp: promote_oldest_viewer_def owner_is_def has_viewer_def list_ex_iff)
  next
    case (Some i)
    then have "?vs ! i \<in> set ?vs" using min_index_bound nth_mem by blast
    then show ?thesis
      using ev Some others set_remove_at [of i ?vs]
      by (auto simp: promote_oldest_viewer_def owner_is_def has_viewer_def list_ex_iff simp del: set_filter filter_filter)
  qed
qed

text \<open>Reading does not save what it evicts, and broadcasts it again every time: two reads in a row of a
  store with a timed-out request announce the same time-out twice and leave the file as it was.\<close>

theorem reads_repeat_timeouts:
  fixes root io w
  assumes "ow_read io = None" "stored (ow_parse io) w = Some s"
  defines "w1 \<equiv> fst (project_lease io root w)"
  defines "w2 \<equiv> fst (project_lease io root w1)"
  shows "wo_file w2 = wo_file w \<and> wo_events w2 =
    wo_events w @ snd (evict_stale_records io s) @ snd (evict_stale_records io s)"
proof -
  have read: "fst (project_lease io root v) = emit (snd (evict_stale_records io s)) v"
    if "stored (ow_parse io) v = Some s" for v
    using load_store_stored [OF assms(1) that] by (simp add: project_lease_def service_record_def)
  then have w1: "w1 = emit (snd (evict_stale_records io s)) w" using assms(2) by (simp add: w1_def)
  then have "stored (ow_parse io) w1 = Some s" using assms(2) by (simp add: stored_def)
  then show ?thesis using read w1 by (simp add: w2_def emit_def)
qed

section \<open>Concrete instances\<close>

text \<open>Times are whole seconds; the text of a time is its digits.\<close>

definition sample_io :: "nat \<Rightarrow> own_io" where
  "sample_io n =
     \<lparr>oe_parse_time = \<lambda>s. map_option (\<lambda>k. 1000000000 * int k) (parse_usize s), oe_max_utc = 10 ^ 30,
      ow_now = 1000000000 * int n, ow_stamp = (if n = 0 then ''0'' else if n = 10 then ''10'' else ''20''),
      ow_lock = None, ow_read = None, ow_parse = json_of_text, ow_type_error = \<lambda>_. ''invalid type'',
      ow_pretty = text_of_json, ow_config = \<lambda>_. Some (Some \<lparr>tk_timeout_seconds = None,
        tk_default_response = Some ''auto_accept''\<rparr>, None),
      ow_mkdir = None, ow_write = None, ow_rename = None\<rparr>"

definition alice :: client_identity where
  "alice = \<lparr>ci_client_id = ''alice'', ci_kind = Ck_Tui, ci_connected_at = ''0'', ci_last_heartbeat = ''0''\<rparr>"

definition bob :: client_identity where
  "bob = \<lparr>ci_client_id = ''bob'', ci_kind = Ck_Web, ci_connected_at = ''10'', ci_last_heartbeat = ''10''\<rparr>"

definition bobs_request :: takeover_request where
  "bobs_request = \<lparr>tr_request_id = ''r1'', tr_requester = bob, tr_requested_at = ''10''\<rparr>"

definition sample_lease :: ownership_record where
  "sample_lease =
     \<lparr>or_process = project_lease_handle ''/p'', or_owner = Some alice, or_viewers = [bob],
      or_takeover_request = Some bobs_request, or_started_at = ''0''\<rparr>"

definition world_with :: "ownership_store \<Rightarrow> own_world" where
  "world_with s = \<lparr>wo_file = Some (text_of_json (store_to_value s) @ [CHR 0x0A]), wo_events = []\<rparr>"

lemma sample_io_fields [simp]:
  "ow_parse (sample_io n) = json_of_text" "ow_pretty (sample_io n) = text_of_json" "ow_lock (sample_io n) = None"
  "ow_read (sample_io n) = None" "ow_mkdir (sample_io n) = None" "ow_write (sample_io n) = None"
  "ow_rename (sample_io n) = None" "ow_now (sample_io n) = 1000000000 * int n"
  "oe_parse_time (env_of (sample_io n)) = (\<lambda>s. map_option (\<lambda>k. 1000000000 * int k) (parse_usize s))"
  by (simp_all add: sample_io_def own_env.truncate_def)

lemma sample_law [simp]: "json_law json_of_text text_of_json"
  by (simp add: json_law_def)

lemma sample_lease_ok: "store_ok ''/p'' [sample_lease]"
  by (simp add: store_ok_def record_ok_def sample_lease_def)

lemma stored_with: "store_ok root s \<Longrightarrow> stored json_of_text (world_with s) = Some s"
proof -
  assume "store_ok root s"
  then have "store_from_value (store_to_value s) = Some s"
    by (intro store_reads_back) (auto simp: store_ok_def record_ok_def)
  then show ?thesis by (simp add: stored_def world_with_def)
qed

lemma sample_times: "parse_usize ''0'' = Some 0" "parse_usize ''10'' = Some 10" "parse_usize ''20'' = Some 20"
  by (simp_all add: parse_usize_def parse_digits_def is_digit_def)

theorem store_roundtrip_witness: "store_from_value (store_to_value [sample_lease]) = Some [sample_lease]"
  using store_roundtrip [of "[sample_lease]"] by (simp add: sample_lease_def)

lemma sample_config: "eviction_config (sample_io n) [sample_lease] =
    \<lparr>hc_ttl_seconds = 15, hc_takeover_timeout_seconds = 60, hc_takeover_default_response = Tdr_AutoAccept\<rparr>"
proof -
  have "from_str_lossy ''auto_accept'' = Tdr_AutoAccept" by code_simp
  then show ?thesis
    by (simp add: eviction_config_def load_takeover_policy_def policy_of_def sample_io_def default_heartbeat_def)
qed

text \<open>At second 10 nothing is stale; the owner accepts, and control goes to the requester.\<close>

lemma sample_fresh: "evict_stale_records (sample_io 10) [sample_lease] = ([sample_lease], [])"
  unfolding evict_stale_records_def sample_config
  by (simp add: evict_stale_clients_def evict_record_def resolve_takeover_def request_expired_def
      is_stale_client_def sample_lease_def alice_def bob_def bobs_request_def sample_times secs_def)

definition sample_accepted :: ownership_record where
  "sample_accepted = grant_takeover bobs_request sample_lease"

lemma sample_accepted_ok: "store_ok ''/p'' [sample_accepted]"
  by (simp add: store_ok_def record_ok_def sample_accepted_def grant_takeover_def sample_lease_def
      bobs_request_def distinct_filter_ids)

lemma sample_load: "load_store (sample_io 10) ''/p'' (world_with [sample_lease]) = (world_with [sample_lease], Inr [sample_lease])"
  using load_store_stored [of "sample_io 10" "world_with [sample_lease]" "[sample_lease]"]
    stored_with [OF sample_lease_ok] by (simp add: sample_fresh emit_def)

lemma sample_get: "get_record (project_lease_handle ''/p'') [sample_lease] = Some sample_lease"
  by (simp add: get_record_def sample_lease_def)

lemma sample_respond:
  "run_op (sample_io 10) ''/p'' (Op_Respond h ''alice'' ''r1'' True) (world_with [sample_lease]) =
     (world_with [sample_accepted])\<lparr>wo_events := [Oe_Takeover_Accepted h bob ''r1'']\<rparr>"
proof -
  have "respond_on h ''alice'' ''r1'' True sample_lease =
      ([Oe_Takeover_Accepted h bob ''r1''], Inr (sample_accepted, ()))"
    by (simp add: respond_on_def sample_accepted_def sample_lease_def alice_def bobs_request_def)
  then show ?thesis
    unfolding run_op.simps respond_takeover_def load_and_modify_def sample_load
    by (simp add: on_lease_def sample_get save_store_def emit_def world_with_def)
      (simp add: sample_lease_def)
qed

theorem failed_operation_keeps_store_witness:
  "wo_file (run_op (sample_io 10) ''/p'' (Op_Respond h ''bob'' ''r1'' True) (world_with [sample_lease])) =
     wo_file (world_with [sample_lease])"
proof -
  let ?r = "respond_takeover (sample_io 10) ''/p'' h ''bob'' ''r1'' True (world_with [sample_lease])"
  have "respond_on h ''bob'' ''r1'' True sample_lease =
      ([], Inl (Validation_Err (''Client '' @ quoted ''bob'' @ '' is not the current owner'')))"
    by (simp add: respond_on_def sample_lease_def alice_def)
  then have "snd ?r = Inl (Validation_Err (''Client '' @ quoted ''bob'' @ '' is not the current owner''))"
    unfolding respond_takeover_def load_and_modify_def sample_load by (simp add: on_lease_def sample_get)
  then obtain w' e where r: "?r = (w', Inl e)" by (metis surj_pair snd_conv)
  then show ?thesis using failed_operation_keeps_store [OF r [unfolded respond_takeover_def]] by simp
qed

theorem ownership_well_formed_witness:
  "\<exists>s. stored json_of_text
        (run_op (sample_io 0) ''/p'' (Op_Claim (project_lease_handle ''/p'') alice) \<lparr>wo_file = None, wo_events = []\<rparr>) = Some s
      \<and> store_ok ''/p'' s"
proof (rule ownership_well_formed)
  show "own_reach json_of_text text_of_json ''/p''
      (run_op (sample_io 0) ''/p'' (Op_Claim (project_lease_handle ''/p'') alice) \<lparr>wo_file = None, wo_events = []\<rparr>)"
    by (rule reach_op [OF reach_start]) simp_all
qed simp

theorem control_changes_hands_witness:
  "is_stale_client (env_of (sample_io 10)) (ow_now (sample_io 10) - secs 15) alice
    \<or> (\<exists>req. or_takeover_request sample_lease = Some req
          \<and> (granted_by_timeout (env_of (sample_io 10)) (eviction_config (sample_io 10) [sample_lease])
                (ow_now (sample_io 10)) req
             \<or> (\<exists>h'. Op_Respond (project_lease_handle ''/p'') ''alice'' ''r1'' True =
                       Op_Respond h' (ci_client_id alice) (tr_request_id req) True \<and> bob = tr_requester req)))"
proof (rule control_changes_hands)
  let ?op = "Op_Respond (project_lease_handle ''/p'') ''alice'' ''r1'' True"
  have "stored json_of_text (world_with [sample_accepted]) = Some [sample_accepted]"
    by (rule stored_with [OF sample_accepted_ok])
  then show "stored (ow_parse (sample_io 10)) (run_op (sample_io 10) ''/p'' ?op (world_with [sample_lease])) = Some [sample_accepted]"
    unfolding sample_respond sample_io_fields by (simp add: stored_def)
  show "get_record (project_lease_handle ''/p'') [sample_accepted] = Some sample_accepted"
    by (simp add: get_record_def sample_accepted_def grant_takeover_def sample_lease_def)
  show "or_owner sample_accepted = Some bob"
    by (simp add: sample_accepted_def grant_takeover_def bobs_request_def)
qed (simp_all add: sample_get stored_with [OF sample_lease_ok] sample_lease_ok, simp_all add: sample_lease_def alice_def bob_def)

definition sample_calm :: ownership_record where
  "sample_calm = sample_lease\<lparr>or_takeover_request := None\<rparr>"

lemma sample_calm_ok: "store_ok ''/p'' [sample_calm]"
  using sample_lease_ok by (simp add: store_ok_def record_ok_def sample_calm_def)

lemma sample_claim:
  "\<exists>w'. claim_owner (sample_io 10) ''/p'' h bob (world_with [sample_lease]) = (w', Inr Os_Viewer)"
proof -
  have "claim_on (ow_stamp (sample_io 10)) h bob sample_lease = ([], Inr (sample_lease, Os_Viewer))"
    by (simp add: claim_on_def sample_lease_def owner_is_def alice_def bob_def add_viewer_if_missing_def has_viewer_def)
  then show ?thesis
    unfolding claim_owner_def load_and_modify_def sample_load
    by (simp add: with_lease_present [OF sample_get] on_lease_def sample_get save_store_def emit_def world_with_def)
qed

theorem claim_answer_is_true_witness:
  "\<exists>w' s' r'. claim_owner (sample_io 10) ''/p'' h bob (world_with [sample_lease]) = (w', Inr Os_Viewer)
    \<and> stored json_of_text w' = Some s' \<and> get_record (project_lease_handle ''/p'') s' = Some r'
    \<and> has_viewer ''bob'' r'"
proof -
  obtain w' where w': "claim_owner (sample_io 10) ''/p'' h bob (world_with [sample_lease]) = (w', Inr Os_Viewer)"
    using sample_claim by blast
  have "ci_client_id bob = ''bob''" by (simp add: bob_def)
  then show ?thesis
    using claim_answer_is_true [OF w', of "[sample_lease]"] w' stored_with [OF sample_lease_ok] sample_lease_ok
    by auto
qed

theorem gate_admits_only_owner_witness:
  "snd (gate_owner_action (\<lambda>_. ''lease'') (sample_io 10) ''/p'' ''bob'' (project_lease_handle ''/p'')
      (world_with [sample_lease])) = Inl (Not_Process_Owner ''lease'' (Some ''alice''))"
proof -
  have "snd (gate_owner_action (\<lambda>_. ''lease'') (sample_io 10) ''/p'' ''bob'' (project_lease_handle ''/p'')
      (world_with [sample_lease])) =
    (if ''bob'' = ci_client_id alice then Inr () else Inl (Not_Process_Owner ''lease'' (Some (ci_client_id alice))))"
  proof (rule gate_admits_only_owner [where s = "[sample_lease]" and r = sample_lease])
    fix req
    assume "or_takeover_request sample_lease = Some req"
    then have "req = bobs_request" by (simp add: sample_lease_def)
    then show "\<not> granted_by_timeout (env_of (sample_io 10)) (eviction_config (sample_io 10) [sample_lease])
        (ow_now (sample_io 10)) req"
      by (simp add: sample_config granted_by_timeout_def request_expired_def bobs_request_def sample_times secs_def)
  next
    show "\<not> is_stale_client (env_of (sample_io 10)) (ow_now (sample_io 10) - secs 15) alice"
      by (simp add: is_stale_client_def alice_def sample_times secs_def)
  next
    show "or_owner sample_lease = Some alice" by (simp add: sample_lease_def)
  qed (simp_all add: sample_get stored_with [OF sample_lease_ok])
  then show ?thesis by (simp add: alice_def)
qed

text \<open>At second 20 the owner is stale, and the viewer that is still alive succeeds it.\<close>

theorem stale_owner_succession_witness:
  "or_owner (fst (evict_record (env_of (sample_io 20)) default_heartbeat 20000000000 sample_calm)) = Some bob"
proof -
  let ?r = "fst (evict_record (env_of (sample_io 20)) default_heartbeat 20000000000 sample_calm)"
  have fresh: "filter (\<lambda>v. \<not> is_stale_client (env_of (sample_io 20)) (20000000000 - secs (hc_ttl_seconds default_heartbeat)) v)
      (or_viewers sample_calm) = [bob]"
    by (simp add: sample_calm_def sample_lease_def is_stale_client_def bob_def default_heartbeat_def secs_def sample_times)
  have "case or_owner ?r of
      None \<Rightarrow> [bob] = [] \<and> or_viewers ?r = []
    | Some b \<Rightarrow> b \<in> set [bob] \<and> (\<forall>v \<in> set [bob]. connected_key (env_of (sample_io 20)) b \<le> connected_key (env_of (sample_io 20)) v)
        \<and> set (or_viewers ?r) = set [bob] - {b}"
    unfolding fresh [symmetric]
    by (rule stale_owner_succession [where a = alice])
      (simp_all add: sample_calm_def sample_lease_def is_stale_client_def alice_def default_heartbeat_def secs_def sample_times)
  then show ?thesis by (auto split: option.splits)
qed

text \<open>Bob asks at second 10; under a policy that grants after sixty seconds he is gone at second 80.\<close>

theorem slow_takeover_is_lost_witness:
  "\<not> owner_is ''bob'' (fst (evict_record (env_of (sample_io 80))
      (default_heartbeat\<lparr>hc_takeover_default_response := Tdr_AutoAccept\<rparr>) 80000000000 sample_lease))"
proof -
  have req: "bobs_request = new_request (sample_io 10) ''r1'' bob"
    by (simp add: bobs_request_def new_request_def refreshed_identity_def bob_def sample_io_def)
  have "\<not> owner_is (ci_client_id bob) (fst (evict_record (env_of (sample_io 80))
      (default_heartbeat\<lparr>hc_takeover_default_response := Tdr_AutoAccept\<rparr>) 80000000000 sample_lease))
    \<and> \<not> has_viewer (ci_client_id bob) (fst (evict_record (env_of (sample_io 80))
      (default_heartbeat\<lparr>hc_takeover_default_response := Tdr_AutoAccept\<rparr>) 80000000000 sample_lease))"
  proof (rule slow_takeover_is_lost [where io = "sample_io 10" and uuid = "''r1''" and t = 10000000000])
    show "oe_parse_time (env_of (sample_io 80)) (ow_stamp (sample_io 10)) = Some 10000000000"
      by (simp add: sample_io_def own_env.truncate_def sample_times)
  qed (simp_all add: req [symmetric] default_heartbeat_def sample_lease_def granted_by_timeout_def
      request_expired_def bobs_request_def sample_times secs_def)
  then show ?thesis by (simp add: bob_def)
qed

theorem reads_repeat_timeouts_witness:
  "wo_events (fst (project_lease (sample_io 80) ''/p'' (fst (project_lease (sample_io 80) ''/p'' (world_with [sample_lease])))))
     = [Oe_Takeover_Timeout (project_lease_handle ''/p'') bob ''r1'' ''auto_accept'',
        Oe_Takeover_Timeout (project_lease_handle ''/p'') bob ''r1'' ''auto_accept'']"
proof -
  have "snd (evict_stale_records (sample_io 80) [sample_lease]) =
      [Oe_Takeover_Timeout (project_lease_handle ''/p'') bob ''r1'' ''auto_accept'']"
    unfolding evict_stale_records_def sample_config
    by (simp add: evict_stale_clients_def evict_record_def resolve_takeover_def request_expired_def Let_def
        sample_lease_def bobs_request_def sample_times secs_def policy_text_def split: prod.split)
  then show ?thesis
    using reads_repeat_timeouts [of "sample_io 80" "world_with [sample_lease]" "[sample_lease]" "''/p''"]
      stored_with [OF sample_lease_ok] by (simp add: world_with_def)
qed

end
