(* ===== verification/Commits.thy ===== *)
theory Commits
  imports Model Text Worktree
begin

text \<open>
  Commit messages as the link between git and the task registry (\<open>commit_message.rs\<close>,
  \<open>commit_completion.rs\<close>): how a message is written, what is read back from it, and which commits count
  as delivery of a task.  The regular expressions of the source are written out as the deterministic
  readers they describe: in each of them the character after a greedy run can never continue the run, so
  backtracking has nothing to choose except where it is spelled out.
\<close>

section \<open>Messages\<close>

datatype commit_type = Ct_Feat | Ct_Fix | Ct_Refactor | Ct_Docs | Ct_Test | Ct_Chore | Ct_Macc

fun commit_type_text :: "commit_type \<Rightarrow> string" where
  "commit_type_text Ct_Feat = ''feat''"
| "commit_type_text Ct_Fix = ''fix''"
| "commit_type_text Ct_Refactor = ''refactor''"
| "commit_type_text Ct_Docs = ''docs''"
| "commit_type_text Ct_Test = ''test''"
| "commit_type_text Ct_Chore = ''chore''"
| "commit_type_text Ct_Macc = ''macc''"

definition commit_types :: "commit_type list" where
  "commit_types = [Ct_Feat, Ct_Fix, Ct_Refactor, Ct_Docs, Ct_Test, Ct_Chore, Ct_Macc]"

definition parse_commit_type :: "string \<Rightarrow> commit_type option" where
  "parse_commit_type s = List.find (\<lambda>t. commit_type_text t = to_ascii_lowercase (trim s)) commit_types"

type_synonym macc_tag = "string \<times> string"

definition TAG_TASK :: string where "TAG_TASK = ''task''"
definition TAG_PHASE :: string where "TAG_PHASE = ''phase''"
definition TAG_MERGE :: string where "TAG_MERGE = ''merge''"

definition format_tag :: "macc_tag \<Rightarrow> string" where
  "format_tag t = ''[macc:'' @ fst t @ '' '' @ snd t @ '']''"

record commit_message =
  cm_type :: commit_type
  cm_task_id :: string
  cm_title :: "string option"
  cm_tags :: "macc_tag list"

definition task_message :: "commit_type \<Rightarrow> string \<Rightarrow> commit_message" where
  "task_message t tid = \<lparr>cm_type = t, cm_task_id = tid, cm_title = None, cm_tags = [(TAG_TASK, tid)]\<rparr>"

definition with_tag :: "string \<Rightarrow> string \<Rightarrow> commit_message \<Rightarrow> commit_message" where
  "with_tag k v m = m\<lparr>cm_tags := cm_tags m @ [(k, v)]\<rparr>"

definition format_subject :: "commit_message \<Rightarrow> string" where
  "format_subject m =
     (case nonempty (cm_title m) of
        Some title \<Rightarrow> commit_type_text (cm_type m) @ '': '' @ cm_task_id m @ '' - '' @ title
      | None \<Rightarrow> commit_type_text (cm_type m) @ '': '' @ cm_task_id m)"

definition format_trailer :: "commit_message \<Rightarrow> string" where
  "format_trailer m = join [CHR 0x0A] (map format_tag (cm_tags m))"

definition format_message :: "commit_message \<Rightarrow> string" where
  "format_message m =
     (if cm_tags m = [] then format_subject m
      else format_subject m @ [CHR 0x0A, CHR 0x0A] @ format_trailer m)"

definition tag_value :: "string \<Rightarrow> commit_message \<Rightarrow> string option" where
  "tag_value k m = map_option snd (List.find (\<lambda>t. fst t = k) (cm_tags m))"

definition is_merge :: "commit_message \<Rightarrow> bool" where
  "is_merge m = (tag_value TAG_MERGE m \<noteq> None)"

definition task_commit :: "commit_type \<Rightarrow> string \<Rightarrow> string option \<Rightarrow> string option \<Rightarrow> commit_message" where
  "task_commit t tid title phase =
     (let m = (task_message t tid)\<lparr>cm_title := title\<rparr>
      in case phase of None \<Rightarrow> m | Some p \<Rightarrow> with_tag TAG_PHASE p m)"

definition merge_commit :: "string \<Rightarrow> commit_message" where
  "merge_commit tid =
     \<lparr>cm_type = Ct_Macc, cm_task_id = tid, cm_title = Some (''merge task '' @ tid),
      cm_tags = [(TAG_TASK, tid), (TAG_MERGE, ''true'')]\<rparr>"

definition shell_commit_args :: "commit_message \<Rightarrow> string list" where
  "shell_commit_args m =
     [''-m'', format_subject m]
     @ (if cm_tags m = [] then [] else [''-m'', [], ''-m'', format_trailer m])"

section \<open>Reading the subject\<close>

text \<open>
  A run of white space, character by character, and what follows it (\<open>\s*\<close>).
\<close>

function take_ws :: "string \<Rightarrow> string list \<times> string" where
  "take_ws s =
     (case strip_one white_space s of
        None \<Rightarrow> ([], s)
      | Some r \<Rightarrow> (case take_ws r of (ws, rest) \<Rightarrow> (take (length s - length r) s # ws, rest)))"
  by pat_completeness auto
termination
  by (relation "measure length") (auto dest: strip_one_shorter)

declare take_ws.simps [simp del]

definition is_alpha :: "char \<Rightarrow> bool" where
  "is_alpha c = (let n = (of_char c :: nat) in 65 \<le> n \<and> n \<le> 90 \<or> 97 \<le> n \<and> n \<le> 122)"

definition id_char :: "char \<Rightarrow> bool" where
  "id_char c = (is_alpha c \<or> is_digit c \<or> c = CHR ''_'' \<or> c = CHR ''-'')"

text \<open>
  \<open>^(type):\s+(task_id)(?:\s+-\s+(title))?$\<close> on a subject, which is trimmed and has no newline: a title
  takes the rest of the subject.
\<close>

definition subject_title :: "string \<Rightarrow> string option option" where
  "subject_title s =
     (if s = [] then Some None
      else case take_ws s of
        (_ # _, c # r) \<Rightarrow>
          if c \<noteq> CHR ''-'' then None
          else (case take_ws r of (_ # _, t # ts) \<Rightarrow> Some (Some (t # ts)) | _ \<Rightarrow> None)
      | _ \<Rightarrow> None)"

definition subject_regex :: "string \<Rightarrow> (string \<times> string \<times> string option) option" where
  "subject_regex s =
     (let ty = takeWhile is_alpha s; r = dropWhile is_alpha s
      in if ty = [] then None
         else case r of
           [] \<Rightarrow> None
         | c # r1 \<Rightarrow>
             if c \<noteq> CHR '':'' then None
             else (case take_ws r1 of
                (_ # _, r2) \<Rightarrow>
                  (let tid = takeWhile id_char r2
                   in if tid = [] then None
                      else map_option (\<lambda>title. (ty, tid, title)) (subject_title (dropWhile id_char r2)))
              | _ \<Rightarrow> None))"

section \<open>Reading the tags\<close>

text \<open>
  \<open>\[macc:(key)\s+(value)\]\<close>: the key is a run of lower-case letters and underscores, the value runs to
  the next bracket.  Where only white space stands before the bracket, the last of it is the value.
\<close>

definition key_char :: "char \<Rightarrow> bool" where
  "key_char c = (let n = (of_char c :: nat) in 97 \<le> n \<and> n \<le> 122 \<or> c = CHR ''_'')"

definition not_close :: "char \<Rightarrow> bool" where
  "not_close c = (c \<noteq> CHR '']'')"

definition tag_rest :: "string list \<Rightarrow> string \<Rightarrow> (string \<times> string) option" where
  "tag_rest ws r =
     (let v = takeWhile not_close r; r' = dropWhile not_close r
      in if ws = [] \<or> r' = [] then None
         else if v \<noteq> [] then Some (v, tl r')
         else if 2 \<le> length ws then Some (last ws, tl r')
         else None)"

definition tag_at :: "string \<Rightarrow> (macc_tag \<times> string) option" where
  "tag_at s =
     Option.bind (strip_prefix ''[macc:'' s) (\<lambda>r.
       if takeWhile key_char r = [] then None
       else (case take_ws (dropWhile key_char r) of (ws, r2) \<Rightarrow>
               map_option (\<lambda>(v, u). ((takeWhile key_char r, v), u)) (tag_rest ws r2)))"

lemma strip_prefix_length: "strip_prefix p s = Some r \<Longrightarrow> length s = length p + length r"
  by (auto simp: strip_prefix_def prefix_of_iff split: if_splits)

lemma take_ws_length: "length (snd (take_ws s)) \<le> length s"
proof (induction s rule: take_ws.induct)
  case (1 s)
  show ?case
  proof (cases "strip_one white_space s")
    case None
    then show ?thesis by (simp add: take_ws.simps [of s])
  next
    case (Some r)
    then have "length r < length s" by (rule strip_one_shorter)
    then show ?thesis using 1 [OF Some] Some by (cases "take_ws r") (simp add: take_ws.simps [of s])
  qed
qed

lemma tag_at_shorter: "tag_at s = Some (t, r) \<Longrightarrow> length r < length s"
proof -
  assume "tag_at s = Some (t, r)"
  then obtain u v where u: "strip_prefix ''[macc:'' s = Some u"
      "tag_rest (fst (take_ws (dropWhile key_char u))) (snd (take_ws (dropWhile key_char u))) = Some (v, r)"
    by (auto simp: tag_at_def bind_eq_Some_conv case_prod_beta split: if_splits)
  let ?r2 = "snd (take_ws (dropWhile key_char u))"
  have r: "r = tl (dropWhile not_close ?r2)" using u(2) by (auto simp: tag_rest_def Let_def split: if_splits)
  have "length ?r2 \<le> length (dropWhile key_char u)" by (rule take_ws_length)
  moreover have "length (dropWhile key_char u) \<le> length u" by (rule length_dropWhile_le)
  moreover have "length (dropWhile not_close ?r2) \<le> length ?r2" by (rule length_dropWhile_le)
  ultimately show "length r < length s" using strip_prefix_length [OF u(1)] r by simp
qed

text \<open>\<open>captures_iter\<close>: the leftmost match, then on behind it.\<close>

function tags_in :: "string \<Rightarrow> macc_tag list" where
  "tags_in [] = []"
| "tags_in (c # s) = (case tag_at (c # s) of None \<Rightarrow> tags_in s | Some (t, r) \<Rightarrow> t # tags_in r)"
  by pat_completeness auto
termination
  by (relation "measure length") (auto dest: tag_at_shorter)

section \<open>Identifiers in free text\<close>

text \<open>
  The characters of a UTF-8 text: a byte and the continuation bytes behind it.
\<close>

definition continuation :: "char \<Rightarrow> bool" where
  "continuation c = (let n = (of_char c :: nat) in 128 \<le> n \<and> n < 192)"

function utf8_chars :: "string \<Rightarrow> string list" where
  "utf8_chars [] = []"
| "utf8_chars (c # s) = (c # takeWhile continuation s) # utf8_chars (dropWhile continuation s)"
  by pat_completeness auto
termination
  by (relation "measure length") (auto simp: less_Suc_eq_le length_dropWhile_le)

text \<open>
  Case-insensitive letters: under Unicode folding the long s and the Kelvin sign are an s and a k.
\<close>

definition fold_char :: "string \<Rightarrow> string" where
  "fold_char u =
     (if u = [CHR 0xC5, CHR 0xBF] then ''s''
      else if u = [CHR 0xE2, CHR 0x84, CHR 0xAA] then ''k''
      else to_ascii_lowercase u)"

definition letter :: "string \<Rightarrow> bool" where
  "letter u = (case fold_char u of [c] \<Rightarrow> 97 \<le> (of_char c :: nat) \<and> (of_char c :: nat) \<le> 122 | _ \<Rightarrow> False)"

definition letter_or_digit :: "string \<Rightarrow> bool" where
  "letter_or_digit u = (letter u \<or> (case u of [c] \<Rightarrow> is_digit c | _ \<Rightarrow> False))"

text \<open>
  \<open>(?i)\b([A-Z][A-Z0-9]*(?:-[A-Z0-9]+)+)\b\<close>: groups of letters and digits joined by hyphens.  Only the
  last group can be followed by another word character (which is neither letter nor digit); then the
  match ends before it.  \<open>word\<close> is the Unicode class of word characters.
\<close>

fun id_groups :: "nat \<Rightarrow> (string \<Rightarrow> bool) \<Rightarrow> string list \<Rightarrow> string list list" where
  "id_groups 0 word us = []"
| "id_groups (Suc n) word us =
     (case us of
        h # r \<Rightarrow>
          (let g = takeWhile letter_or_digit r; rest = dropWhile letter_or_digit r
           in if h \<noteq> ''-'' \<or> g = [] then []
              else if rest \<noteq> [] \<and> word (hd rest) then []
              else g # id_groups n word rest)
      | [] \<Rightarrow> [])"

definition legacy_at :: "(string \<Rightarrow> bool) \<Rightarrow> string list \<Rightarrow> string option" where
  "legacy_at word us =
     (case us of
        [] \<Rightarrow> None
      | u # _ \<Rightarrow>
          if \<not> letter u then None
          else (let g = takeWhile letter_or_digit us;
                    gs = id_groups (length us) word (dropWhile letter_or_digit us)
                in if gs = [] then None
                   else Some (concat g @ concat (map (\<lambda>x. ''-'' @ concat x) gs))))"

fun legacy_from :: "(string \<Rightarrow> bool) \<Rightarrow> bool \<Rightarrow> string list \<Rightarrow> string option" where
  "legacy_from word after [] = None"
| "legacy_from word after (u # us) =
     (case (if after then None else legacy_at word (u # us)) of
        Some tid \<Rightarrow> Some tid
      | None \<Rightarrow> legacy_from word (word u) us)"

definition extract_task_id_legacy :: "(string \<Rightarrow> bool) \<Rightarrow> string \<Rightarrow> string option" where
  "extract_task_id_legacy word subject = legacy_from word False (utf8_chars subject)"

section \<open>Parsing a message\<close>

record parsed_commit =
  pc_message :: "commit_message option"
  pc_task_id :: "string option"
  pc_tags :: "(string, string) btree"
  pc_subject :: string

definition subject_of :: "string \<Rightarrow> string" where
  "subject_of raw = (case str_lines raw of [] \<Rightarrow> [] | l # _ \<Rightarrow> trim l)"

definition tag_map :: "macc_tag list \<Rightarrow> (string, string) btree" where
  "tag_map ts = fold (\<lambda>(k, v). bt_insert k v) ts []"

definition message_of :: "string \<Rightarrow> macc_tag list \<Rightarrow> commit_message option" where
  "message_of subject ts =
     Option.bind (subject_regex subject) (\<lambda>(ty, tid, title).
       map_option (\<lambda>t. \<lparr>cm_type = t, cm_task_id = tid, cm_title = title,
           cm_tags = (if list_ex (\<lambda>x. fst x = TAG_TASK) ts then ts else (TAG_TASK, tid) # ts)\<rparr>)
         (parse_commit_type ty))"

definition parse_message :: "(string \<Rightarrow> bool) \<Rightarrow> string \<Rightarrow> parsed_commit" where
  "parse_message word raw =
     (let subject = subject_of raw; ts = tags_in raw; tags = tag_map ts; m = message_of subject ts
      in \<lparr>pc_message = m,
          pc_task_id = or_else (bt_get tags TAG_TASK)
            (or_else (map_option cm_task_id m) (extract_task_id_legacy word subject)),
          pc_tags = tags, pc_subject = subject\<rparr>)"

section \<open>Which commits deliver a task\<close>

text \<open>
  The prefix of an unfinished commit: \<open>wip\<close>, \<open>draft\<close>, \<open>partial\<close> or \<open>checkpoint\<close>, in brackets or not,
  with a scope in parentheses or not, then white space, a colon, an exclamation mark or the end; or
  \<open>fixup!\<close>, \<open>squash!\<close>, \<open>revert\<close>.  The text is folded to lower case first.
\<close>

definition folded :: "string \<Rightarrow> string" where
  "folded s = concat (map fold_char (utf8_chars s))"

definition strip_opt :: "char \<Rightarrow> string \<Rightarrow> string" where
  "strip_opt c s = (case s of d # r \<Rightarrow> if d = c then r else s | [] \<Rightarrow> [])"

definition skip_scope :: "string \<Rightarrow> string" where
  "skip_scope s =
     (case s of
        d # r \<Rightarrow>
          if d = CHR ''('' \<and> dropWhile (\<lambda>c. c \<noteq> CHR '')'') r \<noteq> []
          then tl (dropWhile (\<lambda>c. c \<noteq> CHR '')'') r) else s
      | [] \<Rightarrow> [])"

definition ends_marker :: "string \<Rightarrow> string \<Rightarrow> bool" where
  "ends_marker cs s = (case s of [] \<Rightarrow> True | c # _ \<Rightarrow> c \<in> set cs \<or> strip_one white_space s \<noteq> None)"

definition checkpoint_prefix :: "string \<Rightarrow> bool" where
  "checkpoint_prefix raw =
     (let s = folded raw; b = strip_opt (CHR ''['') s
      in list_ex (\<lambda>w. case strip_prefix w b of
             None \<Rightarrow> False
           | Some r \<Rightarrow> ends_marker '':!'' (skip_scope (strip_opt (CHR '']'') r)))
           [''wip'', ''draft'', ''partial'', ''checkpoint'']
         \<or> prefix_of ''fixup!'' s \<or> prefix_of ''squash!'' s
         \<or> (case strip_prefix ''revert'' s of None \<Rightarrow> False | Some r \<Rightarrow> ends_marker '':'' r))"

definition is_unfinished :: "parsed_commit \<Rightarrow> bool" where
  "is_unfinished p =
     (checkpoint_prefix (pc_subject p)
      \<or> (case Option.bind (pc_message p) cm_title of None \<Rightarrow> False | Some t \<Rightarrow> checkpoint_prefix t)
      \<or> (case bt_get (pc_tags p) ''phase'' of
           None \<Rightarrow> False
         | Some v \<Rightarrow> to_ascii_lowercase v \<in> {''wip'', ''draft'', ''partial'', ''checkpoint''})
      \<or> (case bt_get (pc_tags p) ''wip'' of None \<Rightarrow> False | Some v \<Rightarrow> to_ascii_lowercase v = ''true'')
      \<or> (case bt_get (pc_tags p) ''validation'' of None \<Rightarrow> False | Some v \<Rightarrow> v \<noteq> ''true'')
      \<or> (case bt_get (pc_tags p) ''result'' of
           None \<Rightarrow> False
         | Some v \<Rightarrow> v \<notin> {''success_with_changes'', ''success_without_changes'', ''already_satisfied''}))"

text \<open>\<open>task_id\<close> of \<open>commit_completion.rs\<close>.\<close>

definition delivered_task :: "(string \<Rightarrow> bool) \<Rightarrow> string \<Rightarrow> string option" where
  "delivered_task word raw =
     (let p = parse_message word raw
      in if is_unfinished p then None
         else if bt_get (pc_tags p) TAG_TASK = None \<and> pc_message p = None
                 \<and> \<not> prefix_of ''macc: merge task '' (to_ascii_lowercase (pc_subject p))
         then None
         else pc_task_id p)"

definition entry_or_insert :: "'k::linorder \<Rightarrow> 'v \<Rightarrow> ('k, 'v) btree \<Rightarrow> ('k, 'v) btree" where
  "entry_or_insert k v m = (if bt_get m k = None then bt_insert k v m else m)"

definition note_message :: "(string \<Rightarrow> bool) \<Rightarrow> string \<Rightarrow> (string, bool) btree \<Rightarrow> (string, bool) btree" where
  "note_message word raw latest =
     (let p = parse_message word raw; completed = delivered_task word raw \<noteq> None
      in if completed \<or> is_unfinished p
         then (case pc_task_id p of None \<Rightarrow> latest | Some tid \<Rightarrow> entry_or_insert tid completed latest)
         else latest)"

text \<open>Messages come newest first.\<close>

definition unfinished_task_ids :: "(string \<Rightarrow> bool) \<Rightarrow> string list \<Rightarrow> string list" where
  "unfinished_task_ids word messages =
     map fst (filter (\<lambda>(tid, complete). \<not> complete) (fold (note_message word) messages []))"

section \<open>White space at the ends\<close>

lemma strip_one_iff: "strip_one ps s \<noteq> None \<longleftrightarrow> (\<exists>p \<in> set ps. p \<noteq> [] \<and> prefix_of p s)"
  by (induction ps) auto

text \<open>A character that occurs in no longer pattern separates what stands before it.\<close>

lemma strip_one_guard:
  assumes "\<forall>p \<in> set ps. c \<in> set p \<longrightarrow> length p = 1" "s \<noteq> []"
  shows "strip_one ps (s @ c # r) = None \<longleftrightarrow> strip_one ps s = None"
proof -
  have "prefix_of p (s @ c # r) \<longleftrightarrow> prefix_of p s" if p: "p \<in> set ps" "p \<noteq> []" for p
  proof
    assume "prefix_of p (s @ c # r)"
    then have t: "take (length p) (s @ c # r) = p" by (simp add: prefix_of_def)
    show "prefix_of p s"
    proof (cases "length p \<le> length s")
      case True
      then show ?thesis using t by (simp add: prefix_of_def)
    next
      case False
      then obtain n where "length p - length s = Suc n" by (cases "length p - length s") auto
      then have "p = s @ c # take n r" using t by simp
      then have "c \<in> set p" "length p \<noteq> 1" using assms(2) by (cases s; simp)+
      with assms(1) p show ?thesis by blast
    qed
  qed (auto simp: prefix_of_iff)
  then show ?thesis using strip_one_iff [of ps "s @ c # r"] strip_one_iff [of ps s] by metis
qed

lemma space_guard:
  "\<forall>p \<in> set white_space. CHR '' '' \<in> set p \<longrightarrow> length p = 1"
  "\<forall>p \<in> set (map rev white_space). CHR '' '' \<in> set p \<longrightarrow> length p = 1"
  "\<forall>p \<in> set white_space. CHR '']'' \<in> set p \<longrightarrow> length p = 1"
  by (simp_all add: white_space_def)

lemma trim_start_length: "length (trim_start s) \<le> length s"
  by (simp add: trim_start_def strip_all_length)

lemma trim_end_length: "length (trim_end s) \<le> length s"
  unfolding trim_end_def using strip_all_length [of "map rev white_space" "rev s"] by simp

lemma trim_fixed:
  assumes "trim s = s"
  shows "strip_one white_space s = None" "strip_one (map rev white_space) (rev s) = None"
proof -
  obtain p where p: "s = p @ trim_start s" unfolding trim_start_def using strip_all_suffix by blast
  have "length s \<le> length (trim_start s)"
    using assms trim_end_length [of "trim_start s"] by (simp add: trim_def)
  with p have "p = []" by (metis add_le_same_cancel2 le_zero_eq length_0_conv length_append)
  with p have start: "trim_start s = s" by simp
  then show "strip_one white_space s = None" by (metis strip_all_stable trim_start_def)
  have "trim_end s = s" using assms start by (simp add: trim_def)
  then have "strip_all (map rev white_space) (rev s) = rev s" by (metis rev_rev_ident trim_end_def)
  then show "strip_one (map rev white_space) (rev s) = None" by (metis strip_all_stable)
qed

lemma cr_space: "strip_one (map rev white_space) (CHR 0x0D # u) \<noteq> None"
proof -
  have "[CHR 0x0D] \<in> set (map rev white_space)" by (simp add: white_space_def)
  moreover have "[CHR 0x0D] \<noteq> [] \<and> prefix_of [CHR 0x0D] (CHR 0x0D # u)" by simp
  ultimately show ?thesis using strip_one_iff by metis
qed

lemma trim_of_ends:
  "strip_one white_space s = None \<Longrightarrow> strip_one (map rev white_space) (rev s) = None \<Longrightarrow> trim s = s"
  by (simp add: trim_def trim_start_def trim_end_def strip_all_None)

lemma graphic_not_space:
  "graphic c \<Longrightarrow> strip_one white_space (c # s) = None"
  "graphic c \<Longrightarrow> strip_one (map rev white_space) (c # s) = None"
  using white_space_not_graphic by (auto intro!: strip_one_None simp: hd_rev)

lemma take_ws_none: "strip_one white_space s = None \<Longrightarrow> take_ws s = ([], s)"
  by (simp add: take_ws.simps [of s])

lemma take_ws_space:
  "strip_one white_space s = None \<Longrightarrow> take_ws (CHR '' '' # s) = ([[CHR '' '']], s)"
  by (simp add: take_ws.simps [of "CHR '' '' # s"] white_space_def take_ws_none)

section \<open>What is written is read back\<close>

definition tag_ok :: "macc_tag \<Rightarrow> bool" where
  "tag_ok t =
     (fst t \<noteq> [] \<and> list_all key_char (fst t) \<and> snd t \<noteq> [] \<and> list_all not_close (snd t)
      \<and> strip_one white_space (snd t) = None)"

lemma key_not_space [simp]: "\<not> key_char CHR '' ''"
  by (simp add: key_char_def)

lemma takeWhile_stop: "list_all P xs \<Longrightarrow> \<not> P y \<Longrightarrow> takeWhile P (xs @ y # ys) = xs \<and> dropWhile P (xs @ y # ys) = y # ys"
  by (induction xs) auto

lemma strip_prefix_append [simp]: "strip_prefix p (p @ s) = Some s"
  by (simp add: strip_prefix_def)

lemma tag_at_format: "tag_ok t \<Longrightarrow> tag_at (format_tag t @ r) = Some (t, r)"
proof -
  assume ok: "tag_ok t"
  obtain k v where t: "t = (k, v)" by (cases t)
  have shape: "format_tag t @ r = ''[macc:'' @ (k @ CHR '' '' # (v @ CHR '']'' # r))" by (simp add: format_tag_def t)
  have key: "takeWhile key_char (k @ CHR '' '' # (v @ CHR '']'' # r)) = k"
      "dropWhile key_char (k @ CHR '' '' # (v @ CHR '']'' # r)) = CHR '' '' # (v @ CHR '']'' # r)"
    using ok takeWhile_stop [of key_char k "CHR '' ''"] by (simp_all add: tag_ok_def t)
  have "strip_one white_space (v @ CHR '']'' # r) = None"
    using strip_one_guard [OF space_guard(3), of v] ok by (simp add: tag_ok_def t)
  then have ws: "take_ws (CHR '' '' # (v @ CHR '']'' # r)) = ([[CHR '' '']], v @ CHR '']'' # r)"
    by (rule take_ws_space)
  have "tag_rest [[CHR '' '']] (v @ CHR '']'' # r) = Some (v, r)"
    using ok takeWhile_stop [of not_close v "CHR '']''"] by (simp add: tag_rest_def tag_ok_def t not_close_def)
  then show ?thesis
    unfolding shape tag_at_def strip_prefix_append bind.bind_lunit key ws using ok by (simp add: tag_ok_def t)
qed

lemma tag_at_none: "\<not> prefix_of ''[macc:'' s \<Longrightarrow> tag_at s = None"
  by (simp add: tag_at_def strip_prefix_def)

lemma prefix_of_line: "c \<notin> set p \<Longrightarrow> prefix_of p (s @ c # r) \<Longrightarrow> prefix_of p s"
proof (induction p arbitrary: s)
  case (Cons a p)
  then show ?case by (cases s) auto
qed simp

lemma tags_in_skip_line:
  "\<not> str_contains s ''[macc:'' \<Longrightarrow> tags_in (s @ CHR 0x0A # r) = tags_in (CHR 0x0A # r)"
proof (induction s)
  case (Cons c s)
  then have "\<not> prefix_of ''[macc:'' (c # s)" by simp
  then have "\<not> prefix_of ''[macc:'' ((c # s) @ CHR 0x0A # r)"
    using prefix_of_line [of "CHR 0x0A" "''[macc:''" "c # s" r] by auto
  then show ?case using Cons tag_at_none by simp
qed simp

lemma tags_in_newline [simp]: "tags_in (CHR 0x0A # r) = tags_in r"
  by (simp add: tag_at_none)

lemma tags_in_tag: "tag_ok t \<Longrightarrow> tags_in (format_tag t @ r) = t # tags_in r"
proof -
  assume ok: "tag_ok t"
  obtain c s where "format_tag t @ r = c # s" by (simp add: format_tag_def)
  then show ?thesis using tag_at_format [OF ok, of r] by simp
qed

lemma tags_in_trailer: "list_all tag_ok ts \<Longrightarrow> tags_in (join [CHR 0x0A] (map format_tag ts)) = ts"
proof (induction ts rule: induct_list012)
  case (2 t)
  then show ?case using tags_in_tag [of t "[]"] by simp
next
  case (3 t u ts)
  then show ?case using tags_in_tag [of t] by (simp del: tags_in.simps(2))
qed simp

definition title_ok :: "string \<Rightarrow> bool" where
  "title_ok t = (t \<noteq> [] \<and> trim t = t \<and> CHR 0x0A \<notin> set t \<and> \<not> str_contains t ''[macc:'')"

definition message_ok :: "commit_message \<Rightarrow> bool" where
  "message_ok m =
     (cm_task_id m \<noteq> [] \<and> list_all id_char (cm_task_id m) \<and> pred_option title_ok (cm_title m)
      \<and> list_all tag_ok (cm_tags m) \<and> list_ex (\<lambda>t. fst t = TAG_TASK) (cm_tags m))"

lemma id_char_graphic: "id_char c \<Longrightarrow> graphic c"
  by (auto simp: id_char_def is_alpha_def is_digit_def graphic_def Let_def)

lemma id_char_not:
  "\<not> id_char CHR '' ''" "\<not> id_char CHR ''[''" "\<not> id_char CHR 0x0A"
  by (simp_all add: id_char_def is_alpha_def is_digit_def)

lemma type_text_alpha: "list_all is_alpha (commit_type_text t) \<and> commit_type_text t \<noteq> []"
  by (cases t) (simp_all add: is_alpha_def)

lemma parse_type_text: "parse_commit_type (commit_type_text t) = Some t"
proof -
  have "plain_word (commit_type_text t)"
    by (cases t) (simp_all add: plain_word_def graphic_def no_capital_def)
  then have "to_ascii_lowercase (trim (commit_type_text t)) = commit_type_text t"
    by (simp add: trim_plain lower_plain)
  then show ?thesis by (cases t) (simp_all add: parse_commit_type_def commit_types_def)
qed

lemma hd_dropWhile_stop: "list_all P xs \<Longrightarrow> xs \<noteq> [] \<Longrightarrow> takeWhile P xs = xs \<and> dropWhile P xs = []"
  by (simp add: list_all_iff)

lemma subject_regex_head:
  assumes "list_all id_char tid" "tid \<noteq> []" "rest = [] \<or> (\<exists>r. rest = CHR '' '' # r)"
  shows "subject_regex (commit_type_text t @ '': '' @ tid @ rest) =
    map_option (\<lambda>title. (commit_type_text t, tid, title)) (subject_title rest)"
proof -
  obtain c cs where tid: "tid = c # cs" using assms(2) by (cases tid) auto
  have "takeWhile is_alpha (commit_type_text t @ CHR '':'' # '' '' @ tid @ rest) = commit_type_text t
      \<and> dropWhile is_alpha (commit_type_text t @ CHR '':'' # '' '' @ tid @ rest) = CHR '':'' # '' '' @ tid @ rest"
    using type_text_alpha by (intro takeWhile_stop) (simp_all add: is_alpha_def)
  moreover have "take_ws (CHR '' '' # (tid @ rest)) = ([[CHR '' '']], tid @ rest)"
    using assms(1) tid graphic_not_space(1) [of c] id_char_graphic [of c] by (intro take_ws_space) simp
  moreover have "takeWhile id_char (tid @ rest) = tid \<and> dropWhile id_char (tid @ rest) = rest"
    using assms takeWhile_stop [of id_char tid "CHR '' ''"] hd_dropWhile_stop [of id_char tid] id_char_not(1) by auto
  ultimately show ?thesis
    using assms(2) type_text_alpha [of t] by (simp add: subject_regex_def Let_def)
qed

lemma subject_title_dash: "title_ok t \<Longrightarrow> subject_title ('' - '' @ t) = Some (Some t)"
proof -
  assume t: "title_ok t"
  then obtain c cs where c: "t = c # cs" by (cases t) (auto simp: title_ok_def)
  have "strip_one white_space t = None" using t trim_fixed(1) by (simp add: title_ok_def)
  then have "take_ws (CHR '' '' # t) = ([[CHR '' '']], t)" by (rule take_ws_space)
  moreover have "take_ws (CHR '' '' # CHR ''-'' # CHR '' '' # t) = ([[CHR '' '']], CHR ''-'' # CHR '' '' # t)"
    by (intro take_ws_space graphic_not_space) (simp add: graphic_def)
  ultimately show ?thesis by (simp add: subject_title_def c)
qed

lemma subject_regex_format:
  assumes "message_ok m"
  shows "subject_regex (format_subject m) = Some (commit_type_text (cm_type m), cm_task_id m, cm_title m)"
proof (cases "cm_title m")
  case None
  then show ?thesis
    using subject_regex_head [of "cm_task_id m" "[]" "cm_type m"] assms
    by (simp add: message_ok_def format_subject_def subject_title_def)
next
  case (Some t)
  then have "title_ok t" using assms by (simp add: message_ok_def)
  then show ?thesis
    using subject_regex_head [of "cm_task_id m" "'' - '' @ t" "cm_type m"] subject_title_dash [of t] assms Some
    by (simp add: message_ok_def format_subject_def title_ok_def nonempty_def)
qed

lemma trim_subject: "message_ok m \<Longrightarrow> trim (format_subject m) = format_subject m"
proof -
  assume ok: "message_ok m"
  obtain c cs where c: "commit_type_text (cm_type m) = c # cs" "is_alpha c"
    using type_text_alpha [of "cm_type m"] by (cases "commit_type_text (cm_type m)") auto
  then have g: "graphic c" by (auto simp: is_alpha_def graphic_def Let_def)
  have start: "strip_one white_space (format_subject m) = None"
    using graphic_not_space(1) [OF g] c by (simp add: format_subject_def split: option.split)
  have "strip_one (map rev white_space) (rev (format_subject m)) = None"
  proof (cases "cm_title m")
    case None
    obtain d ds where d: "rev (cm_task_id m) = d # ds" using ok by (cases "rev (cm_task_id m)") (auto simp: message_ok_def)
    then have "d \<in> set (cm_task_id m)" by (metis list.set_intros(1) set_rev)
    then have "graphic d" using ok id_char_graphic by (auto simp: message_ok_def list_all_iff)
    then show ?thesis using d None graphic_not_space(2) by (simp add: format_subject_def)
  next
    case (Some t)
    then have t: "title_ok t" using ok by (simp add: message_ok_def)
    then have "strip_one (map rev white_space) (rev t @ CHR '' '' # u) = None" for u
      using strip_one_guard [OF space_guard(2), of "rev t"] trim_fixed(2) [of t] by (simp add: title_ok_def)
    then show ?thesis using Some t by (simp add: format_subject_def nonempty_def title_ok_def)
  qed
  with start show ?thesis by (rule trim_of_ends)
qed

lemma no_newline_subject: "message_ok m \<Longrightarrow> CHR 0x0A \<notin> set (format_subject m)"
proof -
  assume ok: "message_ok m"
  have "CHR 0x0A \<notin> set (cm_task_id m)" using ok id_char_not(3) by (auto simp: message_ok_def list_all_iff)
  moreover have "CHR 0x0A \<notin> set (commit_type_text (cm_type m))" by (cases "cm_type m") simp_all
  ultimately show ?thesis using ok
    by (auto simp: format_subject_def message_ok_def title_ok_def nonempty_def split: option.split)
qed

lemma contains_append_letter:
  "\<not> str_contains t (c # p) \<Longrightarrow> c \<notin> set s \<Longrightarrow> \<not> str_contains (s @ t) (c # p)"
  by (induction s) auto

lemma no_tag_subject: "message_ok m \<Longrightarrow> \<not> str_contains (format_subject m) ''[macc:''"
proof -
  assume ok: "message_ok m"
  let ?h = "commit_type_text (cm_type m) @ '': '' @ cm_task_id m"
  have h: "CHR ''['' \<notin> set ?h"
    using ok id_char_not(2) by (cases "cm_type m") (auto simp: message_ok_def list_all_iff)
  show ?thesis
  proof (cases "cm_title m")
    case None
    then show ?thesis using contains_append_letter [of "[]" _ _ ?h, OF _ h] by (simp add: format_subject_def)
  next
    case (Some t)
    then have "\<not> str_contains t ''[macc:''" "t \<noteq> []" using ok by (simp_all add: message_ok_def title_ok_def)
    then show ?thesis
      using contains_append_letter [of t _ _ "?h @ '' - ''"] h Some by (simp add: format_subject_def nonempty_def)
  qed
qed

lemma split_on_line: "CHR 0x0A \<notin> set s \<Longrightarrow>
  split_on (\<lambda>c. c = CHR 0x0A) (s @ CHR 0x0A # r) = s # split_on (\<lambda>c. c = CHR 0x0A) r"
  by (induction s) auto

text \<open>The last tag with a key is the one the parser keeps.\<close>

lemma get_tag_map: "bt_get (tag_map ts) k = map_of (rev ts) k"
  using bt.fold_ins_get [of "[]" ts] by (simp add: tag_map_def bt_get_def [of "[]", abs_def])

lemma format_parses:
  assumes "message_ok m"
  shows "pc_message (parse_message word (format_message m)) = Some m
    \<and> pc_subject (parse_message word (format_message m)) = format_subject m
    \<and> pc_tags (parse_message word (format_message m)) = tag_map (cm_tags m)
    \<and> pc_task_id (parse_message word (format_message m)) = bt_get (tag_map (cm_tags m)) TAG_TASK"
proof -
  have tags: "cm_tags m \<noteq> []" "list_all tag_ok (cm_tags m)" "list_ex (\<lambda>t. fst t = TAG_TASK) (cm_tags m)"
    using assms by (auto simp: message_ok_def)
  have f: "format_message m = format_subject m @ CHR 0x0A # CHR 0x0A # format_trailer m"
    using tags by (simp add: format_message_def)
  have "str_lines (format_message m) = chomp_cr (format_subject m)
      # tl (str_lines (format_message m))"
    unfolding f str_lines_def split_on_line [OF no_newline_subject [OF assms]] by (simp add: Let_def)
  moreover have "chomp_cr (format_subject m) = format_subject m"
  proof -
    have "last (format_subject m) \<noteq> CHR 0x0D" if "format_subject m \<noteq> []"
    proof
      assume l: "last (format_subject m) = CHR 0x0D"
      have "rev (format_subject m) \<noteq> []" using that by simp
      then obtain d u where u: "rev (format_subject m) = d # u" by (meson list.exhaust)
      have "hd (rev (format_subject m)) = last (format_subject m)" by (rule hd_rev)
      then have "d = CHR 0x0D" using l u by simp
      moreover have "strip_one (map rev white_space) (d # u) = None"
        using trim_fixed(2) [OF trim_subject [OF assms]] unfolding u .
      ultimately show False using cr_space [of u] by blast
    qed
    then show ?thesis by (auto simp: chomp_cr_def)
  qed
  ultimately have subject: "subject_of (format_message m) = format_subject m"
    using trim_subject [OF assms] by (metis subject_of_def list.simps(5))
  have "tags_in (format_message m) = cm_tags m"
    unfolding f tags_in_skip_line [OF no_tag_subject [OF assms]] tags_in_newline format_trailer_def
    using tags(2) by (rule tags_in_trailer)
  moreover have "message_of (format_subject m) (cm_tags m) = Some m"
    using subject_regex_format [OF assms] parse_type_text tags(3) by (simp add: message_of_def)
  moreover have "bt_get (tag_map (cm_tags m)) TAG_TASK \<noteq> None"
    using tags(3) by (auto simp: get_tag_map map_of_eq_None_iff list_ex_iff intro!: rev_image_eqI)
  ultimately show ?thesis using subject by (auto simp: parse_message_def Let_def or_else_def)
qed

text \<open>C22: A well-formed commit message survives git: what is formatted parses back to the same message, with
  the same type, task, title and tags, and the task its task tag names is the task the parser reports.\<close>

theorem message_roundtrip:
  assumes "message_ok m"
  shows "pc_message (parse_message word (format_message m)) = Some m
    \<and> pc_subject (parse_message word (format_message m)) = format_subject m
    \<and> pc_tags (parse_message word (format_message m)) = tag_map (cm_tags m)
    \<and> pc_task_id (parse_message word (format_message m)) = bt_get (tag_map (cm_tags m)) TAG_TASK"
  using format_parses [OF assms] .

section \<open>Delivery\<close>

text \<open>What marks a message as unfinished work: its title or one of its tags.\<close>

definition marked_unfinished :: "commit_message \<Rightarrow> bool" where
  "marked_unfinished m =
     (let tag = map_of (rev (cm_tags m))
      in (\<exists>t. cm_title m = Some t \<and> checkpoint_prefix t)
         \<or> (\<exists>v. tag ''phase'' = Some v \<and> to_ascii_lowercase v \<in> {''wip'', ''draft'', ''partial'', ''checkpoint''})
         \<or> (\<exists>v. tag ''wip'' = Some v \<and> to_ascii_lowercase v = ''true'')
         \<or> (\<exists>v. tag ''validation'' = Some v \<and> v \<noteq> ''true'')
         \<or> (\<exists>v. tag ''result'' = Some v \<and> v \<notin> {''success_with_changes'', ''success_without_changes'', ''already_satisfied''}))"

lemma folded_ascii:
  "\<not> continuation d \<Longrightarrow> folded (c # d # s) = fold_char [c] @ folded (d # s)"
  by (simp add: folded_def)

lemma fold_char_byte: "fold_char [c] = [lower_char c]"
  by (simp add: fold_char_def to_ascii_lowercase_def)

lemma not_continuation: "graphic c \<Longrightarrow> \<not> continuation c"
  by (auto simp: graphic_def continuation_def Let_def)

text \<open>A subject in the conventional form starts with its type, and no type reads as a marker.\<close>

lemma folded_type:
  assumes "graphic c"
  shows "folded (commit_type_text t @ '': '' @ c # s) = commit_type_text t @ '': '' @ folded (c # s)"
  using assms not_continuation [OF assms]
  by (cases t) (simp_all add: folded_ascii fold_char_byte continuation_def lower_char_def)

lemma conventional_no_checkpoint:
  assumes "graphic c"
  shows "\<not> checkpoint_prefix (commit_type_text t @ '': '' @ c # s)"
  unfolding checkpoint_prefix_def folded_type [OF assms]
  by (cases t) (simp_all add: strip_opt_def strip_prefix_def)

lemma subject_no_checkpoint: "message_ok m \<Longrightarrow> \<not> checkpoint_prefix (format_subject m)"
proof -
  assume ok: "message_ok m"
  then obtain c cs where c: "cm_task_id m = c # cs" "graphic c"
    using id_char_graphic by (cases "cm_task_id m") (auto simp: message_ok_def)
  then show ?thesis
    using conventional_no_checkpoint [OF c(2), of "cm_type m"] by (simp add: format_subject_def split: option.split)
qed

lemma delivered_format:
  assumes "message_ok m"
  shows "delivered_task word (format_message m) =
    (if marked_unfinished m then None else map_of (rev (cm_tags m)) TAG_TASK)"
proof -
  let ?p = "parse_message word (format_message m)"
  note rt = format_parses [OF assms, of word]
  have "is_unfinished ?p = marked_unfinished m"
    using rt subject_no_checkpoint [OF assms]
    by (auto simp: is_unfinished_def marked_unfinished_def get_tag_map Let_def split: option.split)
  then show ?thesis using rt by (simp add: delivered_task_def Let_def get_tag_map)
qed

text \<open>A well-formed commit delivers exactly the task its task tag names, and it does so unless its title or
  one of its tags marks it as unfinished: a checkpoint never completes a task, whatever task it names.\<close>

theorem delivery_of_message:
  assumes "message_ok m"
  shows "delivered_task word (format_message m) =
    (if marked_unfinished m then None else map_of (rev (cm_tags m)) TAG_TASK)"
  using delivered_format [OF assms] .

lemma id_tag_ok: "tid \<noteq> [] \<Longrightarrow> list_all id_char tid \<Longrightarrow> fst t \<noteq> [] \<Longrightarrow> list_all key_char (fst t) \<Longrightarrow> snd t = tid \<Longrightarrow> tag_ok t"
proof -
  assume t: "tid \<noteq> []" "list_all id_char tid" "fst t \<noteq> []" "list_all key_char (fst t)" "snd t = tid"
  obtain c cs where c: "tid = c # cs" using t(1) by (cases tid) auto
  have "\<not> id_char CHR '']''" by (simp add: id_char_def is_alpha_def is_digit_def)
  then have "list_all not_close tid" using t(2) by (auto simp: list_all_iff not_close_def)
  moreover have "strip_one white_space tid = None"
    using t(2) c graphic_not_space(1) [of c] id_char_graphic [of c] by simp
  ultimately show "tag_ok t" using t by (simp add: tag_ok_def)
qed

lemma merge_commit_ok:
  assumes "tid \<noteq> []" "list_all id_char tid"
  shows "message_ok (merge_commit tid)" "\<not> checkpoint_prefix (''merge task '' @ tid)"
proof -
  obtain c cs where c: "tid = c # cs" "graphic c"
    using assms id_char_graphic by (cases tid) auto
  have last: "graphic (last tid)" using assms id_char_graphic by (simp add: list_all_iff)
  have "trim (''merge task '' @ tid) = ''merge task '' @ tid"
    using assms(1) last by (intro trim_graphic) (simp_all add: graphic_def)
  moreover have "CHR 0x0A \<notin> set tid" "CHR ''['' \<notin> set tid"
    using assms(2) id_char_not by (auto simp: list_all_iff)
  moreover from this have "\<not> str_contains (''merge task '' @ tid) ''[macc:''"
    using contains_append_letter [of "[]" "CHR ''[''" "''macc:''" "''merge task '' @ tid"] by simp
  ultimately have title: "title_ok (''merge task '' @ tid)" by (simp add: title_ok_def)
  have "tag_ok (TAG_TASK, tid)" using assms by (intro id_tag_ok) (simp_all add: TAG_TASK_def key_char_def)
  moreover have "tag_ok (TAG_MERGE, ''true'')"
    by (intro id_tag_ok [where tid = "''true''"]) (simp_all add: TAG_MERGE_def key_char_def id_char_def is_alpha_def)
  ultimately show "message_ok (merge_commit tid)" using assms title by (simp add: message_ok_def merge_commit_def)
  have "folded (''merge task '' @ c # cs) = ''merge task '' @ folded (c # cs)"
    using not_continuation [OF c(2)] by (simp add: folded_ascii fold_char_byte continuation_def lower_char_def)
  then show "\<not> checkpoint_prefix (''merge task '' @ tid)"
    by (simp add: checkpoint_prefix_def c(1) strip_opt_def strip_prefix_def)
qed

text \<open>The coordinator recognises its own merge commits: the message it writes for a merged task is read
  back as a merge commit and as the delivery of that task.\<close>

theorem merge_commit_delivers:
  assumes "tid \<noteq> []" "list_all id_char tid"
  shows "delivered_task word (format_message (merge_commit tid)) = Some tid
    \<and> map_option is_merge (pc_message (parse_message word (format_message (merge_commit tid)))) = Some True"
proof -
  note ok = merge_commit_ok [OF assms]
  have "\<not> marked_unfinished (merge_commit tid)"
    using ok(2) by (simp add: marked_unfinished_def merge_commit_def TAG_TASK_def TAG_MERGE_def)
  moreover have "map_of (rev (cm_tags (merge_commit tid))) TAG_TASK = Some tid"
    by (simp add: merge_commit_def TAG_TASK_def TAG_MERGE_def)
  moreover have "is_merge (merge_commit tid)"
    by (simp add: is_merge_def tag_value_def merge_commit_def TAG_TASK_def TAG_MERGE_def)
  ultimately show ?thesis
    using delivered_format [OF ok(1), of word] format_parses [OF ok(1), of word] by simp
qed

text \<open>
  Of several task tags the parser reports the last, while the message hands out the first: for a
  squashed message the two disagree.
\<close>

lemma two_task_tags:
  assumes "message_ok m" "cm_tags m = (TAG_TASK, a) # ts" "map_of (rev ts) TAG_TASK = Some b"
  shows "pc_task_id (parse_message word (format_message m)) = Some b \<and> tag_value TAG_TASK m = Some a"
  using format_parses [OF assms(1), of word] assms(2,3)
  by (simp add: get_tag_map tag_value_def map_add_def)

text \<open>Which message of a history speaks for a task.\<close>

definition speaks_for :: "(string \<Rightarrow> bool) \<Rightarrow> string \<Rightarrow> string \<Rightarrow> bool" where
  "speaks_for word tid raw =
     (pc_task_id (parse_message word raw) = Some tid
      \<and> (delivered_task word raw \<noteq> None \<or> is_unfinished (parse_message word raw)))"

lemma entry_or_insert_get:
  "bt_get (entry_or_insert k v m) j = (if j = k then Some (unwrap_or v (bt_get m k)) else bt_get m j)"
  by (cases "bt_get m k") (auto simp: entry_or_insert_def bt_get_insert)

lemma entry_or_insert_ok: "bt_ok m \<Longrightarrow> bt_ok (entry_or_insert k v m)"
  by (simp add: entry_or_insert_def bt_insert_ok)

lemma note_message_get:
  "bt_get (note_message word raw m) tid =
     or_else (bt_get m tid) (if speaks_for word tid raw then Some (delivered_task word raw \<noteq> None) else None)"
  by (cases "bt_get m tid")
    (auto simp: note_message_def speaks_for_def Let_def entry_or_insert_get split: option.split)

lemma note_message_ok: "bt_ok m \<Longrightarrow> bt_ok (note_message word raw m)"
  by (simp add: note_message_def Let_def entry_or_insert_ok split: option.split)

lemma fold_note:
  "bt_get (fold (note_message word) msgs m) tid =
     or_else (bt_get m tid) (map_option (\<lambda>raw. delivered_task word raw \<noteq> None) (List.find (speaks_for word tid) msgs))"
proof (induction msgs arbitrary: m)
  case Nil
  then show ?case by (cases "bt_get m tid") auto
next
  case (Cons raw msgs)
  then show ?case by (cases "bt_get m tid") (auto simp: note_message_get)
qed

lemma fold_note_ok: "bt_ok m \<Longrightarrow> bt_ok (fold (note_message word) msgs m)"
  by (induction msgs arbitrary: m) (simp_all add: note_message_ok)

text \<open>A branch is held back for a task exactly when the newest of its commits that speaks for the task is
  not a delivery: a checkpoint is superseded by a later delivery, and a delivery by a later checkpoint.\<close>

theorem unfinished_means_newest_open:
  "tid \<in> set (unfinished_task_ids word msgs) \<longleftrightarrow>
   (case List.find (speaks_for word tid) msgs of None \<Rightarrow> False | Some raw \<Rightarrow> delivered_task word raw = None)"
proof -
  let ?m = "fold (note_message word) msgs []"
  have "tid \<in> set (unfinished_task_ids word msgs) \<longleftrightarrow> (tid, False) \<in> set ?m"
    by (force simp: unfinished_task_ids_def)
  also have "\<dots> \<longleftrightarrow> bt_get ?m tid = Some False" by (rule bt_in_iff) (simp add: fold_note_ok)
  finally show ?thesis by (auto simp: fold_note split: option.split)
qed

section \<open>Concrete instances\<close>

definition sample_commit :: commit_message where
  "sample_commit = task_commit Ct_Feat ''A-1'' (Some ''page'') (Some ''dev'')"

lemma sample_commit_ok: "message_ok sample_commit"
proof -
  have "plain_word ''page''" by (simp add: plain_word_def graphic_def no_capital_def)
  then have "trim ''page'' = ''page''" by (rule trim_plain)
  moreover have "tag_ok (TAG_TASK, ''A-1'')" "tag_ok (TAG_PHASE, ''dev'')"
    by (rule id_tag_ok, simp_all add: TAG_TASK_def TAG_PHASE_def key_char_def id_char_def is_alpha_def is_digit_def)+
  ultimately show ?thesis
    by (simp add: message_ok_def sample_commit_def task_commit_def task_message_def with_tag_def title_ok_def
        id_char_def is_alpha_def is_digit_def)
qed

theorem message_roundtrip_witness:
  "pc_message (parse_message (\<lambda>_. True) (format_message sample_commit)) = Some sample_commit
   \<and> format_subject sample_commit = ''feat: A-1 - page''"
  using message_roundtrip [OF sample_commit_ok, of "\<lambda>_. True"]
  by (simp add: format_subject_def sample_commit_def task_commit_def task_message_def with_tag_def nonempty_def)

lemma sample_commit_finished: "\<not> marked_unfinished sample_commit"
proof -
  have "checkpoint_prefix ''page'' = False"
    by (simp add: checkpoint_prefix_def folded_def continuation_def fold_char_byte lower_char_def
        strip_opt_def strip_prefix_def)
  moreover have "to_ascii_lowercase ''dev'' = ''dev''" by code_simp
  ultimately show ?thesis
    by (simp add: marked_unfinished_def sample_commit_def task_commit_def task_message_def with_tag_def
        TAG_TASK_def TAG_PHASE_def)
qed

lemma sample_commit_task: "map_of (rev (cm_tags sample_commit)) TAG_TASK = Some ''A-1''"
  by (simp add: sample_commit_def task_commit_def task_message_def with_tag_def TAG_TASK_def TAG_PHASE_def)

lemma sample_delivers: "delivered_task word (format_message sample_commit) = Some ''A-1''"
  by (simp add: delivered_format [OF sample_commit_ok] sample_commit_finished sample_commit_task)

theorem delivery_of_message_witness:
  "delivered_task (\<lambda>_. True) (format_message sample_commit) = Some ''A-1''"
  using delivery_of_message [OF sample_commit_ok, of "\<lambda>_. True"] sample_commit_finished sample_commit_task by simp

theorem merge_commit_delivers_witness:
  "delivered_task (\<lambda>_. True) (format_message (merge_commit ''A-1'')) = Some ''A-1''"
  using merge_commit_delivers [of "''A-1''" "\<lambda>_. True"] by (simp add: id_char_def is_alpha_def is_digit_def)

end
