(* ===== verification/Git_Cmd.thy ===== *)
theory Git_Cmd
  imports Control_Loop Worktree Text
begin

text \<open>
  The git commands the coordinator runs (\<open>core/src/git.rs\<close>): which arguments are passed, and what an exit
  status and an output become.  A command acts on a state \<open>'g\<close> of repositories and directories through
  \<open>ge_run\<close> (\<open>Inl\<close> when the process does not start), the file system through the other functions of
  \<open>git_env\<close>; the asynchronous variants of the source run the same commands.
\<close>

record 'g git_env =
  ge_run :: "string \<Rightarrow> string list \<Rightarrow> 'g \<Rightarrow> 'g \<times> (string + git_output)"
  ge_exists :: "string \<Rightarrow> 'g \<Rightarrow> bool"
  ge_create_dir_all :: "string \<Rightarrow> 'g \<Rightarrow> 'g \<times> string option"
  ge_remove_dir_all :: "string \<Rightarrow> 'g \<Rightarrow> 'g \<times> string option"
  ge_canonicalize :: "string \<Rightarrow> 'g \<Rightarrow> string option"
  ge_lock :: "string \<Rightarrow> string \<Rightarrow> 'g \<Rightarrow> 'g \<times> macc_error option"

definition ret :: "'a \<Rightarrow> 's \<Rightarrow> 's \<times> 'a res" where
  "ret a s = (s, Inr a)"

definition throw :: "macc_error \<Rightarrow> 's \<Rightarrow> 's \<times> 'a res" where
  "throw e s = (s, Inl e)"

text \<open>\<open>.ok()\<close> and \<open>let _ =\<close>: the error is dropped.\<close>

definition attempt :: "('s \<Rightarrow> 's \<times> 'a res) \<Rightarrow> ('a option \<Rightarrow> 's \<Rightarrow> 's \<times> 'b res) \<Rightarrow> 's \<Rightarrow> 's \<times> 'b res" where
  "attempt m f s = (case m s of (s', Inl _) \<Rightarrow> f None s' | (s', Inr a) \<Rightarrow> f (Some a) s')"

definition run_git_output ::
  "'g git_env \<Rightarrow> string \<Rightarrow> string list \<Rightarrow> string \<Rightarrow> 'g \<Rightarrow> 'g \<times> git_output res" where
  "run_git_output ge dir args action g =
     (case ge_run ge dir args g of
        (g', Inl e) \<Rightarrow> (g', Inl (Io_Err dir action e))
      | (g', Inr out) \<Rightarrow> (g', Inr out))"

definition run_git_status ::
  "'g git_env \<Rightarrow> string \<Rightarrow> string list \<Rightarrow> string \<Rightarrow> 'g \<Rightarrow> 'g \<times> bool res" where
  "run_git_status ge dir args action = seq (run_git_output ge dir args action) (\<lambda>out. ret (go_success out))"

text \<open>A command that must succeed: its output, or an error of the operation.\<close>

definition git_checked ::
  "'g git_env \<Rightarrow> string \<Rightarrow> string list \<Rightarrow> string \<Rightarrow> string \<Rightarrow> (git_output \<Rightarrow> string) \<Rightarrow> 'g \<Rightarrow> 'g \<times> git_output res" where
  "git_checked ge dir args action operation message =
     seq (run_git_output ge dir args action) (\<lambda>out.
       if go_success out then ret out else throw (Git_Err operation (message out)))"

definition done_unit :: "('g \<Rightarrow> 'g \<times> 'a res) \<Rightarrow> 'g \<Rightarrow> 'g \<times> unit res" where
  "done_unit m = seq m (\<lambda>_. ret ())"

section \<open>Worktrees\<close>

definition worktree_list_porcelain :: "'g git_env \<Rightarrow> string \<Rightarrow> 'g \<Rightarrow> 'g \<times> string res" where
  "worktree_list_porcelain ge root =
     seq (git_checked ge root [''worktree'', ''list'', ''--porcelain''] ''run git worktree list'' ''worktree_list''
            (\<lambda>out. ''git worktree list failed: '' @ go_stderr out))
       (\<lambda>out. ret (go_stdout out))"

definition worktree_add :: "'g git_env \<Rightarrow> string \<Rightarrow> string \<Rightarrow> string \<Rightarrow> string \<Rightarrow> 'g \<Rightarrow> 'g \<times> unit res" where
  "worktree_add ge root branch path base =
     done_unit (git_checked ge root [''worktree'', ''add'', ''-b'', branch, path, base]
       ''run git worktree add'' ''worktree_add'' (\<lambda>out. ''git worktree add failed: '' @ go_stderr out))"

definition worktree_remove :: "'g git_env \<Rightarrow> string \<Rightarrow> string \<Rightarrow> bool \<Rightarrow> 'g \<Rightarrow> 'g \<times> unit res" where
  "worktree_remove ge root path force =
     done_unit (git_checked ge root
       (if force then [''worktree'', ''remove'', ''--force'', path] else [''worktree'', ''remove'', path])
       ''run git worktree remove'' ''worktree_remove'' (\<lambda>out. ''git worktree remove failed: '' @ go_stderr out))"

definition worktree_prune :: "'g git_env \<Rightarrow> string \<Rightarrow> 'g \<Rightarrow> 'g \<times> unit res" where
  "worktree_prune ge root =
     done_unit (git_checked ge root [''worktree'', ''prune''] ''run git worktree prune'' ''worktree_prune''
       (\<lambda>out. ''git worktree prune failed: '' @ go_stderr out))"

definition worktree_add_detached :: "'g git_env \<Rightarrow> string \<Rightarrow> string \<Rightarrow> string \<Rightarrow> 'g \<Rightarrow> 'g \<times> unit res" where
  "worktree_add_detached ge root path start =
     done_unit (git_checked ge root [''worktree'', ''add'', ''--detach'', path, start]
       ''run git worktree add --detach'' ''worktree_add_detached''
       (\<lambda>out. ''git worktree add --detach '' @ path @ '' '' @ start @ '' failed: '' @ trim (go_stderr out)))"

section \<open>States of a checkout\<close>

definition status_porcelain :: "'g git_env \<Rightarrow> string \<Rightarrow> 'g \<Rightarrow> 'g \<times> string res" where
  "status_porcelain ge dir =
     seq (run_git_output ge dir [''status'', ''--porcelain''] ''read git status --porcelain'')
       (\<lambda>out. ret (if go_success out then go_stdout out else []))"

definition is_dirty :: "'g git_env \<Rightarrow> string \<Rightarrow> 'g \<Rightarrow> 'g \<times> bool res" where
  "is_dirty ge dir = seq (status_porcelain ge dir) (\<lambda>s. ret (trim s \<noteq> []))"

definition reset_hard :: "'g git_env \<Rightarrow> string \<Rightarrow> string \<Rightarrow> 'g \<Rightarrow> 'g \<times> bool res" where
  "reset_hard ge dir target = run_git_status ge dir [''reset'', ''--hard'', target] ''run git reset --hard''"

definition clean_fd :: "'g git_env \<Rightarrow> string \<Rightarrow> 'g \<Rightarrow> 'g \<times> bool res" where
  "clean_fd ge dir = run_git_status ge dir [''clean'', ''-fd''] ''run git clean -fd''"

definition git_checkout :: "'g git_env \<Rightarrow> string \<Rightarrow> string \<Rightarrow> bool \<Rightarrow> 'g \<Rightarrow> 'g \<times> bool res" where
  "git_checkout ge dir branch force =
     run_git_status ge dir (if force then [''checkout'', ''-f'', branch] else [''checkout'', branch]) ''run git checkout''"

definition checkout_detach :: "'g git_env \<Rightarrow> string \<Rightarrow> 'g \<Rightarrow> 'g \<times> bool res" where
  "checkout_detach ge dir = run_git_status ge dir [''checkout'', ''--detach''] ''run git checkout --detach''"

definition git_fetch :: "'g git_env \<Rightarrow> string \<Rightarrow> string \<Rightarrow> 'g \<Rightarrow> 'g \<times> bool res" where
  "git_fetch ge dir remote = run_git_status ge dir [''fetch'', remote] ''run git fetch''"

definition git_remote_exists :: "'g git_env \<Rightarrow> string \<Rightarrow> string \<Rightarrow> 'g \<Rightarrow> 'g \<times> bool res" where
  "git_remote_exists ge dir remote =
     run_git_status ge dir [''remote'', ''get-url'', remote] ''check git remote exists''"

definition merge_ff_only :: "'g git_env \<Rightarrow> string \<Rightarrow> string \<Rightarrow> 'g \<Rightarrow> 'g \<times> bool res" where
  "merge_ff_only ge dir reference =
     run_git_status ge dir [''merge'', ''--ff-only'', reference] ''run git merge --ff-only''"

definition checkout_new_branch_from_base :: "'g git_env \<Rightarrow> string \<Rightarrow> string \<Rightarrow> string \<Rightarrow> 'g \<Rightarrow> 'g \<times> bool res" where
  "checkout_new_branch_from_base ge dir branch base =
     run_git_status ge dir [''checkout'', ''-B'', branch, base] ''create branch from base''"

definition checkout_detach_force :: "'g git_env \<Rightarrow> string \<Rightarrow> string \<Rightarrow> 'g \<Rightarrow> 'g \<times> unit res" where
  "checkout_detach_force ge dir revision =
     done_unit (git_checked ge dir [''checkout'', ''--force'', ''--detach'', revision] ''detach worktree head''
       ''checkout_detach_force''
       (\<lambda>out. ''git checkout --force --detach '' @ revision @ '' failed in '' @ dir @ '': '' @ trim (go_stderr out)))"

definition merge_abort :: "'g git_env \<Rightarrow> string \<Rightarrow> 'g \<Rightarrow> 'g \<times> unit res" where
  "merge_abort ge dir = done_unit (run_git_output ge dir [''merge'', ''--abort''] ''abort merge'')"

definition clean_untracked :: "'g git_env \<Rightarrow> string \<Rightarrow> 'g \<Rightarrow> 'g \<times> unit res" where
  "clean_untracked ge dir = done_unit (run_git_output ge dir [''clean'', ''-fd''] ''clean untracked files'')"

section \<open>Revisions\<close>

definition head_commit :: "'g git_env \<Rightarrow> string \<Rightarrow> 'g \<Rightarrow> 'g \<times> string res" where
  "head_commit ge dir =
     seq (git_checked ge dir [''rev-parse'', ''HEAD''] ''read git head'' ''log''
            (\<lambda>_. ''Failed to resolve HEAD in '' @ dir))
       (\<lambda>out. ret (trim (go_stdout out)))"

definition current_branch :: "'g git_env \<Rightarrow> string \<Rightarrow> 'g \<Rightarrow> 'g \<times> string res" where
  "current_branch ge dir =
     seq (git_checked ge dir [''rev-parse'', ''--abbrev-ref'', ''HEAD''] ''read git current branch'' ''status''
            (\<lambda>_. ''Failed to resolve current branch in '' @ dir))
       (\<lambda>out. ret (trim (go_stdout out)))"

definition current_branch_name :: "'g git_env \<Rightarrow> string \<Rightarrow> 'g \<Rightarrow> 'g \<times> string res" where
  "current_branch_name ge dir =
     seq (git_checked ge dir [''branch'', ''--show-current''] ''read git current branch name'' ''status''
            (\<lambda>_. ''Failed to resolve current branch in '' @ dir))
       (\<lambda>out. ret (trim (go_stdout out)))"

definition rev_parse_verify :: "'g git_env \<Rightarrow> string \<Rightarrow> string \<Rightarrow> 'g \<Rightarrow> 'g \<times> bool res" where
  "rev_parse_verify ge dir reference =
     run_git_status ge dir [''rev-parse'', ''--verify'', reference] ''run git rev-parse --verify''"

definition merge_base_is_ancestor :: "'g git_env \<Rightarrow> string \<Rightarrow> string \<Rightarrow> string \<Rightarrow> 'g \<Rightarrow> 'g \<times> bool res" where
  "merge_base_is_ancestor ge dir ancestor descendant =
     run_git_status ge dir [''merge-base'', ''--is-ancestor'', ancestor, descendant] ''run git merge-base --is-ancestor''"

definition resolve_ref :: "'g git_env \<Rightarrow> string \<Rightarrow> string \<Rightarrow> 'g \<Rightarrow> 'g \<times> string option" where
  "resolve_ref ge dir reference g =
     (case run_git_output ge dir [''rev-parse'', ''--verify'', ''--quiet'', reference] ''resolve git ref'' g of
        (g', Inl _) \<Rightarrow> (g', None)
      | (g', Inr out) \<Rightarrow> (g', if go_success out then nonempty (Some (trim (go_stdout out))) else None))"

definition read_commits ::
  "'g git_env \<Rightarrow> string \<Rightarrow> string list \<Rightarrow> string \<Rightarrow> string \<Rightarrow> 'g \<Rightarrow> 'g \<times> commit_info list res" where
  "read_commits ge dir args action failure =
     seq (git_checked ge dir ([''log'', ''--format=%H%x1f%s%x1f%aI''] @ args) action ''log''
            (\<lambda>out. failure @ dir @ '': '' @ trim (go_stderr out)))
       (\<lambda>out. ret (parse_commit_info_records (go_stdout out)))"

definition commits_ahead_of_base :: "'g git_env \<Rightarrow> string \<Rightarrow> string \<Rightarrow> 'g \<Rightarrow> 'g \<times> commit_info list res" where
  "commits_ahead_of_base ge dir base =
     read_commits ge dir [base @ ''..HEAD''] ''read commits ahead of base'' ''Failed to read commits ahead of base in ''"

definition commits_between :: "'g git_env \<Rightarrow> string \<Rightarrow> string \<Rightarrow> string \<Rightarrow> 'g \<Rightarrow> 'g \<times> commit_info list res" where
  "commits_between ge dir from_ref to_ref =
     read_commits ge dir [from_ref @ ''..'' @ to_ref] ''read commits between refs''
       (''Failed to read commits in range '' @ from_ref @ ''..'' @ to_ref @ '' in '')"

definition regex_escape :: "string \<Rightarrow> string" where
  "regex_escape v = concat (map (\<lambda>c. if c \<in> set (CHR 0x5C # ''.^$|?*+()[]{}'') then [CHR 0x5C, c] else [c]) v)"

definition latest_commit_with_task_trailer ::
  "'g git_env \<Rightarrow> string \<Rightarrow> string \<Rightarrow> string \<Rightarrow> 'g \<Rightarrow> 'g \<times> string option res" where
  "latest_commit_with_task_trailer ge dir branch task_id =
     seq (git_checked ge dir
            [''log'', ''-1'', ''--format=%H'', ''--grep='' @ [CHR 0x5C] @ ''[macc:task '' @ regex_escape task_id @ [CHR 0x5C] @ '']'', branch]
            ''find latest commit for task trailer'' ''log''
            (\<lambda>out. ''Failed to read commits for task '' @ task_id @ '' on '' @ branch @ '': '' @ trim (go_stderr out)))
       (\<lambda>out. ret (nonempty (Some (trim (go_stdout out)))))"

section \<open>Branches\<close>

definition create_tag :: "'g git_env \<Rightarrow> string \<Rightarrow> string \<Rightarrow> string \<Rightarrow> 'g \<Rightarrow> 'g \<times> unit res" where
  "create_tag ge root tag commit =
     done_unit (git_checked ge root [''tag'', tag, commit] ''create git tag'' ''tag''
       (\<lambda>out. ''Failed to create tag '' @ tag @ '' at '' @ commit @ '': '' @ trim (go_stderr out)))"

definition list_branches_by_prefix :: "'g git_env \<Rightarrow> string \<Rightarrow> string \<Rightarrow> 'g \<Rightarrow> 'g \<times> string list res" where
  "list_branches_by_prefix ge root prefix =
     seq (git_checked ge root [''branch'', ''--list''] ''list branches by prefix'' ''branch_list''
            (\<lambda>out. ''Failed to list branches by prefix in '' @ root @ '': '' @ trim (go_stderr out)))
       (\<lambda>out. ret (filter (\<lambda>l. prefix_of prefix l \<and> l \<noteq> [])
                     (map (\<lambda>l. trim_start_matches ''* '' (trim l)) (str_lines (go_stdout out)))))"

definition delete_local_branch :: "'g git_env \<Rightarrow> string \<Rightarrow> string \<Rightarrow> bool \<Rightarrow> 'g \<Rightarrow> 'g \<times> unit res" where
  "delete_local_branch ge root branch force =
     (let normalized = unwrap_or branch (strip_prefix ''refs/heads/'' branch)
      in if normalized = [] then ret ()
         else done_unit (git_checked ge root [''branch'', if force then ''-D'' else ''-d'', normalized]
                ''run git branch delete'' ''branch_delete'' (\<lambda>out. ''git branch delete failed: '' @ go_stderr out)))"

definition check_ref_format_branch :: "'g git_env \<Rightarrow> string \<Rightarrow> string \<Rightarrow> 'g \<Rightarrow> 'g \<times> bool res" where
  "check_ref_format_branch ge root branch =
     run_git_status ge root [''check-ref-format'', ''--branch'', branch] ''check-ref-format''"

definition local_branch_exists :: "'g git_env \<Rightarrow> string \<Rightarrow> string \<Rightarrow> 'g \<Rightarrow> 'g \<times> bool res" where
  "local_branch_exists ge root branch =
     run_git_status ge root [''show-ref'', ''--verify'', ''--quiet'', ''refs/heads/'' @ branch] ''show-ref branch''"

definition remote_tracking_refs_for_branch :: "'g git_env \<Rightarrow> string \<Rightarrow> string \<Rightarrow> 'g \<Rightarrow> 'g \<times> string list res" where
  "remote_tracking_refs_for_branch ge root branch =
     seq (run_git_output ge root
            [''for-each-ref'', ''--format=%(refname:short)'', ''refs/remotes/*/'' @ branch] ''for-each-ref remotes'')
       (\<lambda>out. ret (if go_success out then filter (\<lambda>l. l \<noteq> []) (map trim (str_lines (go_stdout out))) else []))"

definition create_branch_at :: "'g git_env \<Rightarrow> string \<Rightarrow> string \<Rightarrow> string \<Rightarrow> 'g \<Rightarrow> 'g \<times> unit res" where
  "create_branch_at ge root branch start =
     done_unit (git_checked ge root [''branch'', branch, start] ''create branch'' ''create_branch''
       (\<lambda>out. ''git branch '' @ branch @ '' '' @ start @ '' failed: '' @ go_stderr out))"

definition create_tracking_branch :: "'g git_env \<Rightarrow> string \<Rightarrow> string \<Rightarrow> string \<Rightarrow> 'g \<Rightarrow> 'g \<times> unit res" where
  "create_tracking_branch ge root branch remote =
     done_unit (git_checked ge root [''branch'', ''--track'', branch, remote] ''create tracking branch''
       ''create_tracking_branch''
       (\<lambda>out. ''git branch --track '' @ branch @ '' '' @ remote @ '' failed: '' @ go_stderr out))"

definition update_branch_ref_checked ::
  "'g git_env \<Rightarrow> string \<Rightarrow> string \<Rightarrow> string \<Rightarrow> string \<Rightarrow> 'g \<Rightarrow> 'g \<times> bool res" where
  "update_branch_ref_checked ge root branch new expected =
     run_git_status ge root [''update-ref'', ''refs/heads/'' @ branch, new, expected] ''compare-and-swap branch ref''"

definition is_bare_repository :: "'g git_env \<Rightarrow> string \<Rightarrow> 'g \<Rightarrow> 'g \<times> bool res" where
  "is_bare_repository ge root =
     seq (run_git_output ge root [''rev-parse'', ''--is-bare-repository''] ''is-bare-repository'')
       (\<lambda>out. ret (go_success out \<and> trim (go_stdout out) = ''true''))"

section \<open>Where things are\<close>

text \<open>\<open>Path::parent\<close> of a path without \<open>.\<close> components: nothing above the root and the empty path.\<close>

definition drop_slashes :: "string \<Rightarrow> string" where
  "drop_slashes s = rev (dropWhile (\<lambda>c. c = CHR ''/'') (rev s))"

definition path_parent :: "string \<Rightarrow> string option" where
  "path_parent p =
     (let q = drop_slashes p;
          up = rev (dropWhile (\<lambda>c. c \<noteq> CHR ''/'') (rev q))
      in if q = [] then None
         else if up = [] then Some []
         else if drop_slashes up = [] then Some ''/'' else Some (drop_slashes up))"

definition git_common_dir :: "'g git_env \<Rightarrow> string \<Rightarrow> 'g \<Rightarrow> 'g \<times> string res" where
  "git_common_dir ge dir =
     seq (git_checked ge dir [''rev-parse'', ''--git-common-dir''] ''resolve git common dir'' ''git_common_dir''
            (\<lambda>out. ''Failed to resolve git common dir in '' @ dir @ '': '' @ trim (go_stderr out)))
       (\<lambda>out. let raw = trim (go_stdout out)
              in if raw = [] then throw (Git_Err ''git_common_dir'' (''git returned an empty common dir for '' @ dir))
                 else ret (path_join dir raw))"

definition primary_worktree_path :: "'g git_env \<Rightarrow> string \<Rightarrow> 'g \<Rightarrow> 'g \<times> string res" where
  "primary_worktree_path ge dir =
     seq (git_common_dir ge dir) (\<lambda>common.
       case path_parent common of
         Some p \<Rightarrow> ret p
       | None \<Rightarrow> throw (Git_Err ''primary_worktree_path'' (''git common dir '' @ common @ '' has no parent worktree'')))"

text \<open>The records of \<open>git worktree list --porcelain\<close>: the worktrees that have a branch checked out.\<close>

fun scan_worktrees :: "string \<Rightarrow> string option \<Rightarrow> string list \<Rightarrow> string list" where
  "scan_worktrees target current [] = []"
| "scan_worktrees target current (line # ls) =
     (case strip_prefix ''worktree '' line of
        Some rest \<Rightarrow> scan_worktrees target (Some (trim rest)) ls
      | None \<Rightarrow>
          (case strip_prefix ''branch '' line of
             Some rest \<Rightarrow>
               if trim rest = target
               then (case current of None \<Rightarrow> scan_worktrees target None ls
                     | Some p \<Rightarrow> p # scan_worktrees target None ls)
               else scan_worktrees target None ls
           | None \<Rightarrow> scan_worktrees target (if trim line = [] then None else current) ls))"

definition canonical :: "'g git_env \<Rightarrow> 'g \<Rightarrow> string \<Rightarrow> string" where
  "canonical ge g p = unwrap_or p (ge_canonicalize ge p g)"

text \<open>The primary worktree first, then by path, component by component.\<close>

definition worktrees_for_branch :: "'g git_env \<Rightarrow> string \<Rightarrow> string \<Rightarrow> 'g \<Rightarrow> 'g \<times> string list res" where
  "worktrees_for_branch ge root branch =
     seq (worktree_list_porcelain ge root) (\<lambda>raw.
     attempt (primary_worktree_path ge root) (\<lambda>primary g.
       let main = map_option (canonical ge g) primary;
           rank = (\<lambda>p. if main = Some (canonical ge g p) then 0 else 1 :: nat)
       in ret (sort_key rank (sort_key (split_on (\<lambda>c. c = CHR ''/'')) (scan_worktrees (''refs/heads/'' @ branch) None (str_lines raw)))) g))"

section \<open>Porcelain status\<close>

record porcelain_entry =
  pe_index_status :: char
  pe_worktree_status :: char
  pe_path :: string
  pe_original_path :: "string option"

definition parse_porcelain_v1_line :: "string \<Rightarrow> porcelain_entry" where
  "parse_porcelain_v1_line line =
     (let rest = drop 3 line
      in case split_once '' -> '' rest of
           Some (original, path) \<Rightarrow>
             \<lparr>pe_index_status = line ! 0, pe_worktree_status = line ! 1, pe_path = path, pe_original_path = Some original\<rparr>
         | None \<Rightarrow>
             \<lparr>pe_index_status = line ! 0, pe_worktree_status = line ! 1, pe_path = rest, pe_original_path = None\<rparr>)"

definition status_porcelain_v1 :: "'g git_env \<Rightarrow> string \<Rightarrow> bool \<Rightarrow> 'g \<Rightarrow> 'g \<times> porcelain_entry list res" where
  "status_porcelain_v1 ge dir include_untracked =
     seq (git_checked ge dir
            [''status'', ''--porcelain=v1'', if include_untracked then ''--untracked-files=all'' else ''--untracked-files=no'']
            ''status porcelain'' ''status_porcelain'' (\<lambda>out. ''git status failed: '' @ go_stderr out))
       (\<lambda>out. ret (map parse_porcelain_v1_line (filter (\<lambda>l. 3 \<le> length l) (str_lines (go_stdout out)))))"

section \<open>The graph of commits\<close>

record git_graph_commit =
  gg_sha :: string
  gg_parents :: "string list"
  gg_subject :: string
  gg_body :: string
  gg_author :: string
  gg_timestamp :: int
  gg_refs :: "string list"

definition parse_i64 :: "string \<Rightarrow> int option" where
  "parse_i64 s =
     opt_filter (\<lambda>i. - (2 ^ 63) \<le> i \<and> i < 2 ^ 63)
       (case s of [] \<Rightarrow> None
        | c # r \<Rightarrow>
          if c = CHR ''-'' then map_option (\<lambda>n. - int n) (parse_digits r)
          else map_option int (parse_digits (if c = CHR ''+'' then r else s)))"

definition parse_graph_ref :: "string \<Rightarrow> string option" where
  "parse_graph_ref entry =
     (let e = trim entry
      in if e = [] \<or> e = ''HEAD'' \<or> prefix_of ''tag: '' e then None
         else case split_once '' -> '' e of
                Some (_, target) \<Rightarrow> nonempty (Some (trim target))
              | None \<Rightarrow> Some e)"

definition parse_graph_refs :: "string \<Rightarrow> string list" where
  "parse_graph_refs raw =
     (let t = trim raw;
          inner = trim (unwrap_or t (Option.bind (strip_prefix ''('' t) (strip_suffix '')'')))
      in if inner = [] then [] else List.map_filter parse_graph_ref (split_str '', '' inner))"

definition parse_git_graph_record :: "string \<Rightarrow> git_graph_commit option" where
  "parse_git_graph_record record' =
     (let r = trim record'
      in if r = [] then None
         else case splitn 7 (\<lambda>c. c = CHR 0x1F) r of
                [sha, parents, refs, subject, body, author, ts] \<Rightarrow>
                  map_option (\<lambda>t.
                    \<lparr>gg_sha = trim sha, gg_parents = split_whitespace parents, gg_subject = trim subject,
                     gg_body = trim body, gg_author = trim author, gg_timestamp = t,
                     gg_refs = parse_graph_refs refs\<rparr>) (parse_i64 (trim ts))
              | _ \<Rightarrow> None)"

fun position_of :: "('a \<Rightarrow> bool) \<Rightarrow> 'a list \<Rightarrow> nat option" where
  "position_of P [] = None"
| "position_of P (x # xs) = (if P x then Some 0 else map_option Suc (position_of P xs))"

definition parse_git_graph_records :: "string \<Rightarrow> nat \<Rightarrow> string option \<Rightarrow> git_graph_commit list" where
  "parse_git_graph_records raw limit since_sha =
     (let commits = List.map_filter parse_git_graph_record (split_on (\<lambda>c. c = CHR 0x00) raw);
          start = (case Option.bind since_sha (\<lambda>cursor.
                     position_of (\<lambda>c. prefix_of cursor (gg_sha c)) commits) of
                   None \<Rightarrow> 0 | Some i \<Rightarrow> Suc i)
      in take limit (drop start commits))"

definition git_log_graph :: "'g git_env \<Rightarrow> string \<Rightarrow> nat \<Rightarrow> string option \<Rightarrow> 'g \<Rightarrow> 'g \<times> git_graph_commit list res" where
  "git_log_graph ge dir limit since_sha =
     seq (run_git_output ge dir
            [''log'', ''--all'', ''--topo-order'', ''--decorate=short'', ''--parents'',
             ''--format=%H%x1f%P%x1f%d%x1f%s%x1f%b%x1f%an%x1f%at%x00''] ''read git graph log'')
       (\<lambda>out.
          if go_success out then ret (parse_git_graph_records (go_stdout out) limit since_sha)
          else if str_contains (go_stderr out) ''does not have any commits yet''
                  \<or> str_contains (go_stderr out) ''your current branch''
                  \<or> str_contains (go_stderr out) ''bad default revision''
          then ret []
          else throw (Git_Err ''log_graph'' (''git log graph failed: '' @ trim (go_stderr out))))"

text \<open>
  The scan is exact: a worktree is listed for a branch just when its record has a \<open>branch\<close> line with the
  full name of the branch.
\<close>

fun worktree_record :: "string \<times> string \<times> string option \<Rightarrow> string list" where
  "worktree_record (path, head, branch) =
     [''worktree '' @ path, ''HEAD '' @ head,
      (case branch of None \<Rightarrow> ''detached'' | Some b \<Rightarrow> ''branch '' @ b), []]"

lemma strip_prefix_ne: "\<not> prefix_of p s \<Longrightarrow> strip_prefix p s = None"
  by (simp add: strip_prefix_def)

lemma scan_worktrees_exact:
  assumes "\<forall>(p, h, b) \<in> set rs. trim p = p \<and> h \<noteq> [] \<and> graphic (last h) \<and> pred_option (\<lambda>b. trim b = b) b"
  shows "scan_worktrees target None (concat (map worktree_record rs)) =
    map fst (filter (\<lambda>(p, h, b). b = Some target) rs)"
  using assms
proof (induction rs)
  case (Cons r rs)
  obtain p h b where r: "r = (p, h, b)" by (cases r)
  have strip: "strip_prefix ''worktree '' (''worktree '' @ p) = Some p" for p
    by (simp add: strip_prefix_def)
  have strip2: "strip_prefix ''branch '' (''branch '' @ q) = Some q" for q
    by (simp add: strip_prefix_def)
  have ih: "scan_worktrees target None (concat (map worktree_record rs)) =
      map fst (filter (\<lambda>(p, h, b). b = Some target) rs)" using Cons by simp
  have "trim (''HEAD '' @ h) = ''HEAD '' @ h"
    using Cons.prems r by (intro trim_graphic) (auto simp: graphic_def)
  then have head: "trim (''HEAD '' @ h) \<noteq> []" by simp
  have p: "trim p = p" and b: "pred_option (\<lambda>b. trim b = b) b" using Cons.prems r by auto
  show ?case
  proof (cases b)
    case None
    then show ?thesis using ih p strip head by (simp add: r strip_prefix_def)
  next
    case (Some q)
    then have "trim q = q" using b by simp
    then show ?thesis using ih p Some strip strip2 head by (simp add: r strip_prefix_def)
  qed
qed simp

end
