(* ===== verification/Integration.thy ===== *)
theory Integration
  imports Git_Cmd
begin

text \<open>
  The coordinator's private worktree for merges (\<open>coordinator/integration.rs\<close>): it is detached at the tip
  of the base branch, a merge is made in it, and the result is published by compare-and-swap of the ref
  where no worktree holds the branch, or by fast-forwarding the worktree that does.
\<close>

section \<open>The integration worktree\<close>

datatype publish_outcome =
    Po_Published string
  | Po_UpToDate
  | Po_BlockedByCheckout string string
  | Po_BaseMoved string

record integration_worktree =
  iw_repo_root :: string
  iw_path :: string
  iw_base :: string
  iw_base_sha :: string

definition or_io_error :: "string \<Rightarrow> string \<Rightarrow> 'g \<times> string option \<Rightarrow> 'g \<times> unit res" where
  "or_io_error path action r =
     (case r of (g, None) \<Rightarrow> (g, Inr ()) | (g, Some e) \<Rightarrow> (g, Inl (Io_Err path action e)))"

definition lock_step :: "'g git_env \<Rightarrow> string \<Rightarrow> string \<Rightarrow> 'g \<Rightarrow> 'g \<times> unit res" where
  "lock_step ge path what g =
     (case ge_lock ge path what g of (g', None) \<Rightarrow> (g', Inr ()) | (g', Some e) \<Rightarrow> (g', Inl e))"

definition prepare_worktree :: "'g git_env \<Rightarrow> string \<Rightarrow> string \<Rightarrow> string \<Rightarrow> 'g \<Rightarrow> 'g \<times> unit res" where
  "prepare_worktree ge root path base_sha g =
     (if ge_exists ge (path_join path ''.git'') g
      then attempt (merge_abort ge path) (\<lambda>_.
           seq (checkout_detach_force ge path base_sha) (\<lambda>_.
           attempt (clean_untracked ge path) (\<lambda>_. ret ()))) g
      else seq (\<lambda>g. if ge_exists ge path g
                    then or_io_error path ''remove stale integration worktree directory'' (ge_remove_dir_all ge path g)
                    else (g, Inr ()))
             (\<lambda>_. worktree_add_detached ge root path base_sha) g)"

definition acquire :: "'g git_env \<Rightarrow> string \<Rightarrow> string \<Rightarrow> 'g \<Rightarrow> 'g \<times> integration_worktree res" where
  "acquire ge root base =
     seq (git_common_dir ge root) (\<lambda>common.
       let dir = path_join common ''macc''; path = path_join dir ''integration''
       in seq (\<lambda>g. or_io_error dir ''create integration directory'' (ge_create_dir_all ge dir g)) (\<lambda>_.
          seq (lock_step ge (path_join dir ''integration.lock'') ''integration worktree'') (\<lambda>_.
          (\<lambda>g. case resolve_ref ge root base g of
                  (g1, None) \<Rightarrow>
                    (g1, Inl (Git_Err ''resolve_base'' (''base branch '' @ quoted base @ '' could not be resolved'')))
                | (g1, Some base_sha) \<Rightarrow>
                    attempt (worktree_prune ge root) (\<lambda>_.
                    seq (prepare_worktree ge root path base_sha) (\<lambda>_.
                    ret \<lparr>iw_repo_root = root, iw_path = path, iw_base = base, iw_base_sha = base_sha\<rparr>)) g1))))"

definition reset_integration :: "'g git_env \<Rightarrow> integration_worktree \<Rightarrow> 'g \<Rightarrow> 'g \<times> unit res" where
  "reset_integration ge iw =
     attempt (merge_abort ge (iw_path iw)) (\<lambda>_.
     seq (checkout_detach_force ge (iw_path iw) (iw_base_sha iw)) (\<lambda>_.
     attempt (clean_untracked ge (iw_path iw)) (\<lambda>_. ret ())))"

definition merge_in_progress :: "'g git_env \<Rightarrow> integration_worktree \<Rightarrow> 'g \<Rightarrow> 'g \<times> bool res" where
  "merge_in_progress ge iw =
     attempt (rev_parse_verify ge (iw_path iw) ''MERGE_HEAD'') (\<lambda>r. ret (unwrap_or False r))"

section \<open>Publishing\<close>

definition publish_commit ::
  "'g git_env \<Rightarrow> string \<Rightarrow> string \<Rightarrow> string \<Rightarrow> string \<Rightarrow> 'g \<Rightarrow> 'g \<times> publish_outcome res" where
  "publish_commit ge root base new base_sha =
     (if new = base_sha then ret Po_UpToDate
      else seq (worktrees_for_branch ge root base) (\<lambda>holders.
        case holders of
          [] \<Rightarrow>
            seq (update_branch_ref_checked ge root base new base_sha) (\<lambda>moved.
              ret (if moved then Po_Published new else Po_BaseMoved base_sha))
        | holder # _ \<Rightarrow>
            seq (head_commit ge holder) (\<lambda>head.
              if head \<noteq> base_sha then ret (Po_BaseMoved base_sha)
              else seq (run_git_output ge holder [''merge'', ''--ff-only'', new]
                          ''fast-forward base worktree to integrated commit'') (\<lambda>out.
                ret (if go_success out then Po_Published new
                     else Po_BlockedByCheckout holder
                       (trim (trim (go_stdout out) @ [CHR 0x0A] @ trim (go_stderr out))))))))"

definition publish :: "'g git_env \<Rightarrow> integration_worktree \<Rightarrow> 'g \<Rightarrow> 'g \<times> publish_outcome res" where
  "publish ge iw =
     seq (head_commit ge (iw_path iw)) (\<lambda>new.
       publish_commit ge (iw_repo_root iw) (iw_base iw) new (iw_base_sha iw))"

definition replace_char :: "char \<Rightarrow> char \<Rightarrow> string \<Rightarrow> string" where
  "replace_char a b s = map (\<lambda>c. if c = a then b else c) s"

definition failure_detail :: "publish_outcome \<Rightarrow> string option" where
  "failure_detail o' =
     (case o' of
        Po_Published _ \<Rightarrow> None
      | Po_UpToDate \<Rightarrow> None
      | Po_BlockedByCheckout worktree output \<Rightarrow>
          Some (''step=publish reason=base_checked_out_dirty worktree='' @ [CHR 0x22] @ worktree @ [CHR 0x22]
                @ '' git_output='' @ [CHR 0x22]
                @ replace_char (CHR 0x0A) (CHR '' '') (replace_char (CHR 0x22) (CHR 0x27) output) @ [CHR 0x22])
      | Po_BaseMoved expected \<Rightarrow> Some (''step=publish reason=base_moved expected='' @ expected))"

section \<open>The base branch moves only forward from where it was\<close>

text \<open>
  What git promises about a branch \<open>base\<close> whose tip is \<open>tip\<close> and which the worktrees in \<open>holders\<close> may have
  checked out: \<open>update-ref\<close> with an old value succeeds only on that value and then sets the new one; a
  fast-forward of a holder sets the tip to the commit; \<open>HEAD\<close> in a holder is the tip; commands that read or
  clean leave the branch alone, and so do merges and detached checkouts in a worktree that does not hold it.
\<close>

definition leaves_branch :: "bool \<Rightarrow> string list \<Rightarrow> bool" where
  "leaves_branch held args =
     (take 1 args \<in> {[''rev-parse''], [''log''], [''clean''], [''for-each-ref'']}
      \<or> take 2 args \<in> {[''worktree'', ''list''], [''worktree'', ''prune''], [''branch'', ''--list'']}
      \<or> take 3 args = [''worktree'', ''add'', ''--detach'']
      \<or> \<not> held \<and> (take 2 args \<in> {[''merge'', ''--no-ff''], [''merge'', ''--abort''], [''merge'', ''--ff-only''],
                                     [''merge'', ''--no-edit'']}
                  \<or> take 3 args = [''checkout'', ''--force'', ''--detach'']))"

definition git_law :: "'g git_env \<Rightarrow> string \<Rightarrow> string \<Rightarrow> ('g \<Rightarrow> string) \<Rightarrow> string set \<Rightarrow> bool" where
  "git_law ge root base tip holders \<longleftrightarrow>
     (\<forall>dir args g. leaves_branch (dir \<in> holders) args \<longrightarrow> tip (fst (ge_run ge dir args g)) = tip g)
   \<and> (\<forall>new old g. case ge_run ge root [''update-ref'', ''refs/heads/'' @ base, new, old] g of
        (g', Inl e) \<Rightarrow> tip g' = tip g
      | (g', Inr out) \<Rightarrow> if go_success out then tip g = old \<and> tip g' = new else tip g' = tip g)
   \<and> (\<forall>g. case worktrees_for_branch ge root base g of (_, Inl _) \<Rightarrow> True | (_, Inr hs) \<Rightarrow> set hs \<subseteq> holders)
   \<and> (\<forall>h \<in> holders. \<forall>g. case head_commit ge h g of (_, Inl _) \<Rightarrow> True | (_, Inr sha) \<Rightarrow> sha = tip g)
   \<and> (\<forall>h \<in> holders. \<forall>new g. case ge_run ge h [''merge'', ''--ff-only'', new] g of
        (g', Inl e) \<Rightarrow> tip g' = tip g
      | (g', Inr out) \<Rightarrow> if go_success out then tip g' = new else tip g' = tip g)"

lemma git_lawD:
  assumes "git_law ge root base tip holders"
  shows "leaves_branch (dir \<in> holders) args \<Longrightarrow> tip (fst (ge_run ge dir args g)) = tip g"
    and "case ge_run ge root [''update-ref'', ''refs/heads/'' @ base, new, old] g of
        (g', Inl e) \<Rightarrow> tip g' = tip g
      | (g', Inr out) \<Rightarrow> if go_success out then tip g = old \<and> tip g' = new else tip g' = tip g"
    and "worktrees_for_branch ge root base g = (g', Inr hs) \<Longrightarrow> set hs \<subseteq> holders"
    and "h \<in> holders \<Longrightarrow> head_commit ge h g = (g', Inr sha) \<Longrightarrow> sha = tip g"
    and "h \<in> holders \<Longrightarrow> case ge_run ge h [''merge'', ''--ff-only'', new] g of
        (g', Inl e) \<Rightarrow> tip g' = tip g
      | (g', Inr out) \<Rightarrow> if go_success out then tip g' = new else tip g' = tip g"
proof -
  note law = assms [unfolded git_law_def]
  show "leaves_branch (dir \<in> holders) args \<Longrightarrow> tip (fst (ge_run ge dir args g)) = tip g" using law by simp
  show "case ge_run ge root [''update-ref'', ''refs/heads/'' @ base, new, old] g of
        (g', Inl e) \<Rightarrow> tip g' = tip g
      | (g', Inr out) \<Rightarrow> if go_success out then tip g = old \<and> tip g' = new else tip g' = tip g"
    using law by simp
  show "set hs \<subseteq> holders" if "worktrees_for_branch ge root base g = (g', Inr hs)"
  proof -
    have "case worktrees_for_branch ge root base g of (_, Inl _) \<Rightarrow> True | (_, Inr hs) \<Rightarrow> set hs \<subseteq> holders"
      using law by simp
    then show ?thesis by (simp add: that)
  qed
  show "sha = tip g" if "h \<in> holders" "head_commit ge h g = (g', Inr sha)"
  proof -
    have "case head_commit ge h g of (_, Inl _) \<Rightarrow> True | (_, Inr sha) \<Rightarrow> sha = tip g"
      using law that(1) by simp
    then show ?thesis by (simp add: that(2))
  qed
  show "case ge_run ge h [''merge'', ''--ff-only'', new] g of
        (g', Inl e) \<Rightarrow> tip g' = tip g
      | (g', Inr out) \<Rightarrow> if go_success out then tip g' = new else tip g' = tip g" if "h \<in> holders"
    using law that by simp
qed

text \<open>A step that leaves the tip of the base branch where it is, provided it satisfies \<open>P\<close>.\<close>

definition keeps :: "(string \<Rightarrow> bool) \<Rightarrow> ('g \<Rightarrow> string) \<Rightarrow> ('g \<Rightarrow> 'g \<times> 'a res) \<Rightarrow> bool" where
  "keeps P tip m = (\<forall>g. P (tip g) \<longrightarrow> tip (fst (m g)) = tip g)"

lemma keepsI: "(\<And>g. P (tip g) \<Longrightarrow> tip (fst (m g)) = tip g) \<Longrightarrow> keeps P tip m"
  by (simp add: keeps_def)

lemma keepsD: "keeps P tip m \<Longrightarrow> m g = (g', r) \<Longrightarrow> P (tip g) \<Longrightarrow> tip g' = tip g"
  unfolding keeps_def by (metis fst_conv)

lemma keeps_seq: "keeps P tip m \<Longrightarrow> (\<And>a. keeps P tip (f a)) \<Longrightarrow> keeps P tip (seq m f)"
  unfolding keeps_def seq_def by (auto split: prod.split sum.split)

lemma keeps_attempt: "keeps P tip m \<Longrightarrow> (\<And>a. keeps P tip (f a)) \<Longrightarrow> keeps P tip (attempt m f)"
  unfolding keeps_def attempt_def by (auto split: prod.split sum.split)

lemma keeps_base: "keeps P tip (ret a)" "keeps P tip (throw e)"
  by (simp_all add: keeps_def ret_def throw_def)

lemma keeps_run: "git_law ge root base tip hs \<Longrightarrow> leaves_branch (dir \<in> hs) args \<Longrightarrow> keeps P tip (run_git_output ge dir args action)"
proof (rule keepsI)
  fix g
  assume "git_law ge root base tip hs" "leaves_branch (dir \<in> hs) args"
  then have "tip (fst (ge_run ge dir args g)) = tip g" by (rule git_lawD(1))
  then show "tip (fst (run_git_output ge dir args action g)) = tip g"
    by (cases "ge_run ge dir args g") (auto simp: run_git_output_def split: sum.split)
qed

lemma keeps_checked:
  "git_law ge root base tip hs \<Longrightarrow> leaves_branch (dir \<in> hs) args \<Longrightarrow> keeps P tip (git_checked ge dir args action operation message)"
  unfolding git_checked_def by (intro keeps_seq keeps_run) (auto simp: keeps_base)

lemma keeps_head: "git_law ge root base tip hs \<Longrightarrow> keeps P tip (head_commit ge dir)"
  unfolding head_commit_def by (intro keeps_seq keeps_checked) (auto simp: keeps_base leaves_branch_def)

lemma keeps_common: "git_law ge root base tip hs \<Longrightarrow> keeps P tip (git_common_dir ge dir)"
  unfolding git_common_dir_def by (intro keeps_seq keeps_checked) (auto simp: keeps_base leaves_branch_def Let_def)

lemma keeps_worktrees: "git_law ge root base tip hs \<Longrightarrow> keeps P tip (worktrees_for_branch ge root' branch)"
proof -
  assume law: "git_law ge root base tip hs"
  have "keeps P tip (worktree_list_porcelain ge root')"
    unfolding worktree_list_porcelain_def using law
    by (intro keeps_seq keeps_checked) (auto simp: keeps_base leaves_branch_def)
  moreover have "keeps P tip (primary_worktree_path ge root')"
    unfolding primary_worktree_path_def using law
    by (intro keeps_seq keeps_common) (auto simp: keeps_base split: option.split)
  ultimately show ?thesis
    unfolding worktrees_for_branch_def
    by (intro keeps_seq keeps_attempt) (auto simp: keeps_def ret_def Let_def)
qed

lemma publish_commit_outcome:
  assumes "git_law ge root base tip holders" "publish_commit ge root base new base_sha g = (g', Inr outcome)"
  shows "case outcome of
      Po_Published sha \<Rightarrow> sha = new \<and> tip g = base_sha \<and> tip g' = new
    | Po_UpToDate \<Rightarrow> new = base_sha \<and> tip g' = tip g
    | Po_BlockedByCheckout holder _ \<Rightarrow> holder \<in> holders \<and> tip g' = tip g
    | Po_BaseMoved sha \<Rightarrow> sha = base_sha \<and> tip g' = tip g"
proof (cases "new = base_sha")
  case True
  then show ?thesis using assms(2) by (auto simp: publish_commit_def ret_def)
next
  case False
  obtain g1 hs where w: "worktrees_for_branch ge root base g = (g1, Inr hs)"
    using assms(2) False by (auto simp: publish_commit_def seq_def split: prod.splits sum.splits)
  have t1: "tip g1 = tip g" using keepsD [OF keeps_worktrees [OF assms(1), where P = "\<lambda>_. True"] w] by simp
  have sub: "set hs \<subseteq> holders" by (rule git_lawD(3) [OF assms(1) w])
  show ?thesis
  proof (cases hs)
    case Nil
    note cas = git_lawD(2) [OF assms(1), where new = new and old = base_sha and g = g1]
    show ?thesis
      using assms(2) False w Nil cas t1
      by (auto simp: publish_commit_def seq_def update_branch_ref_checked_def run_git_status_def run_git_output_def
          ret_def split: prod.splits sum.splits if_splits)
  next
    case (Cons h hs')
    then have h: "h \<in> holders" using sub by simp
    obtain g2 head where hd: "head_commit ge h g1 = (g2, Inr head)"
      using assms(2) False w Cons by (auto simp: publish_commit_def seq_def split: prod.splits sum.splits)
    have head: "head = tip g1" by (rule git_lawD(4) [OF assms(1) h hd])
    have t2: "tip g2 = tip g1" using keepsD [OF keeps_head [OF assms(1), where P = "\<lambda>_. True"] hd] by simp
    note ff = git_lawD(5) [OF assms(1) h, where new = new and g = g2]
    show ?thesis
      using assms(2) False w Cons hd head t1 t2 ff h
      by (auto simp: publish_commit_def seq_def run_git_output_def ret_def split: prod.splits sum.splits if_splits)
  qed
qed


text \<open>
  Once the branch has moved away from the tip the worktree was set up on, publishing cannot move it again,
  and neither can resetting the worktree.
\<close>

lemma keeps_status:
  "git_law ge root base tip hs \<Longrightarrow> leaves_branch (dir \<in> hs) args \<Longrightarrow> keeps P tip (run_git_status ge dir args action)"
  unfolding run_git_status_def by (intro keeps_seq keeps_run) (auto simp: keeps_base)

lemma keeps_reset:
  assumes "git_law ge root base tip hs" "iw_path iw \<notin> hs"
  shows "keeps P tip (reset_integration ge iw)"
  unfolding reset_integration_def merge_abort_def checkout_detach_force_def clean_untracked_def done_unit_def
  by (intro keeps_attempt keeps_seq keeps_checked [OF assms(1)] keeps_run [OF assms(1)])
    (auto simp: keeps_base leaves_branch_def assms(2))

lemma keeps_cas:
  assumes "git_law ge root base tip holders"
  shows "keeps (\<lambda>t. t \<noteq> base_sha) tip (update_branch_ref_checked ge root base new base_sha)"
proof (rule keepsI)
  fix g
  assume "tip g \<noteq> base_sha"
  then show "tip (fst (update_branch_ref_checked ge root base new base_sha g)) = tip g"
    using git_lawD(2) [OF assms, where new = new and old = base_sha and g = g]
    by (auto simp: update_branch_ref_checked_def run_git_status_def run_git_output_def seq_def ret_def
        split: prod.splits sum.splits if_splits)
qed

lemma keeps_seq_result:
  assumes "keeps P tip m" "\<And>g g' a. P (tip g) \<Longrightarrow> m g = (g', Inr a) \<Longrightarrow> tip g' = tip g \<Longrightarrow> tip (fst (f a g')) = tip g'"
  shows "keeps P tip (seq m f)"
  using assms unfolding keeps_def seq_def by (auto split: prod.split sum.split)

lemma publish_commit_stuck:
  assumes "git_law ge root base tip holders"
  shows "keeps (\<lambda>t. t \<noteq> base_sha) tip (publish_commit ge root base new base_sha)"
proof (cases "new = base_sha")
  case True
  then show ?thesis by (simp add: publish_commit_def [abs_def] keeps_base)
next
  case False
  have by_holder: "keeps (\<lambda>t. t \<noteq> base_sha) tip
      (seq (head_commit ge h) (\<lambda>head. if head \<noteq> base_sha then ret (Po_BaseMoved base_sha) else m))"
    if "h \<in> holders" for h m
    using git_lawD(4) [OF assms that]
    by (intro keeps_seq_result keeps_head [OF assms]) (auto simp: ret_def)
  show ?thesis
    unfolding publish_commit_def if_not_P [OF False]
  proof (intro keeps_seq_result keeps_worktrees [OF assms])
    fix g g' hs
    assume *: "tip g \<noteq> base_sha" "worktrees_for_branch ge root base g = (g', Inr hs)" "tip g' = tip g"
    show "tip (fst ((case hs of [] \<Rightarrow>
            seq (update_branch_ref_checked ge root base new base_sha) (\<lambda>moved.
              ret (if moved then Po_Published new else Po_BaseMoved base_sha))
        | holder # _ \<Rightarrow>
            seq (head_commit ge holder) (\<lambda>head.
              if head \<noteq> base_sha then ret (Po_BaseMoved base_sha)
              else seq (run_git_output ge holder [''merge'', ''--ff-only'', new]
                          ''fast-forward base worktree to integrated commit'') (\<lambda>out.
                ret (if go_success out then Po_Published new
                     else Po_BlockedByCheckout holder
                       (trim (trim (go_stdout out) @ [CHR 0x0A] @ trim (go_stderr out))))))) g')) = tip g'"
    proof (cases hs)
      case Nil
      have "keeps (\<lambda>t. t \<noteq> base_sha) tip (seq (update_branch_ref_checked ge root base new base_sha) (\<lambda>moved.
              ret (if moved then Po_Published new else Po_BaseMoved base_sha)))"
        by (intro keeps_seq keeps_cas [OF assms]) (auto simp: keeps_base)
      then show ?thesis using Nil * by (simp add: keeps_def)
    next
      case (Cons h hs')
      then have "h \<in> holders" using git_lawD(3) [OF assms *(2)] by simp
      then show ?thesis using Cons * by_holder unfolding keeps_def by simp
    qed
  qed
qed

lemma publish_stuck:
  assumes "git_law ge (iw_repo_root iw) (iw_base iw) tip holders"
  shows "keeps (\<lambda>t. t \<noteq> iw_base_sha iw) tip (publish ge iw)"
  unfolding publish_def by (intro keeps_seq keeps_head [OF assms] publish_commit_stuck [OF assms])

section \<open>A repository to run it on\<close>

text \<open>
  A repository whose state is the tip of \<open>main\<close> and the \<open>HEAD\<close> of the integration worktree at \<open>/i\<close>; no
  worktree holds \<open>main\<close>.
\<close>

definition git_ok :: "string \<Rightarrow> git_output" where
  "git_ok s = \<lparr>go_success = True, go_stdout = s, go_stderr = []\<rparr>"

definition git_failed :: git_output where
  "git_failed = \<lparr>go_success = False, go_stdout = [], go_stderr = ''failed''\<rparr>"

fun sample_run :: "string \<Rightarrow> string list \<Rightarrow> string \<times> string \<Rightarrow> (string \<times> string) \<times> (string + git_output)" where
  "sample_run dir args (tip, head) =
     (if length args = 4 \<and> hd args = ''update-ref'' \<and> args ! 1 = ''refs/heads/main'' \<and> args ! 3 = tip
      then ((args ! 2, head), Inr (git_ok []))
      else if args = [''rev-parse'', ''HEAD''] then ((tip, head), Inr (git_ok (if dir = ''/i'' then head else tip)))
      else if args = [''worktree'', ''list'', ''--porcelain''] then ((tip, head), Inr (git_ok []))
      else if take 1 args = [''log'']
      then ((tip, head), Inr (git_ok (''d1'' @ [CHR 0x1F] @ ''feat: A-1 - page'' @ [CHR 0x1F] @ ''[macc:task A-1]'' @ [CHR 0x00])))
      else if take 3 args = [''merge'', ''--no-ff'', ''--no-edit''] \<and> dir = ''/i''
      then ((tip, ''merge of '' @ last args), Inr (git_ok []))
      else if length args = 4 \<and> take 3 args = [''checkout'', ''--force'', ''--detach''] \<and> dir = ''/i''
      then ((tip, args ! 3), Inr (git_ok []))
      else ((tip, head), Inr git_failed))"

definition sample_git :: "(string \<times> string) git_env" where
  "sample_git = \<lparr>ge_run = sample_run, ge_exists = (\<lambda>_ _. True), ge_create_dir_all = (\<lambda>_ g. (g, None)),
     ge_remove_dir_all = (\<lambda>_ g. (g, None)), ge_canonicalize = (\<lambda>p _. Some p), ge_lock = (\<lambda>_ _ g. (g, None))\<rparr>"

lemma sample_git_run [simp]: "ge_run sample_git = sample_run"
  by (simp add: sample_git_def)

lemma sample_worktrees: "worktrees_for_branch sample_git ''/r'' ''main'' g = (g, Inr [])"
  by (cases g) (simp add: worktrees_for_branch_def primary_worktree_path_def git_common_dir_def
      worktree_list_porcelain_def git_checked_def run_git_output_def seq_def attempt_def ret_def throw_def
      git_ok_def git_failed_def Let_def str_lines_def)

lemma sample_git_law: "git_law sample_git ''/r'' ''main'' fst {}"
  unfolding git_law_def
proof (intro conjI allI ballI impI)
  fix dir :: string and args :: "string list" and g :: "string \<times> string"
  assume "leaves_branch (dir \<in> {}) args"
  then show "fst (fst (ge_run sample_git dir args g)) = fst g"
    by (cases g; cases args) (auto simp: leaves_branch_def)
next
  fix new old :: string and g :: "string \<times> string"
  obtain t h where g: "g = (t, h)" by (cases g)
  show "case ge_run sample_git ''/r'' [''update-ref'', ''refs/heads/'' @ ''main'', new, old] g of
        (g', Inl e) \<Rightarrow> fst g' = fst g
      | (g', Inr out) \<Rightarrow> if go_success out then fst g = old \<and> fst g' = new else fst g' = fst g"
    by (cases "old = t") (simp_all add: g git_ok_def git_failed_def)
qed (simp_all add: sample_worktrees)


end
