(* ===== verification/Reconcile.thy ===== *)
theory Reconcile
  imports Commits Integration Approval
begin

text \<open>
  Task states from git history (\<open>coordinator/commit_reconciler.rs\<close>): commits are read from \<open>git log\<close>, a
  report says which tasks they deliver, applying it makes those tasks merged, and branches that carry
  finished work of a waiting task are merged into the base branch one by one.  \<open>word\<close> is the Unicode class
  of word characters, as in \<open>Commits\<close>.
\<close>

section \<open>Reading the log\<close>

record git_commit_info =
  gi_sha :: string
  gi_subject :: string
  gi_full_message :: string

definition parse_log_record :: "string \<Rightarrow> git_commit_info option" where
  "parse_log_record raw =
     (let r = trim raw
      in if r = [] then None
         else case splitn 3 (\<lambda>c. c = CHR 0x1F) r of
                sha # subject # rest \<Rightarrow>
                  (let s = trim subject; body = (case rest of [b] \<Rightarrow> trim b | _ \<Rightarrow> [])
                   in Some \<lparr>gi_sha = trim sha, gi_subject = s,
                            gi_full_message = (if body = [] then s else s @ [CHR 0x0A, CHR 0x0A] @ body)\<rparr>)
              | _ \<Rightarrow> None)"

definition parse_log :: "string \<Rightarrow> git_commit_info list" where
  "parse_log raw = List.map_filter parse_log_record (split_on (\<lambda>c. c = CHR 0x00) raw)"

definition read_commit_range ::
  "'g git_env \<Rightarrow> string \<Rightarrow> string option \<Rightarrow> string \<Rightarrow> 'g \<Rightarrow> 'g \<times> git_commit_info list res" where
  "read_commit_range ge root base head =
     seq (run_git_output ge root
            [''log'', ''--format=%H%x1f%s%x1f%b%x00'',
             case base of None \<Rightarrow> head | Some b \<Rightarrow> b @ ''..'' @ head]
            ''read git log for commit reconciliation'')
       (\<lambda>out.
          if go_success out then ret (parse_log (go_stdout out))
          else if str_contains (go_stderr out) ''unknown revision'' \<or> str_contains (go_stderr out) ''bad revision''
          then ret []
          else throw (Validation_Err (''git log failed: '' @ go_stderr out)))"

definition discover_committed_task_ids ::
  "(string \<Rightarrow> bool) \<Rightarrow> 'g git_env \<Rightarrow> string \<Rightarrow> string \<Rightarrow> 'g \<Rightarrow> 'g \<times> string set res" where
  "discover_committed_task_ids word ge root head =
     seq (read_commit_range ge root None head)
       (\<lambda>commits. ret (set (List.map_filter (\<lambda>c. delivered_task word (gi_full_message c)) commits)))"

section \<open>The report\<close>

record reconciled_task =
  rd_task_id :: string
  rd_previous_state :: string
  rd_new_state :: string
  rd_sha :: string
  rd_subject :: string

record reconcile_report =
  rr_reconciled :: "reconciled_task list"
  rr_already_done :: "string list"
  rr_external :: "string list"
  rr_commits_scanned :: nat
  rr_verdicts :: "(string, gate_verdict) btree"

definition empty_report :: reconcile_report where
  "empty_report = \<lparr>rr_reconciled = [], rr_already_done = [], rr_external = [], rr_commits_scanned = 0, rr_verdicts = []\<rparr>"

definition is_reconcilable_state :: "string \<Rightarrow> bool" where
  "is_reconcilable_state s =
     (s \<in> {''todo'', ''claimed'', ''in_progress'', ''pr_open'', ''changes_requested'', ''queued''})"

definition is_terminal_state :: "string \<Rightarrow> bool" where
  "is_terminal_state s = (s \<in> {''merged'', ''abandoned''})"

definition build_task_state_map :: "task_registry \<Rightarrow> (string, string) btree" where
  "build_task_state_map r = fold (\<lambda>(k, v). bt_insert k v) (map (\<lambda>t. (tk_id t, tk_state t)) (rg_tasks r)) []"

definition note_commit ::
  "(string \<Rightarrow> bool) \<Rightarrow> git_commit_info \<Rightarrow> (string, string \<times> string) btree \<Rightarrow> (string, string \<times> string) btree" where
  "note_commit word c found =
     (case delivered_task word (gi_full_message c) of
        None \<Rightarrow> found
      | Some tid \<Rightarrow> entry_or_insert tid (gi_sha c, gi_subject c) found)"

definition extract_task_ids_from_commits ::
  "(string \<Rightarrow> bool) \<Rightarrow> git_commit_info list \<Rightarrow> (string, string \<times> string) btree" where
  "extract_task_ids_from_commits word commits = fold (note_commit word) commits []"

definition commit_verdict :: "(string \<Rightarrow> bool) \<Rightarrow> git_commit_info \<Rightarrow> (string \<times> gate_verdict) option" where
  "commit_verdict word c =
     (case (delivered_task word (gi_full_message c),
            bt_get (pc_tags (parse_message word (gi_full_message c))) ''gate_verdict'') of
        (Some tid, Some v) \<Rightarrow>
          (case gate_verdict_from_str v of Inl _ \<Rightarrow> None | Inr verdict \<Rightarrow> Some (tid, verdict))
      | _ \<Rightarrow> None)"

definition note_verdict ::
  "(string \<Rightarrow> bool) \<Rightarrow> git_commit_info \<Rightarrow> (string, gate_verdict) btree \<Rightarrow> (string, gate_verdict) btree" where
  "note_verdict word c m =
     (case commit_verdict word c of None \<Rightarrow> m | Some (tid, v) \<Rightarrow> entry_or_insert tid v m)"

definition report_task ::
  "task_registry \<Rightarrow> string \<times> string \<times> string \<Rightarrow> reconcile_report \<Rightarrow> reconcile_report" where
  "report_task r entry rep =
     (case entry of (tid, sha, subject) \<Rightarrow>
        if (case find_task (rg_tasks r) tid of None \<Rightarrow> False | Some t \<Rightarrow> is_human_approval_gate t) then rep
        else (case bt_get (build_task_state_map r) tid of
                None \<Rightarrow> rep\<lparr>rr_external := rr_external rep @ [tid]\<rparr>
              | Some state \<Rightarrow>
                  if is_terminal_state state then rep\<lparr>rr_already_done := rr_already_done rep @ [tid]\<rparr>
                  else if is_reconcilable_state state
                  then rep\<lparr>rr_reconciled := rr_reconciled rep
                         @ [\<lparr>rd_task_id = tid, rd_previous_state = state, rd_new_state = workflow_as_str Merged,
                             rd_sha = sha, rd_subject = subject\<rparr>]\<rparr>
                  else rep))"

definition reconcile :: "(string \<Rightarrow> bool) \<Rightarrow> task_registry \<Rightarrow> git_commit_info list \<Rightarrow> reconcile_report" where
  "reconcile word r commits =
     fold (report_task r) (extract_task_ids_from_commits word commits)
       (empty_report\<lparr>rr_commits_scanned := length commits,
                     rr_verdicts := fold (note_verdict word) commits []\<rparr>)"

section \<open>Applying a report\<close>

definition finish_task :: "reconcile_report \<Rightarrow> string \<Rightarrow> task \<Rightarrow> task" where
  "finish_task rep now t =
     (let t1 = t\<lparr>tk_state := workflow_as_str Merged, tk_updated_at := Some now, tk_state_changed_at := Some now\<rparr>;
          t2 = (case List.find (\<lambda>e. rd_task_id e = tk_id t) (rr_reconciled rep) of
                  None \<Rightarrow> t1
                | Some e \<Rightarrow> upd_runtime (\<lambda>rt. rt\<lparr>tr_extra := bt_insert ''completion_commit_sha'' (JStr (rd_sha e)) (tr_extra rt)\<rparr>) t1);
          t3 = (if is_human_approval_gate t2 then t2
                else case bt_get (rr_verdicts rep) (tk_id t) of
                       None \<Rightarrow> t2
                     | Some v \<Rightarrow> upd_runtime (\<lambda>rt. rt\<lparr>tr_gate_verdict := Some v\<rparr>) t2)
      in upd_runtime (\<lambda>rt. rt\<lparr>tr_status := Some ''idle'', tr_pid := None, tr_started_at := None,
                              tr_current_phase := None, tr_merge_result_pending := Some False\<rparr>)
           (clear_assignment t3))"

definition apply_reconcile_report :: "reconcile_report \<Rightarrow> string \<Rightarrow> task_registry \<Rightarrow> task_registry" where
  "apply_reconcile_report rep now r =
     (let r1 = r\<lparr>rg_external_merged := fold insort_insert (rr_external rep) (rg_external_merged r),
                 rg_tasks := map (\<lambda>t. if tk_id t \<in> rd_task_id ` set (rr_reconciled rep)
                                      then finish_task rep now t else t) (rg_tasks r)\<rparr>
      in (recompute_resource_locks now r1)\<lparr>rg_updated_at := Some now\<rparr>)"

section \<open>Branches that were never merged\<close>

datatype sync_branch_status = Sb_Merged | Sb_MergeFailed | Sb_SkippedNoTaskTags | Sb_SkippedTaskState

fun sync_branch_status_text :: "sync_branch_status \<Rightarrow> string" where
  "sync_branch_status_text Sb_Merged = ''merged''"
| "sync_branch_status_text Sb_MergeFailed = ''merge_failed''"
| "sync_branch_status_text Sb_SkippedNoTaskTags = ''skipped_no_task_tags''"
| "sync_branch_status_text Sb_SkippedTaskState = ''skipped_task_state''"

record sync_branch_result =
  sb_branch :: string
  sb_discovered :: "string list"
  sb_merged :: "string list"
  sb_status :: sync_branch_status
  sb_detail :: "string option"

definition list_local_branches :: "'g git_env \<Rightarrow> string \<Rightarrow> 'g \<Rightarrow> 'g \<times> string list res" where
  "list_local_branches ge root =
     seq (run_git_output ge root [''for-each-ref'', ''--format=%(refname:short)'', ''refs/heads''] ''list local git branches'')
       (\<lambda>out.
          if go_success out then ret (filter (\<lambda>l. l \<noteq> []) (map trim (str_lines (go_stdout out))))
          else throw (Validation_Err (''failed to list branches: '' @ trim (go_stderr out))))"

definition branch_is_macc_managed :: "string \<Rightarrow> bool" where
  "branch_is_macc_managed branch =
     (prefix_of ''macc/worker-'' branch \<or> prefix_of ''task/'' branch
      \<or> (case split_on (\<lambda>c. c = CHR ''/'') branch of
           [ai, tool, slot] \<Rightarrow> ai = ''ai'' \<and> tool \<noteq> [] \<and> slot \<noteq> []
         | _ \<Rightarrow> False))"

definition is_unmerged_branch_sync_state :: "string \<Rightarrow> bool" where
  "is_unmerged_branch_sync_state state =
     (let s = to_ascii_lowercase (trim state)
      in s = ''todo'' \<or> s = ''error'' \<or> s = ''failed'' \<or> str_contains s ''error'')"

definition eligible_tasks :: "task_registry \<Rightarrow> string list \<Rightarrow> string list" where
  "eligible_tasks r ids =
     filter (\<lambda>tid. case find_task (rg_tasks r) tid of
                     None \<Rightarrow> False
                   | Some t \<Rightarrow> \<not> is_human_approval_gate t \<and> is_unmerged_branch_sync_state (tk_state t)) ids"

definition branch_report ::
  "(string \<Rightarrow> bool) \<Rightarrow> task_registry \<Rightarrow> git_commit_info list \<Rightarrow> string list \<Rightarrow> reconcile_report" where
  "branch_report word r commits ids =
     empty_report\<lparr>rr_reconciled :=
         List.map_filter (\<lambda>tid.
           Option.bind (bt_get (extract_task_ids_from_commits word commits) tid) (\<lambda>(sha, subject).
             map_option (\<lambda>t. \<lparr>rd_task_id = tid, rd_previous_state = tk_state t,
                              rd_new_state = workflow_as_str Merged, rd_sha = sha, rd_subject = subject\<rparr>)
               (find_task (rg_tasks r) tid))) ids,
       rr_commits_scanned := length commits, rr_verdicts := rr_verdicts (reconcile word r commits)\<rparr>"

definition merge_branch_into_base :: "'g git_env \<Rightarrow> string \<Rightarrow> string \<Rightarrow> 'g \<Rightarrow> 'g \<times> git_output res" where
  "merge_branch_into_base ge dir branch =
     run_git_output ge dir [''merge'', ''--no-ff'', ''--no-edit'', branch] ''merge branch during sync reconciliation''"

definition unpublished_detail :: string where
  "unpublished_detail = ''merge succeeded but could not be published to the base branch ''
     @ ''(it may be checked out with conflicting uncommitted changes)''"

definition published_ok :: "publish_outcome option \<Rightarrow> bool" where
  "published_ok o' = (case o' of Some (Po_Published _) \<Rightarrow> True | Some Po_UpToDate \<Rightarrow> True | _ \<Rightarrow> False)"

text \<open>A branch that carries finished work of a waiting task.  \<open>clock\<close> gives the time at
  which the registry changes for a branch.\<close>

definition merge_candidate ::
  "(string \<Rightarrow> bool) \<Rightarrow> 'g git_env \<Rightarrow> integration_worktree \<Rightarrow> (string \<Rightarrow> string) \<Rightarrow> string \<Rightarrow> git_commit_info list \<Rightarrow>
   string list \<Rightarrow> string list \<Rightarrow> task_registry \<Rightarrow> 'g \<Rightarrow> 'g \<times> (task_registry \<times> sync_branch_result) res" where
  "merge_candidate word ge iw clock branch commits discovered eligible r =
     seq (merge_branch_into_base ge (iw_path iw) branch) (\<lambda>out.
     seq (if go_success out then attempt (publish ge iw) (\<lambda>o'. ret (published_ok o')) else ret False) (\<lambda>published.
     seq (reset_integration ge iw) (\<lambda>_.
       ret (if published
            then (apply_reconcile_report (branch_report word r commits eligible) (clock branch) r,
                  \<lparr>sb_branch = branch, sb_discovered = discovered, sb_merged = eligible,
                   sb_status = Sb_Merged, sb_detail = None\<rparr>)
            else (r, \<lparr>sb_branch = branch, sb_discovered = discovered, sb_merged = [],
                      sb_status = Sb_MergeFailed,
                      sb_detail = Some (if go_success out then unpublished_detail else trim (go_stderr out))\<rparr>)))))"

definition sync_branch ::
  "(string \<Rightarrow> bool) \<Rightarrow> 'g git_env \<Rightarrow> string \<Rightarrow> string \<Rightarrow> integration_worktree \<Rightarrow> (string \<Rightarrow> string) \<Rightarrow> string \<Rightarrow>
   task_registry \<Rightarrow> 'g \<Rightarrow> 'g \<times> (task_registry \<times> sync_branch_result list) res" where
  "sync_branch word ge root base iw clock branch r =
     seq (read_commit_range ge root (Some base) branch) (\<lambda>commits.
       let discovered = map fst (extract_task_ids_from_commits word commits);
           unfinished = unfinished_task_ids word (map gi_full_message commits);
           skipped = (\<lambda>status detail. \<lparr>sb_branch = branch, sb_discovered = discovered, sb_merged = [],
                                       sb_status = status, sb_detail = Some detail\<rparr>)
       in if unfinished \<noteq> []
          then ret (r, [skipped Sb_SkippedTaskState
                 (''unfinished task commits without a later delivery: '' @ join '', '' unfinished)])
          else if discovered = []
          then ret (r, if branch_is_macc_managed branch
                       then [skipped Sb_SkippedNoTaskTags ''no [macc:task TASK-ID] tags found in branch commits'']
                       else [])
          else if eligible_tasks r discovered = []
          then ret (r, [skipped Sb_SkippedTaskState ''matching tasks are not in todo/error states''])
          else seq (merge_candidate word ge iw clock branch commits discovered (eligible_tasks r discovered) r)
                 (\<lambda>(r', result). ret (r', [result])))"

fun sync_branches ::
  "(string \<Rightarrow> bool) \<Rightarrow> 'g git_env \<Rightarrow> string \<Rightarrow> string \<Rightarrow> integration_worktree \<Rightarrow> (string \<Rightarrow> string) \<Rightarrow> string list \<Rightarrow>
   task_registry \<Rightarrow> 'g \<Rightarrow> 'g \<times> (task_registry \<times> sync_branch_result list) res" where
  "sync_branches word ge root base iw clock [] r = ret (r, [])"
| "sync_branches word ge root base iw clock (b # bs) r =
     seq (sync_branch word ge root base iw clock b r) (\<lambda>(r1, out1).
     seq (sync_branches word ge root base iw clock bs r1) (\<lambda>(r2, out2). ret (r2, out1 @ out2)))"

definition sync_unmerged_branches ::
  "(string \<Rightarrow> bool) \<Rightarrow> 'g git_env \<Rightarrow> string \<Rightarrow> string \<Rightarrow> (string \<Rightarrow> string) \<Rightarrow> task_registry \<Rightarrow> 'g \<Rightarrow>
   'g \<times> (task_registry \<times> sync_branch_result list) res" where
  "sync_unmerged_branches word ge root base clock r =
     seq (list_local_branches ge root) (\<lambda>all.
     seq (acquire ge root base) (\<lambda>iw.
       sync_branches word ge root base iw clock (remdups_adj (sort (filter (\<lambda>b. b \<noteq> base) all))) r))"

section \<open>A sync publishes one merge\<close>

lemma keeps_log:
  assumes "git_law ge root base tip hs"
  shows "keeps P tip (read_commit_range ge root' b head)"
  unfolding read_commit_range_def
  by (intro keeps_seq keeps_run [OF assms]) (auto simp: keeps_base leaves_branch_def split: option.split)

lemma merge_candidate_stuck:
  assumes "git_law ge (iw_repo_root iw) (iw_base iw) tip holders" "iw_path iw \<notin> holders"
  shows "keeps (\<lambda>t. t \<noteq> iw_base_sha iw) tip (merge_candidate word ge iw clock branch commits discovered eligible r)"
  unfolding merge_candidate_def merge_branch_into_base_def
  by (intro keeps_seq keeps_run [OF assms(1)] keeps_reset [OF assms])
    (auto simp: keeps_base leaves_branch_def assms(2) intro: keeps_attempt publish_stuck [OF assms(1)])

lemma sync_branch_stuck:
  assumes "git_law ge (iw_repo_root iw) (iw_base iw) tip holders" "iw_path iw \<notin> holders"
  shows "keeps (\<lambda>t. t \<noteq> iw_base_sha iw) tip (sync_branch word ge root base iw clock branch r)"
  unfolding sync_branch_def
  by (intro keeps_seq keeps_log [OF assms(1)])
    (auto simp: Let_def keeps_base split: prod.split intro!: keeps_seq merge_candidate_stuck [OF assms])

lemma sync_branches_stuck:
  assumes "git_law ge (iw_repo_root iw) (iw_base iw) tip holders" "iw_path iw \<notin> holders"
  shows "keeps (\<lambda>t. t \<noteq> iw_base_sha iw) tip (sync_branches word ge root base iw clock bs r)"
  by (induction bs arbitrary: r)
    (auto simp: keeps_base split: prod.split intro!: keeps_seq sync_branch_stuck [OF assms])

text \<open>
  A branch is then reported as merged only when merging it made no commit: the worktree is on the tip it was
  set up on.
\<close>

lemma merged_without_commit:
  assumes "git_law ge (iw_repo_root iw) (iw_base iw) tip holders" "iw_path iw \<notin> holders" "tip g \<noteq> iw_base_sha iw"
    and run: "merge_candidate word ge iw clock b commits discovered eligible r g = (g', Inr (r', result))"
    and merged: "sb_status result = Sb_Merged"
  shows "\<exists>g1 g2. head_commit ge (iw_path iw) g1 = (g2, Inr (iw_base_sha iw))"
proof -
  obtain g1 out where m: "merge_branch_into_base ge (iw_path iw) b g = (g1, Inr out)"
    using run by (auto simp: merge_candidate_def seq_def split: prod.splits sum.splits)
  have "leaves_branch (iw_path iw \<in> holders) [''merge'', ''--no-ff'', ''--no-edit'', b]"
    by (simp add: leaves_branch_def assms(2))
  then have t1: "tip g1 = tip g"
    using keepsD [OF keeps_run [OF assms(1), where P = "\<lambda>_. True"] m [unfolded merge_branch_into_base_def]] by simp
  have "go_success out \<and> published_ok (case publish ge iw g1 of (_, Inl _) \<Rightarrow> None | (_, Inr o') \<Rightarrow> Some o')"
    using run m merged
    by (auto simp: merge_candidate_def seq_def attempt_def ret_def split: prod.splits sum.splits if_splits)
  then obtain g2 outcome where p: "publish ge iw g1 = (g2, Inr outcome)" "published_ok (Some outcome)"
    by (auto simp: published_ok_def split: prod.splits sum.splits)
  then obtain g3 sha where h: "head_commit ge (iw_path iw) g1 = (g3, Inr sha)"
    by (auto simp: publish_def seq_def split: prod.splits sum.splits)
  have t3: "tip g3 = tip g1" using keepsD [OF keeps_head [OF assms(1), where P = "\<lambda>_. True"] h] by simp
  have pc: "publish_commit ge (iw_repo_root iw) (iw_base iw) sha (iw_base_sha iw) g3 = (g2, Inr outcome)"
    using p(1) h by (simp add: publish_def seq_def)
  have "sha = iw_base_sha iw"
    using publish_commit_outcome [OF assms(1) pc] p(2) assms(3) t1 t3 by (cases outcome) (auto simp: published_ok_def)
  with h show ?thesis by blast
qed


section \<open>What a reconciliation changes\<close>

definition delivered_in :: "(string \<Rightarrow> bool) \<Rightarrow> git_commit_info list \<Rightarrow> string \<Rightarrow> bool" where
  "delivered_in word commits tid = (\<exists>c \<in> set commits. delivered_task word (gi_full_message c) = Some tid)"

definition may_reconcile :: "task \<Rightarrow> bool" where
  "may_reconcile t = (\<not> is_human_approval_gate t \<and> is_reconcilable_state (tk_state t))"

lemma note_commit_keys:
  "fst ` set (note_commit word c found) =
     (case delivered_task word (gi_full_message c) of None \<Rightarrow> {} | Some tid \<Rightarrow> {tid}) \<union> fst ` set found"
  using bt_get_in [of found]
  by (auto simp: note_commit_def entry_or_insert_def fst_bt_insert split: option.split)

lemma extracted_keys: "fst ` set (extract_task_ids_from_commits word commits) = {tid. delivered_in word commits tid}"
proof -
  have "fst ` set (fold (note_commit word) commits found) = {tid. delivered_in word commits tid} \<union> fst ` set found" for found
    by (induction commits arbitrary: found)
      (auto simp: note_commit_keys delivered_in_def split: option.splits)
  from this [of "[]"] show ?thesis by (simp add: extract_task_ids_from_commits_def)
qed

lemma map_of_states: "distinct (map tk_id ts) \<Longrightarrow>
  map_of (rev (map (\<lambda>t. (tk_id t, tk_state t)) ts)) k = map_option tk_state (find_task ts k)"
proof -
  assume d: "distinct (map tk_id ts)"
  have "map_of (map (\<lambda>t. (tk_id t, tk_state t)) ts) k = map_option tk_state (find_task ts k)"
    by (induction ts) auto
  then show ?thesis
    using d map_of_inject_set [of "rev (map (\<lambda>t. (tk_id t, tk_state t)) ts)" "map (\<lambda>t. (tk_id t, tk_state t)) ts"]
    by (simp add: comp_def rev_map [symmetric])
qed

lemma state_map_get: "distinct (map tk_id (rg_tasks r)) \<Longrightarrow>
  bt_get (build_task_state_map r) k = map_option tk_state (find_task (rg_tasks r) k)"
  using bt.fold_ins_get [of "[]" "map (\<lambda>t. (tk_id t, tk_state t)) (rg_tasks r)"] map_of_states [of "rg_tasks r" k]
  by (simp add: build_task_state_map_def bt_get_def [of "[]", abs_def])

lemma report_task_ids:
  assumes "distinct (map tk_id (rg_tasks r))"
  shows "rd_task_id ` set (rr_reconciled (report_task r (tid, x) rep)) =
      rd_task_id ` set (rr_reconciled rep)
      \<union> (case find_task (rg_tasks r) tid of None \<Rightarrow> {} | Some t \<Rightarrow> if may_reconcile t then {tid} else {})"
    and "set (rr_external (report_task r (tid, x) rep)) =
      set (rr_external rep) \<union> (if find_task (rg_tasks r) tid = None then {tid} else {})"
proof -
  have "\<not> is_terminal_state s" if "is_reconcilable_state s" for s
    using that by (auto simp: is_terminal_state_def is_reconcilable_state_def)
  then show "rd_task_id ` set (rr_reconciled (report_task r (tid, x) rep)) =
      rd_task_id ` set (rr_reconciled rep)
      \<union> (case find_task (rg_tasks r) tid of None \<Rightarrow> {} | Some t \<Rightarrow> if may_reconcile t then {tid} else {})"
    by (cases x) (auto simp: report_task_def state_map_get [OF assms] may_reconcile_def split: option.splits)
  show "set (rr_external (report_task r (tid, x) rep)) =
      set (rr_external rep) \<union> (if find_task (rg_tasks r) tid = None then {tid} else {})"
    by (cases x) (auto simp: report_task_def state_map_get [OF assms] split: option.splits)
qed

lemma fold_report_ids:
  assumes "distinct (map tk_id (rg_tasks r))"
  shows "rd_task_id ` set (rr_reconciled (fold (report_task r) es rep)) =
      rd_task_id ` set (rr_reconciled rep)
      \<union> {tid \<in> fst ` set es. \<exists>t. find_task (rg_tasks r) tid = Some t \<and> may_reconcile t}"
    and "set (rr_external (fold (report_task r) es rep)) =
      set (rr_external rep) \<union> {tid \<in> fst ` set es. find_task (rg_tasks r) tid = None}"
proof (induction es arbitrary: rep)
  case Nil
  { case 1 then show ?case by simp }
  { case 2 then show ?case by simp }
next
  case (Cons e es)
  obtain tid x where e: "e = (tid, x)" by (cases e)
  { case 1 show ?case
      using Cons(1) [of "report_task r e rep"] report_task_ids(1) [OF assms, of tid x rep]
      by (auto simp: e split: option.splits) }
  { case 2 show ?case
      using Cons(2) [of "report_task r e rep"] report_task_ids(2) [OF assms, of tid x rep] by (auto simp: e) }
qed

lemma reconciled_ids:
  assumes "distinct (map tk_id (rg_tasks r))"
  shows "rd_task_id ` set (rr_reconciled (reconcile word r commits)) =
      {tid. delivered_in word commits tid \<and> (\<exists>t. find_task (rg_tasks r) tid = Some t \<and> may_reconcile t)}"
    and "set (rr_external (reconcile word r commits)) =
      {tid. delivered_in word commits tid \<and> find_task (rg_tasks r) tid = None}"
  using fold_report_ids [OF assms, of "extract_task_ids_from_commits word commits"]
  by (auto simp: reconcile_def extracted_keys empty_report_def)

lemma applied_tasks:
  "rg_tasks (apply_reconcile_report rep now r) =
     map (\<lambda>t. if tk_id t \<in> rd_task_id ` set (rr_reconciled rep) then finish_task rep now t else t) (rg_tasks r)"
  by (simp add: apply_reconcile_report_def Let_def recompute_resource_locks_def)

lemma finish_task_fields [simp]:
  "tk_id (finish_task rep now t) = tk_id t" "tk_state (finish_task rep now t) = ''merged''"
  "tk_gate (finish_task rep now t) = tk_gate t"
  "tk_assignee (finish_task rep now t) = None" "tk_worktree (finish_task rep now t) = None"
  "tk_claimed_at (finish_task rep now t) = None"
  "tr_status (tk_runtime (finish_task rep now t)) = Some ''idle''"
  "tr_pid (tk_runtime (finish_task rep now t)) = None"
  "tr_current_phase (tk_runtime (finish_task rep now t)) = None"
  "tr_merge_result_pending (tk_runtime (finish_task rep now t)) = Some False"
  by (simp_all add: finish_task_def Let_def upd_runtime_def clear_assignment_def split: option.split)

lemma find_task_map: "(\<And>t. tk_id (f t) = tk_id t) \<Longrightarrow> find_task (map f ts) k = map_option f (find_task ts k)"
  by (induction ts) auto

lemma set_fold_insort: "set (fold insort_insert xs ys) = set xs \<union> set ys"
  by (induction xs arbitrary: ys) (auto simp: set_insort_insert)

lemma applied_find:
  assumes "distinct (map tk_id (rg_tasks r))"
  shows "find_task (rg_tasks (apply_reconcile_report (reconcile word r commits) now r)) tid =
    map_option (\<lambda>t. if delivered_in word commits tid \<and> may_reconcile t
                    then finish_task (reconcile word r commits) now t else t) (find_task (rg_tasks r) tid)"
proof (cases "find_task (rg_tasks r) tid")
  case None
  then show ?thesis by (simp add: applied_tasks find_task_map)
next
  case (Some t)
  then have "tk_id t = tid" using find_task_in by blast
  with Some show ?thesis by (simp add: applied_tasks find_task_map reconciled_ids(1) [OF assms])
qed

text \<open>The commit a task is credited to is the newest that delivers it.\<close>

lemma extracted_get:
  "bt_get (extract_task_ids_from_commits word commits) tid =
     map_option (\<lambda>c. (gi_sha c, gi_subject c))
       (List.find (\<lambda>c. delivered_task word (gi_full_message c) = Some tid) commits)"
proof -
  have "bt_get (fold (note_commit word) commits found) tid =
      or_else (bt_get found tid) (map_option (\<lambda>c. (gi_sha c, gi_subject c))
        (List.find (\<lambda>c. delivered_task word (gi_full_message c) = Some tid) commits))" for found
  proof (induction commits arbitrary: found)
    case Nil
    then show ?case by (cases "bt_get found tid") auto
  next
    case (Cons c cs)
    then show ?case
      by (cases "bt_get found tid") (auto simp: note_commit_def entry_or_insert_get split: option.split)
  qed
  from this [of "[]"] show ?thesis by (simp add: extract_task_ids_from_commits_def)
qed

lemma extracted_ok: "bt_ok (extract_task_ids_from_commits word commits)"
proof -
  have "bt_ok found \<Longrightarrow> bt_ok (fold (note_commit word) commits found)" for found
    by (induction commits arbitrary: found) (auto simp: note_commit_def entry_or_insert_ok split: option.split)
  then show ?thesis by (simp add: extract_task_ids_from_commits_def)
qed

lemma reported_entry:
  assumes "e \<in> set (rr_reconciled (fold (report_task r) es rep))"
  shows "e \<in> set (rr_reconciled rep) \<or> (rd_task_id e, rd_sha e, rd_subject e) \<in> set es"
  using assms
proof (induction es arbitrary: rep)
  case (Cons x es)
  from Cons.IH [of "report_task r x rep"] Cons.prems
  show ?case by (cases x) (auto simp: report_task_def split: if_splits option.splits)
qed simp

lemma credited_commit:
  assumes "e \<in> set (rr_reconciled (reconcile word r commits))"
  shows "\<exists>c. List.find (\<lambda>c. delivered_task word (gi_full_message c) = Some (rd_task_id e)) commits = Some c
    \<and> rd_sha e = gi_sha c \<and> rd_subject e = gi_subject c"
proof -
  have "(rd_task_id e, rd_sha e, rd_subject e) \<in> set (extract_task_ids_from_commits word commits)"
    using reported_entry [OF assms [unfolded reconcile_def]] by (simp add: empty_report_def)
  then show ?thesis by (auto simp: bt_in_iff [OF extracted_ok] extracted_get)
qed

lemma found_in: "List.find P xs = Some x \<Longrightarrow> P x \<and> x \<in> set xs"
  by (induction xs) (auto split: if_splits)

lemma finish_task_evidence:
  "List.find (\<lambda>e. rd_task_id e = tk_id t) (rr_reconciled rep) = Some e \<Longrightarrow>
   bt_get (tr_extra (tk_runtime (finish_task rep now t))) ''completion_commit_sha'' = Some (JStr (rd_sha e))"
  by (simp add: finish_task_def Let_def upd_runtime_def clear_assignment_def bt_get_insert split: option.split)

lemma finished_evidence:
  assumes "tk_id t \<in> rd_task_id ` set (rr_reconciled (reconcile word r commits))"
  shows "\<exists>c. List.find (\<lambda>c. delivered_task word (gi_full_message c) = Some (tk_id t)) commits = Some c
    \<and> bt_get (tr_extra (tk_runtime (finish_task (reconcile word r commits) now t))) ''completion_commit_sha''
      = Some (JStr (gi_sha c))"
proof -
  obtain e where e: "List.find (\<lambda>e. rd_task_id e = tk_id t) (rr_reconciled (reconcile word r commits)) = Some e"
  proof (cases "List.find (\<lambda>e. rd_task_id e = tk_id t) (rr_reconciled (reconcile word r commits))")
    case None
    then show ?thesis using assms by (auto simp: find_None_iff)
  qed
  have "e \<in> set (rr_reconciled (reconcile word r commits))" "rd_task_id e = tk_id t"
    using found_in [OF e] by simp_all
  then obtain c where "List.find (\<lambda>c. delivered_task word (gi_full_message c) = Some (tk_id t)) commits = Some c"
      "rd_sha e = gi_sha c"
    using credited_commit by metis
  then show ?thesis using finish_task_evidence [OF e] by metis
qed

text \<open>C24: Reconciling the registry with the history makes merged exactly the tasks it delivers: a task becomes
  merged, without worktree and idle, credited to its newest delivering commit, if and only if a commit of the
  history delivers it, it is not a human approval gate and it is still open; every other task is untouched.\<close>

theorem reconcile_merges_delivered:
  assumes "distinct (map tk_id (rg_tasks r))" "find_task (rg_tasks r) tid = Some t"
  shows "\<exists>t'. find_task (rg_tasks (apply_reconcile_report (reconcile word r commits) now r)) tid = Some t'
    \<and> (if delivered_in word commits tid \<and> may_reconcile t
       then tk_state t' = ''merged'' \<and> tk_worktree t' = None \<and> tr_status (tk_runtime t') = Some ''idle''
         \<and> (\<exists>c. List.find (\<lambda>c. delivered_task word (gi_full_message c) = Some tid) commits = Some c
             \<and> bt_get (tr_extra (tk_runtime t')) ''completion_commit_sha'' = Some (JStr (gi_sha c)))
       else t' = t)"
proof -
  have "tk_id t = tid" using find_task_in [OF assms(2)] by simp
  moreover have "tid \<in> rd_task_id ` set (rr_reconciled (reconcile word r commits))"
    if "delivered_in word commits tid \<and> may_reconcile t"
    using that assms(2) by (simp add: reconciled_ids(1) [OF assms(1)])
  ultimately show ?thesis
    using finished_evidence [of t word r commits now] by (auto simp: applied_find [OF assms(1)] assms(2))
qed

text \<open>Reconciliation settles: after a report has been applied, reconciling again with the same history
  finds nothing left to do, and every delivery of an unknown task is remembered as an external one.\<close>

theorem reconcile_settles:
  fixes r now word commits
  defines "r' \<equiv> apply_reconcile_report (reconcile word r commits) now r"
  assumes "distinct (map tk_id (rg_tasks r))"
  shows "rr_reconciled (reconcile word r' commits) = []
    \<and> set (rr_external (reconcile word r' commits)) \<subseteq> set (rg_external_merged r')"
proof -
  have ids: "map tk_id (rg_tasks r') = map tk_id (rg_tasks r)" by (simp add: r'_def applied_tasks)
  then have d: "distinct (map tk_id (rg_tasks r'))" using assms(2) by simp
  have find: "find_task (rg_tasks r') tid = map_option (\<lambda>t. if delivered_in word commits tid \<and> may_reconcile t
                    then finish_task (reconcile word r commits) now t else t) (find_task (rg_tasks r) tid)" for tid
    unfolding r'_def by (rule applied_find [OF assms(2)])
  have "\<not> may_reconcile (finish_task (reconcile word r commits) now t)" for t
    by (simp add: may_reconcile_def is_reconcilable_state_def)
  then have "rd_task_id ` set (rr_reconciled (reconcile word r' commits)) = {}"
    unfolding reconciled_ids(1) [OF d] by (auto simp: find split: if_splits)
  moreover have "set (rg_external_merged r') = set (rr_external (reconcile word r commits)) \<union> set (rg_external_merged r)"
    by (simp add: r'_def apply_reconcile_report_def Let_def recompute_resource_locks_def set_fold_insort)
  moreover have "set (rr_external (reconcile word r' commits)) = set (rr_external (reconcile word r commits))"
    unfolding reconciled_ids(2) [OF d] reconciled_ids(2) [OF assms(2)] by (auto simp: find)
  ultimately show ?thesis by simp
qed

section \<open>Concrete instances\<close>

definition sample_iw :: integration_worktree where
  "sample_iw = \<lparr>iw_repo_root = ''/r'', iw_path = ''/i'', iw_base = ''main'', iw_base_sha = ''c1''\<rparr>"


definition sample_history :: "git_commit_info list" where
  "sample_history = [\<lparr>gi_sha = ''d1'', gi_subject = format_subject sample_commit,
     gi_full_message = format_message sample_commit\<rparr>]"

definition sample_open :: task_registry where
  "sample_open = default_registry\<lparr>rg_tasks := [sample_task ''A-1'' InProgress, sample_task ''A-2'' InProgress]\<rparr>"

lemma sample_history_delivers: "delivered_in word sample_history tid \<longleftrightarrow> tid = ''A-1''"
  by (auto simp: delivered_in_def sample_history_def sample_delivers)

lemma sample_open_facts:
  "distinct (map tk_id (rg_tasks sample_open))"
  "find_task (rg_tasks sample_open) ''A-1'' = Some (sample_task ''A-1'' InProgress)"
  by (simp_all add: sample_open_def)

lemma sample_may_reconcile: "may_reconcile (sample_task k InProgress)"
  by (simp add: may_reconcile_def is_human_approval_gate_def is_reconcilable_state_def sample_task_def
      set_workflow_state_def default_task_def)

theorem reconcile_merges_delivered_witness:
  "\<exists>t'. find_task (rg_tasks (apply_reconcile_report (reconcile (\<lambda>_. True) sample_open sample_history) ''t1'' sample_open)) ''A-1'' = Some t'
     \<and> tk_state t' = ''merged''"
  using reconcile_merges_delivered [OF sample_open_facts, of "\<lambda>_. True" sample_history "''t1''"]
  by (auto simp: sample_history_delivers sample_may_reconcile)

theorem reconcile_settles_witness:
  "rr_reconciled (reconcile (\<lambda>_. True)
     (apply_reconcile_report (reconcile (\<lambda>_. True) sample_open sample_history) ''t1'' sample_open) sample_history) = []"
  using reconcile_settles [OF sample_open_facts(1), of "\<lambda>_. True" sample_history "''t1''"] by simp

end
