(* ===== verification/Json_Merge.thy ===== *)
theory Json_Merge
  imports Json_Codec
begin

text \<open>
  How JSON fragments are merged into a file (\<open>deep_merge\<close> of \<open>plan/mod.rs\<close>, \<open>deep_merge_json\<close> of
  \<open>structured_merge.rs\<close>): objects key by key, everything else replaced; the first variant adds to an array
  the items it does not contain yet, the second replaces it.  Both are one function of what is done with
  arrays.
\<close>

section \<open>The two merges\<close>

fun merge_json :: "(json list \<Rightarrow> json list \<Rightarrow> json list) \<Rightarrow> json \<Rightarrow> json \<Rightarrow> json"
  and merge_entries :: "(json list \<Rightarrow> json list \<Rightarrow> json list) \<Rightarrow> (string \<times> json) list \<Rightarrow> (string \<times> json) list \<Rightarrow>
    (string \<times> json) list" where
  "merge_json arr (JObj base) (JObj overlay) = JObj (merge_entries arr base overlay)"
| "merge_json arr (JArr base) (JArr overlay) = JArr (arr base overlay)"
| "merge_json arr base overlay = overlay"
| "merge_entries arr base [] = base"
| "merge_entries arr base ((k, v) # overlay) =
     merge_entries arr (bt_insert k (case bt_get base k of None \<Rightarrow> v | Some e \<Rightarrow> merge_json arr e v) base) overlay"

definition add_missing :: "json list \<Rightarrow> json list \<Rightarrow> json list" where
  "add_missing base overlay = fold (\<lambda>x acc. if x \<in> set acc then acc else acc @ [x]) overlay base"

definition deep_merge :: "json \<Rightarrow> json \<Rightarrow> json" where
  "deep_merge = merge_json add_missing"

definition deep_merge_json :: "json \<Rightarrow> json \<Rightarrow> json" where
  "deep_merge_json = merge_json (\<lambda>_ overlay. overlay)"

section \<open>Key by key\<close>

text \<open>A JSON value as a parser produces it: the keys of every object are in order and distinct.\<close>

fun json_ok :: "json \<Rightarrow> bool" where
  "json_ok (JObj m) = (bt_ok m \<and> list_all (\<lambda>e. json_ok (snd e)) m)"
| "json_ok (JArr xs) = list_all json_ok xs"
| "json_ok _ = True"

lemma merge_entries_ok: "bt_ok base \<Longrightarrow> bt_ok (merge_entries arr base overlay)"
  by (induction overlay arbitrary: base) (auto simp: bt_insert_ok split: prod.split)

lemma merge_entries_get:
  "bt_ok overlay \<Longrightarrow> bt_get (merge_entries arr base overlay) k =
    (case bt_get overlay k of
       None \<Rightarrow> bt_get base k
     | Some v \<Rightarrow> Some (case bt_get base k of None \<Rightarrow> v | Some e \<Rightarrow> merge_json arr e v))"
proof (induction overlay arbitrary: base)
  case (Cons e overlay)
  obtain j v where e: "e = (j, v)" by (cases e)
  then have "bt_get overlay j = None" using Cons.prems by (simp add: bt_get_None)
  moreover have "bt_ok overlay" using Cons.prems e by simp
  ultimately show ?case using Cons.IH by (auto simp: e bt_get_insert split: option.split)
qed simp

lemma object_value_ok: "json_ok (JObj m) \<Longrightarrow> bt_get m k = Some v \<Longrightarrow> json_ok v"
proof -
  assume ok: "json_ok (JObj m)" and v: "bt_get m k = Some v"
  then have "(k, v) \<in> set m" by (simp add: bt_in_iff)
  then show "json_ok v" using ok by (auto simp: list_all_iff)
qed

text \<open>What both treatments of arrays have in common.\<close>

locale array_merge =
  fixes arr :: "json list \<Rightarrow> json list \<Rightarrow> json list"
  assumes arr_again: "arr (arr base overlay) overlay = arr base overlay"
    and arr_self: "arr overlay overlay = overlay"
begin

lemma merge_self: "json_ok v \<Longrightarrow> merge_json arr v v = v"
proof (induction v)
  case (JObj m)
  have "bt_get (merge_entries arr m m) k = bt_get m k" for k
  proof (cases "bt_get m k")
    case None
    then show ?thesis using JObj.prems by (simp add: merge_entries_get)
  next
    case (Some v)
    then have "(k, v) \<in> set m" using JObj.prems by (simp add: bt_in_iff)
    then have "merge_json arr v v = v" using JObj.IH [of "(k, v)" v] object_value_ok [OF JObj.prems Some] by simp
    then show ?thesis using Some JObj.prems by (simp add: merge_entries_get)
  qed
  then have "merge_entries arr m m = m"
    using JObj.prems by (intro bt_eqI) (auto simp: merge_entries_ok)
  then show ?case by simp
qed (simp_all add: arr_self)

lemma merge_again: "json_ok base \<Longrightarrow> json_ok overlay \<Longrightarrow> merge_json arr (merge_json arr base overlay) overlay = merge_json arr base overlay"
proof (induction overlay arbitrary: base)
  case (JObj m)
  show ?case
  proof (cases "\<exists>b. base = JObj b")
    case True
    then obtain b where b: "base = JObj b" ..
    let ?once = "merge_entries arr b m"
    have ok: "bt_ok b" "bt_ok m" using JObj.prems b by simp_all
    have "bt_get (merge_entries arr ?once m) k = bt_get ?once k" for k
    proof (cases "bt_get m k")
      case None
      then show ?thesis by (simp add: merge_entries_get [OF ok(2)])
    next
      case (Some v)
      have "json_ok v" by (rule object_value_ok [OF JObj.prems(2) Some])
      moreover have "(k, v) \<in> set m" using Some ok(2) by (simp add: bt_in_iff)
      then have "json_ok e \<Longrightarrow> json_ok v \<Longrightarrow> merge_json arr (merge_json arr e v) v = merge_json arr e v" for e
        using JObj.IH [of "(k, v)" v e] by simp
      ultimately show ?thesis
        using Some object_value_ok [of b k] JObj.prems(1) b
        by (auto simp: merge_entries_get [OF ok(2)] merge_self split: option.split)
    qed
    then have "merge_entries arr ?once m = ?once"
      using ok by (intro bt_eqI) (auto simp: merge_entries_ok)
    then show ?thesis by (simp add: b)
  next
    case False
    then have "merge_json arr base (JObj m) = JObj m" by (cases base) auto
    then show ?thesis using merge_self [OF JObj.prems(2)] by simp
  qed
next
  case (JArr xs)
  then show ?case by (cases base) (auto simp: arr_again arr_self)
qed simp_all

end

lemma set_add_missing: "set (add_missing base overlay) = set base \<union> set overlay"
  unfolding add_missing_def by (induction overlay arbitrary: base) (auto simp: insert_absorb)

lemma add_missing_present: "set overlay \<subseteq> set base \<Longrightarrow> add_missing base overlay = base"
  unfolding add_missing_def by (induction overlay) auto

interpretation adding: array_merge add_missing
  by unfold_locales (simp_all add: add_missing_present set_add_missing)

interpretation replacing: array_merge "\<lambda>_ overlay. overlay"
  by unfold_locales simp_all

section \<open>What a merge sets and what it leaves alone\<close>

primrec json_at :: "string list \<Rightarrow> json \<Rightarrow> json option" where
  "json_at [] v = Some v"
| "json_at (k # p) v = Option.bind (json_get v k) (json_at p)"

text \<open>No value of the overlay stands at the path, above it or below it.\<close>

fun untouched :: "json \<Rightarrow> string list \<Rightarrow> bool" where
  "untouched overlay [] = False"
| "untouched (JObj m) (k # p) = (case bt_get m k of None \<Rightarrow> True | Some v \<Rightarrow> untouched v p)"
| "untouched _ _ = False"

fun scalar :: "json \<Rightarrow> bool" where
  "scalar (JObj _) = False"
| "scalar (JArr _) = False"
| "scalar _ = True"

lemma merge_scalar: "scalar v \<Longrightarrow> merge_json arr base v = v"
  by (cases v; cases base) simp_all

lemma untouched_none: "untouched overlay p \<Longrightarrow> json_at p overlay = None"
  by (induction overlay p rule: untouched.induct) (auto split: option.splits)

lemma merge_leaves: "json_ok overlay \<Longrightarrow> untouched overlay p \<Longrightarrow> json_at p (merge_json arr base overlay) = json_at p base"
proof (induction overlay p arbitrary: base rule: untouched.induct)
  case (2 m k p)
  show ?case
  proof (cases "\<exists>b. base = JObj b")
    case True
    then obtain b where b: "base = JObj b" ..
    note get = merge_entries_get [of m arr b k]
    show ?thesis
    proof (cases "bt_get m k")
      case None
      then show ?thesis using get 2(2) by (simp add: b)
    next
      case (Some v)
      then have u: "untouched v p" using 2(3) by simp
      have ok: "json_ok v" by (rule object_value_ok [OF 2(2) Some])
      show ?thesis
        using get Some 2(2) untouched_none [OF u] 2(1) [OF Some ok u] by (auto simp: b split: option.split)
    qed
  next
    case False
    then have "merge_json arr base (JObj m) = JObj m" "json_get base k = None" by (cases base; auto)+
    then show ?thesis using untouched_none [OF 2(3)] by simp
  qed
qed auto

lemma merge_sets: "json_ok overlay \<Longrightarrow> json_at p overlay = Some v \<Longrightarrow> scalar v \<Longrightarrow> json_at p (merge_json arr base overlay) = Some v"
proof (induction p arbitrary: base overlay)
  case Nil
  then show ?case by (simp add: merge_scalar)
next
  case (Cons k p)
  then obtain m w where m: "overlay = JObj m" "bt_get m k = Some w" "json_at p w = Some v"
    by (cases overlay) (auto simp: bind_eq_Some_conv)
  then have ok: "json_ok w" "bt_ok m" using Cons.prems(1) object_value_ok by auto
  show ?case
  proof (cases "\<exists>b. base = JObj b")
    case True
    then obtain b where "base = JObj b" ..
    then show ?thesis
      using m Cons.IH [OF ok(1) m(3) Cons.prems(3)] by (auto simp: merge_entries_get [OF ok(2)] split: option.split)
  next
    case False
    then have "merge_json arr base overlay = overlay" using m(1) by (cases base) auto
    then show ?thesis using Cons.prems(2) by simp
  qed
qed

text \<open>A JSON merge is an overlay: every scalar of the fragment is found in the result where the fragment has
  it, and every path of the file the fragment does not touch keeps its value.\<close>

theorem merge_is_overlay:
  assumes "json_ok overlay"
  shows "(\<forall>p v. json_at p overlay = Some v \<and> scalar v \<longrightarrow> json_at p (deep_merge base overlay) = Some v)
    \<and> (\<forall>p. untouched overlay p \<longrightarrow> json_at p (deep_merge base overlay) = json_at p base)"
  using merge_sets [OF assms] merge_leaves [OF assms] by (auto simp: deep_merge_def)

text \<open>Merging the same fragment a second time changes nothing, whether arrays are extended or replaced, so a
  merged file is a fixed point of the plan that made it.\<close>

theorem merge_settles:
  assumes "json_ok base" "json_ok overlay"
  shows "deep_merge (deep_merge base overlay) overlay = deep_merge base overlay
    \<and> deep_merge_json (deep_merge_json base overlay) overlay = deep_merge_json base overlay"
  using adding.merge_again [OF assms] replacing.merge_again [OF assms]
  by (simp add: deep_merge_def deep_merge_json_def)

section \<open>A concrete instance\<close>

definition sample_settings :: json where
  "sample_settings = JObj [(''a'', JInt 1), (''arr'', JArr [JInt 1, JInt 2]), (''obj'', JObj [(''x'', JInt 10)])]"

definition sample_fragment :: json where
  "sample_fragment = JObj [(''arr'', JArr [JInt 2, JInt 3]), (''b'', JInt 2), (''obj'', JObj [(''y'', JInt 20)])]"

lemma sample_json_ok: "json_ok sample_settings" "json_ok sample_fragment"
  by (simp_all add: sample_settings_def sample_fragment_def less_char_def)

theorem merge_is_overlay_witness:
  "json_at [''obj'', ''y''] (deep_merge sample_settings sample_fragment) = Some (JInt 20)
   \<and> json_at [''obj'', ''x''] (deep_merge sample_settings sample_fragment) = Some (JInt 10)"
proof -
  have "json_at [''obj'', ''y''] sample_fragment = Some (JInt 20)" "untouched sample_fragment [''obj'', ''x'']"
    "json_at [''obj'', ''x''] sample_settings = Some (JInt 10)"
    by (simp_all add: sample_fragment_def sample_settings_def)
  then show ?thesis using merge_is_overlay [OF sample_json_ok(2), of sample_settings] by (simp del: json_at.simps)
qed

theorem merge_settles_witness:
  "deep_merge (deep_merge sample_settings sample_fragment) sample_fragment = deep_merge sample_settings sample_fragment
   \<and> json_at [''arr''] (deep_merge sample_settings sample_fragment) = Some (JArr [JInt 1, JInt 2, JInt 3])"
  using merge_settles [OF sample_json_ok]
  by (simp add: deep_merge_def sample_settings_def sample_fragment_def add_missing_def less_char_def)

end
