(* ===== verification/Plan.thy ===== *)
theory Plan
  imports Json_Merge Git_Cmd "HOL-Library.Multiset"
begin

text \<open>
  What \<open>macc apply\<close> is about to do (\<open>plan/mod.rs\<close>, \<open>plan/ops.rs\<close>, \<open>plan/diff.rs\<close>, \<open>security/secret_scan.rs\<close>,
  \<open>validate_plan\<close> of \<open>lib.rs\<close>): the actions the adapters ask for, their order, the one operation each path
  gets, what a file will contain, and the scan for secrets.  The texts of JSON values are parameters.
\<close>

section \<open>Actions\<close>

datatype scope = Sc_Project | Sc_User

datatype action =
    Ac_Mkdir string scope
  | Ac_Backup_File string scope
  | Ac_Write_File string string scope
  | Ac_Ensure_Gitignore string scope
  | Ac_Merge_Json string json scope
  | Ac_Set_Executable string scope
  | Ac_Noop string scope

record json_io =
  ji_parse :: "string \<Rightarrow> string + json"
  ji_pretty :: "json \<Rightarrow> string"
  ji_compact :: "json \<Rightarrow> string"
  ji_action :: "action \<Rightarrow> string"

fun action_path :: "action \<Rightarrow> string" where
  "action_path (Ac_Mkdir path _) = path"
| "action_path (Ac_Backup_File path _) = path"
| "action_path (Ac_Write_File path _ _) = path"
| "action_path (Ac_Merge_Json path _ _) = path"
| "action_path (Ac_Set_Executable path _) = path"
| "action_path (Ac_Ensure_Gitignore _ _) = ''.gitignore''"
| "action_path (Ac_Noop _ _) = ''(noop)''"

fun action_scope :: "action \<Rightarrow> scope" where
  "action_scope (Ac_Mkdir _ s) = s"
| "action_scope (Ac_Backup_File _ s) = s"
| "action_scope (Ac_Write_File _ _ s) = s"
| "action_scope (Ac_Merge_Json _ _ s) = s"
| "action_scope (Ac_Set_Executable _ s) = s"
| "action_scope (Ac_Ensure_Gitignore _ s) = s"
| "action_scope (Ac_Noop _ s) = s"

fun action_rank :: "action \<Rightarrow> nat" where
  "action_rank (Ac_Mkdir _ _) = 0"
| "action_rank (Ac_Backup_File _ _) = 1"
| "action_rank (Ac_Write_File _ _ _) = 2"
| "action_rank (Ac_Merge_Json _ _ _) = 3"
| "action_rank (Ac_Ensure_Gitignore _ _) = 4"
| "action_rank (Ac_Set_Executable _ _) = 5"
| "action_rank (Ac_Noop _ _) = 6"

text \<open>Actions compare by rank, then path, then text: three stable sorts, the last key first.\<close>

definition normalize_plan :: "json_io \<Rightarrow> action list \<Rightarrow> action list" where
  "normalize_plan io actions =
     remdups_adj (sort_key action_rank (sort_key action_path (sort_key (ji_action io) actions)))"

section \<open>Building a plan\<close>

definition slashed :: "string \<Rightarrow> string" where
  "slashed path = map (\<lambda>c. if c = CHR 0x5C then CHR ''/'' else c) path"

text \<open>\<open>chars().nth(1)\<close>: behind the first character, with its continuation bytes.\<close>

definition second_char_is :: "char \<Rightarrow> string \<Rightarrow> bool" where
  "second_char_is c s =
     (case s of [] \<Rightarrow> False
      | _ # r \<Rightarrow> (case dropWhile (\<lambda>d. 128 \<le> (of_char d :: nat) \<and> (of_char d :: nat) < 192) r of
                   [] \<Rightarrow> False | d # _ \<Rightarrow> d = c))"

definition validate_path :: "scope \<Rightarrow> string \<Rightarrow> string + string" where
  "validate_path sc path =
     (let n = slashed path
      in if sc = Sc_User then Inr n
         else if prefix_of ''/'' n \<or> second_char_is (CHR '':'') n
         then Inl (''Absolute path not allowed in Project scope: '' @ path)
         else if ''..'' \<in> set (split_on (\<lambda>c. c = CHR ''/'') n)
         then Inl (''Parent directory traversal not allowed: '' @ path)
         else Inr n)"

record plan_builder =
  pb_plan :: "action list"
  pb_scope :: scope

definition new_builder :: "scope \<Rightarrow> plan_builder" where
  "new_builder sc = \<lparr>pb_plan = [], pb_scope = sc\<rparr>"

definition add_checked :: "string \<Rightarrow> (string \<Rightarrow> scope \<Rightarrow> action) \<Rightarrow> plan_builder \<Rightarrow> string + plan_builder" where
  "add_checked path act b =
     try_bind (validate_path (pb_scope b) path) (\<lambda>p. Inr (b\<lparr>pb_plan := pb_plan b @ [act p (pb_scope b)]\<rparr>))"

definition build_mkdir :: "string \<Rightarrow> plan_builder \<Rightarrow> string + plan_builder" where
  "build_mkdir path = add_checked path Ac_Mkdir"

definition build_write_text :: "string \<Rightarrow> string \<Rightarrow> plan_builder \<Rightarrow> string + plan_builder" where
  "build_write_text path content = add_checked path (\<lambda>p. Ac_Write_File p content)"

definition build_write_bytes :: "string \<Rightarrow> string \<Rightarrow> plan_builder \<Rightarrow> string + plan_builder" where
  "build_write_bytes path content = add_checked path (\<lambda>p. Ac_Write_File p content)"

definition build_backup_file :: "string \<Rightarrow> plan_builder \<Rightarrow> string + plan_builder" where
  "build_backup_file path = add_checked path Ac_Backup_File"

definition build_merge_json :: "string \<Rightarrow> json \<Rightarrow> plan_builder \<Rightarrow> string + plan_builder" where
  "build_merge_json path patch = add_checked path (\<lambda>p. Ac_Merge_Json p patch)"

definition build_ensure_gitignore :: "string \<Rightarrow> plan_builder \<Rightarrow> plan_builder" where
  "build_ensure_gitignore pattern b = b\<lparr>pb_plan := pb_plan b @ [Ac_Ensure_Gitignore pattern (pb_scope b)]\<rparr>"

definition build_noop :: "string \<Rightarrow> plan_builder \<Rightarrow> plan_builder" where
  "build_noop description b = b\<lparr>pb_plan := pb_plan b @ [Ac_Noop description (pb_scope b)]\<rparr>"

definition build_plan_from :: "json_io \<Rightarrow> plan_builder \<Rightarrow> action list" where
  "build_plan_from io b = normalize_plan io (pb_plan b)"

text \<open>\<open>build_patch_from_merge_target\<close> (\<open>plan/builders.rs\<close>): a value under a dotted path.\<close>

definition build_patch :: "string \<Rightarrow> json \<Rightarrow> string + json" where
  "build_patch merge_target value =
     (let parts = map trim (split_on (\<lambda>c. c = CHR ''.'') merge_target)
      in if [] \<in> set parts then Inl (''Invalid merge_target: '' @ quoted merge_target)
         else Inr (foldr (\<lambda>key current. JObj [(key, current)]) parts value))"

section \<open>Files as they are\<close>

record existing_file =
  ef_exists :: bool
  ef_bytes :: "string option"

definition missing_file :: existing_file where
  "missing_file = \<lparr>ef_exists = False, ef_bytes = None\<rparr>"

datatype action_status = As_Created | As_Updated | As_Unchanged | As_Noop | As_Unknown

fun action_status_text :: "action_status \<Rightarrow> string" where
  "action_status_text As_Created = ''CREATE''"
| "action_status_text As_Updated = ''UPDATE''"
| "action_status_text As_Unchanged = ''OK''"
| "action_status_text As_Noop = ''NOOP''"
| "action_status_text As_Unknown = ''UNKNOWN''"

definition ends_with :: "string \<Rightarrow> string \<Rightarrow> bool" where
  "ends_with suffix s = (strip_suffix suffix s \<noteq> None)"

definition end_line :: "string \<Rightarrow> string" where
  "end_line s = (if ends_with [CHR 0x0A] s then s else s @ [CHR 0x0A])"

definition normalize_json :: "json_io \<Rightarrow> string \<Rightarrow> string option" where
  "normalize_json io bytes =
     (case ji_parse io bytes of Inl _ \<Rightarrow> None | Inr v \<Rightarrow> Some (end_line (ji_pretty io v)))"

definition compute_write_status :: "json_io \<Rightarrow> string \<Rightarrow> string \<Rightarrow> existing_file \<Rightarrow> action_status" where
  "compute_write_status io path new existing =
     (let old = unwrap_or [] (ef_bytes existing)
      in if \<not> ef_exists existing then As_Created
         else if ends_with ''.json'' path
         then (case (normalize_json io old, normalize_json io new) of
                 (Some a, Some b) \<Rightarrow> if a = b then As_Unchanged else As_Updated
               | _ \<Rightarrow> if old = new then As_Unchanged else As_Updated)
         else if old = new then As_Unchanged else As_Updated)"

section \<open>UTF-8\<close>

definition byte_in :: "nat \<Rightarrow> nat \<Rightarrow> char \<Rightarrow> bool" where
  "byte_in lo hi c = (lo \<le> of_char c \<and> of_char c \<le> hi)"

definition sequence_length :: "string \<Rightarrow> nat" where
  "sequence_length s =
     (case s of
        [] \<Rightarrow> 0
      | c # r \<Rightarrow>
          if byte_in 0 0x7F c then 1
          else if byte_in 0xC2 0xDF c then (if list_all (byte_in 0x80 0xBF) (take 1 r) then 2 else 0)
          else if byte_in 0xE0 0xEF c
          then (let lo = (if c = CHR 0xE0 then 0xA0 else 0x80); hi = (if c = CHR 0xED then 0x9F else 0xBF)
                in if list_all (byte_in lo hi) (take 1 r) \<and> list_all (byte_in 0x80 0xBF) (take 2 r) then 3 else 0)
          else if byte_in 0xF0 0xF4 c
          then (let lo = (if c = CHR 0xF0 then 0x90 else 0x80); hi = (if c = CHR 0xF4 then 0x8F else 0xBF)
                in if list_all (byte_in lo hi) (take 1 r) \<and> list_all (byte_in 0x80 0xBF) (take 3 r) then 4 else 0)
          else 0)"

text \<open>\<open>str::from_utf8\<close> succeeds.\<close>

function utf8_ok :: "string \<Rightarrow> bool" where
  "utf8_ok s =
     (if s = [] then True
      else if sequence_length s = 0 \<or> length s < sequence_length s then False
      else utf8_ok (drop (sequence_length s) s))"
  by pat_completeness auto
termination
  by (relation "measure length") auto

declare utf8_ok.simps [simp del]

section \<open>Secrets\<close>

datatype severity = Sv_Error | Sv_Warning

text \<open>A pattern is a prefix and a run of characters of a class: exactly as many, or at least as many.\<close>

record secret_pattern =
  sp_name :: string
  sp_prefix :: string
  sp_class :: "char \<Rightarrow> bool"
  sp_count :: nat
  sp_open :: bool
  sp_severity :: severity

definition upper_alpha :: "char \<Rightarrow> bool" where
  "upper_alpha c = byte_in 65 90 c"

definition lower_alpha :: "char \<Rightarrow> bool" where
  "lower_alpha c = byte_in 97 122 c"

definition secret_patterns :: "secret_pattern list" where
  "secret_patterns =
     [\<lparr>sp_name = ''AWS Access Key'', sp_prefix = ''AKIA'', sp_class = (\<lambda>c. is_digit c \<or> upper_alpha c),
       sp_count = 16, sp_open = False, sp_severity = Sv_Error\<rparr>,
      \<lparr>sp_name = ''Generic Secret Token'', sp_prefix = ''sk-'',
       sp_class = (\<lambda>c. is_digit c \<or> upper_alpha c \<or> lower_alpha c),
       sp_count = 20, sp_open = True, sp_severity = Sv_Error\<rparr>,
      \<lparr>sp_name = ''GitHub Token'', sp_prefix = ''ghp_'',
       sp_class = (\<lambda>c. is_digit c \<or> upper_alpha c \<or> lower_alpha c),
       sp_count = 36, sp_open = False, sp_severity = Sv_Error\<rparr>]"

definition match_secret :: "secret_pattern \<Rightarrow> string \<Rightarrow> string option" where
  "match_secret p s =
     (case strip_prefix (sp_prefix p) s of
        None \<Rightarrow> None
      | Some r \<Rightarrow>
          (let run = takeWhile (sp_class p) r
           in if length run < sp_count p then None
              else Some (sp_prefix p @ (if sp_open p then run else take (sp_count p) run))))"

text \<open>\<open>find_iter\<close>: from the left, without overlaps; no pattern matches the empty text.\<close>

function find_secrets :: "secret_pattern \<Rightarrow> nat \<Rightarrow> string \<Rightarrow> (nat \<times> string) list" where
  "find_secrets p i s =
     (case s of [] \<Rightarrow> []
      | c # r \<Rightarrow>
          (case match_secret p s of
             None \<Rightarrow> find_secrets p (Suc i) r
           | Some m \<Rightarrow> (i, m) # find_secrets p (i + max 1 (length m)) (drop (max 1 (length m)) s)))"
  by pat_completeness auto
termination
  by (relation "measure (\<lambda>(p, i, s). length s)") auto

declare find_secrets.simps [simp del]

definition redact :: "string \<Rightarrow> string" where
  "redact s = (if length s \<le> 8 then ''****'' else take 4 s @ ''...'' @ drop (length s - 4) s)"

record secret_finding =
  sf_path :: string
  sf_pattern_name :: string
  sf_redacted_match :: string
  sf_range :: "nat \<times> nat"
  sf_severity :: severity

definition scan_bytes :: "string \<Rightarrow> string \<Rightarrow> secret_finding list" where
  "scan_bytes path bytes =
     (if utf8_ok bytes
      then concat (map (\<lambda>p. map (\<lambda>(i, m).
             \<lparr>sf_path = path, sf_pattern_name = sp_name p, sf_redacted_match = redact m,
              sf_range = (i, i + length m), sf_severity = sp_severity p\<rparr>) (find_secrets p 0 bytes)) secret_patterns)
      else [])"

section \<open>Validation\<close>

definition refuse_secrets :: "string \<Rightarrow> string \<Rightarrow> unit res" where
  "refuse_secrets path content =
     (let errors = filter (\<lambda>f. sf_severity f = Sv_Error) (scan_bytes path content)
      in if errors = [] then Inr ()
         else Inl (Secret_Detected path
                (join '', '' (map (\<lambda>f. sf_pattern_name f @ '' ('' @ sf_redacted_match f @ '')'') errors))))"

definition validate_action :: "json_io \<Rightarrow> bool \<Rightarrow> action \<Rightarrow> unit res" where
  "validate_action io allow_user_scope a =
     (if action_scope a = Sc_User \<and> \<not> allow_user_scope
      then Inl (User_Scope_Not_Allowed (''Action for path '' @ quoted (action_path a) @ '' is User scope''))
      else case a of
             Ac_Write_File path content _ \<Rightarrow> refuse_secrets path content
           | Ac_Merge_Json path patch _ \<Rightarrow> refuse_secrets path (ji_compact io patch)
           | _ \<Rightarrow> Inr ())"

fun validate_plan :: "json_io \<Rightarrow> bool \<Rightarrow> action list \<Rightarrow> unit res" where
  "validate_plan io allow_user_scope [] = Inr ()"
| "validate_plan io allow_user_scope (a # as) =
     try_bind (validate_action io allow_user_scope a) (\<lambda>_. validate_plan io allow_user_scope as)"

section \<open>One operation per path\<close>

datatype op_kind = Ok_Write | Ok_Merge | Ok_Delete | Ok_Mkdir | Ok_Other

fun kind_rank :: "op_kind \<Rightarrow> nat" where
  "kind_rank Ok_Write = 0" | "kind_rank Ok_Merge = 1" | "kind_rank Ok_Delete = 2"
| "kind_rank Ok_Mkdir = 3" | "kind_rank Ok_Other = 4"

record planned_op =
  po_path :: string
  po_scope :: scope
  po_consent_required :: bool
  po_kind :: op_kind
  po_backup_required :: bool
  po_set_executable :: bool
  po_before :: "string option"
  po_after :: "string option"

record op_acc =
  oa_scope :: scope
  oa_backup_required :: bool
  oa_set_executable :: bool
  oa_kind :: "op_kind option"
  oa_write_content :: "string option"
  oa_merge_patches :: "json list"
  oa_ensure_patterns :: "string list"

definition empty_acc :: op_acc where
  "empty_acc = \<lparr>oa_scope = Sc_Project, oa_backup_required = False, oa_set_executable = False, oa_kind = None,
     oa_write_content = None, oa_merge_patches = [], oa_ensure_patterns = []\<rparr>"

definition update_scope :: "scope \<Rightarrow> op_acc \<Rightarrow> op_acc" where
  "update_scope sc a = (if sc = Sc_User \<or> oa_scope a = Sc_User then a\<lparr>oa_scope := Sc_User\<rparr> else a)"

definition set_kind :: "op_kind \<Rightarrow> op_acc \<Rightarrow> op_acc" where
  "set_kind k a = (if oa_kind a = Some Ok_Write then a else a\<lparr>oa_kind := Some k\<rparr>)"

definition on_acc :: "string \<Rightarrow> (op_acc \<Rightarrow> op_acc) \<Rightarrow> (string, op_acc) btree \<Rightarrow> (string, op_acc) btree" where
  "on_acc path f m = bt_insert path (f (unwrap_or empty_acc (bt_get m path))) m"

fun accumulate :: "action \<Rightarrow> (string, op_acc) btree \<Rightarrow> (string, op_acc) btree" where
  "accumulate (Ac_Write_File path content sc) m =
     on_acc path (\<lambda>a. update_scope sc ((set_kind Ok_Write a)\<lparr>oa_write_content := Some content\<rparr>)) m"
| "accumulate (Ac_Merge_Json path patch sc) m =
     on_acc path (\<lambda>a. let b = set_kind Ok_Merge a in update_scope sc (b\<lparr>oa_merge_patches := oa_merge_patches b @ [patch]\<rparr>)) m"
| "accumulate (Ac_Backup_File path sc) m = on_acc path (\<lambda>a. update_scope sc (a\<lparr>oa_backup_required := True\<rparr>)) m"
| "accumulate (Ac_Mkdir path sc) m = on_acc path (\<lambda>a. update_scope sc (set_kind Ok_Mkdir a)) m"
| "accumulate (Ac_Ensure_Gitignore pattern sc) m =
     on_acc ''.gitignore'' (\<lambda>a. let b = set_kind Ok_Write a
       in update_scope sc (b\<lparr>oa_ensure_patterns := insort_insert pattern (oa_ensure_patterns b)\<rparr>)) m"
| "accumulate (Ac_Set_Executable path sc) m = on_acc path (\<lambda>a. update_scope sc (a\<lparr>oa_set_executable := True\<rparr>)) m"
| "accumulate (Ac_Noop _ _) m = m"

definition compute_merge_after :: "json_io \<Rightarrow> existing_file \<Rightarrow> json list \<Rightarrow> string option" where
  "compute_merge_after io existing patches =
     (if patches = [] then None
      else let base = (if ef_exists existing
                       then (case ji_parse io (unwrap_or [] (ef_bytes existing)) of Inl _ \<Rightarrow> JObj [] | Inr v \<Rightarrow> v)
                       else JObj [])
           in Some (ji_pretty io (fold (\<lambda>patch v. deep_merge v patch) patches base)))"

definition ensure_lines :: "string list \<Rightarrow> string list \<Rightarrow> string list" where
  "ensure_lines patterns lines =
     fold (\<lambda>p ls. if list_ex (\<lambda>l. trim l = p) ls then ls else ls @ [p]) patterns lines"

definition lines_text :: "string list \<Rightarrow> string" where
  "lines_text lines = (let out = join [CHR 0x0A] lines in if out = [] then out else end_line out)"

definition compute_gitignore_after :: "existing_file \<Rightarrow> string list \<Rightarrow> string option" where
  "compute_gitignore_after existing patterns =
     (if patterns = [] then None
      else Some (lines_text (ensure_lines patterns
             (case opt_filter utf8_ok (ef_bytes existing) of None \<Rightarrow> [] | Some c \<Rightarrow> str_lines c))))"

definition into_planned_op :: "json_io \<Rightarrow> (string \<Rightarrow> existing_file) \<Rightarrow> string \<times> op_acc \<Rightarrow> planned_op option" where
  "into_planned_op io read e =
     (case e of (path, a) \<Rightarrow>
        let kind = unwrap_or Ok_Other (oa_kind a)
        in if kind = Ok_Other \<and> oa_merge_patches a = [] \<and> oa_write_content a = None then None
           else let existing = read path; user = (oa_scope a = Sc_User)
             in Some \<lparr>po_path = path, po_scope = (if user then Sc_User else Sc_Project), po_consent_required = user,
                  po_kind = kind, po_backup_required = oa_backup_required a, po_set_executable = oa_set_executable a,
                  po_before = ef_bytes existing,
                  po_after = (if kind = Ok_Write
                    then or_else (oa_write_content a) (compute_gitignore_after existing (oa_ensure_patterns a))
                    else if kind = Ok_Merge then compute_merge_after io existing (oa_merge_patches a)
                    else None)\<rparr>)"

text \<open>\<open>read\<close> gives the file at a path of the project.\<close>

definition collect_plan_operations :: "json_io \<Rightarrow> (string \<Rightarrow> existing_file) \<Rightarrow> action list \<Rightarrow> planned_op list" where
  "collect_plan_operations io read actions =
     sort_key po_path (sort_key (\<lambda>op. kind_rank (po_kind op))
       (List.map_filter (into_planned_op io read) (fold accumulate actions [])))"

section \<open>The order of a plan\<close>

lemma normalize_set [simp]: "set (normalize_plan io as) = set as"
  by (simp add: normalize_plan_def)

lemma remdups_adj_sorted_key: "sorted (map f xs) \<Longrightarrow> sorted (map f (remdups_adj xs))"
  by (induction xs rule: remdups_adj.induct) (auto simp: sorted_wrt_map)

text \<open>A plan does not depend on the order in which the adapters contributed: normalizing two plans with the
  same actions gives the same list, in which directories come before backups, backups before writes, writes
  before merges, then ignore patterns and permissions.\<close>

theorem plan_order_independent:
  assumes "mset as = mset bs" "inj_on (ji_action io) (set as)"
  shows "normalize_plan io as = normalize_plan io bs
    \<and> set (normalize_plan io as) = set as \<and> sorted (map action_rank (normalize_plan io as))"
proof -
  have "sort_key (ji_action io) as = sort_key (ji_action io) bs"
    using assms by (intro sort_key_inj_key_eq) (auto simp: mset_sort inj_on_def)
  moreover have "set as = set bs" by (rule mset_eq_setD [OF assms(1)])
  ultimately show ?thesis by (simp add: normalize_plan_def remdups_adj_sorted_key)
qed

section \<open>The scan\<close>

lemma all_drop: "(\<forall>j. P (drop j (c # r))) \<longleftrightarrow> P (c # r) \<and> (\<forall>j. P (drop j r))"
proof -
  have "P (drop j (c # r))" if "P (c # r)" "\<forall>j. P (drop j r)" for j
    using that by (cases j) auto
  moreover have "P (c # r) \<and> (\<forall>j. P (drop j r))" if "\<forall>j. P (drop j (c # r))"
    using that [rule_format, of 0] that [rule_format, of "Suc _"] by simp
  ultimately show ?thesis by blast
qed

lemma find_secrets_Nil: "match_secret p [] = None \<Longrightarrow> find_secrets p i s = [] \<longleftrightarrow> (\<forall>j. match_secret p (drop j s) = None)"
proof (induction p i s rule: find_secrets.induct)
  case (1 p i s)
  show ?case
  proof (cases s)
    case Nil
    then show ?thesis using 1 by (simp add: find_secrets.simps [of p i "[]"])
  next
    case (Cons c r)
    show ?thesis
    proof (cases "match_secret p s")
      case None
      then have ih: "find_secrets p (Suc i) r = [] \<longleftrightarrow> (\<forall>j. match_secret p (drop j r) = None)"
        using 1(1) [OF Cons] 1(3) by simp
      have "(\<forall>j. match_secret p (drop j s) = None) \<longleftrightarrow> (\<forall>j. match_secret p (drop j r) = None)"
        using None all_drop [of "\<lambda>u. match_secret p u = None" c r] by (simp add: Cons)
      then show ?thesis using ih None by (simp add: find_secrets.simps [of p i "c # r"] Cons)
    next
      case (Some m)
      have "match_secret p (drop 0 s) = Some m" using Some by simp
      then have "\<not> (\<forall>j. match_secret p (drop j s) = None)" by (metis option.distinct(1))
      then show ?thesis using Some by (simp add: find_secrets.simps [of p i "c # r"] Cons)
    qed
  qed
qed

definition secret_free :: "string \<Rightarrow> bool" where
  "secret_free s = (\<forall>p \<in> set secret_patterns. \<forall>j. match_secret p (drop j s) = None)"

lemma secret_patterns_facts:
  "p \<in> set secret_patterns \<Longrightarrow> sp_severity p = Sv_Error"
  "p \<in> set secret_patterns \<Longrightarrow> match_secret p [] = None"
  by (auto simp: secret_patterns_def match_secret_def strip_prefix_def)

lemma refuse_secrets_iff: "refuse_secrets path s = Inr () \<longleftrightarrow> \<not> utf8_ok s \<or> secret_free s"
proof -
  have "find_secrets p 0 s = [] \<longleftrightarrow> (\<forall>j. match_secret p (drop j s) = None)" if "p \<in> set secret_patterns" for p
    using find_secrets_Nil [OF secret_patterns_facts(2) [OF that]] .
  then have "scan_bytes path s = [] \<longleftrightarrow> \<not> utf8_ok s \<or> secret_free s"
    by (simp add: scan_bytes_def secret_free_def)
  moreover have "filter (\<lambda>f. sf_severity f = Sv_Error) (scan_bytes path s) = scan_bytes path s"
    by (rule filter_True) (auto simp: scan_bytes_def secret_patterns_facts(1) split: if_splits)
  ultimately show ?thesis by (simp add: refuse_secrets_def Let_def)
qed

fun payload :: "json_io \<Rightarrow> action \<Rightarrow> string option" where
  "payload io (Ac_Write_File _ content _) = Some content"
| "payload io (Ac_Merge_Json _ patch _) = Some (ji_compact io patch)"
| "payload io _ = None"

lemma validate_action_iff:
  "validate_action io allow a = Inr () \<longleftrightarrow>
     (action_scope a = Sc_User \<longrightarrow> allow) \<and> pred_option (\<lambda>s. \<not> utf8_ok s \<or> secret_free s) (payload io a)"
  by (cases a) (auto simp: validate_action_def refuse_secrets_iff)

lemma validate_plan_iff:
  "validate_plan io allow as = Inr () \<longleftrightarrow>
     (\<forall>a \<in> set as. (action_scope a = Sc_User \<longrightarrow> allow)
        \<and> pred_option (\<lambda>s. \<not> utf8_ok s \<or> secret_free s) (payload io a))"
proof (induction as)
  case (Cons a as)
  show ?case
  proof (cases "validate_action io allow a")
    case (Inl e)
    then have "validate_action io allow a \<noteq> Inr ()" by simp
    then show ?thesis using Inl validate_action_iff [of io allow a] by auto
  next
    case (Inr u)
    then show ?thesis using Cons validate_action_iff [of io allow a] by auto
  qed
qed simp

text \<open>C28: A validated plan writes no secret: it is accepted exactly when every action is of project scope, or user
  scope is allowed, and no position of a text to be written or merged starts an access key or token of the
  known shapes.\<close>

theorem validated_plan_is_clean:
  "validate_plan io allow as = Inr () \<longleftrightarrow>
     (\<forall>a \<in> set as. (action_scope a = Sc_User \<longrightarrow> allow)
        \<and> (\<forall>s. payload io a = Some s \<longrightarrow> utf8_ok s \<longrightarrow> secret_free s))"
  unfolding validate_plan_iff by (auto simp: option.pred_set)

section \<open>A write wins over merges\<close>

fun write_of :: "string \<Rightarrow> action \<Rightarrow> string option" where
  "write_of path (Ac_Write_File p content _) = (if p = path then Some content else None)"
| "write_of path _ = None"

definition last_write :: "string \<Rightarrow> action list \<Rightarrow> string option" where
  "last_write path as = fold (\<lambda>a w. or_else (write_of path a) w) as None"

definition acc_at :: "(string, op_acc) btree \<Rightarrow> string \<Rightarrow> op_acc" where
  "acc_at m path = unwrap_or empty_acc (bt_get m path)"

lemma acc_fields [simp]:
  "oa_write_content (set_kind k a) = oa_write_content a"
  "oa_write_content (update_scope sc a) = oa_write_content a"
  "oa_kind (update_scope sc a) = oa_kind a"
  "oa_kind (set_kind Ok_Write a) = Some Ok_Write"
  "oa_merge_patches (set_kind k a) = oa_merge_patches a"
  "oa_merge_patches (update_scope sc a) = oa_merge_patches a"
  by (simp_all add: set_kind_def update_scope_def)

lemma acc_at_on: "acc_at (on_acc path f m) p = (if p = path then f (acc_at m path) else acc_at m p)"
  by (simp add: acc_at_def on_acc_def bt_get_insert)

lemma accumulate_write:
  "oa_write_content (acc_at (accumulate a m) path) = or_else (write_of path a) (oa_write_content (acc_at m path))"
  by (cases a) (auto simp: acc_at_on Let_def)

lemma accumulate_kind:
  assumes "oa_write_content (acc_at m path) \<noteq> None \<longrightarrow> oa_kind (acc_at m path) = Some Ok_Write"
  shows "oa_write_content (acc_at (accumulate a m) path) \<noteq> None \<longrightarrow> oa_kind (acc_at (accumulate a m) path) = Some Ok_Write"
  using assms by (cases a) (auto simp: acc_at_on Let_def set_kind_def)

lemma accumulate_ok: "bt_ok m \<Longrightarrow> bt_ok (accumulate a m)"
  by (cases a) (auto simp: on_acc_def bt_insert_ok)

lemma accumulated:
  "oa_write_content (acc_at (fold accumulate as m) path) =
     fold (\<lambda>a w. or_else (write_of path a) w) as (oa_write_content (acc_at m path))"
  by (induction as arbitrary: m) (simp_all add: accumulate_write)

lemma accumulated_kind:
  "oa_write_content (acc_at m path) \<noteq> None \<longrightarrow> oa_kind (acc_at m path) = Some Ok_Write \<Longrightarrow>
   oa_write_content (acc_at (fold accumulate as m) path) \<noteq> None \<longrightarrow>
   oa_kind (acc_at (fold accumulate as m) path) = Some Ok_Write"
  by (induction as arbitrary: m) (use accumulate_kind in auto)

lemma accumulated_ok: "bt_ok m \<Longrightarrow> bt_ok (fold accumulate as m)"
  by (induction as arbitrary: m) (simp_all add: accumulate_ok)

lemma into_op_path: "into_planned_op io read (path, a) = Some op \<Longrightarrow> po_path op = path"
  by (auto simp: into_planned_op_def Let_def split: if_splits)

lemma map_filter_paths:
  "distinct (map fst m) \<Longrightarrow> distinct (map po_path (List.map_filter (into_planned_op io read) m))
     \<and> po_path ` set (List.map_filter (into_planned_op io read) m) \<subseteq> fst ` set m"
proof (induction m)
  case (Cons e m)
  then show ?case
    using into_op_path [of io read "fst e" "snd e"] by (auto simp: map_filter_simps split: option.split)
qed (simp add: map_filter_simps)

lemma collected_set:
  "set (collect_plan_operations io read as) =
     {op. \<exists>e \<in> set (fold accumulate as []). into_planned_op io read e = Some op}"
  by (force simp: collect_plan_operations_def set_map_filter)

lemma sorted_distinct_strict: "sorted (map f xs) \<Longrightarrow> distinct (map f xs) \<Longrightarrow> sorted_wrt (<) (map f xs)"
  by (simp add: strict_sorted_iff)

lemma collected_distinct: "distinct (map po_path (collect_plan_operations io read as))"
proof -
  let ?ops = "List.map_filter (into_planned_op io read) (fold accumulate as [])"
  have "distinct (map fst (fold accumulate as []))"
    using accumulated_ok [of "[]" as] by (simp add: bt_ok_def strict_sorted_iff)
  then have "distinct (map po_path ?ops)" by (simp add: map_filter_paths)
  moreover have "mset (map po_path (collect_plan_operations io read as)) = mset (map po_path ?ops)"
    by (simp add: collect_plan_operations_def)
  ultimately show ?thesis by (metis mset_eq_imp_distinct_iff)
qed

text \<open>A plan has one operation per path, in the order of the paths, and where a path is written at all it gets
  the content of the last write: JSON merges and ignore patterns for the same path, which the plan orders
  after the write, have no effect.\<close>

theorem write_wins:
  assumes "last_write path as = Some content"
  shows "sorted_wrt (<) (map po_path (collect_plan_operations io read as))
    \<and> (\<exists>op \<in> set (collect_plan_operations io read as).
          po_path op = path \<and> po_kind op = Ok_Write \<and> po_after op = Some content)"
proof -
  let ?m = "fold accumulate as []" and ?a = "acc_at (fold accumulate as []) path"
  have w: "oa_write_content ?a = Some content"
    using accumulated [of as "[]" path] assms by (simp add: last_write_def acc_at_def empty_acc_def unwrap_or_def)
  have k: "oa_kind ?a = Some Ok_Write"
    using accumulated_kind [of "[]" path as] w by (simp add: acc_at_def empty_acc_def unwrap_or_def)
  have "bt_get ?m path = Some ?a"
    using w by (cases "bt_get ?m path") (auto simp: acc_at_def empty_acc_def unwrap_or_def)
  then have "(path, ?a) \<in> set ?m" using bt_in_iff [OF accumulated_ok, of "[]"] by simp
  moreover obtain op where op: "into_planned_op io read (path, ?a) = Some op" "po_kind op = Ok_Write"
      "po_after op = Some content" "po_path op = path"
    using w k by (simp add: into_planned_op_def Let_def unwrap_or_def or_else_def)
  ultimately have "op \<in> set (collect_plan_operations io read as)" using collected_set by blast
  moreover have "sorted (map po_path (collect_plan_operations io read as))"
    by (simp add: collect_plan_operations_def)
  ultimately show ?thesis using op collected_distinct sorted_distinct_strict by blast
qed

section \<open>Concrete plans\<close>

text \<open>A JSON layer that reads every text as an empty object and shows actions by kind and path.\<close>

definition sample_io :: json_io where
  "sample_io = \<lparr>ji_parse = (\<lambda>_. Inr (JObj [])), ji_pretty = (\<lambda>_. ''{}''), ji_compact = (\<lambda>_. ''{}''),
                ji_action = (\<lambda>a. replicate (action_rank a) (CHR ''a'') @ ''/'' @ action_path a)\<rparr>"

definition sample_actions :: "action list" where
  "sample_actions =
     [Ac_Merge_Json ''.mcp.json'' (JObj [(''servers'', JNull)]) Sc_Project, Ac_Write_File ''.mcp.json'' ''{}'' Sc_Project,
      Ac_Mkdir ''scripts'' Sc_Project]"

theorem plan_order_independent_witness:
  "normalize_plan sample_io sample_actions = normalize_plan sample_io (rev sample_actions)"
proof -
  have "inj_on (ji_action sample_io) (set sample_actions)"
    by (simp add: sample_io_def sample_actions_def)
  then show ?thesis using plan_order_independent [of sample_actions "rev sample_actions" sample_io] by simp
qed

theorem validated_plan_is_clean_witness:
  "validate_plan sample_io False [Ac_Mkdir ''scripts'' Sc_Project] = Inr ()
   \<and> validate_plan sample_io False [Ac_Write_File ''a'' ''AKIA0123456789ABCDEF'' Sc_Project] \<noteq> Inr ()"
proof -
  have "list_ex (\<lambda>p. match_secret p (drop 0 ''AKIA0123456789ABCDEF'') \<noteq> None) secret_patterns" by code_simp
  then have "\<not> secret_free ''AKIA0123456789ABCDEF''" unfolding secret_free_def list_ex_iff by (elim bexE) metis
  moreover have "utf8_ok ''AKIA0123456789ABCDEF''" by code_simp
  ultimately show ?thesis unfolding validated_plan_is_clean by simp
qed

theorem write_wins_witness:
  "\<exists>op \<in> set (collect_plan_operations sample_io (\<lambda>_. missing_file) sample_actions).
     po_path op = ''.mcp.json'' \<and> po_kind op = Ok_Write \<and> po_after op = Some ''{}''"
proof -
  have "last_write ''.mcp.json'' sample_actions = Some ''{}''" by (simp add: last_write_def sample_actions_def)
  from write_wins [OF this] show ?thesis by blast
qed

end
