(* ===== verification/Apply.thy ===== *)
theory Apply
  imports Plan
begin

text \<open>
  Carrying out a plan on the files of a project (\<open>apply_operations\<close> and its helpers in \<open>lib.rs\<close>,
  \<open>structured_merge.rs\<close>, \<open>user_backup.rs\<close>), the record of managed paths, \<open>.gitignore\<close>, and \<open>clear\<close>.  A world
  has files with their bytes and directories under path texts; two texts are two paths here, also where a
  file system would resolve both to one file.  \<open>ae_fail\<close> says which operation on which path fails, and with
  what message.  Console output is left out.
\<close>

section \<open>Files\<close>

record fs_world =
  fw_files :: "(string, string) btree"
  fw_dirs :: "string list"
  fw_exec :: "string list"

record apply_env =
  ae_json :: json_io
  ae_fail :: "string \<Rightarrow> string \<Rightarrow> fs_world \<Rightarrow> string option"
  ae_unreadable :: "string \<Rightarrow> bool"
  ae_stamp :: string
  ae_tmp :: "string \<Rightarrow> string"
  ae_managed_text :: "string list \<Rightarrow> string"
  ae_shape_error :: "json \<Rightarrow> string"
  ae_ignore_entries :: "string list"
  ae_toml :: "string \<Rightarrow> string \<Rightarrow> string option"
  ae_yaml :: "string \<Rightarrow> string \<Rightarrow> string option"
  ae_protected :: "string list"
  ae_home :: "string option"

record project_paths =
  pp_root :: string
  pp_macc_dir :: string
  pp_config_path :: string
  pp_backups_dir :: string

definition paths_from_root :: "string \<Rightarrow> project_paths" where
  "paths_from_root root =
     (let macc = path_join root ''.macc''
      in \<lparr>pp_root = root, pp_macc_dir = macc, pp_config_path = path_join macc ''macc.yaml'',
          pp_backups_dir = path_join macc ''backups''\<rparr>)"

definition managed_paths_state_path :: "project_paths \<Rightarrow> string" where
  "managed_paths_state_path pp = path_join (path_join (pp_macc_dir pp) ''state'') ''managed_paths.json''"

definition is_file :: "fs_world \<Rightarrow> string \<Rightarrow> bool" where
  "is_file w p = (bt_get (fw_files w) p \<noteq> None)"

definition fs_exists :: "fs_world \<Rightarrow> string \<Rightarrow> bool" where
  "fs_exists w p = (is_file w p \<or> p \<in> set (fw_dirs w))"

definition read_existing :: "apply_env \<Rightarrow> fs_world \<Rightarrow> string \<Rightarrow> existing_file" where
  "read_existing ae w p =
     (if \<not> is_file w p \<or> ae_unreadable ae p then missing_file
      else \<lparr>ef_exists = True, ef_bytes = bt_get (fw_files w) p\<rparr>)"

definition io_step :: "apply_env \<Rightarrow> string \<Rightarrow> string \<Rightarrow> (fs_world \<Rightarrow> fs_world) \<Rightarrow> fs_world \<Rightarrow> fs_world \<times> unit res" where
  "io_step ae path action f w =
     (case ae_fail ae path action w of
        Some e \<Rightarrow> (w, Inl (Io_Err path action e))
      | None \<Rightarrow> (f w, Inr ()))"

text \<open>A path and the directories above it.\<close>

fun path_chain :: "nat \<Rightarrow> string \<Rightarrow> string list" where
  "path_chain 0 p = []"
| "path_chain (Suc n) p = p # (case path_parent p of None \<Rightarrow> [] | Some q \<Rightarrow> if q = [] then [] else path_chain n q)"

definition add_dirs :: "string \<Rightarrow> fs_world \<Rightarrow> fs_world" where
  "add_dirs p w = w\<lparr>fw_dirs := dedup (fw_dirs w @ path_chain (Suc (length p)) p)\<rparr>"

definition create_dir_all :: "apply_env \<Rightarrow> string \<Rightarrow> string \<Rightarrow> fs_world \<Rightarrow> fs_world \<times> unit res" where
  "create_dir_all ae p action = io_step ae p action (add_dirs p)"

definition put_file :: "string \<Rightarrow> string \<Rightarrow> fs_world \<Rightarrow> fs_world" where
  "put_file p bytes w = w\<lparr>fw_files := bt_insert p bytes (fw_files w), fw_exec := removeAll p (fw_exec w)\<rparr>"

definition drop_file :: "string \<Rightarrow> fs_world \<Rightarrow> fs_world" where
  "drop_file p w = w\<lparr>fw_files := bt_remove p (fw_files w), fw_exec := removeAll p (fw_exec w)\<rparr>"

definition atomic_write :: "apply_env \<Rightarrow> string \<Rightarrow> string \<Rightarrow> fs_world \<Rightarrow> fs_world \<times> unit res" where
  "atomic_write ae target content =
     (let parent = unwrap_or [] (path_parent target); tmp = path_join parent (ae_tmp ae target)
      in seq (\<lambda>w. if parent \<noteq> [] \<and> \<not> fs_exists w parent
                  then create_dir_all ae parent ''create target parent directory'' w else (w, Inr ()))
         (\<lambda>_. seq (io_step ae tmp ''write temporary file'' (put_file tmp content))
         (\<lambda>_ w. case ae_fail ae target (''rename from '' @ tmp) w of
                  Some e \<Rightarrow> (drop_file tmp w, Inl (Io_Err target (''rename from '' @ tmp) e))
                | None \<Rightarrow> (put_file target content (drop_file tmp w), Inr ()))))"

definition write_if_changed_with_existing ::
  "apply_env \<Rightarrow> string \<Rightarrow> string \<Rightarrow> string \<Rightarrow> existing_file \<Rightarrow> (fs_world \<Rightarrow> fs_world \<times> unit res) \<Rightarrow> fs_world \<Rightarrow>
   fs_world \<times> action_status res" where
  "write_if_changed_with_existing ae logical target content existing before_write =
     (let status = compute_write_status (ae_json ae) logical content existing
      in if status = As_Unchanged then ret status
         else seq before_write (\<lambda>_. seq (atomic_write ae target content) (\<lambda>_. ret status)))"

definition create_timestamped_backup :: "apply_env \<Rightarrow> project_paths \<Rightarrow> string \<Rightarrow> string \<Rightarrow> fs_world \<Rightarrow> fs_world \<times> bool res" where
  "create_timestamped_backup ae pp stamp rel w =
     (let source = path_join (pp_root pp) rel;
          backup = path_join (path_join (pp_backups_dir pp) stamp) rel;
          action = ''copy to backup '' @ backup
      in if \<not> fs_exists w source then (w, Inr False)
         else seq (\<lambda>w. case path_parent backup of
                     None \<Rightarrow> (w, Inr ())
                   | Some parent \<Rightarrow>
                       if fs_exists w parent then (w, Inr ()) else create_dir_all ae parent ''create backup directory'' w)
                (\<lambda>_ w. case bt_get (fw_files w) source of
                     None \<Rightarrow> (w, Inl (Io_Err source action ''the source path is not an existing regular file''))
                   | Some bytes \<Rightarrow> seq (io_step ae source action (put_file backup bytes)) (\<lambda>_. ret True) w) w)"

section \<open>Managed paths\<close>

definition normalize_relative_path :: "string \<Rightarrow> string option" where
  "normalize_relative_path p =
     (if prefix_of ''/'' p \<or> p = [] \<or> ''..'' \<in> set (path_components p) \<or> path_components p = [] then None
      else Some (slashed (join ''/'' (path_components p))))"

text \<open>The store holds a version and the paths; \<open>ae_managed_text\<close> is its text.\<close>

definition managed_from_value :: "json \<Rightarrow> string list option" where
  "managed_from_value v =
     Option.bind (struct_fields 2 [''version'', ''paths''] v) (\<lambda>f.
     Option.bind (d_required (\<lambda>j. opt_filter (\<lambda>i. i < 2 ^ 32) (as_u64 j)) (f ''version'')) (\<lambda>_.
       d_required (d_list d_str) (f ''paths'')))"

definition managed_set :: "string list \<Rightarrow> string list" where
  "managed_set ps = fold insort_insert (List.map_filter normalize_relative_path ps) []"

definition load_managed_paths :: "apply_env \<Rightarrow> project_paths \<Rightarrow> fs_world \<Rightarrow> fs_world \<times> string list res" where
  "load_managed_paths ae pp w =
     (let p = managed_paths_state_path pp;
          bad = (\<lambda>e. (w, Inl (Validation_Err (''Failed to parse managed paths state at '' @ p @ '': '' @ e))))
      in if \<not> fs_exists w p then (w, Inr [])
         else case ae_fail ae p ''read managed paths state'' w of
                Some e \<Rightarrow> (w, Inl (Io_Err p ''read managed paths state'' e))
              | None \<Rightarrow>
                  (case ji_parse (ae_json ae) (unwrap_or [] (bt_get (fw_files w) p)) of
                     Inl e \<Rightarrow> bad e
                   | Inr v \<Rightarrow>
                       (case managed_from_value v of
                          None \<Rightarrow> bad (ae_shape_error ae v)
                        | Some ps \<Rightarrow> (w, Inr (managed_set ps)))))"

definition save_managed_paths :: "apply_env \<Rightarrow> project_paths \<Rightarrow> string list \<Rightarrow> fs_world \<Rightarrow> fs_world \<times> unit res" where
  "save_managed_paths ae pp entries =
     (let p = managed_paths_state_path pp
      in seq (\<lambda>w. case path_parent p of
                    None \<Rightarrow> (w, Inr ())
                  | Some parent \<Rightarrow> create_dir_all ae parent ''create managed state directory'' w)
         (\<lambda>_. atomic_write ae p (ae_managed_text ae entries @ [CHR 0x0A])))"

definition record_managed_path :: "apply_env \<Rightarrow> project_paths \<Rightarrow> string \<Rightarrow> fs_world \<Rightarrow> fs_world \<times> unit res" where
  "record_managed_path ae pp rel =
     (case normalize_relative_path rel of
        None \<Rightarrow> ret ()
      | Some n \<Rightarrow>
          seq (load_managed_paths ae pp) (\<lambda>managed.
            if n \<in> set managed then ret () else save_managed_paths ae pp (insort_insert n managed)))"

section \<open>Merging into structured files\<close>

definition merge_prefix :: "string \<Rightarrow> string option" where
  "merge_prefix entry =
     (let n = trim_start_matches ''./'' (slashed entry) in if ends_with ''/'' n then Some n else None)"

definition file_extension :: "string \<Rightarrow> string option" where
  "file_extension path =
     (if CHR ''.'' \<notin> set path then None else Some (last (split_on (\<lambda>c. c = CHR ''.'') path)))"

definition should_merge_path :: "apply_env \<Rightarrow> string \<Rightarrow> bool" where
  "should_merge_path ae path =
     ((case file_extension path of
         None \<Rightarrow> False
       | Some ext \<Rightarrow> to_ascii_lowercase ext \<in> {''json'', ''toml'', ''yaml'', ''yml''})
      \<and> list_ex (\<lambda>entry. case merge_prefix entry of
                   None \<Rightarrow> False
                 | Some prefix \<Rightarrow> prefix_of prefix (trim_start_matches ''./'' (slashed path))) (ae_ignore_entries ae))"

definition merge_json_bytes :: "json_io \<Rightarrow> string \<Rightarrow> string \<Rightarrow> string option" where
  "merge_json_bytes io existing desired =
     (case (ji_parse io existing, ji_parse io desired) of
        (Inr base, Inr overlay) \<Rightarrow> Some (end_line (ji_pretty io (deep_merge_json base overlay)))
      | _ \<Rightarrow> None)"

definition merge_bytes_for_path :: "apply_env \<Rightarrow> string \<Rightarrow> string option \<Rightarrow> string \<Rightarrow> string" where
  "merge_bytes_for_path ae path existing desired =
     (case existing of
        None \<Rightarrow> desired
      | Some old \<Rightarrow>
          if \<not> should_merge_path ae path \<or> old = [] then desired
          else unwrap_or desired
                 (case file_extension path of
                    None \<Rightarrow> None
                  | Some ext \<Rightarrow>
                      if ext = ''json'' then merge_json_bytes (ae_json ae) old desired
                      else if ext = ''toml'' then ae_toml ae old desired
                      else if ext = ''yaml'' \<or> ext = ''yml'' then ae_yaml ae old desired
                      else None))"

section \<open>Backups of user files\<close>

definition strip_dir :: "string \<Rightarrow> string \<Rightarrow> string option" where
  "strip_dir base p =
     (let bs = path_components base; ps = path_components p
      in if prefix_of ''/'' p = prefix_of ''/'' base \<and> take (length bs) ps = bs
         then Some (join ''/'' (drop (length bs) ps)) else None)"

definition user_relative_path :: "string \<Rightarrow> string \<Rightarrow> string" where
  "user_relative_path home p =
     (case (if prefix_of ''/'' p then nonempty (strip_dir home p) else None) of
        Some q \<Rightarrow> q
      | None \<Rightarrow>
          (let cs = filter (\<lambda>c. c \<noteq> ''..'') (path_components p) in if cs = [] then ''root'' else join ''/'' cs))"

definition user_backup_root :: "string \<Rightarrow> string" where
  "user_backup_root home = path_join home ''.macc/backups''"

definition new_user_backups :: "apply_env \<Rightarrow> fs_world \<Rightarrow> fs_world \<times> string res" where
  "new_user_backups ae w =
     (case ae_home ae of
        None \<Rightarrow> (w, Inl Home_Dir_Not_Found)
      | Some home \<Rightarrow> seq (create_dir_all ae (user_backup_root home) ''create user backup root'') (\<lambda>_. ret home) w)"

definition backup_user_file ::
  "apply_env \<Rightarrow> string \<Rightarrow> string \<Rightarrow> string \<Rightarrow> fs_world \<Rightarrow> fs_world \<times> (string \<times> string) option res" where
  "backup_user_file ae home stamp source w =
     (let target = path_join (path_join (user_backup_root home) stamp) (user_relative_path home source);
          action = ''copy to '' @ target
      in case bt_get (fw_files w) source of
           None \<Rightarrow> (w, Inr None)
         | Some bytes \<Rightarrow>
             seq (io_step ae source ''stat user file before backup'' id) (\<lambda>_.
             seq (\<lambda>w. case path_parent target of
                        None \<Rightarrow> (w, Inr ())
                      | Some parent \<Rightarrow> create_dir_all ae parent ''create user backup parent'' w) (\<lambda>_.
             seq (io_step ae source action (put_file target bytes)) (\<lambda>_.
             seq (io_step ae target ''set backup permissions'' id) (\<lambda>_. ret (Some (source, target)))))) w)"

section \<open>Protected context files\<close>

fun json_pointer :: "string list \<Rightarrow> json \<Rightarrow> json option" where
  "json_pointer [] v = Some v"
| "json_pointer (k # ks) v = (case json_get v k of None \<Rightarrow> None | Some w \<Rightarrow> json_pointer ks w)"

definition context_protect_enabled :: "json option \<Rightarrow> bool" where
  "context_protect_enabled v =
     (Option.bind v (json_pointer [''context'', ''protect'']) = Some (JBool True))"

definition context_file_names_from_config :: "json \<Rightarrow> string list" where
  "context_file_names_from_config v =
     (case json_pointer [''context'', ''fileName''] v of
        Some (JStr s) \<Rightarrow> [s]
      | Some (JArr items) \<Rightarrow> List.map_filter as_str items
      | _ \<Rightarrow> [])"

definition protected_files_of_tool ::
  "(string, json) btree \<Rightarrow> (string, json) btree \<Rightarrow> (string, string list) btree \<Rightarrow> string \<Rightarrow> string list" where
  "protected_files_of_tool config settings spec_ignores tool =
     (let cfg = or_else (bt_get config tool) (bt_get settings tool);
          named = (case cfg of None \<Rightarrow> [] | Some v \<Rightarrow> context_file_names_from_config v);
          listed = (if named = []
                    then filter (\<lambda>e. ends_with ''.md'' (to_ascii_lowercase e)) (unwrap_or [] (bt_get spec_ignores tool))
                    else named);
          files = (if listed = []
                   then [map (\<lambda>c. if c = CHR ''-'' then CHR ''_'' else c) (to_ascii_uppercase tool) @ ''.md'']
                   else listed)
      in if context_protect_enabled cfg then List.map_filter normalize_relative_path files else [])"

definition load_protected_context_paths ::
  "string list \<Rightarrow> (string, json) btree \<Rightarrow> (string, json) btree \<Rightarrow> (string, string list) btree \<Rightarrow> string list" where
  "load_protected_context_paths enabled config settings spec_ignores =
     concat (map (protected_files_of_tool config settings spec_ignores) enabled)"

section \<open>Applying operations\<close>

record apply_report =
  ar_outcomes :: "(string, action_status) btree"
  ar_backup_dir :: "string option"
  ar_user_backups :: "(string \<times> (string \<times> string) list) option"

record apply_state =
  as_outcomes :: "(string, action_status) btree"
  as_backup_created :: bool
  as_user_entries :: "(string \<times> string) list"
  as_backed_user :: "string list"

definition outcome :: "string \<Rightarrow> action_status \<Rightarrow> apply_state \<Rightarrow> apply_state" where
  "outcome path status st = st\<lparr>as_outcomes := bt_insert path status (as_outcomes st)\<rparr>"

definition record_created :: "apply_env \<Rightarrow> project_paths \<Rightarrow> planned_op \<Rightarrow> fs_world \<Rightarrow> fs_world \<times> unit res" where
  "record_created ae pp op = (if po_scope op = Sc_Project then record_managed_path ae pp (po_path op) else ret ())"

definition apply_mkdir :: "apply_env \<Rightarrow> project_paths \<Rightarrow> planned_op \<Rightarrow> apply_state \<Rightarrow> fs_world \<Rightarrow> fs_world \<times> apply_state res" where
  "apply_mkdir ae pp op st w =
     (let full = path_join (pp_root pp) (po_path op)
      in if fs_exists w full then (w, Inr (outcome (po_path op) As_Unchanged st))
         else seq (create_dir_all ae full ''create directory'') (\<lambda>_.
              seq (record_created ae pp op) (\<lambda>_. ret (outcome (po_path op) As_Created st))) w)"

definition backup_project_file ::
  "apply_env \<Rightarrow> project_paths \<Rightarrow> planned_op \<Rightarrow> existing_file \<Rightarrow> action_status \<Rightarrow> apply_state \<Rightarrow> fs_world \<Rightarrow>
   fs_world \<times> apply_state res" where
  "backup_project_file ae pp op existing status st =
     (if status \<noteq> As_Unchanged \<and> ef_exists existing \<and> po_scope op = Sc_Project
      then seq (create_timestamped_backup ae pp (ae_stamp ae) (po_path op)) (\<lambda>made.
             ret (if made then st\<lparr>as_backup_created := True\<rparr> else st))
      else ret st)"

definition backup_user_op ::
  "apply_env \<Rightarrow> project_paths \<Rightarrow> string option \<Rightarrow> planned_op \<Rightarrow> action_status \<Rightarrow> apply_state \<Rightarrow> fs_world \<Rightarrow>
   fs_world \<times> apply_state res" where
  "backup_user_op ae pp manager op status st =
     (case manager of
        Some home \<Rightarrow>
          if po_scope op = Sc_User \<and> status \<noteq> As_Unchanged \<and> po_path op \<notin> set (as_backed_user st)
          then seq (backup_user_file ae home (ae_stamp ae) (path_join (pp_root pp) (po_path op))) (\<lambda>entry.
                 ret (st\<lparr>as_backed_user := as_backed_user st @ [po_path op],
                         as_user_entries := as_user_entries st @ (case entry of None \<Rightarrow> [] | Some e \<Rightarrow> [e])\<rparr>))
          else ret st
      | None \<Rightarrow> ret st)"

definition make_executable :: "apply_env \<Rightarrow> string \<Rightarrow> fs_world \<Rightarrow> fs_world \<times> unit res" where
  "make_executable ae p =
     seq (\<lambda>w. if fs_exists w p then io_step ae p ''get metadata for chmod'' id w
              else (w, Inl (Io_Err p ''get metadata for chmod'' ''No such file or directory''))) (\<lambda>_.
     io_step ae p ''set executable permissions'' (\<lambda>w. w\<lparr>fw_exec := dedup (fw_exec w @ [p])\<rparr>))"

text \<open>\<open>content\<close> is what the plan wants in the file, \<open>existing\<close> what is there.\<close>

definition apply_write ::
  "apply_env \<Rightarrow> project_paths \<Rightarrow> string option \<Rightarrow> planned_op \<Rightarrow> string \<Rightarrow> existing_file \<Rightarrow> apply_state \<Rightarrow> fs_world \<Rightarrow>
   fs_world \<times> (apply_state \<times> action_status) res" where
  "apply_write ae pp manager op content existing st =
     (let full = path_join (pp_root pp) (po_path op);
          effective = (if po_kind op = Ok_Write then merge_bytes_for_path ae (po_path op) (ef_bytes existing) content
                       else content);
          guess = compute_write_status (ae_json ae) (po_path op) effective existing
      in seq (backup_project_file ae pp op existing guess st) (\<lambda>st1.
         seq (backup_user_op ae pp manager op guess st1) (\<lambda>st2.
         seq (write_if_changed_with_existing ae (po_path op) full effective existing (ret ())) (\<lambda>status.
         seq (if po_set_executable op \<and> status \<noteq> As_Noop then make_executable ae full else ret ()) (\<lambda>_.
           ret (st2, status))))))"

definition apply_file ::
  "apply_env \<Rightarrow> project_paths \<Rightarrow> string option \<Rightarrow> planned_op \<Rightarrow> apply_state \<Rightarrow> fs_world \<Rightarrow> fs_world \<times> apply_state res" where
  "apply_file ae pp manager op st w =
     (let existing = read_existing ae w (path_join (pp_root pp) (po_path op))
      in if po_path op \<in> set (ae_protected ae) \<and> ef_exists existing
         then (w, Inr (outcome (po_path op) As_Unchanged st))
         else seq (case po_after op of
                     None \<Rightarrow> ret (st, As_Noop)
                   | Some content \<Rightarrow> apply_write ae pp manager op content existing st) (\<lambda>(st1, status).
              seq (if status = As_Created then record_created ae pp op else ret ()) (\<lambda>_.
                ret (outcome (po_path op) status st1))) w)"

definition apply_op ::
  "apply_env \<Rightarrow> project_paths \<Rightarrow> string option \<Rightarrow> planned_op \<Rightarrow> apply_state \<Rightarrow> fs_world \<Rightarrow> fs_world \<times> apply_state res" where
  "apply_op ae pp manager op st =
     (case po_kind op of
        Ok_Mkdir \<Rightarrow> apply_mkdir ae pp op st
      | Ok_Write \<Rightarrow> apply_file ae pp manager op st
      | Ok_Merge \<Rightarrow> apply_file ae pp manager op st
      | Ok_Delete \<Rightarrow> ret (outcome (po_path op) As_Noop st)
      | Ok_Other \<Rightarrow> ret (outcome (po_path op) As_Noop st))"

fun apply_ops ::
  "apply_env \<Rightarrow> project_paths \<Rightarrow> string option \<Rightarrow> planned_op list \<Rightarrow> apply_state \<Rightarrow> fs_world \<Rightarrow> fs_world \<times> apply_state res" where
  "apply_ops ae pp manager [] st = ret st"
| "apply_ops ae pp manager (op # ops) st = seq (apply_op ae pp manager op st) (apply_ops ae pp manager ops)"

definition apply_operations ::
  "apply_env \<Rightarrow> project_paths \<Rightarrow> planned_op list \<Rightarrow> bool \<Rightarrow> fs_world \<Rightarrow> fs_world \<times> apply_report res" where
  "apply_operations ae pp ops allow_user_scope =
     (let users = filter (\<lambda>op. po_scope op = Sc_User) ops
      in if users \<noteq> [] \<and> \<not> allow_user_scope
         then throw (User_Scope_Not_Allowed (''Planned operation for path '' @ quoted (po_path (hd users)) @ '' is User scope''))
         else seq (if allow_user_scope \<and> users \<noteq> [] then seq (new_user_backups ae) (\<lambda>home. ret (Some home)) else ret None)
           (\<lambda>manager. seq (apply_ops ae pp manager ops
                \<lparr>as_outcomes = [], as_backup_created = False, as_user_entries = [], as_backed_user = []\<rparr>)
           (\<lambda>st. ret \<lparr>ar_outcomes = as_outcomes st,
                      ar_backup_dir = (if as_backup_created st then Some (path_join (pp_backups_dir pp) (ae_stamp ae)) else None),
                      ar_user_backups = (case manager of
                          Some home \<Rightarrow> if as_user_entries st = [] then None
                                       else Some (path_join (user_backup_root home) (ae_stamp ae), as_user_entries st)
                        | None \<Rightarrow> None)\<rparr>)))"

definition apply_plan ::
  "apply_env \<Rightarrow> project_paths \<Rightarrow> action list \<Rightarrow> bool \<Rightarrow> fs_world \<Rightarrow> fs_world \<times> apply_report res" where
  "apply_plan ae pp actions allow_user_scope w =
     (let plan = normalize_plan (ae_json ae) actions
      in case validate_plan (ae_json ae) allow_user_scope plan of
           Inl e \<Rightarrow> (w, Inl e)
         | Inr _ \<Rightarrow>
             apply_operations ae pp
               (collect_plan_operations (ae_json ae) (\<lambda>path. read_existing ae w (path_join (pp_root pp) path)) plan)
               allow_user_scope w)"

section \<open>A refused plan has no effect\<close>

text \<open>A plan that asks for user scope without permission, or that would write a secret, is refused as a whole:
  no file and no directory changes.\<close>

theorem refused_plan_has_no_effect:
  assumes "a \<in> set actions"
    and "(action_scope a = Sc_User \<and> \<not> allow)
      \<or> (\<exists>s. payload (ae_json ae) a = Some s \<and> utf8_ok s \<and> \<not> secret_free s)"
  shows "fst (apply_plan ae pp actions allow w) = w \<and> (\<exists>e. snd (apply_plan ae pp actions allow w) = Inl e)"
proof -
  have "validate_plan (ae_json ae) allow (normalize_plan (ae_json ae) actions) \<noteq> Inr ()"
    using assms unfolding validate_plan_iff by (auto simp: option.pred_set)
  then show ?thesis by (auto simp: apply_plan_def Let_def split: sum.split)
qed

section \<open>No file of the project is lost\<close>

definition file_at :: "fs_world \<Rightarrow> string \<Rightarrow> string option" where
  "file_at w p = bt_get (fw_files w) p"

text \<open>A step that leaves the content of a file alone, whatever it returns.\<close>

definition spares :: "string \<Rightarrow> (fs_world \<Rightarrow> fs_world \<times> 'a res) \<Rightarrow> bool" where
  "spares p m = (\<forall>w. file_at (fst (m w)) p = file_at w p)"

definition tmp_of :: "apply_env \<Rightarrow> string \<Rightarrow> string" where
  "tmp_of ae target = path_join (unwrap_or [] (path_parent target)) (ae_tmp ae target)"

definition backup_of :: "apply_env \<Rightarrow> project_paths \<Rightarrow> string \<Rightarrow> string" where
  "backup_of ae pp rel = path_join (path_join (pp_backups_dir pp) (ae_stamp ae)) rel"

lemma sparesD: "spares p m \<Longrightarrow> file_at (fst (m w)) p = file_at w p"
  by (simp add: spares_def)

lemma spares_eq: "spares p m \<Longrightarrow> m w = (w', r) \<Longrightarrow> file_at w' p = file_at w p"
  by (metis sparesD fst_conv)

lemma spares_seq: "spares p m \<Longrightarrow> (\<And>a. spares p (f a)) \<Longrightarrow> spares p (seq m f)"
  unfolding spares_def seq_def by (auto split: prod.split sum.split) (metis fst_conv)+

lemma spares_ret: "spares p (ret a)" "spares p (\<lambda>w. (w, r))"
  by (simp_all add: spares_def ret_def)

lemma spares_io: "(\<And>w. file_at (f w) p = file_at w p) \<Longrightarrow> spares p (io_step ae q action f)"
  by (auto simp: spares_def io_step_def split: option.split)

lemma spares_dirs: "spares p (create_dir_all ae q action)"
  unfolding create_dir_all_def by (rule spares_io) (simp add: file_at_def add_dirs_def)

lemma bt_get_remove_other: "k \<noteq> j \<Longrightarrow> bt_get (bt_remove k m) j = bt_get m j"
  by (induction k m rule: bt_remove.induct) auto

lemma file_at_put: "file_at (put_file p bytes w) q = (if q = p then Some bytes else file_at w q)"
  by (simp add: file_at_def put_file_def bt_get_insert)

lemma file_at_drop: "p \<noteq> q \<Longrightarrow> file_at (drop_file p w) q = file_at w q"
  by (simp add: file_at_def drop_file_def bt_get_remove_other)

lemma spares_write: "p \<noteq> target \<Longrightarrow> p \<noteq> tmp_of ae target \<Longrightarrow> spares p (atomic_write ae target content)"
proof -
  assume ne: "p \<noteq> target" "p \<noteq> tmp_of ae target"
  have "spares p (\<lambda>w. case ae_fail ae target (''rename from '' @ tmp_of ae target) w of
            Some e \<Rightarrow> (drop_file (tmp_of ae target) w, Inl (Io_Err target (''rename from '' @ tmp_of ae target) e))
          | None \<Rightarrow> (put_file target content (drop_file (tmp_of ae target) w), Inr ()))"
    using ne by (auto simp: spares_def file_at_put file_at_drop split: option.split)
  moreover have "spares p (\<lambda>w. if unwrap_or [] (path_parent target) \<noteq> [] \<and> \<not> fs_exists w (unwrap_or [] (path_parent target))
                  then create_dir_all ae (unwrap_or [] (path_parent target)) ''create target parent directory'' w
                  else (w, Inr ()))"
    using sparesD [OF spares_dirs] by (auto simp: spares_def)
  ultimately show ?thesis
    unfolding atomic_write_def Let_def tmp_of_def [symmetric] using ne
    by (intro spares_seq spares_io) (auto simp: file_at_put)
qed

lemma spares_managed:
  assumes "p \<noteq> managed_paths_state_path pp" "p \<noteq> tmp_of ae (managed_paths_state_path pp)"
  shows "spares p (record_managed_path ae pp rel)"
proof -
  have "spares p (load_managed_paths ae pp)"
    by (auto simp: spares_def load_managed_paths_def Let_def split: option.split sum.split)
  moreover have "spares p (save_managed_paths ae pp entries)" for entries
    unfolding save_managed_paths_def Let_def
    using sparesD [OF spares_dirs] by (intro spares_seq spares_write assms) (auto simp: spares_def split: option.split)
  ultimately show ?thesis
    unfolding record_managed_path_def by (auto simp: spares_ret intro!: spares_seq split: option.split)
qed

lemma spares_backup: "p \<noteq> backup_of ae pp rel \<Longrightarrow> spares p (create_timestamped_backup ae pp (ae_stamp ae) rel)"
proof -
  assume ne: "p \<noteq> backup_of ae pp rel"
  let ?source = "path_join (pp_root pp) rel" and ?backup = "backup_of ae pp rel"
  let ?action = "''copy to backup '' @ ?backup"
  have dirs: "spares p (\<lambda>w. case path_parent ?backup of
                     None \<Rightarrow> (w, Inr ())
                   | Some parent \<Rightarrow>
                       if fs_exists w parent then (w, Inr ()) else create_dir_all ae parent ''create backup directory'' w)"
    using sparesD [OF spares_dirs] by (auto simp: spares_def split: option.split)
  have "spares p (seq (io_step ae ?source ?action (put_file ?backup bytes)) (\<lambda>_. ret True))" for bytes
    using ne by (intro spares_seq spares_io spares_ret) (simp add: file_at_put)
  then have "spares p (\<lambda>w. case bt_get (fw_files w) ?source of
                     None \<Rightarrow> (w, Inl (Io_Err ?source ?action ''the source path is not an existing regular file''))
                   | Some bytes \<Rightarrow> seq (io_step ae ?source ?action (put_file ?backup bytes)) (\<lambda>_. ret True) w)"
    by (auto simp: spares_def split: option.split)
  then have "spares p (seq (\<lambda>w. case path_parent ?backup of
                     None \<Rightarrow> (w, Inr ())
                   | Some parent \<Rightarrow>
                       if fs_exists w parent then (w, Inr ()) else create_dir_all ae parent ''create backup directory'' w)
                (\<lambda>_ w. case bt_get (fw_files w) ?source of
                     None \<Rightarrow> (w, Inl (Io_Err ?source ?action ''the source path is not an existing regular file''))
                   | Some bytes \<Rightarrow> seq (io_step ae ?source ?action (put_file ?backup bytes)) (\<lambda>_. ret True) w))"
    by (intro spares_seq dirs)
  then show ?thesis
    unfolding spares_def create_timestamped_backup_def Let_def backup_of_def [symmetric] by simp
qed

lemma spares_exec: "spares p (make_executable ae q)"
  unfolding make_executable_def
  by (intro spares_seq spares_io) (auto simp: spares_def io_step_def file_at_def split: option.split)

lemma spares_if_changed:
  "p \<noteq> target \<Longrightarrow> p \<noteq> tmp_of ae target \<Longrightarrow>
   spares p (write_if_changed_with_existing ae logical target content existing (ret ()))"
  unfolding write_if_changed_with_existing_def Let_def
  by (auto intro!: spares_seq spares_write simp: spares_ret)

definition target_of :: "project_paths \<Rightarrow> planned_op \<Rightarrow> string" where
  "target_of pp op = path_join (pp_root pp) (po_path op)"

definition writes_of :: "apply_env \<Rightarrow> project_paths \<Rightarrow> planned_op \<Rightarrow> string set" where
  "writes_of ae pp op = {target_of pp op, tmp_of ae (target_of pp op), backup_of ae pp (po_path op)}"

definition state_writes :: "apply_env \<Rightarrow> project_paths \<Rightarrow> string set" where
  "state_writes ae pp = {managed_paths_state_path pp, tmp_of ae (managed_paths_state_path pp)}"

lemma spares_project_backup:
  "p \<noteq> backup_of ae pp (po_path op) \<Longrightarrow> spares p (backup_project_file ae pp op existing status st)"
  unfolding backup_project_file_def by (auto intro!: spares_seq spares_backup simp: spares_ret)

lemma spares_apply_write:
  assumes "p \<notin> writes_of ae pp op"
  shows "spares p (apply_write ae pp None op content existing st)"
  using assms unfolding apply_write_def Let_def target_of_def [symmetric] writes_of_def backup_user_op_def
  by (intro spares_seq spares_project_backup spares_if_changed)
    (auto simp: spares_ret spares_exec split: option.split)

lemma spares_created: "p \<notin> state_writes ae pp \<Longrightarrow> spares p (record_created ae pp op)"
  by (auto simp: record_created_def state_writes_def spares_ret intro: spares_managed)

lemma spares_file:
  assumes "p \<notin> writes_of ae pp op" "p \<notin> state_writes ae pp"
  shows "spares p (apply_file ae pp None op st)"
proof -
  have "spares p (seq (case po_after op of
                     None \<Rightarrow> ret (st, As_Noop)
                   | Some content \<Rightarrow> apply_write ae pp None op content existing st) (\<lambda>(st1, status).
              seq (if status = As_Created then record_created ae pp op else ret ()) (\<lambda>_.
                ret (outcome (po_path op) status st1))))" for existing
    using spares_apply_write [OF assms(1)] spares_created [OF assms(2)]
    by (intro spares_seq) (auto simp: spares_ret split: option.split intro!: spares_seq)
  then show ?thesis unfolding spares_def apply_file_def Let_def by auto
qed

lemma spares_op:
  assumes "p \<notin> writes_of ae pp op" "p \<notin> state_writes ae pp"
  shows "spares p (apply_op ae pp None op st)"
proof -
  have "spares p (apply_mkdir ae pp op st)"
  proof -
    have "spares p (seq (create_dir_all ae (target_of pp op) ''create directory'') (\<lambda>_.
              seq (record_created ae pp op) (\<lambda>_. ret (outcome (po_path op) As_Created st))))"
      by (intro spares_seq spares_dirs spares_created [OF assms(2)] spares_ret)
    then show ?thesis unfolding spares_def apply_mkdir_def Let_def target_of_def by auto
  qed
  then show ?thesis
    using spares_file [OF assms] by (auto simp: apply_op_def spares_ret split: op_kind.split)
qed

lemma backup_made:
  assumes "create_timestamped_backup ae pp (ae_stamp ae) rel w = (w1, Inr made)"
    and "file_at w (path_join (pp_root pp) rel) = Some b" "path_join (pp_root pp) rel \<noteq> backup_of ae pp rel"
  shows "file_at w1 (backup_of ae pp rel) = Some b"
proof -
  let ?source = "path_join (pp_root pp) rel"
  let ?dirs = "\<lambda>w. case path_parent (backup_of ae pp rel) of
                     None \<Rightarrow> (w, Inr ())
                   | Some parent \<Rightarrow>
                       if fs_exists w parent then (w, Inr ()) else create_dir_all ae parent ''create backup directory'' w"
  have ex: "fs_exists w ?source" using assms(2) by (simp add: fs_exists_def is_file_def file_at_def)
  obtain w2 where dirs: "?dirs w = (w2, Inr ())"
    using assms(1) ex
    by (auto simp: create_timestamped_backup_def Let_def seq_def backup_of_def split: prod.splits sum.splits)
  have "spares ?source ?dirs" using sparesD [OF spares_dirs] by (auto simp: spares_def split: option.split)
  from spares_eq [OF this dirs] have "bt_get (fw_files w2) ?source = Some b" using assms(2) by (simp add: file_at_def)
  then show ?thesis
    using assms(1) ex dirs
    by (auto simp: create_timestamped_backup_def Let_def seq_def backup_of_def io_step_def ret_def file_at_put
        split: option.splits)
qed

lemma write_keeps_or_backs_up:
  assumes "existing = \<lparr>ef_exists = True, ef_bytes = Some b\<rparr>" "file_at w (target_of pp op) = Some b"
    and "po_scope op = Sc_Project" "backup_of ae pp (po_path op) \<notin> {target_of pp op, tmp_of ae (target_of pp op)}"
  shows "file_at (fst (apply_write ae pp None op content existing st w)) (target_of pp op) = Some b
    \<or> file_at (fst (apply_write ae pp None op content existing st w)) (backup_of ae pp (po_path op)) = Some b"
proof -
  define effective where "effective =
    (if po_kind op = Ok_Write then merge_bytes_for_path ae (po_path op) (ef_bytes existing) content else content)"
  define guess where "guess = compute_write_status (ae_json ae) (po_path op) effective existing"
  define rest where "rest = (\<lambda>st1. seq (backup_user_op ae pp None op guess st1) (\<lambda>st2.
         seq (write_if_changed_with_existing ae (po_path op) (target_of pp op) effective existing (ret ())) (\<lambda>status.
         seq (if po_set_executable op \<and> status \<noteq> As_Noop then make_executable ae (target_of pp op) else ret ()) (\<lambda>_.
           ret (st2, status)))))"
  have run: "apply_write ae pp None op content existing st w =
      seq (backup_project_file ae pp op existing guess st) rest w"
    unfolding apply_write_def Let_def rest_def guess_def effective_def target_of_def ..
  have rest_backup: "spares (backup_of ae pp (po_path op)) (rest st1)" for st1
    unfolding rest_def backup_user_op_def
    using assms(4) by (intro spares_seq spares_if_changed) (auto simp: spares_ret spares_exec)
  obtain w1 r where b1: "backup_project_file ae pp op existing guess st w = (w1, r)" by force
  have t1: "file_at w1 (target_of pp op) = Some b"
    using spares_eq [OF spares_project_backup b1, of "target_of pp op"] assms(2,4) by auto
  show ?thesis
  proof (cases "guess = As_Unchanged")
    case True
    then have "spares (target_of pp op) (rest st1)" for st1
      unfolding rest_def backup_user_op_def write_if_changed_with_existing_def guess_def [symmetric] Let_def
      by (intro spares_seq) (auto simp: spares_ret spares_exec)
    then have "file_at (fst (rest st1 w1)) (target_of pp op) = Some b" for st1
      using t1 sparesD [where m = "rest st1"] by simp
    then show ?thesis using t1 unfolding run seq_def b1 by (auto split: sum.split)
  next
    case False
    show ?thesis
    proof (cases r)
      case (Inl e)
      then show ?thesis using t1 by (simp add: run seq_def b1)
    next
      case (Inr st1)
      then obtain made where "create_timestamped_backup ae pp (ae_stamp ae) (po_path op) w = (w1, Inr made)"
        using b1 False assms(1,3)
        by (auto simp: backup_project_file_def seq_def ret_def split: prod.splits sum.splits)
      then have "file_at w1 (backup_of ae pp (po_path op)) = Some b"
        using backup_made assms(2,4) by (auto simp: target_of_def)
      then have "file_at (fst (rest st1 w1)) (backup_of ae pp (po_path op)) = Some b"
        using sparesD [OF rest_backup] by simp
      then show ?thesis using Inr unfolding run seq_def b1 by simp
    qed
  qed
qed

lemma op_keeps_or_backs_up:
  assumes "file_at w (target_of pp op) = Some b" "\<not> ae_unreadable ae (target_of pp op)"
    and "po_scope op = Sc_Project" "target_of pp op \<notin> state_writes ae pp"
    and "backup_of ae pp (po_path op) \<notin> {target_of pp op, tmp_of ae (target_of pp op)} \<union> state_writes ae pp"
  shows "file_at (fst (apply_op ae pp None op st w)) (target_of pp op) = Some b
    \<or> file_at (fst (apply_op ae pp None op st w)) (backup_of ae pp (po_path op)) = Some b"
proof -
  let ?t = "target_of pp op" and ?k = "backup_of ae pp (po_path op)"
  let ?e = "\<lparr>ef_exists = True, ef_bytes = Some b\<rparr>"
  have ex: "fs_exists w ?t" and read: "read_existing ae w ?t = ?e"
    using assms(1,2) by (simp_all add: fs_exists_def is_file_def read_existing_def file_at_def)
  have mkdir: "file_at (fst (apply_mkdir ae pp op st w)) ?t = Some b"
    using ex assms(1) by (simp add: apply_mkdir_def Let_def target_of_def)
  have tail: "spares q (seq (if status = As_Created then record_created ae pp op else ret ()) (\<lambda>_.
                ret (outcome (po_path op) status st1)))" if "q \<in> {?t, ?k}" for q status st1
    using that assms(4,5) by (intro spares_seq) (auto simp: spares_ret spares_created)
  have onfile: "file_at (fst (apply_file ae pp None op st w)) ?t = Some b
      \<or> file_at (fst (apply_file ae pp None op st w)) ?k = Some b"
  proof (cases "po_path op \<in> set (ae_protected ae)")
    case True
    then show ?thesis using assms(1) read by (simp add: apply_file_def Let_def target_of_def)
  next
    case False
    define m where "m = (case po_after op of None \<Rightarrow> ret (st, As_Noop)
        | Some content \<Rightarrow> apply_write ae pp None op content ?e st)"
    have run: "apply_file ae pp None op st w =
        seq m (\<lambda>(st1, status). seq (if status = As_Created then record_created ae pp op else ret ()) (\<lambda>_.
                ret (outcome (po_path op) status st1))) w"
      using False read by (simp add: apply_file_def Let_def target_of_def m_def)
    have first: "file_at (fst (m w)) ?t = Some b \<or> file_at (fst (m w)) ?k = Some b"
      using write_keeps_or_backs_up [OF refl assms(1,3)] assms(1,5)
      by (auto simp: m_def ret_def split: option.split)
    show ?thesis
    proof (cases "m w")
      case (Pair w1 r)
      then show ?thesis
        using first sparesD [OF tail] unfolding run seq_def by (auto split: sum.split prod.split)
    qed
  qed
  show ?thesis using mkdir onfile assms(1) by (auto simp: apply_op_def ret_def split: op_kind.split)
qed

definition separated :: "apply_env \<Rightarrow> project_paths \<Rightarrow> planned_op list \<Rightarrow> bool" where
  "separated ae pp ops =
     (distinct (map po_path ops)
      \<and> list_all (\<lambda>op. po_scope op = Sc_Project \<and> list_all (\<lambda>op'.
           backup_of ae pp (po_path op') \<notin> {target_of pp op, tmp_of ae (target_of pp op)} \<union> state_writes ae pp
           \<and> (po_path op \<noteq> po_path op' \<longrightarrow> backup_of ae pp (po_path op) \<noteq> backup_of ae pp (po_path op'))) ops) ops)"

text \<open>A file that is neither a backup nor scratch space of the run.\<close>

definition ordinary :: "apply_env \<Rightarrow> project_paths \<Rightarrow> planned_op list \<Rightarrow> string \<Rightarrow> bool" where
  "ordinary ae pp ops p =
     (p \<notin> state_writes ae pp \<and> \<not> ae_unreadable ae p
      \<and> list_all (\<lambda>op. p \<noteq> tmp_of ae (target_of pp op) \<and> p \<noteq> backup_of ae pp (po_path op)) ops)"

lemma separated_pair:
  assumes "separated ae pp ops" "op \<in> set ops" "op' \<in> set ops"
  shows "backup_of ae pp (po_path op') \<notin> {target_of pp op, tmp_of ae (target_of pp op)} \<union> state_writes ae pp
    \<and> (po_path op \<noteq> po_path op' \<longrightarrow> backup_of ae pp (po_path op) \<noteq> backup_of ae pp (po_path op'))"
  using assms unfolding separated_def list_all_iff by blast

lemma ops_keep_or_back_up:
  assumes "separated ae pp (before @ ops)" "ordinary ae pp (before @ ops) p"
    and "file_at w p = Some b \<or> (\<exists>op \<in> set before. target_of pp op = p \<and> file_at w (backup_of ae pp (po_path op)) = Some b)"
  shows "file_at (fst (apply_ops ae pp None ops st w)) p = Some b
    \<or> (\<exists>op \<in> set (before @ ops). target_of pp op = p
          \<and> file_at (fst (apply_ops ae pp None ops st w)) (backup_of ae pp (po_path op)) = Some b)"
  using assms
proof (induction ops arbitrary: before st w)
  case Nil
  then show ?case by (auto simp: ret_def)
next
  case (Cons op ops)
  let ?w1 = "fst (apply_op ae pp None op st w)"
  note sep = Cons.prems(1) [unfolded separated_def]
  have all: "before @ op # ops = (before @ [op]) @ ops" by simp
  have keep: "file_at ?w1 q = file_at w q" if "q \<notin> writes_of ae pp op" "q \<notin> state_writes ae pp" for q
    using sparesD [OF spares_op [OF that]] .
  have "file_at ?w1 p = Some b
      \<or> (\<exists>o' \<in> set (before @ [op]). target_of pp o' = p \<and> file_at ?w1 (backup_of ae pp (po_path o')) = Some b)"
  proof (cases "file_at w p = Some b")
    case True
    show ?thesis
    proof (cases "target_of pp op = p")
      case True
      then show ?thesis
        using op_keeps_or_backs_up [of w pp op b ae st] \<open>file_at w p = Some b\<close> Cons.prems(2) sep
        by (auto simp: ordinary_def)
    next
      case False
      then show ?thesis using keep [of p] True Cons.prems(2) by (auto simp: ordinary_def writes_of_def)
    qed
  next
    case False
    then obtain o' where o': "o' \<in> set before" "target_of pp o' = p" "file_at w (backup_of ae pp (po_path o')) = Some b"
      using Cons.prems(3) by blast
    have "distinct (map po_path (before @ op # ops))" using sep by (rule conjunct1)
    then have "po_path op \<notin> po_path ` set before" by (simp only: map_append list.map distinct_append set_map) auto
    then have far: "po_path o' \<noteq> po_path op" using o'(1) by (metis image_eqI)
    have apart: "backup_of ae pp (po_path o') \<notin> {target_of pp op, tmp_of ae (target_of pp op)} \<union> state_writes ae pp
        \<and> (po_path op \<noteq> po_path o' \<longrightarrow> backup_of ae pp (po_path op) \<noteq> backup_of ae pp (po_path o'))"
      by (rule separated_pair [OF Cons.prems(1)]) (use o'(1) in simp_all)
    have "backup_of ae pp (po_path o') \<notin> writes_of ae pp op" "backup_of ae pp (po_path o') \<notin> state_writes ae pp"
      using apart far by (auto simp: writes_of_def)
    from keep [OF this] have "file_at ?w1 (backup_of ae pp (po_path o')) = Some b" using o'(3) by simp
    then show ?thesis using o' by auto
  qed
  then have first: "file_at ?w1 p = Some b
      \<or> (\<exists>o' \<in> set (before @ [op]). target_of pp o' = p \<and> file_at ?w1 (backup_of ae pp (po_path o')) = Some b)" .
  show ?case
  proof (cases "apply_op ae pp None op st w")
    case (Pair w1 r)
    show ?thesis
    proof (cases r)
      case (Inl e)
      then show ?thesis using first Pair by (auto simp: seq_def)
    next
      case (Inr st1)
      have "file_at w1 p = Some b
          \<or> (\<exists>o' \<in> set (before @ [op]). target_of pp o' = p \<and> file_at w1 (backup_of ae pp (po_path o')) = Some b)"
        using first Pair by simp
      from Cons.IH [OF Cons.prems(1) [unfolded all] Cons.prems(2) [unfolded all] this, of st1]
      show ?thesis using Pair Inr by (simp add: seq_def)
    qed
  qed
qed


section \<open>A plan that succeeds is what the files hold\<close>

text \<open>What an operation wants in its file, given what is there, and what the file holds afterwards.\<close>

definition wanted :: "apply_env \<Rightarrow> planned_op \<Rightarrow> existing_file \<Rightarrow> string \<Rightarrow> string" where
  "wanted ae op existing content =
     (if po_kind op = Ok_Write then merge_bytes_for_path ae (po_path op) (ef_bytes existing) content else content)"

definition delivered_to :: "apply_env \<Rightarrow> project_paths \<Rightarrow> planned_op \<Rightarrow> string \<Rightarrow> fs_world \<Rightarrow> string option" where
  "delivered_to ae pp op content w =
     (let existing = read_existing ae w (target_of pp op)
      in if compute_write_status (ae_json ae) (po_path op) (wanted ae op existing content) existing = As_Unchanged
         then file_at w (target_of pp op) else Some (wanted ae op existing content))"

lemma seq_Inr: "seq m f w = (w', Inr b) \<longleftrightarrow> (\<exists>w1 a. m w = (w1, Inr a) \<and> f a w1 = (w', Inr b))"
  by (auto simp: seq_def split: prod.split sum.split)

lemma written: "atomic_write ae target content w = (w', Inr ()) \<Longrightarrow> file_at w' target = Some content"
  by (auto simp: atomic_write_def Let_def seq_Inr file_at_put split: option.splits)

lemma op_delivers:
  assumes "apply_op ae pp None op st w = (w', Inr st')"
    and "po_kind op \<in> {Ok_Write, Ok_Merge}" "po_after op = Some content" "po_path op \<notin> set (ae_protected ae)"
    and "target_of pp op \<notin> state_writes ae pp" "target_of pp op \<noteq> backup_of ae pp (po_path op)"
  shows "file_at w' (target_of pp op) = delivered_to ae pp op content w"
proof -
  let ?t = "target_of pp op" and ?e = "read_existing ae w (target_of pp op)"
  have "apply_file ae pp None op st w = (w', Inr st')"
    using assms(1,2) by (auto simp: apply_op_def)
  then obtain w1 st1 status where wrote: "apply_write ae pp None op content ?e st w = (w1, Inr (st1, status))"
    and after: "seq (if status = As_Created then record_created ae pp op else ret ()) (\<lambda>_. ret (outcome (po_path op) status st1)) w1
      = (w', Inr st')"
    using assms(3,4) by (auto simp: apply_file_def Let_def target_of_def seq_Inr)
  have "file_at w' ?t = file_at w1 ?t"
    using assms(5) after by (auto simp: seq_Inr ret_def split: if_splits dest!: spares_eq [OF spares_created])
  moreover obtain w2 w3 st2 where backup: "backup_project_file ae pp op ?e
        (compute_write_status (ae_json ae) (po_path op) (wanted ae op ?e content) ?e) st w = (w2, Inr st2)"
    and put: "write_if_changed_with_existing ae (po_path op) ?t (wanted ae op ?e content) ?e (ret ()) w2 = (w3, Inr status)"
    and exec: "(if po_set_executable op \<and> status \<noteq> As_Noop then make_executable ae ?t else ret ()) w3 = (w1, Inr ())"
    using wrote unfolding apply_write_def Let_def target_of_def wanted_def backup_user_op_def
    by (auto simp: seq_Inr ret_def)
  have "file_at w1 ?t = file_at w3 ?t"
    using exec by (auto simp: ret_def split: if_splits dest: spares_eq [OF spares_exec])
  moreover have "file_at w2 ?t = file_at w ?t"
    using spares_eq [OF spares_project_backup [OF assms(6)] backup] .
  moreover have "file_at w3 ?t = (if compute_write_status (ae_json ae) (po_path op) (wanted ae op ?e content) ?e = As_Unchanged
      then file_at w2 ?t else Some (wanted ae op ?e content))"
    using put written by (auto simp: write_if_changed_with_existing_def Let_def seq_Inr ret_def split: if_splits)
  ultimately show ?thesis by (simp add: delivered_to_def Let_def)
qed

lemma ops_run:
  assumes "apply_ops ae pp None (before @ op # rest) st w = (w', Inr st')"
  shows "\<exists>w1 st1 w2 st2. apply_ops ae pp None before st w = (w1, Inr st1) \<and> apply_op ae pp None op st1 w1 = (w2, Inr st2)
    \<and> apply_ops ae pp None rest st2 w2 = (w', Inr st')"
  using assms
proof (induction before arbitrary: st w)
  case Nil
  then show ?case by (auto simp: seq_Inr ret_def)
next
  case (Cons o' before)
  then show ?case by (fastforce simp: seq_Inr)
qed

lemma spares_ops:
  "(\<And>o'. o' \<in> set ops \<Longrightarrow> p \<notin> writes_of ae pp o') \<Longrightarrow> p \<notin> state_writes ae pp \<Longrightarrow> spares p (apply_ops ae pp None ops st)"
proof (induction ops arbitrary: st)
  case Nil
  then show ?case by (simp add: spares_ret)
next
  case (Cons o' ops)
  then show ?case unfolding apply_ops.simps by (intro spares_seq spares_op) auto
qed


section \<open>A concrete project\<close>

definition sample_env :: apply_env where
  "sample_env =
     \<lparr>ae_json = sample_io, ae_fail = (\<lambda>_ _ _. None), ae_unreadable = (\<lambda>_. False), ae_stamp = ''20260101-000000'',
      ae_tmp = (\<lambda>_. ''.macc-0.tmp''), ae_managed_text = (\<lambda>_. ''{}''), ae_shape_error = (\<lambda>_. ''missing field''),
      ae_ignore_entries = [], ae_toml = (\<lambda>_ _. None), ae_yaml = (\<lambda>_ _. None), ae_protected = [], ae_home = None\<rparr>"

definition sample_paths :: project_paths where
  "sample_paths = paths_from_root ''/r''"

definition sample_write :: planned_op where
  "sample_write =
     \<lparr>po_path = ''a.md'', po_scope = Sc_Project, po_consent_required = False, po_kind = Ok_Write, po_backup_required = True,
      po_set_executable = False, po_before = Some ''old'', po_after = Some ''new''\<rparr>"

definition sample_files :: fs_world where
  "sample_files = \<lparr>fw_files = [(''/r/a.md'', ''old'')], fw_dirs = [''/'', ''/r''], fw_exec = []\<rparr>"

theorem refused_plan_has_no_effect_witness:
  "fst (apply_plan sample_env sample_paths [Ac_Mkdir ''.config'' Sc_User] False sample_files) = sample_files"
  using refused_plan_has_no_effect [of "Ac_Mkdir ''.config'' Sc_User" "[Ac_Mkdir ''.config'' Sc_User]" False sample_env
      sample_paths sample_files] by simp



end
