(* ===== verification/Clear.thy ===== *)
theory Clear
  imports Apply
begin

text \<open>
  What belongs to MACC in a project and how it is taken away again (\<open>lib.rs\<close>): the kind of a path, the
  root of a project, the entries of \<open>.gitignore\<close>, \<open>clear\<close> with its dry run.  \<open>canonicalize\<close> is a
  parameter, for it is the file system's; the lower case of a path component is that of its ASCII letters.
\<close>

section \<open>Kinds of paths and the root of a project\<close>

datatype managed_path_kind =
    Pk_Source_Of_Truth | Pk_Generated | Pk_Portable_State | Pk_Runtime_State | Pk_Diagnostic_Log | Pk_Cache
  | Pk_Worktree | Pk_Secret | Pk_Unknown

definition same_path :: "string \<Rightarrow> string \<Rightarrow> bool" where
  "same_path p q = (prefix_of ''/'' p = prefix_of ''/'' q \<and> path_components p = path_components q)"

definition macc_kind :: "string list \<Rightarrow> managed_path_kind option" where
  "macc_kind cs =
     (case cs of
        [] \<Rightarrow> None
      | [c] \<Rightarrow> if c = ''.macc'' then Some Pk_Portable_State else None
      | c # sub # _ \<Rightarrow>
          if c \<noteq> ''.macc'' then None
          else if sub \<in> {''cache'', ''download''} then Some Pk_Cache
          else if sub \<in> {''worktree'', ''worktrees''} then Some Pk_Worktree
          else if sub \<in> {''log'', ''logs''} then Some Pk_Diagnostic_Log
          else if sub \<in> {''state'', ''catalog''} then Some Pk_Portable_State
          else if sub \<in> {''backups'', ''tmp''} then Some Pk_Runtime_State
          else if sub \<in> {''skills'', ''automation''} then Some Pk_Generated
          else None)"

definition component_kind :: "string \<Rightarrow> managed_path_kind option" where
  "component_kind c =
     (if c \<in> {''cache'', ''download''} then Some Pk_Cache
      else if c \<in> {''worktree'', ''worktrees'', ''.worktrees''} then Some Pk_Worktree
      else if c \<in> {''node_modules'', ''vendor''} then Some Pk_Cache
      else if c \<in> {''.tmp'', ''tmp''} then Some Pk_Runtime_State
      else None)"

definition classify_path :: "(string \<Rightarrow> string option) \<Rightarrow> project_paths \<Rightarrow> string \<Rightarrow> managed_path_kind" where
  "classify_path canonicalize pp path =
     (let full = (if prefix_of ''/'' path then path else path_join (pp_root pp) path);
          clean = unwrap_or full (canonicalize full)
      in if same_path clean (pp_config_path pp) then Pk_Source_Of_Truth
         else case strip_dir (pp_root pp) clean of
                None \<Rightarrow> Pk_Unknown
              | Some rel \<Rightarrow>
                  (let cs = map to_ascii_lowercase (path_components rel)
                   in unwrap_or Pk_Unknown (or_else (macc_kind cs) (case List.map_filter component_kind cs of [] \<Rightarrow> None | k # _ \<Rightarrow> Some k))))"

fun walk_to_root :: "fs_world \<Rightarrow> nat \<Rightarrow> string \<Rightarrow> string option" where
  "walk_to_root w 0 p = None"
| "walk_to_root w (Suc n) p =
     (if fs_exists w (path_join (path_join p ''.macc'') ''macc.yaml'') then Some p
      else case path_parent p of None \<Rightarrow> None | Some q \<Rightarrow> walk_to_root w n q)"

definition find_project_root ::
  "(string \<Rightarrow> string option) \<Rightarrow> string res \<Rightarrow> fs_world \<Rightarrow> string \<Rightarrow> project_paths res" where
  "find_project_root canonicalize cwd w start =
     (case (if prefix_of ''/'' start then Inr start else map_sum id (\<lambda>d. path_join d start) cwd) of
        Inl e \<Rightarrow> Inl e
      | Inr p \<Rightarrow>
          (case walk_to_root w (Suc (length p)) p of
             None \<Rightarrow> Inl (Project_Root_Not_Found start)
           | Some root \<Rightarrow> Inr (paths_from_root (unwrap_or root (canonicalize root)))))"

section \<open>Entries of the ignore file\<close>

definition read_text :: "apply_env \<Rightarrow> string \<Rightarrow> string \<Rightarrow> fs_world \<Rightarrow> fs_world \<times> string res" where
  "read_text ae p action w =
     (case ae_fail ae p action w of
        Some e \<Rightarrow> (w, Inl (Io_Err p action e))
      | None \<Rightarrow>
          (case bt_get (fw_files w) p of
             None \<Rightarrow> (w, Inl (Io_Err p action ''Is a directory''))
           | Some b \<Rightarrow> if utf8_ok b then (w, Inr b)
                       else (w, Inl (Io_Err p action ''stream did not contain valid UTF-8''))))"

definition write_if_changed ::
  "apply_env \<Rightarrow> string \<Rightarrow> string \<Rightarrow> string \<Rightarrow> (existing_file \<Rightarrow> fs_world \<Rightarrow> fs_world \<times> unit res) \<Rightarrow> fs_world \<Rightarrow>
   fs_world \<times> action_status res" where
  "write_if_changed ae logical target content before_write w =
     (let existing = read_existing ae w target
      in write_if_changed_with_existing ae logical target content existing (before_write existing) w)"

definition backup_when_stamped :: "apply_env \<Rightarrow> project_paths \<Rightarrow> string option \<Rightarrow> bool \<Rightarrow> fs_world \<Rightarrow> fs_world \<times> unit res" where
  "backup_when_stamped ae pp stamp there =
     (case stamp of
        Some ts \<Rightarrow> if there then seq (create_timestamped_backup ae pp ts ''.gitignore'') (\<lambda>_. ret ()) else ret ()
      | None \<Rightarrow> ret ())"

definition ensure_gitignore_entries ::
  "apply_env \<Rightarrow> project_paths \<Rightarrow> string list \<Rightarrow> string option \<Rightarrow> fs_world \<Rightarrow> fs_world \<times> action_status res" where
  "ensure_gitignore_entries ae pp entries stamp w =
     (let p = path_join (pp_root pp) ''.gitignore''; there = fs_exists w p
      in seq (if there then read_text ae p ''read .gitignore'' else ret []) (\<lambda>content.
           (let lines = str_lines content; lines' = ensure_lines entries lines
            in if lines' = lines then ret As_Unchanged
               else seq (backup_when_stamped ae pp stamp there) (\<lambda>_.
                    seq (write_if_changed ae ''.gitignore'' p (lines_text lines')
                           (\<lambda>existing. backup_when_stamped ae pp stamp (ef_exists existing))) (\<lambda>_.
                      ret (if there then As_Updated else As_Created))))) w)"

section \<open>Taking the managed files away\<close>

record clear_report =
  cl_removed :: nat
  cl_skipped :: nat

definition relative_to_root :: "project_paths \<Rightarrow> string \<Rightarrow> string option" where
  "relative_to_root pp p = Option.bind (strip_dir (pp_root pp) p) normalize_relative_path"

definition insert_relative :: "project_paths \<Rightarrow> string option \<Rightarrow> string list \<Rightarrow> string list" where
  "insert_relative pp p managed =
     (case Option.bind p (relative_to_root pp) of None \<Rightarrow> managed | Some rel \<Rightarrow> insort_insert rel managed)"

text \<open>The deepest entries first, for a directory goes only when it is empty.\<close>

definition clear_entries :: "project_paths \<Rightarrow> string list \<Rightarrow> string list" where
  "clear_entries pp managed =
     (let state = managed_paths_state_path pp
      in rev (sort_key (\<lambda>e. length (split_on (\<lambda>c. c = CHR ''/'') e))
           (insert_relative pp (path_parent state) (insert_relative pp (Some state) managed))))"

definition dir_is_empty :: "fs_world \<Rightarrow> string \<Rightarrow> bool" where
  "dir_is_empty w d = (list_all (\<lambda>p. path_parent p \<noteq> Some d) (map fst (fw_files w) @ fw_dirs w))"

definition remove_dir :: "apply_env \<Rightarrow> string \<Rightarrow> fs_world \<Rightarrow> fs_world \<times> bool" where
  "remove_dir ae d w =
     (if \<not> dir_is_empty w d \<or> ae_fail ae d ''remove directory'' w \<noteq> None then (w, False)
      else (w\<lparr>fw_dirs := removeAll d (fw_dirs w)\<rparr>, True))"

definition remove_file :: "apply_env \<Rightarrow> string \<Rightarrow> fs_world \<Rightarrow> fs_world \<times> bool" where
  "remove_file ae p w = (if ae_fail ae p ''remove file'' w \<noteq> None then (w, False) else (drop_file p w, True))"

definition remove_entry :: "apply_env \<Rightarrow> string \<Rightarrow> fs_world \<Rightarrow> fs_world \<times> bool" where
  "remove_entry ae p w = (if p \<in> set (fw_dirs w) then remove_dir ae p w else remove_file ae p w)"

fun clear_loop ::
  "apply_env \<Rightarrow> string list \<Rightarrow> clear_report \<Rightarrow> string list \<Rightarrow> fs_world \<Rightarrow> fs_world \<times> clear_report \<times> string list" where
  "clear_loop ae [] report removed w = (w, report, removed)"
| "clear_loop ae (p # ps) report removed w =
     (if \<not> fs_exists w p then clear_loop ae ps report removed w
      else case remove_entry ae p w of
             (w', True) \<Rightarrow> clear_loop ae ps (report\<lparr>cl_removed := Suc (cl_removed report)\<rparr>) (removed @ [p]) w'
           | (w', False) \<Rightarrow> clear_loop ae ps (report\<lparr>cl_skipped := Suc (cl_skipped report)\<rparr>) removed w')"

fun dirs_above :: "nat \<Rightarrow> string \<Rightarrow> string \<Rightarrow> string list" where
  "dirs_above 0 root p = []"
| "dirs_above (Suc n) root p =
     (case path_parent p of
        None \<Rightarrow> []
      | Some d \<Rightarrow> if same_path d root then [] else d # dirs_above n root d)"

definition emptied_candidates :: "project_paths \<Rightarrow> string list \<Rightarrow> string list" where
  "emptied_candidates pp removed =
     rev (sort_key (\<lambda>d. length (path_components d)) (sort_key path_components
       (dedup (concat (map (\<lambda>p. dirs_above (Suc (length p)) (pp_root pp) p) removed)))))"

definition cleanup_dir :: "apply_env \<Rightarrow> string \<Rightarrow> fs_world \<Rightarrow> fs_world" where
  "cleanup_dir ae d w = (if d \<in> set (fw_dirs w) then fst (remove_dir ae d w) else w)"

definition cleanup_empty_parents :: "apply_env \<Rightarrow> project_paths \<Rightarrow> string list \<Rightarrow> fs_world \<Rightarrow> fs_world" where
  "cleanup_empty_parents ae pp removed = fold (cleanup_dir ae) (emptied_candidates pp removed)"

definition clear :: "apply_env \<Rightarrow> project_paths \<Rightarrow> fs_world \<Rightarrow> fs_world \<times> clear_report res" where
  "clear ae pp =
     seq (load_managed_paths ae pp) (\<lambda>managed w.
       case clear_loop ae (map (path_join (pp_root pp)) (clear_entries pp managed)) \<lparr>cl_removed = 0, cl_skipped = 0\<rparr> [] w of
         (w', report, removed) \<Rightarrow> (cleanup_empty_parents ae pp removed w', Inr report))"

definition clear_dry_run :: "apply_env \<Rightarrow> project_paths \<Rightarrow> fs_world \<Rightarrow> fs_world \<times> clear_report res" where
  "clear_dry_run ae pp =
     seq (load_managed_paths ae pp) (\<lambda>managed w.
       (w, Inr \<lparr>cl_removed = length (filter (fs_exists w) (map (path_join (pp_root pp)) (clear_entries pp managed))),
               cl_skipped = 0\<rparr>))"

section \<open>Clearing stays inside the project\<close>

lemma split_on_join:
  assumes "ps \<noteq> []" "list_all (list_all (\<lambda>c. \<not> f c)) ps" "f s"
  shows "split_on f (join [s] ps) = ps"
proof -
  have piece: "split_on f p = [p]" if "list_all (\<lambda>c. \<not> f c) p" for p
    using that by (induction p) auto
  have cons: "split_on f (p @ s # rest) = p # split_on f rest" if "list_all (\<lambda>c. \<not> f c) p" for p rest
    using that assms(3) by (induction p) auto
  show ?thesis using assms(1,2) by (induction "[s]" ps rule: join.induct) (auto simp: piece cons)
qed

lemma components_of_join:
  assumes "cs \<noteq> []" "set cs \<subseteq> set (path_components p)"
  shows "path_components (join ''/'' cs) = cs" "\<not> prefix_of ''/'' (join ''/'' cs)" "join ''/'' cs \<noteq> []"
proof -
  have good: "list_all (list_all (\<lambda>c. c \<noteq> CHR ''/'')) cs" "\<And>c. c \<in> set cs \<Longrightarrow> c \<noteq> [] \<and> c \<noteq> ''.''"
    using assms(2) split_on_pieces by (fastforce simp: list_all_iff path_components_def)+
  show "path_components (join ''/'' cs) = cs"
    using split_on_join [OF assms(1), of "\<lambda>c. c = CHR ''/''" "CHR ''/''"] good
    by (simp add: path_components_def filter_id_conv)
  obtain c s cs' where cs: "cs = (c # s) # cs'" using assms(1) good(2) by (metis list.exhaust list.set_intros(1))
  show "\<not> prefix_of ''/'' (join ''/'' cs)" "join ''/'' cs \<noteq> []"
    using good(1) unfolding cs by (cases cs'; simp add: prefix_of_def)+
qed

text \<open>A relative path below the directory it is joined to.\<close>

definition stays_below :: "string \<Rightarrow> bool" where
  "stays_below n = (n \<noteq> [] \<and> \<not> prefix_of ''/'' n \<and> ''..'' \<notin> set (path_components n))"

lemma split_on_chars: "w \<in> set (split_on f s) \<Longrightarrow> c \<in> set w \<Longrightarrow> c \<in> set s"
  by (induction s arbitrary: w) (fastforce split: if_splits list.splits)+

lemma join_char: "c \<in> set (join sep ws) \<Longrightarrow> c \<in> set sep \<or> (\<exists>w \<in> set ws. c \<in> set w)"
  by (induction sep ws rule: join.induct) auto

lemma joined_components_chars:
  "set cs \<subseteq> set (path_components p) \<Longrightarrow> c \<in> set (join ''/'' cs) \<Longrightarrow> c = CHR ''/'' \<or> c \<in> set p"
  using join_char [of c "''/''" cs] split_on_chars by (fastforce simp: path_components_def)

lemma no_backslash_joined:
  "set cs \<subseteq> set (path_components p) \<Longrightarrow> CHR 0x5C \<notin> set p \<Longrightarrow> CHR 0x5C \<notin> set (join ''/'' cs)"
  using joined_components_chars [of cs p "CHR 0x5C"] by auto

lemma normalized_stays_below:
  assumes "normalize_relative_path p = Some n" "CHR 0x5C \<notin> set p"
  shows "stays_below n"
proof -
  let ?cs = "path_components p"
  have "CHR 0x5C \<notin> set (join ''/'' ?cs)" using no_backslash_joined [OF subset_refl assms(2)] .
  then have "slashed (join ''/'' ?cs) = join ''/'' ?cs" unfolding slashed_def by (intro map_idI) auto
  then show ?thesis
    using assms(1) components_of_join [of ?cs p]
    by (auto simp: normalize_relative_path_def stays_below_def split: if_splits)
qed

lemma remove_dir_world: "file_at (fst (remove_dir ae d w)) p = file_at w p"
  by (simp add: remove_dir_def file_at_def)

lemma remove_entry_spares: "p \<noteq> q \<Longrightarrow> file_at (fst (remove_entry ae q w)) p = file_at w p"
  by (auto simp: remove_entry_def remove_file_def remove_dir_world file_at_drop)

lemma clear_loop_spares:
  "p \<notin> set qs \<Longrightarrow> clear_loop ae qs report removed w = (w', r) \<Longrightarrow> file_at w' p = file_at w p"
proof (induction ae qs report removed w rule: clear_loop.induct)
  case (1 ae report removed w)
  then show ?case by simp
next
  case (2 ae q qs report removed w)
  obtain w1 gone where step: "remove_entry ae q w = (w1, gone)" by force
  have "file_at w1 p = file_at w p" using remove_entry_spares [of p q ae w] 2(4) step by simp
  then show ?case using 2 step by (cases gone) (auto split: if_splits)
qed

lemma cleanup_spares: "file_at (cleanup_empty_parents ae pp removed w) p = file_at w p"
proof -
  have "file_at (fold (cleanup_dir ae) ds w) p = file_at w p" for ds
    by (induction ds arbitrary: w) (simp_all add: cleanup_dir_def remove_dir_world)
  then show ?thesis by (simp add: cleanup_empty_parents_def)
qed

lemma set_clear_entries:
  "set (clear_entries pp managed) = set managed
     \<union> set_option (relative_to_root pp (managed_paths_state_path pp))
     \<union> set_option (Option.bind (path_parent (managed_paths_state_path pp)) (relative_to_root pp))"
proof -
  have "set (insert_relative pp p xs) = set xs \<union> set_option (Option.bind p (relative_to_root pp))" for p xs
    by (cases p) (auto simp: insert_relative_def set_insort_insert split: option.splits)
  then show ?thesis by (auto simp: clear_entries_def Let_def)
qed

lemma managed_set_mem: "n \<in> set (managed_set ps) \<longleftrightarrow> (\<exists>p \<in> set ps. normalize_relative_path p = Some n)"
proof -
  have "set (fold insort_insert xs acc) = set xs \<union> set acc" for xs acc :: "string list"
    by (induction xs arbitrary: acc) (auto simp: set_insort_insert)
  then show ?thesis by (force simp: managed_set_def List.map_filter_def image_iff)
qed

lemma relative_stays_below:
  assumes "relative_to_root pp p = Some n" "CHR 0x5C \<notin> set p"
  shows "stays_below n"
proof -
  obtain q where q: "strip_dir (pp_root pp) p = Some q" "normalize_relative_path q = Some n"
    using assms(1) by (auto simp: relative_to_root_def bind_eq_Some_conv)
  have "q = join ''/'' (drop (length (path_components (pp_root pp))) (path_components p))"
    using q(1) by (auto simp: strip_dir_def Let_def split: if_splits)
  then have "CHR 0x5C \<notin> set q" using no_backslash_joined [OF set_drop_subset assms(2)] by simp
  then show ?thesis by (rule normalized_stays_below [OF q(2)])
qed

lemma parent_chars:
  assumes "path_parent p = Some q" "CHR 0x5C \<notin> set p"
  shows "CHR 0x5C \<notin> set q"
proof -
  have keep: "c \<notin> set (rev (dropWhile f (rev s)))" if "c \<notin> set s" for c f and s :: string
    using that set_dropWhileD [of c f "rev s"] by auto
  have "CHR 0x5C \<notin> set (drop_slashes s)" if "CHR 0x5C \<notin> set s" for s
    unfolding drop_slashes_def using that by (rule keep)
  then show ?thesis
    using assms keep by (auto simp: path_parent_def Let_def simp del: set_rev split: if_splits)
qed

lemma entries_stay_below:
  assumes "\<forall>p \<in> set ps. CHR 0x5C \<notin> set p" "CHR 0x5C \<notin> set (managed_paths_state_path pp)"
    and "n \<in> set (clear_entries pp (managed_set ps))"
  shows "stays_below n"
proof -
  consider "n \<in> set (managed_set ps)" | q where "q = managed_paths_state_path pp \<or> path_parent (managed_paths_state_path pp) = Some q"
      "relative_to_root pp q = Some n"
    using assms(3) unfolding set_clear_entries by (auto simp: bind_eq_Some_conv)
  then show ?thesis
  proof cases
    case 1
    then show ?thesis using normalized_stays_below assms(1) unfolding managed_set_mem by blast
  next
    case 2
    then have "CHR 0x5C \<notin> set q" using assms(2) parent_chars by auto
    then show ?thesis using relative_stays_below 2(2) by blast
  qed
qed

text \<open>C40: Clearing touches no file outside of what was recorded: when the recorded paths and the root have no
  backslash, a file that \<open>clear\<close> changes lies below the root, under a recorded path or that of the record.\<close>

theorem clear_stays_inside:
  assumes "load_managed_paths ae pp w = (w, Inr (managed_set ps))"
    and "\<forall>p \<in> set ps. CHR 0x5C \<notin> set p" "CHR 0x5C \<notin> set (managed_paths_state_path pp)"
    and "file_at (fst (clear ae pp w)) p \<noteq> file_at w p"
  shows "\<exists>n. p = path_join (pp_root pp) n \<and> stays_below n
    \<and> (n \<in> set (managed_set ps) \<or> n \<in> set (clear_entries pp []))"
proof -
  obtain w' report removed where loop: "clear_loop ae (map (path_join (pp_root pp)) (clear_entries pp (managed_set ps)))
      \<lparr>cl_removed = 0, cl_skipped = 0\<rparr> [] w = (w', report, removed)" by (metis prod_cases3)
  have "file_at w' p \<noteq> file_at w p"
    using assms(1,4) loop by (simp add: clear_def seq_def cleanup_spares)
  then obtain n where n: "n \<in> set (clear_entries pp (managed_set ps))" "p = path_join (pp_root pp) n"
    using clear_loop_spares [OF _ loop, of p] by auto
  have "stays_below n" using entries_stay_below [OF assms(2,3) n(1)] .
  then show ?thesis using n unfolding set_clear_entries by auto
qed

section \<open>The dry run counts what clearing meets\<close>

lemma remove_entry_others:
  assumes "p \<noteq> q"
  shows "fs_exists (fst (remove_entry ae q w)) p = fs_exists w p"
proof -
  have "p \<in> set (fw_dirs (fst (remove_entry ae q w))) \<longleftrightarrow> p \<in> set (fw_dirs w)"
    using assms by (auto simp: remove_entry_def remove_dir_def remove_file_def drop_file_def)
  then show ?thesis
    using remove_entry_spares [OF assms, of ae w] by (simp add: fs_exists_def is_file_def file_at_def)
qed

lemma clear_loop_counts:
  "distinct qs \<Longrightarrow> clear_loop ae qs report removed w = (w', report', r) \<Longrightarrow>
   cl_removed report' + cl_skipped report' = cl_removed report + cl_skipped report + length (filter (fs_exists w) qs)"
proof (induction ae qs report removed w arbitrary: w' report' r rule: clear_loop.induct)
  case (1 ae report removed w)
  then show ?case by simp
next
  case (2 ae q qs report removed w)
  obtain w1 gone where step: "remove_entry ae q w = (w1, gone)" by force
  have "fs_exists w1 p = fs_exists w p" if "p \<in> set qs" for p
    using remove_entry_others [of p q ae w] 2(4) that step by auto
  then have same: "filter (fs_exists w1) qs = filter (fs_exists w) qs" by (rule filter_cong [OF refl])
  show ?case
  proof (cases "fs_exists w q")
    case True
    then show ?thesis using 2 step same by (cases gone) auto
  next
    case False
    then show ?thesis using 2 by simp
  qed
qed

lemma distinct_insort_insert: "distinct xs \<Longrightarrow> distinct (insort_insert x xs)" for xs :: "string list"
  by (simp add: insort_insert_key_def distinct_insort)

lemma distinct_clear_entries: "distinct managed \<Longrightarrow> distinct (clear_entries pp managed)"
  by (auto simp: clear_entries_def Let_def insert_relative_def distinct_insort_insert split: option.split)

lemma distinct_managed_set: "distinct (managed_set ps)"
proof -
  have "distinct (fold insort_insert xs acc)" if "distinct acc" for xs acc :: "string list"
    using that by (induction xs arbitrary: acc) (simp_all add: distinct_insort_insert)
  then show ?thesis by (simp add: managed_set_def)
qed

lemma path_join_below: "stays_below m \<Longrightarrow> stays_below n \<Longrightarrow> path_join root m = path_join root n \<longleftrightarrow> m = n"
  by (auto simp: path_join_def stays_below_def)

text \<open>What a dry run announces is what clearing meets: every path it counts is then removed or reported as
  skipped, once.\<close>

theorem dry_run_counts_what_clearing_meets:
  assumes "load_managed_paths ae pp w = (w, Inr (managed_set ps))"
    and "\<forall>p \<in> set ps. CHR 0x5C \<notin> set p" "CHR 0x5C \<notin> set (managed_paths_state_path pp)"
  shows "\<exists>dry report. clear_dry_run ae pp w = (w, Inr dry) \<and> snd (clear ae pp w) = Inr report
    \<and> cl_removed report + cl_skipped report = cl_removed dry"
proof -
  let ?qs = "map (path_join (pp_root pp)) (clear_entries pp (managed_set ps))"
  obtain w' report removed where loop: "clear_loop ae ?qs \<lparr>cl_removed = 0, cl_skipped = 0\<rparr> [] w = (w', report, removed)"
    by (metis prod_cases3)
  have "distinct ?qs"
    using distinct_clear_entries [OF distinct_managed_set] entries_stay_below [OF assms(2,3)] path_join_below
    by (auto simp: distinct_map inj_on_def)
  from clear_loop_counts [OF this loop] show ?thesis
    using assms(1) loop by (simp add: clear_def clear_dry_run_def seq_def)
qed

section \<open>A concrete clearing\<close>

text \<open>The record of managed paths of this project holds one file.\<close>

definition recorded_env :: apply_env where
  "recorded_env = sample_env\<lparr>ae_json :=
     sample_io\<lparr>ji_parse := (\<lambda>_. Inr (JObj [(''paths'', JArr [JStr ''a.md'']), (''version'', JInt 1)]))\<rparr>\<rparr>"

definition recorded_files :: fs_world where
  "recorded_files =
     \<lparr>fw_files = [(''/r/.macc/state/managed_paths.json'', ''{}''), (''/r/a.md'', ''old''), (''/r/b.md'', ''mine'')],
      fw_dirs = [''/'', ''/r'', ''/r/.macc'', ''/r/.macc/state''], fw_exec = []\<rparr>"

lemma recorded: "load_managed_paths recorded_env sample_paths recorded_files = (recorded_files, Inr (managed_set [''a.md'']))"
  by code_simp

theorem clear_stays_inside_witness:
  "\<exists>n. ''/r/a.md'' = path_join (pp_root sample_paths) n \<and> stays_below n"
proof -
  have "file_at (fst (clear recorded_env sample_paths recorded_files)) ''/r/a.md'' \<noteq> file_at recorded_files ''/r/a.md''"
    by code_simp
  moreover have "CHR 0x5C \<notin> set (managed_paths_state_path sample_paths)" by code_simp
  ultimately show ?thesis using clear_stays_inside [OF recorded, of "''/r/a.md''"] by auto
qed

theorem dry_run_counts_what_clearing_meets_witness:
  "\<exists>dry report. clear_dry_run recorded_env sample_paths recorded_files = (recorded_files, Inr dry)
     \<and> snd (clear recorded_env sample_paths recorded_files) = Inr report
     \<and> cl_removed report + cl_skipped report = cl_removed dry"
proof -
  have "CHR 0x5C \<notin> set (managed_paths_state_path sample_paths)" by code_simp
  then show ?thesis using dry_run_counts_what_clearing_meets [OF recorded] by simp
qed

text \<open>A name with a backslash, one component on Unix, is recorded as a path that leaves the project.\<close>

lemma backslash_escapes: "normalize_relative_path (''..'' @ [CHR 0x5C] @ ''x'') = Some ''../x''"
  by code_simp

end
