(* ===== verification/Event_Store.thy ===== *)
theory Event_Store
  imports Runtime_Events
begin

text \<open>
  The coordinator database (\<open>coordinator_storage.rs\<close>) as tables, and its event log: appending, pruning of
  heartbeats, scans, cursors, the replay of \<open>control_plane/base.rs\<close>.  A table with a text key is an ordered
  map, the event log is the list of its rows in the order of their row ids.  A statement of the source is the
  function on tables that SQLite documents for it; a database that cannot be opened or locked, or a commit that
  fails, is \<open>se_fail\<close>, and then nothing changes.  Migrations of the schema other than the pruning of old
  heartbeats have no state here.
\<close>

section \<open>Tables\<close>

record task_row =
  tw_state :: string
  tw_title :: string
  tw_priority :: string
  tw_tool :: string
  tw_payload :: string
  tw_updated_at :: string

record runtime_row =
  rw_task_id :: string
  rw_run_id :: string
  rw_epoch :: int
  rw_workflow_state :: string
  rw_status :: string
  rw_phase :: "string option"
  rw_tool :: "string option"
  rw_slot_id :: "string option"
  rw_worktree_path :: "string option"
  rw_branch :: "string option"
  rw_base_branch :: "string option"
  rw_pid :: "int option"
  rw_group_id :: "int option"
  rw_started_at :: "string option"
  rw_updated_at :: string
  rw_last_heartbeat :: "string option"
  rw_heartbeat_seq :: int
  rw_lease :: "string option"
  rw_attempt :: int
  rw_resources :: string
  rw_error_code :: "string option"
  rw_error_message :: "string option"
  rw_payload :: string

record lock_row =
  lw_task_id :: string
  lw_claim_id :: string
  lw_expires_at :: "string option"
  lw_worktree_path :: string
  lw_locked_at :: string
  lw_payload :: string
  lw_updated_at :: string

record event_row =
  ew_event_id :: string
  ew_seq :: int
  ew_ts :: string
  ew_source :: string
  ew_task_id :: "string option"
  ew_event_type :: string
  ew_phase :: "string option"
  ew_status :: string
  ew_payload :: string
  ew_raw :: string

record cursor_row =
  cu_path :: "string option"
  cu_inode :: "int option"
  cu_offset :: int
  cu_last_event_id :: string
  cu_updated_at :: string
  cu_payload :: string

record job_row =
  jw_task_id :: string
  jw_type :: string
  jw_pid :: int
  jw_status :: string
  jw_payload :: string
  jw_updated_at :: string

record throttle_row =
  hw_until :: int
  hw_payload :: string
  hw_updated_at :: string

record coordinator_run =
  cr_run_id :: string
  cr_pid :: int
  cr_hostname :: string
  cr_started_at :: string
  cr_last_tick_at :: "string option"
  cr_stopped_at :: "string option"
  cr_status :: string
  cr_epoch :: int
  cr_version :: string
  cr_stop_reason :: "string option"

record control_row =
  co_mode :: string
  co_requested_at :: "string option"
  co_requested_by :: "string option"
  co_drain_snapshot_json :: "string option"
  co_force_grace_seconds :: "int option"
  co_cleanup_after_force :: "int option"
  co_reason :: "string option"

record sql_db =
  db_version :: int
  db_metadata :: "(string, string \<times> string) btree"
  db_tasks :: "(string, task_row) btree"
  db_runtime :: "(string, runtime_row) btree"
  db_locks :: "(string, lock_row) btree"
  db_events :: "event_row list"
  db_event_cursor :: "(string, string \<times> string) btree"
  db_cursors :: "(string, cursor_row) btree"
  db_jobs :: "(string, job_row) btree"
  db_throttle :: "(string, throttle_row) btree"
  db_runs :: "(string, coordinator_run) btree"
  db_decisions :: "(string \<times> approval_record) list"
  db_control :: "control_row option"

text \<open>Clock, process and run ids, the texts of JSON values.\<close>

record sql_env =
  se_fail :: "sql_db \<Rightarrow> string option"
  se_now :: string
  se_nanos :: int
  se_run_id :: "string option"
  se_pid :: string
  se_json_text :: "json \<Rightarrow> string"
  se_json_of :: "string \<Rightarrow> json option"
  se_event_error :: "json \<Rightarrow> string"

definition sql_err :: "string \<Rightarrow> macc_error" where
  "sql_err e = Coordinator_Err ''E411'' (''SQLite coordinator storage error (Runtime ledger write failed): '' @ e)"

section \<open>The schema\<close>

definition HEARTBEAT_EVENT_TYPES :: "string list" where
  "HEARTBEAT_EVENT_TYPES = [''heartbeat'', ''coordinator_heartbeat'']"

text \<open>Events a replay cursor points at are never pruned.\<close>

definition cursor_event :: "sql_db \<Rightarrow> string \<Rightarrow> bool" where
  "cursor_event db event_id =
     (event_id \<in> (fst \<circ> snd) ` set (db_event_cursor db)
      \<or> event_id \<in> (cu_last_event_id \<circ> snd) ` set (db_cursors db))"

definition same_kind :: "event_row \<Rightarrow> event_row \<Rightarrow> bool" where
  "same_kind a b = (ew_task_id a = ew_task_id b \<and> ew_event_type a = ew_event_type b)"

fun last_heartbeats :: "(string \<Rightarrow> bool) \<Rightarrow> event_row list \<Rightarrow> event_row list" where
  "last_heartbeats pinned [] = []"
| "last_heartbeats pinned (r # rs) =
     (if ew_event_type r \<in> set HEARTBEAT_EVENT_TYPES \<and> list_ex (same_kind r) rs \<and> \<not> pinned (ew_event_id r)
      then last_heartbeats pinned rs else r # last_heartbeats pinned rs)"

definition init_schema :: "sql_db \<Rightarrow> sql_db" where
  "init_schema db =
     (if 2 \<le> db_version db then db
      else db\<lparr>db_version := 2,
              db_control := Some (unwrap_or
                \<lparr>co_mode = ''running'', co_requested_at = None, co_requested_by = None, co_drain_snapshot_json = None,
                 co_force_grace_seconds = None, co_cleanup_after_force = None, co_reason = None\<rparr> (db_control db)),
              db_events := last_heartbeats (cursor_event db) (db_events db)\<rparr>)"

text \<open>One call: open, bring the schema up to date, run a transaction.\<close>

definition in_tx :: "sql_env \<Rightarrow> (sql_db \<Rightarrow> (sql_db \<times> 'a) res) \<Rightarrow> sql_db \<Rightarrow> sql_db \<times> 'a res" where
  "in_tx se f db =
     (case se_fail se db of
        Some e \<Rightarrow> (db, Inl (sql_err e))
      | None \<Rightarrow> (let db1 = init_schema db in
          case f db1 of Inl e \<Rightarrow> (db1, Inl e) | Inr (db2, a) \<Rightarrow> (db2, Inr a)))"

definition on_db :: "sql_env \<Rightarrow> (sql_db \<Rightarrow> 'a res) \<Rightarrow> sql_db \<Rightarrow> sql_db \<times> 'a res" where
  "on_db se f = in_tx se (\<lambda>db. map_sum id (\<lambda>a. (db, a)) (f db))"

section \<open>Appending events\<close>

definition prune_superseded_heartbeats :: "sql_db \<Rightarrow> event_row \<Rightarrow> event_row list \<Rightarrow> event_row list" where
  "prune_superseded_heartbeats db inserted rows =
     (if ew_event_type inserted \<notin> set HEARTBEAT_EVENT_TYPES then rows
      else filter (\<lambda>r. \<not> same_kind inserted r \<or> cursor_event db (ew_event_id r)) rows)"

definition insert_or_ignore :: "event_row \<Rightarrow> event_row list \<Rightarrow> event_row list" where
  "insert_or_ignore row rows = (if ew_event_id row \<in> ew_event_id ` set rows then rows else rows @ [row])"

definition insert_event :: "event_row \<Rightarrow> sql_db \<Rightarrow> sql_db \<times> bool" where
  "insert_event row db =
     (if ew_event_id row \<in> ew_event_id ` set (db_events db) then (db, False)
      else (db\<lparr>db_events := prune_superseded_heartbeats db row (db_events db) @ [row]\<rparr>, True))"

definition run_id_or :: "sql_env \<Rightarrow> string option \<Rightarrow> string" where
  "run_id_or se given =
     unwrap_or (''run-'' @ show_int (se_nanos se) @ ''-'' @ se_pid se)
       (or_else (opt_filter (\<lambda>s. trim s \<noteq> []) given) (se_run_id se))"

text \<open>Blank fields of an event are filled in before it is stored.\<close>

definition completed_event :: "sql_env \<Rightarrow> event_record \<Rightarrow> event_record" where
  "completed_event se e =
     (let seq = (if ev_seq e = 0 then se_nanos se else ev_seq e);
          eid = (if trim (ev_event_id e) = []
                 then ''evt-'' @ ev_event_type e @ ''-'' @ unwrap_or [] (ev_task_id e) @ ''-'' @ show_int seq
                 else ev_event_id e)
      in e\<lparr>ev_schema_version := (if trim (ev_schema_version e) = [] then COORDINATOR_EVENT_SCHEMA_VERSION
                                else ev_schema_version e),
           ev_event_id := eid, ev_run_id := Some (run_id_or se (ev_run_id e)), ev_seq := seq,
           ev_ts := (if trim (ev_ts e) = [] then se_now se else ev_ts e)\<rparr>)"

definition row_of_event :: "sql_env \<Rightarrow> event_record \<Rightarrow> event_row" where
  "row_of_event se e =
     \<lparr>ew_event_id = ev_event_id e, ew_seq = ev_seq e, ew_ts = ev_ts e, ew_source = ev_source e,
      ew_task_id = ev_task_id e, ew_event_type = ev_event_type e, ew_phase = ev_phase e, ew_status = ev_status e,
      ew_payload = se_json_text se (ev_payload e), ew_raw = se_json_text se (event_to_value e)\<rparr>"

definition append_event_record :: "sql_env \<Rightarrow> event_record \<Rightarrow> sql_db \<Rightarrow> sql_db \<times> bool res" where
  "append_event_record se e = in_tx se (\<lambda>db. Inr (insert_event (row_of_event se (completed_event se e)) db))"

definition append_event :: "sql_env \<Rightarrow> json \<Rightarrow> sql_db \<Rightarrow> sql_db \<times> bool res" where
  "append_event se v db =
     (case event_from_value v of
        None \<Rightarrow> (db, Inl (Storage_Err ''sqlite'' (se_event_error se v)))
      | Some e \<Rightarrow> append_event_record se e db)"

record event_mutation =
  em_event_id :: "string option"
  em_run_id :: "string option"
  em_seq :: "int option"
  em_ts :: "string option"
  em_source :: string
  em_task_id :: string
  em_event_type :: string
  em_phase :: string
  em_status :: string
  em_payload :: json

definition row_of_mutation :: "sql_env \<Rightarrow> event_mutation \<Rightarrow> event_row" where
  "row_of_mutation se e =
     (let seq = unwrap_or (se_nanos se) (em_seq e);
          ts = unwrap_or (se_now se) (em_ts e);
          eid = unwrap_or (''evt-'' @ em_event_type e @ ''-'' @ em_task_id e @ ''-'' @ show_int seq)
                  (opt_filter (\<lambda>s. trim s \<noteq> []) (em_event_id e))
      in \<lparr>ew_event_id = eid, ew_seq = seq, ew_ts = ts, ew_source = em_source e, ew_task_id = Some (em_task_id e),
          ew_event_type = em_event_type e, ew_phase = Some (em_phase e), ew_status = em_status e,
          ew_payload = se_json_text se (em_payload e),
          ew_raw = se_json_text se (object_of
            [(''schema_version'', Some (JStr ''1'')), (''event_id'', Some (JStr eid)),
             (''run_id'', Some (JStr (run_id_or se (em_run_id e)))), (''seq'', Some (JInt seq)),
             (''ts'', Some (JStr ts)), (''source'', Some (JStr (em_source e))),
             (''task_id'', Some (JStr (em_task_id e))), (''type'', Some (JStr (em_event_type e))),
             (''phase'', Some (JStr (em_phase e))), (''status'', Some (JStr (em_status e))),
             (''payload'', Some (em_payload e))] [])\<rparr>)"

definition append_event_in_tx :: "sql_env \<Rightarrow> event_mutation \<Rightarrow> sql_db \<Rightarrow> sql_db" where
  "append_event_in_tx se e db = fst (insert_event (row_of_mutation se e) db)"

section \<open>Reading the log\<close>

definition by_seq :: "event_row list \<Rightarrow> event_row list" where
  "by_seq rows = sort_key ew_seq (sort_key ew_event_id rows)"

definition event_of_row :: "sql_env \<Rightarrow> event_row \<Rightarrow> event_record option" where
  "event_of_row se r = Option.bind (se_json_of se (ew_raw r)) event_from_value"

definition task_has_terminal_result_for_claim :: "sql_env \<Rightarrow> string \<Rightarrow> string \<Rightarrow> sql_db \<Rightarrow> bool" where
  "task_has_terminal_result_for_claim se task_id claim_id db =
     (task_id \<noteq> [] \<and> claim_id \<noteq> [] \<and> se_fail se db = None
      \<and> list_ex (\<lambda>r. ew_task_id r = Some task_id \<and> ew_event_type r = ''phase_result''
            \<and> Option.bind (Option.bind (se_json_of se (ew_raw r)) (\<lambda>v. json_get v ''claim_id'')) as_str = Some claim_id)
          (db_events db))"

definition load_events_after :: "sql_env \<Rightarrow> int \<Rightarrow> nat \<Rightarrow> sql_db \<Rightarrow> sql_db \<times> event_record list res" where
  "load_events_after se after_seq limit =
     on_db se (\<lambda>db. Inr (List.map_filter (event_of_row se)
       (take limit (by_seq (filter (\<lambda>r. after_seq < ew_seq r) (db_events db))))))"

definition event_seq :: "sql_env \<Rightarrow> string \<Rightarrow> sql_db \<Rightarrow> sql_db \<times> int option res" where
  "event_seq se event_id =
     on_db se (\<lambda>db. Inr (map_option ew_seq (List.find (\<lambda>r. ew_event_id r = event_id) (db_events db))))"

record event_query =
  eq_task_id :: "string option"
  eq_event_type :: "string option"
  eq_skip_heartbeats :: bool

definition query_matches :: "event_query \<Rightarrow> event_row \<Rightarrow> bool" where
  "query_matches q r =
     (pred_option (\<lambda>t. ew_task_id r = Some t) (eq_task_id q)
      \<and> pred_option (\<lambda>t. ew_event_type r = t) (eq_event_type q)
      \<and> (eq_skip_heartbeats q \<longrightarrow> ew_event_type r \<notin> set HEARTBEAT_EVENT_TYPES))"

text \<open>The events a visitor is shown, newest first; the visitor is a fold that may stop.\<close>

fun visit_events :: "('s \<Rightarrow> event_record \<Rightarrow> 's \<times> bool) \<Rightarrow> 's \<Rightarrow> event_record list \<Rightarrow> 's" where
  "visit_events visit s [] = s"
| "visit_events visit s (e # es) = (case visit s e of (s', stop) \<Rightarrow> if stop then s' else visit_events visit s' es)"

definition scan_events_newest_first ::
  "sql_env \<Rightarrow> event_query \<Rightarrow> ('s \<Rightarrow> event_record \<Rightarrow> 's \<times> bool) \<Rightarrow> 's \<Rightarrow> sql_db \<Rightarrow> sql_db \<times> 's res" where
  "scan_events_newest_first se q visit s =
     on_db se (\<lambda>db. Inr (visit_events visit s
       (List.map_filter (event_of_row se) (rev (by_seq (filter (query_matches q) (db_events db)))))))"

definition load_recent_events :: "sql_env \<Rightarrow> nat \<Rightarrow> sql_db \<Rightarrow> sql_db \<times> event_record list res" where
  "load_recent_events se limit db =
     (if limit = 0 then (db, Inr [])
      else case scan_events_newest_first se \<lparr>eq_task_id = None, eq_event_type = None, eq_skip_heartbeats = False\<rparr>
             (\<lambda>es e. (es @ [e], limit \<le> length es + 1)) [] db of
             (db', r) \<Rightarrow> (db', map_sum id rev r))"

section \<open>Replay\<close>

definition after_cursor :: "int \<Rightarrow> string \<Rightarrow> event_row \<Rightarrow> bool" where
  "after_cursor seq eid r = (seq < ew_seq r \<or> seq = ew_seq r \<and> eid < ew_event_id r)"

text \<open>The rows behind the cursor; a cursor whose event is gone counts as none.\<close>

definition pending_rows :: "sql_db \<Rightarrow> event_row list" where
  "pending_rows db =
     (case Option.bind (bt_get (db_event_cursor db) ''coordinator'')
             (\<lambda>(eid, _). List.find (\<lambda>r. ew_event_id r = eid) (db_events db)) of
        None \<Rightarrow> by_seq (db_events db)
      | Some c \<Rightarrow> by_seq (filter (after_cursor (ew_seq c) (ew_event_id c)) (db_events db)))"

definition consume_runtime_events :: "sql_env \<Rightarrow> sql_db \<Rightarrow> sql_db \<times> runtime_event list res" where
  "consume_runtime_events se =
     in_tx se (\<lambda>db.
       let rows = pending_rows db;
           events = List.map_filter (\<lambda>r. Option.bind (event_of_row se r) raw_event_to_runtime_event) rows
       in Inr (if rows = [] then db
               else db\<lparr>db_event_cursor :=
                 bt_insert ''coordinator'' (ew_event_id (last rows), se_now se) (db_event_cursor db)\<rparr>, events))"

section \<open>What the log keeps\<close>

definition cursor_of :: "sql_db \<Rightarrow> string option" where
  "cursor_of db = map_option fst (bt_get (db_event_cursor db) ''coordinator'')"

text \<open>Event ids are unique, and the event the replay stopped at is still there.\<close>

definition log_ok :: "sql_db \<Rightarrow> bool" where
  "log_ok db =
     (distinct (map ew_event_id (db_events db)) \<and> bt_ok (db_event_cursor db)
      \<and> pred_option (\<lambda>eid. eid \<in> ew_event_id ` set (db_events db)) (cursor_of db))"

definition lasting :: "sql_db \<Rightarrow> event_row \<Rightarrow> bool" where
  "lasting db r = (ew_event_type r \<notin> set HEARTBEAT_EVENT_TYPES \<or> cursor_event db (ew_event_id r))"

lemma cursor_pinned: "cursor_of db = Some eid \<Longrightarrow> cursor_event db eid"
  by (force simp: cursor_of_def cursor_event_def bt_get_def dest: map_of_SomeD)

lemma last_heartbeats_set:
  "set (last_heartbeats pinned rows) \<subseteq> set rows"
  "r \<in> set rows \<Longrightarrow> ew_event_type r \<notin> set HEARTBEAT_EVENT_TYPES \<or> pinned (ew_event_id r) \<Longrightarrow>
     r \<in> set (last_heartbeats pinned rows)"
  by (induction rows) auto

lemma last_heartbeats_distinct:
  "distinct (map ew_event_id rows) \<Longrightarrow> distinct (map ew_event_id (last_heartbeats pinned rows))"
  using last_heartbeats_set(1) by (induction rows) fastforce+

lemma init_schema_sel [simp]:
  "db_event_cursor (init_schema db) = db_event_cursor db" "db_cursors (init_schema db) = db_cursors db"
  "cursor_of (init_schema db) = cursor_of db" "db_version (init_schema (init_schema db)) = db_version (init_schema db)"
  by (simp_all add: init_schema_def cursor_of_def)

lemma init_schema_lasting: "r \<in> set (db_events db) \<Longrightarrow> lasting db r \<Longrightarrow> r \<in> set (db_events (init_schema db))"
  by (auto simp: init_schema_def lasting_def last_heartbeats_set(2))

lemma init_schema_ok: "log_ok db \<Longrightarrow> log_ok (init_schema db)"
proof -
  assume ok: "log_ok db"
  have "eid \<in> ew_event_id ` set (db_events (init_schema db))" if c: "cursor_of db = Some eid" for eid
  proof -
    obtain r where r: "r \<in> set (db_events db)" "ew_event_id r = eid" using ok c by (auto simp: log_ok_def)
    then have "lasting db r" using cursor_pinned [OF c] by (simp add: lasting_def)
    then show ?thesis using init_schema_lasting [OF r(1)] r(2) by blast
  qed
  moreover have "distinct (map ew_event_id (db_events (init_schema db)))"
    using ok by (simp add: log_ok_def init_schema_def last_heartbeats_distinct)
  ultimately show ?thesis using ok by (auto simp: log_ok_def option.pred_set)
qed

lemma insert_event_sel [simp]:
  "db_event_cursor (fst (insert_event row db)) = db_event_cursor db"
  "db_cursors (fst (insert_event row db)) = db_cursors db"
  "cursor_of (fst (insert_event row db)) = cursor_of db"
  by (simp_all add: insert_event_def cursor_of_def)

lemma insert_event_version: "db_version (fst (insert_event row db)) = db_version db"
  by (simp add: insert_event_def)

lemma init_schema_version: "2 \<le> db_version (init_schema db)"
  by (simp add: init_schema_def)

lemma insert_event_lasting:
  "r \<in> set (db_events db) \<Longrightarrow> lasting db r \<Longrightarrow> r \<in> set (db_events (fst (insert_event row db)))"
  by (auto simp: insert_event_def prune_superseded_heartbeats_def lasting_def same_kind_def)

lemma insert_event_new:
  "ew_event_id row \<notin> ew_event_id ` set (db_events db) \<Longrightarrow> row \<in> set (db_events (fst (insert_event row db)))"
  by (simp add: insert_event_def)

lemma insert_event_subset: "set (db_events (fst (insert_event row db))) \<subseteq> insert row (set (db_events db))"
  by (auto simp: insert_event_def prune_superseded_heartbeats_def split: if_splits)

lemma prune_subset: "set (prune_superseded_heartbeats db row rows) \<subseteq> set rows"
  by (simp add: prune_superseded_heartbeats_def)

lemma prune_distinct:
  "distinct (map ew_event_id rows) \<Longrightarrow> distinct (map ew_event_id (prune_superseded_heartbeats db row rows))"
  by (simp add: prune_superseded_heartbeats_def distinct_map_filter)

lemma insert_event_distinct:
  assumes "distinct (map ew_event_id (db_events db))"
  shows "distinct (map ew_event_id (db_events (fst (insert_event row db))))"
proof (cases "ew_event_id row \<in> ew_event_id ` set (db_events db)")
  case False
  then have "ew_event_id row \<notin> ew_event_id ` set (prune_superseded_heartbeats db row (db_events db))"
    using prune_subset by blast
  then show ?thesis using False prune_distinct [OF assms] by (simp add: insert_event_def)
qed (simp add: insert_event_def assms)

lemma insert_event_ok: "log_ok db \<Longrightarrow> log_ok (fst (insert_event row db))"
proof -
  assume ok: "log_ok db"
  have "eid \<in> ew_event_id ` set (db_events (fst (insert_event row db)))" if c: "cursor_of db = Some eid" for eid
  proof -
    obtain r where r: "r \<in> set (db_events db)" "ew_event_id r = eid" using ok c by (auto simp: log_ok_def)
    then have "lasting db r" using cursor_pinned [OF c] by (simp add: lasting_def)
    then show ?thesis using insert_event_lasting [OF r(1)] r(2) by blast
  qed
  moreover have "distinct (map ew_event_id (db_events (fst (insert_event row db))))"
    using ok unfolding log_ok_def by (simp add: insert_event_distinct)
  ultimately show ?thesis using ok by (auto simp: log_ok_def option.pred_set)
qed

lemma append_runs:
  assumes "se_fail se db = None"
  shows "append_event_record se e db =
    (let row = row_of_event se (completed_event se e); (db', new) = insert_event row (init_schema db) in (db', Inr new))"
  using assms by (simp add: append_event_record_def in_tx_def Let_def split: prod.split)


section \<open>Replay in order, once\<close>

definition seq_le :: "event_row \<Rightarrow> event_row \<Rightarrow> bool" where
  "seq_le a b = (ew_seq a < ew_seq b \<or> ew_seq a = ew_seq b \<and> ew_event_id a \<le> ew_event_id b)"

lemma seq_le_trans: "seq_le a b \<Longrightarrow> seq_le b c \<Longrightarrow> seq_le a c"
  by (auto simp: seq_le_def)

lemma seq_le_not_after: "seq_le a b \<Longrightarrow> \<not> after_cursor (ew_seq b) (ew_event_id b) a"
  by (auto simp: seq_le_def after_cursor_def)

lemma insort_keeps_seq_le:
  "sorted_wrt seq_le ys \<Longrightarrow> (\<And>y. y \<in> set ys \<Longrightarrow> ew_event_id x \<le> ew_event_id y) \<Longrightarrow>
     sorted_wrt seq_le (insort_key ew_seq x ys)"
proof (induction ys)
  case (Cons y ys)
  have le: "seq_le x y" if "ew_seq x \<le> ew_seq y"
    using that Cons.prems(2) [of y] by (auto simp: seq_le_def)
  have xs: "\<forall>z \<in> set ys. seq_le y z" using Cons.prems(1) by simp
  have ge: "seq_le y x" if "\<not> ew_seq x \<le> ew_seq y" using that by (auto simp: seq_le_def)
  show ?case using Cons le ge xs seq_le_trans by (auto simp: set_insort_key)
qed simp

lemma stable_sort_seq_le:
  "sorted_wrt (\<lambda>a b. ew_event_id a \<le> ew_event_id b) xs \<Longrightarrow> sorted_wrt seq_le (sort_key ew_seq xs)"
proof (induction xs)
  case (Cons x xs)
  have "sort_key ew_seq (x # xs) = insort_key ew_seq x (sort_key ew_seq xs)" by simp
  then show ?case using insort_keeps_seq_le [of "sort_key ew_seq xs" x] Cons by simp
qed simp

lemma by_seq_sorted: "sorted_wrt seq_le (by_seq rows)"
  unfolding by_seq_def
  by (rule stable_sort_seq_le) (use sorted_sort_key [of ew_event_id rows] in \<open>simp add: sorted_map\<close>)

lemma by_seq_set [simp]: "set (by_seq rows) = set rows" "by_seq [] = []" "by_seq rows = [] \<longleftrightarrow> rows = []"
  by (simp_all add: by_seq_def) (metis set_empty set_sort)

lemma sorted_last: "sorted_wrt seq_le rows \<Longrightarrow> r \<in> set rows \<Longrightarrow> seq_le r (last rows)"
  by (induction rows) (auto simp: seq_le_def)

lemma distinct_find:
  "distinct (map f xs) \<Longrightarrow> x \<in> set xs \<Longrightarrow> List.find (\<lambda>y. f y = f x) xs = Some x"
  by (induction xs) (auto simp: image_iff)

lemma pending_rows_at:
  assumes "log_ok db" "cursor_of db = Some (ew_event_id c)" "c \<in> set (db_events db)"
  shows "pending_rows db = by_seq (filter (after_cursor (ew_seq c) (ew_event_id c)) (db_events db))"
  using assms distinct_find [of ew_event_id "db_events db" c]
  by (auto simp: pending_rows_def log_ok_def cursor_of_def)

lemma pending_rows_none: "cursor_of db = None \<Longrightarrow> pending_rows db = by_seq (db_events db)"
  by (simp add: pending_rows_def cursor_of_def)

lemma pending_rows_set:
  assumes "log_ok db"
  shows "set (pending_rows db) \<subseteq> set (db_events db)"
  unfolding pending_rows_def by (auto split: option.splits)

lemma pending_rows_sorted: "sorted_wrt seq_le (pending_rows db)"
  unfolding pending_rows_def by (simp split: option.splits add: by_seq_sorted)

definition behind :: "sql_db \<Rightarrow> event_row \<Rightarrow> bool" where
  "behind db r = (\<exists>c \<in> set (db_events db). cursor_of db = Some (ew_event_id c) \<and> seq_le r c)"

lemma log_cursor:
  assumes "log_ok db" "cursor_of db = Some eid"
  obtains c where "c \<in> set (db_events db)" "eid = ew_event_id c"
  using assms by (auto simp: log_ok_def)

lemma pending_or_behind:
  assumes "log_ok db" "r \<in> set (db_events db)"
  shows "r \<in> set (pending_rows db) \<longleftrightarrow> \<not> behind db r"
proof (cases "cursor_of db")
  case None
  then show ?thesis using assms by (simp add: pending_rows_none behind_def)
next
  case (Some eid)
  then obtain c where c: "c \<in> set (db_events db)" "eid = ew_event_id c" using log_cursor [OF assms(1)] by blast
  have same: "d = c" if "d \<in> set (db_events db)" "ew_event_id c = ew_event_id d" for d
  proof -
    have "distinct (map ew_event_id (db_events db))" using assms(1) by (simp add: log_ok_def)
    from distinct_find [OF this that(1)] distinct_find [OF this c(1)] that(2) show ?thesis by simp
  qed
  have "behind db r \<longleftrightarrow> seq_le r c"
    unfolding behind_def Some c(2) using c(1) by (blast dest: same)
  moreover have "r \<in> set (pending_rows db) \<longleftrightarrow> after_cursor (ew_seq c) (ew_event_id c) r"
    using assms(2) unfolding pending_rows_at [OF assms(1) Some [unfolded c(2)] c(1)] by simp
  moreover have "after_cursor (ew_seq c) (ew_event_id c) r \<longleftrightarrow> \<not> seq_le r c"
    by (auto simp: after_cursor_def seq_le_def)
  ultimately show ?thesis by blast
qed

text \<open>A small database: one result of a coordinator with a clock number, one of a performer numbered from one.\<close>

definition small_env :: sql_env where
  "small_env = \<lparr>se_fail = (\<lambda>_. None), se_now = ''now'', se_nanos = 1000, se_run_id = Some ''run-1'', se_pid = ''7'',
                se_json_text = (\<lambda>_. ''{}''), se_json_of = (\<lambda>_. None), se_event_error = (\<lambda>_. [])\<rparr>"

definition small_row :: "string \<Rightarrow> int \<Rightarrow> event_row" where
  "small_row eid seq =
     \<lparr>ew_event_id = eid, ew_seq = seq, ew_ts = ''t'', ew_source = ''coordinator'', ew_task_id = Some ''T1'',
      ew_event_type = ''task_dispatched'', ew_phase = Some ''dev'', ew_status = ''started'', ew_payload = ''{}'',
      ew_raw = ''{}''\<rparr>"

definition small_db :: "event_row list \<Rightarrow> (string, string \<times> string) btree \<Rightarrow> sql_db" where
  "small_db rows cursor =
     \<lparr>db_version = 2, db_metadata = [], db_tasks = [], db_runtime = [], db_locks = [], db_events = rows,
      db_event_cursor = cursor, db_cursors = [], db_jobs = [], db_throttle = [], db_runs = [], db_decisions = [],
      db_control = None\<rparr>"

definition performer_result :: event_record where
  "performer_result =
     \<lparr>ev_schema_version = ''1'', ev_event_id = ''p1'', ev_run_id = Some ''r'', ev_coordinator_epoch = None,
      ev_claim_id = Some ''s1'', ev_seq = 3, ev_ts = ''t'', ev_source = ''performer'', ev_task_id = Some ''T1'',
      ev_event_type = ''phase_result'', ev_phase = Some ''dev'', ev_status = ''success'', ev_detail = None,
      ev_msg = None, ev_payload = JNull, ev_extra = []\<rparr>"

lemma replay_runs:
  assumes "consume_runtime_events se db = (db', Inr events)"
  defines "db1 \<equiv> init_schema db"
  shows "db' = (if pending_rows db1 = [] then db1
                else db1\<lparr>db_event_cursor :=
                  bt_insert ''coordinator'' (ew_event_id (last (pending_rows db1)), se_now se) (db_event_cursor db1)\<rparr>)"
    "events = List.map_filter (\<lambda>r. Option.bind (event_of_row se r) raw_event_to_runtime_event) (pending_rows db1)"
  using assms by (auto simp: consume_runtime_events_def in_tx_def Let_def split: option.splits)


lemma log_ok_key:
  assumes "log_ok db" "c \<in> set (db_events db)" "d \<in> set (db_events db)" "ew_event_id c = ew_event_id d"
  shows "c = d"
proof -
  have "distinct (map ew_event_id (db_events db))" using assms(1) by (simp add: log_ok_def)
  from distinct_find [OF this assms(2)] distinct_find [OF this assms(3)] show ?thesis
    unfolding assms(4) by (metis option.inject)
qed

lemma behind_append:
  assumes "log_ok db" "behind (fst (insert_event row db)) r"
  shows "behind db r"
proof -
  let ?db' = "fst (insert_event row db)"
  obtain c where c: "c \<in> set (db_events ?db')" "cursor_of db = Some (ew_event_id c)" "seq_le r c"
    using assms(2) unfolding behind_def by auto
  obtain d where d: "d \<in> set (db_events db)" "ew_event_id c = ew_event_id d"
    by (rule log_cursor [OF assms(1) c(2)]) simp
  have "lasting db d" using cursor_pinned [OF c(2)] d(2) by (simp add: lasting_def)
  then have "d \<in> set (db_events ?db')" by (rule insert_event_lasting [OF d(1)])
  then have "c = d" by (rule log_ok_key [OF insert_event_ok [OF assms(1)] c(1) _ d(2)])
  then show ?thesis using c d(1) unfolding behind_def by blast
qed

lemma behind_append':
  assumes "behind db r"
  shows "behind (fst (insert_event row db)) r"
proof -
  obtain c where c: "c \<in> set (db_events db)" "cursor_of db = Some (ew_event_id c)" "seq_le r c"
    using assms unfolding behind_def by blast
  have "lasting db c" using cursor_pinned [OF c(2)] by (simp add: lasting_def)
  then have "c \<in> set (db_events (fst (insert_event row db)))" by (rule insert_event_lasting [OF c(1)])
  then show ?thesis using c unfolding behind_def by auto
qed





end
