(* ===== verification/Task_Store.thy ===== *)
theory Task_Store
  imports Event_Store
begin

text \<open>
  The task tables of the coordinator database (\<open>coordinator_storage.rs\<close>): the task mutations, the runtime rows
  and lock rows they rebuild, loading and saving of snapshots, the throttle table, the ledgers of runs, control
  modes and gate decisions, the JSON files a snapshot can live in instead, and the transfers between the two.
  Texts of tasks, locks, registries, cursors and throttle states are those of the derived codecs, parameters here.
\<close>

section \<open>Codecs, snapshots\<close>

record coordinator_cursor =
  cc_path :: "string option"
  cc_inode :: "int option"
  cc_offset :: nat
  cc_last_event_id :: "string option"
  cc_updated_at :: "string option"
  cc_extra :: "(string, json) btree"

record snapshot =
  sn_registry :: task_registry
  sn_events :: "event_record list"
  sn_cursor :: "coordinator_cursor option"

text \<open>The codecs; a reader gives the text of its error.\<close>

record store_codec =
  cd_task_text :: "task \<Rightarrow> string"
  cd_task_of :: "string \<Rightarrow> string + task"
  cd_runtime_text :: "task_runtime \<Rightarrow> string"
  cd_strings_text :: "string list \<Rightarrow> string"
  cd_lock_text :: "resource_lock \<Rightarrow> string"
  cd_lock_of :: "string \<Rightarrow> resource_lock option"
  cd_registry_text :: "task_registry \<Rightarrow> string"
  cd_registry_of :: "string \<Rightarrow> string + task_registry"
  cd_cursor_text :: "coordinator_cursor \<Rightarrow> string"
  cd_cursor_of :: "string \<Rightarrow> string + coordinator_cursor"
  cd_throttle_text :: "throttle_state \<Rightarrow> string"
  cd_throttle_of :: "string \<Rightarrow> throttle_state option"

definition NO_ROWS :: string where
  "NO_ROWS = ''Query returned no rows''"

definition is_active_state :: "string \<Rightarrow> bool" where
  "is_active_state state =
     (state \<in> {''claimed'', ''in_progress'', ''pr_open'', ''changes_requested'', ''queued''})"

text \<open>The registry of a project without one.\<close>

definition seeded_registry :: "string \<Rightarrow> task_registry" where
  "seeded_registry now =
     default_registry\<lparr>rg_updated_at := Some now,
       rg_extra := bt_insert ''state_mapping'' (JObj [])
         (bt_insert ''processed_event_ids'' (JObj []) (bt_insert ''schema_version'' (JInt 1) []))\<rparr>"

definition empty_snapshot :: "string \<Rightarrow> snapshot" where
  "empty_snapshot now = \<lparr>sn_registry = seeded_registry now, sn_events = [], sn_cursor = None\<rparr>"

definition parse_task_payload :: "store_codec \<Rightarrow> string \<Rightarrow> string \<Rightarrow> task res" where
  "parse_task_payload cd task_id raw =
     (case cd_task_of cd raw of
        Inl e \<Rightarrow> Inl (Storage_Err ''sqlite'' (''Failed to parse typed task payload for '' @ [CHR 0x27] @ task_id
                    @ [CHR 0x27] @ '': '' @ e))
      | Inr t \<Rightarrow> Inr t)"

section \<open>Rows of a task\<close>

definition row_of_task :: "store_codec \<Rightarrow> task \<Rightarrow> string \<Rightarrow> task_row" where
  "row_of_task cd t now =
     \<lparr>tw_state = tk_state t, tw_title = unwrap_or [] (tk_title t), tw_priority = unwrap_or [] (tk_priority t),
      tw_tool = unwrap_or [] (tk_tool t), tw_payload = cd_task_text cd t, tw_updated_at = now\<rparr>"

definition runtime_row_of :: "store_codec \<Rightarrow> task \<Rightarrow> string \<Rightarrow> runtime_row" where
  "runtime_row_of cd t now =
     (let rt = tk_runtime t in
      \<lparr>rw_task_id = tk_id t, rw_run_id = unwrap_or ''-'' (tr_run_id rt), rw_epoch = unwrap_or 0 (tr_coordinator_epoch rt),
       rw_workflow_state = tk_state t, rw_status = unwrap_or ''idle'' (tr_status rt), rw_phase = tr_current_phase rt,
       rw_tool = tk_tool t, rw_slot_id = Option.bind (bt_get (tr_extra rt) ''worktree_slot_id'') as_str,
       rw_worktree_path = worktree_field wt_worktree_path t, rw_branch = worktree_field wt_branch t,
       rw_base_branch = worktree_field wt_base_branch t, rw_pid = tr_pid rt, rw_group_id = tr_process_group_id rt,
       rw_started_at = tr_started_at rt, rw_updated_at = now, rw_last_heartbeat = tr_last_heartbeat rt,
       rw_heartbeat_seq = unwrap_or 0 (tr_heartbeat_seq rt), rw_lease = tr_lease_expires_at rt,
       rw_attempt = unwrap_or 0 (tr_attempt rt),
       rw_resources = unwrap_or (cd_strings_text cd (tk_exclusive_resources t)) (tr_locked_resources_json rt),
       rw_error_code = tr_last_error_code rt,
       rw_error_message = or_else (tr_last_error_message rt) (tr_last_error rt),
       rw_payload = cd_runtime_text cd rt\<rparr>)"

text \<open>One row per task, keyed by its claim: a row of another task with the same claim is overwritten.\<close>

definition upsert_task_runtime_row :: "store_codec \<Rightarrow> task \<Rightarrow> string \<Rightarrow> sql_db \<Rightarrow> sql_db" where
  "upsert_task_runtime_row cd t now db =
     db\<lparr>db_runtime := bt_insert (lock_claim_id t) (runtime_row_of cd t now)
          (filter (\<lambda>(_, r). rw_task_id r \<noteq> tk_id t) (db_runtime db))\<rparr>"

text \<open>The locks of the active tasks with a worktree, in the order of the ids; the first to name a resource has it.\<close>

definition sql_lock :: "task \<Rightarrow> string \<Rightarrow> resource_lock" where
  "sql_lock t now =
     \<lparr>lk_task_id = tk_id t, lk_claim_id = lock_claim_id t,
      lk_worktree_path = unwrap_or [] (worktree_field wt_worktree_path t),
      lk_locked_at = unwrap_or now (nonempty (tk_claimed_at t)),
      lk_expires_at = tr_lease_expires_at (tk_runtime t), lk_extra = []\<rparr>"

definition lock_value :: "resource_lock \<Rightarrow> json" where
  "lock_value l =
     object_of [(''task_id'', Some (JStr (lk_task_id l))), (''claim_id'', Some (JStr (lk_claim_id l))),
       (''worktree_path'', Some (JStr (lk_worktree_path l))), (''locked_at'', Some (JStr (lk_locked_at l))),
       (''expires_at'', map_option JStr (lk_expires_at l))] (lk_extra l)"

fun set_member :: "string \<Rightarrow> json \<Rightarrow> json \<Rightarrow> json" where
  "set_member k v (JObj m) = JObj (bt_insert k v m)"
| "set_member k v j = j"

definition sql_lock_row :: "sql_env \<Rightarrow> task \<Rightarrow> string \<Rightarrow> lock_row" where
  "sql_lock_row se t now =
     (let l = sql_lock t now in
      \<lparr>lw_task_id = tk_id t, lw_claim_id = lk_claim_id l, lw_expires_at = lk_expires_at l,
       lw_worktree_path = lk_worktree_path l, lw_locked_at = lk_locked_at l,
       lw_payload = se_json_text se (if lk_worktree_path l = [] then set_member ''worktree_path'' JNull (lock_value l)
                                     else lock_value l),
       lw_updated_at = now\<rparr>)"

definition takes_locks :: "task \<Rightarrow> bool" where
  "takes_locks t = (is_active_state (tk_state t) \<and> tk_worktree t \<noteq> None \<and> tk_id t \<noteq> [])"

definition add_lock :: "sql_env \<Rightarrow> string \<Rightarrow> task \<Rightarrow> string \<Rightarrow> (string, lock_row) btree \<Rightarrow> (string, lock_row) btree" where
  "add_lock se now t resource locks =
     (if resource = [] \<or> bt_get locks resource \<noteq> None then locks
      else bt_insert resource (sql_lock_row se t now) locks)"

definition stored_tasks :: "store_codec \<Rightarrow> sql_db \<Rightarrow> task list" where
  "stored_tasks cd db =
     List.map_filter (\<lambda>(_, r). case cd_task_of cd (tw_payload r) of Inl _ \<Rightarrow> None | Inr t \<Rightarrow> Some t) (db_tasks db)"

definition sql_recompute_locks :: "store_codec \<Rightarrow> sql_env \<Rightarrow> string \<Rightarrow> sql_db \<Rightarrow> sql_db" where
  "sql_recompute_locks cd se now db =
     db\<lparr>db_locks :=
       fold (\<lambda>t locks. if takes_locks t then fold (add_lock se now t) (tk_exclusive_resources t) locks else locks)
         (stored_tasks cd db) []\<rparr>"

section \<open>Mutations of one task\<close>

record transition_mutation =
  xm_task_id :: string
  xm_new_state :: string
  xm_pr_url :: string
  xm_reviewer :: string
  xm_reason :: string
  xm_now :: string

record runtime_mutation =
  um_task_id :: string
  um_runtime_status :: string
  um_phase :: string
  um_pid :: "int option"
  um_last_error :: string
  um_heartbeat_ts :: string
  um_attempt :: "int option"
  um_now :: string
  um_message :: "string option"
  um_progress :: "nat option"
  um_worker_id :: "string option"
  um_tool :: "string option"
  um_worktree :: "string option"
  um_branch :: "string option"
  um_stdout_log :: "string option"
  um_stderr_log :: "string option"
  um_events_log :: "string option"
  um_last_event_at :: "string option"

record merge_pending_mutation =
  gm_task_id :: string
  gm_result_file :: string
  gm_pid :: "int option"
  gm_now :: string

record merge_processed_mutation =
  hm_task_id :: string
  hm_result_file :: string
  hm_status :: string
  hm_rc :: "int option"
  hm_now :: string

record slo_warning_mutation =
  sm_task_id :: string
  sm_metric :: string
  sm_threshold :: int
  sm_value :: int
  sm_suggestion :: string
  sm_now :: string

definition non_blank :: "string \<Rightarrow> string option \<Rightarrow> string option" where
  "non_blank s old = (if s = [] then old else Some s)"

definition transition_task :: "transition_mutation \<Rightarrow> task \<Rightarrow> task" where
  "transition_task m t0 =
     (let t1 = t0\<lparr>tk_state := xm_new_state m, tk_updated_at := Some (xm_now m),
                   tk_state_changed_at := Some (xm_now m)\<rparr>;
          t2 = (if xm_new_state m = ''pr_open'' \<and> xm_pr_url m \<noteq> [] then t1\<lparr>tk_pr_url := Some (xm_pr_url m)\<rparr> else t1);
          t3 = (if xm_new_state m = ''changes_requested''
                then let rv = unwrap_or \<lparr>rv_changed = None, rv_last_reviewed_at = None, rv_reviewer = None,
                                          rv_reason = None, rv_extra = []\<rparr> (tk_review t2)
                     in t2\<lparr>tk_review := Some (rv\<lparr>rv_changed := Some True, rv_last_reviewed_at := Some (xm_now m),
                          rv_reviewer := non_blank (xm_reviewer m) (rv_reviewer rv),
                          rv_reason := non_blank (xm_reason m) (rv_reason rv)\<rparr>)\<rparr>
                else t2)
      in if xm_new_state m \<in> {''merged'', ''abandoned'', ''todo''}
         then upd_runtime (\<lambda>rt. rt\<lparr>tr_status := Some ''idle'', tr_pid := None, tr_started_at := None,
                                    tr_current_phase := None, tr_merge_result_pending := Some False,
                                    tr_merge_result_file := None\<rparr>)
                (t3\<lparr>tk_assignee := None, tk_claimed_at := None, tk_worktree := None\<rparr>)
         else t3)"

definition at_rest :: "string \<Rightarrow> bool" where
  "at_rest status = (status \<in> {''idle'', ''phase_done'', ''failed'', ''stale''})"

definition runtime_task :: "runtime_mutation \<Rightarrow> task \<Rightarrow> task" where
  "runtime_task m t =
     (upd_runtime (\<lambda>rt.
        rt\<lparr>tr_status := Some (um_runtime_status m), tr_current_phase := non_blank (um_phase m) (tr_current_phase rt),
            tr_message := or_else (um_message m) (tr_message rt),
            tr_progress := or_else (um_progress m) (tr_progress rt),
            tr_worker_id := or_else (um_worker_id m) (tr_worker_id rt), tr_tool := or_else (um_tool m) (tr_tool rt),
            tr_worktree := or_else (um_worktree m) (tr_worktree rt), tr_branch := or_else (um_branch m) (tr_branch rt),
            tr_stdout_log := or_else (um_stdout_log m) (tr_stdout_log rt),
            tr_stderr_log := or_else (um_stderr_log m) (tr_stderr_log rt),
            tr_events_log := or_else (um_events_log m) (tr_events_log rt),
            tr_last_event_at := or_else (um_last_event_at m) (tr_last_event_at rt),
            tr_registry_updated_at := Some (um_now m),
            tr_pid := or_else (um_pid m) (if at_rest (um_runtime_status m) then None else tr_pid rt),
            tr_last_error := non_blank (um_last_error m) (tr_last_error rt),
            tr_last_heartbeat := non_blank (um_heartbeat_ts m) (tr_last_heartbeat rt),
            tr_attempt := or_else (um_attempt m) (tr_attempt rt),
            tr_started_at := (if um_runtime_status m = ''running'' \<and> unwrap_or [] (tr_started_at rt) = []
                              then Some (um_now m) else tr_started_at rt),
            tr_phase_started_at := (if at_rest (um_runtime_status m) then None
                                    else if um_runtime_status m = ''running'' then Some (um_now m)
                                    else tr_phase_started_at rt)\<rparr>) t)
       \<lparr>tk_updated_at := Some (um_now m)\<rparr>"

definition merge_pending_task :: "merge_pending_mutation \<Rightarrow> task \<Rightarrow> task" where
  "merge_pending_task m t =
     (upd_runtime (\<lambda>rt. rt\<lparr>tr_merge_result_pending := Some True, tr_merge_result_file := Some (gm_result_file m),
                            tr_merge_worker_pid := gm_pid m, tr_merge_result_started_at := Some (gm_now m)\<rparr>) t)
       \<lparr>tk_updated_at := Some (gm_now m)\<rparr>"

definition merge_processed_task :: "merge_processed_mutation \<Rightarrow> task \<Rightarrow> task" where
  "merge_processed_task m t =
     (upd_runtime (\<lambda>rt. rt\<lparr>tr_merge_result_pending := Some False, tr_merge_result_file := None,
                            tr_merge_worker_pid := None,
                            tr_last_merge_result_file := non_blank (hm_result_file m) (tr_last_merge_result_file rt),
                            tr_last_merge_result_status := non_blank (hm_status m) (tr_last_merge_result_status rt),
                            tr_last_merge_result_rc := or_else (hm_rc m) (tr_last_merge_result_rc rt),
                            tr_last_merge_result_at := Some (hm_now m)\<rparr>) t)
       \<lparr>tk_updated_at := Some (hm_now m)\<rparr>"

definition retry_task :: "string \<Rightarrow> task \<Rightarrow> task" where
  "retry_task now t = (upd_runtime (fst \<circ> Model.increment_retries) t)\<lparr>tk_updated_at := Some now\<rparr>"

definition slo_task :: "slo_warning_mutation \<Rightarrow> task \<Rightarrow> task" where
  "slo_task m t =
     (upd_runtime (Model.upsert_slo_warning (sm_metric m) (sm_threshold m) (sm_value m) (sm_suggestion m) (sm_now m)) t)
       \<lparr>tk_updated_at := Some (sm_now m)\<rparr>"

section \<open>Mutations in the database\<close>

definition read_task :: "store_codec \<Rightarrow> string \<Rightarrow> sql_db \<Rightarrow> task res" where
  "read_task cd task_id db =
     (case bt_get (db_tasks db) task_id of
        None \<Rightarrow> Inl (sql_err NO_ROWS)
      | Some r \<Rightarrow> parse_task_payload cd task_id (tw_payload r))"

text \<open>The shape the mutations share: read the payload, change it, write the row and the runtime row.\<close>

definition write_task :: "store_codec \<Rightarrow> string \<Rightarrow> string \<Rightarrow> string \<Rightarrow> task \<Rightarrow> sql_db \<Rightarrow> sql_db" where
  "write_task cd task_id now runtime_now t db =
     upsert_task_runtime_row cd t runtime_now (db\<lparr>db_tasks := bt_insert task_id (row_of_task cd t now) (db_tasks db)\<rparr>)"

definition change_task ::
  "store_codec \<Rightarrow> sql_env \<Rightarrow> string \<Rightarrow> string \<Rightarrow> (task \<Rightarrow> task) \<Rightarrow> (sql_db \<Rightarrow> sql_db) \<Rightarrow> sql_db \<Rightarrow> sql_db \<times> unit res" where
  "change_task cd se task_id now f further =
     in_tx se (\<lambda>db. map_sum id (\<lambda>t. (further (write_task cd task_id now now (f t) db), ())) (read_task cd task_id db))"

definition with_event :: "sql_env \<Rightarrow> event_mutation option \<Rightarrow> sql_db \<Rightarrow> sql_db" where
  "with_event se event db = (case event of None \<Rightarrow> db | Some e \<Rightarrow> append_event_in_tx se e db)"

definition apply_transition_with_event ::
  "store_codec \<Rightarrow> sql_env \<Rightarrow> transition_mutation \<Rightarrow> event_mutation option \<Rightarrow> sql_db \<Rightarrow> sql_db \<times> unit res" where
  "apply_transition_with_event cd se m event =
     change_task cd se (xm_task_id m) (xm_now m) (transition_task m)
       (\<lambda>db. with_event se event (sql_recompute_locks cd se (xm_now m) db))"

definition set_runtime_with_event ::
  "store_codec \<Rightarrow> sql_env \<Rightarrow> runtime_mutation \<Rightarrow> event_mutation option \<Rightarrow> sql_db \<Rightarrow> sql_db \<times> unit res" where
  "set_runtime_with_event cd se m event =
     change_task cd se (um_task_id m) (um_now m) (runtime_task m) (with_event se event)"

definition set_merge_pending ::
  "store_codec \<Rightarrow> sql_env \<Rightarrow> merge_pending_mutation \<Rightarrow> sql_db \<Rightarrow> sql_db \<times> unit res" where
  "set_merge_pending cd se m = change_task cd se (gm_task_id m) (gm_now m) (merge_pending_task m) id"

definition set_merge_processed ::
  "store_codec \<Rightarrow> sql_env \<Rightarrow> merge_processed_mutation \<Rightarrow> sql_db \<Rightarrow> sql_db \<times> unit res" where
  "set_merge_processed cd se m = change_task cd se (hm_task_id m) (hm_now m) (merge_processed_task m) id"

definition increment_task_retries :: "store_codec \<Rightarrow> sql_env \<Rightarrow> string \<Rightarrow> string \<Rightarrow> sql_db \<Rightarrow> sql_db \<times> unit res" where
  "increment_task_retries cd se task_id now = change_task cd se task_id now (retry_task now) id"

definition store_slo_warning :: "store_codec \<Rightarrow> sql_env \<Rightarrow> slo_warning_mutation \<Rightarrow> sql_db \<Rightarrow> sql_db \<times> unit res" where
  "store_slo_warning cd se m = change_task cd se (sm_task_id m) (sm_now m) (slo_task m) id"

section \<open>Loading\<close>

definition load_registry_from_tables :: "store_codec \<Rightarrow> sql_env \<Rightarrow> sql_db \<Rightarrow> task_registry" where
  "load_registry_from_tables cd se db =
     (seeded_registry (se_now se))
       \<lparr>rg_tasks := stored_tasks cd db,
        rg_resource_locks := fold (\<lambda>(k, l). bt_insert k l)
          (List.map_filter (\<lambda>(k, r). map_option (Pair k) (cd_lock_of cd (lw_payload r))) (db_locks db)) []\<rparr>"

text \<open>The metadata completes the tables; with no task in the tables and some in the metadata it replaces them.\<close>

definition merge_metadata :: "task_registry \<Rightarrow> task_registry \<Rightarrow> task_registry" where
  "merge_metadata meta r =
     (if rg_tasks r = [] \<and> rg_tasks meta \<noteq> [] then meta
      else r\<lparr>rg_resource_locks := (if rg_resource_locks r = [] then rg_resource_locks meta else rg_resource_locks r),
             rg_external_merged := fold insort_insert (rg_external_merged meta) (rg_external_merged r),
             rg_updated_at := or_else (rg_updated_at meta) (rg_updated_at r),
             rg_extra := fold (\<lambda>(k, v). bt_insert k v) (rg_extra meta) (rg_extra r)\<rparr>)"

definition load_registry_with_conn :: "store_codec \<Rightarrow> sql_env \<Rightarrow> sql_db \<Rightarrow> task_registry res" where
  "load_registry_with_conn cd se db =
     (case bt_get (db_metadata db) ''registry_json'' of
        None \<Rightarrow> Inr (load_registry_from_tables cd se db)
      | Some (raw, _) \<Rightarrow>
          (case cd_registry_of cd raw of
             Inl e \<Rightarrow> Inl (Storage_Err ''sqlite'' (''Failed to parse registry_json metadata: '' @ e))
           | Inr meta \<Rightarrow> Inr (merge_metadata meta (load_registry_from_tables cd se db))))"

definition load_cursor_with_conn :: "store_codec \<Rightarrow> sql_db \<Rightarrow> coordinator_cursor option res" where
  "load_cursor_with_conn cd db =
     (case bt_get (db_cursors db) ''coordinator'' of
        None \<Rightarrow> Inr None
      | Some c \<Rightarrow> (case cd_cursor_of cd (cu_payload c) of
          Inl e \<Rightarrow> Inl (Storage_Err ''sqlite'' (''Failed to parse cursor payload_json: '' @ e))
        | Inr v \<Rightarrow> Inr (Some v)))"

definition load_registry :: "store_codec \<Rightarrow> sql_env \<Rightarrow> sql_db \<Rightarrow> sql_db \<times> task_registry res" where
  "load_registry cd se = on_db se (load_registry_with_conn cd se)"

definition snapshot_with_conn ::
  "store_codec \<Rightarrow> sql_env \<Rightarrow> (sql_db \<Rightarrow> event_record list) \<Rightarrow> sql_db \<Rightarrow> snapshot res" where
  "snapshot_with_conn cd se events db =
     try_bind (load_registry_with_conn cd se db) (\<lambda>registry.
       try_bind (load_cursor_with_conn cd db) (\<lambda>cursor.
         Inr \<lparr>sn_registry = registry, sn_events = events db, sn_cursor = cursor\<rparr>))"

definition load_snapshot_without_events :: "store_codec \<Rightarrow> sql_env \<Rightarrow> sql_db \<Rightarrow> sql_db \<times> snapshot res" where
  "load_snapshot_without_events cd se = on_db se (snapshot_with_conn cd se (\<lambda>_. []))"

definition sql_load_snapshot :: "store_codec \<Rightarrow> sql_env \<Rightarrow> sql_db \<Rightarrow> sql_db \<times> snapshot res" where
  "sql_load_snapshot cd se =
     on_db se (snapshot_with_conn cd se (\<lambda>db. List.map_filter (event_of_row se) (by_seq (db_events db))))"

definition has_snapshot_data :: "sql_env \<Rightarrow> sql_db \<Rightarrow> sql_db \<times> bool res" where
  "has_snapshot_data se =
     on_db se (\<lambda>db. Inr (bt_get (db_metadata db) ''registry_json'' \<noteq> None \<or> db_tasks db \<noteq> []))"

text \<open>The query names a column that the table does not have: SQLite refuses to prepare it.\<close>

definition RUNTIME_COLUMNS :: "string list" where
  "RUNTIME_COLUMNS =
     [''task_id'', ''claim_id'', ''run_id'', ''coordinator_epoch'', ''workflow_state'', ''runtime_status'', ''phase'',
      ''tool'', ''worktree_slot_id'', ''worktree_path'', ''branch'', ''base_branch'', ''pid'', ''process_group_id'',
      ''started_at'', ''updated_at'', ''last_heartbeat_at'', ''heartbeat_seq'', ''lease_expires_at'', ''attempt'',
      ''locked_resources_json'', ''last_error_code'', ''last_error_message'', ''payload_json'']"

definition get_running_task_pids :: "sql_env \<Rightarrow> sql_db \<Rightarrow> sql_db \<times> (string \<times> int) list res" where
  "get_running_task_pids se =
     on_db se (\<lambda>db.
       if \<not> {''task_id'', ''pid'', ''status''} \<subseteq> set RUNTIME_COLUMNS then Inl (sql_err ''no such column: status'')
       else Inr (List.map_filter (\<lambda>(_, r). if rw_status r = ''running'' then map_option (Pair (rw_task_id r)) (rw_pid r)
                                           else None) (db_runtime db)))"

lemma running_pids_are_never_found: "\<exists>e. snd (get_running_task_pids se db) = Inl e"
  by (simp add: get_running_task_pids_def RUNTIME_COLUMNS_def on_db_def in_tx_def Let_def split: option.split)

section \<open>Saving\<close>

text \<open>Rows whose task is gone leave; events stay.\<close>

definition clear_for_save :: "task list \<Rightarrow> sql_db \<Rightarrow> sql_db" where
  "clear_for_save ts db =
     (let tasks = filter (\<lambda>(k, _). k \<in> tk_id ` set ts \<and> k \<noteq> []) (db_tasks db)
      in db\<lparr>db_tasks := tasks, db_runtime := filter (\<lambda>(_, r). rw_task_id r \<in> fst ` set tasks) (db_runtime db),
            db_locks := [], db_cursors := [], db_jobs := []\<rparr>)"

definition save_metadata :: "store_codec \<Rightarrow> sql_env \<Rightarrow> task_registry \<Rightarrow> sql_db \<Rightarrow> sql_db" where
  "save_metadata cd se r db =
     (let raw = cd_registry_text cd (r\<lparr>rg_tasks := []\<rparr>)
      in if map_option fst (bt_get (db_metadata db) ''registry_json'') = Some raw then db
         else db\<lparr>db_metadata := bt_insert ''registry_json'' (raw, se_now se) (db_metadata db)\<rparr>)"

definition runtime_updated :: "sql_env \<Rightarrow> task \<Rightarrow> string" where
  "runtime_updated se t =
     unwrap_or (unwrap_or (se_now se) (tk_updated_at t))
       (Option.bind (bt_get (tr_extra (tk_runtime t)) ''updated_at'') as_str)"

text \<open>A task whose payload is stored already is not rewritten.\<close>

definition save_task_rows :: "store_codec \<Rightarrow> sql_env \<Rightarrow> (string \<Rightarrow> string option) \<Rightarrow> task \<Rightarrow> sql_db \<Rightarrow> sql_db" where
  "save_task_rows cd se stored t db =
     (if stored (tk_id t) = Some (cd_task_text cd t) then db
      else write_task cd (tk_id t) (unwrap_or (se_now se) (tk_updated_at t)) (runtime_updated se t) t db)"

definition save_job :: "sql_env \<Rightarrow> task \<Rightarrow> string \<Rightarrow> string \<Rightarrow> int option \<Rightarrow> sql_db \<Rightarrow> sql_db res" where
  "save_job se t suffix job_type pid db =
     (case pid of None \<Rightarrow> Inr db | Some p \<Rightarrow>
        let key = tk_id t @ suffix; status = unwrap_or ''idle'' (tr_status (tk_runtime t)) in
        if bt_get (db_jobs db) key \<noteq> None then Inl (sql_err ''UNIQUE constraint failed: jobs.job_key'')
        else Inr (db\<lparr>db_jobs := bt_insert key
          \<lparr>jw_task_id = tk_id t, jw_type = job_type, jw_pid = p, jw_status = status,
           jw_payload = se_json_text se (object_of
             [(''task_id'', Some (JStr (tk_id t))), (''job_type'', Some (JStr job_type)), (''pid'', Some (JInt p)),
              (''status'', Some (JStr status))] []),
           jw_updated_at = runtime_updated se t\<rparr> (db_jobs db)\<rparr>))"

definition save_task :: "store_codec \<Rightarrow> sql_env \<Rightarrow> (string \<Rightarrow> string option) \<Rightarrow> task \<Rightarrow> sql_db \<Rightarrow> sql_db res" where
  "save_task cd se stored t db =
     (if tk_id t = [] then Inr db
      else try_bind (save_job se t '':performer'' ''performer'' (tr_pid (tk_runtime t)) (save_task_rows cd se stored t db))
             (save_job se t '':merge'' ''merge_worker'' (tr_merge_worker_pid (tk_runtime t))))"

fun save_tasks :: "store_codec \<Rightarrow> sql_env \<Rightarrow> (string \<Rightarrow> string option) \<Rightarrow> task list \<Rightarrow> sql_db \<Rightarrow> sql_db res" where
  "save_tasks cd se stored [] db = Inr db"
| "save_tasks cd se stored (t # ts) db = try_bind (save_task cd se stored t db) (save_tasks cd se stored ts)"

definition lock_row_of :: "store_codec \<Rightarrow> sql_env \<Rightarrow> resource_lock \<Rightarrow> lock_row" where
  "lock_row_of cd se l =
     \<lparr>lw_task_id = lk_task_id l, lw_claim_id = (if lk_claim_id l = [] then ''unclaimed-'' @ lk_task_id l else lk_claim_id l),
      lw_expires_at = lk_expires_at l, lw_worktree_path = lk_worktree_path l, lw_locked_at = lk_locked_at l,
      lw_payload = cd_lock_text cd l, lw_updated_at = se_now se\<rparr>"

definition save_locks :: "store_codec \<Rightarrow> sql_env \<Rightarrow> (string, resource_lock) btree \<Rightarrow> sql_db \<Rightarrow> sql_db" where
  "save_locks cd se locks db =
     db\<lparr>db_locks := fold (\<lambda>(k, l). bt_insert k (lock_row_of cd se l)) locks (db_locks db)\<rparr>"

definition snapshot_event_row :: "sql_env \<Rightarrow> nat \<times> event_record \<Rightarrow> event_row" where
  "snapshot_event_row se = (\<lambda>(idx, e).
     \<lparr>ew_event_id = (if ev_event_id e = [] then ''event-'' @ show_nat (idx + 1) else ev_event_id e),
      ew_seq = (if ev_seq e = 0 then int idx + 1 else ev_seq e), ew_ts = ev_ts e, ew_source = ev_source e,
      ew_task_id = Some (unwrap_or [] (ev_task_id e)), ew_event_type = ev_event_type e,
      ew_phase = Some (unwrap_or [] (ev_phase e)), ew_status = ev_status e,
      ew_payload = se_json_text se (ev_payload e), ew_raw = se_json_text se (event_to_value e)\<rparr>)"

definition save_events :: "sql_env \<Rightarrow> event_record list \<Rightarrow> sql_db \<Rightarrow> sql_db" where
  "save_events se events db =
     db\<lparr>db_events := fold insert_or_ignore (map (snapshot_event_row se) (enumerate 0 events)) (db_events db)\<rparr>"

definition save_cursor :: "store_codec \<Rightarrow> sql_env \<Rightarrow> coordinator_cursor option \<Rightarrow> sql_db \<Rightarrow> sql_db" where
  "save_cursor cd se cursor db =
     (case cursor of None \<Rightarrow> db | Some c \<Rightarrow>
        db\<lparr>db_cursors := bt_insert ''coordinator''
          \<lparr>cu_path = Some (unwrap_or [] (cc_path c)), cu_inode = Some (unwrap_or 0 (cc_inode c)),
           cu_offset = int (min (cc_offset c) (2 ^ 63 - 1)), cu_last_event_id = unwrap_or [] (cc_last_event_id c),
           cu_updated_at = unwrap_or (se_now se) (cc_updated_at c), cu_payload = cd_cursor_text cd c\<rparr>
          (db_cursors db)\<rparr>)"

definition sql_save_snapshot :: "store_codec \<Rightarrow> sql_env \<Rightarrow> snapshot \<Rightarrow> sql_db \<Rightarrow> sql_db \<times> unit res" where
  "sql_save_snapshot cd se sn =
     in_tx se (\<lambda>db.
       let r = sn_registry sn;
           stored = map_option tw_payload \<circ> bt_get (db_tasks db)
       in map_sum id (\<lambda>db2. (save_cursor cd se (sn_cursor sn)
                (save_events se (sn_events sn) (save_locks cd se (rg_resource_locks r) db2)), ()))
            (save_tasks cd se stored (rg_tasks r) (save_metadata cd se r (clear_for_save (rg_tasks r) db))))"

section \<open>Throttled tools\<close>

definition load_throttle_registry :: "store_codec \<Rightarrow> sql_env \<Rightarrow> sql_db \<Rightarrow> sql_db \<times> throttle_registry res" where
  "load_throttle_registry cd se =
     on_db se (\<lambda>db. Inr (fold (\<lambda>(k, v). bt_insert k v)
       (List.map_filter (\<lambda>(k, r). map_option (Pair k) (cd_throttle_of cd (hw_payload r))) (db_throttle db)) []))"

definition throttle_row_of :: "store_codec \<Rightarrow> sql_env \<Rightarrow> throttle_state \<Rightarrow> throttle_row" where
  "throttle_row_of cd se st =
     \<lparr>hw_until = sint (th_throttled_until st), hw_payload = cd_throttle_text cd st, hw_updated_at = se_now se\<rparr>"

definition save_throttle_registry :: "store_codec \<Rightarrow> sql_env \<Rightarrow> throttle_registry \<Rightarrow> sql_db \<Rightarrow> sql_db \<times> unit res" where
  "save_throttle_registry cd se reg =
     in_tx se (\<lambda>db. Inr (db\<lparr>db_throttle := fold (\<lambda>(k, st). bt_insert k (throttle_row_of cd se st)) reg []\<rparr>, ()))"

definition upsert_tool_throttle ::
  "store_codec \<Rightarrow> sql_env \<Rightarrow> string \<Rightarrow> throttle_state \<Rightarrow> sql_db \<Rightarrow> sql_db \<times> unit res" where
  "upsert_tool_throttle cd se tool st =
     in_tx se (\<lambda>db. Inr (db\<lparr>db_throttle := bt_insert tool (throttle_row_of cd se st) (db_throttle db)\<rparr>, ()))"

definition delete_tool_throttle :: "sql_env \<Rightarrow> string \<Rightarrow> sql_db \<Rightarrow> sql_db \<times> bool res" where
  "delete_tool_throttle se tool =
     in_tx se (\<lambda>db. Inr (db\<lparr>db_throttle := bt_remove tool (db_throttle db)\<rparr>, bt_get (db_throttle db) tool \<noteq> None))"

section \<open>Ledgers of runs, modes, decisions, cursors\<close>

record coordinator_control =
  kc_mode :: string
  kc_requested_at :: "string option"
  kc_requested_by :: "string option"
  kc_drain_snapshot_json :: "string option"
  kc_force_grace_seconds :: "u64 option"
  kc_cleanup_after_force :: "bool option"
  kc_reason :: "string option"

definition get_coordinator_control :: "sql_env \<Rightarrow> sql_db \<Rightarrow> sql_db \<times> coordinator_control option res" where
  "get_coordinator_control se =
     on_db se (\<lambda>db. Inr (map_option (\<lambda>c.
       \<lparr>kc_mode = co_mode c, kc_requested_at = co_requested_at c, kc_requested_by = co_requested_by c,
        kc_drain_snapshot_json = co_drain_snapshot_json c,
        kc_force_grace_seconds = map_option word_of_int (co_force_grace_seconds c),
        kc_cleanup_after_force = map_option (\<lambda>v. v \<noteq> 0) (co_cleanup_after_force c), kc_reason = co_reason c\<rparr>)
       (db_control db)))"

definition set_coordinator_control :: "sql_env \<Rightarrow> coordinator_control \<Rightarrow> sql_db \<Rightarrow> sql_db \<times> unit res" where
  "set_coordinator_control se c =
     in_tx se (\<lambda>db. Inr (db\<lparr>db_control := Some
       \<lparr>co_mode = kc_mode c, co_requested_at = kc_requested_at c, co_requested_by = kc_requested_by c,
        co_drain_snapshot_json = kc_drain_snapshot_json c,
        co_force_grace_seconds = map_option sint (kc_force_grace_seconds c),
        co_cleanup_after_force = map_option (\<lambda>v. if v then 1 else 0) (kc_cleanup_after_force c),
        co_reason = kc_reason c\<rparr>\<rparr>, ()))"

definition get_coordinator_run :: "sql_env \<Rightarrow> string \<Rightarrow> sql_db \<Rightarrow> sql_db \<times> coordinator_run option res" where
  "get_coordinator_run se run_id = on_db se (\<lambda>db. Inr (bt_get (db_runs db) run_id))"

definition upsert_coordinator_run :: "sql_env \<Rightarrow> coordinator_run \<Rightarrow> sql_db \<Rightarrow> sql_db \<times> unit res" where
  "upsert_coordinator_run se run =
     in_tx se (\<lambda>db. Inr (db\<lparr>db_runs := bt_insert (cr_run_id run) run (db_runs db)\<rparr>, ()))"

text \<open>Latest start first.\<close>

definition runs_latest_first :: "sql_db \<Rightarrow> coordinator_run list" where
  "runs_latest_first db = rev (sort_key cr_started_at (rev (map snd (db_runs db))))"

definition get_active_coordinator_run :: "sql_env \<Rightarrow> sql_db \<Rightarrow> sql_db \<times> coordinator_run option res" where
  "get_active_coordinator_run se =
     on_db se (\<lambda>db. Inr (List.find (\<lambda>r. cr_status r = ''running'' \<or> cr_status r = ''draining'') (runs_latest_first db)))"

definition get_latest_coordinator_run :: "sql_env \<Rightarrow> sql_db \<Rightarrow> sql_db \<times> coordinator_run option res" where
  "get_latest_coordinator_run se = on_db se (\<lambda>db. Inr (List.find (\<lambda>_. True) (runs_latest_first db)))"

definition get_recent_coordinator_runs :: "sql_env \<Rightarrow> nat \<Rightarrow> sql_db \<Rightarrow> sql_db \<times> coordinator_run list res" where
  "get_recent_coordinator_runs se limit db =
     (if limit = 0 then (db, Inr []) else on_db se (\<lambda>db. Inr (take limit (runs_latest_first db))) db)"

definition append_gate_decision :: "sql_env \<Rightarrow> string \<Rightarrow> approval_record \<Rightarrow> sql_db \<Rightarrow> sql_db \<times> unit res" where
  "append_gate_decision se task_id rec =
     in_tx se (\<lambda>db. Inr (db\<lparr>db_decisions := db_decisions db @ [(task_id, rec)]\<rparr>, ()))"

definition push_decision ::
  "string \<times> approval_record \<Rightarrow> (string, approval_record list) btree \<Rightarrow> (string, approval_record list) btree" where
  "push_decision = (\<lambda>(task_id, rec) out. bt_insert task_id (unwrap_or [] (bt_get out task_id) @ [rec]) out)"

definition gate_decisions_by_task ::
  "sql_env \<Rightarrow> sql_db \<Rightarrow> sql_db \<times> (string, approval_record list) btree res" where
  "gate_decisions_by_task se =
     on_db se (\<lambda>db. Inr (fold push_decision
       (List.map_filter (\<lambda>(k, rec). case decision_from_str (decision_as_str (ap_decision rec)) of
            Inl _ \<Rightarrow> None | Inr d \<Rightarrow> Some (k, rec\<lparr>ap_decision := d\<rparr>)) (db_decisions db)) []))"

definition get_cursor :: "sql_env \<Rightarrow> string \<Rightarrow> sql_db \<Rightarrow> sql_db \<times> (u64 \<times> string) option res" where
  "get_cursor se name =
     on_db se (\<lambda>db. Inr (map_option (\<lambda>c. (word_of_int (cu_offset c), cu_last_event_id c)) (bt_get (db_cursors db) name)))"

text \<open>An existing cursor keeps its payload.\<close>

definition set_cursor ::
  "store_codec \<Rightarrow> sql_env \<Rightarrow> string \<Rightarrow> u64 \<Rightarrow> string \<Rightarrow> sql_db \<Rightarrow> sql_db \<times> unit res" where
  "set_cursor cd se name offset last_id =
     in_tx se (\<lambda>db. Inr (db\<lparr>db_cursors := bt_insert name
       (case bt_get (db_cursors db) name of
          Some c \<Rightarrow> c\<lparr>cu_offset := sint offset, cu_last_event_id := last_id, cu_updated_at := se_now se\<rparr>
        | None \<Rightarrow> \<lparr>cu_path = None, cu_inode = None, cu_offset = sint offset, cu_last_event_id = last_id,
                   cu_updated_at = se_now se,
                   cu_payload = cd_cursor_text cd \<lparr>cc_path = None, cc_inode = None, cc_offset = unat offset,
                     cc_last_event_id = (if last_id = [] then None else Some last_id),
                     cc_updated_at = Some (se_now se), cc_extra = []\<rparr>\<rparr>) (db_cursors db)\<rparr>, ()))"

section \<open>A snapshot in JSON files\<close>

datatype store_file = Registry_File | Events_File | Cursor_File

record json_files =
  jf_registry :: "string option"
  jf_events :: "string option"
  jf_cursor :: "string option"

text \<open>Reads, writes (of a temporary file, renamed) and removals that fail; pretty texts.\<close>

record json_env =
  je_read_error :: "store_file \<Rightarrow> macc_error option"
  je_write_error :: "store_file \<Rightarrow> macc_error option"
  je_remove_error :: "macc_error option"
  je_path :: "store_file \<Rightarrow> string"
  je_registry_pretty :: "task_registry \<Rightarrow> string"
  je_cursor_pretty :: "coordinator_cursor \<Rightarrow> string"

definition fails :: "macc_error option \<Rightarrow> 'a \<Rightarrow> 'a res" where
  "fails e a = (case e of None \<Rightarrow> Inr a | Some err \<Rightarrow> Inl err)"

definition read_parsed ::
  "json_env \<Rightarrow> store_file \<Rightarrow> (string \<Rightarrow> string + 'a) \<Rightarrow> 'a \<Rightarrow> string option \<Rightarrow> 'a res" where
  "read_parsed je f parse otherwise text =
     (case text of
        None \<Rightarrow> Inr otherwise
      | Some raw \<Rightarrow> try_bind (fails (je_read_error je f) raw) (\<lambda>raw.
          case parse raw of
            Inl e \<Rightarrow> Inl (Storage_Err ''json'' (''Failed to parse '' @ je_path je f @ '': '' @ e))
          | Inr a \<Rightarrow> Inr a))"

definition events_of_jsonl :: "sql_env \<Rightarrow> string \<Rightarrow> event_record list" where
  "events_of_jsonl se raw =
     List.map_filter (\<lambda>line. Option.bind (se_json_of se line) event_from_value)
       (filter (\<lambda>line. trim line \<noteq> []) (str_lines raw))"

definition json_load_snapshot :: "store_codec \<Rightarrow> sql_env \<Rightarrow> json_env \<Rightarrow> json_files \<Rightarrow> snapshot res" where
  "json_load_snapshot cd se je fs =
     try_bind (read_parsed je Registry_File (cd_registry_of cd) (seeded_registry (se_now se)) (jf_registry fs)) (\<lambda>registry.
     try_bind (case jf_events fs of
                 None \<Rightarrow> Inr []
               | Some raw \<Rightarrow> map_sum id (events_of_jsonl se) (fails (je_read_error je Events_File) raw)) (\<lambda>events.
     try_bind (case jf_cursor fs of
                 None \<Rightarrow> Inr None
               | Some raw \<Rightarrow> map_sum id Some (read_parsed je Cursor_File (cd_cursor_of cd)
                   \<lparr>cc_path = None, cc_inode = None, cc_offset = 0, cc_last_event_id = None, cc_updated_at = None,
                    cc_extra = []\<rparr> (Some raw))) (\<lambda>cursor.
     Inr \<lparr>sn_registry = registry, sn_events = events, sn_cursor = cursor\<rparr>)))"

definition jsonl_of_events :: "sql_env \<Rightarrow> event_record list \<Rightarrow> string" where
  "jsonl_of_events se es = concat (map (\<lambda>e. se_json_text se (event_to_value e) @ [CHR 0x0A]) es)"

text \<open>Three files, one after the other: a failure keeps what was written before.\<close>

definition json_save_snapshot :: "sql_env \<Rightarrow> json_env \<Rightarrow> snapshot \<Rightarrow> json_files \<Rightarrow> json_files \<times> unit res" where
  "json_save_snapshot se je sn fs =
     (case je_write_error je Registry_File of Some e \<Rightarrow> (fs, Inl e) | None \<Rightarrow>
        let fs1 = fs\<lparr>jf_registry := Some (je_registry_pretty je (sn_registry sn))\<rparr> in
      case je_write_error je Events_File of Some e \<Rightarrow> (fs1, Inl e) | None \<Rightarrow>
        let fs2 = fs1\<lparr>jf_events := Some (jsonl_of_events se (sn_events sn))\<rparr> in
      case sn_cursor sn of
        Some c \<Rightarrow> (case je_write_error je Cursor_File of
            Some e \<Rightarrow> (fs2, Inl e)
          | None \<Rightarrow> (fs2\<lparr>jf_cursor := Some (je_cursor_pretty je c)\<rparr>, Inr ()))
      | None \<Rightarrow> (case (jf_cursor fs2, je_remove_error je) of
            (Some _, Some e) \<Rightarrow> (fs2, Inl e)
          | _ \<Rightarrow> (fs2\<lparr>jf_cursor := None\<rparr>, Inr ())))"

section \<open>Transfers between the stores\<close>

datatype storage_mode = Json_Mode | Dual_Write | Sqlite_Mode

datatype storage_phase = Pre_Phase | Post_Phase

datatype storage_transfer = Import_Json | Export_Json | Verify_Parity

definition storage_mode_of :: "string \<Rightarrow> string + storage_mode" where
  "storage_mode_of s =
     (let t = to_ascii_lowercase (trim s) in
      if t = ''json'' then Inr Json_Mode
      else if t \<in> {''dual-write'', ''dual_write''} then Inr Dual_Write
      else if t = ''sqlite'' then Inr Sqlite_Mode
      else Inl (''Unknown coordinator storage mode '' @ [CHR 0x27] @ t @ [CHR 0x27]
                @ ''. Expected json|dual-write|sqlite.''))"

definition storage_transfer_of :: "string \<Rightarrow> string + storage_transfer" where
  "storage_transfer_of s =
     (let t = to_ascii_lowercase (trim s) in
      if t \<in> {''import'', ''json-to-sqlite'', ''json_to_sqlite''} then Inr Import_Json
      else if t \<in> {''export'', ''sqlite-to-json'', ''sqlite_to_json''} then Inr Export_Json
      else if t \<in> {''verify'', ''parity''} then Inr Verify_Parity
      else Inl (''Unknown coordinator storage transfer '' @ [CHR 0x27] @ t @ [CHR 0x27]
                @ ''. Expected import|export|verify.''))"

definition storage_phase_of :: "string \<Rightarrow> string + storage_phase" where
  "storage_phase_of s =
     (let t = to_ascii_lowercase (trim s) in
      if t = ''pre'' then Inr Pre_Phase
      else if t = ''post'' then Inr Post_Phase
      else Inl (''Unknown coordinator storage phase '' @ [CHR 0x27] @ t @ [CHR 0x27] @ ''. Expected pre|post.''))"

type_synonym stores = "sql_db \<times> json_files"

definition storage_import :: "store_codec \<Rightarrow> sql_env \<Rightarrow> json_env \<Rightarrow> stores \<Rightarrow> stores \<times> unit res" where
  "storage_import cd se je = (\<lambda>(db, fs).
     case json_load_snapshot cd se je fs of
       Inl e \<Rightarrow> ((db, fs), Inl e)
     | Inr sn \<Rightarrow> (case sql_save_snapshot cd se sn db of (db', r) \<Rightarrow> ((db', fs), r)))"

definition storage_export :: "store_codec \<Rightarrow> sql_env \<Rightarrow> json_env \<Rightarrow> stores \<Rightarrow> stores \<times> unit res" where
  "storage_export cd se je = (\<lambda>(db, fs).
     case sql_load_snapshot cd se db of
       (db', Inl e) \<Rightarrow> ((db', fs), Inl e)
     | (db', Inr sn) \<Rightarrow> (case json_save_snapshot se je sn fs of (fs', r) \<Rightarrow> ((db', fs'), r)))"

definition storage_bootstrap :: "store_codec \<Rightarrow> sql_env \<Rightarrow> json_env \<Rightarrow> stores \<Rightarrow> stores \<times> bool res" where
  "storage_bootstrap cd se je = (\<lambda>(db, fs).
     case has_snapshot_data se db of
       (db', Inl e) \<Rightarrow> ((db', fs), Inl e)
     | (db', Inr True) \<Rightarrow> ((db', fs), Inr False)
     | (db', Inr False) \<Rightarrow> (case storage_import cd se je (db', fs) of (w, r) \<Rightarrow> (w, map_sum id (\<lambda>_. True) r)))"

definition storage_verify_parity :: "store_codec \<Rightarrow> sql_env \<Rightarrow> json_env \<Rightarrow> stores \<Rightarrow> stores \<times> unit res" where
  "storage_verify_parity cd se je = (\<lambda>(db, fs).
     case json_load_snapshot cd se je fs of
       Inl e \<Rightarrow> ((db, fs), Inl e)
     | Inr sn \<Rightarrow> (case sql_load_snapshot cd se db of
         (db', Inl e) \<Rightarrow> ((db', fs), Inl e)
       | (db', Inr sn') \<Rightarrow> ((db', fs),
           if sn = sn' then Inr ()
           else Inl (Storage_Err ''sqlite'' ''Coordinator storage mismatch: json and sqlite snapshots differ''))))"

definition sync_coordinator_storage ::
  "store_codec \<Rightarrow> sql_env \<Rightarrow> json_env \<Rightarrow> storage_mode \<Rightarrow> storage_phase \<Rightarrow> stores \<Rightarrow> stores \<times> unit res" where
  "sync_coordinator_storage cd se je mode phase w =
     (case (mode, phase) of
        (Json_Mode, _) \<Rightarrow> (w, Inr ())
      | (Dual_Write, _) \<Rightarrow> storage_import cd se je w
      | (Sqlite_Mode, Pre_Phase) \<Rightarrow>
          (case storage_bootstrap cd se je w of
             (w', Inl e) \<Rightarrow> (w', Inl e)
           | (w', Inr True) \<Rightarrow> (w', Inr ())
           | (w', Inr False) \<Rightarrow> storage_export cd se je w')
      | (Sqlite_Mode, Post_Phase) \<Rightarrow> storage_export cd se je w)"

section \<open>What the tables promise\<close>

definition task_row_ok :: "store_codec \<Rightarrow> string \<Rightarrow> task_row \<Rightarrow> bool" where
  "task_row_ok cd k r =
     (case cd_task_of cd (tw_payload r) of
        Inl _ \<Rightarrow> False
      | Inr t \<Rightarrow> tk_id t = k \<and> k \<noteq> [] \<and> r = row_of_task cd t (tw_updated_at r))"

definition runtime_row_ok :: "store_codec \<Rightarrow> sql_db \<Rightarrow> string \<Rightarrow> runtime_row \<Rightarrow> bool" where
  "runtime_row_ok cd db claim r =
     (case read_task cd (rw_task_id r) db of
        Inl _ \<Rightarrow> False
      | Inr t \<Rightarrow> claim = lock_claim_id t \<and> r = runtime_row_of cd t (rw_updated_at r))"

text \<open>Columns repeat the payload, and a runtime row repeats the payload of a stored task.\<close>

definition store_ok :: "store_codec \<Rightarrow> sql_db \<Rightarrow> bool" where
  "store_ok cd db =
     (bt_ok (db_tasks db) \<and> bt_ok (db_runtime db)
      \<and> list_all (\<lambda>(k, r). task_row_ok cd k r) (db_tasks db)
      \<and> list_all (\<lambda>(c, r). runtime_row_ok cd db c r) (db_runtime db))"

definition reads_back :: "store_codec \<Rightarrow> task \<Rightarrow> bool" where
  "reads_back cd t = (cd_task_of cd (cd_task_text cd t) = Inr t)"

lemma store_okD:
  assumes "store_ok cd db"
  shows "bt_ok (db_tasks db)" "bt_ok (db_runtime db)"
    "bt_get (db_tasks db) k = Some r \<Longrightarrow> task_row_ok cd k r"
    "(c, q) \<in> set (db_runtime db) \<Longrightarrow> runtime_row_ok cd db c q"
  using assms by (auto simp: store_ok_def list_all_iff bt_in_iff)

lemma store_okI:
  assumes "bt_ok (db_tasks db)" "bt_ok (db_runtime db)"
    "\<And>k r. bt_get (db_tasks db) k = Some r \<Longrightarrow> task_row_ok cd k r"
    "\<And>c q. (c, q) \<in> set (db_runtime db) \<Longrightarrow> runtime_row_ok cd db c q"
  shows "store_ok cd db"
  using assms by (auto simp: store_ok_def list_all_iff bt_in_iff)

lemma read_task_eq:
  "read_task cd k db = Inr t \<longleftrightarrow> (\<exists>r. bt_get (db_tasks db) k = Some r \<and> cd_task_of cd (tw_payload r) = Inr t)"
  by (auto simp: read_task_def parse_task_payload_def split: option.splits sum.splits)

lemma read_task_cong:
  "bt_get (db_tasks db') k = bt_get (db_tasks db) k \<Longrightarrow> read_task cd k db' = read_task cd k db"
  by (simp add: read_task_def)

lemma read_task_ok:
  assumes "store_ok cd db" "read_task cd k db = Inr t"
  shows "tk_id t = k" "k \<noteq> []"
  using assms(2) store_okD(3) [OF assms(1), of k] by (auto simp: read_task_eq task_row_ok_def)

lemma row_of_task_ok:
  "reads_back cd t \<Longrightarrow> tk_id t = k \<Longrightarrow> k \<noteq> [] \<Longrightarrow> task_row_ok cd k (row_of_task cd t now)"
  by (simp add: task_row_ok_def row_of_task_def reads_back_def)

lemma runtime_row_sel [simp]:
  "rw_task_id (runtime_row_of cd t now) = tk_id t" "rw_updated_at (runtime_row_of cd t now) = now"
  by (simp_all add: runtime_row_of_def Let_def)

lemma write_task_sel [simp]:
  "db_tasks (write_task cd k now rnow t db) = bt_insert k (row_of_task cd t now) (db_tasks db)"
  "db_runtime (write_task cd k now rnow t db) = bt_insert (lock_claim_id t) (runtime_row_of cd t rnow)
     (filter (\<lambda>(_, r). rw_task_id r \<noteq> tk_id t) (db_runtime db))"
  "db_events (write_task cd k now rnow t db) = db_events db" "db_locks (write_task cd k now rnow t db) = db_locks db"
  "db_event_cursor (write_task cd k now rnow t db) = db_event_cursor db"
  "db_cursors (write_task cd k now rnow t db) = db_cursors db" "db_metadata (write_task cd k now rnow t db) = db_metadata db"
  "db_version (write_task cd k now rnow t db) = db_version db"
  by (simp_all add: write_task_def upsert_task_runtime_row_def)

lemma read_write_task:
  "reads_back cd t \<Longrightarrow> read_task cd j (write_task cd k now rnow t db) = (if j = k then Inr t else read_task cd j db)"
  by (simp add: read_task_def parse_task_payload_def bt_get_insert row_of_task_def reads_back_def)

lemma set_bt_insert: "set (bt_insert k v m) \<subseteq> insert (k, v) (set m)"
  by (induction k v m rule: bt_insert.induct) auto

lemma write_task_ok:
  assumes ok: "store_ok cd db" and rb: "reads_back cd t" and k: "tk_id t = k" "k \<noteq> []"
  shows "store_ok cd (write_task cd k now rnow t db)"
proof (rule store_okI)
  let ?db = "write_task cd k now rnow t db"
  show "bt_ok (db_tasks ?db)" "bt_ok (db_runtime ?db)"
    using store_okD(1,2) [OF ok] by (simp_all add: bt_insert_ok bt_ok_filter)
  show "task_row_ok cd j r" if "bt_get (db_tasks ?db) j = Some r" for j r
    using that store_okD(3) [OF ok] row_of_task_ok [OF rb k] by (auto simp: bt_get_insert split: if_splits)
  show "runtime_row_ok cd ?db c q" if "(c, q) \<in> set (db_runtime ?db)" for c q
  proof (cases "q = runtime_row_of cd t rnow \<and> c = lock_claim_id t")
    case True
    then show ?thesis by (simp add: runtime_row_ok_def read_write_task [OF rb] k)
  next
    case False
    then have "(c, q) \<in> set (db_runtime db)" "rw_task_id q \<noteq> k"
      using that set_bt_insert [of "lock_claim_id t" "runtime_row_of cd t rnow"] k(1) by fastforce+
    then show ?thesis using store_okD(4) [OF ok, of c q] by (simp add: runtime_row_ok_def read_write_task [OF rb])
  qed
qed

lemma store_ok_cong:
  assumes "db_tasks db' = db_tasks db" "db_runtime db' = db_runtime db"
  shows "store_ok cd db' = store_ok cd db" "read_task cd k db' = read_task cd k db"
  using assms by (simp_all add: store_ok_def runtime_row_ok_def [abs_def] read_task_def)

lemma init_schema_tables [simp]:
  "db_tasks (init_schema db) = db_tasks db" "db_runtime (init_schema db) = db_runtime db"
  "db_locks (init_schema db) = db_locks db" "db_metadata (init_schema db) = db_metadata db"
  by (simp_all add: init_schema_def)

lemma init_schema_store: "store_ok cd (init_schema db) = store_ok cd db" "read_task cd k (init_schema db) = read_task cd k db"
  by (rule store_ok_cong; simp)+

section \<open>Mutations keep the tables\<close>

text \<open>A mutation of one task: it keeps the id, and what runs after the row is written leaves both tables alone.\<close>

locale task_mutation =
  fixes f :: "task \<Rightarrow> task" and further :: "sql_db \<Rightarrow> sql_db"
  assumes keeps_id: "tk_id (f t) = tk_id t"
    and keeps_tables: "db_tasks (further db) = db_tasks db" "db_runtime (further db) = db_runtime db"
begin

lemma change_eq:
  assumes "change_task cd se task_id now f further db = (db', Inr ())"
  obtains t where "read_task cd task_id db = Inr t" "db' = further (write_task cd task_id now now (f t) (init_schema db))"
  using assms
  by (cases "read_task cd task_id db")
    (auto simp: change_task_def in_tx_def init_schema_store Let_def split: option.splits)

lemma change_store:
  assumes "store_ok cd db" "read_task cd task_id db = Inr t" "reads_back cd (f t)"
    "change_task cd se task_id now f further db = (db', Inr ())"
  shows "store_ok cd db' \<and> read_task cd task_id db' = Inr (f t)
    \<and> (\<forall>k. k \<noteq> task_id \<longrightarrow> read_task cd k db' = read_task cd k db)
    \<and> bt_get (db_runtime db') (lock_claim_id (f t)) = Some (runtime_row_of cd (f t) now)"
proof -
  let ?db = "write_task cd task_id now now (f t) (init_schema db)"
  have db': "db' = further ?db" using assms(2,4) by (auto elim: change_eq)
  have "store_ok cd ?db"
    using write_task_ok [of cd "init_schema db" "f t" task_id now now] assms(1,3) read_task_ok [OF assms(1,2)]
    by (simp add: init_schema_store keeps_id)
  then show ?thesis
    unfolding db' by (simp add: store_ok_cong [OF keeps_tables] keeps_tables read_write_task [OF assms(3)]
      init_schema_store bt_get_insert)
qed

lemma change_unknown:
  assumes "read_task cd task_id db = Inl e" "se_fail se db = None"
  shows "change_task cd se task_id now f further db = (init_schema db, Inl e)"
  using assms by (simp add: change_task_def in_tx_def init_schema_store Let_def)

end

text \<open>What every operation owes to the log: it stays well formed and loses no event but heartbeats.\<close>

definition is_heartbeat :: "event_row \<Rightarrow> bool" where
  "is_heartbeat r = (ew_event_type r \<in> set HEARTBEAT_EVENT_TYPES)"

definition log_kept :: "sql_db \<Rightarrow> sql_db \<Rightarrow> bool" where
  "log_kept db db' = ((log_ok db \<longrightarrow> log_ok db')
     \<and> (\<forall>r \<in> set (db_events db). \<not> is_heartbeat r \<longrightarrow> r \<in> set (db_events db')))"

lemma log_kept_trans: "log_kept a b \<Longrightarrow> log_kept b c \<Longrightarrow> log_kept a c"
  by (simp add: log_kept_def)

lemma log_kept_same:
  assumes "db_events db' = db_events db" "db_event_cursor db' = db_event_cursor db"
  shows "log_kept db db'"
  using assms by (simp add: log_kept_def log_ok_def cursor_of_def)

lemma log_kept_init: "log_kept db (init_schema db)"
  unfolding log_kept_def is_heartbeat_def
  by (auto intro: init_schema_ok init_schema_lasting simp: lasting_def)

lemma log_kept_insert: "log_kept db (fst (insert_event row db))"
  unfolding log_kept_def is_heartbeat_def
  by (auto intro: insert_event_ok insert_event_lasting simp: lasting_def)

lemma log_kept_write: "log_kept db (write_task cd k now rnow t db)"
  by (rule log_kept_same) simp_all

lemma log_kept_event: "log_kept db (with_event se event db)"
  by (cases event) (simp_all add: with_event_def append_event_in_tx_def log_kept_insert log_kept_same)

lemma log_kept_locks: "log_kept db (sql_recompute_locks cd se now db)"
  by (rule log_kept_same) (simp_all add: sql_recompute_locks_def)

locale logged_mutation = task_mutation +
  assumes further_log: "log_kept db (further db)"
begin

lemma change_log:
  assumes "change_task cd se task_id now f further db = (db', Inr ())"
  shows "log_kept db db'"
proof -
  obtain t where "db' = further (write_task cd task_id now now (f t) (init_schema db))"
    using change_eq [OF assms] by blast
  then show ?thesis
    using log_kept_trans [OF log_kept_init log_kept_trans [OF log_kept_write further_log]] by simp
qed

lemma change_keeps:
  assumes "store_ok cd db" "read_task cd task_id db = Inr t" "reads_back cd (f t)"
    "change_task cd se task_id now f further db = (db', Inr ())"
  shows "store_ok cd db' \<and> log_kept db db'"
  using change_store [OF assms] change_log [OF assms(4)] by blast

end

lemma further_tables [simp]:
  "db_tasks (with_event se event db) = db_tasks db" "db_runtime (with_event se event db) = db_runtime db"
  "db_locks (with_event se event db) = db_locks db"
  "db_tasks (sql_recompute_locks cd se now db) = db_tasks db" "db_runtime (sql_recompute_locks cd se now db) = db_runtime db"
  "db_events (sql_recompute_locks cd se now db) = db_events db"
  "db_event_cursor (sql_recompute_locks cd se now db) = db_event_cursor db"
  "db_cursors (sql_recompute_locks cd se now db) = db_cursors db"
  by (simp_all add: with_event_def append_event_in_tx_def insert_event_def sql_recompute_locks_def split: option.split)

lemma task_mutations_keep_id [simp]:
  "tk_id (transition_task m t) = tk_id t" "tk_id (runtime_task u t) = tk_id t" "tk_id (merge_pending_task g t) = tk_id t"
  "tk_id (merge_processed_task h t) = tk_id t" "tk_id (retry_task now t) = tk_id t" "tk_id (slo_task s t) = tk_id t"
  by (simp_all add: transition_task_def runtime_task_def merge_pending_task_def merge_processed_task_def retry_task_def
      slo_task_def upd_runtime_def Let_def)

interpretation transition: logged_mutation "transition_task m" "\<lambda>db. with_event se event (sql_recompute_locks cd se now db)"
  for m se event cd now by unfold_locales (simp_all add: log_kept_trans [OF log_kept_locks log_kept_event])

interpretation runtime: logged_mutation "runtime_task m" "with_event se event" for m se event
  by unfold_locales (simp_all add: log_kept_event)

interpretation pending: logged_mutation "merge_pending_task m" id for m
  by unfold_locales (simp_all add: log_kept_same)

interpretation processed: logged_mutation "merge_processed_task m" id for m
  by unfold_locales (simp_all add: log_kept_same)

interpretation retries: logged_mutation "retry_task now" id for now
  by unfold_locales (simp_all add: log_kept_same)

interpretation slo: logged_mutation "slo_task m" id for m
  by unfold_locales (simp_all add: log_kept_same)

section \<open>Locks\<close>

lemma add_locks_get:
  "bt_get (fold (add_lock se now t) rs locks) r =
     (case bt_get locks r of Some l \<Rightarrow> Some l
      | None \<Rightarrow> if r \<noteq> [] \<and> r \<in> set rs then Some (sql_lock_row se t now) else None)"
  by (induction rs arbitrary: locks) (auto simp: add_lock_def bt_get_insert split: option.splits)

definition wants :: "string \<Rightarrow> task \<Rightarrow> bool" where
  "wants r t = (takes_locks t \<and> r \<noteq> [] \<and> r \<in> set (tk_exclusive_resources t))"

lemma recompute_fold_get:
  "bt_get (fold (\<lambda>t locks. if takes_locks t then fold (add_lock se now t) (tk_exclusive_resources t) locks else locks)
       ts locks) r =
     (case bt_get locks r of Some l \<Rightarrow> Some l
      | None \<Rightarrow> map_option (\<lambda>t. sql_lock_row se t now) (List.find (wants r) ts))"
  by (induction ts arbitrary: locks) (auto simp: add_locks_get wants_def split: option.splits)

lemma find_some: "List.find P xs = Some x \<Longrightarrow> P x \<and> x \<in> set xs"
  by (auto simp: find_Some_iff)

lemma sql_locks_get:
  "bt_get (db_locks (sql_recompute_locks cd se now db)) r =
     map_option (\<lambda>t. sql_lock_row se t now) (List.find (wants r) (stored_tasks cd db))"
  by (simp add: sql_recompute_locks_def recompute_fold_get)

lemma stored_tasks_set:
  assumes "store_ok cd db"
  shows "t \<in> set (stored_tasks cd db) \<longleftrightarrow> read_task cd (tk_id t) db = Inr t"
proof
  assume "t \<in> set (stored_tasks cd db)"
  then obtain k r where r: "(k, r) \<in> set (db_tasks db)" "cd_task_of cd (tw_payload r) = Inr t"
    by (force simp: stored_tasks_def List.map_filter_def split: sum.splits)
  then have g: "bt_get (db_tasks db) k = Some r" using store_okD(1) [OF assms] bt_in_iff by metis
  with store_okD(3) [OF assms g] r show "read_task cd (tk_id t) db = Inr t"
    by (simp add: task_row_ok_def read_task_eq)
next
  assume "read_task cd (tk_id t) db = Inr t"
  then obtain r where "(tk_id t, r) \<in> set (db_tasks db)" "cd_task_of cd (tw_payload r) = Inr t"
    using bt_in_iff [OF store_okD(1) [OF assms]] by (auto simp: read_task_eq)
  then show "t \<in> set (stored_tasks cd db)"
    by (force simp: stored_tasks_def List.map_filter_def)
qed

text \<open>C31: A transition in the database changes the named task as the rules for its new state say and no other, gives it
  the one runtime row of its claim, and then a resource is locked exactly when a stored active task with a worktree
  asks for it, by a task that does.\<close>

theorem transition_in_the_database:
  assumes "store_ok cd db" "read_task cd (xm_task_id m) db = Inr t" "reads_back cd (transition_task m t)"
    "apply_transition_with_event cd se m event db = (db', Inr ())"
  shows "store_ok cd db' \<and> read_task cd (xm_task_id m) db' = Inr (transition_task m t)
    \<and> (\<forall>k. k \<noteq> xm_task_id m \<longrightarrow> read_task cd k db' = read_task cd k db)
    \<and> bt_get (db_runtime db') (lock_claim_id (transition_task m t)) = Some (runtime_row_of cd (transition_task m t) (xm_now m))
    \<and> (\<forall>r. bt_get (db_locks db') r \<noteq> None \<longleftrightarrow> (\<exists>u. read_task cd (tk_id u) db' = Inr u \<and> wants r u))
    \<and> (\<forall>r l. bt_get (db_locks db') r = Some l \<longrightarrow>
        (\<exists>u. read_task cd (tk_id u) db' = Inr u \<and> wants r u \<and> l = sql_lock_row se u (xm_now m)))"
proof -
  note run = assms(4) [unfolded apply_transition_with_event_def]
  let ?w = "write_task cd (xm_task_id m) (xm_now m) (xm_now m) (transition_task m t) (init_schema db)"
  from transition.change_store [OF assms(1-3) run]
  have ok: "store_ok cd db'" "read_task cd (xm_task_id m) db' = Inr (transition_task m t)
    \<and> (\<forall>k. k \<noteq> xm_task_id m \<longrightarrow> read_task cd k db' = read_task cd k db)
    \<and> bt_get (db_runtime db') (lock_claim_id (transition_task m t)) = Some (runtime_row_of cd (transition_task m t) (xm_now m))"
    by blast+
  have db': "db' = with_event se event (sql_recompute_locks cd se (xm_now m) ?w)"
    by (rule transition.change_eq [OF run]) (use assms(2) in simp)
  then have "stored_tasks cd db' = stored_tasks cd ?w" by (simp add: stored_tasks_def)
  then have locks: "bt_get (db_locks db') r =
      map_option (\<lambda>u. sql_lock_row se u (xm_now m)) (List.find (wants r) (stored_tasks cd db'))" for r
    by (simp add: db' sql_locks_get)
  have "bt_get (db_locks db') r \<noteq> None \<longleftrightarrow> (\<exists>u. read_task cd (tk_id u) db' = Inr u \<and> wants r u)" for r
    unfolding locks stored_tasks_set [OF ok(1), symmetric] by (auto simp: find_None_iff)
  moreover have "\<exists>u. read_task cd (tk_id u) db' = Inr u \<and> wants r u \<and> l = sql_lock_row se u (xm_now m)"
    if "bt_get (db_locks db') r = Some l" for r l
    using that unfolding locks stored_tasks_set [OF ok(1), symmetric] by (auto dest!: find_some)
  ultimately show ?thesis using ok by blast
qed

section \<open>Saving and loading\<close>

lemma clear_for_save_sel [simp]:
  "db_events (clear_for_save ts db) = db_events db" "db_event_cursor (clear_for_save ts db) = db_event_cursor db"
  "db_version (clear_for_save ts db) = db_version db" "db_metadata (clear_for_save ts db) = db_metadata db"
  "db_locks (clear_for_save ts db) = []" "db_jobs (clear_for_save ts db) = []" "db_cursors (clear_for_save ts db) = []"
  by (simp_all add: clear_for_save_def Let_def)

lemma bt_get_filter_key:
  "bt_ok m \<Longrightarrow> bt_get (filter (\<lambda>(k, v). P k) m) j = (if P j then bt_get m j else None)"
  by (induction m) (auto simp: bt_get_None)

lemma clear_for_save_get:
  "bt_ok (db_tasks db) \<Longrightarrow> bt_get (db_tasks (clear_for_save ts db)) k =
     (if k \<in> tk_id ` set ts \<and> k \<noteq> [] then bt_get (db_tasks db) k else None)"
  by (simp add: clear_for_save_def Let_def bt_get_filter_key)

lemma clear_for_save_ok:
  assumes "store_ok cd db"
  shows "store_ok cd (clear_for_save ts db)"
proof (rule store_okI)
  let ?db = "clear_for_save ts db"
  note ok = store_okD [OF assms]
  have tasks: "db_tasks ?db = filter (\<lambda>(k, r). k \<in> tk_id ` set ts \<and> k \<noteq> []) (db_tasks db)"
    and runtime: "db_runtime ?db = filter (\<lambda>(_, r). rw_task_id r \<in> fst ` set (db_tasks ?db)) (db_runtime db)"
    by (simp_all add: clear_for_save_def Let_def)
  show "bt_ok (db_tasks ?db)" "bt_ok (db_runtime ?db)"
    unfolding tasks runtime by (rule bt_ok_filter [OF ok(1)], rule bt_ok_filter [OF ok(2)])
  show "task_row_ok cd k r" if "bt_get (db_tasks ?db) k = Some r" for k r
    using that ok(3) [of k r] clear_for_save_get [OF ok(1), of ts k] by (simp split: if_splits)
  show "runtime_row_ok cd ?db c q" if "(c, q) \<in> set (db_runtime ?db)" for c q
  proof -
    have q: "(c, q) \<in> set (db_runtime db)" "rw_task_id q \<in> fst ` set (db_tasks ?db)" using that unfolding runtime by auto
    then have "bt_get (db_tasks ?db) (rw_task_id q) \<noteq> None" using bt_get_in by metis
    then have "bt_get (db_tasks ?db) (rw_task_id q) = bt_get (db_tasks db) (rw_task_id q)"
      using clear_for_save_get [OF ok(1), of ts "rw_task_id q"] by (simp split: if_splits)
    with ok(4) [OF q(1)] show ?thesis by (simp add: runtime_row_ok_def read_task_def)
  qed
qed

lemma save_task_rows_get:
  "bt_get (db_tasks (save_task_rows cd se known t db)) k =
     (if known (tk_id t) \<noteq> Some (cd_task_text cd t) \<and> k = tk_id t
      then Some (row_of_task cd t (unwrap_or (se_now se) (tk_updated_at t))) else bt_get (db_tasks db) k)"
  by (simp add: save_task_rows_def bt_get_insert)

definition with_job_changes :: "sql_db \<Rightarrow> sql_db \<Rightarrow> bool" where
  "with_job_changes db db' = (\<exists>jobs. db' = db\<lparr>db_jobs := jobs\<rparr>)"

lemma save_job_changes: "save_job se t suffix ty pid db = Inr db' \<Longrightarrow> with_job_changes db db'"
  unfolding with_job_changes_def
  by (cases pid) (auto simp: save_job_def Let_def intro: exI [of _ "db_jobs db"] split: if_splits)

lemma save_task_changes:
  assumes "save_task cd se known t db = Inr db'"
  shows "with_job_changes (if tk_id t = [] then db else save_task_rows cd se known t db) db'"
proof (cases "tk_id t = []")
  case True
  then show ?thesis using assms by (auto simp: save_task_def with_job_changes_def intro: exI [of _ "db_jobs db"])
next
  case False
  then obtain d where d: "save_job se t '':performer'' ''performer'' (tr_pid (tk_runtime t))
        (save_task_rows cd se known t db) = Inr d"
      "save_job se t '':merge'' ''merge_worker'' (tr_merge_worker_pid (tk_runtime t)) d = Inr db'"
    using assms by (auto simp: save_task_def try_bind_def split: sum.splits)
  from save_job_changes [OF d(1)] save_job_changes [OF d(2)] False show ?thesis
    by (auto simp: with_job_changes_def)
qed

lemma with_job_changes_sel:
  assumes "with_job_changes db db'"
  shows "db_tasks db' = db_tasks db" "db_runtime db' = db_runtime db" "db_events db' = db_events db"
    "db_locks db' = db_locks db" "db_cursors db' = db_cursors db" "db_event_cursor db' = db_event_cursor db"
    "db_metadata db' = db_metadata db" "db_version db' = db_version db"
  using assms by (auto simp: with_job_changes_def)

lemma save_task_rows_sel [simp]:
  "db_events (save_task_rows cd se known t db) = db_events db" "db_locks (save_task_rows cd se known t db) = db_locks db"
  "db_cursors (save_task_rows cd se known t db) = db_cursors db"
  "db_event_cursor (save_task_rows cd se known t db) = db_event_cursor db"
  "db_metadata (save_task_rows cd se known t db) = db_metadata db"
  "db_version (save_task_rows cd se known t db) = db_version db"
  by (simp_all add: save_task_rows_def)

lemma save_task_sel:
  assumes "save_task cd se known t db = Inr db'"
  shows "db_events db' = db_events db" "db_locks db' = db_locks db" "db_cursors db' = db_cursors db"
    "db_event_cursor db' = db_event_cursor db" "db_metadata db' = db_metadata db" "db_version db' = db_version db"
  using with_job_changes_sel [OF save_task_changes [OF assms]] by simp_all

lemma save_task_ok:
  assumes "save_task cd se known t db = Inr db'" "store_ok cd db" "tk_id t \<noteq> [] \<Longrightarrow> reads_back cd t"
  shows "store_ok cd db'"
proof -
  have "store_ok cd (if tk_id t = [] then db else save_task_rows cd se known t db)"
    using assms(2,3) write_task_ok [OF assms(2), of t "tk_id t"] by (simp add: save_task_rows_def)
  then show ?thesis using store_ok_cong(1) [OF with_job_changes_sel(1,2) [OF save_task_changes [OF assms(1)]]] by simp
qed

lemma save_task_get:
  assumes "save_task cd se known t db = Inr db'"
  shows "bt_get (db_tasks db') k =
    (if tk_id t \<noteq> [] \<and> known (tk_id t) \<noteq> Some (cd_task_text cd t) \<and> k = tk_id t
     then Some (row_of_task cd t (unwrap_or (se_now se) (tk_updated_at t))) else bt_get (db_tasks db) k)"
  using with_job_changes_sel(1) [OF save_task_changes [OF assms]] save_task_rows_get [of cd se known t db k] by auto

lemma save_tasks_sel:
  "save_tasks cd se known ts db = Inr db' \<Longrightarrow>
     db_events db' = db_events db \<and> db_locks db' = db_locks db \<and> db_cursors db' = db_cursors db
     \<and> db_event_cursor db' = db_event_cursor db \<and> db_metadata db' = db_metadata db \<and> db_version db' = db_version db"
proof (induction ts arbitrary: db)
  case (Cons t ts)
  then obtain d where "save_task cd se known t db = Inr d" "save_tasks cd se known ts d = Inr db'"
    by (auto simp: try_bind_def split: sum.splits)
  then show ?case using Cons.IH [of d] save_task_sel [of cd se known t db d] by simp
qed simp

lemma save_tasks_ok:
  "save_tasks cd se known ts db = Inr db' \<Longrightarrow> store_ok cd db \<Longrightarrow> (\<And>t. t \<in> set ts \<Longrightarrow> tk_id t \<noteq> [] \<Longrightarrow> reads_back cd t) \<Longrightarrow>
     store_ok cd db'"
proof (induction ts arbitrary: db)
  case (Cons t ts)
  then obtain d where d: "save_task cd se known t db = Inr d" "save_tasks cd se known ts d = Inr db'"
    by (auto simp: try_bind_def split: sum.splits)
  then have "store_ok cd d" using Cons.prems(2,3) by (auto intro: save_task_ok)
  then show ?case using Cons.IH [OF d(2)] Cons.prems(3) by simp
qed simp

text \<open>With distinct ids every task is stored, whether it is rewritten or found unchanged.\<close>

lemma save_tasks_get_other:
  "save_tasks cd se known ts db = Inr db' \<Longrightarrow> k \<notin> tk_id ` set ts \<Longrightarrow> bt_get (db_tasks db') k = bt_get (db_tasks db) k"
proof (induction ts arbitrary: db)
  case (Cons t ts)
  then obtain d where d: "save_task cd se known t db = Inr d" "save_tasks cd se known ts d = Inr db'"
    by (auto simp: try_bind_def split: sum.splits)
  then show ?case using Cons.IH [OF d(2)] Cons.prems(2) by (simp add: save_task_get [OF d(1)])
qed simp

lemma save_tasks_read:
  "save_tasks cd se known ts db = Inr db' \<Longrightarrow> distinct (map tk_id ts) \<Longrightarrow>
     (\<And>k x. known k = Some x \<Longrightarrow> k \<in> tk_id ` set ts \<Longrightarrow> map_option tw_payload (bt_get (db_tasks db) k) = Some x) \<Longrightarrow>
     t \<in> set ts \<Longrightarrow> tk_id t \<noteq> [] \<Longrightarrow> reads_back cd t \<Longrightarrow> read_task cd (tk_id t) db' = Inr t"
proof (induction ts arbitrary: db)
  case (Cons u ts)
  then obtain d where d: "save_task cd se known u db = Inr d" "save_tasks cd se known ts d = Inr db'"
    by (auto simp: try_bind_def split: sum.splits)
  have u: "tk_id u \<notin> tk_id ` set ts" "distinct (map tk_id ts)" using Cons.prems(2) by simp_all
  have same: "bt_get (db_tasks d) k = bt_get (db_tasks db) k" if "k \<in> tk_id ` set ts" for k
  proof -
    have "k \<noteq> tk_id u" using that u(1) by blast
    then show ?thesis by (simp add: save_task_get [OF d(1)])
  qed
  show ?case
  proof (cases "t = u")
    case True
    have "\<exists>r. bt_get (db_tasks d) (tk_id u) = Some r \<and> tw_payload r = cd_task_text cd u"
      using Cons.prems(3) [of "tk_id u" "cd_task_text cd u"] Cons.prems(5) True
      by (auto simp: save_task_get [OF d(1)] row_of_task_def)
    then show ?thesis using Cons.prems(6) True
      by (auto simp: read_task_eq save_tasks_get_other [OF d(2) u(1)] reads_back_def)
  next
    case False
    then show ?thesis using Cons.prems(3-6) same by (intro Cons.IH [OF d(2) u(2)]) auto
  qed
qed simp

lemma save_parts_sel [simp]:
  "db_tasks (save_metadata cd se r db) = db_tasks db" "db_runtime (save_metadata cd se r db) = db_runtime db"
  "db_events (save_metadata cd se r db) = db_events db" "db_locks (save_metadata cd se r db) = db_locks db"
  "db_event_cursor (save_metadata cd se r db) = db_event_cursor db" "db_version (save_metadata cd se r db) = db_version db"
  "db_tasks (save_locks cd se ls db) = db_tasks db" "db_runtime (save_locks cd se ls db) = db_runtime db"
  "db_events (save_locks cd se ls db) = db_events db" "db_metadata (save_locks cd se ls db) = db_metadata db"
  "db_event_cursor (save_locks cd se ls db) = db_event_cursor db" "db_version (save_locks cd se ls db) = db_version db"
  "db_tasks (save_events se es db) = db_tasks db" "db_runtime (save_events se es db) = db_runtime db"
  "db_locks (save_events se es db) = db_locks db" "db_metadata (save_events se es db) = db_metadata db"
  "db_event_cursor (save_events se es db) = db_event_cursor db" "db_version (save_events se es db) = db_version db"
  "db_tasks (save_cursor cd se c db) = db_tasks db" "db_runtime (save_cursor cd se c db) = db_runtime db"
  "db_events (save_cursor cd se c db) = db_events db" "db_locks (save_cursor cd se c db) = db_locks db"
  "db_metadata (save_cursor cd se c db) = db_metadata db"
  "db_event_cursor (save_cursor cd se c db) = db_event_cursor db" "db_version (save_cursor cd se c db) = db_version db"
  by (simp_all add: save_metadata_def save_locks_def save_events_def save_cursor_def Let_def split: option.split)

lemma save_parts_store [simp]:
  "store_ok cd (save_metadata cd se r db) = store_ok cd db" "store_ok cd (save_locks cd se ls db) = store_ok cd db"
  "store_ok cd (save_events se es db) = store_ok cd db" "store_ok cd (save_cursor cd se c db) = store_ok cd db"
  by (rule store_ok_cong; simp)+

lemma save_runs:
  assumes "sql_save_snapshot cd se sn db = (db', Inr ())"
  obtains db2 where
    "save_tasks cd se (map_option tw_payload \<circ> bt_get (db_tasks db)) (rg_tasks (sn_registry sn))
       (save_metadata cd se (sn_registry sn) (clear_for_save (rg_tasks (sn_registry sn)) (init_schema db))) = Inr db2"
    "db' = save_cursor cd se (sn_cursor sn) (save_events se (sn_events sn)
       (save_locks cd se (rg_resource_locks (sn_registry sn)) db2))"
  using assms
  by (cases "save_tasks cd se (map_option tw_payload \<circ> bt_get (db_tasks db)) (rg_tasks (sn_registry sn))
       (save_metadata cd se (sn_registry sn) (clear_for_save (rg_tasks (sn_registry sn)) (init_schema db)))")
    (auto simp: sql_save_snapshot_def in_tx_def Let_def split: option.splits)

lemma insert_or_ignore_ids: "ew_event_id ` set (insert_or_ignore row rows) = insert (ew_event_id row) (ew_event_id ` set rows)"
  by (auto simp: insert_or_ignore_def)

lemma insert_or_ignore_keeps: "\<exists>new. insert_or_ignore row rows = rows @ new"
  by (simp add: insert_or_ignore_def)

lemma insert_or_ignore_distinct: "distinct (map ew_event_id rows) \<Longrightarrow> distinct (map ew_event_id (insert_or_ignore row rows))"
  by (auto simp: insert_or_ignore_def)

lemma insert_rows_keep: "\<exists>new. fold insert_or_ignore rs rows = rows @ new"
proof (induction rs arbitrary: rows)
  case (Cons r rs)
  obtain n where n: "insert_or_ignore r rows = rows @ n" using insert_or_ignore_keeps by blast
  obtain m where "fold insert_or_ignore rs (rows @ n) = (rows @ n) @ m" using Cons.IH by blast
  then show ?case by (simp add: n)
qed simp

lemma insert_rows_distinct:
  "distinct (map ew_event_id rows) \<Longrightarrow> distinct (map ew_event_id (fold insert_or_ignore rs rows))"
proof (induction rs arbitrary: rows)
  case (Cons r rs)
  show ?case unfolding fold_Cons o_apply by (rule Cons.IH [OF insert_or_ignore_distinct [OF Cons.prems]])
qed simp

lemma insert_rows_ids: "ew_event_id ` set (fold insert_or_ignore rs rows) = ew_event_id ` set rs \<union> ew_event_id ` set rows"
proof (induction rs arbitrary: rows)
  case (Cons r rs)
  have "ew_event_id ` set (fold insert_or_ignore (r # rs) rows)
      = ew_event_id ` set rs \<union> insert (ew_event_id r) (ew_event_id ` set rows)"
    unfolding fold_Cons o_apply Cons.IH insert_or_ignore_ids ..
  also have "\<dots> = ew_event_id ` set (r # rs) \<union> ew_event_id ` set rows" unfolding list.set by blast
  finally show ?case .
qed simp

text \<open>Saving a snapshot never shortens the event log: the stored events stay in front in their order, the events of
  the snapshot follow unless their id is known, the replay cursor stays, and the task tables keep their invariant.\<close>

theorem save_keeps_the_log:
  assumes "store_ok cd db" "log_ok db" "2 \<le> db_version db"
    "\<forall>t \<in> set (rg_tasks (sn_registry sn)). tk_id t \<noteq> [] \<longrightarrow> reads_back cd t"
    "sql_save_snapshot cd se sn db = (db', Inr ())"
  shows "store_ok cd db' \<and> log_ok db' \<and> cursor_of db' = cursor_of db
    \<and> (\<exists>new. db_events db' = db_events db @ new)
    \<and> ew_event_id ` snapshot_event_row se ` set (enumerate 0 (sn_events sn)) \<subseteq> ew_event_id ` set (db_events db')"
proof -
  let ?r = "sn_registry sn"
  have init: "init_schema db = db" using assms(3) by (simp add: init_schema_def)
  obtain db2 where d: "save_tasks cd se (map_option tw_payload \<circ> bt_get (db_tasks db)) (rg_tasks ?r)
       (save_metadata cd se ?r (clear_for_save (rg_tasks ?r) db)) = Inr db2"
    "db' = save_cursor cd se (sn_cursor sn) (save_events se (sn_events sn) (save_locks cd se (rg_resource_locks ?r) db2))"
    by (rule save_runs [OF assms(5)]) (simp add: init)
  note sel = save_tasks_sel [OF d(1)]
  have "store_ok cd (save_metadata cd se ?r (clear_for_save (rg_tasks ?r) db))"
    using clear_for_save_ok [OF assms(1)] by simp
  then have "store_ok cd db2" using save_tasks_ok [OF d(1)] assms(4) by blast
  then have ok: "store_ok cd db'" unfolding d(2) by simp
  let ?new = "map (snapshot_event_row se) (enumerate 0 (sn_events sn))"
  have events: "db_events db' = fold insert_or_ignore ?new (db_events db)"
    unfolding d(2) using sel by (simp add: save_events_def)
  have cur: "db_event_cursor db' = db_event_cursor db" unfolding d(2) using sel by simp
  then have cursor: "cursor_of db' = cursor_of db" by (simp add: cursor_of_def)
  have ids: "ew_event_id ` set (db_events db') = ew_event_id ` snapshot_event_row se ` set (enumerate 0 (sn_events sn))
      \<union> ew_event_id ` set (db_events db)"
    unfolding events insert_rows_ids by simp
  have "distinct (map ew_event_id (db_events db'))"
    using assms(2) unfolding events log_ok_def by (blast intro: insert_rows_distinct)
  moreover have "pred_option (\<lambda>eid. eid \<in> ew_event_id ` set (db_events db')) (cursor_of db')"
    using assms(2) unfolding cursor ids log_ok_def by (cases "cursor_of db") simp_all
  ultimately have "log_ok db'" using assms(2) unfolding log_ok_def cur by blast
  moreover have "\<exists>new. db_events db' = db_events db @ new" unfolding events by (rule insert_rows_keep)
  ultimately show ?thesis using ok cursor ids by blast
qed

section \<open>A snapshot comes back\<close>

lemma stored_tasks_sorted:
  assumes "store_ok cd db"
  shows "sorted_wrt (<) (map tk_id (stored_tasks cd db))"
proof -
  have "map tk_id (List.map_filter (\<lambda>(_, r). case cd_task_of cd (tw_payload r) of Inl _ \<Rightarrow> None | Inr t \<Rightarrow> Some t) m) = map fst m"
    if "list_all (\<lambda>(k, r). task_row_ok cd k r) m" for m
    using that by (induction m) (auto simp: task_row_ok_def List.map_filter_simps split: sum.splits)
  then show ?thesis using assms by (simp add: stored_tasks_def store_ok_def bt_ok_def)
qed

lemma sorted_tasks_eq:
  assumes "sorted_wrt (<) (map tk_id xs)" "distinct (map tk_id ts)" "set xs = set ts"
  shows "xs = sort_key tk_id ts"
proof (rule map_sorted_distinct_set_unique [where f = tk_id])
  show "inj_on tk_id (set xs \<union> set (sort_key tk_id ts))" using assms(2,3) by (simp add: distinct_map)
  show "sorted (map tk_id xs)" "distinct (map tk_id xs)"
    using assms(1) by (simp_all add: strict_sorted_iff)
  show "distinct (map tk_id (sort_key tk_id ts))" using assms(2) by (simp add: distinct_map)
qed (simp_all add: assms(3))

lemma insert_all_self: "bt_ok m \<Longrightarrow> fold (\<lambda>(k, v). bt_insert k v) m [] = m"
proof (rule bt_eqI)
  assume ok: "bt_ok m"
  then have "distinct (map fst m)" by (simp add: bt_ok_def strict_sorted_iff)
  then show "bt_get (fold (\<lambda>(k, v). bt_insert k v) m []) = bt_get m"
    by (simp add: bt.fold_ins_get map_of_rev_distinct fun_eq_iff bt_get_def map_add_def split: option.split)
qed (simp_all add: bt.fold_ins_inv)

lemma insert_all_over:
  assumes "bt_ok m" "bt_ok seed" "fst ` set seed \<subseteq> fst ` set m"
  shows "fold (\<lambda>(k, v). bt_insert k v) m seed = m"
proof (rule bt_eqI)
  have d: "distinct (map fst m)" using assms(1) by (simp add: bt_ok_def strict_sorted_iff)
  have "bt_get seed k = None" if "map_of m k = None" for k
    using that assms(3) bt_get_in [of seed k] by (auto simp: map_of_eq_None_iff)
  then show "bt_get (fold (\<lambda>(k, v). bt_insert k v) m seed) = bt_get m"
    by (simp add: bt.fold_ins_get [OF assms(2)] map_of_rev_distinct [OF d] fun_eq_iff bt_get_def map_add_def
      split: option.split)
qed (simp_all add: bt.fold_ins_inv assms)

lemma insert_all_ids: "sorted xs \<Longrightarrow> distinct xs \<Longrightarrow> fold insort_insert xs [] = (xs :: string list)"
proof -
  have *: "sorted ys \<Longrightarrow> sorted (fold insort_insert xs ys)" "distinct ys \<Longrightarrow> distinct (fold insort_insert xs ys)"
    "set (fold insort_insert xs ys) = set xs \<union> set ys" for xs ys :: "string list"
    by (induction xs arbitrary: ys) (auto simp: sorted_insort_insert distinct_insort_insert set_insort_insert)
  assume "sorted xs" "distinct xs"
  then show ?thesis by (intro sorted_distinct_set_unique) (auto simp: *)
qed

lemma locks_come_back:
  assumes "bt_ok locks" "\<And>l. l \<in> snd ` set locks \<Longrightarrow> cd_lock_of cd (cd_lock_text cd l) = Some l"
  shows "List.map_filter (\<lambda>(k, r). map_option (Pair k) (cd_lock_of cd (lw_payload r)))
           (db_locks (save_locks cd se locks (db\<lparr>db_locks := []\<rparr>))) = locks"
proof -
  let ?rows = "map (\<lambda>(k, l). (k, lock_row_of cd se l)) locks"
  have "bt_ok ?rows" using assms(1) by (simp add: bt_ok_def comp_def case_prod_unfold)
  moreover have "fold (\<lambda>(k, l). bt_insert k (lock_row_of cd se l)) locks [] = fold (\<lambda>(k, v). bt_insert k v) ?rows []"
    by (simp add: fold_map comp_def case_prod_unfold)
  ultimately have "db_locks (save_locks cd se locks (db\<lparr>db_locks := []\<rparr>)) = ?rows"
    by (simp add: save_locks_def insert_all_self)
  moreover have "List.map_filter (\<lambda>(k, r). map_option (Pair k) (cd_lock_of cd (lw_payload r)))
      (map (\<lambda>(k, l). (k, lock_row_of cd se l)) ls) = ls" if "set ls \<subseteq> set locks" for ls
    using that assms(2) by (induction ls) (force simp: List.map_filter_simps lock_row_of_def)+
  ultimately show ?thesis by simp
qed

lemma save_found:
  assumes "store_ok cd db" "sql_save_snapshot cd se sn db = (db', Inr ())"
    "distinct (map tk_id (rg_tasks (sn_registry sn)))" "t \<in> set (rg_tasks (sn_registry sn))"
    "\<forall>t \<in> set (rg_tasks (sn_registry sn)). tk_id t \<noteq> []" "reads_back cd t"
  shows "read_task cd (tk_id t) db' = Inr t"
proof -
  let ?r = "sn_registry sn" and ?db = "init_schema db"
  obtain db2 where d: "save_tasks cd se (map_option tw_payload \<circ> bt_get (db_tasks db)) (rg_tasks ?r)
       (save_metadata cd se ?r (clear_for_save (rg_tasks ?r) ?db)) = Inr db2"
    "db' = save_cursor cd se (sn_cursor sn) (save_events se (sn_events sn) (save_locks cd se (rg_resource_locks ?r) db2))"
    by (rule save_runs [OF assms(2)])
  have "read_task cd (tk_id t) db2 = Inr t"
  proof (rule save_tasks_read [OF d(1) assms(3) _ assms(4)])
    show "map_option tw_payload (bt_get (db_tasks (save_metadata cd se ?r (clear_for_save (rg_tasks ?r) ?db))) k) = Some x"
      if "(map_option tw_payload \<circ> bt_get (db_tasks db)) k = Some x" "k \<in> tk_id ` set (rg_tasks ?r)" for k x
    proof -
      have "k \<noteq> []" using that(2) assms(5) by auto
      then show ?thesis
        using that clear_for_save_get [of ?db "rg_tasks ?r" k] store_okD(1) [OF assms(1)] by simp
    qed
  qed (use assms(4-6) in blast)+
  moreover have "read_task cd (tk_id t) db' = read_task cd (tk_id t) db2" by (rule read_task_cong) (simp add: d(2))
  ultimately show ?thesis by simp
qed


section \<open>Small stores\<close>

text \<open>A codec for a few known tasks, one registry and one lock.\<close>

definition known_codec :: "task list \<Rightarrow> task_registry \<Rightarrow> resource_lock \<Rightarrow> store_codec" where
  "known_codec ts r l =
     (let text = (\<lambda>t. tk_state t @ '':'' @ tk_id t) in
      \<lparr>cd_task_text = text,
       cd_task_of = (\<lambda>s. case List.find (\<lambda>t. text t = s) ts of None \<Rightarrow> Inl ''unknown task'' | Some t \<Rightarrow> Inr t),
       cd_runtime_text = (\<lambda>_. ''{}''), cd_strings_text = (\<lambda>_. ''[]''), cd_lock_text = (\<lambda>_. ''lock''),
       cd_lock_of = (\<lambda>_. Some l), cd_registry_text = (\<lambda>_. ''registry''), cd_registry_of = (\<lambda>_. Inr r),
       cd_cursor_text = (\<lambda>_. ''{}''), cd_cursor_of = (\<lambda>_. Inl ''no cursor''), cd_throttle_text = (\<lambda>_. ''{}''),
       cd_throttle_of = (\<lambda>_. None)\<rparr>)"

definition claimed_task :: task where
  "claimed_task = default_task\<lparr>tk_id := ''T2'', tk_state := ''claimed'', tk_exclusive_resources := [''db''],
                                tk_worktree := Some default_worktree\<rparr>"

definition other_task :: task where
  "other_task = default_task\<lparr>tk_id := ''T1''\<rparr>"

definition db_lock :: resource_lock where
  "db_lock = \<lparr>lk_task_id = ''T2'', lk_claim_id = ''unclaimed-T2'', lk_worktree_path = [], lk_locked_at = ''now'',
              lk_expires_at = None, lk_extra = []\<rparr>"

definition small_registry :: "task list \<Rightarrow> (string, resource_lock) btree \<Rightarrow> task_registry" where
  "small_registry ts locks = (seeded_registry ''then'')\<lparr>rg_tasks := ts, rg_resource_locks := locks\<rparr>"

definition small_codec :: store_codec where
  "small_codec = known_codec
     [claimed_task, other_task, transition_task \<lparr>xm_task_id = ''T2'', xm_new_state = ''merged'', xm_pr_url = [],
        xm_reviewer = [], xm_reason = [], xm_now = ''later''\<rparr> claimed_task]
     (small_registry [] [(''db'', db_lock)]) db_lock"

definition small_snapshot :: snapshot where
  "small_snapshot = \<lparr>sn_registry = small_registry [claimed_task, other_task] [(''db'', db_lock)],
                     sn_events = [performer_result], sn_cursor = None\<rparr>"

definition saved_db :: sql_db where
  "saved_db = fst (sql_save_snapshot small_codec small_env small_snapshot (small_db [] []))"

definition merge_T2 :: transition_mutation where
  "merge_T2 = \<lparr>xm_task_id = ''T2'', xm_new_state = ''merged'', xm_pr_url = [], xm_reviewer = [], xm_reason = [],
               xm_now = ''later''\<rparr>"

lemma small_save: "sql_save_snapshot small_codec small_env small_snapshot (small_db [] []) = (saved_db, Inr ())"
proof -
  have "snd (sql_save_snapshot small_codec small_env small_snapshot (small_db [] [])) = Inr ()" by code_simp
  then show ?thesis by (simp add: saved_db_def prod_eq_iff)
qed

lemma small_db_ok: "store_ok cd (small_db rows cursor)" "se_fail small_env db = None" "2 \<le> db_version (small_db rows cursor)"
  by (simp_all add: store_ok_def small_db_def small_env_def)

lemma small_log_ok: "log_ok (small_db [] [])"
  by (code_simp, simp)

theorem save_keeps_the_log_witness:
  "store_ok small_codec saved_db \<and> ew_event_id ` set (db_events saved_db) \<noteq> {}"
proof -
  have backs: "\<forall>t \<in> set (rg_tasks (sn_registry small_snapshot)). tk_id t \<noteq> [] \<longrightarrow> reads_back small_codec t" by code_simp
  from save_keeps_the_log [OF small_db_ok(1) small_log_ok small_db_ok(3) backs small_save] show ?thesis
    by (auto simp: small_snapshot_def)
qed


theorem transition_in_the_database_witness:
  "read_task small_codec ''T1'' (fst (apply_transition_with_event small_codec small_env merge_T2 None saved_db))
     = read_task small_codec ''T1'' saved_db"
proof -
  let ?db = "fst (apply_transition_with_event small_codec small_env merge_T2 None saved_db)"
  have ok: "store_ok small_codec saved_db" by code_simp
  have t: "read_task small_codec (xm_task_id merge_T2) saved_db = Inr claimed_task" by code_simp
  have rb: "reads_back small_codec (transition_task merge_T2 claimed_task)" by code_simp
  have "snd (apply_transition_with_event small_codec small_env merge_T2 None saved_db) = Inr ()" by code_simp
  then have run: "apply_transition_with_event small_codec small_env merge_T2 None saved_db = (?db, Inr ())"
    by (simp add: prod_eq_iff)
  from transition_in_the_database [OF ok t rb run] show ?thesis by (simp add: merge_T2_def)
qed

text \<open>A merged task gives its lock up in the table, and loading brings it back from the metadata of the last save.\<close>

lemma stale_lock_comes_back:
  "let db = fst (apply_transition_with_event small_codec small_env merge_T2 None saved_db) in
   db_locks db = [] \<and>
   (case load_registry small_codec small_env db of (_, Inl _) \<Rightarrow> False
    | (_, Inr r) \<Rightarrow> map (\<lambda>t. (tk_id t, tk_state t)) (rg_tasks r) = [(''T1'', ''todo''), (''T2'', ''merged'')]
        \<and> map fst (rg_resource_locks r) = [''db''])"
  by code_simp

section \<open>Any sequence of operations\<close>

text \<open>The operations that write tasks or events; what is written reads back as it was.\<close>

inductive store_step :: "store_codec \<Rightarrow> sql_db \<Rightarrow> sql_db \<Rightarrow> bool" for cd where
  transition_step: "read_task cd (xm_task_id m) db = Inr t \<Longrightarrow> reads_back cd (transition_task m t) \<Longrightarrow>
    apply_transition_with_event cd se m event db = (db', Inr ()) \<Longrightarrow> store_step cd db db'"
| runtime_step: "read_task cd (um_task_id u) db = Inr t \<Longrightarrow> reads_back cd (runtime_task u t) \<Longrightarrow>
    set_runtime_with_event cd se u event db = (db', Inr ()) \<Longrightarrow> store_step cd db db'"
| pending_step: "read_task cd (gm_task_id g) db = Inr t \<Longrightarrow> reads_back cd (merge_pending_task g t) \<Longrightarrow>
    set_merge_pending cd se g db = (db', Inr ()) \<Longrightarrow> store_step cd db db'"
| processed_step: "read_task cd (hm_task_id h) db = Inr t \<Longrightarrow> reads_back cd (merge_processed_task h t) \<Longrightarrow>
    set_merge_processed cd se h db = (db', Inr ()) \<Longrightarrow> store_step cd db db'"
| retry_step: "read_task cd k db = Inr t \<Longrightarrow> reads_back cd (retry_task now t) \<Longrightarrow>
    increment_task_retries cd se k now db = (db', Inr ()) \<Longrightarrow> store_step cd db db'"
| slo_step: "read_task cd (sm_task_id w) db = Inr t \<Longrightarrow> reads_back cd (slo_task w t) \<Longrightarrow>
    store_slo_warning cd se w db = (db', Inr ()) \<Longrightarrow> store_step cd db db'"
| save_step: "\<forall>t \<in> set (rg_tasks (sn_registry sn)). tk_id t \<noteq> [] \<longrightarrow> reads_back cd t \<Longrightarrow>
    sql_save_snapshot cd se sn db = (db', Inr ()) \<Longrightarrow> store_step cd db db'"
| append_step: "append_event_record se e db = (db', Inr new) \<Longrightarrow> store_step cd db db'"
| failed_step: "store_step cd db (init_schema db)"

lemma save_keeps:
  assumes "store_ok cd db" "\<forall>t \<in> set (rg_tasks (sn_registry sn)). tk_id t \<noteq> [] \<longrightarrow> reads_back cd t"
    "sql_save_snapshot cd se sn db = (db', Inr ())"
  shows "store_ok cd db' \<and> log_kept db db'"
proof -
  let ?r = "sn_registry sn"
  obtain db2 where d: "save_tasks cd se (map_option tw_payload \<circ> bt_get (db_tasks db)) (rg_tasks ?r)
       (save_metadata cd se ?r (clear_for_save (rg_tasks ?r) (init_schema db))) = Inr db2"
    "db' = save_cursor cd se (sn_cursor sn) (save_events se (sn_events sn) (save_locks cd se (rg_resource_locks ?r) db2))"
    by (rule save_runs [OF assms(3)])
  note sel = save_tasks_sel [OF d(1)]
  have "store_ok cd (clear_for_save (rg_tasks ?r) (init_schema db))"
    by (rule clear_for_save_ok) (simp add: init_schema_store assms(1))
  then have "store_ok cd db2" using save_tasks_ok [OF d(1)] assms(2) by simp
  then have ok: "store_ok cd db'" unfolding d(2) by simp
  let ?db = "save_events se (sn_events sn) db2" and ?new = "map (snapshot_event_row se) (enumerate 0 (sn_events sn))"
  obtain more where more: "fold insert_or_ignore ?new (db_events db2) = db_events db2 @ more"
    using insert_rows_keep by blast
  have "log_ok ?db" if log: "log_ok db2"
  proof -
    have "distinct (map ew_event_id (fold insert_or_ignore ?new (db_events db2)))"
      by (rule insert_rows_distinct) (use log in \<open>simp add: log_ok_def\<close>)
    moreover have "cursor_of ?db = cursor_of db2" by (simp add: cursor_of_def)
    moreover have "db_events ?db = db_events db2 @ more" by (simp add: save_events_def more)
    ultimately show ?thesis using log more unfolding log_ok_def by (cases "cursor_of db2") auto
  qed
  then have "log_kept db2 ?db" by (simp add: log_kept_def save_events_def more)
  moreover have "log_kept (init_schema db) db2" by (rule log_kept_same) (simp_all add: sel)
  moreover have "log_kept ?db db'" unfolding d(2) by (rule log_kept_same) (simp_all add: save_events_def)
  ultimately show ?thesis using ok log_kept_trans log_kept_init by blast
qed

lemma append_keeps:
  assumes "store_ok cd db" "append_event_record se e db = (db', Inr new)"
  shows "store_ok cd db' \<and> log_kept db db'"
proof -
  have up: "se_fail se db = None" using assms(2) by (auto simp: append_event_record_def in_tx_def split: option.splits)
  let ?row = "row_of_event se (completed_event se e)"
  have db': "db' = fst (insert_event ?row (init_schema db))"
    using assms(2) by (auto simp: append_runs [OF up] Let_def split: prod.splits)
  have "store_ok cd db' = store_ok cd (init_schema db)"
    unfolding db' by (rule store_ok_cong) (simp_all add: insert_event_def)
  then show ?thesis using assms(1) log_kept_trans [OF log_kept_init log_kept_insert] by (simp add: db' init_schema_store)
qed

lemma store_step_keeps: "store_step cd db db' \<Longrightarrow> store_ok cd db \<Longrightarrow> store_ok cd db' \<and> log_kept db db'"
proof (induction rule: store_step.induct)
  case (transition_step m db t se event db')
  then show ?case using transition.change_keeps unfolding apply_transition_with_event_def by blast
next
  case (runtime_step u db t se event db')
  then show ?case using runtime.change_keeps unfolding set_runtime_with_event_def by blast
next
  case (pending_step g db t se db')
  then show ?case using pending.change_keeps unfolding set_merge_pending_def by blast
next
  case (processed_step h db t se db')
  then show ?case using processed.change_keeps unfolding set_merge_processed_def by blast
next
  case (retry_step k db t now se db')
  then show ?case using retries.change_keeps unfolding increment_task_retries_def by blast
next
  case (slo_step w db t se db')
  then show ?case using slo.change_keeps unfolding store_slo_warning_def by blast
next
  case (save_step sn se db db')
  then show ?case using save_keeps by blast
next
  case (append_step se e db db' new)
  then show ?case using append_keeps by blast
next
  case (failed_step db)
  then show ?case by (simp add: init_schema_store log_kept_init)
qed

text \<open>C29: Along any sequence of transitions, runtime updates, merge records, retries, warnings, snapshot saves and event
  appends the columns and runtime rows keep repeating the stored tasks, and no stored event that is not a heartbeat
  is ever lost.\<close>

theorem stores_stay_ok:
  assumes "(store_step cd)\<^sup>*\<^sup>* db db'" "store_ok cd db" "log_ok db"
  shows "store_ok cd db' \<and> log_ok db' \<and> (\<forall>r \<in> set (db_events db). \<not> is_heartbeat r \<longrightarrow> r \<in> set (db_events db'))"
proof -
  have "store_ok cd db' \<and> log_kept db db'"
    using assms(1,2)
  proof (induction rule: rtranclp_induct)
    case base
    then show ?case using log_kept_same [OF refl refl] by blast
  next
    case (step y z)
    then show ?case using store_step_keeps [of cd y z] log_kept_trans [of db y z] by blast
  qed
  then show ?thesis using assms(3) by (simp add: log_kept_def)
qed

theorem stores_stay_ok_witness:
  "store_ok small_codec (fst (apply_transition_with_event small_codec small_env merge_T2 None saved_db))"
proof -
  let ?db = "fst (apply_transition_with_event small_codec small_env merge_T2 None saved_db)"
  have backs: "\<forall>t \<in> set (rg_tasks (sn_registry small_snapshot)). tk_id t \<noteq> [] \<longrightarrow> reads_back small_codec t" by code_simp
  have t: "read_task small_codec (xm_task_id merge_T2) saved_db = Inr claimed_task" by code_simp
  have rb: "reads_back small_codec (transition_task merge_T2 claimed_task)" by code_simp
  have "snd (apply_transition_with_event small_codec small_env merge_T2 None saved_db) = Inr ()" by code_simp
  then have run: "apply_transition_with_event small_codec small_env merge_T2 None saved_db = (?db, Inr ())"
    by (simp add: prod_eq_iff)
  have "(store_step small_codec)\<^sup>*\<^sup>* (small_db [] []) ?db"
    by (rule rtranclp.rtrancl_into_rtrancl [OF r_into_rtranclp])
      (rule save_step [OF backs small_save], rule transition_step [OF t rb run])
  from stores_stay_ok [OF this small_db_ok(1) small_log_ok] show ?thesis by blast
qed

text \<open>An import followed at once by the parity check fails when the file does not list the tasks by id.\<close>

definition file_codec :: store_codec where
  "file_codec = small_codec\<lparr>cd_registry_of := (\<lambda>s. Inr (if s = ''file'' then small_registry [claimed_task, other_task] []
                                                    else small_registry [] []))\<rparr>"

definition small_json_env :: json_env where
  "small_json_env = \<lparr>je_read_error = (\<lambda>_. None), je_write_error = (\<lambda>_. None), je_remove_error = None,
                     je_path = (\<lambda>_. ''f''), je_registry_pretty = (\<lambda>_. ''file''), je_cursor_pretty = (\<lambda>_. ''c'')\<rparr>"

lemma parity_fails_after_import:
  "let (w, r) = storage_import file_codec small_env small_json_env
         (small_db [] [], \<lparr>jf_registry = Some ''file'', jf_events = None, jf_cursor = None\<rparr>) in
   r = Inr () \<and> snd (storage_verify_parity file_codec small_env small_json_env w) =
     Inl (Storage_Err ''sqlite'' ''Coordinator storage mismatch: json and sqlite snapshots differ'')"
  by code_simp

end
