(* ===== verification/State_Cmd.thy ===== *)
theory State_Cmd
  imports Task_Store Git_Cmd
begin

text \<open>
  The commands on the coordinator state (\<open>coordinator/state.rs\<close>): each reads its options from a map of names to
  texts, works on the database or, in JSON mode, on the registry file, and then mirrors the database to JSON when
  asked.  Printed lines are results.
\<close>

section \<open>World and options\<close>

type_synonym options = "(string, string) btree"

record state_world =
  sw_db :: sql_db
  sw_files :: json_files
  sw_exported :: "nat option"

text \<open>Besides the stores: decoding of JSON registries, the errors of files, a monotonic clock in milliseconds.\<close>

record state_env =
  sv_codec :: store_codec
  sv_sql :: sql_env
  sv_json :: json_env
  sv_from_value :: "json \<Rightarrow> task_registry res"
  sv_parse_error :: "string \<Rightarrow> string"
  sv_number_error :: "string \<Rightarrow> string"
  sv_missing :: macc_error
  sv_instant :: nat

definition sv_now :: "state_env \<Rightarrow> string" where
  "sv_now sv = se_now (sv_sql sv)"

definition required_arg :: "options \<Rightarrow> string \<Rightarrow> string res" where
  "required_arg args key =
     (let value = trim (unwrap_or [] (bt_get args key))
      in if value = [] then Inl (Validation_Err (''Missing --'' @ key)) else Inr value)"

definition given :: "options \<Rightarrow> string \<Rightarrow> string" where
  "given args key = unwrap_or [] (bt_get args key)"

definition resolve_storage_mode :: "options \<Rightarrow> storage_mode res" where
  "resolve_storage_mode args =
     map_sum Validation_Err id (storage_mode_of (unwrap_or ''sqlite'' (bt_get args ''storage-mode'')))"

definition switched_on :: "options \<Rightarrow> string \<Rightarrow> bool" where
  "switched_on args key =
     (to_ascii_lowercase (trim (unwrap_or ''0'' (bt_get args key))) \<notin> {''0'', ''false'', ''no'', ''off''})"

definition should_mirror_json :: "options \<Rightarrow> bool" where
  "should_mirror_json args = switched_on args ''mirror-json''"

definition allow_legacy_json_fallback :: "options \<Rightarrow> bool" where
  "allow_legacy_json_fallback args = switched_on args ''legacy-json-fallback''"

definition mirror_json_debounce_ms :: "options \<Rightarrow> nat" where
  "mirror_json_debounce_ms args =
     unwrap_or 0 (Option.bind (bt_get args ''mirror-json-debounce-ms'') (\<lambda>raw. parse_usize (trim raw)))"

definition export_to_json :: "state_env \<Rightarrow> state_world \<Rightarrow> state_world \<times> unit res" where
  "export_to_json sv w =
     (case storage_export (sv_codec sv) (sv_sql sv) (sv_json sv) (sw_db w, sw_files w) of
        ((db, fs), r) \<Rightarrow> (w\<lparr>sw_db := db, sw_files := fs\<rparr>, r))"

text \<open>A mirror is written at most once per debounce interval.\<close>

definition maybe_mirror_json :: "state_env \<Rightarrow> options \<Rightarrow> state_world \<Rightarrow> state_world \<times> unit res" where
  "maybe_mirror_json sv args w =
     (if \<not> should_mirror_json args then (w, Inr ())
      else let debounce_ms = mirror_json_debounce_ms args in
        if debounce_ms = 0 then export_to_json sv w
        else if (case sw_exported w of None \<Rightarrow> True | Some exported \<Rightarrow> debounce_ms \<le> sv_instant sv - exported)
        then (case export_to_json sv w of
                (w', Inl e) \<Rightarrow> (w', Inl e)
              | (w', Inr _) \<Rightarrow> (w'\<lparr>sw_exported := Some (sv_instant sv)\<rparr>, Inr ()))
        else (w, Inr ()))"

text \<open>A call on the database followed by the mirror.\<close>

definition on_database ::
  "state_env \<Rightarrow> options \<Rightarrow> (sql_db \<Rightarrow> sql_db \<times> 'a res) \<Rightarrow> state_world \<Rightarrow> state_world \<times> unit res" where
  "on_database sv args f w =
     (case f (sw_db w) of
        (db, Inl e) \<Rightarrow> (w\<lparr>sw_db := db\<rparr>, Inl e)
      | (db, Inr _) \<Rightarrow> maybe_mirror_json sv args (w\<lparr>sw_db := db\<rparr>))"

definition parse_optional_event_mutation ::
  "state_env \<Rightarrow> options \<Rightarrow> string \<Rightarrow> string \<Rightarrow> event_mutation option res" where
  "parse_optional_event_mutation sv args default_task_id default_status =
     (let event_type = given args ''event-type'';
          spoken = (\<lambda>key. opt_filter (\<lambda>v. trim v \<noteq> []) (bt_get args key))
      in if trim event_type = [] then Inr None
      else try_bind
        (case spoken ''event-payload-json'' of
           Some raw \<Rightarrow> (case se_json_of (sv_sql sv) raw of
               None \<Rightarrow> Inl (Validation_Err (''Invalid --event-payload-json: '' @ sv_parse_error sv raw))
             | Some v \<Rightarrow> Inr v)
         | None \<Rightarrow> (let msg = given args ''event-message''
                    in Inr (if msg = [] then JObj [] else JObj [(''message'', JStr msg)])))
        (\<lambda>payload. Inr (Some
          \<lparr>em_event_id = bt_get args ''event-id'', em_run_id = bt_get args ''event-run-id'',
           em_seq = Option.bind (bt_get args ''event-seq'') parse_i64, em_ts = bt_get args ''event-ts'',
           em_source = unwrap_or ''coordinator:native:state'' (spoken ''event-source''),
           em_task_id = unwrap_or default_task_id (spoken ''event-task-id''), em_event_type = event_type,
           em_phase = given args ''event-phase'',
           em_status = unwrap_or default_status (spoken ''event-status''), em_payload = payload\<rparr>)))"

section \<open>The registry file\<close>

definition load_registry_file :: "state_env \<Rightarrow> json_files \<Rightarrow> task_registry res" where
  "load_registry_file sv fs =
     (case jf_registry fs of
        None \<Rightarrow> Inl (sv_missing sv)
      | Some raw \<Rightarrow> try_bind (fails (je_read_error (sv_json sv) Registry_File) raw) (\<lambda>raw.
          case se_json_of (sv_sql sv) raw of
            None \<Rightarrow> Inl (Validation_Err (''Failed to parse coordinator registry '' @ [CHR 0x27]
                       @ je_path (sv_json sv) Registry_File @ [CHR 0x27] @ '': '' @ sv_parse_error sv raw))
          | Some v \<Rightarrow> sv_from_value sv v))"

definition save_registry_file :: "state_env \<Rightarrow> task_registry \<Rightarrow> state_world \<Rightarrow> state_world \<times> unit res" where
  "save_registry_file sv r w =
     (case je_write_error (sv_json sv) Registry_File of
        Some e \<Rightarrow> (w, Inl e)
      | None \<Rightarrow> (w\<lparr>sw_files := (sw_files w)\<lparr>jf_registry := Some (je_registry_pretty (sv_json sv) r)\<rparr>\<rparr>, Inr ()))"

definition in_registry_file ::
  "state_env \<Rightarrow> string \<Rightarrow> (task \<Rightarrow> task) \<Rightarrow> (task_registry \<Rightarrow> task_registry) \<Rightarrow> state_world \<Rightarrow> state_world \<times> unit res" where
  "in_registry_file sv task_id f finish w =
     (case load_registry_file sv (sw_files w) of
        Inl e \<Rightarrow> (w, Inl e)
      | Inr r \<Rightarrow>
          if find_task (rg_tasks r) task_id = None
          then (w, Inl (Validation_Err (''Task not found in registry: '' @ task_id)))
          else save_registry_file sv (finish (r\<lparr>rg_tasks := update_task task_id f (rg_tasks r)\<rparr>)) w)"

section \<open>Transitions\<close>

definition reset_runtime_to_idle :: "task_runtime \<Rightarrow> task_runtime" where
  "reset_runtime_to_idle rt =
     (clear_last_error_details (set_status Rt_Idle rt\<lparr>tr_pid := None, tr_started_at := None, tr_current_phase := None\<rparr>))
       \<lparr>tr_merge_result_pending := Some False, tr_merge_result_file := None\<rparr>"

definition json_transition_task :: "transition_mutation \<Rightarrow> task \<Rightarrow> task" where
  "json_transition_task m t0 =
     (let t1 = t0\<lparr>tk_state := xm_new_state m, tk_updated_at := Some (xm_now m),
                   tk_state_changed_at := Some (xm_now m)\<rparr>;
          t2 = (if xm_new_state m = workflow_as_str PrOpen \<and> xm_pr_url m \<noteq> []
                then t1\<lparr>tk_pr_url := Some (xm_pr_url m)\<rparr> else t1);
          t3 = (if xm_new_state m = workflow_as_str ChangesRequested
                then let rv = unwrap_or \<lparr>rv_changed = None, rv_last_reviewed_at = None, rv_reviewer = None,
                                          rv_reason = None, rv_extra = []\<rparr> (tk_review t2)
                     in t2\<lparr>tk_review := Some (rv\<lparr>rv_changed := Some True, rv_last_reviewed_at := Some (xm_now m),
                          rv_reviewer := non_blank (xm_reviewer m) (rv_reviewer rv),
                          rv_reason := non_blank (xm_reason m) (rv_reason rv)\<rparr>)\<rparr>
                else t2)
      in if xm_new_state m \<in> {''merged'', ''abandoned'', ''todo''}
         then upd_runtime reset_runtime_to_idle (clear_assignment t3) else t3)"

definition transition_mutation_of :: "state_env \<Rightarrow> options \<Rightarrow> string \<Rightarrow> string \<Rightarrow> transition_mutation" where
  "transition_mutation_of sv args task_id new_state =
     \<lparr>xm_task_id = task_id, xm_new_state = new_state, xm_pr_url = given args ''pr-url'',
      xm_reviewer = given args ''reviewer'', xm_reason = given args ''reason'', xm_now = sv_now sv\<rparr>"

definition state_apply_transition :: "state_env \<Rightarrow> options \<Rightarrow> state_world \<Rightarrow> state_world \<times> unit res" where
  "state_apply_transition sv args w =
     (case required_arg args ''task-id'' of Inl e \<Rightarrow> (w, Inl e) | Inr task_id \<Rightarrow>
      case required_arg args ''state'' of Inl e \<Rightarrow> (w, Inl e) | Inr new_state \<Rightarrow>
      if to_ascii_lowercase (trim new_state) \<in> {''waiting_approval'', ''approved'', ''rejected'', ''expired''}
      then (w, Inl (Validation_Err (''State '' @ [CHR 0x27] @ new_state @ [CHR 0x27]
              @ '' is derived from recorded human decisions and cannot be set directly. Use `macc coordinator ''
              @ ''approve|reject|request-changes '' @ task_id @ ''`.'')))
      else
        let m = transition_mutation_of sv args task_id new_state
        in case resolve_storage_mode args of
             Inl e \<Rightarrow> (w, Inl e)
           | Inr Json_Mode \<Rightarrow>
               in_registry_file sv task_id (json_transition_task m)
                 (\<lambda>r. (recompute_resource_locks (sv_now sv) r)\<lparr>rg_updated_at := Some (sv_now sv)\<rparr>) w
           | Inr _ \<Rightarrow>
               (case parse_optional_event_mutation sv args task_id new_state of
                  Inl e \<Rightarrow> (w, Inl e)
                | Inr event \<Rightarrow>
                    on_database sv args (apply_transition_with_event (sv_codec sv) (sv_sql sv) m event) w))"

section \<open>Runtime updates\<close>

text \<open>A number that does not parse clears the field in JSON mode and is left out in the database.\<close>

definition parse_u8 :: "string \<Rightarrow> nat option" where
  "parse_u8 s = opt_filter (\<lambda>n. n < 256) (parse_usize s)"

definition json_runtime :: "options \<Rightarrow> string \<Rightarrow> string \<Rightarrow> task_runtime \<Rightarrow> task_runtime" where
  "json_runtime args runtime_status now rt =
     (let phase = given args ''phase''; pid = given args ''pid''; attempt = given args ''attempt'';
          old_status = unwrap_or ''idle'' (tr_status rt); old_phase = unwrap_or [] (tr_current_phase rt);
          running = (runtime_status = runtime_as_str Rt_Running);
          phase_changed = (phase \<noteq> [] \<and> phase \<noteq> old_phase);
          became_running = (old_status \<noteq> runtime_as_str Rt_Running \<and> running);
          missing = (unwrap_or [] (tr_phase_started_at rt) = [])
      in rt\<lparr>tr_status := Some runtime_status, tr_current_phase := non_blank phase (tr_current_phase rt),
            tr_message := or_else (bt_get args ''message'') (tr_message rt),
            tr_progress := (case bt_get args ''progress'' of None \<Rightarrow> tr_progress rt | Some p \<Rightarrow> parse_u8 p),
            tr_worker_id := or_else (bt_get args ''worker-id'') (tr_worker_id rt),
            tr_tool := or_else (bt_get args ''tool'') (tr_tool rt),
            tr_worktree := or_else (bt_get args ''worktree'') (tr_worktree rt),
            tr_branch := or_else (bt_get args ''branch'') (tr_branch rt),
            tr_stdout_log := or_else (bt_get args ''stdout-log'') (tr_stdout_log rt),
            tr_stderr_log := or_else (bt_get args ''stderr-log'') (tr_stderr_log rt),
            tr_events_log := or_else (bt_get args ''events-log'') (tr_events_log rt),
            tr_last_event_at := or_else (bt_get args ''last-event-at'') (tr_last_event_at rt),
            tr_registry_updated_at := Some now,
            tr_pid := (if pid \<noteq> [] then parse_i64 pid else if at_rest runtime_status then None else tr_pid rt),
            tr_last_error := non_blank (given args ''last-error'') (tr_last_error rt),
            tr_last_heartbeat := non_blank (given args ''heartbeat-ts'') (tr_last_heartbeat rt),
            tr_attempt := (if attempt \<noteq> [] then parse_i64 attempt else tr_attempt rt),
            tr_started_at := (if running \<and> unwrap_or [] (tr_started_at rt) = [] then Some now else tr_started_at rt),
            tr_phase_started_at := (if running \<and> (phase_changed \<or> became_running \<or> missing) then Some now
                                    else if at_rest runtime_status then None else tr_phase_started_at rt)\<rparr>)"

definition runtime_mutation_of :: "options \<Rightarrow> string \<Rightarrow> string \<Rightarrow> string \<Rightarrow> runtime_mutation" where
  "runtime_mutation_of args task_id runtime_status now =
     (let pid = given args ''pid''; attempt = given args ''attempt'' in
      \<lparr>um_task_id = task_id, um_runtime_status = runtime_status, um_phase = given args ''phase'',
       um_pid = (if pid = [] then None else parse_i64 pid), um_last_error = given args ''last-error'',
       um_heartbeat_ts = given args ''heartbeat-ts'',
       um_attempt = (if attempt = [] then None else parse_i64 attempt), um_now = now,
       um_message = bt_get args ''message'', um_progress = Option.bind (bt_get args ''progress'') parse_u8,
       um_worker_id = bt_get args ''worker-id'', um_tool = bt_get args ''tool'', um_worktree = bt_get args ''worktree'',
       um_branch = bt_get args ''branch'', um_stdout_log = bt_get args ''stdout-log'',
       um_stderr_log = bt_get args ''stderr-log'', um_events_log = bt_get args ''events-log'',
       um_last_event_at = bt_get args ''last-event-at''\<rparr>)"

definition state_set_runtime :: "state_env \<Rightarrow> options \<Rightarrow> state_world \<Rightarrow> state_world \<times> unit res" where
  "state_set_runtime sv args w =
     (case required_arg args ''task-id'' of Inl e \<Rightarrow> (w, Inl e) | Inr task_id \<Rightarrow>
      case required_arg args ''runtime-status'' of Inl e \<Rightarrow> (w, Inl e) | Inr runtime_status \<Rightarrow>
      case resolve_storage_mode args of
        Inl e \<Rightarrow> (w, Inl e)
      | Inr Json_Mode \<Rightarrow>
          in_registry_file sv task_id
            (\<lambda>t. (upd_runtime (json_runtime args runtime_status (sv_now sv)) t)\<lparr>tk_updated_at := Some (sv_now sv)\<rparr>)
            (\<lambda>r. r\<lparr>rg_updated_at := Some (sv_now sv)\<rparr>) w
      | Inr _ \<Rightarrow>
          (case parse_optional_event_mutation sv args task_id runtime_status of
             Inl e \<Rightarrow> (w, Inl e)
           | Inr event \<Rightarrow>
               on_database sv args (set_runtime_with_event (sv_codec sv) (sv_sql sv)
                 (runtime_mutation_of args task_id runtime_status (sv_now sv)) event) w))"

section \<open>Commands that know the database only\<close>

definition now_or_given :: "state_env \<Rightarrow> options \<Rightarrow> string" where
  "now_or_given sv args = unwrap_or (sv_now sv) (bt_get args ''now'')"

definition state_set_merge_pending :: "state_env \<Rightarrow> options \<Rightarrow> state_world \<Rightarrow> state_world \<times> unit res" where
  "state_set_merge_pending sv args w =
     (case required_arg args ''task-id'' of Inl e \<Rightarrow> (w, Inl e) | Inr task_id \<Rightarrow>
      case required_arg args ''result-file'' of Inl e \<Rightarrow> (w, Inl e) | Inr result_file \<Rightarrow>
      on_database sv args (set_merge_pending (sv_codec sv) (sv_sql sv)
        \<lparr>gm_task_id = task_id, gm_result_file = result_file, gm_pid = Option.bind (bt_get args ''pid'') parse_i64,
         gm_now = now_or_given sv args\<rparr>) w)"

definition state_set_merge_processed :: "state_env \<Rightarrow> options \<Rightarrow> state_world \<Rightarrow> state_world \<times> unit res" where
  "state_set_merge_processed sv args w =
     (case required_arg args ''task-id'' of Inl e \<Rightarrow> (w, Inl e) | Inr task_id \<Rightarrow>
      on_database sv args (set_merge_processed (sv_codec sv) (sv_sql sv)
        \<lparr>hm_task_id = task_id, hm_result_file = given args ''result-file'', hm_status = given args ''status'',
         hm_rc = Option.bind (bt_get args ''rc'') parse_i64, hm_now = now_or_given sv args\<rparr>) w)"

definition state_increment_retries :: "state_env \<Rightarrow> options \<Rightarrow> state_world \<Rightarrow> state_world \<times> unit res" where
  "state_increment_retries sv args w =
     (case required_arg args ''task-id'' of Inl e \<Rightarrow> (w, Inl e) | Inr task_id \<Rightarrow>
      on_database sv args (increment_task_retries (sv_codec sv) (sv_sql sv) task_id (now_or_given sv args)) w)"

definition required_number :: "state_env \<Rightarrow> options \<Rightarrow> string \<Rightarrow> int res" where
  "required_number sv args key =
     try_bind (required_arg args key) (\<lambda>text.
       case parse_i64 text of
         None \<Rightarrow> Inl (Validation_Err (''Invalid --'' @ key @ '': '' @ sv_number_error sv text))
       | Some i \<Rightarrow> Inr i)"

definition state_upsert_slo_warning :: "state_env \<Rightarrow> options \<Rightarrow> state_world \<Rightarrow> state_world \<times> unit res" where
  "state_upsert_slo_warning sv args w =
     (case required_arg args ''task-id'' of Inl e \<Rightarrow> (w, Inl e) | Inr task_id \<Rightarrow>
      case required_arg args ''metric'' of Inl e \<Rightarrow> (w, Inl e) | Inr metric \<Rightarrow>
      case required_number sv args ''threshold'' of Inl e \<Rightarrow> (w, Inl e) | Inr threshold \<Rightarrow>
      case required_number sv args ''value'' of Inl e \<Rightarrow> (w, Inl e) | Inr v \<Rightarrow>
      on_database sv args (store_slo_warning (sv_codec sv) (sv_sql sv)
        \<lparr>sm_task_id = task_id, sm_metric = metric, sm_threshold = threshold, sm_value = v,
         sm_suggestion = given args ''suggestion'', sm_now = now_or_given sv args\<rparr>) w)"

section \<open>Views\<close>

definition json_view :: "state_env \<Rightarrow> state_world \<Rightarrow> snapshot res" where
  "json_view sv w = json_load_snapshot (sv_codec sv) (sv_sql sv) (sv_json sv) (sw_files w)"

text \<open>A reader of the database that may fall back to the JSON files; the error is that of the database.\<close>

definition view_with ::
  "state_env \<Rightarrow> options \<Rightarrow> (sql_db \<Rightarrow> sql_db \<times> 'a res) \<Rightarrow> (snapshot \<Rightarrow> 'a) \<Rightarrow> state_world \<Rightarrow> state_world \<times> 'a res" where
  "view_with sv args from_db from_json w =
     (case resolve_storage_mode args of
        Inl e \<Rightarrow> (w, Inl e)
      | Inr Json_Mode \<Rightarrow> (w, map_sum id from_json (json_view sv w))
      | Inr _ \<Rightarrow>
          (case from_db (sw_db w) of
             (db, Inr a) \<Rightarrow> (w\<lparr>sw_db := db\<rparr>, Inr a)
           | (db, Inl sql_error) \<Rightarrow> (w\<lparr>sw_db := db\<rparr>,
               if allow_legacy_json_fallback args
               then (case json_view sv w of Inl _ \<Rightarrow> Inl sql_error | Inr sn \<Rightarrow> Inr (from_json sn))
               else Inl sql_error)))"

definition load_snapshot_view :: "state_env \<Rightarrow> options \<Rightarrow> state_world \<Rightarrow> state_world \<times> snapshot res" where
  "load_snapshot_view sv args = view_with sv args (sql_load_snapshot (sv_codec sv) (sv_sql sv)) id"

definition load_registry_view :: "state_env \<Rightarrow> options \<Rightarrow> state_world \<Rightarrow> state_world \<times> task_registry res" where
  "load_registry_view sv args = view_with sv args (load_registry (sv_codec sv) (sv_sql sv)) sn_registry"

definition with_registry ::
  "state_env \<Rightarrow> options \<Rightarrow> (task_registry \<Rightarrow> 'a res) \<Rightarrow> state_world \<Rightarrow> state_world \<times> 'a res" where
  "with_registry sv args f w =
     (case load_registry_view sv args w of (w', Inl e) \<Rightarrow> (w', Inl e) | (w', Inr r) \<Rightarrow> (w', f r))"

definition extract_task_field :: "task \<Rightarrow> string \<Rightarrow> string option" where
  "extract_task_field t field_expr =
     (let expr = trim field_expr; rt = tk_runtime t; quotes = [CHR 0x22, CHR 0x22] in
      if expr = ''.state'' then Some (tk_state t)
      else if expr = ''.scope // '' @ quotes then Some (unwrap_or [] (scope_of t))
      else if expr = ''.task_runtime.status // '' @ [CHR 0x22] @ ''idle'' @ [CHR 0x22]
      then Some (unwrap_or (runtime_as_str Rt_Idle) (tr_status rt))
      else if expr = ''.task_runtime.current_phase // '' @ quotes then Some (unwrap_or [] (tr_current_phase rt))
      else if expr = ''.task_runtime.last_error // '' @ quotes then Some (unwrap_or [] (tr_last_error rt))
      else if expr = ''.task_runtime.retries // .task_runtime.metrics.retries // 0'' then Some (show_nat (retries_count rt))
      else map_option (\<lambda>metric. show_int (unwrap_or 0 (metric_i64 metric rt)))
             (Option.bind (strip_prefix ''.task_runtime.metrics.'' expr) (strip_suffix '' // 0'')))"

definition state_task_field :: "state_env \<Rightarrow> options \<Rightarrow> state_world \<Rightarrow> state_world \<times> string option res" where
  "state_task_field sv args w =
     (case required_arg args ''task-id'' of Inl e \<Rightarrow> (w, Inl e) | Inr task_id \<Rightarrow>
      case required_arg args ''field'' of Inl e \<Rightarrow> (w, Inl e) | Inr field_expr \<Rightarrow>
      with_registry sv args
        (\<lambda>r. Inr (Option.bind (find_task (rg_tasks r) task_id) (\<lambda>t. extract_task_field t field_expr))) w)"

definition state_task_exists :: "state_env \<Rightarrow> options \<Rightarrow> state_world \<Rightarrow> state_world \<times> unit res" where
  "state_task_exists sv args w =
     (case required_arg args ''task-id'' of Inl e \<Rightarrow> (w, Inl e) | Inr task_id \<Rightarrow>
      with_registry sv args
        (\<lambda>r. if find_task (rg_tasks r) task_id \<noteq> None then Inr ()
             else Inl (Validation_Err (''Task not found in registry: '' @ task_id))) w)"

definition state_counts :: "state_env \<Rightarrow> options \<Rightarrow> state_world \<Rightarrow> state_world \<times> task_counts res" where
  "state_counts sv args = with_registry sv args (\<lambda>r. Inr (counts r))"

definition state_locks :: "state_env \<Rightarrow> options \<Rightarrow> state_world \<Rightarrow> state_world \<times> string list res" where
  "state_locks sv args =
     with_registry sv args (\<lambda>r.
       let format = unwrap_or ''count'' (bt_get args ''format''); locks = rg_resource_locks r in
       if format = ''count'' then Inr [show_nat (length locks)]
       else if format = ''lines'' then Inr (map (\<lambda>(k, l). k @ '' -> '' @ lk_task_id l) locks)
       else Inl (Validation_Err (''Unknown lock format '' @ [CHR 0x27] @ format @ [CHR 0x27] @ ''; expected count|lines'')))"

definition state_slo_metric :: "state_env \<Rightarrow> options \<Rightarrow> state_world \<Rightarrow> state_world \<times> (int \<times> bool) res" where
  "state_slo_metric sv args w =
     (case required_arg args ''task-id'' of Inl e \<Rightarrow> (w, Inl e) | Inr task_id \<Rightarrow>
      case required_arg args ''metric'' of Inl e \<Rightarrow> (w, Inl e) | Inr metric \<Rightarrow>
      with_registry sv args
        (\<lambda>r. Inr (case find_task (rg_tasks r) task_id of
             None \<Rightarrow> (0, False)
           | Some t \<Rightarrow> (unwrap_or 0 (metric_i64 metric (tk_runtime t)), has_slo_warning metric (tk_runtime t)))) w)"

section \<open>Saving\<close>

definition state_save_snapshot :: "state_env \<Rightarrow> options \<Rightarrow> snapshot \<Rightarrow> state_world \<Rightarrow> state_world \<times> unit res" where
  "state_save_snapshot sv args sn w =
     (case resolve_storage_mode args of
        Inl e \<Rightarrow> (w, Inl e)
      | Inr Json_Mode \<Rightarrow> (case json_save_snapshot (sv_sql sv) (sv_json sv) sn (sw_files w) of
            (fs, r) \<Rightarrow> (w\<lparr>sw_files := fs\<rparr>, r))
      | Inr _ \<Rightarrow> on_database sv args (sql_save_snapshot (sv_codec sv) (sv_sql sv) sn) w)"

definition state_unlock_resource ::
  "state_env \<Rightarrow> options \<Rightarrow> string option \<Rightarrow> bool \<Rightarrow> state_world \<Rightarrow> state_world \<times> nat res" where
  "state_unlock_resource sv args resource clear_all w =
     (case load_snapshot_view sv args w of
        (w1, Inl e) \<Rightarrow> (w1, Inl e)
      | (w1, Inr sn) \<Rightarrow>
          let locks = rg_resource_locks (sn_registry sn);
              (locks', removed) =
                (if clear_all then ([], length locks)
                 else case resource of
                   Some name \<Rightarrow> (bt_remove name locks, if bt_get locks name \<noteq> None then 1 else 0)
                 | None \<Rightarrow> (locks, 0))
          in case state_save_snapshot sv args
                    (sn\<lparr>sn_registry := (sn_registry sn)\<lparr>rg_resource_locks := locks'\<rparr>\<rparr>) w1 of
               (w2, r) \<Rightarrow> (w2, map_sum id (\<lambda>_. removed) r))"

text \<open>What a registry save starts from.\<close>

definition snapshot_to_update :: "state_env \<Rightarrow> options \<Rightarrow> storage_mode \<Rightarrow> state_world \<Rightarrow> state_world \<times> snapshot res" where
  "snapshot_to_update sv args mode w =
     (if mode = Json_Mode then (w, json_view sv w)
      else case has_snapshot_data (sv_sql sv) (sw_db w) of
        (db, Inl e) \<Rightarrow> (w\<lparr>sw_db := db\<rparr>, Inl e)
      | (db, Inr True) \<Rightarrow>
          (case (if should_mirror_json args then sql_load_snapshot (sv_codec sv) (sv_sql sv) db
                 else load_snapshot_without_events (sv_codec sv) (sv_sql sv) db) of
             (db', r) \<Rightarrow> (w\<lparr>sw_db := db'\<rparr>, r))
      | (db, Inr False) \<Rightarrow> (w\<lparr>sw_db := db\<rparr>,
          if jf_registry (sw_files w) \<noteq> None then json_view sv w else Inr (empty_snapshot (sv_now sv))))"

definition state_registry_save :: "state_env \<Rightarrow> options \<Rightarrow> json \<Rightarrow> state_world \<Rightarrow> state_world \<times> unit res" where
  "state_registry_save sv args registry w =
     (case resolve_storage_mode args of
        Inl e \<Rightarrow> (w, Inl e)
      | Inr mode \<Rightarrow>
          (case snapshot_to_update sv args mode w of
             (w1, Inl e) \<Rightarrow> (w1, Inl e)
           | (w1, Inr sn0) \<Rightarrow>
               (case sv_from_value sv registry of
                  Inl e \<Rightarrow> (w1, Inl e)
                | Inr r \<Rightarrow>
                    let sn = sn0\<lparr>sn_registry := r\<rparr>;
                        write_json = (\<lambda>w. case json_save_snapshot (sv_sql sv) (sv_json sv) sn (sw_files w) of
                                            (fs, r) \<Rightarrow> (w\<lparr>sw_files := fs\<rparr>, r))
                    in if mode = Json_Mode then write_json w1
                       else (case sql_save_snapshot (sv_codec sv) (sv_sql sv) sn (sw_db w1) of
                           (db, Inl e) \<Rightarrow> (w1\<lparr>sw_db := db\<rparr>, Inl e)
                         | (db, Inr _) \<Rightarrow>
                             ((if should_mirror_json args then fst (write_json (w1\<lparr>sw_db := db\<rparr>)) else w1\<lparr>sw_db := db\<rparr>),
                              Inr ())))))"

section \<open>The two modes agree\<close>

lemma runtime_mutation_sel:
  "um_runtime_status (runtime_mutation_of args k st now) = st" "um_phase (runtime_mutation_of args k st now) = given args ''phase''"
  "um_last_error (runtime_mutation_of args k st now) = given args ''last-error''"
  "um_heartbeat_ts (runtime_mutation_of args k st now) = given args ''heartbeat-ts''"
  "um_now (runtime_mutation_of args k st now) = now" "um_message (runtime_mutation_of args k st now) = bt_get args ''message''"
  "um_worker_id (runtime_mutation_of args k st now) = bt_get args ''worker-id''"
  "um_tool (runtime_mutation_of args k st now) = bt_get args ''tool''"
  "um_worktree (runtime_mutation_of args k st now) = bt_get args ''worktree''"
  "um_branch (runtime_mutation_of args k st now) = bt_get args ''branch''"
  "um_stdout_log (runtime_mutation_of args k st now) = bt_get args ''stdout-log''"
  "um_stderr_log (runtime_mutation_of args k st now) = bt_get args ''stderr-log''"
  "um_events_log (runtime_mutation_of args k st now) = bt_get args ''events-log''"
  "um_last_event_at (runtime_mutation_of args k st now) = bt_get args ''last-event-at''"
  by (simp_all add: runtime_mutation_of_def Let_def)

lemma phase_start_update:
  "tr_phase_started_at (rt\<lparr>tr_phase_started_at := x\<rparr>) = x"
  "rt\<lparr>tr_phase_started_at := x, tr_phase_started_at := y\<rparr> = rt\<lparr>tr_phase_started_at := y\<rparr>"
  by simp_all

lemma upd_runtime_twice:
  "upd_runtime g ((upd_runtime f t)\<lparr>tk_updated_at := u\<rparr>) = (upd_runtime (\<lambda>rt. g (f rt)) t)\<lparr>tk_updated_at := u\<rparr>"
  by (simp add: upd_runtime_def)

lemma upd_runtime_here: "f (tk_runtime t) = g (tk_runtime t) \<Longrightarrow> upd_runtime f t = upd_runtime g t"
  by (simp add: upd_runtime_def)

text \<open>C36: On a task, a transition in the registry file and one in the database do the same, except that only the file
  forgets the details of the last error of a task that ends; a runtime update whose numbers parse does the same except
  for the start of the phase, which the database moves on every update of a running task.\<close>

theorem modes_agree:
  assumes "\<forall>k \<in> {''pid'', ''attempt''}. given args k = [] \<or> parse_i64 (given args k) \<noteq> None"
    "pred_option (\<lambda>p. parse_u8 p \<noteq> None) (bt_get args ''progress'')"
  shows "json_transition_task m t =
     (if xm_new_state m \<in> {''merged'', ''abandoned'', ''todo''}
      then upd_runtime clear_last_error_details (transition_task m t) else transition_task m t)
   \<and> (upd_runtime (json_runtime args status now) t)\<lparr>tk_updated_at := Some now\<rparr> =
       upd_runtime (\<lambda>rt. rt\<lparr>tr_phase_started_at := tr_phase_started_at (json_runtime args status now (tk_runtime t))\<rparr>)
         (runtime_task (runtime_mutation_of args (tk_id t) status now) t)"
proof
  show "json_transition_task m t =
     (if xm_new_state m \<in> {''merged'', ''abandoned'', ''todo''}
      then upd_runtime clear_last_error_details (transition_task m t) else transition_task m t)"
    by (simp add: json_transition_task_def transition_task_def reset_runtime_to_idle_def clear_assignment_def
        upd_runtime_def clear_last_error_details_def set_status_def Let_def)
  let ?m = "runtime_mutation_of args (tk_id t) status now" and ?rt = "tk_runtime t"
  have pid: "or_else (um_pid ?m) (if at_rest status then None else tr_pid ?rt)
      = (if given args ''pid'' \<noteq> [] then parse_i64 (given args ''pid'') else if at_rest status then None else tr_pid ?rt)"
    using assms(1) by (auto simp: runtime_mutation_of_def Let_def)
  have attempt: "or_else (um_attempt ?m) (tr_attempt ?rt)
      = (if given args ''attempt'' \<noteq> [] then parse_i64 (given args ''attempt'') else tr_attempt ?rt)"
    using assms(1) by (auto simp: runtime_mutation_of_def Let_def)
  have progress: "or_else (um_progress ?m) (tr_progress ?rt)
      = (case bt_get args ''progress'' of None \<Rightarrow> tr_progress ?rt | Some p \<Rightarrow> parse_u8 p)"
    using assms(2) by (auto simp: runtime_mutation_of_def Let_def split: option.split)
  show "(upd_runtime (json_runtime args status now) t)\<lparr>tk_updated_at := Some now\<rparr> =
       upd_runtime (\<lambda>rt. rt\<lparr>tr_phase_started_at := tr_phase_started_at (json_runtime args status now ?rt)\<rparr>)
         (runtime_task ?m t)"
    unfolding runtime_task_def upd_runtime_twice runtime_mutation_sel
    by (rule arg_cong [where f = "\<lambda>t. t\<lparr>tk_updated_at := Some now\<rparr>"], rule upd_runtime_here)
      (simp only: json_runtime_def Let_def phase_start_update pid attempt progress runtime_as_str.simps)
qed

section \<open>Failures change nothing\<close>

lemma in_tx_error: "in_tx se f db = (db', Inl e) \<Longrightarrow> db' = db \<or> db' = init_schema db"
  by (auto simp: in_tx_def Let_def split: option.splits sum.splits prod.splits)

lemma database_errors:
  "apply_transition_with_event cd se m event db = (db', Inl e) \<Longrightarrow> db' = db \<or> db' = init_schema db"
  "set_runtime_with_event cd se u event db = (db', Inl e) \<Longrightarrow> db' = db \<or> db' = init_schema db"
  "set_merge_pending cd se g db = (db', Inl e) \<Longrightarrow> db' = db \<or> db' = init_schema db"
  "set_merge_processed cd se h db = (db', Inl e) \<Longrightarrow> db' = db \<or> db' = init_schema db"
  "increment_task_retries cd se k now db = (db', Inl e) \<Longrightarrow> db' = db \<or> db' = init_schema db"
  "store_slo_warning cd se s db = (db', Inl e) \<Longrightarrow> db' = db \<or> db' = init_schema db"
  unfolding apply_transition_with_event_def set_runtime_with_event_def set_merge_pending_def set_merge_processed_def
    increment_task_retries_def store_slo_warning_def change_task_def
  by (blast dest: in_tx_error)+

definition nothing_done :: "state_world \<Rightarrow> state_world \<Rightarrow> bool" where
  "nothing_done w w' =
     (sw_files w' = sw_files w \<and> sw_exported w' = sw_exported w \<and> (sw_db w' = sw_db w \<or> sw_db w' = init_schema (sw_db w)))"

lemma nothing_done_refl: "nothing_done w w"
  by (simp add: nothing_done_def)

lemma on_database_error:
  assumes "on_database sv args f w = (w', Inl e)" "\<not> should_mirror_json args"
    "\<And>db' e. f (sw_db w) = (db', Inl e) \<Longrightarrow> db' = sw_db w \<or> db' = init_schema (sw_db w)"
  shows "nothing_done w w'"
  using assms by (auto simp: on_database_def maybe_mirror_json_def nothing_done_def split: prod.splits sum.splits)

lemma command_errors:
  assumes "\<not> should_mirror_json args"
  shows "on_database sv args (apply_transition_with_event cd se m event) w = (w', Inl e) \<Longrightarrow> nothing_done w w'"
    "on_database sv args (set_runtime_with_event cd se u event) w = (w', Inl e) \<Longrightarrow> nothing_done w w'"
    "on_database sv args (set_merge_pending cd se g) w = (w', Inl e) \<Longrightarrow> nothing_done w w'"
    "on_database sv args (set_merge_processed cd se h) w = (w', Inl e) \<Longrightarrow> nothing_done w w'"
    "on_database sv args (increment_task_retries cd se k now) w = (w', Inl e) \<Longrightarrow> nothing_done w w'"
    "on_database sv args (store_slo_warning cd se s) w = (w', Inl e) \<Longrightarrow> nothing_done w w'"
  by (erule on_database_error [OF _ assms]; drule database_errors; assumption)+

lemma in_registry_file_error:
  "in_registry_file sv k f g w = (w', Inl e) \<Longrightarrow> w' = w"
  by (auto simp: in_registry_file_def save_registry_file_def split: sum.splits option.splits if_splits)


section \<open>Approval states\<close>

definition approval_states :: "string list" where
  "approval_states = [''waiting_approval'', ''approved'', ''rejected'', ''expired'']"

lemma on_db_state: "fst (on_db se f db) = db \<or> fst (on_db se f db) = init_schema db"
  by (cases "f (init_schema db)") (auto simp: on_db_def in_tx_def Let_def split: option.split)

lemma export_keeps_tables:
  "sw_db (fst (export_to_json sv w)) = sw_db w \<or> sw_db (fst (export_to_json sv w)) = init_schema (sw_db w)"
proof -
  let ?r = "sql_load_snapshot (sv_codec sv) (sv_sql sv) (sw_db w)"
  have "sw_db (fst (export_to_json sv w)) = fst ?r"
    by (cases ?r; cases "snd ?r") (simp_all add: export_to_json_def storage_export_def split: prod.split)
  then show ?thesis using on_db_state unfolding sql_load_snapshot_def by metis
qed

lemma mirror_keeps_tables:
  "read_task cd k (sw_db (fst (maybe_mirror_json sv args w))) = read_task cd k (sw_db w)"
proof -
  have "sw_db (fst (maybe_mirror_json sv args w)) \<in> {sw_db w, init_schema (sw_db w)}"
    using export_keeps_tables [of sv w]
    by (auto simp: maybe_mirror_json_def Let_def split: prod.splits sum.splits)
  then show ?thesis by (auto simp: init_schema_store)
qed

lemma approval_state_spelled:
  "s \<in> set approval_states \<Longrightarrow> to_ascii_lowercase (trim s) \<in> {''waiting_approval'', ''approved'', ''rejected'', ''expired''}"
proof -
  have "list_all (\<lambda>s. to_ascii_lowercase (trim s) = s) approval_states" by code_simp
  then show "s \<in> set approval_states \<Longrightarrow>
      to_ascii_lowercase (trim s) \<in> {''waiting_approval'', ''approved'', ''rejected'', ''expired''}"
    by (auto simp: approval_states_def)
qed

lemma on_database_tables:
  assumes "on_database sv args f w = (w', r)"
  shows "read_task cd k (sw_db w') = read_task cd k (fst (f (sw_db w)))"
  using assms mirror_keeps_tables [of cd k sv args "w\<lparr>sw_db := fst (f (sw_db w))\<rparr>"]
  by (cases "f (sw_db w)"; cases "snd (f (sw_db w))") (auto simp: on_database_def)


section \<open>A small world\<close>

definition approved_task :: task where
  "approved_task = default_task\<lparr>tk_id := ''G1'', tk_state := ''approved''\<rparr>"

definition command_env :: state_env where
  "command_env =
     \<lparr>sv_codec = known_codec [claimed_task, approved_task,
          transition_task \<lparr>xm_task_id = ''T2'', xm_new_state = ''merged'', xm_pr_url = [], xm_reviewer = [],
            xm_reason = [], xm_now = ''now''\<rparr> claimed_task] (small_registry [] []) db_lock,
      sv_sql = small_env, sv_json = small_json_env, sv_from_value = (\<lambda>_. Inr (small_registry [] [])),
      sv_parse_error = (\<lambda>_. []), sv_number_error = (\<lambda>_. []), sv_missing = Validation_Err ''missing'', sv_instant = 0\<rparr>"

definition small_world :: state_world where
  "small_world =
     \<lparr>sw_db = fst (sql_save_snapshot (sv_codec command_env) small_env
        \<lparr>sn_registry = small_registry [claimed_task, approved_task] [], sn_events = [], sn_cursor = None\<rparr> (small_db [] [])),
      sw_files = \<lparr>jf_registry = None, jf_events = None, jf_cursor = None\<rparr>, sw_exported = None\<rparr>"

definition merge_args :: options where
  "merge_args = [(''state'', ''merged''), (''task-id'', ''T2'')]"

theorem modes_agree_witness:
  "json_transition_task merge_T2 claimed_task = upd_runtime clear_last_error_details (transition_task merge_T2 claimed_task)"
proof -
  have 1: "\<forall>k \<in> {''pid'', ''attempt''}. given merge_args k = [] \<or> parse_i64 (given merge_args k) \<noteq> None"
    by (simp add: given_def merge_args_def)
  have 2: "pred_option (\<lambda>p. parse_u8 p \<noteq> None) (bt_get merge_args ''progress'')" by (simp add: merge_args_def)
  from modes_agree [OF 1 2, of merge_T2 claimed_task] show ?thesis by (simp add: merge_T2_def)
qed



text \<open>Any word is stored as a state, whatever the state before.\<close>

lemma any_word_is_a_state:
  "case state_apply_transition command_env [(''state'', ''Mergd''), (''task-id'', ''T2'')] small_world of
     (w, Inl _) \<Rightarrow> False
   | (w, Inr _) \<Rightarrow> map_option tw_state (bt_get (db_tasks (sw_db w)) ''T2'') = Some ''Mergd'' \<and> (case workflow_from_str ''Mergd'' of Inl _ \<Rightarrow> True | Inr _ \<Rightarrow> False)"
  by code_simp

text \<open>In JSON mode the commands that know the database only look for the task there.\<close>

lemma mode_option:
  "bt_get (bt_insert ''storage-mode'' v args) ''task-id'' = bt_get args ''task-id''"
  "bt_get (bt_insert ''storage-mode'' v args) ''result-file'' = bt_get args ''result-file''"
  "bt_get (bt_insert ''storage-mode'' v args) ''pid'' = bt_get args ''pid''"
  "bt_get (bt_insert ''storage-mode'' v args) ''now'' = bt_get args ''now''"
  "bt_get (bt_insert ''storage-mode'' v args) ''mirror-json'' = bt_get args ''mirror-json''"
  "bt_get (bt_insert ''storage-mode'' v args) ''mirror-json-debounce-ms'' = bt_get args ''mirror-json-debounce-ms''"
  by (simp_all add: bt_get_insert)

lemma json_mode_is_ignored:
  "state_set_merge_pending sv (bt_insert ''storage-mode'' ''json'' args) w
    = state_set_merge_pending sv (bt_insert ''storage-mode'' ''sqlite'' args) w"
  unfolding state_set_merge_pending_def required_arg_def now_or_given_def on_database_def maybe_mirror_json_def
    should_mirror_json_def switched_on_def mirror_json_debounce_ms_def mode_option ..

end
