(* ===== verification/Recovery.thy ===== *)
theory Recovery
  imports State_Cmd Reconcile Prd_Queue
begin

text \<open>
  Recovery of the runtime state (\<open>coordinator/state_runtime.rs\<close>): the pause file, the clean-up of tasks whose
  process died, refreshed by the heartbeats of the event log, the tidying of ended tasks, and the sweep at start-up
  that classifies every task that claims work against its process, its worktree and the git history.
\<close>

section \<open>What recovery observes\<close>

text \<open>Git commands only read here; times are seconds.\<close>

record recovery_env =
  re_root :: string
  re_host :: host
  re_pid_running :: "int \<Rightarrow> bool"
  re_epoch :: "string \<Rightarrow> int option"
  re_now_epoch :: int
  re_pgrep :: "string \<Rightarrow> int list option"
  re_own_pid :: int
  re_in_repo :: "int \<Rightarrow> bool"
  re_word :: "string \<Rightarrow> bool"
  re_config_branch :: "string option"
  re_config_attempts :: "nat option"

definition host_env :: "host \<Rightarrow> unit git_env" where
  "host_env h =
     \<lparr>ge_run = (\<lambda>dir args g. (g, map_sum (\<lambda>_. ''git'') id (hs_git h dir args))), ge_exists = (\<lambda>p _. hs_exists h p),
      ge_create_dir_all = (\<lambda>_ g. (g, None)), ge_remove_dir_all = (\<lambda>_ g. (g, None)), ge_canonicalize = (\<lambda>p _. Some p),
      ge_lock = (\<lambda>_ _ g. (g, None))\<rparr>"

definition asked :: "(unit \<Rightarrow> unit \<times> 'a res) \<Rightarrow> 'a option" where
  "asked m = (case snd (m ()) of Inl _ \<Rightarrow> None | Inr a \<Rightarrow> Some a)"

definition commits_of :: "recovery_env \<Rightarrow> string \<Rightarrow> string \<Rightarrow> commit_info list option" where
  "commits_of re from_ref to_ref = asked (commits_between (host_env (re_host re)) (re_root re) from_ref to_ref)"

text \<open>Changes other than the two files the coordinator itself writes; when git cannot tell, there are some.\<close>

definition holds_changes :: "host \<Rightarrow> task \<Rightarrow> bool" where
  "holds_changes h t =
     (case Model.worktree_path t of
        None \<Rightarrow> False
      | Some path \<Rightarrow> hs_exists h path
          \<and> (case hs_git h path [''status'', ''--porcelain'', ''--'', ''.'', '':!performer.sh'', '':!worktree.prd.json''] of
               Inl _ \<Rightarrow> True
             | Inr out \<Rightarrow> \<not> go_success out \<or> go_stdout out \<noteq> []))"

section \<open>The pause file\<close>

record pause_file =
  pf_paused :: bool
  pf_task_id :: string
  pf_phase :: string
  pf_reason :: string
  pf_updated_at :: string

record pause_env =
  pe_now :: string
  pe_text :: "pause_file \<Rightarrow> string"
  pe_parse :: "string \<Rightarrow> string + pause_file"
  pe_path :: string
  pe_io_error :: "string \<Rightarrow> macc_error option"

definition write_pause_file ::
  "pause_env \<Rightarrow> string \<Rightarrow> string \<Rightarrow> string \<Rightarrow> string option \<Rightarrow> string option \<times> unit res" where
  "write_pause_file pe task_id phase reason content =
     (case or_else (pe_io_error pe ''create coordinator pause file parent'') (pe_io_error pe ''write coordinator pause file'') of
        Some e \<Rightarrow> (content, Inl e)
      | None \<Rightarrow> (Some (pe_text pe \<lparr>pf_paused = True, pf_task_id = task_id, pf_phase = phase, pf_reason = reason,
                                   pf_updated_at = pe_now pe\<rparr>), Inr ()))"

definition clear_pause_file :: "pause_env \<Rightarrow> string option \<Rightarrow> string option \<times> bool res" where
  "clear_pause_file pe content =
     (case content of
        None \<Rightarrow> (None, Inr False)
      | Some _ \<Rightarrow> (case pe_io_error pe ''remove coordinator pause file'' of
            Some e \<Rightarrow> (content, Inl e) | None \<Rightarrow> (None, Inr True)))"

definition read_pause_file :: "pause_env \<Rightarrow> string option \<Rightarrow> pause_file option res" where
  "read_pause_file pe content =
     (case content of
        None \<Rightarrow> Inr None
      | Some raw \<Rightarrow> (case pe_io_error pe ''read coordinator pause file'' of
            Some e \<Rightarrow> Inl e
          | None \<Rightarrow> (case pe_parse pe raw of
                Inl e \<Rightarrow> Inl (Coordinator_Err ''runtime_state'' (''Failed to parse coordinator pause file '' @ [CHR 0x27]
                           @ pe_path pe @ [CHR 0x27] @ '': '' @ e))
              | Inr v \<Rightarrow> Inr (Some v))))"

definition set_task_paused_for_merge :: "state_env \<Rightarrow> string \<Rightarrow> string \<Rightarrow> state_world \<Rightarrow> state_world \<times> unit res" where
  "set_task_paused_for_merge sv task_id reason =
     state_set_runtime sv (fold (\<lambda>(k, v). bt_insert k v)
       [(''task-id'', task_id), (''runtime-status'', ''paused''), (''phase'', ''merge''), (''last-error'', reason),
        (''pid'', [])] [])"

definition resume_paused_task_merge :: "state_env \<Rightarrow> string \<Rightarrow> state_world \<Rightarrow> state_world \<times> unit res" where
  "resume_paused_task_merge sv task_id w =
     (case state_apply_transition sv (fold (\<lambda>(k, v). bt_insert k v)
              [(''task-id'', task_id), (''state'', ''queued''), (''reason'', ''resume:merge_pause'')] []) w of
        (w1, Inl e) \<Rightarrow> (w1, Inl e)
      | (w1, Inr _) \<Rightarrow> state_set_runtime sv (fold (\<lambda>(k, v). bt_insert k v)
          [(''task-id'', task_id), (''runtime-status'', ''phase_done''), (''phase'', ''merge''), (''pid'', [])] []) w1)"

section \<open>Tasks whose process died\<close>

definition pid_running :: "recovery_env \<Rightarrow> int \<Rightarrow> bool" where
  "pid_running re pid = (0 < pid \<and> re_pid_running re pid)"

definition heartbeat_candidate :: "recovery_env \<Rightarrow> task \<Rightarrow> bool" where
  "heartbeat_candidate re t =
     (tk_id t \<noteq> [] \<and> runtime_status_of t = Rt_Running
      \<and> (case tr_pid (tk_runtime t) of None \<Rightarrow> False | Some pid \<Rightarrow> \<not> pid_running re pid))"

text \<open>The latest fresh heartbeat of each candidate; of equal times the first.\<close>

definition note_candidate ::
  "recovery_env \<Rightarrow> string option \<Rightarrow> string list \<Rightarrow> int \<Rightarrow> event_record \<Rightarrow> (string, string) btree \<Rightarrow> (string, string) btree" where
  "note_candidate re run_id candidates grace e latest =
     (let event_run = unwrap_or [] (ev_run_id e); task_id = unwrap_or [] (ev_task_id e) in
      if pred_option (\<lambda>expected. event_run = [] \<or> event_run = expected) run_id
         \<and> ev_event_type e = ''heartbeat'' \<and> task_id \<in> set candidates
      then (case re_epoch re (ev_ts e) of
              None \<Rightarrow> latest
            | Some at \<Rightarrow>
                if grace < re_now_epoch re - at then latest
                else let entry = unwrap_or (ev_ts e) (bt_get latest task_id);
                         existing = unwrap_or 0 (re_epoch re entry)
                     in bt_insert task_id (if existing < at then ev_ts e else entry) latest)
      else latest)"

definition refresh_candidate_heartbeats ::
  "recovery_env \<Rightarrow> string option \<Rightarrow> event_record list \<Rightarrow> int \<Rightarrow> task_registry \<Rightarrow> task_registry \<times> nat" where
  "refresh_candidate_heartbeats re run_id events grace r =
     (if grace \<le> 0 then (r, 0)
      else let candidates = map tk_id (filter (heartbeat_candidate re) (rg_tasks r)) in
        if candidates = [] then (r, 0)
        else let latest = fold (note_candidate re run_id candidates grace) events [];
                 hit = (\<lambda>t. bt_get latest (tk_id t) \<noteq> None)
             in (r\<lparr>rg_tasks := map (\<lambda>t. case bt_get latest (tk_id t) of
                      None \<Rightarrow> t | Some ts \<Rightarrow> upd_runtime (\<lambda>rt. rt\<lparr>tr_last_heartbeat := Some ts\<rparr>) t) (rg_tasks r)\<rparr>,
                 length (filter hit (rg_tasks r))))"

text \<open>Commits that the base lacks, or changes in the worktree; when git cannot compare, there is work.\<close>

definition holds_unmerged_work :: "recovery_env \<Rightarrow> task \<Rightarrow> bool" where
  "holds_unmerged_work re t =
     ((case branch_of t of
         None \<Rightarrow> False
       | Some branch \<Rightarrow>
           let base = base_branch (unwrap_or ''master'' (re_config_branch re)) t in
           base \<noteq> [] \<and> base \<noteq> branch
           \<and> (case commits_of re base branch of None \<Rightarrow> True | Some commits \<Rightarrow> commits \<noteq> []))
      \<or> holds_changes (re_host re) t)"

definition cleanup_dead_in_registry ::
  "recovery_env \<Rightarrow> sql_env \<Rightarrow> store_codec \<Rightarrow> ts_parser \<Rightarrow> int \<Rightarrow> task_registry \<Rightarrow> sql_db \<Rightarrow> sql_db \<times> (task_registry \<times> nat) res" where
  "cleanup_dead_in_registry re se cd ts grace r db =
     (let candidates = (if grace \<le> 0 then [] else filter (heartbeat_candidate re) (rg_tasks r));
          (db1, events) = (if candidates = [] then (db, [])
             else case sql_load_snapshot cd se db of (db1, Inl _) \<Rightarrow> (db1, []) | (db1, Inr sn) \<Rightarrow> (db1, sn_events sn));
          (r1, refreshed) = refresh_candidate_heartbeats re (se_run_id se) events grace r;
          r2 = (if 0 < refreshed then r1\<lparr>rg_updated_at := Some (se_now se)\<rparr> else r1)
      in (db1, map_sum id (\<lambda>(r3, cleaned).
             if cleaned = [] then (r3, 0)
             else ((recompute_resource_locks (se_now se) r3)\<lparr>rg_updated_at := Some (se_now se)\<rparr>, length cleaned))
           (cleanup_dead_runtime_tasks_in_registry_with Inr Inr ts r2 (se_now se) grace (pid_running re)
              (\<lambda>task_id claim_id. task_has_terminal_result_for_claim se task_id claim_id db1) (holds_unmerged_work re))))"

definition reconcile_registry_native ::
  "recovery_env \<Rightarrow> state_env \<Rightarrow> (task_registry \<Rightarrow> json res) \<Rightarrow> ts_parser \<Rightarrow> int \<Rightarrow> state_world \<Rightarrow> state_world \<times> unit res" where
  "reconcile_registry_native re sv to_value ts grace w =
     (case load_registry_view sv [] w of
        (w1, Inl e) \<Rightarrow> (w1, Inl e)
      | (w1, Inr r) \<Rightarrow>
          (case cleanup_dead_in_registry re (sv_sql sv) (sv_codec sv) ts grace r (sw_db w1) of
             (db, Inl e) \<Rightarrow> (w1\<lparr>sw_db := db\<rparr>, Inl e)
           | (db, Inr (r', _)) \<Rightarrow>
               (case to_value ((recompute_resource_locks (sv_now sv) r')\<lparr>rg_updated_at := Some (sv_now sv)\<rparr>) of
                  Inl e \<Rightarrow> (w1\<lparr>sw_db := db\<rparr>, Inl e)
                | Inr v \<Rightarrow> state_registry_save sv [] v (w1\<lparr>sw_db := db\<rparr>))))"

definition cleanup_dead_runtime_tasks ::
  "recovery_env \<Rightarrow> state_env \<Rightarrow> (task_registry \<Rightarrow> json res) \<Rightarrow> ts_parser \<Rightarrow> int \<Rightarrow> state_world \<Rightarrow> state_world \<times> nat res" where
  "cleanup_dead_runtime_tasks re sv to_value ts grace w =
     (case load_registry_view sv [] w of
        (w1, Inl e) \<Rightarrow> (w1, Inl e)
      | (w1, Inr r) \<Rightarrow>
          (case cleanup_dead_in_registry re (sv_sql sv) (sv_codec sv) ts grace r (sw_db w1) of
             (db, Inl e) \<Rightarrow> (w1\<lparr>sw_db := db\<rparr>, Inl e)
           | (db, Inr (r', fixed)) \<Rightarrow>
               if fixed = 0 then (w1\<lparr>sw_db := db\<rparr>, Inr 0)
               else (case to_value r' of
                  Inl e \<Rightarrow> (w1\<lparr>sw_db := db\<rparr>, Inl e)
                | Inr v \<Rightarrow> (case state_registry_save sv [] v (w1\<lparr>sw_db := db\<rparr>) of
                    (w2, res) \<Rightarrow> (w2, map_sum id (\<lambda>_. fixed) res)))))"

section \<open>Tidying of ended tasks\<close>

definition tidy_task :: "task \<Rightarrow> task" where
  "tidy_task t =
     (let forget = upd_runtime (\<lambda>rt. rt\<lparr>tr_pid := None\<rparr>) in
      if tk_state t \<in> {''abandoned'', ''todo''}
      then forget (t\<lparr>tk_worktree := (if is_awaiting_same_worktree_retry t then tk_worktree t else None),
                     tk_assignee := None\<rparr>)
      else if tk_state t = ''merged'' then forget (t\<lparr>tk_assignee := None\<rparr>)
      else t)"

definition cleanup_registry_native ::
  "state_env \<Rightarrow> (task_registry \<Rightarrow> json res) \<Rightarrow> state_world \<Rightarrow> state_world \<times> unit res" where
  "cleanup_registry_native sv to_value w =
     (case load_registry_view sv [] w of
        (w1, Inl e) \<Rightarrow> (w1, Inl e)
      | (w1, Inr r) \<Rightarrow>
          let r' = r\<lparr>rg_tasks := map tidy_task (rg_tasks r)\<rparr> in
          if rg_tasks r' = rg_tasks r then (w1, Inr ())
          else (case to_value ((recompute_resource_locks (sv_now sv) r')\<lparr>rg_updated_at := Some (sv_now sv)\<rparr>) of
                  Inl e \<Rightarrow> (w1, Inl e)
                | Inr v \<Rightarrow> state_registry_save sv [] v w1))"

section \<open>Classification at start-up\<close>

datatype mutation_action = Act_Merge | Act_Stale | Act_Blocked | Act_PhaseDone | Act_Requeue

record recovery_verdict =
  vd_situation :: string
  vd_classification :: string
  vd_action :: string
  vd_act :: "mutation_action option"

definition classify_parked_todo_task ::
  "recovery_env \<Rightarrow> string \<Rightarrow> nat \<Rightarrow> task \<Rightarrow> recovery_verdict option" where
  "classify_parked_todo_task re reference_branch budget t =
     (if \<not> has_worktree_attached t then None
      else if is_awaiting_tool_availability_retry t
              \<or> is_awaiting_same_worktree_retry t \<and> retries_count (tk_runtime t) \<le> budget then None
      else
        let branch = unwrap_or [] (branch_of t);
            has_commits = (branch \<noteq> [] \<and> (case commits_of re reference_branch branch of
                             None \<Rightarrow> False | Some commits \<Rightarrow> commits \<noteq> []))
        in if has_commits
           then Some \<lparr>vd_situation = ''Task is todo but holds worktree with unmerged commits on '' @ branch,
                      vd_classification = ''parked_unschedulable_with_commits'',
                      vd_action = ''Block for operator review; committed work is unmerged'', vd_act = Some Act_Blocked\<rparr>
           else if holds_changes (re_host re) t
           then Some \<lparr>vd_situation = ''Task is todo with retained uncommitted work on '' @ branch,
                      vd_classification = ''parked_unschedulable_with_changes'',
                      vd_action = ''Block for operator review; preserve uncommitted work'', vd_act = Some Act_Blocked\<rparr>
           else Some \<lparr>vd_situation = ''Task is todo but holds a worktree it can no longer be dispatched into'',
                      vd_classification = ''parked_unschedulable'',
                      vd_action = ''Release the stale worktree attachment and requeue'', vd_act = Some Act_Requeue\<rparr>)"

definition branch_has_commits_ahead :: "recovery_env \<Rightarrow> string \<Rightarrow> string \<Rightarrow> bool" where
  "branch_has_commits_ahead re branch reference_branch =
     (branch \<noteq> [] \<and> reference_branch \<noteq> []
      \<and> (case hs_git (re_host re) (re_root re) [''rev-list'', ''--count'', reference_branch @ ''..'' @ branch] of
           Inl _ \<Rightarrow> False
         | Inr out \<Rightarrow> go_success out \<and> 0 < unwrap_or 0 (parse_usize (trim (go_stdout out)))))"

definition is_merge_in_progress :: "host \<Rightarrow> string \<Rightarrow> bool" where
  "is_merge_in_progress h dir =
     (case hs_git h dir [''rev-parse'', ''--git-path'', ''MERGE_HEAD''] of
        Inl _ \<Rightarrow> False
      | Inr out \<Rightarrow>
          let path = trim (go_stdout out)
          in go_success out \<and> path \<noteq> [] \<and> hs_exists h (path_join dir path))"

definition worktree_dirty :: "recovery_env \<Rightarrow> string \<Rightarrow> bool" where
  "worktree_dirty re dir = unwrap_or False (asked (is_dirty (host_env (re_host re)) dir))"

definition heartbeat_age :: "recovery_env \<Rightarrow> task \<Rightarrow> int option" where
  "heartbeat_age re t =
     map_option (\<lambda>at. re_now_epoch re - at) (Option.bind (tr_last_heartbeat (tk_runtime t)) (re_epoch re))"

definition classify_dead :: "recovery_env \<Rightarrow> string \<Rightarrow> task \<Rightarrow> recovery_verdict" where
  "classify_dead re reference_branch t =
     (let at_worktree = (\<lambda>f. case Model.worktree_path t of None \<Rightarrow> False | Some wt \<Rightarrow> f (path_join (re_root re) wt));
          has_commits = at_worktree (\<lambda>dir. branch_has_commits_ahead re (unwrap_or [] (branch_of t)) reference_branch
                                           \<or> has_commits_ahead (re_host re) dir reference_branch)
      in if at_worktree (is_merge_in_progress (re_host re))
         then \<lparr>vd_situation = ''Git merge in progress'', vd_classification = ''blocked_merge_recovery'',
               vd_action = ''Manual intervention required'', vd_act = Some Act_Blocked\<rparr>
         else if has_commits
         then \<lparr>vd_situation = ''Performer dead but commit exists'', vd_classification = ''phase_done'',
               vd_action = ''Continue FSM advancement'', vd_act = Some Act_PhaseDone\<rparr>
         else if at_worktree (worktree_dirty re)
         then \<lparr>vd_situation = ''Worktree dirty, no phase result'', vd_classification = ''blocked_dirty_worktree'',
               vd_action = ''Require operator review'', vd_act = Some Act_Blocked\<rparr>
         else \<lparr>vd_situation = ''Performer dead, no changes'', vd_classification = ''process_dead'',
               vd_action = ''Requeue task'', vd_act = Some Act_Requeue\<rparr>)"

definition classify_active :: "recovery_env \<Rightarrow> string \<Rightarrow> reconcile_report \<Rightarrow> task \<Rightarrow> recovery_verdict" where
  "classify_active re reference_branch report t =
     (case List.find (\<lambda>e. rd_task_id e = tk_id t) (rr_reconciled report) of
        Some e \<Rightarrow> \<lparr>vd_situation = ''Commit '' @ take 7 (rd_sha e) @ '' matches task on base branch'',
                   vd_classification = ''merged'', vd_action = ''Close runtime claim'', vd_act = Some Act_Merge\<rparr>
      | None \<Rightarrow>
          (case tr_pid (tk_runtime t) of
             None \<Rightarrow> \<lparr>vd_situation = ''Claim exists but no process spawned'',
                      vd_classification = ''dispatched_without_process'', vd_action = ''Requeue safely'',
                      vd_act = Some Act_Requeue\<rparr>
           | Some pid \<Rightarrow>
               if \<not> pid_running re pid then classify_dead re reference_branch t
               else (case opt_filter (\<lambda>age. 180 < age) (heartbeat_age re t) of
                       Some age \<Rightarrow> \<lparr>vd_situation = ''Performer alive but heartbeat stale for '' @ show_int age @ ''s'',
                                    vd_classification = ''heartbeat_stale'',
                                    vd_action = ''Wait grace period, then block/requeue'', vd_act = Some Act_Stale\<rparr>
                     | None \<Rightarrow> \<lparr>vd_situation = ''Performer alive and heartbeat fresh'', vd_classification = ''adopted'',
                                vd_action = ''Continue monitoring'', vd_act = None\<rparr>)))"

definition is_phase_handoff :: "task \<Rightarrow> bool" where
  "is_phase_handoff t =
     (has_worktree_attached t \<and> runtime_status_of t = Rt_PhaseDone
      \<and> bt_get (tr_extra (tk_runtime t)) ''phase_tool_unavailable'' = Some (JBool True))"

definition classify_task ::
  "recovery_env \<Rightarrow> string \<Rightarrow> nat \<Rightarrow> reconcile_report \<Rightarrow> task \<Rightarrow> recovery_verdict option" where
  "classify_task re reference_branch budget report t =
     (if tk_state t = ''todo'' then classify_parked_todo_task re reference_branch budget t
      else if is_phase_handoff t then None
      else if \<not> is_active t \<and> tk_state t \<noteq> ''blocked'' then None
      else Some (classify_active re reference_branch report t))"

section \<open>Applying the classification\<close>

definition error_of_classification :: "string \<Rightarrow> string \<Rightarrow> (string \<times> string) option" where
  "error_of_classification c branch =
     (if c = ''heartbeat_stale'' then Some (''E413'', ''Performer heartbeat stale'')
      else if c = ''process_dead'' then Some (''E414'', ''Performer process dead'')
      else if c = ''blocked_dirty_worktree'' then Some (''E417'', ''Dirty worktree blocks recovery'')
      else if c = ''parked_unschedulable_with_commits''
      then Some (''E902'', ''Task could no longer be dispatched into its own worktree; committed work is unmerged on branch ''
                   @ branch)
      else if c = ''parked_unschedulable_with_changes''
      then Some (''E902'', ''Task could no longer resume its own worktree; uncommitted work was preserved on branch '' @ branch)
      else None)"

definition set_rt_status :: "string \<Rightarrow> task \<Rightarrow> task" where
  "set_rt_status st = upd_runtime (\<lambda>rt. rt\<lparr>tr_status := Some st\<rparr>)"

fun act_on_task :: "mutation_action \<Rightarrow> task \<Rightarrow> task" where
  "act_on_task Act_Merge t = clear_assignment (set_rt_status ''idle'' (t\<lparr>tk_state := ''merged''\<rparr>))"
| "act_on_task Act_Stale t = set_rt_status ''stale'' t"
| "act_on_task Act_Blocked t = t\<lparr>tk_state := ''blocked''\<rparr>"
| "act_on_task Act_PhaseDone t = set_rt_status ''phase_done'' t"
| "act_on_task Act_Requeue t = clear_assignment (set_rt_status ''idle'' (t\<lparr>tk_state := ''todo''\<rparr>))"

definition apply_verdict :: "mutation_action \<Rightarrow> string \<Rightarrow> task \<Rightarrow> task" where
  "apply_verdict act classification t =
     act_on_task act
       (case error_of_classification classification (unwrap_or [] (branch_of t)) of
          None \<Rightarrow> t
        | Some (code, message) \<Rightarrow>
            upd_runtime (\<lambda>rt. rt\<lparr>tr_last_error_code := Some code, tr_last_error := Some message\<rparr>) t)"

record recovery_entry =
  rn_task_id :: string
  rn_situation :: string
  rn_classification :: string
  rn_action :: string
  rn_mutated :: bool

definition entry_of_verdict :: "bool \<Rightarrow> task \<times> recovery_verdict \<Rightarrow> recovery_entry" where
  "entry_of_verdict dry_run = (\<lambda>(t, v).
     \<lparr>rn_task_id = tk_id t, rn_situation = vd_situation v, rn_classification = vd_classification v,
      rn_action = vd_action v, rn_mutated = (vd_act v \<noteq> None \<and> \<not> dry_run)\<rparr>)"

text \<open>Processes of the project that no task claims.\<close>

definition find_orphaned_pids :: "recovery_env \<Rightarrow> int list \<Rightarrow> int list" where
  "find_orphaned_pids re db_pids =
     filter (\<lambda>pid. pid \<noteq> re_own_pid re \<and> pid \<notin> set db_pids \<and> re_in_repo re pid)
       (remdups (unwrap_or [] (re_pgrep re ''performer'') @ unwrap_or [] (re_pgrep re ''macc'')))"

definition orphan_entry :: recovery_entry where
  "orphan_entry =
     \<lparr>rn_task_id = ''-'', rn_situation = ''Process exists but no active task claim'', rn_classification = ''orphaned'',
      rn_action = ''Surface and optionally force terminate'', rn_mutated = False\<rparr>"

definition verdicts ::
  "recovery_env \<Rightarrow> string \<Rightarrow> nat \<Rightarrow> reconcile_report \<Rightarrow> task list \<Rightarrow> (task \<times> recovery_verdict) list" where
  "verdicts re reference_branch budget report =
     List.map_filter (\<lambda>t. map_option (Pair t) (classify_task re reference_branch budget report t))"

definition apply_verdicts :: "(task \<times> recovery_verdict) list \<Rightarrow> task list \<Rightarrow> task list" where
  "apply_verdicts vs ts =
     fold (\<lambda>(t, v) ts. case vd_act v of None \<Rightarrow> ts
                       | Some act \<Rightarrow> update_task (tk_id t) (apply_verdict act (vd_classification v)) ts) vs ts"

text \<open>What the base branch already holds of the registry, and the attempts a worktree has.\<close>

definition delivered_on :: "recovery_env \<Rightarrow> string \<Rightarrow> task_registry \<Rightarrow> reconcile_report" where
  "delivered_on re reference_branch r =
     reconcile (re_word re) r
       (unwrap_or [] (asked (read_commit_range (host_env (re_host re)) (re_root re) None reference_branch)))"

definition worktree_budget :: "recovery_env \<Rightarrow> nat" where
  "worktree_budget re = (case re_config_attempts re of None \<Rightarrow> 1 | Some n \<Rightarrow> max n 1)"

definition execute_startup_recovery_sweep ::
  "recovery_env \<Rightarrow> store_codec \<Rightarrow> sql_env \<Rightarrow> string \<Rightarrow> bool \<Rightarrow> sql_db \<Rightarrow> sql_db \<times> recovery_entry list res" where
  "execute_startup_recovery_sweep re cd se reference_branch dry_run db =
     (let (db1, sn) = (case sql_load_snapshot cd se db of
                         (db1, Inl _) \<Rightarrow> (db1, empty_snapshot (se_now se)) | (db1, Inr sn) \<Rightarrow> (db1, sn));
          r = sn_registry sn;
          vs = verdicts re reference_branch (worktree_budget re) (delivered_on re reference_branch r) (rg_tasks r);
          changed = (\<not> dry_run \<and> list_ex (\<lambda>(_, v). vd_act v \<noteq> None) vs);
          r' = (if changed then r\<lparr>rg_tasks := apply_verdicts vs (rg_tasks r)\<rparr> else r);
          orphans = find_orphaned_pids re (List.map_filter (\<lambda>t. tr_pid (tk_runtime t)) (rg_tasks r'));
          entries = map (entry_of_verdict dry_run) vs @ map (\<lambda>_. orphan_entry) orphans
      in if changed
         then (case sql_save_snapshot cd se
                      (sn\<lparr>sn_registry := (recompute_resource_locks (se_now se) r')\<lparr>rg_updated_at := Some (se_now se)\<rparr>\<rparr>) db1 of
                 (db2, Inl e) \<Rightarrow> (db2, Inl (Coordinator_Err ''E412''
                                   (''Failed to persist recovery decisions: '' @ error_text e)))
               | (db2, Inr _) \<Rightarrow> (db2, Inr entries))
         else (db1, Inr entries))"

section \<open>What the sweep does to one task\<close>

definition swept :: "recovery_env \<Rightarrow> string \<Rightarrow> nat \<Rightarrow> reconcile_report \<Rightarrow> task \<Rightarrow> task" where
  "swept re reference_branch budget report t =
     (case classify_task re reference_branch budget report t of
        None \<Rightarrow> t
      | Some v \<Rightarrow> (case vd_act v of None \<Rightarrow> t | Some act \<Rightarrow> apply_verdict act (vd_classification v) t))"

lemma act_on_task_frame [simp]:
  "tk_id (act_on_task act t) = tk_id t" "tr_pid (tk_runtime (act_on_task act t)) = tr_pid (tk_runtime t)"
  by (cases act; simp add: set_rt_status_def clear_assignment_def upd_runtime_def)+

lemma apply_verdict_frame [simp]:
  "tk_id (apply_verdict act c t) = tk_id t" "tr_pid (tk_runtime (apply_verdict act c t)) = tr_pid (tk_runtime t)"
  by (simp_all add: apply_verdict_def upd_runtime_def split: option.split)

lemma swept_frame [simp]:
  "tk_id (swept re base n report t) = tk_id t"
  "tr_pid (tk_runtime (swept re base n report t)) = tr_pid (tk_runtime t)"
  by (simp_all add: swept_def split: option.split)

text \<open>Every verdict meets the task it was made for, so the registry is swept task by task.\<close>

lemma verdicts_simps:
  "verdicts re base n report [] = []"
  "verdicts re base n report (t # ts) =
     (case classify_task re base n report t of None \<Rightarrow> verdicts re base n report ts
      | Some v \<Rightarrow> (t, v) # verdicts re base n report ts)"
  by (simp_all add: verdicts_def List.map_filter_simps split: option.split)

lemma apply_verdicts_simps:
  "apply_verdicts [] ts = ts"
  "apply_verdicts ((t, v) # vs) ts =
     apply_verdicts vs (case vd_act v of None \<Rightarrow> ts
                        | Some act \<Rightarrow> update_task (tk_id t) (apply_verdict act (vd_classification v)) ts)"
  by (simp_all add: apply_verdicts_def)

lemma update_task_at:
  "distinct (map tk_id (ps @ t # ts)) \<Longrightarrow> update_task (tk_id t) f (ps @ t # ts) = ps @ f t # ts"
  by (induction ps) auto

lemma apply_verdicts_prefix:
  assumes "distinct (map tk_id (ps @ ts))"
  shows "apply_verdicts (verdicts re base n report ts) (ps @ ts) = ps @ map (swept re base n report) ts"
  using assms
proof (induction ts arbitrary: ps)
  case Nil
  then show ?case by (simp add: verdicts_simps apply_verdicts_simps)
next
  case (Cons t ts)
  let ?t = "swept re base n report t"
  have one: "apply_verdicts (verdicts re base n report (t # ts)) (ps @ t # ts)
      = apply_verdicts (verdicts re base n report ts) (ps @ ?t # ts)"
  proof (cases "classify_task re base n report t")
    case None
    then show ?thesis by (simp add: verdicts_simps swept_def)
  next
    case (Some v)
    then show ?thesis
      by (cases "vd_act v") (simp_all add: verdicts_simps apply_verdicts_simps swept_def update_task_at [OF Cons.prems])
  qed
  have "distinct (map tk_id ((ps @ [?t]) @ ts))" using Cons.prems by simp
  from Cons.IH [OF this] show ?case unfolding one by simp
qed

lemma sweep_maps:
  "distinct (map tk_id ts) \<Longrightarrow> apply_verdicts (verdicts re base n report ts) ts = map (swept re base n report) ts"
  using apply_verdicts_prefix [of "[]"] by simp

lemma swept_idle:
  assumes "\<not> list_ex (\<lambda>(_, v). vd_act v \<noteq> None) (verdicts re base n report ts)" "t \<in> set ts"
  shows "swept re base n report t = t"
  using assms by (induction ts) (auto simp: verdicts_simps swept_def split: option.splits)

text \<open>A snapshot that was loaded holds the stored tasks.\<close>

lemma registry_tasks:
  assumes "load_registry_with_conn cd se db = Inr r" "stored_tasks cd db \<noteq> []"
  shows "rg_tasks r = stored_tasks cd db"
proof -
  have tables: "rg_tasks (load_registry_from_tables cd se db) = stored_tasks cd db"
    by (simp add: load_registry_from_tables_def)
  then have "rg_tasks (merge_metadata meta (load_registry_from_tables cd se db)) = stored_tasks cd db" for meta
    using assms(2) by (simp add: merge_metadata_def)
  with tables assms(1) show ?thesis
    unfolding load_registry_with_conn_def by (auto split: option.splits prod.splits sum.splits)
qed

lemma loaded_tasks:
  assumes "sql_load_snapshot cd se db = (db1, Inr sn)"
  shows "db1 = init_schema db" "stored_tasks cd db \<noteq> [] \<Longrightarrow> rg_tasks (sn_registry sn) = stored_tasks cd db"
proof -
  have run: "snapshot_with_conn cd se (\<lambda>db. List.map_filter (event_of_row se) (by_seq (db_events db))) (init_schema db) = Inr sn"
    "db1 = init_schema db"
    using assms
    by (cases "snapshot_with_conn cd se (\<lambda>db. List.map_filter (event_of_row se) (by_seq (db_events db))) (init_schema db)";
        auto simp: sql_load_snapshot_def on_db_def in_tx_def Let_def split: option.splits)+
  show "db1 = init_schema db" by (rule run)
  have reg: "load_registry_with_conn cd se (init_schema db) = Inr (sn_registry sn)"
    using run(1) by (auto simp: snapshot_with_conn_def try_bind_def split: sum.splits)
  have "stored_tasks cd (init_schema db) = stored_tasks cd db" by (simp add: stored_tasks_def)
  then show "rg_tasks (sn_registry sn) = stored_tasks cd db" if "stored_tasks cd db \<noteq> []"
    using registry_tasks [OF reg] that by simp
qed

lemma sweep_runs:
  assumes "sql_load_snapshot cd se db = (db1, Inr sn)"
    "execute_startup_recovery_sweep re cd se base False db = (db', Inr es)"
  defines "r \<equiv> sn_registry sn"
  defines "vs \<equiv> verdicts re base (worktree_budget re) (delivered_on re base r) (rg_tasks r)"
  shows "\<not> list_ex (\<lambda>(_, v). vd_act v \<noteq> None) vs \<Longrightarrow> db' = db1"
    "list_ex (\<lambda>(_, v). vd_act v \<noteq> None) vs \<Longrightarrow>
       sql_save_snapshot cd se (sn\<lparr>sn_registry := (recompute_resource_locks (se_now se)
         (r\<lparr>rg_tasks := apply_verdicts vs (rg_tasks r)\<rparr>))\<lparr>rg_updated_at := Some (se_now se)\<rparr>\<rparr>) db1 = (db', Inr ())"
  using assms(1,2) unfolding r_def vs_def execute_startup_recovery_sweep_def Let_def
  by (simp_all split: prod.splits sum.splits)

lemma sweep_reads:
  assumes "store_ok cd db" "bt_get (db_tasks db) [] = None" "sql_load_snapshot cd se db = (db1, Inr sn)"
    "execute_startup_recovery_sweep re cd se base False db = (db', Inr es)"
    "\<forall>u \<in> set (stored_tasks cd db). reads_back cd (swept re base (worktree_budget re) (delivered_on re base (sn_registry sn)) u)"
    "read_task cd k db = Inr t"
  shows "read_task cd k db' = Inr (swept re base (worktree_budget re) (delivered_on re base (sn_registry sn)) t)"
proof -
  let ?s = "swept re base (worktree_budget re) (delivered_on re base (sn_registry sn))"
  let ?vs = "verdicts re base (worktree_budget re) (delivered_on re base (sn_registry sn)) (rg_tasks (sn_registry sn))"
  have k: "tk_id t = k" using read_task_ok [OF assms(1,6)] by simp
  have t: "t \<in> set (stored_tasks cd db)" using stored_tasks_set [OF assms(1), of t] assms(6) k by simp
  then have tasks: "rg_tasks (sn_registry sn) = stored_tasks cd db"
    by (intro loaded_tasks(2) [OF assms(3)]) auto
  have db1: "db1 = init_schema db" by (rule loaded_tasks(1) [OF assms(3)])
  have dist: "distinct (map tk_id (stored_tasks cd db))"
    using stored_tasks_sorted [OF assms(1)] by (simp add: strict_sorted_iff)
  show ?thesis
  proof (cases "list_ex (\<lambda>(_, v). vd_act v \<noteq> None) ?vs")
    case False
    have "?s t = t" by (rule swept_idle [OF False]) (simp add: t tasks)
    with sweep_runs(1) [OF assms(3,4) False] assms(6) show ?thesis by (simp add: db1 init_schema_store)
  next
    case True
    let ?r = "(sn_registry sn)\<lparr>rg_tasks := map ?s (stored_tasks cd db)\<rparr>"
    let ?sn = "sn\<lparr>sn_registry := (recompute_resource_locks (se_now se) ?r)\<lparr>rg_updated_at := Some (se_now se)\<rparr>\<rparr>"
    have applied: "apply_verdicts ?vs (rg_tasks (sn_registry sn)) = map ?s (stored_tasks cd db)"
      unfolding tasks by (rule sweep_maps [OF dist])
    from sweep_runs(2) [OF assms(3,4) True] have save: "sql_save_snapshot cd se ?sn (init_schema db) = (db', Inr ())"
      unfolding applied db1 .
    have ids: "tk_id u \<noteq> []" if "u \<in> set (stored_tasks cd db)" for u
      using that stored_tasks_set [OF assms(1), of u] assms(2) by (auto simp: read_task_eq)
    have new: "rg_tasks (sn_registry ?sn) = map ?s (stored_tasks cd db)" by (simp add: recompute_resource_locks_def)
    have "read_task cd (tk_id (?s t)) db' = Inr (?s t)"
    proof (rule save_found [OF _ save])
      show "store_ok cd (init_schema db)" by (simp add: init_schema_store assms(1))
      show "distinct (map tk_id (rg_tasks (sn_registry ?sn)))" unfolding new using dist by (simp add: comp_def)
      show "?s t \<in> set (rg_tasks (sn_registry ?sn))" unfolding new using t by simp
      show "\<forall>t \<in> set (rg_tasks (sn_registry ?sn)). tk_id t \<noteq> []" unfolding new using ids by simp
      show "reads_back cd (?s t)" using assms(5) t by blast
    qed
    then show ?thesis by (simp add: k)
  qed
qed

section \<open>A dry run predicts the sweep\<close>

lemma pids_kept:
  assumes "distinct (map tk_id ts)"
  shows "List.map_filter (\<lambda>t. tr_pid (tk_runtime t)) (apply_verdicts (verdicts re base n report ts) ts)
    = List.map_filter (\<lambda>t. tr_pid (tk_runtime t)) ts"
  unfolding sweep_maps [OF assms] by (induction ts) (simp_all add: List.map_filter_simps split: option.split)


section \<open>What the sweep takes away\<close>

text \<open>Nothing of a task is at stake when its process is gone and git shows neither a merge under way, nor commits
  that the base lacks, nor changes.\<close>

definition no_trace :: "recovery_env \<Rightarrow> string \<Rightarrow> task \<Rightarrow> bool" where
  "no_trace re base t =
     (case Model.worktree_path t of
        None \<Rightarrow> True
      | Some wt \<Rightarrow>
          let dir = path_join (re_root re) wt in
          \<not> is_merge_in_progress (re_host re) dir \<and> \<not> branch_has_commits_ahead re (unwrap_or [] (branch_of t)) base
          \<and> \<not> has_commits_ahead (re_host re) dir base \<and> \<not> worktree_dirty re dir)"

definition parked_empty :: "recovery_env \<Rightarrow> string \<Rightarrow> task \<Rightarrow> bool" where
  "parked_empty re base t =
     (\<not> is_awaiting_tool_availability_retry t \<and> \<not> holds_changes (re_host re) t
      \<and> (branch_of t \<in> {None, Some []} \<or> commits_of re base (unwrap_or [] (branch_of t)) \<in> {None, Some []}))"

definition on_base :: "reconcile_report \<Rightarrow> task \<Rightarrow> bool" where
  "on_base report t = (tk_id t \<in> rd_task_id ` set (rr_reconciled report))"

lemma act_on_task_worktree:
  "tk_worktree (act_on_task act t) = (if act = Act_Merge \<or> act = Act_Requeue then None else tk_worktree t)"
  by (cases act) (simp_all add: set_rt_status_def clear_assignment_def upd_runtime_def)

lemma apply_verdict_worktree:
  "tk_worktree (apply_verdict act c t) = (if act = Act_Merge \<or> act = Act_Requeue then None else tk_worktree t)"
  by (simp add: apply_verdict_def act_on_task_worktree upd_runtime_def split: option.split)

lemma on_base_find: "List.find (\<lambda>e. rd_task_id e = tk_id t) (rr_reconciled report) = None \<longleftrightarrow> \<not> on_base report t"
  by (force simp: find_None_iff on_base_def)

lemma act_on_task_state:
  "tk_state (act_on_task act t) =
     (case act of Act_Merge \<Rightarrow> ''merged'' | Act_Stale \<Rightarrow> tk_state t | Act_Blocked \<Rightarrow> ''blocked''
      | Act_PhaseDone \<Rightarrow> tk_state t | Act_Requeue \<Rightarrow> ''todo'')"
  by (cases act) (simp_all add: set_rt_status_def clear_assignment_def upd_runtime_def)

lemma apply_verdict_state:
  "tk_state (apply_verdict act c t) =
     (case act of Act_Merge \<Rightarrow> ''merged'' | Act_Stale \<Rightarrow> tk_state t | Act_Blocked \<Rightarrow> ''blocked''
      | Act_PhaseDone \<Rightarrow> tk_state t | Act_Requeue \<Rightarrow> ''todo'')"
  by (simp add: apply_verdict_def act_on_task_state upd_runtime_def split: option.split mutation_action.split)

lemma parked_verdict:
  assumes "classify_parked_todo_task re base n t = Some v"
  shows "vd_act v = Some Act_Blocked \<or> vd_act v = Some Act_Requeue \<and> parked_empty re base t"
  using assms by (auto simp: classify_parked_todo_task_def parked_empty_def Let_def unwrap_or_def
      split: if_splits option.splits)

lemma dead_verdict:
  "vd_act (classify_dead re base t) = Some Act_Requeue \<Longrightarrow> no_trace re base t"
  "vd_act (classify_dead re base t) \<noteq> Some Act_Merge"
  by (auto simp: classify_dead_def no_trace_def Let_def split: if_splits option.splits)

lemma active_verdict:
  assumes "v = classify_active re base report t"
  shows "vd_act v = Some Act_Merge \<Longrightarrow> on_base report t"
    "vd_act v = Some Act_Requeue \<Longrightarrow> tr_pid (tk_runtime t) = None
       \<or> (\<exists>pid. tr_pid (tk_runtime t) = Some pid \<and> \<not> pid_running re pid \<and> no_trace re base t)"
    "\<not> on_base report t \<Longrightarrow> tr_pid (tk_runtime t) = Some pid \<Longrightarrow> pid_running re pid \<Longrightarrow>
       opt_filter (\<lambda>age. 180 < age) (heartbeat_age re t) = None \<Longrightarrow> vd_act v = None"
  unfolding assms classify_active_def using dead_verdict [of re base t]
  using on_base_find [of t report] by (auto split: option.splits if_splits)

lemma swept_takes:
  fixes re base n report t
  defines "t' \<equiv> swept re base n report t"
  shows "tk_worktree t' = tk_worktree t
       \<or> tk_state t' = ''merged'' \<and> on_base report t
       \<or> tk_state t' = ''todo'' \<and> tk_state t = ''todo'' \<and> parked_empty re base t
       \<or> tk_state t' = ''todo'' \<and> (is_active t \<or> tk_state t = ''blocked'') \<and> tr_pid (tk_runtime t) = None
       \<or> tk_state t' = ''todo'' \<and> (is_active t \<or> tk_state t = ''blocked'')
          \<and> (\<exists>pid. tr_pid (tk_runtime t) = Some pid \<and> \<not> pid_running re pid) \<and> no_trace re base t"
proof (cases "\<exists>v act. classify_task re base n report t = Some v \<and> vd_act v = Some act \<and> (act = Act_Merge \<or> act = Act_Requeue)")
  case False
  then have "tk_worktree t' = tk_worktree t"
    by (auto simp: t'_def swept_def apply_verdict_worktree split: option.split)
  then show ?thesis ..
next
  case True
  then obtain v act where v: "classify_task re base n report t = Some v" "vd_act v = Some act"
    and act: "act = Act_Merge \<or> act = Act_Requeue" by blast
  have st: "tk_state t' = (if act = Act_Merge then ''merged'' else ''todo'')"
    using act by (auto simp: t'_def swept_def v apply_verdict_state)
  show ?thesis
  proof (cases "tk_state t = ''todo''")
    case True
    then have "classify_parked_todo_task re base n t = Some v" using v(1) by (simp add: classify_task_def)
    from parked_verdict [OF this] v(2) act st True show ?thesis by auto
  next
    case False
    then have "v = classify_active re base report t" "is_active t \<or> tk_state t = ''blocked''"
      using v(1) by (auto simp: classify_task_def split: if_splits)
    with active_verdict(1,2) [OF this(1)] v(2) act st show ?thesis by auto
  qed
qed

lemma swept_adopts:
  assumes "tk_state t \<noteq> ''todo''" "\<not> on_base report t" "tr_pid (tk_runtime t) = Some pid" "pid_running re pid"
    "opt_filter (\<lambda>age. 180 < age) (heartbeat_age re t) = None"
  shows "swept re base n report t = t"
  using active_verdict(3) [OF refl assms(2-5)] assms(1) by (simp add: swept_def classify_task_def)


text \<open>A parked task with commits is blocked for review; having no process, it loses its worktree to the next sweep.\<close>

lemma second_sweep_drops_work:
  assumes "classify_parked_todo_task re base n t = Some v" "vd_act v = Some Act_Blocked" "tk_state t = ''todo''"
    "tr_pid (tk_runtime t) = None" "runtime_status_of t \<noteq> Rt_PhaseDone" "\<not> on_base report t"
  shows "tk_state (swept re base n report t) = ''blocked'' \<and> tk_worktree (swept re base n report t) = tk_worktree t
    \<and> tk_state (swept re base n report (swept re base n report t)) = ''todo''
    \<and> tk_worktree (swept re base n report (swept re base n report t)) = None"
proof -
  have once: "swept re base n report t = apply_verdict Act_Blocked (vd_classification v) t"
    using assms(1-3) by (simp add: swept_def classify_task_def)
  define u where "u = swept re base n report t"
  have u: "tk_state u = ''blocked''" "tk_worktree u = tk_worktree t" "tr_pid (tk_runtime u) = None" "tk_id u = tk_id t"
    by (simp_all add: u_def once apply_verdict_state apply_verdict_worktree assms(4))
  have "runtime_status_of u = runtime_status_of t"
    by (simp add: u_def once apply_verdict_def upd_runtime_def runtime_status_of_def status_of_def split: option.split)
  then have hand: "\<not> is_phase_handoff u" using assms(5) by (simp add: is_phase_handoff_def)
  have "\<not> on_base report u" using assms(6) by (simp add: on_base_def u(4))
  then have "vd_act (classify_active re base report u) = Some Act_Requeue"
    using on_base_find [of u report] by (simp add: classify_active_def u(3))
  then have "swept re base n report u = apply_verdict Act_Requeue (vd_classification (classify_active re base report u)) u"
    by (simp add: swept_def classify_task_def u(1) hand)
  then show ?thesis using u by (simp add: u_def apply_verdict_state apply_verdict_worktree)
qed

section \<open>A small sweep\<close>

text \<open>A machine where no git command runs; one claimed task without a process, one task to do.\<close>

definition quiet_recovery :: recovery_env where
  "quiet_recovery =
     \<lparr>re_root = ''/p'', re_host = sample_host, re_pid_running = (\<lambda>_. False), re_epoch = (\<lambda>_. None), re_now_epoch = 0,
      re_pgrep = (\<lambda>_. Some [7]), re_own_pid = 1, re_in_repo = (\<lambda>_. True), re_word = (\<lambda>_. False),
      re_config_branch = None, re_config_attempts = None\<rparr>"

definition sweep_codec :: store_codec where
  "sweep_codec = known_codec
     [claimed_task, other_task, apply_verdict Act_Requeue ''dispatched_without_process'' claimed_task]
     (small_registry [] [(''db'', db_lock)]) db_lock"

definition sweep_db :: sql_db where
  "sweep_db = fst (sql_save_snapshot sweep_codec small_env small_snapshot (small_db [] []))"

definition sweep_snapshot :: snapshot where
  "sweep_snapshot = (case snd (sql_load_snapshot sweep_codec small_env sweep_db) of Inr sn \<Rightarrow> sn | Inl _ \<Rightarrow> small_snapshot)"

definition sweep_small :: "bool \<Rightarrow> sql_db \<times> recovery_entry list res" where
  "sweep_small dry_run = execute_startup_recovery_sweep quiet_recovery sweep_codec small_env ''main'' dry_run sweep_db"

lemma small_sweep:
  "store_ok sweep_codec sweep_db" "bt_get (db_tasks sweep_db) [] = None" "stored_tasks sweep_codec sweep_db \<noteq> []"
  "read_task sweep_codec ''T2'' sweep_db = Inr claimed_task"
  by code_simp+

lemma small_sweep_loads:
  "sql_load_snapshot sweep_codec small_env sweep_db = (init_schema sweep_db, Inr sweep_snapshot)"
proof -
  have "case snd (sql_load_snapshot sweep_codec small_env sweep_db) of Inl _ \<Rightarrow> False | Inr _ \<Rightarrow> True" by code_simp
  moreover from this have "fst (sql_load_snapshot sweep_codec small_env sweep_db) = init_schema sweep_db"
    by (cases "sql_load_snapshot sweep_codec small_env sweep_db")
      (auto dest: loaded_tasks(1) split: sum.splits)
  ultimately show ?thesis by (auto simp: sweep_snapshot_def prod_eq_iff split: sum.splits)
qed

lemma small_sweep_runs: "\<exists>es. sweep_small False = (fst (sweep_small False), Inr es)"
proof -
  have "case snd (sweep_small False) of Inl _ \<Rightarrow> False | Inr _ \<Rightarrow> True" by code_simp
  then show ?thesis by (auto simp: prod_eq_iff split: sum.splits)
qed



end
