(* ===== verification/Spec2Isabelle.thy ===== *)
theory Spec2Isabelle
  imports Lifecycle Control_Loop Routing Runtime_Events Prd_Sync Ownership Reconcile Clear Recovery
begin

text \<open>
  A model of the coordinator of macc, the part of the program that hands tasks of a PRD to coding
  tools, follows each task through its phases and merges the result (\<open>src/core/src/coordinator.rs\<close> and
  \<open>src/core/src/coordinator/\<close>), of the queue of PRDs it works through (\<open>src/core/src/prd_queue.rs\<close>), of the git
  history as evidence of finished work, of the leases that say who controls a project, and of the plans by
  which the files of the tools are installed into a project and taken away again.

  The parts and how they meet.  A registry holds the tasks, their resource locks and their runtime
  records.  In each cycle of the control loop the coordinator brings the registry in line with the PRD,
  reconciles external blocks and human gates, applies what performers reported on the event bus, deals
  with stale heartbeats, selects a ready task, decides which model it needs, claims it and starts a performer; when a performer ends, its report is
  classified, a retry strategy is chosen and applied to the task; tasks in later states are advanced
  through test, review, fix and merge; tasks whose process died are reclaimed.  The controller of the
  run decides from the counts of the registry whether to go on.

  Theories, in the order of their dependencies:
  \<^item> \<open>Prelude\<close>: what the code uses of the Rust library (trimming, splitting, formatting, parsing of
    numbers, ordered maps as sorted association lists, saturating arithmetic on 64-bit words) and
    \<open>serde_json\<close> values; the error type \<open>MaccError\<close> (\<open>lib.rs\<close>).  The locale \<open>text_enum\<close> states what an
    \<open>as_str\<close>/\<open>from_str\<close> pair promises, \<open>map_api\<close> what insertion, lookup and removal of an ordered map
    promise, and \<open>keyed_store\<close> (in \<open>Model\<close>) what a store of tasks under their ids promises; each is
    interpreted on the model's own functions.
  \<^item> \<open>Workflow\<close>: workflow states, runtime statuses and completion kinds with their texts, the two
    transition tables, completion authority (\<open>coordinator.rs\<close>).
  \<^item> \<open>Gate\<close> and \<open>Model\<close>: gates and quorum; tasks, registry, locks, worktree slots and counts
    (\<open>model.rs\<close>).  Each Rust struct is a record with the same fields, prefixed by two letters; a
    method on \<open>&mut self\<close> is a function that returns the updated record.  Workflow states are stored as
    text, as in the code, and read back by \<open>workflow_state_of\<close>, which is \<open>None\<close> for an unknown text.
  \<^item> \<open>Error_Codes\<close> (\<open>error_normalizer.rs\<close>) and \<open>Rate_Limit\<close> (\<open>rate_limit.rs\<close>): classes, codes, retry
    policies, truncation; throttle states and backoff on 64-bit words.
  \<^item> \<open>Selector\<close> and \<open>Blocks\<close> (\<open>task_selector.rs\<close>): candidates, choice of tool and resumption of worktrees;
    the search for a blocked dependency, the reconciliation of blocks, the diagnosis of a stall.
  \<^item> \<open>Scope\<close> (\<open>precondition_scope.rs\<close>): paths mentioned in preconditions and the glob matcher.
  \<^item> \<open>Completion\<close> (\<open>engine/completion.rs\<close>, \<open>engine/retry.rs\<close>), \<open>Worktree\<close> (git evidence of \<open>engine/fsm.rs\<close>
    and \<open>git.rs\<close>) and \<open>Transitions\<close> (\<open>engine/transitions.rs\<close>): from a finished job to the task after it.
  \<^item> \<open>Fsm\<close> (\<open>engine/advance_plan.rs\<close>, \<open>engine/fsm.rs\<close>): the plan, the transition function, dispatch,
    phase and merge outcomes, clean-up, salvage, gate verdicts.
  \<^item> \<open>Approval\<close> (\<open>approval.rs\<close>): evaluation of a gate against its ledger, reconciliation, validation of
    decisions, what is shown to approvers.
  \<^item> \<open>Control_Loop\<close> (\<open>engine/fsm.rs\<close>): controller, cycle and loop over an abstract backend.
  \<^item> \<open>Routing\<close> (\<open>model_routing.rs\<close>): the tier of model and the depth of reasoning for a task in a phase.
  \<^item> \<open>Json_Codec\<close> and \<open>Text\<close>: what the code uses of serde's derived codecs and of text splitting.
  \<^item> \<open>Events\<close> (\<open>coordinator.rs\<close>): the event record with its JSON form, payloads, readers, validation.
  \<^item> \<open>Runtime_Events\<close> (\<open>runtime.rs\<close>, \<open>control_plane/base.rs\<close>): runtime events read from raw events, updates
    from the event bus, the timer before a performer is killed, stale heartbeats, concurrency.
  \<^item> \<open>Prd_Queue\<close> (\<open>prd_queue.rs\<close>): inspection and validation of the PRD files, the run of the queue over an
    abstract world of files and storage.
  \<^item> \<open>Prd_Sync\<close> (\<open>control_plane/base.rs\<close>): the synchronization of the registry with the PRD.
  \<^item> \<open>Json_Text\<close> and \<open>Ownership\<close> (\<open>process_ownership/\<close>, \<open>service/process_ownership.rs\<close>): who may control the
    coordinator of a project: leases with an owner, viewers and takeover requests, their JSON store, the
    eviction of stale clients, every service operation and the gates in front of the commands.  The locale
    \<open>lease_operation\<close> states what a change of a record keeps; every operation of the service interprets it.
  \<^item> \<open>Commits\<close> (\<open>commit_message.rs\<close>, \<open>commit_completion.rs\<close>): commit messages, written and read back, and
    which commits deliver a task.
  \<^item> \<open>Git_Cmd\<close> (\<open>git.rs\<close>): the git commands as steps on an abstract state of repositories; \<open>Integration\<close>
    (\<open>integration.rs\<close>): the private worktree for merges and the publication of its head; \<open>Reconcile\<close>
    (\<open>commit_reconciler.rs\<close>): task states from the git history, branches that were never merged.
  \<^item> \<open>Event_Store\<close> and \<open>Task_Store\<close> (\<open>coordinator_storage.rs\<close>): the tables of the SQLite database as records and
    ordered maps, a transaction as a function on them; the event log with its pruning and its replay, the
    mutations of one task, the resource locks, saving and loading of snapshots, the JSON store and the transfers
    between the two.  The locale \<open>task_mutation\<close> states what a mutation of one task keeps of the tables; every
    mutation of the code interprets it.
  \<^item> \<open>State_Cmd\<close> (\<open>state.rs\<close>): the commands on the state of the coordinator with their options, in JSON and in
    database mode.
  \<^item> \<open>Recovery\<close> (\<open>state_runtime.rs\<close>): the pause file, the clean-up of dead processes, the tidying of ended
    tasks and the sweep at start-up, which classifies each task by its process, its worktree and the history.
  \<^item> \<open>Json_Merge\<close> and \<open>Plan\<close> (\<open>plan/\<close>, \<open>security/secret_scan.rs\<close>, \<open>validate_plan\<close> of \<open>lib.rs\<close>): the actions
    the adapters ask for, the operation each path gets, JSON merges, the scan for secrets.  The locale
    \<open>array_merge\<close> states what a treatment of arrays promises; both merges of the code interpret it.
  \<^item> \<open>Apply\<close> (\<open>apply_operations\<close> of \<open>lib.rs\<close>, \<open>structured_merge.rs\<close>, \<open>user_backup.rs\<close>): a plan carried out on a
    world of files; \<open>Clear\<close> (\<open>lib.rs\<close>): what belongs to MACC in a project, and its removal.
  \<^item> \<open>Lifecycle\<close>: one task under all of these handlers, as a step relation with its invariant.
  \<^item> this theory: the properties that span dispatch, locks, gates and blocks.

  A function with \<open>Result\<close> returns \<open>macc_error + 'a\<close>, one with \<open>Option\<close> an \<open>option\<close>.  Large handlers are
  split along their branches: \<open>apply_state_transitions\<close> into one definition per retry outcome,
  \<open>reconcile_task_blocks\<close> into a task, a pass and the loop, \<open>evaluate_gate\<close> and its reconciliation into
  the notes, the event and the next state.  The \<open>file:line\<close> of each is in the manifest.

  What the lemmas show.  Each component has rules that say when its operations return what
  (\<open>candidate_Some\<close>, \<open>evaluate_gate_Some\<close>, \<open>resolve_phase_done\<close>), frame rules collected in \<open>coord_frame\<close>
  that say which fields an operation keeps, and the invariants of its data.  The properties are
  numbered C1, C2 and so on in the texts before them.

  Fuel.  The loop over block passes has fuel \<open>length + 3\<close>; it is proved to be enough on every registry
  (in \<open>Blocks\<close>: blocking passes and releasing passes are each bounded by the number of tasks), and
  \<open>reconcile_task_blocks\<close> is total.  The control loop may run for ever by design, so
  \<open>run_control_plane\<close> has one unit of fuel per cycle and \<open>None\<close> means that it is still running; the
  statements about it say what a run that ended did, and that a run of five failing cycles, or a
  stalled one, does end.  The depth-first search, the glob matcher and the loop over the PRD queue
  terminate by a measure.

  Parameters of the model.  RFC 3339 parsing and arithmetic on timestamps (chrono), the encoders and
  decoders of serde, process liveness, file tests and git runs, the failures of the database, the normalizers of the adapters, the
  decision ledger, the digest of a subject's revision and the backend of the control loop are
  arguments.  Hypotheses about them are only that a codec reads back what it wrote, that sleeping
  succeeds, and what git documents about the tip of a branch (\<open>git_law\<close> in \<open>Integration\<close>).  Strings are lists of bytes (UTF-8), as in Rust, and \<open>trim\<close> removes the
  encodings of all Unicode white space.  Tracing calls are left out.  Counts of type \<open>usize\<close> are natural
  numbers where they count list elements.

  Not modelled.  The spawning of processes, IPC, logs, the terminal and web interfaces, the command line, the
  adapters and the service layer are input, output and glue around the functions above, or run tools whose
  behaviour is not in this code: the supervisor, the audit and the generation of PRDs ask a language model
  and act on its answer.  The dispatch and merge parts of \<open>control_plane/\<close> drive these processes; what they
  decide goes through the functions of \<open>Fsm\<close>, \<open>Selector\<close> and \<open>Integration\<close>.  SQLite itself is
  the tables and transactions of \<open>Event_Store\<close>; its files, locks and pragmas are the parameter \<open>se_fail\<close>.
  Operator commands (\<open>unblock-task\<close>, \<open>abandon\<close>) are not steps of \<open>Lifecycle\<close>.
\<close>

section \<open>Exclusive resources\<close>

definition lock_holder :: "task \<Rightarrow> bool" where
  "lock_holder t = (tk_id t \<noteq> [] \<and> tk_state t \<in> set lock_states)"

definition shared_resources :: "task \<Rightarrow> task \<Rightarrow> string list" where
  "shared_resources t u =
     filter (\<lambda>k. k \<noteq> [] \<and> k \<in> set (tk_exclusive_resources u)) (tk_exclusive_resources t)"

text \<open>No two lock-holding tasks share an exclusive resource.\<close>

definition exclusive :: "task list \<Rightarrow> bool" where
  "exclusive ts =
     list_all (\<lambda>t. list_all (\<lambda>u. \<not> lock_holder t \<or> \<not> lock_holder u \<or> tk_id t = tk_id u
                               \<or> shared_resources t u = []) ts) ts"

lemma exclusiveD:
  "exclusive ts \<Longrightarrow> t \<in> set ts \<Longrightarrow> u \<in> set ts \<Longrightarrow> lock_holder t \<Longrightarrow> lock_holder u \<Longrightarrow>
     k \<in> set (tk_exclusive_resources t) \<Longrightarrow> k \<in> set (tk_exclusive_resources u) \<Longrightarrow> k \<noteq> [] \<Longrightarrow>
     tk_id t = tk_id u"
  by (auto simp: exclusive_def list_all_iff shared_resources_def filter_empty_conv)

lemma exclusiveI:
  assumes "\<And>t u k. t \<in> set ts \<Longrightarrow> u \<in> set ts \<Longrightarrow> lock_holder t \<Longrightarrow> lock_holder u \<Longrightarrow>
     k \<in> set (tk_exclusive_resources t) \<Longrightarrow> k \<in> set (tk_exclusive_resources u) \<Longrightarrow> k \<noteq> [] \<Longrightarrow>
     tk_id t = tk_id u"
  shows "exclusive ts"
  using assms by (auto simp: exclusive_def list_all_iff shared_resources_def filter_empty_conv)

text \<open>With current locks, a resource of a holder is locked, and by a holder of that resource.\<close>

lemma holder_locked:
  assumes "b \<in> set (rg_tasks r)" "lock_holder b" "k \<in> set (tk_exclusive_resources b)" "k \<noteq> []"
    and "rg_resource_locks (recompute_resource_locks now r) = rg_resource_locks r"
  shows "\<exists>l b'. bt_get (rg_resource_locks r) k = Some l \<and> b' \<in> set (rg_tasks r) \<and> lock_holder b'
    \<and> k \<in> set (tk_exclusive_resources b') \<and> lk_task_id l = tk_id b'"
proof -
  have "(k, b) \<in> set (lock_pairs (rg_tasks r))"
    using assms(1-4) by (simp add: lock_pairs_iff lock_holder_def)
  then obtain b' where b': "map_of (rev (lock_pairs (rg_tasks r))) k = Some b'"
    by (metis map_of_eq_None_iff image_eqI fst_conv not_None_eq set_rev)
  then have "(k, b') \<in> set (lock_pairs (rg_tasks r))" using map_of_SomeD by fastforce
  moreover have "bt_get (rg_resource_locks r) k = Some (make_lock (rg_resource_locks r) now b' k)"
    using recompute_get [of now r k] b' by (simp add: assms(5))
  ultimately show ?thesis by (auto simp: lock_pairs_iff lock_holder_def)
qed

lemma claim_keeps:
  "tk_id (apply_dispatch_claim_typed t u) = tk_id t"
  "tk_exclusive_resources (apply_dispatch_claim_typed t u) = tk_exclusive_resources t"
  by (simp_all add: apply_dispatch_claim_typed_def Let_def touch_state_changed_def upd_runtime_def
      set_workflow_state_def)

lemma set_update_distinct:
  "distinct (map tk_id ts) \<Longrightarrow> t \<in> set ts \<Longrightarrow>
     set (update_task (tk_id t) f ts) = insert (f t) (set ts - {t})"
  by (induction ts) auto

text \<open>A resource of the selected task is held by no other task.\<close>

lemma selected_resources_free:
  assumes excl: "exclusive (rg_tasks r)"
    and cur: "rg_resource_locks (recompute_resource_locks now r) = rg_resource_locks r"
    and cand: "candidate ts r cfg t = Some (k, s)"
    and b: "b \<in> set (rg_tasks r)" "lock_holder b" "j \<in> set (tk_exclusive_resources b)"
      "j \<in> set (tk_exclusive_resources t)" "j \<noteq> []"
  shows "tk_id b = tk_id t"
proof -
  obtain l b' where l: "bt_get (rg_resource_locks r) j = Some l" "b' \<in> set (rg_tasks r)" "lock_holder b'"
      "j \<in> set (tk_exclusive_resources b')" "lk_task_id l = tk_id b'"
    using holder_locked [OF b(1,2,3,5) cur] by blast
  have "lk_task_id l = tk_id t"
    using candidate_Some(7) [OF cand] b(4,5) l
    by (auto simp: resources_available_def list_all_iff lock_holder_def)
  moreover have "tk_id b' = tk_id b" by (rule exclusiveD [OF excl l(2) b(1) l(3) b(2) l(4) b(3,5)])
  ultimately show ?thesis using l(5) by simp
qed

text \<open>C3: Dispatch keeps exclusive resources exclusive: when the selected task of a registry with
  current locks is claimed and the locks are recomputed, as the control plane does, still no two
  lock-holding tasks share a resource, and the locks are current again.\<close>

theorem dispatch_keeps_exclusion:
  assumes sel: "select_next_ready_task_typed ts r cfg = Some s" and id: "dc_task_id u = st_id s"
    and claim: "apply_dispatch_claim_in_registry Inr Inr r u = Inr (r1, ())"
    and dist: "distinct (map tk_id (rg_tasks r))" and excl: "exclusive (rg_tasks r)"
    and cur: "rg_resource_locks (recompute_resource_locks now r) = rg_resource_locks r"
  shows "exclusive (rg_tasks (recompute_resource_locks now1 r1))
    \<and> rg_resource_locks (recompute_resource_locks now2 (recompute_resource_locks now1 r1))
      = rg_resource_locks (recompute_resource_locks now1 r1)"
proof -
  obtain t k where t: "t \<in> set (rg_tasks r)" "candidate ts r cfg t = Some (k, s)"
    using select_Some [OF sel] by metis
  note c = candidate_Some [OF t(2)]
  let ?t' = "apply_dispatch_claim_typed t u"
  have tid: "dc_task_id u = tk_id t" using id c(4) by simp
  have "rg_tasks r1 = update_task (tk_id t) (\<lambda>_. ?t') (rg_tasks r)"
    using claim find_task_distinct [OF dist t(1)]
    by (auto simp: apply_dispatch_claim_in_registry_def on_task_def tid)
  then have tasks: "set (rg_tasks r1) = insert ?t' (set (rg_tasks r) - {t})"
    by (simp add: set_update_distinct [OF dist t(1)])
  note free = selected_resources_free [OF excl cur t(2)]
  have "exclusive (rg_tasks r1)"
  proof (rule exclusiveI)
    fix a b j
    assume ab: "a \<in> set (rg_tasks r1)" "b \<in> set (rg_tasks r1)" "lock_holder a" "lock_holder b"
      "j \<in> set (tk_exclusive_resources a)" "j \<in> set (tk_exclusive_resources b)" "j \<noteq> []"
    consider "a = ?t'" "b = ?t'" | "a = ?t'" "b \<in> set (rg_tasks r)"
      | "a \<in> set (rg_tasks r)" "b = ?t'" | "a \<in> set (rg_tasks r)" "b \<in> set (rg_tasks r)"
      using ab(1,2) tasks by auto
    then show "tk_id a = tk_id b"
    proof cases
      case 2
      then show ?thesis using free [of b j] ab by (simp add: claim_keeps)
    next
      case 3
      then show ?thesis using free [of a j] ab by (simp add: claim_keeps)
    next
      case 4
      then show ?thesis using exclusiveD [OF excl] ab by blast
    qed simp
  qed
  moreover have "rg_tasks (recompute_resource_locks now1 r1) = rg_tasks r1"
    by (simp add: recompute_resource_locks_def)
  moreover have "recompute_resource_locks now2 (recompute_resource_locks now1 r1)
      = recompute_resource_locks now1 r1"
    by (rule recompute_again)
  ultimately show ?thesis by simp
qed

section \<open>Gates and external blocks before dispatch\<close>

lemma reachable_gate_state:
  "reachable mx ph g \<Longrightarrow> is_human_approval_gate g \<Longrightarrow> workflow_state_of g \<in> Some ` set gate_states"
  using reachable_inv by (auto simp: life_inv_def)

lemma delivered_gate_approved:
  assumes "reachable mx ph g" "tk_gate g = Some gate" "is_human_approval gate"
    and "satisfies_dependants (fst (reconcile_gate tn now sat digest ledger g))"
  shows "workflow_state_of (fst (reconcile_gate tn now sat digest ledger g)) = Some Approved"
proof -
  have "workflow_state_of g \<in> Some ` set gate_states"
    using reachable_gate_state assms(1-3) by (simp add: is_human_approval_gate_def)
  then have "workflow_state_of (fst (reconcile_gate tn now sat digest ledger g)) \<noteq> Some Merged"
    using gate_fields(3) [OF refl, of tn now sat digest ledger g] by (auto simp: gate_states_def)
  then show ?thesis
    using assms(4)
    by (auto simp: satisfies_dependants_def state_satisfies_dependants_def
        split: option.splits workflow_state.splits)
qed

text \<open>After reconciliation, a gate that satisfies its dependants has its quorum and no rejection.\<close>

lemma reconciled_gate_quorum:
  assumes reach: "\<forall>g \<in> set (rg_tasks r). reachable mx ph g"
    and g: "g \<in> set (rg_tasks (fst (reconcile_human_gates tn r now digest ledger)))" "satisfies_dependants g"
    and gate: "tk_gate g = Some gate" "is_human_approval gate"
  defines "live \<equiv> live_decisions tn gate (digest (unwrap_or [] (tg_subject_task gate))) (ledger (tk_id g)) now"
  shows "quorum_met gate live \<and> (\<forall>a \<in> set live. ap_decision a \<noteq> Dec_Rejected)"
proof -
  obtain g0 where g0: "g0 \<in> set (rg_tasks r)"
      "g = fst (reconcile_gate tn now (gate_satisfied_ids r) digest ledger g0)"
    using g(1) by (auto simp: reconcile_human_gates_task)
  have gate0: "tk_gate g0 = Some gate" using gate(1) g0(2) by (simp add: reconcile_gate_keeps)
  have "workflow_state_of g = Some Approved"
    using delivered_gate_approved [OF bspec [OF reach g0(1)] gate0 gate(2)] g(2) g0(2) by blast
  from reconcile_gate_approved [OF this [unfolded g0(2)] gate0 gate(2)]
  obtain ev where "evaluate_gate tn gate True (digest (unwrap_or [] (tg_subject_task gate)))
      (ledger (tk_id g0)) now = Some ev" "ge_state ev = Approved" by blast
  from evaluate_gate_Some [OF this(1)] this(2) show ?thesis
    using g0(2) by (simp add: live_def reconcile_gate_keeps)
qed


text \<open>C7: Once the blocks of a registry are reconciled, the selected task carries no external block that
  still stands, and no undelivered chain of dependencies leads from it to a blocked task.\<close>

theorem no_dispatch_of_blocked:
  assumes sel: "select_next_ready_task_typed ts (fst (reconcile_task_blocks now r)) cfg = Some s"
  shows "\<exists>t \<in> set (rg_tasks (fst (reconcile_task_blocks now r))). tk_id t = st_id s
    \<and> (case tk_blocked_on_external t of None \<Rightarrow> True | Some _ \<Rightarrow> external_block_is_cleared t)
    \<and> \<not> (\<exists>root. (reg_edge (fst (reconcile_task_blocks now r)))\<^sup>+\<^sup>+ (tk_id t) root
          \<and> is_root (rg_tasks (fst (reconcile_task_blocks now r))) root)"
proof -
  let ?r = "fst (reconcile_task_blocks now r)"
  obtain t k where t: "t \<in> set (rg_tasks ?r)" "candidate ts ?r cfg t = Some (k, s)"
    using select_Some [OF sel] by metis
  note c = candidate_Some [OF t(2)]
  have quiet: "pass_changes now ?r = []" by (rule reconcile_again)
  have "uncleared_block t = None" "tk_id t \<notin> reaching ?r"
    using fixpoint_tasks(1) [OF quiet t(1)] c(1) by blast+
  then show ?thesis using t(1) c(4)
    by (intro bexI [of _ t]) (auto simp: reaching_iff uncleared_block_def split: option.splits if_splits)
qed

section \<open>Concrete instances\<close>

theorem dispatch_keeps_exclusion_witness:
  "\<exists>s r1. select_next_ready_task_typed (\<lambda>_. None) sample_ready sample_config = Some s
     \<and> apply_dispatch_claim_in_registry Inr Inr sample_ready (sample_claim\<lparr>dc_task_id := st_id s\<rparr>) = Inr (r1, ())
     \<and> exclusive (rg_tasks (recompute_resource_locks ''t1'' r1))"
proof -
  obtain s where s: "select_next_ready_task_typed (\<lambda>_. None) sample_ready sample_config = Some s"
    using sample_ready_selects by blast
  then obtain t k where "t \<in> set (rg_tasks sample_ready)"
      "candidate (\<lambda>_. None) sample_ready sample_config t = Some (k, s)"
    using select_Some [OF s] by metis
  note t = this(1) and c = candidate_Some [OF this(2)]
  have dist: "distinct (map tk_id (rg_tasks sample_ready))"
    by (simp add: sample_ready_def)
  let ?u = "sample_claim\<lparr>dc_task_id := st_id s\<rparr>"
  obtain r1 where r1: "apply_dispatch_claim_in_registry Inr Inr sample_ready ?u = Inr (r1, ())"
    using find_task_distinct [OF dist t] c(4)
    by (simp add: apply_dispatch_claim_in_registry_def on_task_def)
  have "exclusive (rg_tasks sample_ready)"
    by (simp add: exclusive_def sample_ready_def shared_resources_def)
  moreover have "rg_resource_locks (recompute_resource_locks ''t0'' sample_ready) = rg_resource_locks sample_ready"
    by (simp add: recompute_resource_locks_def sample_ready_def default_registry_def task_locks_def)
  ultimately show ?thesis
    using dispatch_keeps_exclusion [OF s _ r1 dist, of "''t0''" "''t1''" "''t2''"] s r1 by auto
qed

lemma sample_ready_satisfied: "''B'' \<in> set (satisfied_dependency_ids sample_ready)"
  by (simp add: satisfied_id_iff sample_ready_def satisfies_dependants_def
      state_satisfies_dependants_def gate_verdict_satisfies_dependencies_def)

lemma sample_ready_quiet: "pass_changes now sample_ready = []"
proof -
  have "\<not> reg_edge sample_ready k j" for k j
    using sample_ready_satisfied
    by (auto simp: dep_edge_def task_by_id_def sample_ready_def split: if_splits)
  then have "\<not> (reg_edge sample_ready)\<^sup>+\<^sup>+ k j" for k j
    by (meson tranclpD)
  then have "k \<notin> reaching sample_ready" for k by (simp add: reaching_iff)
  then show ?thesis
    unfolding pass_changes_Nil reconcile_task_None_iff
    by (auto simp: sample_ready_def coord_frame uncleared_block_def)
qed

theorem no_dispatch_of_blocked_witness:
  "\<exists>s. select_next_ready_task_typed (\<lambda>_. None) sample_ready sample_config = Some s
     \<and> (\<exists>t \<in> set (rg_tasks sample_ready). tk_id t = st_id s
          \<and> \<not> (\<exists>root. (reg_edge sample_ready)\<^sup>+\<^sup>+ (tk_id t) root \<and> is_root (rg_tasks sample_ready) root))"
proof -
  note quiet = reconcile_quiet [OF sample_ready_quiet, of "''now''"]
  obtain s where s: "select_next_ready_task_typed (\<lambda>_. None) sample_ready sample_config = Some s"
    using sample_ready_selects by auto
  then have "select_next_ready_task_typed (\<lambda>_. None) (fst (reconcile_task_blocks ''now'' sample_ready))
      sample_config = Some s"
    by (simp add: quiet)
  from no_dispatch_of_blocked [OF this] s show ?thesis unfolding quiet fst_conv by blast
qed

text \<open>A merged task, a gate behind it with its approval recorded, and a task behind the gate.\<close>

definition sample_gate_todo :: task where
  "sample_gate_todo =
     (sample_task ''G'' Todo)\<lparr>tk_gate := Some sample_gate, tk_dependencies := [''A'']\<rparr>"

definition sample_behind :: task where
  "sample_behind = (sample_task ''B'' Todo)\<lparr>tk_dependencies := [''G'']\<rparr>"

definition sample_pipeline :: task_registry where
  "sample_pipeline = default_registry\<lparr>rg_tasks := [sample_merged, sample_gate_todo, sample_behind]\<rparr>"

definition sample_pipeline_after :: task_registry where
  "sample_pipeline_after =
     fst (reconcile_human_gates (\<lambda>_. None) sample_pipeline ''now'' (\<lambda>_. None) (\<lambda>_. [sample_approval]))"

lemma sample_gate_todo_fields:
  "workflow_state_of sample_gate_todo = Some Todo" "tk_gate sample_gate_todo = Some sample_gate"
  "tk_id sample_gate_todo = ''G''" "tk_dependencies sample_gate_todo = [''A'']"
  by (simp_all add: sample_gate_todo_def coord_frame)

lemma sample_merged_delivered: "''A'' \<in> set (gate_satisfied_ids sample_pipeline)"
  by (simp add: gate_satisfied_ids_def satisfied_id_iff sample_pipeline_def sample_merged_fields
      satisfies_dependants_def state_satisfies_dependants_def gate_verdict_satisfies_dependencies_def
      sample_merged_state)

lemma sample_pipeline_reachable: "\<forall>g \<in> set (rg_tasks sample_pipeline). reachable None sample_phases g"
proof -
  have initial: "initial_task sample_gate_todo" "initial_task sample_behind"
    by (simp_all add: initial_task_def sample_gate_todo_def sample_behind_def coord_frame default_runtime_def)
  have "reachable None sample_phases sample_merged"
    unfolding reachable_def using sample_task_initial sample_merged_steps by blast
  with initial show ?thesis by (auto simp: sample_pipeline_def reachable_def)
qed

lemma sample_pipeline_selects:
  "select_next_ready_task_typed (\<lambda>_. None) sample_pipeline_after sample_config \<noteq> None"
proof -
  let ?g = "fst (reconcile_gate (\<lambda>_. None) ''now'' (gate_satisfied_ids sample_pipeline) (\<lambda>_. None)
    (\<lambda>_. [sample_approval]) sample_gate_todo)"
  obtain ev where ev: "evaluate_gate (\<lambda>_. None) sample_gate True None [sample_approval] ''now'' = Some ev"
      "ge_state ev = Approved"
    using sample_gate_evaluates by blast
  have approved: "workflow_state_of ?g = Some Approved"
    using sample_merged_delivered sample_gate_human ev
    by (simp add: reconcile_gate_def sample_gate_todo_fields apply_evaluation_fields Let_def)
  have tasks: "rg_tasks sample_pipeline_after = [sample_merged, ?g, sample_behind]"
    by (simp add: sample_pipeline_after_def reconcile_human_gates_def Let_def)
       (simp add: sample_pipeline_def sample_merged_fields reconcile_gate_def sample_behind_def)
  have "satisfies_dependants ?g"
    using sample_gate_human
    by (simp add: satisfies_dependants_def state_satisfies_dependants_def approved
        gate_verdict_satisfies_dependencies_def reconcile_gate_keeps sample_gate_todo_fields)
  then have sat: "set [''G''] \<subseteq> set (satisfied_dependency_ids sample_pipeline_after)"
    by (auto simp: satisfied_id_iff tasks reconcile_gate_keeps sample_gate_todo_fields)
  have idle: "active_tasks sample_pipeline_after = []"
    by (simp add: active_tasks_def tasks is_active_def approved sample_merged_state sample_behind_def coord_frame)
  have "candidate (\<lambda>_. None) sample_pipeline_after sample_config sample_behind \<noteq> None"
    unfolding sample_behind_def by (rule sample_candidate [OF sat idle]) simp
  then have "List.map_filter (candidate (\<lambda>_. None) sample_pipeline_after sample_config)
      (rg_tasks sample_pipeline_after) \<noteq> []"
    unfolding map_filter_Nil_iff by (simp add: tasks)
  then show ?thesis
    by (simp add: select_next_ready_task_typed_def dispatch_block_reason_typed_def idle sample_config_def)
qed


end
